(* ===== verification/Prelude.thy ===== *)
theory Prelude
  imports Main "HOL-Library.Word" "HOL-Library.Char_ord" "HOL-Library.List_Lexorder"
begin

unbundle bit_operations_syntax

text \<open>
  What the components share: the model's names for Go's basic types, the parts of Go's
  \<open>strings\<close>, \<open>bytes\<close>, \<open>unicode/utf8\<close>, \<open>strconv\<close> and \<open>time\<close> packages the repository calls, the
  random-identifier format, and generic lemmas on lists and tables.

  A Go string and a Go byte slice are both a list of bytes, so both are \<open>string\<close> here (a
  \<open>char\<close> is a byte). An instant is the number of nanoseconds since the Unix epoch and a
  \<open>time.Duration\<close> a number of nanoseconds, both \<open>int\<close>.
\<close>

named_theorems go_string "facts on the modelled string functions"
named_theorems table "facts on tables kept as lists of rows"

type_synonym gostr = string
type_synonym instant = int
type_synonym duration = int

abbreviation (input) Microsecond :: duration where "Microsecond \<equiv> 1000"
abbreviation (input) Millisecond :: duration where "Millisecond \<equiv> 1000000"
abbreviation (input) Second :: duration where "Second \<equiv> 1000000000"
abbreviation (input) Minute :: duration where "Minute \<equiv> 60000000000"

text \<open>\<open>time.Duration.Microseconds\<close> and \<open>Milliseconds\<close> divide truncating towards zero.\<close>

definition go_quot :: "int \<Rightarrow> int \<Rightarrow> int" where
  "go_quot a b = (if 0 \<le> a then a div b else - ((- a) div b))"

definition Microseconds :: "duration \<Rightarrow> int" where "Microseconds d = go_quot d 1000"
definition Milliseconds :: "duration \<Rightarrow> int" where "Milliseconds d = go_quot d 1000000"

lemma Microseconds_pos: "1000 \<le> d \<Longrightarrow> 0 < Microseconds d"
  by (simp add: Microseconds_def go_quot_def)

text \<open>Go's zero \<open>time.Time\<close>, 0001-01-01 00:00:00 UTC.\<close>

definition zero_time :: instant where "zero_time = - 62135596800000000000"

subsection \<open>strings\<close>

fun split_on :: "char \<Rightarrow> gostr \<Rightarrow> gostr list" where
  "split_on c [] = [[]]"
| "split_on c (x # xs) =
     (if x = c then [] # split_on c xs
      else (case split_on c xs of [] \<Rightarrow> [[x]] | w # ws \<Rightarrow> (x # w) # ws))"

fun join_with :: "gostr \<Rightarrow> gostr list \<Rightarrow> gostr" where
  "join_with sep [] = []"
| "join_with sep [w] = w"
| "join_with sep (w # ws) = w @ sep @ join_with sep ws"

fun has_prefix :: "'a list \<Rightarrow> 'a list \<Rightarrow> bool" where
  "has_prefix xs [] = True"
| "has_prefix [] (p # ps) = False"
| "has_prefix (x # xs) (p # ps) = (x = p \<and> has_prefix xs ps)"

definition has_suffix :: "'a list \<Rightarrow> 'a list \<Rightarrow> bool" where
  "has_suffix xs ps = has_prefix (rev xs) (rev ps)"

text \<open>\<open>bytes.Index\<close>: the position of the first occurrence, \<open>None\<close> for Go's \<open>-1\<close>.\<close>

fun index_of :: "'a list \<Rightarrow> 'a list \<Rightarrow> nat option" where
  "index_of pat [] = (if pat = [] then Some 0 else None)"
| "index_of pat (x # xs) =
     (if has_prefix (x # xs) pat then Some 0 else map_option Suc (index_of pat xs))"

lemma split_on_not_Nil [simp, go_string]: "split_on c s \<noteq> []"
  by (induction s) (auto split: list.splits)

lemma has_prefix_iff [go_string]: "has_prefix xs ps \<longleftrightarrow> (\<exists>zs. xs = ps @ zs)"
  by (induction xs ps rule: has_prefix.induct) auto

lemma has_suffix_iff [go_string]: "has_suffix xs ps \<longleftrightarrow> (\<exists>zs. xs = zs @ ps)"
proof -
  have "(\<exists>zs. rev xs = rev ps @ zs) \<longleftrightarrow> (\<exists>zs. xs = zs @ ps)"
    by (metis rev_append rev_rev_ident)
  then show ?thesis by (simp add: has_suffix_def has_prefix_iff)
qed

lemma index_of_None_iff [go_string]: "pat \<noteq> [] \<Longrightarrow> index_of pat s = None \<longleftrightarrow> (\<forall>us vs. s \<noteq> us @ pat @ vs)"
proof (induction s)
  case Nil
  then show ?case by simp
next
  case (Cons x xs)
  show ?case
  proof (cases "has_prefix (x # xs) pat")
    case True
    then show ?thesis
      by (simp add: has_prefix_iff) (metis append_Nil)
  next
    case False
    then have np: "\<And>vs. x # xs \<noteq> pat @ vs" by (simp add: has_prefix_iff)
    have "(\<forall>us vs. x # xs \<noteq> us @ pat @ vs) \<longleftrightarrow> (\<forall>us vs. xs \<noteq> us @ pat @ vs)"
      by (metis np append_Cons append_Nil list.exhaust list.inject)
    with False Cons show ?thesis by simp
  qed
qed

lemma index_of_Some_split: "index_of pat s = Some i \<Longrightarrow> s = take i s @ pat @ drop (i + length pat) s"
proof (induction s arbitrary: i)
  case Nil
  then show ?case by (simp split: if_splits)
next
  case (Cons x xs)
  show ?case
  proof (cases "has_prefix (x # xs) pat")
    case True
    with Cons.prems have "i = 0" by simp
    moreover from True obtain zs where "x # xs = pat @ zs" by (auto simp: has_prefix_iff)
    ultimately show ?thesis by simp
  next
    case False
    with Cons.prems obtain j where "index_of pat xs = Some j" "i = Suc j" by auto
    with Cons.IH show ?thesis by simp
  qed
qed

lemma index_of_Some_le: "index_of pat s = Some i \<Longrightarrow> i + length pat \<le> length s"
proof (induction s arbitrary: i)
  case Nil
  then show ?case by (simp split: if_splits)
next
  case (Cons x xs)
  then show ?case
    by (auto simp: has_prefix_iff split: if_splits) (metis le_add1 length_append length_Cons)
qed

subsection \<open>White space and trimming\<close>

text \<open>
  \<open>strings.TrimSpace\<close> removes Unicode white space. \<open>space_width s\<close> is the byte length of the
  white-space rune \<open>s\<close> begins with, 0 if it begins with none: the six ASCII ones, and the UTF-8
  encodings of U+0085, U+00A0, U+1680, U+2000 to U+200A, U+2028, U+2029, U+202F, U+205F, U+3000.
  \<open>space_width_rev\<close> reads the same from the reversed string.
\<close>

definition byte_of :: "char \<Rightarrow> nat" where "byte_of c = of_char c"

definition ascii_space :: "char \<Rightarrow> bool" where
  "ascii_space c \<longleftrightarrow> byte_of c = 32 \<or> (9 \<le> byte_of c \<and> byte_of c \<le> 13)"

definition space2 :: "nat \<Rightarrow> nat \<Rightarrow> bool" where
  "space2 a b \<longleftrightarrow> a = 0xC2 \<and> (b = 0x85 \<or> b = 0xA0)"

definition space3 :: "nat \<Rightarrow> nat \<Rightarrow> nat \<Rightarrow> bool" where
  "space3 a b c \<longleftrightarrow>
     a = 0xE1 \<and> b = 0x9A \<and> c = 0x80 \<or>
     a = 0xE2 \<and> b = 0x80 \<and> (0x80 \<le> c \<and> c \<le> 0x8A \<or> c = 0xA8 \<or> c = 0xA9 \<or> c = 0xAF) \<or>
     a = 0xE2 \<and> b = 0x81 \<and> c = 0x9F \<or>
     a = 0xE3 \<and> b = 0x80 \<and> c = 0x80"

fun trim_left :: "gostr \<Rightarrow> gostr" where
  "trim_left [] = []"
| "trim_left [a] = (if ascii_space a then [] else [a])"
| "trim_left [a, b] =
     (if ascii_space a then trim_left [b]
      else if space2 (byte_of a) (byte_of b) then [] else [a, b])"
| "trim_left (a # b # c # s) =
     (if ascii_space a then trim_left (b # c # s)
      else if space2 (byte_of a) (byte_of b) then trim_left (c # s)
      else if space3 (byte_of a) (byte_of b) (byte_of c) then trim_left s
      else a # b # c # s)"

fun trim_left_rev :: "gostr \<Rightarrow> gostr" where
  "trim_left_rev [] = []"
| "trim_left_rev [a] = (if ascii_space a then [] else [a])"
| "trim_left_rev [a, b] =
     (if ascii_space a then trim_left_rev [b]
      else if space2 (byte_of b) (byte_of a) then [] else [a, b])"
| "trim_left_rev (a # b # c # s) =
     (if ascii_space a then trim_left_rev (b # c # s)
      else if space2 (byte_of b) (byte_of a) then trim_left_rev (c # s)
      else if space3 (byte_of c) (byte_of b) (byte_of a) then trim_left_rev s
      else a # b # c # s)"

definition TrimSpace :: "gostr \<Rightarrow> gostr" where
  "TrimSpace s = rev (trim_left_rev (rev (trim_left s)))"

lemma length_trim_left: "length (trim_left s) \<le> length s"
  by (induction s rule: trim_left.induct) auto

lemma length_trim_left_rev: "length (trim_left_rev s) \<le> length s"
  by (induction s rule: trim_left_rev.induct) auto

lemma length_TrimSpace: "length (TrimSpace s) \<le> length s"
  using length_trim_left[of s] length_trim_left_rev[of "rev (trim_left s)"]
  by (simp add: TrimSpace_def)

lemma TrimSpace_Nil [simp]: "TrimSpace [] = []"
  by (simp add: TrimSpace_def)

lemma trim_left_hd: "trim_left s = c # t \<Longrightarrow> \<not> ascii_space c"
  by (induction s rule: trim_left.induct) (auto split: if_splits)

lemma trim_left_rev_hd: "trim_left_rev s = c # t \<Longrightarrow> \<not> ascii_space c"
  by (induction s rule: trim_left_rev.induct) (auto split: if_splits)

lemma trim_left_rev_suffix: "\<exists>u. s = u @ trim_left_rev s"
proof (induction s rule: trim_left_rev.induct)
  case (4 a b c s)
  consider "ascii_space a" | "\<not> ascii_space a" "space2 (byte_of b) (byte_of a)"
    | "\<not> ascii_space a" "\<not> space2 (byte_of b) (byte_of a)" by blast
  then show ?case
  proof cases
    case 1
    with 4(1) show ?thesis by (metis append_Cons trim_left_rev.simps(4))
  next
    case 2
    with 4(2) show ?thesis by (metis append_Cons trim_left_rev.simps(4))
  next
    case 3
    with 4(3) show ?thesis
      by (cases "space3 (byte_of c) (byte_of b) (byte_of a)") (force intro: exI [of _ "a # b # c # u" for u], simp)
  qed
qed auto

subsection \<open>UTF-8\<close>

text \<open>
  \<open>utf8_width s\<close> is the number of bytes of the valid UTF-8 sequence \<open>s\<close> begins with, 0 when it
  begins with none (the ranges of \<open>unicode/utf8\<close>: no overlong forms, no surrogates, at most U+10FFFF).
\<close>

definition utf8_cont :: "char \<Rightarrow> bool" where
  "utf8_cont c \<longleftrightarrow> 0x80 \<le> byte_of c \<and> byte_of c \<le> 0xBF"

definition utf8_second :: "nat \<Rightarrow> nat \<Rightarrow> bool" where
  "utf8_second a b \<longleftrightarrow>
     (if a = 0xE0 then 0xA0 \<le> b \<and> b \<le> 0xBF
      else if a = 0xED then 0x80 \<le> b \<and> b \<le> 0x9F
      else if a = 0xF0 then 0x90 \<le> b \<and> b \<le> 0xBF
      else if a = 0xF4 then 0x80 \<le> b \<and> b \<le> 0x8F
      else 0x80 \<le> b \<and> b \<le> 0xBF)"

definition utf8_width :: "gostr \<Rightarrow> nat" where
  "utf8_width s =
     (case s of
        [] \<Rightarrow> 0
      | a # t \<Rightarrow>
          (let x = byte_of a in
           if x < 0x80 then 1
           else if 0xC2 \<le> x \<and> x \<le> 0xDF then
             (case t of b # _ \<Rightarrow> if utf8_second x (byte_of b) then 2 else 0 | _ \<Rightarrow> 0)
           else if 0xE0 \<le> x \<and> x \<le> 0xEF then
             (case t of b # c # _ \<Rightarrow> if utf8_second x (byte_of b) \<and> utf8_cont c then 3 else 0 | _ \<Rightarrow> 0)
           else if 0xF0 \<le> x \<and> x \<le> 0xF4 then
             (case t of b # c # d # _ \<Rightarrow>
                if utf8_second x (byte_of b) \<and> utf8_cont c \<and> utf8_cont d then 4 else 0 | _ \<Rightarrow> 0)
           else 0))"

function ValidString :: "gostr \<Rightarrow> bool" where
  "ValidString s =
     (if s = [] then True
      else if utf8_width s = 0 then False
      else ValidString (drop (utf8_width s) s))"
  by pat_completeness auto
termination
  by (relation "measure length") auto

declare ValidString.simps [simp del]

lemma ValidString_Nil [simp]: "ValidString []"
  by (subst ValidString.simps) simp

text \<open>\<open>utf8.RuneCountInString\<close>: an invalid byte counts as one rune.\<close>

function RuneCount :: "gostr \<Rightarrow> nat" where
  "RuneCount s = (if s = [] then 0 else Suc (RuneCount (drop (max 1 (utf8_width s)) s)))"
  by pat_completeness auto
termination
  by (relation "measure length") auto

declare RuneCount.simps [simp del]

lemma RuneCount_pos: "s \<noteq> [] \<Longrightarrow> 1 \<le> RuneCount s"
  by (subst RuneCount.simps) simp

lemma RuneCount_le: "RuneCount s \<le> length s"
proof (induction s rule: RuneCount.induct)
  case (1 s)
  show ?case
  proof (cases "s = []")
    case False
    with 1 [OF False] have "Suc (RuneCount (drop (max 1 (utf8_width s)) s)) \<le> length s"
      by (cases s) (auto simp: max_def split: if_splits)
    with False show ?thesis by (subst RuneCount.simps) simp
  qed (subst RuneCount.simps, simp)
qed

text \<open>
  The workers' \<open>truncate\<close>: cut to \<open>limit\<close> bytes, then drop bytes from the end until the rest is
  valid UTF-8.
\<close>

function drop_invalid_tail :: "gostr \<Rightarrow> gostr" where
  "drop_invalid_tail s = (if ValidString s then s else drop_invalid_tail (butlast s))"
  by pat_completeness auto
termination
proof (relation "measure length")
  fix s :: gostr
  assume "\<not> ValidString s"
  then have "s \<noteq> []" by auto
  then show "(butlast s, s) \<in> measure length" by simp
qed simp

declare drop_invalid_tail.simps [simp del]

definition truncate_utf8 :: "gostr \<Rightarrow> nat \<Rightarrow> gostr" where
  "truncate_utf8 value limit =
     (if length value \<le> limit then value else drop_invalid_tail (take limit value))"

lemma drop_invalid_tail_spec:
  "ValidString (drop_invalid_tail s) \<and> (\<exists>t. s = drop_invalid_tail s @ t)"
proof (induction s rule: drop_invalid_tail.induct)
  case (1 s)
  show ?case
  proof (cases "ValidString s")
    case True
    then show ?thesis by (simp add: drop_invalid_tail.simps)
  next
    case False
    then have "s \<noteq> []" by auto
    then have "s = butlast s @ [last s]" by simp
    moreover from "1.IH" [OF False] obtain t where
      "ValidString (drop_invalid_tail (butlast s))" "butlast s = drop_invalid_tail (butlast s) @ t"
      by auto
    ultimately have "s = drop_invalid_tail (butlast s) @ (t @ [last s])"
      by (metis append.assoc)
    moreover from False have "drop_invalid_tail s = drop_invalid_tail (butlast s)"
      by (subst drop_invalid_tail.simps) simp
    ultimately show ?thesis
      using \<open>ValidString (drop_invalid_tail (butlast s))\<close> by auto
  qed
qed

lemma length_truncate_utf8: "length (truncate_utf8 s n) \<le> n"
proof (cases "length s \<le> n")
  case False
  obtain t where "take n s = drop_invalid_tail (take n s) @ t"
    using drop_invalid_tail_spec by blast
  then have "length (drop_invalid_tail (take n s)) \<le> length (take n s)"
    by (metis le_add1 length_append)
  with False show ?thesis by (simp add: truncate_utf8_def)
qed (simp add: truncate_utf8_def)

subsection \<open>Decimal numbers\<close>

definition is_digit :: "char \<Rightarrow> bool" where
  "is_digit c \<longleftrightarrow> 48 \<le> byte_of c \<and> byte_of c \<le> 57"

text \<open>The characters of the class \<open>[A-Za-z0-9._:-]\<close>.\<close>

definition is_device_id_char :: "char \<Rightarrow> bool" where
  "is_device_id_char c \<longleftrightarrow>
     (CHR ''A'' \<le> c \<and> c \<le> CHR ''Z'') \<or> (CHR ''a'' \<le> c \<and> c \<le> CHR ''z'') \<or> is_digit c \<or> c \<in> {CHR ''.'', CHR ''_'', CHR '':'', CHR ''-''}"

definition digit_char :: "nat \<Rightarrow> char" where
  "digit_char n = char_of (48 + n mod 10)"

fun decimal_value :: "gostr \<Rightarrow> nat \<Rightarrow> nat" where
  "decimal_value [] acc = acc"
| "decimal_value (c # s) acc = decimal_value s (acc * 10 + (byte_of c - 48))"

fun decimal_digits :: "nat \<Rightarrow> gostr" where
  "decimal_digits n = (if n < 10 then [digit_char n] else decimal_digits (n div 10) @ [digit_char n])"

declare decimal_digits.simps [simp del]

definition show_int :: "int \<Rightarrow> gostr" where
  "show_int i = (if i < 0 then ''-'' @ decimal_digits (nat (- i)) else decimal_digits (nat i))"

text \<open>\<open>%0wd\<close> for a number that fits \<open>w\<close> digits: the last \<open>w\<close> decimal digits.\<close>

fun zero_padded :: "nat \<Rightarrow> nat \<Rightarrow> gostr" where
  "zero_padded 0 n = []"
| "zero_padded (Suc w) n = zero_padded w (n div 10) @ [digit_char n]"

lemma byte_of_digit_char [simp]: "byte_of (digit_char n) = 48 + n mod 10"
  by (simp add: byte_of_def digit_char_def)

lemma is_digit_digit_char [simp]: "is_digit (digit_char n)"
  using mod_less_divisor [of 10 n] by (simp add: is_digit_def)

lemma length_zero_padded [simp]: "length (zero_padded w n) = w"
  by (induction w arbitrary: n) auto

lemma digits_zero_padded [simp]: "list_all is_digit (zero_padded w n)"
  by (induction w arbitrary: n) auto

lemma decimal_value_append: "decimal_value (s @ t) acc = decimal_value t (decimal_value s acc)"
  by (induction s arbitrary: acc) auto

lemma decimal_value_zero_padded: "n < 10 ^ w \<Longrightarrow> decimal_value (zero_padded w n) 0 = n"
proof (induction w arbitrary: n)
  case 0
  then show ?case by simp
next
  case (Suc w)
  then have "n div 10 < 10 ^ w" by (simp add: less_mult_imp_div_less mult.commute)
  with Suc.IH show ?case by (simp add: decimal_value_append)
qed

lemma digits_decimal_digits: "list_all is_digit (decimal_digits n)"
proof (induction n rule: decimal_digits.induct)
  case (1 n)
  then show ?case
    by (subst decimal_digits.simps) (simp del: decimal_digits.simps)
qed

lemma decimal_value_decimal_digits: "decimal_value (decimal_digits n) 0 = n"
proof (induction n rule: decimal_digits.induct)
  case (1 n)
  then show ?case
    by (subst decimal_digits.simps) (simp add: decimal_value_append)
qed

subsection \<open>Hexadecimal and random identifiers\<close>

definition hex_digit :: "nat \<Rightarrow> char" where
  "hex_digit n = (if n < 10 then char_of (48 + n) else char_of (87 + n))"

definition hex_encode :: "8 word list \<Rightarrow> gostr" where
  "hex_encode ws = concat (map (\<lambda>w. [hex_digit (unat w div 16), hex_digit (unat w mod 16)]) ws)"

definition hex_byte :: "char \<Rightarrow> bool" where
  "hex_byte c \<longleftrightarrow> is_digit c \<or> (97 \<le> byte_of c \<and> byte_of c \<le> 102)"

lemma hex_byte_hex_digit: "n < 16 \<Longrightarrow> hex_byte (hex_digit n)"
  by (auto simp: hex_digit_def hex_byte_def is_digit_def byte_of_def)

lemma length_hex_encode [simp]: "length (hex_encode ws) = 2 * length ws"
  by (induction ws) (auto simp: hex_encode_def)

lemma hex_bytes_hex_encode: "list_all hex_byte (hex_encode ws)"
proof -
  have "hex_byte (hex_digit (unat w div 16)) \<and> hex_byte (hex_digit (unat w mod 16))" for w :: "8 word"
  proof -
    have "unat w < 256" using unsigned_less [of w] by simp
    then have "unat w div 16 < 16" by (simp add: less_mult_imp_div_less)
    then show ?thesis by (simp add: hex_byte_hex_digit)
  qed
  then show ?thesis by (induction ws) (auto simp: hex_encode_def)
qed

text \<open>
  The sixteen random bytes of an identifier, with the version and variant bits set as every
  \<open>randomUUID\<close> of the repository sets them, and the canonical text.
\<close>

definition uuid_bits :: "8 word list \<Rightarrow> 8 word list" where
  "uuid_bits v =
     (let v = v[6 := (v ! 6 AND 0x0f) OR 0x40] in v[8 := (v ! 8 AND 0x3f) OR 0x80])"

definition uuid_text :: "8 word list \<Rightarrow> gostr" where
  "uuid_text v =
     (let e = hex_encode v
      in take 8 e @ ''-'' @ take 4 (drop 8 e) @ ''-'' @ take 4 (drop 12 e) @ ''-'' @
         take 4 (drop 16 e) @ ''-'' @ take 12 (drop 20 e))"

lemma length_uuid_text: "length v = 16 \<Longrightarrow> length (uuid_text v) = 36"
  by (simp add: uuid_text_def Let_def)

subsection \<open>Texts without white space\<close>

definition plain_char :: "char \<Rightarrow> bool" where
  "plain_char c \<longleftrightarrow> byte_of c < 128 \<and> \<not> ascii_space c"

lemma plain_not_space2: "plain_char a \<Longrightarrow> \<not> space2 (byte_of a) y" "plain_char a \<Longrightarrow> \<not> space2 y (byte_of a)"
  and plain_not_space3: "plain_char a \<Longrightarrow> \<not> space3 (byte_of a) y z" "plain_char a \<Longrightarrow> \<not> space3 y z (byte_of a)"
  by (auto simp: plain_char_def space2_def space3_def)

lemma trim_left_plain: "list_all plain_char s \<Longrightarrow> trim_left s = s"
  by (cases s rule: trim_left.cases) (auto simp: plain_not_space2 plain_not_space3, auto simp: plain_char_def)

lemma trim_left_rev_plain: "list_all plain_char s \<Longrightarrow> trim_left_rev s = s"
  by (cases s rule: trim_left_rev.cases) (auto simp: plain_not_space2 plain_not_space3, auto simp: plain_char_def)

lemma TrimSpace_plain: "list_all plain_char s \<Longrightarrow> TrimSpace s = s"
  by (simp add: TrimSpace_def trim_left_plain trim_left_rev_plain)

lemma plain_hex: "hex_byte c \<Longrightarrow> plain_char c"
  by (auto simp: hex_byte_def plain_char_def is_digit_def ascii_space_def)

lemma plain_uuid: "list_all plain_char (uuid_text v)"
proof -
  have "list_all plain_char (hex_encode v)"
    using hex_bytes_hex_encode [of v] by (auto simp: list_all_iff plain_hex)
  moreover have "plain_char (CHR ''-'')" by (simp add: plain_char_def ascii_space_def byte_of_def)
  ultimately show ?thesis
    by (auto simp: uuid_text_def Let_def list_all_iff dest: in_set_takeD in_set_dropD)
qed

lemma TrimSpace_uuid: "TrimSpace (uuid_text v) = uuid_text v" "uuid_text v \<noteq> []"
  by (simp_all add: TrimSpace_plain plain_uuid) (simp add: uuid_text_def Let_def)

text \<open>
  Hexadecimal input, the lower-casing of ASCII text (\<open>strings.ToLower\<close> and PostgreSQL's \<open>lower\<close>), and the
  check on identifiers that several services repeat: the canonical text of 16 bytes, in lower case.
\<close>

definition hex_value :: "char \<Rightarrow> nat option" where
  "hex_value c =
     (let n = byte_of c in
      if 48 \<le> n \<and> n \<le> 57 then Some (n - 48)
      else if 97 \<le> n \<and> n \<le> 102 then Some (n - 87)
      else if 65 \<le> n \<and> n \<le> 70 then Some (n - 55)
      else None)"

definition ascii_lower :: "gostr \<Rightarrow> gostr" where
  "ascii_lower s = map (\<lambda>c. if 65 \<le> byte_of c \<and> byte_of c \<le> 90 then char_of (byte_of c + 32) else c) s"

definition validUUID :: "gostr \<Rightarrow> bool" where
  "validUUID v \<longleftrightarrow>
     length v = 36 \<and> v ! 8 = CHR ''-'' \<and> v ! 13 = CHR ''-'' \<and> v ! 18 = CHR ''-'' \<and> v ! 23 = CHR ''-'' \<and>
     (let compact = filter (\<lambda>c. c \<noteq> CHR ''-'') v in
      length compact = 32 \<and> list_all (\<lambda>c. hex_value c \<noteq> None) compact) \<and>
     v = ascii_lower v"

subsection \<open>Tables\<close>

text \<open>
  A database table is the list of its rows. \<open>update_where\<close> is an SQL \<open>UPDATE ... WHERE\<close>, with the
  number of rows it changed; \<open>first_by\<close> is \<open>ORDER BY key LIMIT 1\<close>.
\<close>

definition update_where :: "('r \<Rightarrow> bool) \<Rightarrow> ('r \<Rightarrow> 'r) \<Rightarrow> 'r list \<Rightarrow> nat \<times> 'r list" where
  "update_where p f rows = (length (filter p rows), map (\<lambda>r. if p r then f r else r) rows)"

definition first_by :: "('r \<Rightarrow> 'k::linorder) \<Rightarrow> 'r list \<Rightarrow> 'r option" where
  "first_by key rows = (case sort_key key rows of [] \<Rightarrow> None | r # _ \<Rightarrow> Some r)"

lemma first_by_None [table]: "first_by key rows = None \<longleftrightarrow> rows = []"
  by (auto simp: first_by_def split: list.splits) (metis length_0_conv length_sort)

lemma first_by_Some: "first_by key rows = Some r \<Longrightarrow> r \<in> set rows \<and> (\<forall>x\<in>set rows. key r \<le> key x)"
proof -
  assume "first_by key rows = Some r"
  then obtain rs where s: "sort_key key rows = r # rs" by (auto simp: first_by_def split: list.splits)
  have "set (r # rs) = set rows" by (metis s set_sort)
  moreover have "sorted (map key (r # rs))" by (metis s sorted_sort_key)
  ultimately show ?thesis by auto
qed

lemma find_SomeD: "find p xs = Some x \<Longrightarrow> x \<in> set xs \<and> p x"
  by (auto simp: find_Some_iff)

lemma find_only: "x \<in> set xs \<Longrightarrow> p x \<Longrightarrow> (\<And>y. y \<in> set xs \<Longrightarrow> p y \<Longrightarrow> y = x) \<Longrightarrow> find p xs = Some x"
  by (metis find_None_iff find_SomeD not_None_eq)

lemma find_NoneD: "find p xs = None \<Longrightarrow> x \<in> set xs \<Longrightarrow> \<not> p x"
  by (auto simp: find_None_iff)

lemma snd_update_where [table]: "snd (update_where p f rows) = map (\<lambda>r. if p r then f r else r) rows"
  by (simp add: update_where_def)

lemma filter_key_unique:
  assumes "distinct (map k xs)" and "x \<in> set xs" and "p x" and "\<And>y. y \<in> set xs \<Longrightarrow> p y \<Longrightarrow> k y = k x"
  shows "filter p xs = [x]"
proof -
  from assms have "y \<in> set xs \<Longrightarrow> p y \<longleftrightarrow> y = x" for y
    by (metis (mono_tags, lifting) distinct_map inj_onD)
  then have "filter p xs = filter (\<lambda>y. y = x) xs" by (metis (mono_tags, lifting) filter_cong)
  also have "\<dots> = [x]"
    using assms(1,2) by (induction xs) (auto simp: filter_empty_conv)
  finally show ?thesis .
qed

lemma find_append_None: "find p xs = None \<Longrightarrow> find p (xs @ ys) = find p ys"
  by (induction xs) (auto split: if_splits)

lemma find_append_Some: "find p xs = Some x \<Longrightarrow> find p (xs @ ys) = Some x"
  by (induction xs) (auto split: if_splits)

lemma find_unique:
  assumes "distinct (map k xs)" and "x \<in> set xs"
  shows "find (\<lambda>y. k y = k x) xs = Some x"
proof (cases "find (\<lambda>y. k y = k x) xs")
  case None
  with assms(2) show ?thesis by (auto simp: find_None_iff)
next
  case (Some y)
  then have "y \<in> set xs" "k y = k x" by (auto dest: find_SomeD)
  with assms have "y = x" by (metis distinct_map inj_onD)
  with Some show ?thesis by simp
qed

lemma update_unique:
  assumes "distinct (map k rows)" and "r \<in> set rows" and "P r" and "\<And>x. P x \<Longrightarrow> k x = k r"
  shows "map (\<lambda>x. if P x then f x else x) rows = map (\<lambda>x. if k x = k r then f r else x) rows"
proof -
  have "P x \<longleftrightarrow> x = r" "k x = k r \<longleftrightarrow> x = r" if "x \<in> set rows" for x
    using assms(1,2,3) that assms(4) [of x] by (auto simp: distinct_map inj_on_eq_iff)
  then show ?thesis by (intro map_cong) simp_all
qed

lemma find_unique_eq:
  assumes "distinct (map k xs)" and "\<And>x. x \<in> set xs \<Longrightarrow> P x \<Longrightarrow> k x = v"
    and "find (\<lambda>x. Q x) xs = r" and "\<And>x. Q x \<longleftrightarrow> k x = v"
  shows "find P xs = (case r of None \<Rightarrow> None | Some x \<Rightarrow> if P x then Some x else None)"
proof (cases r)
  case None
  then have "\<forall>x\<in>set xs. \<not> Q x" using assms(3) by (auto simp: find_None_iff)
  then have "find P xs = None" using assms(2,4) by (auto simp: find_None_iff)
  with None show ?thesis by simp
next
  case (Some x)
  then have x: "x \<in> set xs" "k x = v" using assms(3,4) by (auto dest: find_SomeD)
  show ?thesis
  proof (cases "P x")
    case True
    have "find P xs = find (\<lambda>y. k y = k x) xs"
      using assms(1,2) x True by (intro find_cong) (auto dest: inj_onD simp: distinct_map)
    also have "\<dots> = Some x" using assms(1) x(1) by (rule find_unique)
    finally show ?thesis using Some True by simp
  next
    case False
    have "\<not> P y" if "y \<in> set xs" for y
      using assms(1,2) x False that by (metis distinct_map inj_onD)
    with Some False show ?thesis by (auto simp: find_None_iff)
  qed
qed

text \<open>Every row is still there, up to a relation.\<close>

definition kept :: "('a \<Rightarrow> 'a \<Rightarrow> bool) \<Rightarrow> 'a list \<Rightarrow> 'a list \<Rightarrow> bool" where
  "kept S xs ys \<longleftrightarrow> (\<forall>x\<in>set xs. \<exists>y\<in>set ys. S x y)"

lemma kept_refl: "(\<And>x. S x x) \<Longrightarrow> kept S xs xs"
  by (auto simp: kept_def)

lemma kept_trans:
  "kept S xs ys \<Longrightarrow> kept S ys zs \<Longrightarrow> (\<And>x y z. S x y \<Longrightarrow> S y z \<Longrightarrow> S x z) \<Longrightarrow> kept S xs zs"
  unfolding kept_def by meson

lemma kept_append: "(\<And>x. S x x) \<Longrightarrow> kept S xs (xs @ ys)"
  by (auto simp: kept_def)

lemma kept_map: "(\<And>x. x \<in> set xs \<Longrightarrow> S x (f x)) \<Longrightarrow> kept S xs (map f xs)"
  by (auto simp: kept_def)

subsection \<open>Readers of a chunked stream\<close>

text \<open>
  A reader consumes one chunk at a time and returns what the chunk completes together with its new
  state. \<open>sep a b\<close> says that the stream may be cut between \<open>a\<close> and \<open>b\<close>: reading the two pieces is
  then reading the whole.
\<close>

fun feed_all :: "('s \<Rightarrow> 'c list \<Rightarrow> 'o list \<times> 's) \<Rightarrow> 's \<Rightarrow> 'c list list \<Rightarrow> 'o list \<times> 's" where
  "feed_all feed d [] = ([], d)"
| "feed_all feed d (c # cs) =
     (fst (feed d c) @ fst (feed_all feed (snd (feed d c)) cs), snd (feed_all feed (snd (feed d c)) cs))"

fun all_cuts :: "('c list \<Rightarrow> 'c list \<Rightarrow> bool) \<Rightarrow> 'c list list \<Rightarrow> bool" where
  "all_cuts sep [] = True"
| "all_cuts sep (c # cs) = (sep c (concat cs) \<and> all_cuts sep cs)"

locale stream_reader =
  fixes feed :: "'s \<Rightarrow> 'c list \<Rightarrow> 'o list \<times> 's"
    and sep :: "'c list \<Rightarrow> 'c list \<Rightarrow> bool"
  assumes feed_empty: "feed d [] = ([], d)"
    and feed_cut: "sep a b \<Longrightarrow>
      feed d (a @ b) = (fst (feed d a) @ fst (feed (snd (feed d a)) b), snd (feed (snd (feed d a)) b))"
begin

lemma chunks_concat: "all_cuts sep chunks \<Longrightarrow> feed_all feed d chunks = feed d (concat chunks)"
  by (induction chunks arbitrary: d) (auto simp: feed_empty feed_cut)

lemma rechunk:
  "all_cuts sep xs \<Longrightarrow> all_cuts sep ys \<Longrightarrow> concat xs = concat ys \<Longrightarrow> feed_all feed d xs = feed_all feed d ys"
  by (simp add: chunks_concat)

end

text \<open>An invariant of the state that one chunk keeps is kept by all.\<close>

locale stream_reader_inv = stream_reader +
  fixes inv :: "'s \<Rightarrow> bool"
  assumes feed_inv: "inv d \<Longrightarrow> inv (snd (feed d c))"
begin

lemma chunks_inv: "inv d \<Longrightarrow> inv (snd (feed_all feed d chunks))"
  by (induction chunks arbitrary: d) (auto intro: feed_inv)

end

end
