(* ===== verification/Json.thy ===== *)
theory Json
  imports Prelude
begin

text \<open>
  The JSON values the program builds, and \<open>encoding/json.Marshal\<close> on them. A Go
  \<open>map[string]any\<close> is an association list (\<open>JMap\<close>; Marshal writes its entries sorted by key), a
  struct with JSON tags is \<open>JStruct\<close> (written in declaration order), a nil pointer or nil
  interface is \<open>JNull\<close>. Also \<open>time.Time\<close>'s calendar, as far as the program formats and parses
  instants: the RFC 3339 text Marshal writes and the \<open>060102150405\<close> layout of the Omni protocol.
\<close>

datatype json =
    JNull
  | JBool bool
  | JInt int
  | JStr gostr
  | JArr "json list"
  | JMap "(gostr \<times> json) list"
  | JStruct "(gostr \<times> json) list"

type_synonym gomap = "(gostr \<times> json) list"

definition JStrOpt :: "gostr option \<Rightarrow> json" where
  "JStrOpt v = (case v of None \<Rightarrow> JNull | Some s \<Rightarrow> JStr s)"

definition map_put :: "gostr \<Rightarrow> json \<Rightarrow> gomap \<Rightarrow> gomap" where
  "map_put k v m = (k, v) # filter (\<lambda>e. fst e \<noteq> k) m"

lemma map_of_map_put: "map_of (map_put k v m) = (map_of m)(k \<mapsto> v)"
proof -
  have "map_of (filter (\<lambda>e. fst e \<noteq> k) m) = (\<lambda>x. if x = k then None else map_of m x)"
    by (induction m) (auto simp: fun_eq_iff)
  then show ?thesis by (auto simp: map_put_def fun_eq_iff)
qed

subsection \<open>Marshal\<close>

definition quote_char :: char where "quote_char = CHR 0x22"
definition backslash :: char where "backslash = CHR 0x5C"

definition unicode_escape :: "nat \<Rightarrow> gostr" where
  "unicode_escape n = [backslash, CHR ''u''] @
     map (\<lambda>k. hex_digit (n div 16 ^ k mod 16)) [3, 2, 1, 0]"

text \<open>
  Marshal escapes quotes, backslashes, control characters, the HTML characters, U+2028 and
  U+2029, and replaces a byte that is not valid UTF-8 by U+FFFD.
\<close>

definition escape_ascii :: "char \<Rightarrow> gostr" where
  "escape_ascii c =
     (let n = byte_of c in
      if c = quote_char \<or> c = backslash then [backslash, c]
      else if n = 8 then [backslash, CHR ''b'']
      else if n = 12 then [backslash, CHR ''f'']
      else if n = 10 then [backslash, CHR ''n'']
      else if n = 13 then [backslash, CHR ''r'']
      else if n = 9 then [backslash, CHR ''t'']
      else if n < 32 \<or> n = 60 \<or> n = 62 \<or> n = 38 then unicode_escape n
      else [c])"

function json_escape :: "gostr \<Rightarrow> gostr" where
  "json_escape s =
     (case s of
        [] \<Rightarrow> []
      | c # t \<Rightarrow>
          if byte_of c < 0x80 then escape_ascii c @ json_escape t
          else if utf8_width s = 0 then unicode_escape 0xFFFD @ json_escape t
          else if map byte_of (take 3 s) = [0xE2, 0x80, 0xA8] then unicode_escape 0x2028 @ json_escape (drop 3 s)
          else if map byte_of (take 3 s) = [0xE2, 0x80, 0xA9] then unicode_escape 0x2029 @ json_escape (drop 3 s)
          else take (utf8_width s) s @ json_escape (drop (utf8_width s) s))"
  by pat_completeness auto
termination
  by (relation "measure length") auto

declare json_escape.simps [simp del]

definition json_string :: "gostr \<Rightarrow> gostr" where
  "json_string s = [quote_char] @ json_escape s @ [quote_char]"

fun json_marshal :: "json \<Rightarrow> gostr" where
  "json_marshal JNull = ''null''"
| "json_marshal (JBool b) = (if b then ''true'' else ''false'')"
| "json_marshal (JInt i) = show_int i"
| "json_marshal (JStr s) = json_string s"
| "json_marshal (JArr vs) = ''['' @ join_with '','' (map json_marshal vs) @ '']''"
| "json_marshal (JMap es) =
     ''{'' @ join_with '',''
       (map (\<lambda>(k, t). json_string k @ '':'' @ t)
         (sort_key fst (map (\<lambda>e. (fst e, json_marshal (snd e))) es))) @ ''}''"
| "json_marshal (JStruct es) =
     ''{'' @ join_with '',''
       (map (\<lambda>(k, t). json_string k @ '':'' @ t)
         (map (\<lambda>e. (fst e, json_marshal (snd e))) es)) @ ''}''"

lemma json_marshal_not_Nil: "json_marshal v \<noteq> []"
  by (cases v) (auto simp: json_string_def show_int_def decimal_digits.simps)

subsection \<open>The calendar\<close>

definition leap_year :: "int \<Rightarrow> bool" where
  "leap_year y \<longleftrightarrow> y mod 4 = 0 \<and> (y mod 100 \<noteq> 0 \<or> y mod 400 = 0)"

definition days_in_month :: "int \<Rightarrow> int \<Rightarrow> int" where
  "days_in_month y m =
     (if m = 2 then (if leap_year y then 29 else 28)
      else if m = 4 \<or> m = 6 \<or> m = 9 \<or> m = 11 then 30 else 31)"

text \<open>
  The civil date of a day number (days since 1970-01-01), counted in years that begin on March 1st
  so that the leap day is the last of its year.
\<close>

definition civil_date :: "int \<Rightarrow> int \<times> int \<times> int" where
  "civil_date z0 =
     (let z = z0 + 719468;
          era = z div 146097;
          doe = z mod 146097;
          yoe = (doe - doe div 1460 + doe div 36524 - doe div 146096) div 365;
          doy = doe - (365 * yoe + yoe div 4 - yoe div 100);
          mp = (5 * doy + 2) div 153;
          d = doy - (153 * mp + 2) div 5 + 1;
          m = (if mp < 10 then mp + 3 else mp - 9);
          y = yoe + era * 400 + (if m \<le> 2 then 1 else 0)
      in (y, m, d))"

definition clock_of :: "instant \<Rightarrow> int \<times> int \<times> int" where
  "clock_of t = (let s = (t div 1000000000) mod 86400 in (s div 3600, s div 60 mod 60, s mod 60))"

definition day_of :: "instant \<Rightarrow> int" where
  "day_of t = t div 86400000000000"

text \<open>\<open>t.UTC().Format("060102150405")\<close>\<close>

definition format_yymmddhhmmss :: "instant \<Rightarrow> gostr" where
  "format_yymmddhhmmss t =
     (case (civil_date (day_of t), clock_of t) of
        ((y, m, d), (hh, mm, ss)) \<Rightarrow>
          concat (map (\<lambda>n. zero_padded 2 (nat (n mod 100))) [y, m, d, hh, mm, ss]))"

text \<open>RFC 3339 with the fraction's trailing zeros dropped, as Marshal writes a UTC instant.\<close>

definition drop_trailing_zeros :: "gostr \<Rightarrow> gostr" where
  "drop_trailing_zeros s = rev (dropWhile (\<lambda>c. c = CHR ''0'') (rev s))"

definition format_rfc3339 :: "instant \<Rightarrow> gostr" where
  "format_rfc3339 t =
     (case (civil_date (day_of t), clock_of t) of
        ((y, m, d), (hh, mm, ss)) \<Rightarrow>
          (let frac = drop_trailing_zeros (zero_padded 9 (nat (t mod 1000000000)))
           in zero_padded 4 (nat y) @ ''-'' @ zero_padded 2 (nat m) @ ''-'' @ zero_padded 2 (nat d) @ ''T'' @
              zero_padded 2 (nat hh) @ '':'' @ zero_padded 2 (nat mm) @ '':'' @ zero_padded 2 (nat ss) @
              (if frac = [] then [] else ''.'' @ frac) @ ''Z''))"

definition JTime :: "instant \<Rightarrow> json" where "JTime t = JStr (format_rfc3339 t)"

text \<open>
  \<open>time.Parse("060102150405", v)\<close> on twelve digits: two-digit years from 69 are 19xx, the others
  20xx; month, day and clock are range-checked, the day against its month.
\<close>

definition two_digits :: "gostr \<Rightarrow> nat \<Rightarrow> int" where
  "two_digits v i = int (decimal_value (take 2 (drop i v)) 0)"

definition parse_yymmddhhmmss_ok :: "gostr \<Rightarrow> bool" where
  "parse_yymmddhhmmss_ok v =
     (let yy = two_digits v 0; y = (if 69 \<le> yy then 1900 + yy else 2000 + yy);
          m = two_digits v 2; d = two_digits v 4;
          hh = two_digits v 6; mm = two_digits v 8; ss = two_digits v 10
      in 1 \<le> m \<and> m \<le> 12 \<and> 1 \<le> d \<and> d \<le> days_in_month y m \<and> hh < 24 \<and> mm < 60 \<and> ss < 60)"

lemma length_format_yymmddhhmmss [simp]: "length (format_yymmddhhmmss t) = 12"
  by (simp add: format_yymmddhhmmss_def split: prod.splits)

lemma digits_format_yymmddhhmmss: "list_all is_digit (format_yymmddhhmmss t)"
  by (simp add: format_yymmddhhmmss_def split: prod.splits)

end
