(* ===== verification/Domain.thy ===== *)
theory Domain
  imports Json
begin

text \<open>
  Package \<open>internal/domain\<close>: the entity types and the command life cycle. A Go string type with a
  constant set is a datatype with one constructor per constant; the types whose switches have a
  reachable default branch also have a constructor for any other string. \<open>wire_...\<close> gives the
  constant's text, which the program writes into events, keys and columns.
\<close>

abbreviation (input) ProviderCodeWWTIOT :: gostr where "ProviderCodeWWTIOT \<equiv> ''wwtiot''"
abbreviation (input) ProviderCodeOmni :: gostr where "ProviderCodeOmni \<equiv> ''omni''"
abbreviation (input) ProviderCodeSimulator :: gostr where "ProviderCodeSimulator \<equiv> ''simulator''"
abbreviation (input) ProviderProfileOmniBikeV207 :: gostr where "ProviderProfileOmniBikeV207 \<equiv> ''omni-bike-tcp-v2.0.7''"
abbreviation (input) ProviderProfileOmniIoTV135 :: gostr where "ProviderProfileOmniIoTV135 \<equiv> ''omni-iot-tcp-v1.3.5''"
abbreviation (input) EventSchemaVersion :: int where "EventSchemaVersion \<equiv> 1"

datatype AccessType = AccessTypeCloudAPI | AccessTypeDirectDevice | AccessTypeSimulator

datatype TransportProtocol = TransportProtocolHTTP | TransportProtocolTCP | TransportProtocolInternal

datatype Adapter = AdapterWWTIOTCloudAPI | AdapterOmniDirectTCP | AdapterSimulator

datatype ProviderActionAvailability =
  ProviderActionSupported | ProviderActionUnsupported | ProviderActionMappingUnknown

datatype ProviderIntegrationStatus =
  ProviderIntegrationUnconfigured | ProviderIntegrationConfiguredUnverified | ProviderIntegrationVerified

datatype ConnectionStatus = ConnectionStatusUnknown | ConnectionStatusOnline | ConnectionStatusOffline

datatype LifecycleStatus = LifecycleStatusActive | LifecycleStatusDisabled | LifecycleStatusDeleted

type_synonym ActionIdentifier = gostr

datatype CommandStatus =
    CommandStatusQueued | CommandStatusSent | CommandStatusAcked | CommandStatusSuccess
  | CommandStatusFailed | CommandStatusTimeout | CommandStatusCancelled | CommandStatusOther gostr

datatype DeliveryPolicy = DeliveryPolicyDispatchOnce | DeliveryPolicyOnlineOnly

datatype AttemptPhase = AttemptPhaseClaimed | AttemptPhaseDispatching | AttemptPhaseCompleted

datatype AttemptOutcome =
    AttemptOutcomeNotDispatched | AttemptOutcomeInvalidRequest | AttemptOutcomeProviderAccepted
  | AttemptOutcomeProviderRejected | AttemptOutcomeTransportErrorBeforeSend | AttemptOutcomeIndeterminate
  | AttemptOutcomeOther gostr

datatype ResultOutcome =
    ResultOutcomeDeviceAcked | ResultOutcomeDeviceSucceeded | ResultOutcomeDeviceFailed
  | ResultOutcomeOther gostr

datatype ConfirmationLevel =
    ConfirmationNone | ConfirmationTransportSent | ConfirmationProviderAccepted
  | ConfirmationDeviceAcked | ConfirmationDeviceFinal | ConfirmationOther gostr

datatype EvidenceStatus = EvidenceNone | EvidenceVerified | EvidenceUnverified

datatype EventSource =
    EventSourceAdmin | EventSourceOpenAPI | EventSourceProviderCallback | EventSourceSimulator
  | EventSourceSystem

datatype EventType =
    EventTypeDeviceCreated | EventTypeDeviceLifecycleChanged | EventTypeDeviceConnectionChanged
  | EventTypeDeviceStateUpdated | EventTypeCommandCreated | EventTypeCommandStatusChanged
  | EventTypeCommandEvidenceUpdated | EventTypeCommandResultRecorded

datatype RawMessageDirection = RawMessageInbound | RawMessageOutbound

datatype WebhookDeliveryStatus =
    WebhookDeliveryStatusPending | WebhookDeliveryStatusSending | WebhookDeliveryStatusDelivered
  | WebhookDeliveryStatusFailed | WebhookDeliveryStatusDead

datatype SimulatorOutcome =
    SimulatorOutcomeProviderAccepted | SimulatorOutcomeProviderRejected
  | SimulatorOutcomeTransportErrorBeforeSend | SimulatorOutcomeTransportErrorAfterSend
  | SimulatorOutcomeInvalidResponse | SimulatorOutcomeOther gostr

datatype ActorType = ActorTypeUser | ActorTypeProject | ActorTypeProvider | ActorTypeSystem

datatype UserStatus = UserStatusActive | UserStatusDisabled | UserStatusOther gostr

datatype AuditResult = AuditResultSuccess | AuditResultFailure

fun wire_CommandStatus :: "CommandStatus \<Rightarrow> gostr" where
  "wire_CommandStatus CommandStatusQueued = ''queued''"
| "wire_CommandStatus CommandStatusSent = ''sent''"
| "wire_CommandStatus CommandStatusAcked = ''acked''"
| "wire_CommandStatus CommandStatusSuccess = ''success''"
| "wire_CommandStatus CommandStatusFailed = ''failed''"
| "wire_CommandStatus CommandStatusTimeout = ''timeout''"
| "wire_CommandStatus CommandStatusCancelled = ''cancelled''"
| "wire_CommandStatus (CommandStatusOther s) = s"

fun wire_AttemptOutcome :: "AttemptOutcome \<Rightarrow> gostr" where
  "wire_AttemptOutcome AttemptOutcomeNotDispatched = ''not_dispatched''"
| "wire_AttemptOutcome AttemptOutcomeInvalidRequest = ''invalid_request''"
| "wire_AttemptOutcome AttemptOutcomeProviderAccepted = ''provider_accepted''"
| "wire_AttemptOutcome AttemptOutcomeProviderRejected = ''provider_rejected''"
| "wire_AttemptOutcome AttemptOutcomeTransportErrorBeforeSend = ''transport_error_before_send''"
| "wire_AttemptOutcome AttemptOutcomeIndeterminate = ''indeterminate''"
| "wire_AttemptOutcome (AttemptOutcomeOther s) = s"

fun wire_ResultOutcome :: "ResultOutcome \<Rightarrow> gostr" where
  "wire_ResultOutcome ResultOutcomeDeviceAcked = ''device_acked''"
| "wire_ResultOutcome ResultOutcomeDeviceSucceeded = ''device_succeeded''"
| "wire_ResultOutcome ResultOutcomeDeviceFailed = ''device_failed''"
| "wire_ResultOutcome (ResultOutcomeOther s) = s"

fun wire_ConfirmationLevel :: "ConfirmationLevel \<Rightarrow> gostr" where
  "wire_ConfirmationLevel ConfirmationNone = ''none''"
| "wire_ConfirmationLevel ConfirmationTransportSent = ''transport_sent''"
| "wire_ConfirmationLevel ConfirmationProviderAccepted = ''provider_accepted''"
| "wire_ConfirmationLevel ConfirmationDeviceAcked = ''device_acked''"
| "wire_ConfirmationLevel ConfirmationDeviceFinal = ''device_final''"
| "wire_ConfirmationLevel (ConfirmationOther s) = s"

fun wire_SimulatorOutcome :: "SimulatorOutcome \<Rightarrow> gostr" where
  "wire_SimulatorOutcome SimulatorOutcomeProviderAccepted = ''provider_accepted''"
| "wire_SimulatorOutcome SimulatorOutcomeProviderRejected = ''provider_rejected''"
| "wire_SimulatorOutcome SimulatorOutcomeTransportErrorBeforeSend = ''transport_error_before_send''"
| "wire_SimulatorOutcome SimulatorOutcomeTransportErrorAfterSend = ''transport_error_after_send''"
| "wire_SimulatorOutcome SimulatorOutcomeInvalidResponse = ''invalid_response''"
| "wire_SimulatorOutcome (SimulatorOutcomeOther s) = s"

fun wire_UserStatus :: "UserStatus \<Rightarrow> gostr" where
  "wire_UserStatus UserStatusActive = ''active''"
| "wire_UserStatus UserStatusDisabled = ''disabled''"
| "wire_UserStatus (UserStatusOther s) = s"

fun wire_EvidenceStatus :: "EvidenceStatus \<Rightarrow> gostr" where
  "wire_EvidenceStatus EvidenceNone = ''none''"
| "wire_EvidenceStatus EvidenceVerified = ''verified''"
| "wire_EvidenceStatus EvidenceUnverified = ''unverified''"

fun wire_EventSource :: "EventSource \<Rightarrow> gostr" where
  "wire_EventSource EventSourceAdmin = ''admin''"
| "wire_EventSource EventSourceOpenAPI = ''open_api''"
| "wire_EventSource EventSourceProviderCallback = ''provider_callback''"
| "wire_EventSource EventSourceSimulator = ''simulator''"
| "wire_EventSource EventSourceSystem = ''system''"

fun wire_EventType :: "EventType \<Rightarrow> gostr" where
  "wire_EventType EventTypeDeviceCreated = ''device.created''"
| "wire_EventType EventTypeDeviceLifecycleChanged = ''device.lifecycle_changed''"
| "wire_EventType EventTypeDeviceConnectionChanged = ''device.connection_changed''"
| "wire_EventType EventTypeDeviceStateUpdated = ''device.state_updated''"
| "wire_EventType EventTypeCommandCreated = ''command.created''"
| "wire_EventType EventTypeCommandStatusChanged = ''command.status_changed''"
| "wire_EventType EventTypeCommandEvidenceUpdated = ''command.evidence_updated''"
| "wire_EventType EventTypeCommandResultRecorded = ''command.result_recorded''"

fun wire_Adapter :: "Adapter \<Rightarrow> gostr" where
  "wire_Adapter AdapterWWTIOTCloudAPI = ''wwtiot_cloud_api''"
| "wire_Adapter AdapterOmniDirectTCP = ''omni_direct_tcp''"
| "wire_Adapter AdapterSimulator = ''simulator''"

fun wire_DeliveryPolicy :: "DeliveryPolicy \<Rightarrow> gostr" where
  "wire_DeliveryPolicy DeliveryPolicyDispatchOnce = ''dispatch_once''"
| "wire_DeliveryPolicy DeliveryPolicyOnlineOnly = ''online_only''"

subsection \<open>Entities\<close>

record User =
  usr_ID :: gostr
  usr_Email :: gostr
  usr_PasswordHash :: gostr
  usr_DisplayName :: gostr
  usr_IsSuperAdmin :: bool
  usr_Status :: UserStatus
  usr_SessionGeneration :: int
  usr_CreatedAt :: instant
  usr_UpdatedAt :: instant

record Project =
  prj_ID :: gostr
  prj_Name :: gostr
  prj_ManagerUserID :: gostr
  prj_WebhookURL :: "gostr option"
  prj_WebhookConfigVersion :: int
  prj_CurrentWebhookSecretVersion :: "int option"
  prj_APIKeyDigest :: "8 word list"
  prj_IPWhitelist :: "gostr list"
  prj_CreatedAt :: instant
  prj_UpdatedAt :: instant

record WebhookSecretVersion =
  wsv_ProjectID :: gostr
  wsv_Version :: int
  wsv_Ciphertext :: gostr
  wsv_Nonce :: gostr
  wsv_EncryptionKeyVersion :: int
  wsv_CreatedAt :: instant
  wsv_RetiredAt :: "instant option"

record CapabilityAction =
  cap_Identifier :: ActionIdentifier
  cap_PayloadSchema :: gomap
  cap_RiskLevel :: gostr
  cap_DeliveryPolicy :: DeliveryPolicy
  cap_DispatchDeadline :: duration
  cap_ProviderRequestTimeout :: duration
  cap_ResultObservationTimeout :: duration
  cap_RetryAllowed :: bool
  cap_DeliveryPolicyOverrideAllowed :: bool

record DeviceType =
  dty_ID :: gostr
  dty_Code :: gostr
  dty_CurrentRevision :: int
  dty_Name :: gostr
  dty_CreatedAt :: instant
  dty_UpdatedAt :: instant

record DeviceTypeProfile =
  dtp_DeviceTypeID :: gostr
  dtp_Revision :: int
  dtp_Actions :: "CapabilityAction list"
  dtp_ProfileHash :: gostr
  dtp_CreatedAt :: instant

text \<open>The capability map of a Provider is an association list: profile, then action.\<close>

record Provider =
  pvd_Code :: gostr
  pvd_Name :: gostr
  pvd_AccessType :: AccessType
  pvd_TransportProtocol :: TransportProtocol
  pvd_Adapter :: Adapter
  pvd_Profiles :: "gostr list"
  pvd_ProfileActions :: "(gostr \<times> (ActionIdentifier \<times> ProviderActionAvailability) list) list"
  pvd_IntegrationStatus :: ProviderIntegrationStatus

record Device =
  dev_ID :: gostr
  dev_ProjectID :: gostr
  dev_DeviceTypeID :: gostr
  dev_DeviceTypeCode :: gostr
  dev_Name :: gostr
  dev_ProviderCode :: gostr
  dev_ProviderProfile :: gostr
  dev_ProviderDeviceID :: gostr
  dev_AccessType :: AccessType
  dev_TransportProtocol :: TransportProtocol
  dev_Adapter :: Adapter
  dev_ConnectionStatus :: ConnectionStatus
  dev_LifecycleStatus :: LifecycleStatus
  dev_CreatedAt :: instant
  dev_UpdatedAt :: instant

record DeviceState =
  dst_ID :: gostr
  dst_DeviceID :: gostr
  dst_State :: gomap
  dst_EvidenceStatus :: EvidenceStatus
  dst_ReportedAt :: "instant option"
  dst_ObservedAt :: instant
  dst_RawMessageID :: gostr
  dst_CreatedAt :: instant

record Command =
  cmd_ID :: gostr
  cmd_ProjectID :: gostr
  cmd_DeviceID :: gostr
  cmd_DeviceTypeID :: gostr
  cmd_DeviceTypeCode :: gostr
  cmd_ProviderCode :: gostr
  cmd_ProviderProfile :: gostr
  cmd_ProviderDeviceID :: gostr
  cmd_Adapter :: Adapter
  cmd_CommandType :: ActionIdentifier
  cmd_Payload :: gomap
  cmd_DeviceTypeRevision :: int
  cmd_DeliveryPolicy :: DeliveryPolicy
  cmd_DispatchDeadline :: duration
  cmd_ProviderTimeout :: duration
  cmd_ResultTimeout :: duration
  cmd_RetryAllowed :: bool
  cmd_Status :: CommandStatus
  cmd_ReasonCode :: "gostr option"
  cmd_ReasonDetail :: "gostr option"
  cmd_ConfirmationLevel :: ConfirmationLevel
  cmd_EvidenceStatus :: EvidenceStatus
  cmd_IdempotencyKey :: gostr
  cmd_RequestHash :: gostr
  cmd_QueuedAt :: instant
  cmd_DispatchDeadlineAt :: instant
  cmd_SentAt :: "instant option"
  cmd_ResultDeadlineAt :: "instant option"
  cmd_FinishedAt :: "instant option"
  cmd_CreatedAt :: instant
  cmd_UpdatedAt :: instant

record CommandAttempt =
  att_ID :: gostr
  att_CommandID :: gostr
  att_AttemptNo :: int
  att_Phase :: AttemptPhase
  att_ProviderCode :: gostr
  att_Adapter :: Adapter
  att_ProviderRequestKey :: gostr
  att_Outcome :: "AttemptOutcome option"
  att_ConfirmationLevel :: ConfirmationLevel
  att_EvidenceStatus :: EvidenceStatus
  att_RequestSummary :: gomap
  att_ResponseSummary :: gomap
  att_ReasonCode :: "gostr option"
  att_ErrorDetail :: "gostr option"
  att_LeaseToken :: gostr
  att_LeaseOwner :: gostr
  att_LeaseExpiresAt :: instant
  att_ClaimedAt :: instant
  att_DispatchingAt :: "instant option"
  att_CompletedAt :: "instant option"

record CommandResult =
  res_ID :: gostr
  res_CommandID :: gostr
  res_AttemptID :: "gostr option"
  res_Source :: EventSource
  res_Outcome :: ResultOutcome
  res_ConfirmationLevel :: ConfirmationLevel
  res_EvidenceStatus :: EvidenceStatus
  res_DeduplicationKey :: gostr
  res_ReportedAt :: "instant option"
  res_ObservedAt :: instant
  res_Late :: bool
  res_Payload :: gomap
  res_CreatedAt :: instant

record RawMessage =
  raw_ID :: gostr
  raw_DeviceID :: "gostr option"
  raw_ProviderCode :: gostr
  raw_ProviderProfile :: gostr
  raw_ProviderDeviceID :: gostr
  raw_AccessType :: AccessType
  raw_TransportProtocol :: TransportProtocol
  raw_Adapter :: Adapter
  raw_Direction :: RawMessageDirection
  raw_EvidenceStatus :: EvidenceStatus
  raw_DeduplicationKey :: gostr
  raw_Headers :: gomap
  raw_Body :: gostr
  raw_ReceivedAt :: instant
  raw_CreatedAt :: instant

record Event =
  evt_ID :: gostr
  evt_SchemaVersion :: int
  evt_EventType :: EventType
  evt_ProjectID :: gostr
  evt_DeviceID :: "gostr option"
  evt_CommandID :: "gostr option"
  evt_Source :: EventSource
  evt_Payload :: gomap
  evt_RawMessageID :: "gostr option"
  evt_DeduplicationKey :: gostr
  evt_OccurredAt :: instant
  evt_CreatedAt :: instant

record WebhookDelivery =
  whd_ID :: gostr
  whd_ProjectID :: gostr
  whd_EventID :: gostr
  whd_TargetURL :: gostr
  whd_WebhookConfigVersion :: int
  whd_WebhookSecretVersion :: int
  whd_RawBody :: gostr
  whd_AttemptCount :: int
  whd_Status :: WebhookDeliveryStatus
  whd_LastErrorCode :: "gostr option"
  whd_LastErrorDetail :: "gostr option"
  whd_NextAttemptAt :: "instant option"
  whd_LeaseToken :: "gostr option"
  whd_LeaseOwner :: "gostr option"
  whd_LeaseExpiresAt :: "instant option"
  whd_ReplayOfDeliveryID :: "gostr option"
  whd_DeliveredAt :: "instant option"
  whd_CreatedAt :: instant
  whd_UpdatedAt :: instant

record WebhookDeliveryAttempt =
  wha_ID :: gostr
  wha_DeliveryID :: gostr
  wha_AttemptNo :: int
  wha_RequestTimestamp :: int
  wha_HTTPStatus :: "int option"
  wha_ResponseSummary :: "gostr option"
  wha_ErrorCode :: "gostr option"
  wha_ErrorDetail :: "gostr option"
  wha_StartedAt :: instant
  wha_CompletedAt :: "instant option"

record AuditLog =
  aud_ID :: gostr
  aud_ActorType :: ActorType
  aud_ActorUserID :: "gostr option"
  aud_ActorID :: "gostr option"
  aud_ProjectID :: "gostr option"
  aud_Action :: gostr
  aud_Result :: AuditResult
  aud_ResourceType :: gostr
  aud_ResourceID :: "gostr option"
  aud_IPAddress :: "gostr option"
  aud_RequestID :: "gostr option"
  aud_Metadata :: gomap
  aud_OccurredAt :: instant

record SimulatorConfig =
  smc_Outcome :: SimulatorOutcome
  smc_Delay :: duration
  smc_Version :: int
  smc_UpdatedAt :: instant

subsection \<open>The life cycle\<close>

fun CanTransitionCommand :: "CommandStatus \<Rightarrow> CommandStatus \<Rightarrow> bool" where
  "CanTransitionCommand CommandStatusQueued s =
     (s \<in> {CommandStatusSent, CommandStatusCancelled, CommandStatusFailed, CommandStatusTimeout})"
| "CanTransitionCommand CommandStatusSent s =
     (s \<in> {CommandStatusAcked, CommandStatusSuccess, CommandStatusFailed, CommandStatusTimeout})"
| "CanTransitionCommand CommandStatusAcked s =
     (s \<in> {CommandStatusSuccess, CommandStatusFailed, CommandStatusTimeout})"
| "CanTransitionCommand _ s = False"

fun IsTerminal :: "CommandStatus \<Rightarrow> bool" where
  "IsTerminal CommandStatusSuccess = True"
| "IsTerminal CommandStatusFailed = True"
| "IsTerminal CommandStatusTimeout = True"
| "IsTerminal CommandStatusCancelled = True"
| "IsTerminal _ = False"

definition CanTransitionAttempt :: "AttemptPhase \<Rightarrow> AttemptPhase \<Rightarrow> bool" where
  "CanTransitionAttempt f t \<longleftrightarrow>
     f = AttemptPhaseClaimed \<and> (t = AttemptPhaseDispatching \<or> t = AttemptPhaseCompleted) \<or>
     f = AttemptPhaseDispatching \<and> t = AttemptPhaseCompleted"

fun confirmationRank :: "ConfirmationLevel \<Rightarrow> int \<times> bool" where
  "confirmationRank ConfirmationNone = (0, True)"
| "confirmationRank ConfirmationTransportSent = (1, True)"
| "confirmationRank ConfirmationProviderAccepted = (2, True)"
| "confirmationRank ConfirmationDeviceAcked = (3, True)"
| "confirmationRank ConfirmationDeviceFinal = (4, True)"
| "confirmationRank (ConfirmationOther _) = (0, False)"

definition CanAdvanceConfirmation :: "ConfirmationLevel \<Rightarrow> ConfirmationLevel \<Rightarrow> bool" where
  "CanAdvanceConfirmation f t =
     (case (confirmationRank f, confirmationRank t) of
        ((fromRank, fromOK), (toRank, toOK)) \<Rightarrow> fromOK \<and> toOK \<and> toRank \<ge> fromRank)"

lemma no_transition_from_terminal: "IsTerminal s \<Longrightarrow> \<not> CanTransitionCommand s t"
  by (cases s) auto

lemma no_transition_to_queued: "\<not> CanTransitionCommand s CommandStatusQueued"
  by (cases s) auto

lemma CanAdvanceConfirmation_trans:
  "CanAdvanceConfirmation a b \<Longrightarrow> CanAdvanceConfirmation b c \<Longrightarrow> CanAdvanceConfirmation a c"
  by (auto simp: CanAdvanceConfirmation_def split: prod.splits)

text \<open>
  The transition table is acyclic: a command's status moves at most three times, so a command can
  never come back to a status it has left.
\<close>

fun status_rank :: "CommandStatus \<Rightarrow> nat" where
  "status_rank CommandStatusQueued = 0"
| "status_rank CommandStatusSent = 1"
| "status_rank CommandStatusAcked = 2"
| "status_rank _ = 3"

lemma transition_rank: "CanTransitionCommand s t \<Longrightarrow> status_rank s < status_rank t"
  by (cases s) auto

lemma transition_chain_rank: "CanTransitionCommand\<^sup>+\<^sup>+ s t \<Longrightarrow> status_rank s < status_rank t"
  by (induction rule: tranclp_induct) (auto dest: transition_rank)

end
