(* ===== verification/Omni_Codec.thy ===== *)
theory Omni_Codec
  imports Domain
begin

text \<open>
  \<open>internal/directdevice/omni/codec.go\<close>: the Omni wire format. A response frame is
  \<open>*CMDR,OM,<imei>,<timestamp>,<command>,<fields>#\n\<close> (bike profile) or
  \<open>*SCOR,OM,<imei>,<command>,<fields>#\n\<close> (IoT profile). \<open>EncodeQueryStatus\<close> builds the one
  request the adapter sends. The lemmas characterise \<open>ParseFrame\<close> exactly: it accepts a byte
  string if and only if it is the rendering of a well-formed frame, and returns that frame.
\<close>

definition downlinkPrefix :: gostr where "downlinkPrefix = [CHR 0xFF, CHR 0xFF]"
definition newline :: char where "newline = CHR 0x0A"
definition wireTerminator :: gostr where "wireTerminator = [CHR ''#'', newline]"
definition vendorCode :: gostr where "vendorCode = ''OM''"
definition bikeRequestHead :: gostr where "bikeRequestHead = ''*CMDS''"
definition bikeResponseHead :: gostr where "bikeResponseHead = ''*CMDR''"
definition iotRequestHead :: gostr where "iotRequestHead = ''*SCOS''"
definition iotResponseHead :: gostr where "iotResponseHead = ''*SCOR''"

datatype FrameErrorCode =
    FrameInvalidProfile | FrameEmpty | FrameTooLarge | FrameInvalidPrefix | FrameInvalidHeader
  | FrameInvalidVendor | FrameInvalidIMEI | FrameInvalidTimestamp | FrameUnknownCommand
  | FrameInvalidFields | FrameTrailingData | FrameInvalid

fun wire_FrameErrorCode :: "FrameErrorCode \<Rightarrow> gostr" where
  "wire_FrameErrorCode FrameInvalidProfile = ''invalid_profile''"
| "wire_FrameErrorCode FrameEmpty = ''empty_frame''"
| "wire_FrameErrorCode FrameTooLarge = ''frame_too_large''"
| "wire_FrameErrorCode FrameInvalidPrefix = ''invalid_prefix''"
| "wire_FrameErrorCode FrameInvalidHeader = ''invalid_header''"
| "wire_FrameErrorCode FrameInvalidVendor = ''invalid_vendor''"
| "wire_FrameErrorCode FrameInvalidIMEI = ''invalid_imei''"
| "wire_FrameErrorCode FrameInvalidTimestamp = ''invalid_timestamp''"
| "wire_FrameErrorCode FrameUnknownCommand = ''unknown_command''"
| "wire_FrameErrorCode FrameInvalidFields = ''invalid_fields''"
| "wire_FrameErrorCode FrameTrailingData = ''trailing_data''"
| "wire_FrameErrorCode FrameInvalid = ''invalid_frame''"

record Frame =
  frm_Profile :: gostr
  frm_IMEI :: gostr
  frm_Timestamp :: gostr
  frm_Command :: gostr
  frm_Fields :: "gostr list"

definition validProfile :: "gostr \<Rightarrow> bool" where
  "validProfile p \<longleftrightarrow> p = ProviderProfileOmniBikeV207 \<or> p = ProviderProfileOmniIoTV135"

definition validIMEI :: "gostr \<Rightarrow> bool" where
  "validIMEI imei \<longleftrightarrow> length imei = 15 \<and> list_all is_digit imei"

definition validTimestamp :: "gostr \<Rightarrow> bool" where
  "validTimestamp v \<longleftrightarrow> length v = 12 \<and> list_all is_digit v \<and> parse_yymmddhhmmss_ok v"

definition knownResponseCommand :: "gostr \<Rightarrow> gostr \<Rightarrow> bool" where
  "knownResponseCommand profile command =
     (if profile = ProviderProfileOmniBikeV207 then
        command \<in> set [''Q0'', ''H0'', ''L0'', ''L1'', ''S5'']
      else if profile = ProviderProfileOmniIoTV135 then
        command \<in> set [''Q0'', ''H0'', ''R0'', ''L0'', ''L1'', ''S6'']
      else False)"

text \<open>\<open>strconv.ParseUint(value, 10, 32)\<close> after the digit check.\<close>

definition parseUnsignedDecimal :: "gostr \<Rightarrow> nat option" where
  "parseUnsignedDecimal value =
     (if value = [] then None
      else if \<not> list_all is_digit value then None
      else if decimal_value value 0 < 2 ^ 32 then Some (decimal_value value 0)
      else None)"

definition decimalInRange :: "gostr \<Rightarrow> nat \<Rightarrow> nat \<Rightarrow> bool" where
  "decimalInRange value minimum maximum =
     (case parseUnsignedDecimal value of
        None \<Rightarrow> False
      | Some parsed \<Rightarrow> parsed \<ge> minimum \<and> parsed \<le> maximum)"

definition unsignedDecimal :: "gostr \<Rightarrow> bool" where
  "unsignedDecimal value \<longleftrightarrow> parseUnsignedDecimal value \<noteq> None"

definition validResponseFields :: "gostr \<Rightarrow> gostr \<Rightarrow> gostr list \<Rightarrow> bool" where
  "validResponseFields profile command f =
     (if profile = ProviderProfileOmniBikeV207 \<and> command = ''Q0'' then
        length f = 1 \<and> decimalInRange (f ! 0) 320 420
      else if profile = ProviderProfileOmniBikeV207 \<and> command = ''H0'' then
        length f = 3 \<and> decimalInRange (f ! 0) 0 1 \<and>
        decimalInRange (f ! 1) 320 420 \<and> decimalInRange (f ! 2) 2 32
      else if profile = ProviderProfileOmniBikeV207 \<and> command = ''S5'' then
        length f = 5 \<and> decimalInRange (f ! 0) 320 420 \<and>
        decimalInRange (f ! 1) 2 32 \<and> decimalInRange (f ! 2) 0 4294967295 \<and>
        decimalInRange (f ! 3) 0 1 \<and> f ! 4 = ''0''
      else if profile = ProviderProfileOmniIoTV135 \<and> command = ''Q0'' then
        length f = 3 \<and> unsignedDecimal (f ! 0) \<and> decimalInRange (f ! 1) 0 100 \<and>
        decimalInRange (f ! 2) 2 32
      else if profile = ProviderProfileOmniIoTV135 \<and> command = ''H0'' then
        length f = 5 \<and> decimalInRange (f ! 0) 0 1 \<and> unsignedDecimal (f ! 1) \<and>
        decimalInRange (f ! 2) 2 32 \<and> decimalInRange (f ! 3) 0 100 \<and>
        decimalInRange (f ! 4) 0 1
      else if profile = ProviderProfileOmniIoTV135 \<and> command = ''S6'' then
        length f = 10 \<and> decimalInRange (f ! 0) 0 100 \<and>
        decimalInRange (f ! 1) 1 3 \<and> unsignedDecimal (f ! 2) \<and>
        decimalInRange (f ! 3) 0 1 \<and> unsignedDecimal (f ! 4) \<and> unsignedDecimal (f ! 5) \<and>
        decimalInRange (f ! 6) 0 1 \<and> decimalInRange (f ! 7) 2 32 \<and>
        unsignedDecimal (f ! 8) \<and> unsignedDecimal (f ! 9)
      else length f > 0)"

definition EncodeQueryStatus :: "gostr \<Rightarrow> gostr \<Rightarrow> instant \<Rightarrow> FrameErrorCode + gostr" where
  "EncodeQueryStatus profile imei now =
     (if \<not> validProfile profile then Inl FrameInvalidProfile
      else if \<not> validIMEI imei then Inl FrameInvalidIMEI
      else
        (let body =
           (if profile = ProviderProfileOmniBikeV207 then
              join_with '','' [bikeRequestHead, vendorCode, imei, format_yymmddhhmmss now, ''S5'']
            else if profile = ProviderProfileOmniIoTV135 then
              join_with '','' [iotRequestHead, vendorCode, imei, ''S6'']
            else [])
         in Inr (downlinkPrefix @ body @ wireTerminator)))"

definition frame_byte_ok :: "char \<Rightarrow> bool" where
  "frame_byte_ok v \<longleftrightarrow> \<not> (byte_of v < 0x20 \<or> byte_of v > 0x7e \<or> v = CHR ''#'')"

definition ParseFrame :: "gostr \<Rightarrow> gostr \<Rightarrow> FrameErrorCode + Frame" where
  "ParseFrame profile raw =
     (if \<not> validProfile profile then Inl FrameInvalidProfile
      else if length raw = length wireTerminator \<and> raw = wireTerminator then Inl FrameEmpty
      else if has_prefix raw downlinkPrefix \<or> raw = [] \<or> hd raw \<noteq> CHR ''*'' then Inl FrameInvalidPrefix
      else if \<not> has_suffix raw wireTerminator then Inl FrameTrailingData
      else
        (let body = take (length raw - length wireTerminator) raw in
         if body = [] then Inl FrameEmpty
         else if index_of wireTerminator body \<noteq> None then Inl FrameTrailingData
         else if \<not> list_all frame_byte_ok body then Inl FrameInvalid
         else
           (let parts = split_on CHR '','' body;
                bike = (profile = ProviderProfileOmniBikeV207);
                minimumFields = (if bike then 5 else 4);
                wantHeader = (if bike then bikeResponseHead else iotResponseHead)
            in
            if length parts < minimumFields then Inl FrameInvalid
            else if parts ! 0 \<noteq> wantHeader then Inl FrameInvalidHeader
            else if parts ! 1 \<noteq> vendorCode then Inl FrameInvalidVendor
            else if \<not> validIMEI (parts ! 2) then Inl FrameInvalidIMEI
            else
              (let timestamp = (if bike then parts ! 3 else []);
                   commandIndex = (if bike then 4 else 3)
               in
               if bike \<and> \<not> validTimestamp timestamp then Inl FrameInvalidTimestamp
               else if \<not> knownResponseCommand profile (parts ! commandIndex) then Inl FrameUnknownCommand
               else
                 (let fields = drop (Suc commandIndex) parts in
                  if \<not> list_all (\<lambda>f. f \<noteq> []) fields then Inl FrameInvalidFields
                  else if \<not> validResponseFields profile (parts ! commandIndex) fields then Inl FrameInvalidFields
                  else Inr \<lparr>frm_Profile = profile, frm_IMEI = parts ! 2, frm_Timestamp = timestamp,
                            frm_Command = parts ! commandIndex, frm_Fields = fields\<rparr>)))))"

subsection \<open>The abstract format\<close>

text \<open>
  What a frame looks like on the wire, and which frames are well formed; neither mentions how the
  parser proceeds.
\<close>

definition frame_parts :: "gostr \<Rightarrow> Frame \<Rightarrow> gostr list" where
  "frame_parts p f =
     (if p = ProviderProfileOmniBikeV207
      then [bikeResponseHead, vendorCode, frm_IMEI f, frm_Timestamp f, frm_Command f] @ frm_Fields f
      else [iotResponseHead, vendorCode, frm_IMEI f, frm_Command f] @ frm_Fields f)"

definition render_frame :: "gostr \<Rightarrow> Frame \<Rightarrow> gostr" where
  "render_frame p f = join_with '','' (frame_parts p f) @ wireTerminator"

definition part_ok :: "gostr \<Rightarrow> bool" where
  "part_ok w \<longleftrightarrow> (\<forall>c\<in>set w. frame_byte_ok c \<and> c \<noteq> CHR '','')"

definition field_ok :: "gostr \<Rightarrow> bool" where
  "field_ok w \<longleftrightarrow> w \<noteq> [] \<and> part_ok w"

definition wf_frame :: "gostr \<Rightarrow> Frame \<Rightarrow> bool" where
  "wf_frame p f \<longleftrightarrow>
     validProfile p \<and> frm_Profile f = p \<and> validIMEI (frm_IMEI f) \<and>
     (if p = ProviderProfileOmniBikeV207 then validTimestamp (frm_Timestamp f) else frm_Timestamp f = []) \<and>
     knownResponseCommand p (frm_Command f) \<and> list_all field_ok (frm_Fields f) \<and>
     validResponseFields p (frm_Command f) (frm_Fields f)"

lemma join_split_on: "join_with [c] (split_on c s) = s"
proof (induction s)
  case Nil
  then show ?case by simp
next
  case (Cons x xs)
  obtain w ws where w: "split_on c xs = w # ws" by (cases "split_on c xs") auto
  with Cons show ?case by (cases ws) auto
qed

lemma split_on_no_sep: "c \<notin> set w \<Longrightarrow> split_on c w = [w]"
  by (induction w) auto

lemma split_on_append: "c \<notin> set w \<Longrightarrow> split_on c (w @ c # s) = w # split_on c s"
  by (induction w) auto

lemma split_on_join:
  "ws \<noteq> [] \<Longrightarrow> \<forall>w\<in>set ws. c \<notin> set w \<Longrightarrow> split_on c (join_with [c] ws) = ws"
proof (induction ws rule: induct_list012)
  case (3 x y zs)
  then show ?case by (simp add: split_on_append)
qed (auto simp: split_on_no_sep)

lemma split_on_sound: "w \<in> set (split_on c s) \<Longrightarrow> c \<notin> set w \<and> set w \<subseteq> set s"
proof (induction s arbitrary: w)
  case Nil
  then show ?case by simp
next
  case (Cons x xs)
  show ?case
  proof (cases "x = c")
    case True
    with Cons show ?thesis by auto
  next
    case False
    obtain v vs where v: "split_on c xs = v # vs" by (cases "split_on c xs") auto
    with False Cons.prems have "w = x # v \<or> w \<in> set vs" by auto
    then show ?thesis
    proof
      assume "w = x # v"
      moreover from Cons.IH[of v] v have "c \<notin> set v \<and> set v \<subseteq> set xs" by simp
      ultimately show ?thesis using False by auto
    next
      assume "w \<in> set vs"
      with Cons.IH[of w] v show ?thesis by auto
    qed
  qed
qed

lemma set_join_with: "set (join_with sep ws) \<subseteq> set sep \<union> (\<Union>w\<in>set ws. set w)"
  by (induction sep ws rule: join_with.induct) auto

lemma bike_profile_valid [simp]: "validProfile ProviderProfileOmniBikeV207"
  and iot_profile_valid [simp]: "validProfile ProviderProfileOmniIoTV135"
  by (simp_all add: validProfile_def)

lemma no_hash_no_terminator: "CHR ''#'' \<notin> set s \<Longrightarrow> index_of wireTerminator s = None"
  by (subst index_of_None_iff) (auto simp: wireTerminator_def)

lemma part_ok_digits: "list_all is_digit s \<Longrightarrow> part_ok s"
  by (auto simp: part_ok_def list_all_iff is_digit_def frame_byte_ok_def byte_of_def)

lemma part_ok_command: "knownResponseCommand p c \<Longrightarrow> part_ok c"
  by (auto simp: knownResponseCommand_def part_ok_def frame_byte_ok_def byte_of_def split: if_splits)

lemma part_ok_heads [simp]: "part_ok bikeResponseHead" "part_ok iotResponseHead" "part_ok vendorCode"
  by (simp_all add: bikeResponseHead_def iotResponseHead_def vendorCode_def part_ok_def
      frame_byte_ok_def byte_of_def)

lemma part_ok_Nil [simp]: "part_ok []"
  by (simp add: part_ok_def)

lemma wf_frame_parts:
  assumes wf: "wf_frame p f"
  shows "\<forall>w\<in>set (frame_parts p f). part_ok w"
proof -
  from wf have "part_ok (frm_IMEI f)" by (simp add: wf_frame_def validIMEI_def part_ok_digits)
  moreover from wf have "part_ok (frm_Timestamp f)"
    by (simp add: wf_frame_def validTimestamp_def part_ok_digits split: if_splits)
  moreover have "part_ok (frm_Command f)"
    by (rule part_ok_command [of p]) (use wf in \<open>simp add: wf_frame_def\<close>)
  moreover from wf have "\<forall>w\<in>set (frm_Fields f). part_ok w"
    by (simp add: wf_frame_def list_all_iff field_ok_def)
  ultimately show ?thesis by (simp add: frame_parts_def)
qed

lemma part_ok_hash: "part_ok w \<Longrightarrow> CHR ''#'' \<notin> set w"
  and part_ok_comma: "part_ok w \<Longrightarrow> CHR '','' \<notin> set w"
  by (auto simp: part_ok_def frame_byte_ok_def)

lemma comma_byte_ok: "frame_byte_ok CHR '',''"
  by (simp add: frame_byte_ok_def byte_of_def)

lemma joined_bytes_ok:
  assumes "\<forall>w\<in>set ws. part_ok w"
  shows "list_all frame_byte_ok (join_with '','' ws)"
proof -
  have "frame_byte_ok c" if "c \<in> set (join_with '','' ws)" for c
  proof -
    from that set_join_with have "c = CHR '','' \<or> (\<exists>w\<in>set ws. c \<in> set w)" by fastforce
    then show ?thesis using assms comma_byte_ok by (auto simp: part_ok_def)
  qed
  then show ?thesis by (simp add: list_all_iff)
qed

lemma frame_bytes_no_hash: "list_all frame_byte_ok s \<Longrightarrow> index_of wireTerminator s = None"
  by (rule no_hash_no_terminator) (auto simp: list_all_iff frame_byte_ok_def)

subsection \<open>Parsing is the inverse of rendering\<close>

lemma frame_parts_nth:
  "frame_parts p f ! 0 = (if p = ProviderProfileOmniBikeV207 then bikeResponseHead else iotResponseHead)"
  "frame_parts p f ! Suc 0 = vendorCode"
  "frame_parts p f ! 2 = frm_IMEI f"
  by (simp_all add: frame_parts_def)

lemma frame_parts_command:
  "frame_parts p f ! (if p = ProviderProfileOmniBikeV207 then 4 else 3) = frm_Command f"
  "drop (Suc (if p = ProviderProfileOmniBikeV207 then 4 else 3)) (frame_parts p f) = frm_Fields f"
  "p = ProviderProfileOmniBikeV207 \<Longrightarrow> frame_parts p f ! 3 = frm_Timestamp f"
  by (simp_all add: frame_parts_def numeral_eq_Suc)

lemma hd_joined_parts:
  "\<exists>t. join_with '','' (frame_parts p f) = CHR ''*'' # t"
  by (cases "frm_Fields f")
    (auto simp: frame_parts_def bikeResponseHead_def iotResponseHead_def)

lemma ParseFrame_render:
  assumes wf: "wf_frame p f"
  shows "ParseFrame p (render_frame p f) = Inr f"
proof -
  let ?parts = "frame_parts p f" and ?bike = "p = ProviderProfileOmniBikeV207"
  let ?body = "join_with '','' ?parts"
  obtain t where t: "?body = CHR ''*'' # t" using hd_joined_parts by blast
  have ok: "\<forall>w\<in>set ?parts. part_ok w" by (rule wf_frame_parts [OF wf])
  then have bytes: "list_all frame_byte_ok ?body" by (rule joined_bytes_ok)
  have parts: "split_on CHR '','' ?body = ?parts"
    by (rule split_on_join) (use ok part_ok_comma in \<open>auto simp: frame_parts_def\<close>)
  have raw: "render_frame p f = ?body @ wireTerminator" by (simp add: render_frame_def)
  have len: "\<not> length ?parts < (if ?bike then 5 else 4)" by (simp add: frame_parts_def)
  have fields: "list_all (\<lambda>w. w \<noteq> []) (frm_Fields f)"
    using wf by (auto simp: wf_frame_def list_all_iff field_ok_def)
  from wf have f: "f = \<lparr>frm_Profile = p, frm_IMEI = frm_IMEI f,
      frm_Timestamp = (if ?bike then frm_Timestamp f else []), frm_Command = frm_Command f,
      frm_Fields = frm_Fields f\<rparr>"
    by (auto simp: wf_frame_def)
  have notempty: "\<not> (length (render_frame p f) = length wireTerminator \<and> render_frame p f = wireTerminator)"
    using t by (simp add: raw)
  have prefix: "\<not> (has_prefix (render_frame p f) downlinkPrefix \<or> render_frame p f = [] \<or>
      hd (render_frame p f) \<noteq> CHR ''*'')"
    by (simp add: raw t downlinkPrefix_def)
  have suffix: "has_suffix (render_frame p f) wireTerminator" by (auto simp: raw has_suffix_iff)
  have body: "take (length (render_frame p f) - length wireTerminator) (render_frame p f) = ?body"
    by (simp add: raw)
  show ?thesis
    unfolding ParseFrame_def Let_def body parts
    using wf notempty prefix suffix len fields t bytes frame_bytes_no_hash [OF bytes] f
    by (simp add: wf_frame_def frame_parts_nth frame_parts_command frame_parts_command(3))
qed

lemma four_parts: "4 \<le> length xs \<Longrightarrow> xs = [xs ! 0, xs ! 1, xs ! 2, xs ! 3] @ drop 4 xs"
  by (cases xs; cases "tl xs"; cases "tl (tl xs)"; cases "tl (tl (tl xs))") auto

lemma five_parts: "5 \<le> length xs \<Longrightarrow> xs = [xs ! 0, xs ! 1, xs ! 2, xs ! 3, xs ! 4] @ drop 5 xs"
  using four_parts [of xs] Cons_nth_drop_Suc [of 4 xs] by simp

lemma ParseFrame_sound:
  assumes "ParseFrame p raw = Inr f"
  shows "wf_frame p f \<and> raw = render_frame p f"
proof -
  let ?bike = "p = ProviderProfileOmniBikeV207"
  define body where "body = take (length raw - length wireTerminator) raw"
  define parts where "parts = split_on CHR '','' body"
  define ci :: nat where "ci = (if ?bike then 4 else 3)"
  have facts: "validProfile p" "has_suffix raw wireTerminator" "list_all frame_byte_ok body"
    "\<not> length parts < (if ?bike then 5 else 4)"
    "parts ! 0 = (if ?bike then bikeResponseHead else iotResponseHead)" "parts ! 1 = vendorCode"
    "validIMEI (parts ! 2)" "?bike \<Longrightarrow> validTimestamp (parts ! 3)"
    "knownResponseCommand p (parts ! ci)" "list_all (\<lambda>w. w \<noteq> []) (drop (Suc ci) parts)"
    "validResponseFields p (parts ! ci) (drop (Suc ci) parts)"
    "f = \<lparr>frm_Profile = p, frm_IMEI = parts ! 2, frm_Timestamp = (if ?bike then parts ! 3 else []),
          frm_Command = parts ! ci, frm_Fields = drop (Suc ci) parts\<rparr>"
    using assms unfolding ParseFrame_def Let_def body_def [symmetric] parts_def [symmetric] ci_def
    by (simp_all split: if_splits)
  have "body @ wireTerminator = raw"
    using facts(2) by (auto simp: body_def has_suffix_iff)
  moreover have "join_with '','' parts = body" by (simp add: parts_def join_split_on)
  moreover have "frame_parts p f = parts"
    using facts(4-6) four_parts [of parts] five_parts [of parts]
    by (auto simp: facts(12) frame_parts_def ci_def split: if_splits)
  ultimately have raw: "raw = render_frame p f" by (simp add: render_frame_def)
  have "part_ok w" if "w \<in> set parts" for w
    using split_on_sound [of w "CHR '',''" body] that facts(3)
    by (auto simp: parts_def part_ok_def list_all_iff)
  then have "list_all field_ok (drop (Suc ci) parts)"
    using facts(10) by (auto simp: list_all_iff field_ok_def dest: in_set_dropD)
  with facts have "wf_frame p f" by (auto simp: wf_frame_def)
  with raw show ?thesis by simp
qed

definition sample_iot_frame :: Frame where
  "sample_iot_frame = \<lparr>frm_Profile = ProviderProfileOmniIoTV135, frm_IMEI = ''123456789012345'',
     frm_Timestamp = [], frm_Command = ''S6'',
     frm_Fields = [''80'', ''1'', ''5'', ''0'', ''10'', ''0'', ''0'', ''12'', ''1'', ''3'']\<rparr>"

lemma sample_iot_frame_wf: "wf_frame ProviderProfileOmniIoTV135 sample_iot_frame"
  by (simp add: wf_frame_def sample_iot_frame_def validIMEI_def is_digit_def byte_of_def
      knownResponseCommand_def validResponseFields_def decimalInRange_def unsignedDecimal_def
      parseUnsignedDecimal_def field_ok_def part_ok_def frame_byte_ok_def)

lemma length_sample_iot_frame:
  "length (render_frame ProviderProfileOmniIoTV135 sample_iot_frame) = 52"
  by (simp add: render_frame_def frame_parts_def sample_iot_frame_def wireTerminator_def
      iotResponseHead_def vendorCode_def)

text \<open>
  C37. The parser accepts exactly the frames of the documented format: \<open>ParseFrame\<close> succeeds on a
  byte string if and only if it is the rendering of a well-formed frame, and it returns that frame,
  with its profile, IMEI, timestamp, command and fields.
\<close>

theorem ParseFrame_iff:
  "ParseFrame p raw = Inr f \<longleftrightarrow> wf_frame p f \<and> raw = render_frame p f"
  using ParseFrame_render ParseFrame_sound by blast

text \<open>
  The request the adapter sends is never mistaken for a response: for a valid profile and IMEI
  \<open>EncodeQueryStatus\<close> succeeds, its frame ends with the terminator, begins with the downlink marker,
  and any parser rejects it with an invalid prefix. Otherwise it fails with the matching error.
\<close>

theorem EncodeQueryStatus_direction:
  "(case EncodeQueryStatus p imei t of
      Inl e \<Rightarrow> e = (if validProfile p then FrameInvalidIMEI else FrameInvalidProfile) \<and>
        \<not> (validProfile p \<and> validIMEI imei)
    | Inr raw \<Rightarrow> validProfile p \<and> validIMEI imei \<and> has_suffix raw wireTerminator \<and>
        ParseFrame p raw = Inl FrameInvalidPrefix)"
proof (cases "validProfile p \<and> validIMEI imei")
  case True
  have "has_suffix (x @ wireTerminator) wireTerminator" for x by (auto simp: has_suffix_iff)
  then have suf: "has_suffix (downlinkPrefix @ x @ wireTerminator) wireTerminator" for x
    by (metis append.assoc)
  have "ParseFrame p (downlinkPrefix @ x @ wireTerminator) = Inl FrameInvalidPrefix" for x
    using True by (simp add: ParseFrame_def downlinkPrefix_def wireTerminator_def)
  with True suf show ?thesis by (simp add: EncodeQueryStatus_def Let_def)
qed (auto simp: EncodeQueryStatus_def)

end
