(* ===== verification/Omni_Decoder.thy ===== *)
theory Omni_Decoder
  imports Omni_Codec
begin

text \<open>
  \<open>internal/directdevice/omni/decoder.go\<close>: the framing of a TCP byte stream. \<open>Feed\<close> consumes one
  chunk (one \<open>Read\<close> of the connection) and returns the frames it completes; the decoder's state is
  the partial frame and whether it is skipping an oversized one.
\<close>

record DecodedFrame =
  dcf_Raw :: gostr
  dcf_Frame :: "Frame option"
  dcf_Err :: "FrameErrorCode option"

record Decoder =
  dec_profile :: gostr
  dec_maxBytes :: int
  dec_buffer :: gostr
  dec_discarding :: bool

definition NewDecoder :: "gostr \<Rightarrow> int \<Rightarrow> FrameErrorCode + Decoder" where
  "NewDecoder profile maxBytes =
     (if \<not> validProfile profile then Inl FrameInvalidProfile
      else if maxBytes < int (length wireTerminator) + 1 then Inl FrameTooLarge
      else Inr \<lparr>dec_profile = profile, dec_maxBytes = maxBytes, dec_buffer = [], dec_discarding = False\<rparr>)"

definition too_large_frame :: DecodedFrame where
  "too_large_frame = \<lparr>dcf_Raw = [], dcf_Frame = None, dcf_Err = Some FrameTooLarge\<rparr>"

definition decoded_frame :: "gostr \<Rightarrow> gostr \<Rightarrow> DecodedFrame" where
  "decoded_frame profile raw =
     (case ParseFrame profile raw of
        Inl e \<Rightarrow> \<lparr>dcf_Raw = raw, dcf_Frame = None, dcf_Err = Some e\<rparr>
      | Inr f \<Rightarrow> \<lparr>dcf_Raw = raw, dcf_Frame = Some f, dcf_Err = None\<rparr>)"

lemma length_wireTerminator [simp]: "length wireTerminator = 2"
  by (simp add: wireTerminator_def)

lemma wireTerminator_not_Nil [simp]: "wireTerminator \<noteq> []"
  by (simp add: wireTerminator_def)

function Feed :: "Decoder \<Rightarrow> gostr \<Rightarrow> DecodedFrame list \<times> Decoder" where
  "Feed d chunk =
     (if chunk = [] then ([], d)
      else if dec_discarding d then
        (case index_of wireTerminator chunk of
           None \<Rightarrow> ([], d)
         | Some index \<Rightarrow> Feed (d\<lparr>dec_discarding := False\<rparr>) (drop (index + length wireTerminator) chunk))
      else
        (case index_of wireTerminator chunk of
           None \<Rightarrow>
             if int (length (dec_buffer d)) + int (length chunk) > dec_maxBytes d
             then ([too_large_frame], d\<lparr>dec_buffer := [], dec_discarding := True\<rparr>)
             else ([], d\<lparr>dec_buffer := dec_buffer d @ chunk\<rparr>)
         | Some index \<Rightarrow>
             (let segment = take (index + length wireTerminator) chunk;
                  out = (if int (length (dec_buffer d)) + int (length segment) > dec_maxBytes d
                         then too_large_frame
                         else decoded_frame (dec_profile d) (dec_buffer d @ segment));
                  rest = Feed (d\<lparr>dec_buffer := []\<rparr>) (drop (index + length wireTerminator) chunk)
              in (out # fst rest, snd rest))))"
  by pat_completeness auto
termination
  by (relation "measure (\<lambda>(d, chunk). length chunk)") auto

declare Feed.simps [simp del]

definition Close :: "Decoder \<Rightarrow> DecodedFrame list \<times> Decoder" where
  "Close d =
     (if dec_discarding d then ([], d\<lparr>dec_discarding := False, dec_buffer := []\<rparr>)
      else if dec_buffer d = [] then ([], d)
      else ([\<lparr>dcf_Raw = dec_buffer d, dcf_Frame = None, dcf_Err = Some FrameTrailingData\<rparr>],
            d\<lparr>dec_buffer := []\<rparr>))"

text \<open>A whole connection: the chunks of its reads, in order.\<close>

abbreviation Feed_all :: "Decoder \<Rightarrow> gostr list \<Rightarrow> DecodedFrame list \<times> Decoder" where
  "Feed_all \<equiv> feed_all Feed"

subsection \<open>Bounds\<close>

definition decoder_ok :: "Decoder \<Rightarrow> bool" where
  "decoder_ok d \<longleftrightarrow>
     validProfile (dec_profile d) \<and> 3 \<le> dec_maxBytes d \<and>
     int (length (dec_buffer d)) \<le> dec_maxBytes d \<and>
     (dec_discarding d \<longrightarrow> dec_buffer d = [])"

lemma NewDecoder_ok: "NewDecoder p n = Inr d \<Longrightarrow> decoder_ok d"
  by (auto simp: NewDecoder_def decoder_ok_def split: if_splits)

lemma Feed_ok: "decoder_ok d \<Longrightarrow> decoder_ok (snd (Feed d chunk))"
proof (induction d chunk rule: Feed.induct)
  case (1 d chunk)
  then show ?case
    by (subst Feed.simps) (auto simp: decoder_ok_def Let_def split: option.splits)
qed

lemma Feed_raw_bound:
  "decoder_ok d \<Longrightarrow> \<forall>f\<in>set (fst (Feed d chunk)). int (length (dcf_Raw f)) \<le> dec_maxBytes d"
proof (induction d chunk rule: Feed.induct)
  case (1 d chunk)
  have raw: "dcf_Raw (decoded_frame p r) = r" for p r
    by (simp add: decoded_frame_def split: sum.splits)
  from 1 show ?case
    by (subst Feed.simps) (auto simp: decoder_ok_def Let_def too_large_frame_def raw split: option.splits)
qed

subsection \<open>Chunk boundaries\<close>

text \<open>
  The decoder looks for the two terminator bytes inside one chunk. A boundary is harmless unless it
  falls between them.
\<close>

definition splits_terminator :: "gostr \<Rightarrow> gostr \<Rightarrow> bool" where
  "splits_terminator a b \<longleftrightarrow> (\<exists>a' b'. a = a' @ [CHR ''#''] \<and> b = newline # b')"

lemma index_of_append_Some:
  "index_of wireTerminator a = Some i \<Longrightarrow> index_of wireTerminator (a @ b) = Some i"
proof (induction a arbitrary: i)
  case (Cons x a)
  show ?case
  proof (cases "has_prefix (x # a) wireTerminator")
    case True
    then obtain zs where "x # a = wireTerminator @ zs" by (auto simp: has_prefix_iff)
    then have "(x # a) @ b = wireTerminator @ (zs @ b)" by simp
    then have "has_prefix ((x # a) @ b) wireTerminator" unfolding has_prefix_iff by blast
    with True Cons.prems show ?thesis by simp
  next
    case False
    with Cons.prems have a: "a \<noteq> []" by auto
    with False have "\<not> has_prefix ((x # a) @ b) wireTerminator"
      by (cases a) (auto simp: wireTerminator_def)
    with False Cons show ?thesis by auto
  qed
qed simp

lemma index_of_append_None:
  assumes "index_of wireTerminator a = None" and "\<not> splits_terminator a b"
  shows "index_of wireTerminator (a @ b) = map_option (\<lambda>i. length a + i) (index_of wireTerminator b)"
  using assms
proof (induction a)
  case Nil
  then show ?case by (simp add: option.map_ident)
next
  case (Cons x a)
  have nostart: "\<not> has_prefix ((x # a) @ b) wireTerminator"
  proof
    assume "has_prefix ((x # a) @ b) wireTerminator"
    then obtain z where z: "x # a @ b = CHR ''#'' # newline # z"
      by (auto simp: has_prefix_iff wireTerminator_def)
    show False
    proof (cases a)
      case Nil
      with z Cons.prems(2) show False by (auto simp: splits_terminator_def)
    next
      case (Cons y a')
      with z Cons.prems(1) show False
        by (auto simp: has_prefix_iff wireTerminator_def split: if_splits)
    qed
  qed
  from Cons.prems(2) have "\<not> splits_terminator a b"
    by (auto simp: splits_terminator_def)
  moreover from Cons.prems(1) have "index_of wireTerminator a = None" by (simp split: if_splits)
  ultimately show ?case
    using Cons.IH nostart by (simp add: option.map_comp o_def)
qed

lemma splits_terminator_drop:
  "i < length a \<Longrightarrow> splits_terminator (drop i a) b \<Longrightarrow> splits_terminator a b"
  by (auto simp: splits_terminator_def) (metis append.assoc append_take_drop_id)

lemma Feed_Nil [simp]: "Feed d [] = ([], d)"
  by (subst Feed.simps) simp

lemma not_discarding_update [simp]:
  "\<not> dec_discarding d \<Longrightarrow> d\<lparr>dec_buffer := x, dec_discarding := False\<rparr> = d\<lparr>dec_buffer := x\<rparr>"
  by (cases d) simp

lemma Feed_append:
  "\<not> splits_terminator a b \<Longrightarrow>
   Feed d (a @ b) =
     (fst (Feed d a) @ fst (Feed (snd (Feed d a)) b), snd (Feed (snd (Feed d a)) b))"
proof (induction d a rule: Feed.induct)
  case (1 d a)
  show ?case
  proof (cases "a = [] \<or> b = []")
    case True
    then show ?thesis by auto
  next
    case False
    then have ne: "a \<noteq> []" "b \<noteq> []" by auto
    show ?thesis
    proof (cases "index_of wireTerminator a")
      case None
      note app = index_of_append_None [OF None "1.prems"]
      show ?thesis
      proof (cases "index_of wireTerminator b")
        case bNone: None
        then show ?thesis using ne None app
          by (auto simp: Feed.simps [of d "a @ b"] Feed.simps [of d a] Feed.simps [of _ b])
      next
        case (Some j)
        then show ?thesis using ne None app
          by (auto simp: Feed.simps [of d "a @ b"] Feed.simps [of d a] Feed.simps [of _ b] Let_def)
      qed
    next
      case (Some i)
      let ?k = "i + length wireTerminator"
      have k: "?k \<le> length a" using index_of_Some_le [OF Some] .
      have nos: "\<not> splits_terminator (drop ?k a) b"
        using splits_terminator_drop [of ?k a b] "1.prems"
        by (cases "?k < length a") (auto simp: splits_terminator_def)
      show ?thesis
      proof (cases "dec_discarding d")
        case True
        with "1.IH"(1) [OF ne(1) True Some nos] show ?thesis
          using ne Some index_of_append_Some [OF Some, of b] k
          by (auto simp: Feed.simps [of d "a @ b"] Feed.simps [of d a])
      next
        case False
        with "1.IH"(2) [OF ne(1) False Some refl refl nos] show ?thesis
          using ne Some index_of_append_Some [OF Some, of b] k
          by (auto simp: Feed.simps [of d "a @ b"] Feed.simps [of d a] Let_def)
      qed
    qed
  qed
qed

abbreviation clean_boundaries :: "gostr list \<Rightarrow> bool" where
  "clean_boundaries \<equiv> all_cuts (\<lambda>a b. \<not> splits_terminator a b)"

interpretation omni: stream_reader_inv Feed "\<lambda>a b. \<not> splits_terminator a b" decoder_ok
  by unfold_locales (auto simp: Feed_append Feed_ok)

text \<open>
  Framing does not depend on how TCP cut the stream: if no read ends between the two bytes of a
  terminator, feeding the chunks one by one gives the frames, and the final state, of feeding the
  whole stream at once.
\<close>

theorem Feed_all_concat:
  assumes "clean_boundaries chunks"
  shows "Feed_all d chunks = Feed d (concat chunks)"
  using assms by (rule omni.chunks_concat)

theorem Feed_all_concat_witness:
  "Feed_all \<lparr>dec_profile = ProviderProfileOmniIoTV135, dec_maxBytes = 128, dec_buffer = [], dec_discarding = False\<rparr>
     [''*SC'', ''OR'']
   = Feed \<lparr>dec_profile = ProviderProfileOmniIoTV135, dec_maxBytes = 128, dec_buffer = [], dec_discarding = False\<rparr>
     ''*SCOR''"
  using Feed_all_concat [of "[''*SC'', ''OR'']"
      "\<lparr>dec_profile = ProviderProfileOmniIoTV135, dec_maxBytes = 128, dec_buffer = [], dec_discarding = False\<rparr>"]
  by (simp add: splits_terminator_def newline_def)

subsection \<open>The frames of a stream\<close>

definition idle :: "Decoder \<Rightarrow> bool" where
  "idle d \<longleftrightarrow> dec_buffer d = [] \<and> \<not> dec_discarding d"

definition framed :: "gostr \<Rightarrow> int \<Rightarrow> gostr \<Rightarrow> DecodedFrame" where
  "framed p n body =
     (if int (length body) + 2 > n then too_large_frame else decoded_frame p (body @ wireTerminator))"

lemma index_of_body: "CHR ''#'' \<notin> set body \<Longrightarrow> index_of wireTerminator (body @ wireTerminator @ rest) = Some (length body)"
proof (induction body)
  case Nil
  then show ?case by (cases "wireTerminator @ rest") (auto simp: wireTerminator_def)
next
  case (Cons x body)
  then have "\<not> has_prefix ((x # body) @ wireTerminator @ rest) wireTerminator"
    by (auto simp: wireTerminator_def)
  with Cons show ?case by simp
qed

lemma Feed_frame:
  assumes "idle d" and "CHR ''#'' \<notin> set body"
  shows "Feed d (body @ wireTerminator @ rest) =
    (framed (dec_profile d) (dec_maxBytes d) body # fst (Feed d rest), snd (Feed d rest))"
proof -
  have same: "d\<lparr>dec_buffer := []\<rparr> = d" using assms(1) by (cases d) (simp add: idle_def)
  have b: "dec_buffer d = []" "\<not> dec_discarding d" using assms(1) by (auto simp: idle_def)
  show ?thesis
    by (subst Feed.simps) (simp add: b same framed_def Let_def index_of_body [OF assms(2)] algebra_simps)
qed

text \<open>
  C38. The frames of a stream: fed a concatenation of terminated bodies, an idle decoder returns one
  result per body, in order, each the parse of that body or a too-large error, and is idle again.
  An oversized frame costs only itself.
\<close>

theorem Feed_stream:
  assumes "idle d" and "\<forall>b\<in>set bodies. CHR ''#'' \<notin> set b"
  shows "Feed d (concat (map (\<lambda>b. b @ wireTerminator) bodies)) =
    (map (framed (dec_profile d) (dec_maxBytes d)) bodies, d)"
  using assms(2)
proof (induction bodies)
  case (Cons b bs)
  then show ?case using Feed_frame [OF assms(1), of b] by simp
qed simp

theorem Feed_stream_witness:
  "Feed \<lparr>dec_profile = ProviderProfileOmniIoTV135, dec_maxBytes = 128, dec_buffer = [], dec_discarding = False\<rparr>
     (concat (map (\<lambda>b. b @ wireTerminator) [''ab'', ''c''])) =
   (map (framed ProviderProfileOmniIoTV135 128) [''ab'', ''c''],
    \<lparr>dec_profile = ProviderProfileOmniIoTV135, dec_maxBytes = 128, dec_buffer = [], dec_discarding = False\<rparr>)"
  using Feed_stream [of "\<lparr>dec_profile = ProviderProfileOmniIoTV135, dec_maxBytes = 128, dec_buffer = [], dec_discarding = False\<rparr>"
      "[''ab'', ''c'']"]
  by (simp add: idle_def)

text \<open>
  C39. Memory: however the peer sends, the decoder of an accepted configuration buffers at most
  \<open>maxBytes\<close> bytes, buffers nothing while it discards, and returns no frame longer than that.
\<close>

theorem decoder_memory_bound:
  assumes "NewDecoder p n = Inr d"
  shows "let d' = snd (Feed_all d chunks) in
    int (length (dec_buffer d')) \<le> dec_maxBytes d' \<and> (dec_discarding d' \<longrightarrow> dec_buffer d' = []) \<and>
    (\<forall>f\<in>set (fst (Feed d' chunk)). int (length (dcf_Raw f)) \<le> dec_maxBytes d')"
  using omni.chunks_inv [OF NewDecoder_ok [OF assms], of chunks] Feed_raw_bound
  by (auto simp: Let_def decoder_ok_def)

theorem decoder_memory_bound_witness:
  "let d' = snd (Feed_all \<lparr>dec_profile = ProviderProfileOmniIoTV135, dec_maxBytes = 3, dec_buffer = [], dec_discarding = False\<rparr>
      [''abcd'', ''x'']) in
    int (length (dec_buffer d')) \<le> dec_maxBytes d' \<and> (dec_discarding d' \<longrightarrow> dec_buffer d' = []) \<and>
    (\<forall>f\<in>set (fst (Feed d' ''ab'')). int (length (dcf_Raw f)) \<le> dec_maxBytes d')"
  by (rule decoder_memory_bound [of ProviderProfileOmniIoTV135 3])
    (simp add: NewDecoder_def)

text \<open>
  Between the two bytes of a terminator the stream is misread: the byte search looks at the new
  chunk only, so a terminator whose bytes arrive in different reads is never found.
\<close>

lemma Feed_unterminated:
  assumes "\<not> dec_discarding d" and "index_of wireTerminator c = None"
    and "int (length (dec_buffer d)) + int (length c) \<le> dec_maxBytes d"
  shows "Feed d c = ([], d\<lparr>dec_buffer := dec_buffer d @ c\<rparr>)"
  using assms by (cases "c = []"; subst Feed.simps) auto

lemma render_frame_body:
  assumes "wf_frame p f"
  shows "\<exists>t. render_frame p f = (CHR ''*'' # t) @ wireTerminator \<and> CHR ''#'' \<notin> set (CHR ''*'' # t)"
proof -
  obtain t where t: "join_with '','' (frame_parts p f) = CHR ''*'' # t" using hd_joined_parts by blast
  moreover have "list_all frame_byte_ok (CHR ''*'' # t)"
    using joined_bytes_ok [OF wf_frame_parts [OF assms]] t by simp
  ultimately show ?thesis by (auto simp: render_frame_def list_all_iff frame_byte_ok_def)
qed

lemma ParseFrame_two_frames:
  assumes f: "wf_frame p f" and g: "wf_frame p g"
  shows "ParseFrame p (render_frame p f @ render_frame p g) = Inl FrameTrailingData"
proof -
  obtain t where t: "render_frame p f = (CHR ''*'' # t) @ wireTerminator"
    using render_frame_body [OF f] by blast
  obtain u where u: "render_frame p g = u @ wireTerminator"
    using render_frame_body [OF g] by blast
  have "index_of wireTerminator ((CHR ''*'' # t) @ wireTerminator @ u) \<noteq> None"
    using index_of_None_iff [OF wireTerminator_not_Nil] by metis
  then have idx: "index_of wireTerminator (CHR ''*'' # t @ wireTerminator @ u) \<noteq> None" by simp
  have p: "validProfile p" using f by (simp add: wf_frame_def)
  have suf: "has_suffix (CHR ''*'' # t @ wireTerminator @ u @ wireTerminator) wireTerminator"
    unfolding has_suffix_iff by (metis append.assoc append_Cons)
  have pre: "\<not> has_prefix (CHR ''*'' # t @ wireTerminator @ u @ wireTerminator) downlinkPrefix"
    by (simp add: downlinkPrefix_def)
  have body: "take (length (t @ wireTerminator @ u @ wireTerminator) - 1) (CHR ''*'' # t @ wireTerminator @ u @ wireTerminator)
      = CHR ''*'' # t @ wireTerminator @ u"
    by (simp add: take_Cons')
  show ?thesis
    unfolding ParseFrame_def t u Let_def using p suf pre idx body
    by (auto simp: take_Cons' split: if_splits)
qed

lemma butlast_two [simp]: "butlast (xs @ [a, b]) = xs @ [a]"
  by (induction xs) auto

lemma Feed_render:
  assumes d: "idle d" and f: "wf_frame (dec_profile d) f"
    and fits: "int (length (render_frame (dec_profile d) f)) \<le> dec_maxBytes d"
  shows "Feed d (render_frame (dec_profile d) f) =
      ([\<lparr>dcf_Raw = render_frame (dec_profile d) f, dcf_Frame = Some f, dcf_Err = None\<rparr>], d)"
proof -
  obtain t where t: "render_frame (dec_profile d) f = (CHR ''*'' # t) @ wireTerminator"
    "CHR ''#'' \<notin> set (CHR ''*'' # t)"
    using render_frame_body [OF f] by blast
  show ?thesis
    using Feed_frame [OF d t(2), of "[]"] fits t(1) ParseFrame_render [OF f]
    by (simp add: framed_def decoded_frame_def)
qed

lemma Feed_split_terminator:
  assumes d: "idle d" and f: "wf_frame (dec_profile d) f" and g: "wf_frame (dec_profile d) g"
    and fits: "int (length (render_frame (dec_profile d) f) + length (render_frame (dec_profile d) g)) \<le> dec_maxBytes d"
  shows "Feed_all d [butlast (render_frame (dec_profile d) f), [newline], render_frame (dec_profile d) g] =
      ([\<lparr>dcf_Raw = render_frame (dec_profile d) f @ render_frame (dec_profile d) g, dcf_Frame = None,
        dcf_Err = Some FrameTrailingData\<rparr>], d)"
proof -
  let ?p = "dec_profile d"
  have b: "dec_buffer d = []" "\<not> dec_discarding d" using d by (auto simp: idle_def)
  have same: "d\<lparr>dec_buffer := []\<rparr> = d" using b by (cases d) simp
  obtain t where t: "render_frame ?p f = (CHR ''*'' # t) @ wireTerminator" "CHR ''#'' \<notin> set (CHR ''*'' # t)"
    using render_frame_body [OF f] by blast
  obtain u where u: "render_frame ?p g = (CHR ''*'' # u) @ wireTerminator" "CHR ''#'' \<notin> set (CHR ''*'' # u)"
    using render_frame_body [OF g] by blast
  have wt: "wireTerminator = [CHR ''#'', newline]" by (simp add: wireTerminator_def newline_def)
  have bl: "butlast (render_frame ?p f) = (CHR ''*'' # t) @ [CHR ''#'']"
    unfolding t(1) wt by (rule butlast_two)
  have i1: "index_of wireTerminator (butlast (render_frame ?p f)) = None"
    by (subst index_of_None_iff)
      (use t(2) in \<open>auto simp: bl wt newline_def append_eq_append_conv2 Cons_eq_append_conv append_eq_Cons_conv\<close>)
  have s1: "Feed d (butlast (render_frame ?p f)) = ([], d\<lparr>dec_buffer := butlast (render_frame ?p f)\<rparr>)"
    using Feed_unterminated [OF b(2) i1] b fits by simp
  have i2: "index_of wireTerminator [newline] = None"
    by (simp add: wt newline_def)
  have joined: "butlast (render_frame ?p f) @ [newline] = render_frame ?p f"
    by (simp add: bl t(1) wt)
  have len: "0 < length (render_frame ?p f)" by (simp add: t(1))
  have s2: "Feed (d\<lparr>dec_buffer := butlast (render_frame ?p f)\<rparr>) [newline] =
      ([], d\<lparr>dec_buffer := render_frame ?p f\<rparr>)"
    using Feed_unterminated [OF _ i2, of "d\<lparr>dec_buffer := butlast (render_frame ?p f)\<rparr>"] b fits len joined
    by simp
  have "index_of wireTerminator (render_frame ?p g) = Some (length (CHR ''*'' # u))"
    using index_of_body [OF u(2), of "[]"] u(1) by simp
  then have s3: "Feed (d\<lparr>dec_buffer := render_frame ?p f\<rparr>) (render_frame ?p g) =
      ([decoded_frame ?p (render_frame ?p f @ render_frame ?p g)], d)"
    using b fits u(1) by (subst Feed.simps) (simp add: Let_def same)
  show ?thesis
    using ParseFrame_two_frames [OF f g] by (simp add: s1 s2 s3 decoded_frame_def)
qed

text \<open>
  C40. A terminator cut between two reads loses two frames. In one read, a well-formed frame is
  decoded. With its last byte in a read of its own it yields nothing and stays in the buffer, and the
  next well-formed frame then comes out, with the first, as one trailing-data error.
\<close>

theorem split_terminator_loses_frames:
  assumes "idle d" and "wf_frame (dec_profile d) f" and "wf_frame (dec_profile d) g"
    and "int (length (render_frame (dec_profile d) f) + length (render_frame (dec_profile d) g)) \<le> dec_maxBytes d"
  shows "Feed d (render_frame (dec_profile d) f) =
      ([\<lparr>dcf_Raw = render_frame (dec_profile d) f, dcf_Frame = Some f, dcf_Err = None\<rparr>], d) \<and>
    Feed_all d [butlast (render_frame (dec_profile d) f), [newline], render_frame (dec_profile d) g] =
      ([\<lparr>dcf_Raw = render_frame (dec_profile d) f @ render_frame (dec_profile d) g, dcf_Frame = None,
        dcf_Err = Some FrameTrailingData\<rparr>], d)"
  using Feed_render [OF assms(1,2)] Feed_split_terminator [OF assms] assms(4) by simp

theorem split_terminator_loses_frames_witness:
  "Feed_all \<lparr>dec_profile = ProviderProfileOmniIoTV135, dec_maxBytes = 1024, dec_buffer = [], dec_discarding = False\<rparr>
     [butlast (render_frame ProviderProfileOmniIoTV135 sample_iot_frame), [newline],
      render_frame ProviderProfileOmniIoTV135 sample_iot_frame] =
   ([\<lparr>dcf_Raw = render_frame ProviderProfileOmniIoTV135 sample_iot_frame @
        render_frame ProviderProfileOmniIoTV135 sample_iot_frame, dcf_Frame = None,
      dcf_Err = Some FrameTrailingData\<rparr>],
    \<lparr>dec_profile = ProviderProfileOmniIoTV135, dec_maxBytes = 1024, dec_buffer = [], dec_discarding = False\<rparr>)"
  using split_terminator_loses_frames [of
      "\<lparr>dec_profile = ProviderProfileOmniIoTV135, dec_maxBytes = 1024, dec_buffer = [], dec_discarding = False\<rparr>"
      sample_iot_frame sample_iot_frame]
  by (simp add: idle_def sample_iot_frame_wf length_sample_iot_frame)

end
