(* ===== verification/Store.thy ===== *)
theory Store
  imports Domain
begin

text \<open>
  The persistence boundary of \<open>internal/storage/repository\<close>: the tables, what one SQL statement does
  to them, and \<open>WithinTransaction\<close> (\<open>postgres_project_device.go\<close>).

  A repository call is a function of type \<open>'a tx\<close>: from a world to a Go error or a value, and the
  world afterwards. The world holds the tables, the transaction's \<open>now()\<close>, the process clock with
  the ticks it will make, the random bytes it will read, what it has put on the network (each entry a
  peer and the bytes sent to it, in order), and a schedule of faults: each SQL statement,
  each begin and each commit takes the next entry of the schedule, so a theorem about every world is
  a theorem about every pattern of driver failures. \<open>StatementLost\<close> is a statement, begin or commit
  that did not happen; \<open>ReplyLost\<close> at a commit is one that happened but whose reply was lost.

  Transactions are serial: the row locks the code takes (\<open>FOR UPDATE\<close>, \<open>SKIP LOCKED\<close>) are what makes
  them so, and interleavings of the program's concurrent actors are interleavings of transactions.
  The unique indexes and the CHECK constraints on Commands, Attempts and Results are those of
  \<open>internal/storage/migrations\<close>; the other CHECK constraints, foreign keys and triggers are not
  modelled (a violation is a fault of the schedule).
\<close>

named_theorems run_simps "success of a transaction step, as an equation on worlds"

datatype goerr =
    ErrNoRows
  | ErrUniqueViolation gostr
  | ErrCheckViolation gostr
  | ErrForeignKeyViolation gostr
  | ErrDriver gostr
  | ErrWrapped gostr goerr
  | ErrInvalidRepositoryRequest
  | ErrProviderRequestKeyConflict
  | ErrWebhookEventNotFound
  | ErrWebhookDeliveryNotFound
  | ErrWebhookDeliveryNotDead
  | ErrWebhookNotConfigured
  | ErrCommandResultConflict
  | ErrUnexpectedEOF
  | ErrInvalidConfig
  | ErrLeaseLost
  | ErrRuntimeState
  | ErrInvalidResult
  | ErrCommandMissing
  | ErrResultConflict
  | ErrInvalidRequest
  | ErrProjectNotFound
  | ErrDeviceNotFound
  | ErrDeviceDisabled
  | ErrDeviceNotOnline
  | ErrCapabilityUnsupported
  | ErrPayloadInvalid
  | ErrProviderNotConfigured
  | ErrProviderActionUnsupported
  | ErrProviderMappingUnknown
  | ErrCommandNotFound
  | ErrIdempotencyKeyConflict
  | ErrCommandNotCancellable
  | ErrIdentifierGeneration
  | ErrConcurrentWrite
  | ErrVersionChanged
  | ErrWebhookSecretNotFound
  | ErrWebhookSecretDecryption
  | ErrTargetRejected
  | ErrAuthenticationFailed
  | ErrSourceIPNotAllowed
  | ErrStoredWhitelistInvalid
  | ErrCredentialGeneration
  | ErrEncryptionConfiguration
  | ErrForbidden
  | ErrManagerNotFound
  | ErrManagerInactive
  | ErrTransferRetry
  | ErrResourceNotFound
  | ErrDeviceTypeNotFound
  | ErrProviderNotFound
  | ErrProviderProfileNotFound
  | ErrProviderDeviceConflict
  | ErrDeviceImmutable
  | ErrLifecycleTransition
  | ErrUserNotFound
  | ErrEmailConflict
  | ErrSuperAdminImmutable
  | ErrUserHasManagedProjects
  | ErrOther gostr

fun errors_Is :: "goerr \<Rightarrow> goerr \<Rightarrow> bool" where
  "errors_Is (ErrWrapped m e) t = (ErrWrapped m e = t \<or> errors_Is e t)"
| "errors_Is e t = (e = t)"

datatype fault = StatementLost gostr | ReplyLost gostr

record db =
  tbl_projects :: "Project list"
  tbl_devices :: "Device list"
  tbl_commands :: "Command list"
  tbl_attempts :: "CommandAttempt list"
  tbl_results :: "CommandResult list"
  tbl_messages :: "RawMessage list"
  tbl_events :: "Event list"
  tbl_deliveries :: "WebhookDelivery list"
  tbl_delivery_attempts :: "WebhookDeliveryAttempt list"
  tbl_audits :: "AuditLog list"
  tbl_secrets :: "WebhookSecretVersion list"
  tbl_device_types :: "DeviceType list"
  tbl_profiles :: "DeviceTypeProfile list"
  tbl_states :: "DeviceState list"
  tbl_simulator :: "SimulatorConfig list"
  tbl_users :: "User list"

record world =
  w_db :: db
  w_now :: instant
  w_clock :: instant
  w_ticks :: "int list"
  w_faults :: "fault option list"
  w_random :: "8 word list"
  w_net :: "(gostr \<times> gostr) list"

type_synonym 'a tx = "world \<Rightarrow> (goerr + 'a) \<times> world"

subsection \<open>Sequencing\<close>

definition ret :: "'a \<Rightarrow> 'a tx" where "ret x w = (Inr x, w)"
definition fail :: "goerr \<Rightarrow> 'a tx" where "fail e w = (Inl e, w)"

definition bnd :: "'a tx \<Rightarrow> ('a \<Rightarrow> 'b tx) \<Rightarrow> 'b tx" where
  "bnd m f w = (case m w of (Inl e, w1) \<Rightarrow> (Inl e, w1) | (Inr x, w1) \<Rightarrow> f x w1)"

text \<open>
  Go's \<open>if errors.Is(err, sql.ErrNoRows) { none }; if err != nil { return err }; some\<close>.
\<close>

definition on_row :: "'a tx \<Rightarrow> 'b tx \<Rightarrow> ('a \<Rightarrow> 'b tx) \<Rightarrow> 'b tx" where
  "on_row m none some w =
     (case m w of
        (Inl e, w1) \<Rightarrow> if errors_Is e ErrNoRows then none w1 else (Inl e, w1)
      | (Inr x, w1) \<Rightarrow> some x w1)"

definition map_error :: "(goerr \<Rightarrow> goerr) \<Rightarrow> 'a tx \<Rightarrow> 'a tx" where
  "map_error g m w = (case m w of (Inl e, w1) \<Rightarrow> (Inl (g e), w1) | (Inr x, w1) \<Rightarrow> (Inr x, w1))"

definition lift_result :: "goerr + 'a \<Rightarrow> 'a tx" where
  "lift_result r = (case r of Inl e \<Rightarrow> fail e | Inr x \<Rightarrow> ret x)"

definition check :: "bool \<Rightarrow> goerr \<Rightarrow> unit tx" where
  "check b e = (if b then ret () else fail e)"

text \<open>The next fault of the schedule; an exhausted schedule has no more.\<close>

definition next_fault :: "world \<Rightarrow> fault option" where
  "next_fault w = (case w_faults w of [] \<Rightarrow> None | f # _ \<Rightarrow> f)"

definition consume :: "world \<Rightarrow> world" where
  "consume w = w\<lparr>w_faults := tl (w_faults w)\<rparr>"

fun fault_error :: "fault \<Rightarrow> goerr" where
  "fault_error (StatementLost m) = ErrDriver m"
| "fault_error (ReplyLost m) = ErrDriver m"

definition sql :: "(instant \<Rightarrow> db \<Rightarrow> goerr + ('a \<times> db)) \<Rightarrow> 'a tx" where
  "sql q w =
     (case next_fault w of
        Some f \<Rightarrow> (Inl (fault_error f), consume w)
      | None \<Rightarrow>
          (case q (w_now w) (w_db w) of
             Inl e \<Rightarrow> (Inl e, consume w)
           | Inr (x, d) \<Rightarrow> (Inr x, (consume w)\<lparr>w_db := d\<rparr>)))"

definition query :: "(instant \<Rightarrow> db \<Rightarrow> goerr + 'a) \<Rightarrow> 'a tx" where
  "query q = sql (\<lambda>t d. case q t d of Inl e \<Rightarrow> Inl e | Inr x \<Rightarrow> Inr (x, d))"

text \<open>
  \<open>QueryRow(...).Scan\<close> of the columns \<open>col\<close> of the row of a table that satisfies a condition, and
  of the first row in an order (\<open>ORDER BY ... LIMIT 1\<close>).
\<close>

definition select_row :: "(db \<Rightarrow> 'r list) \<Rightarrow> (instant \<Rightarrow> 'r \<Rightarrow> bool) \<Rightarrow> (instant \<Rightarrow> 'r \<Rightarrow> 'c) \<Rightarrow> 'c tx" where
  "select_row tbl p col =
     query (\<lambda>t d. case find (p t) (tbl d) of None \<Rightarrow> Inl ErrNoRows | Some r \<Rightarrow> Inr (col t r))"

definition query_row :: "(db \<Rightarrow> 'r list) \<Rightarrow> (instant \<Rightarrow> 'r \<Rightarrow> bool) \<Rightarrow> 'r tx" where
  "query_row tbl p = select_row tbl p (\<lambda>t r. r)"

definition select_first ::
  "(db \<Rightarrow> 'r list) \<Rightarrow> (instant \<Rightarrow> db \<Rightarrow> 'r \<Rightarrow> bool) \<Rightarrow> ('r \<Rightarrow> 'k::linorder) \<Rightarrow> 'r tx" where
  "select_first tbl p key =
     query (\<lambda>t d. case first_by key (filter (p t d) (tbl d)) of None \<Rightarrow> Inl ErrNoRows | Some r \<Rightarrow> Inr r)"

text \<open>A page of the rows that satisfy a condition, newest key first, and their number.\<close>

definition page :: "('r \<Rightarrow> 'k::linorder) \<Rightarrow> int \<Rightarrow> int \<Rightarrow> 'r list \<Rightarrow> 'r list" where
  "page key limit offset rows = take (nat limit) (drop (nat offset) (rev (sort_key key rows)))"

definition read_random :: "nat \<Rightarrow> 8 word list tx" where
  "read_random n w =
     (if length (w_random w) < n then (Inl ErrUnexpectedEOF, w\<lparr>w_random := []\<rparr>)
      else (Inr (take n (w_random w)), w\<lparr>w_random := drop n (w_random w)\<rparr>))"

definition tick :: "world \<Rightarrow> world" where
  "tick w = (case w_ticks w of [] \<Rightarrow> w | t # ts \<Rightarrow> w\<lparr>w_clock := w_clock w + t, w_ticks := ts\<rparr>)"

definition time_now :: "instant tx" where
  "time_now w = (let w1 = tick w in (Inr (w_clock w1), w1))"

definition randomUUID :: "gostr tx" where
  "randomUUID = bnd (read_random 16) (\<lambda>v. ret (uuid_text (uuid_bits v)))"

text \<open>The \<open>k\<close>-th identifier the process will draw.\<close>

definition drawn_uuid :: "nat \<Rightarrow> world \<Rightarrow> gostr" where
  "drawn_uuid k w = uuid_text (uuid_bits (take 16 (drop (16 * k) (w_random w))))"

subsection \<open>WithinTransaction\<close>

definition commit :: "db \<Rightarrow> 'a \<Rightarrow> 'a tx" where
  "commit before x w =
     (case next_fault w of
        None \<Rightarrow> (Inr x, consume w)
      | Some (StatementLost m) \<Rightarrow>
          (Inl (ErrWrapped ''commit repository transaction'' (ErrDriver m)), (consume w)\<lparr>w_db := before\<rparr>)
      | Some (ReplyLost m) \<Rightarrow>
          (Inl (ErrWrapped ''commit repository transaction'' (ErrDriver m)), consume w))"

definition WithinTransaction :: "'a tx \<Rightarrow> 'a tx" where
  "WithinTransaction fn w =
     (let w0 = tick w in
      case next_fault w0 of
        Some f \<Rightarrow> (Inl (ErrWrapped ''begin repository transaction'' (fault_error f)), consume w0)
      | None \<Rightarrow>
          (case fn ((consume w0)\<lparr>w_now := w_clock w0\<rparr>) of
             (Inl e, w1) \<Rightarrow> (Inl e, w1\<lparr>w_db := w_db w0\<rparr>)
           | (Inr x, w1) \<Rightarrow> commit (w_db w0) x w1))"

subsection \<open>Success of the steps\<close>

lemma consume_simps [simp]:
  "w_db (consume w) = w_db w" "w_now (consume w) = w_now w" "w_clock (consume w) = w_clock w"
  "w_random (consume w) = w_random w" "w_ticks (consume w) = w_ticks w" "w_net (consume w) = w_net w"
  by (simp_all add: consume_def)

lemma tick_simps [simp]:
  "w_db (tick w) = w_db w" "w_now (tick w) = w_now w" "w_faults (tick w) = w_faults w"
  "w_random (tick w) = w_random w" "w_net (tick w) = w_net w" "next_fault (tick w) = next_fault w"
  by (auto simp: tick_def next_fault_def split: list.splits)

lemma next_fault_update [simp]:
  "next_fault (w\<lparr>w_db := d\<rparr>) = next_fault w" "next_fault (w\<lparr>w_now := t\<rparr>) = next_fault w"
  "next_fault (w\<lparr>w_random := r\<rparr>) = next_fault w"
  by (simp_all add: next_fault_def)

lemma no_faults [simp]: "w_faults w = [] \<Longrightarrow> next_fault w = None"
  by (simp add: next_fault_def)

lemma faults_consume [simp]: "w_faults w = [] \<Longrightarrow> w_faults (consume w) = []"
  by (simp add: consume_def)

lemma fault_not_no_rows [simp]: "\<not> errors_Is (fault_error f) ErrNoRows"
  by (cases f) auto

lemma ret_run [run_simps]: "ret x w = (Inr y, w') \<longleftrightarrow> y = x \<and> w' = w"
  by (auto simp: ret_def)

lemma fail_run [run_simps]: "fail e w = (Inr y, w') \<longleftrightarrow> False"
  by (simp add: fail_def)

lemma bnd_run [run_simps]:
  "bnd m f w = (Inr y, w') \<longleftrightarrow> (\<exists>x w1. m w = (Inr x, w1) \<and> f x w1 = (Inr y, w'))"
  by (auto simp: bnd_def split: prod.splits sum.splits)

lemma check_run [run_simps]: "check b e w = (Inr y, w') \<longleftrightarrow> b \<and> w' = w"
  by (auto simp: check_def ret_def fail_def)

lemma lift_result_run [run_simps]: "lift_result r w = (Inr x, w') \<longleftrightarrow> r = Inr x \<and> w' = w"
  by (auto simp: lift_result_def ret_def fail_def split: sum.splits)

lemma map_error_run [run_simps]: "map_error g m w = (Inr y, w') \<longleftrightarrow> m w = (Inr y, w')"
  by (auto simp: map_error_def split: prod.splits sum.splits)

lemma sql_run [run_simps]:
  "sql q w = (Inr x, w') \<longleftrightarrow>
     next_fault w = None \<and> (\<exists>d. q (w_now w) (w_db w) = Inr (x, d) \<and> w' = (consume w)\<lparr>w_db := d\<rparr>)"
  by (auto simp: sql_def split: option.splits sum.splits prod.splits)

lemma query_run [run_simps]:
  "query q w = (Inr x, w') \<longleftrightarrow> next_fault w = None \<and> q (w_now w) (w_db w) = Inr x \<and> w' = consume w"
  unfolding query_def sql_run by (auto split: sum.splits)

lemma select_row_run [run_simps]:
  "select_row tbl p col w = (Inr x, w') \<longleftrightarrow>
     next_fault w = None \<and>
     (\<exists>r. find (p (w_now w)) (tbl (w_db w)) = Some r \<and> x = col (w_now w) r) \<and> w' = consume w"
  unfolding select_row_def query_run by (auto split: option.splits)

lemma query_row_run [run_simps]:
  "query_row tbl p w = (Inr x, w') \<longleftrightarrow>
     next_fault w = None \<and> find (p (w_now w)) (tbl (w_db w)) = Some x \<and> w' = consume w"
  unfolding query_row_def select_row_run by auto

lemma select_first_run [run_simps]:
  "select_first tbl p key w = (Inr x, w') \<longleftrightarrow>
     next_fault w = None \<and>
     first_by key (filter (p (w_now w) (w_db w)) (tbl (w_db w))) = Some x \<and> w' = consume w"
  unfolding select_first_def query_run by (auto split: option.splits)

text \<open>A step that finds no row.\<close>

definition no_rows :: "'a tx \<Rightarrow> world \<Rightarrow> world \<Rightarrow> bool" where
  "no_rows m w w' \<longleftrightarrow> (\<exists>e. m w = (Inl e, w') \<and> errors_Is e ErrNoRows)"

lemma no_rows_bnd [run_simps]:
  "no_rows (bnd m f) w w' \<longleftrightarrow> no_rows m w w' \<or> (\<exists>x w1. m w = (Inr x, w1) \<and> no_rows (f x) w1 w')"
  by (auto simp: no_rows_def bnd_def split: prod.splits sum.splits)

lemma no_rows_ret [run_simps]: "no_rows (ret x) w w' \<longleftrightarrow> False"
  by (simp add: no_rows_def ret_def)

lemma no_rows_fail [run_simps]: "no_rows (fail e) w w' \<longleftrightarrow> errors_Is e ErrNoRows \<and> w' = w"
  by (auto simp: no_rows_def fail_def)

lemma no_rows_query:
  "no_rows (query q) w w' \<longleftrightarrow>
     next_fault w = None \<and> (\<exists>e. q (w_now w) (w_db w) = Inl e \<and> errors_Is e ErrNoRows) \<and> w' = consume w"
  by (auto simp: no_rows_def query_def sql_def split: option.splits sum.splits)

lemma no_rows_select [run_simps]:
  "no_rows (select_row tbl p col) w w' \<longleftrightarrow>
     next_fault w = None \<and> find (p (w_now w)) (tbl (w_db w)) = None \<and> w' = consume w"
  unfolding select_row_def no_rows_query by (auto split: option.splits)

lemma no_rows_query_row [run_simps]:
  "no_rows (query_row tbl p) w w' \<longleftrightarrow>
     next_fault w = None \<and> find (p (w_now w)) (tbl (w_db w)) = None \<and> w' = consume w"
  unfolding query_row_def no_rows_select by simp

lemma no_rows_select_first [run_simps]:
  "no_rows (select_first tbl p key) w w' \<longleftrightarrow>
     next_fault w = None \<and> filter (p (w_now w) (w_db w)) (tbl (w_db w)) = [] \<and> w' = consume w"
  unfolding select_first_def no_rows_query by (auto simp: first_by_None first_by_None [THEN iffD2] split: option.splits)

lemma on_row_run [run_simps]:
  "on_row m n s w = (Inr y, w') \<longleftrightarrow>
     (\<exists>x w1. m w = (Inr x, w1) \<and> s x w1 = (Inr y, w')) \<or>
     (\<exists>w1. no_rows m w w1 \<and> n w1 = (Inr y, w'))"
  by (auto simp: on_row_def no_rows_def split: prod.splits sum.splits)

lemma no_rows_on_row [run_simps]:
  "no_rows (on_row m n s) w w' \<longleftrightarrow>
     (\<exists>x w1. m w = (Inr x, w1) \<and> no_rows (s x) w1 w') \<or>
     (\<exists>w1. no_rows m w w1 \<and> no_rows n w1 w')"
  by (auto simp: on_row_def no_rows_def split: prod.splits sum.splits)

lemma read_random_run [run_simps]:
  "read_random n w = (Inr v, w') \<longleftrightarrow>
     n \<le> length (w_random w) \<and> v = take n (w_random w) \<and> w' = w\<lparr>w_random := drop n (w_random w)\<rparr>"
  by (auto simp: read_random_def)

lemma time_now_run [run_simps]: "time_now w = (Inr t, w') \<longleftrightarrow> t = w_clock (tick w) \<and> w' = tick w"
  by (auto simp: time_now_def Let_def)

lemma randomUUID_run [run_simps]:
  "randomUUID w = (Inr u, w') \<longleftrightarrow> 16 \<le> length (w_random w) \<and>
     u = uuid_text (uuid_bits (take 16 (w_random w))) \<and> w' = w\<lparr>w_random := drop 16 (w_random w)\<rparr>"
  unfolding randomUUID_def by (auto simp: run_simps)

lemma bnd_Inr: "m w = (Inr x, w1) \<Longrightarrow> bnd m f w = f x w1"
  by (simp add: bnd_def)

lemma bnd_time: "bnd time_now f w = f (w_clock (tick w)) (tick w)"
  by (simp add: bnd_def time_now_def Let_def)

lemma query_row_answers:
  "w_faults w = [] \<Longrightarrow> (\<exists>x. query_row tbl p w = (Inr x, consume w)) \<or> query_row tbl p w = (Inl ErrNoRows, consume w)"
  by (auto simp: query_row_def select_row_def query_def sql_def split: option.splits sum.splits)

subsection \<open>Atomicity\<close>

definition started :: "world \<Rightarrow> world" where
  "started w = (consume (tick w))\<lparr>w_now := w_clock (tick w)\<rparr>"

lemma started_simps [simp]: "w_db (started w) = w_db w" "w_random (started w) = w_random w"
  by (simp_all add: started_def)

lemma WithinTransaction_begin_fault:
  "next_fault w = Some f \<Longrightarrow> \<exists>e. WithinTransaction fn w = (Inl e, consume (tick w))"
  by (simp add: WithinTransaction_def Let_def)

lemma WithinTransaction_error:
  "next_fault w = None \<Longrightarrow> fn (started w) = (Inl e, w1) \<Longrightarrow>
   WithinTransaction fn w = (Inl e, w1\<lparr>w_db := w_db w\<rparr>)"
  by (simp add: WithinTransaction_def Let_def started_def)

lemma WithinTransaction_commit:
  "next_fault w = None \<Longrightarrow> fn (started w) = (Inr x, w1) \<Longrightarrow>
   WithinTransaction fn w = commit (w_db w) x w1"
  by (simp add: WithinTransaction_def Let_def started_def)

text \<open>
  A transaction that returns a value has committed exactly what its body did; one that returns an
  error has changed nothing, unless it is the commit's own reply that was lost.
\<close>

lemma WithinTransaction_cases:
  obtains (committed) x w1 where "fn (started w) = (Inr x, w1)"
      "WithinTransaction fn w = (Inr x, consume w1)" "next_fault w1 = None"
  | (lost) x w1 m where "fn (started w) = (Inr x, w1)" "next_fault w1 = Some (ReplyLost m)"
      "WithinTransaction fn w = (Inl (ErrWrapped ''commit repository transaction'' (ErrDriver m)), consume w1)"
  | (unchanged) e w1 where "WithinTransaction fn w = (Inl e, w1)" "w_db w1 = w_db w"
proof (cases "next_fault w")
  case (Some f)
  then show ?thesis using unchanged WithinTransaction_begin_fault [OF Some, of fn] by auto
next
  case None
  show ?thesis
  proof (cases "fn (started w)")
    case (Pair r w1)
    show ?thesis
    proof (cases r)
      case (Inl e)
      with Pair have "fn (started w) = (Inl e, w1)" by simp
      from WithinTransaction_error [of w fn e w1, OF None this] show ?thesis using unchanged by auto
    next
      case (Inr x)
      with Pair have run: "fn (started w) = (Inr x, w1)" by simp
      note c = WithinTransaction_commit [of w fn x w1, OF None run]
      show ?thesis
      proof (cases "next_fault w1")
        case None
        with c run committed show ?thesis by (simp add: commit_def)
      next
        case (Some f)
        show ?thesis
        proof (cases f)
          case (StatementLost m)
          with Some c unchanged show ?thesis by (simp add: commit_def)
        next
          case (ReplyLost m)
          with Some c run lost show ?thesis by (simp add: commit_def)
        qed
      qed
    qed
  qed
qed

lemma WithinTransaction_run [run_simps]:
  "WithinTransaction fn w = (Inr x, w') \<longleftrightarrow>
     next_fault w = None \<and> (\<exists>w1. fn (started w) = (Inr x, w1) \<and> next_fault w1 = None \<and> w' = consume w1)"
  by (auto simp: WithinTransaction_def Let_def started_def commit_def
      split: option.splits prod.splits sum.splits fault.splits)

subsection \<open>Relations between the tables before and after\<close>

text \<open>
  \<open>keeps R m\<close>: whenever \<open>m\<close> succeeds, the tables it started from and those it leaves are related.
  For a reflexive and transitive relation this composes, and a transaction satisfies it whatever it
  returns. Each history property of the program is an interpretation of \<open>db_relation\<close>.
\<close>

definition keeps :: "(db \<Rightarrow> db \<Rightarrow> bool) \<Rightarrow> 'a tx \<Rightarrow> bool" where
  "keeps R m \<longleftrightarrow> (\<forall>w x w'. m w = (Inr x, w') \<longrightarrow> R (w_db w) (w_db w'))"

definition reads :: "'a tx \<Rightarrow> bool" where
  "reads m \<longleftrightarrow> (\<forall>w. w_db (snd (m w)) = w_db w)"

lemma readsD: "reads m \<Longrightarrow> m w = (r, w') \<Longrightarrow> w_db w' = w_db w"
  by (metis reads_def snd_conv)

lemma reads_no_rows: "reads m \<Longrightarrow> no_rows m w w' \<Longrightarrow> w_db w' = w_db w"
  by (auto simp: no_rows_def dest: readsD)

lemma reads_ret [intro, simp]: "reads (ret x)"
  by (simp add: reads_def ret_def)

lemma reads_fail [intro, simp]: "reads (fail e)"
  by (simp add: reads_def fail_def)

lemma reads_check [intro, simp]: "reads (check b e)"
  by (simp add: check_def)

lemma reads_lift [intro, simp]: "reads (lift_result r)"
  by (simp add: lift_result_def split: sum.split)

lemma reads_map_error [intro]: "reads m \<Longrightarrow> reads (map_error g m)"
  by (auto simp: reads_def map_error_def split: prod.splits sum.splits) (metis snd_conv)+

lemma reads_bnd [intro]: "reads m \<Longrightarrow> (\<And>x. reads (f x)) \<Longrightarrow> reads (bnd m f)"
  by (auto simp: reads_def bnd_def split: prod.splits sum.splits) (metis snd_conv)+

lemma reads_on_row [intro]: "reads m \<Longrightarrow> reads n \<Longrightarrow> (\<And>x. reads (s x)) \<Longrightarrow> reads (on_row m n s)"
  by (auto simp: reads_def on_row_def split: prod.splits sum.splits) (metis snd_conv)+

lemma reads_query [intro, simp]: "reads (query q)"
  by (auto simp: reads_def query_def sql_def split: option.splits sum.splits prod.splits)

lemma reads_select [intro, simp]: "reads (select_row tbl p col)" "reads (query_row tbl p)"
  "reads (select_first tbl p' key)"
  by (simp_all add: select_row_def query_row_def select_first_def)

lemma reads_random [intro, simp]: "reads (read_random n)" "reads randomUUID" "reads time_now"
  by (auto simp: reads_def read_random_def randomUUID_def bnd_def ret_def time_now_def Let_def
      split: prod.splits sum.splits if_splits)

lemmas reads_intros = reads_ret reads_fail reads_check reads_lift reads_map_error reads_bnd reads_on_row
  reads_query reads_select reads_random

lemma keepsI: "(\<And>w x w'. m w = (Inr x, w') \<Longrightarrow> R (w_db w) (w_db w')) \<Longrightarrow> keeps R m"
  by (auto simp: keeps_def)

lemma keepsD: "keeps R m \<Longrightarrow> m w = (Inr x, w') \<Longrightarrow> R (w_db w) (w_db w')"
  by (auto simp: keeps_def)

text \<open>
  \<open>guards R m\<close>: whatever the call \<open>m\<close> answers, the tables it leaves are related to those it found.
\<close>

definition guards :: "(db \<Rightarrow> db \<Rightarrow> bool) \<Rightarrow> (world \<Rightarrow> 'a \<times> world) \<Rightarrow> bool" where
  "guards R m \<longleftrightarrow> (\<forall>w. R (w_db w) (w_db (snd (m w))))"

lemma guards_if: "guards R m \<Longrightarrow> guards R n \<Longrightarrow> guards R (if b then m else n)"
  by simp

lemma guards_option: "guards R n \<Longrightarrow> (\<And>x. guards R (s x)) \<Longrightarrow> guards R (case v of None \<Rightarrow> n | Some x \<Rightarrow> s x)"
  by (cases v) simp_all

lemma guards_sum: "(\<And>x. guards R (n x)) \<Longrightarrow> (\<And>x. guards R (s x)) \<Longrightarrow> guards R (case v of Inl e \<Rightarrow> n e | Inr x \<Rightarrow> s x)"
  by (cases v) simp_all

lemma guards_prod: "(\<And>x y. guards R (s x y)) \<Longrightarrow> guards R (case v of (x, y) \<Rightarrow> s x y)"
  by (cases v) simp

locale db_relation =
  fixes R :: "db \<Rightarrow> db \<Rightarrow> bool"
  assumes R_refl: "R d d"
    and R_trans: "R d1 d2 \<Longrightarrow> R d2 d3 \<Longrightarrow> R d1 d3"
begin

lemma keeps_reads: "reads m \<Longrightarrow> keeps R m"
  by (rule keepsI) (metis R_refl readsD)

lemma keeps_ret: "keeps R (ret x)"
  by (rule keeps_reads) simp

lemma keeps_fail: "keeps R (fail e)"
  by (rule keeps_reads) simp

lemma keeps_bnd: "keeps R m \<Longrightarrow> (\<And>x. keeps R (f x)) \<Longrightarrow> keeps R (bnd m f)"
  by (rule keepsI) (auto simp: bnd_run intro: R_trans dest: keepsD)

lemma keeps_on_row: "reads m \<Longrightarrow> keeps R n \<Longrightarrow> (\<And>x. keeps R (s x)) \<Longrightarrow> keeps R (on_row m n s)"
  by (rule keepsI) (fastforce simp: on_row_run dest: keepsD readsD reads_no_rows)

lemma keeps_map_error: "keeps R m \<Longrightarrow> keeps R (map_error g m)"
  by (simp add: keeps_def map_error_run)

lemma keeps_if: "keeps R m \<Longrightarrow> keeps R n \<Longrightarrow> keeps R (if b then m else n)"
  by simp

lemma transaction_related:
  assumes "keeps R fn"
  shows "R (w_db w) (w_db (snd (WithinTransaction fn w)))"
proof (cases rule: WithinTransaction_cases [of fn w])
  case (committed x w1)
  with keepsD [OF assms committed(1)] show ?thesis by simp
next
  case (lost x w1 m)
  with keepsD [OF assms lost(1)] show ?thesis by simp
next
  case (unchanged e w1)
  then show ?thesis by (simp add: R_refl)
qed

lemma keeps_option: "keeps R n \<Longrightarrow> (\<And>x. keeps R (s x)) \<Longrightarrow> keeps R (case v of None \<Rightarrow> n | Some x \<Rightarrow> s x)"
  by (cases v) simp_all

lemma keeps_sum: "(\<And>e. keeps R (n e)) \<Longrightarrow> (\<And>x. keeps R (s x)) \<Longrightarrow> keeps R (case v of Inl e \<Rightarrow> n e | Inr x \<Rightarrow> s x)"
  by (cases v) simp_all

lemma keeps_prod: "(\<And>x y. keeps R (s x y)) \<Longrightarrow> keeps R (case v of (x, y) \<Rightarrow> s x y)"
  by (cases v) simp

lemma keeps_transaction: "keeps R fn \<Longrightarrow> keeps R (WithinTransaction fn)"
  by (rule keepsI) (metis transaction_related snd_conv)

lemma guards_transaction: "keeps R fn \<Longrightarrow> guards R (WithinTransaction fn)"
  by (simp add: guards_def transaction_related)

lemma guards_reads: "reads m \<Longrightarrow> guards R m"
  by (simp add: guards_def reads_def R_refl)

lemma guards_bnd: "guards R m \<Longrightarrow> (\<And>x. guards R (f x)) \<Longrightarrow> guards R (bnd m f)"
  unfolding guards_def
proof (intro allI)
  fix w
  assume m: "\<forall>w. R (w_db w) (w_db (snd (m w)))" and f: "\<And>x. \<forall>w. R (w_db w) (w_db (snd (f x w)))"
  obtain r w1 where run: "m w = (r, w1)" by fastforce
  from m run have "R (w_db w) (w_db w1)" by (metis snd_conv)
  with f [of "projr r"] run show "R (w_db w) (w_db (snd (bnd m f w)))"
    by (cases r) (auto simp: bnd_def intro: R_trans)
qed

lemma guards_map_error: "guards R m \<Longrightarrow> guards R (map_error g m)"
  by (auto simp: guards_def map_error_def split: prod.splits sum.splits) (metis snd_conv)+

lemma guards_on_row: "reads m \<Longrightarrow> guards R n \<Longrightarrow> (\<And>x. guards R (s x)) \<Longrightarrow> guards R (on_row m n s)"
  unfolding guards_def
proof
  fix w
  assume m: "reads m" and n: "\<forall>w. R (w_db w) (w_db (snd (n w)))" and s: "\<And>x. \<forall>w. R (w_db w) (w_db (snd (s x w)))"
  obtain r w1 where run: "m w = (r, w1)" by fastforce
  with m have "w_db w1 = w_db w" by (rule readsD)
  with n [rule_format, of w1] s [of "projr r", THEN spec, of w1] R_refl [of "w_db w"] run
  show "R (w_db w) (w_db (snd (on_row m n s w)))"
    by (cases r) (auto simp: on_row_def)
qed

lemma guards_fail: "guards R (fail e)"
  by (rule guards_reads) simp

lemma guards_ret: "guards R (ret x)"
  by (rule guards_reads) simp

lemmas keeps_intros = keeps_ret keeps_fail keeps_bnd keeps_on_row keeps_map_error keeps_if keeps_option
  keeps_sum keeps_prod

end

subsection \<open>Constraints that tables share\<close>

text \<open>
  PostgreSQL's \<open>btrim\<close> removes spaces only; \<open>char_length\<close> counts the characters of a text, which is valid
  UTF-8 and holds no NUL, or the statement fails.
\<close>

definition btrim :: "gostr \<Rightarrow> gostr" where
  "btrim s = rev (dropWhile (\<lambda>c. c = CHR 0x20) (rev (dropWhile (\<lambda>c. c = CHR 0x20) s)))"

definition pg_text :: "gostr \<Rightarrow> bool" where
  "pg_text s \<longleftrightarrow> ValidString s \<and> CHR 0x00 \<notin> set s"

lemma dropWhile_hd: "(\<And>c t. s = c # t \<Longrightarrow> \<not> P c) \<Longrightarrow> dropWhile P s = s"
  by (cases s) auto

lemma btrim_TrimSpace [simp]: "btrim (TrimSpace s) = TrimSpace s"
proof -
  let ?l = "trim_left s" let ?r = "trim_left_rev (rev ?l)"
  obtain u where u: "rev ?l = u @ ?r" using trim_left_rev_suffix by blast
  then have l: "?l = rev ?r @ rev u" by (metis rev_append rev_rev_ident)
  have sp: "ascii_space (CHR 0x20)" by (simp add: ascii_space_def byte_of_def)
  have "dropWhile (\<lambda>c. c = CHR 0x20) (rev ?r) = rev ?r"
    by (rule dropWhile_hd) (metis l append_Cons sp trim_left_hd)
  moreover have "dropWhile (\<lambda>c. c = CHR 0x20) ?r = ?r"
    by (rule dropWhile_hd) (metis sp trim_left_rev_hd)
  ultimately show ?thesis by (simp add: btrim_def TrimSpace_def)
qed

definition char_length_within :: "nat \<Rightarrow> gostr \<Rightarrow> bool" where
  "char_length_within n s \<longleftrightarrow> pg_text s \<and> 1 \<le> RuneCount s \<and> RuneCount s \<le> n"

definition chk_key_text :: "nat \<Rightarrow> gostr \<Rightarrow> bool" where
  "chk_key_text n s \<longleftrightarrow> s = btrim s \<and> char_length_within n s"

text \<open>
  Which Provider, profile, Adapter and identity belong together: the common part of
  \<open>chk_devices_provider_binding\<close> and \<open>chk_device_commands_snapshot_identity\<close>.
\<close>

definition provider_pair :: "gostr \<Rightarrow> Adapter \<Rightarrow> bool" where
  "provider_pair provider adapter \<longleftrightarrow>
     (provider, adapter) \<in> {(ProviderCodeWWTIOT, AdapterWWTIOTCloudAPI), (ProviderCodeOmni, AdapterOmniDirectTCP),
       (ProviderCodeSimulator, AdapterSimulator)}"

definition provider_route :: "gostr \<Rightarrow> gostr \<Rightarrow> gostr \<Rightarrow> gostr \<Rightarrow> bool" where
  "provider_route provider profile providerDeviceID deviceID \<longleftrightarrow>
     provider = ProviderCodeWWTIOT \<and> profile = ''wwtiot-cloud-api-v2'' \<and>
       1 \<le> length providerDeviceID \<and> length providerDeviceID \<le> 128 \<and> list_all is_device_id_char providerDeviceID \<or>
     provider = ProviderCodeOmni \<and> profile \<in> {ProviderProfileOmniBikeV207, ProviderProfileOmniIoTV135} \<and>
       length providerDeviceID = 15 \<and> list_all is_digit providerDeviceID \<or>
     provider = ProviderCodeSimulator \<and> profile = ''simulator-v1'' \<and> providerDeviceID = deviceID"

end
