(* ===== verification/Command_Repo.thy ===== *)
theory Command_Repo
  imports Store "HOL-Library.Product_Lexorder"
begin

text \<open>
  The Command repository (\<open>internal/storage/repository/postgres_command_event.go\<close>): every operation
  on Commands and their Attempts, statement by statement. \<open>command_check\<close>, \<open>attempt_check\<close> and
  \<open>result_check\<close> are the CHECK constraints of the three tables as the migrations leave them; an UPDATE or
  INSERT that violates one fails, and so does an INSERT that violates a unique index or a foreign key. An
  SQL NULL makes a comparison unknown, and a constraint holds unless it is false, hence \<open>reason_in\<close>.
\<close>

subsection \<open>Constraints\<close>

definition reason_in :: "gostr option \<Rightarrow> gostr list \<Rightarrow> bool" where
  "reason_in r rs = (case r of None \<Rightarrow> True | Some x \<Rightarrow> x \<in> set rs)"

definition before_dispatch_reasons :: "gostr list" where
  "before_dispatch_reasons =
     [''provider_not_configured'', ''provider_action_unsupported'', ''provider_mapping_unknown'',
      ''provider_session_unavailable'', ''provider_request_invalid'']"

definition known_confirmation :: "ConfirmationLevel \<Rightarrow> bool" where
  "known_confirmation l \<longleftrightarrow> snd (confirmationRank l)"

definition confirmation_evidence :: "ConfirmationLevel \<Rightarrow> EvidenceStatus \<Rightarrow> bool" where
  "confirmation_evidence l e \<longleftrightarrow>
     (l = ConfirmationNone \<and> e = EvidenceNone) \<or> (l \<noteq> ConfirmationNone \<and> e \<noteq> EvidenceNone)"

definition chk_status_confirmation :: "Command \<Rightarrow> bool" where
  "chk_status_confirmation c \<longleftrightarrow>
     (case cmd_Status c of
        CommandStatusQueued \<Rightarrow> cmd_ConfirmationLevel c = ConfirmationNone \<and> cmd_EvidenceStatus c = EvidenceNone
      | CommandStatusSent \<Rightarrow> cmd_ConfirmationLevel c \<in>
          {ConfirmationNone, ConfirmationTransportSent, ConfirmationProviderAccepted}
      | CommandStatusAcked \<Rightarrow> cmd_ConfirmationLevel c \<in> {ConfirmationDeviceAcked, ConfirmationDeviceFinal} \<and>
          cmd_EvidenceStatus c = EvidenceVerified
      | CommandStatusSuccess \<Rightarrow> cmd_ConfirmationLevel c = ConfirmationDeviceFinal \<and>
          cmd_EvidenceStatus c = EvidenceVerified
      | CommandStatusOther _ \<Rightarrow> False
      | _ \<Rightarrow> True)"

definition chk_reason :: "Command \<Rightarrow> bool" where
  "chk_reason c \<longleftrightarrow>
     (case cmd_Status c of
        CommandStatusFailed \<Rightarrow> reason_in (cmd_ReasonCode c)
          (before_dispatch_reasons @ [''device_not_online'', ''provider_transport_error'', ''provider_rejected'',
            ''device_reported_failure''])
      | CommandStatusTimeout \<Rightarrow> reason_in (cmd_ReasonCode c) [''dispatch_deadline_exceeded'', ''result_observation_timeout'']
      | CommandStatusCancelled \<Rightarrow> reason_in (cmd_ReasonCode c) [''cancelled_by_request'']
      | CommandStatusOther _ \<Rightarrow> False
      | _ \<Rightarrow> cmd_ReasonCode c = None)"

definition chk_reason_evidence :: "Command \<Rightarrow> bool" where
  "chk_reason_evidence c \<longleftrightarrow>
     (case cmd_ReasonCode c of
        None \<Rightarrow> True
      | Some r \<Rightarrow>
          r \<in> set (before_dispatch_reasons @ [''device_not_online'', ''provider_transport_error'',
            ''dispatch_deadline_exceeded'', ''cancelled_by_request'']) \<and>
            cmd_ConfirmationLevel c = ConfirmationNone \<and> cmd_EvidenceStatus c = EvidenceNone \<or>
          r = ''provider_rejected'' \<and> cmd_ConfirmationLevel c = ConfirmationTransportSent \<or>
          r = ''device_reported_failure'' \<and> cmd_ConfirmationLevel c = ConfirmationDeviceFinal \<and>
            cmd_EvidenceStatus c = EvidenceVerified \<or>
          r = ''result_observation_timeout'' \<and> cmd_ConfirmationLevel c \<in>
            {ConfirmationTransportSent, ConfirmationProviderAccepted, ConfirmationDeviceAcked})"

definition chk_finished :: "Command \<Rightarrow> bool" where
  "chk_finished c \<longleftrightarrow>
     (if IsTerminal (cmd_Status c)
      then (case cmd_FinishedAt c of
              None \<Rightarrow> False
            | Some f \<Rightarrow> cmd_QueuedAt c \<le> f \<and> (case cmd_SentAt c of None \<Rightarrow> True | Some s \<Rightarrow> s \<le> f))
      else cmd_FinishedAt c = None)"

definition chk_status_timing :: "Command \<Rightarrow> bool" where
  "chk_status_timing c \<longleftrightarrow>
     (let unsent = cmd_SentAt c = None \<and> cmd_ResultDeadlineAt c = None;
          sent = cmd_SentAt c \<noteq> None \<and> cmd_ResultDeadlineAt c \<noteq> None
      in case cmd_Status c of
           CommandStatusQueued \<Rightarrow> unsent
         | CommandStatusCancelled \<Rightarrow> unsent
         | CommandStatusFailed \<Rightarrow>
             reason_in (cmd_ReasonCode c) (before_dispatch_reasons @ [''device_not_online'']) \<and> unsent \<or>
             reason_in (cmd_ReasonCode c)
               [''provider_transport_error'', ''provider_rejected'', ''device_reported_failure''] \<and> sent
         | CommandStatusTimeout \<Rightarrow>
             reason_in (cmd_ReasonCode c) [''dispatch_deadline_exceeded''] \<and> unsent \<or>
             reason_in (cmd_ReasonCode c) [''result_observation_timeout''] \<and> sent
         | CommandStatusOther _ \<Rightarrow> False
         | _ \<Rightarrow> sent)"

definition chk_deadlines :: "Command \<Rightarrow> bool" where
  "chk_deadlines c \<longleftrightarrow>
     cmd_QueuedAt c < cmd_DispatchDeadlineAt c \<and>
     (case cmd_SentAt c of None \<Rightarrow> True | Some s \<Rightarrow> cmd_QueuedAt c \<le> s) \<and>
     (case cmd_ResultDeadlineAt c of
        None \<Rightarrow> True
      | Some r \<Rightarrow> (case cmd_SentAt c of None \<Rightarrow> False | Some s \<Rightarrow> s < r))"

definition chk_snapshot_policy :: "Command \<Rightarrow> bool" where
  "chk_snapshot_policy c \<longleftrightarrow>
     0 < cmd_DispatchDeadline c \<and> 0 < cmd_ProviderTimeout c \<and> 0 < cmd_ResultTimeout c \<and>
     \<not> cmd_RetryAllowed c \<and> cmd_DispatchDeadlineAt c = cmd_QueuedAt c + cmd_DispatchDeadline c"

text \<open>
  The columns an INSERT sets once and for all: what the Device and its Provider are
  (\<open>chk_device_commands_snapshot_identity\<close>) and the request (\<open>_action\<close>, \<open>_idempotency_key\<close>,
  \<open>_request_hash\<close>, \<open>_revision\<close>; \<open>_payload\<close> and \<open>_delivery_policy\<close> hold of every value of the types).
\<close>

definition snapshot_identity :: "gostr \<Rightarrow> gostr \<Rightarrow> gostr \<Rightarrow> Adapter \<Rightarrow> gostr \<Rightarrow> gostr \<Rightarrow> bool" where
  "snapshot_identity typeCode provider profile adapter providerDeviceID deviceID \<longleftrightarrow>
     typeCode = ''smart-lock'' \<and> provider_pair provider adapter \<and>
     provider_route provider profile providerDeviceID deviceID"

definition request_columns :: "ActionIdentifier \<Rightarrow> gostr \<Rightarrow> gostr \<Rightarrow> int \<Rightarrow> bool" where
  "request_columns commandType idempotencyKey requestHash revision \<longleftrightarrow>
     pg_text commandType \<and> char_length_within 128 (btrim commandType) \<and> chk_key_text 128 idempotencyKey \<and>
     length requestHash = 32 \<and> 0 < revision"

definition command_check :: "Command \<Rightarrow> bool" where
  "command_check c \<longleftrightarrow>
     snapshot_identity (cmd_DeviceTypeCode c) (cmd_ProviderCode c) (cmd_ProviderProfile c) (cmd_Adapter c)
       (cmd_ProviderDeviceID c) (cmd_DeviceID c) \<and>
     request_columns (cmd_CommandType c) (cmd_IdempotencyKey c) (cmd_RequestHash c) (cmd_DeviceTypeRevision c) \<and>
     known_confirmation (cmd_ConfirmationLevel c) \<and>
     confirmation_evidence (cmd_ConfirmationLevel c) (cmd_EvidenceStatus c) \<and>
     (cmd_ConfirmationLevel c \<in> {ConfirmationDeviceAcked, ConfirmationDeviceFinal} \<longrightarrow>
        cmd_EvidenceStatus c = EvidenceVerified) \<and>
     chk_status_confirmation c \<and> chk_reason c \<and> chk_reason_evidence c \<and> chk_finished c \<and>
     chk_status_timing c \<and> chk_deadlines c \<and> chk_snapshot_policy c"

definition before_dispatch_outcome :: "AttemptOutcome \<Rightarrow> bool" where
  "before_dispatch_outcome o' \<longleftrightarrow> o' = AttemptOutcomeInvalidRequest \<or> o' = AttemptOutcomeNotDispatched"

definition attempt_reasons :: "gostr list" where
  "attempt_reasons = before_dispatch_reasons @
     [''cancelled_by_request'', ''dispatch_deadline_exceeded'', ''device_not_online'', ''provider_transport_error'',
      ''provider_rejected'', ''provider_delivery_unknown'', ''provider_response_invalid'']"

text \<open>A \<open>wwtiot\<close> request key is a serial number of one to nine digits without a leading zero.\<close>

definition request_key_text :: "gostr \<Rightarrow> gostr \<Rightarrow> bool" where
  "request_key_text provider key \<longleftrightarrow>
     (if provider = ProviderCodeWWTIOT
      then 1 \<le> length key \<and> length key \<le> 9 \<and> list_all is_digit key \<and> hd key \<noteq> CHR ''0''
      else char_length_within 128 key)"

definition claim_columns :: "int \<Rightarrow> gostr \<Rightarrow> Adapter \<Rightarrow> gostr \<Rightarrow> gostr \<Rightarrow> bool" where
  "claim_columns attemptNo provider adapter key leaseOwner \<longleftrightarrow>
     0 < attemptNo \<and> provider_pair provider adapter \<and> request_key_text provider key \<and>
     pg_text leaseOwner \<and> btrim leaseOwner \<noteq> []"

definition attempt_check :: "CommandAttempt \<Rightarrow> bool" where
  "attempt_check a \<longleftrightarrow>
     claim_columns (att_AttemptNo a) (att_ProviderCode a) (att_Adapter a) (att_ProviderRequestKey a) (att_LeaseOwner a) \<and>
     known_confirmation (att_ConfirmationLevel a) \<and>
     confirmation_evidence (att_ConfirmationLevel a) (att_EvidenceStatus a) \<and>
     (att_Phase a = AttemptPhaseCompleted \<longleftrightarrow> att_Outcome a \<noteq> None) \<and>
     (att_Phase a = AttemptPhaseCompleted \<longleftrightarrow> att_CompletedAt a \<noteq> None) \<and>
     (att_Phase a \<noteq> AttemptPhaseCompleted \<longrightarrow>
        att_ConfirmationLevel a = ConfirmationNone \<and> att_EvidenceStatus a = EvidenceNone) \<and>
     (case att_Phase a of
        AttemptPhaseClaimed \<Rightarrow> att_DispatchingAt a = None
      | AttemptPhaseDispatching \<Rightarrow> att_DispatchingAt a \<noteq> None
      | AttemptPhaseCompleted \<Rightarrow>
          (case att_Outcome a of
             None \<Rightarrow> True
           | Some o' \<Rightarrow> before_dispatch_outcome o' \<longleftrightarrow> att_DispatchingAt a = None)) \<and>
     (case att_Outcome a of
        None \<Rightarrow> reason_in (att_ReasonCode a) attempt_reasons
      | Some AttemptOutcomeNotDispatched \<Rightarrow> att_ConfirmationLevel a = ConfirmationNone \<and>
          reason_in (att_ReasonCode a) [''cancelled_by_request'', ''dispatch_deadline_exceeded'', ''device_not_online'']
      | Some AttemptOutcomeInvalidRequest \<Rightarrow> att_ConfirmationLevel a = ConfirmationNone \<and>
          reason_in (att_ReasonCode a) before_dispatch_reasons
      | Some AttemptOutcomeTransportErrorBeforeSend \<Rightarrow> att_ConfirmationLevel a = ConfirmationNone \<and>
          reason_in (att_ReasonCode a) [''provider_transport_error'']
      | Some AttemptOutcomeProviderRejected \<Rightarrow> att_ConfirmationLevel a = ConfirmationTransportSent \<and>
          reason_in (att_ReasonCode a) [''provider_rejected'']
      | Some AttemptOutcomeIndeterminate \<Rightarrow> att_ConfirmationLevel a = ConfirmationTransportSent \<and>
          reason_in (att_ReasonCode a) [''provider_delivery_unknown'', ''provider_response_invalid'']
      | Some AttemptOutcomeProviderAccepted \<Rightarrow> att_ConfirmationLevel a = ConfirmationProviderAccepted \<and>
          att_ReasonCode a = None
      | Some (AttemptOutcomeOther _) \<Rightarrow> False) \<and>
     att_ClaimedAt a < att_LeaseExpiresAt a \<and>
     (case att_DispatchingAt a of None \<Rightarrow> True | Some x \<Rightarrow> att_ClaimedAt a \<le> x) \<and>
     (case att_CompletedAt a of
        None \<Rightarrow> True
      | Some y \<Rightarrow> att_ClaimedAt a \<le> y \<and> (case att_DispatchingAt a of None \<Rightarrow> True | Some x \<Rightarrow> x \<le> y))"

definition result_check :: "CommandResult \<Rightarrow> bool" where
  "result_check r \<longleftrightarrow>
     res_Source r \<in> {EventSourceProviderCallback, EventSourceSimulator, EventSourceSystem} \<and>
     (res_Outcome r = ResultOutcomeDeviceAcked \<and> res_ConfirmationLevel r = ConfirmationDeviceAcked \<or>
      res_Outcome r \<in> {ResultOutcomeDeviceSucceeded, ResultOutcomeDeviceFailed} \<and>
        res_ConfirmationLevel r = ConfirmationDeviceFinal) \<and>
     res_EvidenceStatus r = EvidenceVerified \<and> chk_key_text 256 (res_DeduplicationKey r) \<and>
     (case res_ReportedAt r of None \<Rightarrow> True | Some x \<Rightarrow> x \<le> res_ObservedAt r) \<and>
     res_CreatedAt r = res_ObservedAt r"

subsection \<open>Statements\<close>

text \<open>
  PostgreSQL keeps microseconds; an instant the process writes is rounded to the nearest, and here upwards from
  the middle of two (PostgreSQL rounds that one case to the even of the two).
\<close>

definition pg_time :: "instant \<Rightarrow> instant" where "pg_time t = (t + 500) div 1000 * 1000"

definition update_commands ::
  "(instant \<Rightarrow> Command \<Rightarrow> bool) \<Rightarrow> (instant \<Rightarrow> Command \<Rightarrow> Command) \<Rightarrow> nat tx" where
  "update_commands p f =
     sql (\<lambda>t d. case update_where (p t) (f t) (tbl_commands d) of
       (n, rows) \<Rightarrow>
         if list_all (\<lambda>c. p t c \<longrightarrow> command_check (f t c)) (tbl_commands d)
         then Inr (n, d\<lparr>tbl_commands := rows\<rparr>)
         else Inl (ErrCheckViolation ''device_commands''))"

definition update_attempts ::
  "(instant \<Rightarrow> CommandAttempt \<Rightarrow> bool) \<Rightarrow> (instant \<Rightarrow> db \<Rightarrow> CommandAttempt \<Rightarrow> CommandAttempt) \<Rightarrow> nat tx" where
  "update_attempts p f =
     sql (\<lambda>t d. case update_where (p t) (f t d) (tbl_attempts d) of
       (n, rows) \<Rightarrow>
         if list_all (\<lambda>a. p t a \<longrightarrow> attempt_check (f t d a)) (tbl_attempts d)
         then Inr (n, d\<lparr>tbl_attempts := rows\<rparr>)
         else Inl (ErrCheckViolation ''device_command_attempts''))"

definition exactlyOneRow :: "nat \<Rightarrow> bool" where "exactlyOneRow n \<longleftrightarrow> n = 1"

definition insert_command :: "Command \<Rightarrow> unit tx" where
  "insert_command c =
     sql (\<lambda>t d.
       if list_ex (\<lambda>x. cmd_ID x = cmd_ID c) (tbl_commands d)
       then Inl (ErrUniqueViolation ''device_commands_pkey'')
       else if list_ex (\<lambda>x. cmd_ProjectID x = cmd_ProjectID c \<and> cmd_IdempotencyKey x = cmd_IdempotencyKey c) (tbl_commands d)
       then Inl (ErrUniqueViolation ''uq_device_commands_project_idempotency'')
       else if \<not> command_check c then Inl (ErrCheckViolation ''device_commands'')
       else if \<not> list_ex (\<lambda>x. dev_ID x = cmd_DeviceID c \<and> dev_ProjectID x = cmd_ProjectID c \<and>
           dev_DeviceTypeID x = cmd_DeviceTypeID c) (tbl_devices d)
       then Inl (ErrForeignKeyViolation ''fk_device_commands_device_project'')
       else if \<not> list_ex (\<lambda>x. dtp_DeviceTypeID x = cmd_DeviceTypeID c \<and> dtp_Revision x = cmd_DeviceTypeRevision c) (tbl_profiles d)
       then Inl (ErrForeignKeyViolation ''fk_device_commands_type_profile'')
       else if \<not> list_ex (\<lambda>x. dev_ID x = cmd_DeviceID c \<and> dev_ProviderCode x = cmd_ProviderCode c \<and>
           dev_ProviderProfile x = cmd_ProviderProfile c \<and> dev_ProviderDeviceID x = cmd_ProviderDeviceID c \<and>
           dev_Adapter x = cmd_Adapter c) (tbl_devices d)
       then Inl (ErrForeignKeyViolation ''fk_device_commands_provider_binding'')
       else Inr ((), d\<lparr>tbl_commands := tbl_commands d @ [c]\<rparr>))"

definition insert_attempt :: "(instant \<Rightarrow> CommandAttempt) \<Rightarrow> unit tx" where
  "insert_attempt mk =
     sql (\<lambda>t d. let a = mk t in
       if list_ex (\<lambda>x. att_ID x = att_ID a) (tbl_attempts d)
       then Inl (ErrUniqueViolation ''device_command_attempts_pkey'')
       else if list_ex (\<lambda>x. att_CommandID x = att_CommandID a \<and> att_AttemptNo x = att_AttemptNo a) (tbl_attempts d)
       then Inl (ErrUniqueViolation ''device_command_attempts_command_id_attempt_no_key'')
       else if list_ex (\<lambda>x. att_ProviderCode x = att_ProviderCode a \<and>
           att_ProviderRequestKey x = att_ProviderRequestKey a) (tbl_attempts d)
       then Inl (ErrUniqueViolation ''uq_command_attempts_provider_request_key'')
       else if att_Phase a \<noteq> AttemptPhaseCompleted \<and>
         list_ex (\<lambda>x. att_CommandID x = att_CommandID a \<and> att_Phase x \<noteq> AttemptPhaseCompleted) (tbl_attempts d)
       then Inl (ErrUniqueViolation ''uq_command_attempts_one_incomplete'')
       else if \<not> attempt_check a then Inl (ErrCheckViolation ''device_command_attempts'')
       else if \<not> list_ex (\<lambda>c. cmd_ID c = att_CommandID a \<and> cmd_ProviderCode c = att_ProviderCode a \<and>
           cmd_Adapter c = att_Adapter a) (tbl_commands d)
       then Inl (ErrForeignKeyViolation ''fk_command_attempts_provider_binding'')
       else Inr ((), d\<lparr>tbl_attempts := tbl_attempts d @ [a]\<rparr>))"

subsection \<open>Requests\<close>

record ClaimCommandRequest =
  ccr_WorkerID :: gostr
  ccr_LeaseToken :: gostr
  ccr_LeaseDuration :: duration
  ccr_ProviderCode :: gostr
  ccr_Adapter :: Adapter
  ccr_RequestKey :: gostr
  ccr_RequestSummary :: gomap

record ReclaimAttemptRequest =
  rar_WorkerID :: gostr
  rar_LeaseToken :: gostr
  rar_LeaseDuration :: duration

record CompleteCommandAttemptRequest =
  cca_Outcome :: AttemptOutcome
  cca_ConfirmationLevel :: ConfirmationLevel
  cca_EvidenceStatus :: EvidenceStatus
  cca_ResponseSummary :: gomap
  cca_ReasonCode :: "gostr option"
  cca_ErrorDetail :: "gostr option"

record MarkDispatchingRequest =
  mdr_ResultObservationTimeout :: duration
  mdr_DispatchLeaseDuration :: duration
  mdr_RequestSummary :: gomap

record CommandStatusTransition =
  cst_From :: CommandStatus
  cst_To :: CommandStatus
  cst_ReasonCode :: "gostr option"
  cst_ReasonDetail :: "gostr option"
  cst_ConfirmationLevel :: ConfirmationLevel
  cst_EvidenceStatus :: EvidenceStatus

record CommandResultAggregation =
  cra_PreviousStatus :: CommandStatus
  cra_Command :: Command

record VerifiedEvidenceUpdateRequest =
  veu_AttemptID :: gostr
  veu_RawMessageID :: gostr
  veu_RawMessageDeduplicationKey :: gostr
  veu_AttemptOutcome :: AttemptOutcome
  veu_ResponseSummary :: gomap
  veu_ExpectedStatus :: CommandStatus

record ListCommandsRequest =
  lcr_ProjectID :: "gostr option"
  lcr_ManagerUserID :: "gostr option"
  lcr_DeviceID :: "gostr option"
  lcr_CommandType :: "ActionIdentifier option"
  lcr_Status :: "CommandStatus option"
  lcr_Limit :: int
  lcr_Offset :: int

subsection \<open>Reading\<close>

definition command_Get :: "gostr \<Rightarrow> Command tx" where
  "command_Get commandID = query_row tbl_commands (\<lambda>t c. cmd_ID c = commandID)"

definition command_GetByIdempotencyKey :: "gostr \<Rightarrow> gostr \<Rightarrow> Command tx" where
  "command_GetByIdempotencyKey projectID idempotencyKey =
     query_row tbl_commands (\<lambda>t c. cmd_ProjectID c = projectID \<and> cmd_IdempotencyKey c = idempotencyKey)"

definition command_GetForUpdate :: "gostr \<Rightarrow> Command tx" where
  "command_GetForUpdate commandID = query_row tbl_commands (\<lambda>t c. cmd_ID c = commandID)"

definition getAttempt :: "gostr \<Rightarrow> CommandAttempt tx" where
  "getAttempt attemptID = query_row tbl_attempts (\<lambda>t a. att_ID a = attemptID)"

definition matches :: "'a option \<Rightarrow> 'a \<Rightarrow> bool" where
  "matches want v = (case want of None \<Rightarrow> True | Some x \<Rightarrow> v = x)"

definition managed_by :: "db \<Rightarrow> gostr option \<Rightarrow> gostr \<Rightarrow> bool" where
  "managed_by d manager projectID =
     (case manager of
        None \<Rightarrow> True
      | Some m \<Rightarrow> list_ex (\<lambda>p. prj_ID p = projectID \<and> prj_ManagerUserID p = m) (tbl_projects d))"

definition listed_command :: "ListCommandsRequest \<Rightarrow> db \<Rightarrow> Command \<Rightarrow> bool" where
  "listed_command r d c \<longleftrightarrow>
     matches (lcr_ProjectID r) (cmd_ProjectID c) \<and> managed_by d (lcr_ManagerUserID r) (cmd_ProjectID c) \<and>
     matches (lcr_DeviceID r) (cmd_DeviceID c) \<and> matches (lcr_CommandType r) (cmd_CommandType c) \<and>
     matches (lcr_Status r) (cmd_Status c)"

definition command_List :: "ListCommandsRequest \<Rightarrow> (Command list \<times> nat) tx" where
  "command_List r =
     (if lcr_Limit r < 1 \<or> lcr_Limit r > 100 \<or> lcr_Offset r < 0 then fail ErrInvalidRepositoryRequest
      else
        bnd (query (\<lambda>t d. Inr (page (\<lambda>c. (cmd_CreatedAt c, cmd_ID c)) (lcr_Limit r) (lcr_Offset r)
               (filter (listed_command r d) (tbl_commands d))))) (\<lambda>items.
        bnd (query (\<lambda>t d. Inr (length (filter (listed_command r d) (tbl_commands d))))) (\<lambda>total.
        ret (items, total))))"

definition command_ListAttempts :: "gostr \<Rightarrow> CommandAttempt list tx" where
  "command_ListAttempts commandID =
     query (\<lambda>t d. Inr (sort_key att_AttemptNo (filter (\<lambda>a. att_CommandID a = commandID) (tbl_attempts d))))"

definition command_ListResults :: "gostr \<Rightarrow> CommandResult list tx" where
  "command_ListResults commandID =
     query (\<lambda>t d. Inr (sort_key (\<lambda>r. (res_ObservedAt r, res_ID r))
       (filter (\<lambda>r. res_CommandID r = commandID) (tbl_results d))))"

text \<open>\<open>Create\<close>: the durations are stored in milliseconds, the instants in microseconds.\<close>

definition command_Create :: "Command \<Rightarrow> unit tx" where
  "command_Create c =
     insert_command (c\<lparr>cmd_DispatchDeadline := Milliseconds (cmd_DispatchDeadline c) * Millisecond,
       cmd_ProviderTimeout := Milliseconds (cmd_ProviderTimeout c) * Millisecond,
       cmd_ResultTimeout := Milliseconds (cmd_ResultTimeout c) * Millisecond,
       cmd_QueuedAt := pg_time (cmd_QueuedAt c), cmd_DispatchDeadlineAt := pg_time (cmd_DispatchDeadlineAt c),
       cmd_SentAt := map_option pg_time (cmd_SentAt c),
       cmd_ResultDeadlineAt := map_option pg_time (cmd_ResultDeadlineAt c),
       cmd_FinishedAt := map_option pg_time (cmd_FinishedAt c),
       cmd_CreatedAt := pg_time (cmd_CreatedAt c), cmd_UpdatedAt := pg_time (cmd_UpdatedAt c)\<rparr>)"

subsection \<open>Claiming\<close>

text \<open>
  An incomplete Attempt keeps its Command out of \<open>ClaimNext\<close>, unless it is only claimed and its
  lease has run out.
\<close>

definition attempt_blocks :: "instant \<Rightarrow> gostr \<Rightarrow> CommandAttempt \<Rightarrow> bool" where
  "attempt_blocks t commandID a \<longleftrightarrow>
     att_CommandID a = commandID \<and> att_Phase a \<noteq> AttemptPhaseCompleted \<and>
     (att_Phase a \<noteq> AttemptPhaseClaimed \<or> att_LeaseExpiresAt a > t)"

definition claimable :: "gostr \<Rightarrow> Adapter \<Rightarrow> instant \<Rightarrow> db \<Rightarrow> Command \<Rightarrow> bool" where
  "claimable providerCode adapter t d c \<longleftrightarrow>
     cmd_Status c = CommandStatusQueued \<and> cmd_DispatchDeadlineAt c > t \<and>
     cmd_ProviderCode c = providerCode \<and> cmd_Adapter c = adapter \<and>
     \<not> list_ex (attempt_blocks t (cmd_ID c)) (tbl_attempts d)"

definition incomplete_attempt_of :: "gostr \<Rightarrow> CommandAttempt tx" where
  "incomplete_attempt_of commandID =
     query_row tbl_attempts (\<lambda>t a. att_CommandID a = commandID \<and> att_Phase a \<noteq> AttemptPhaseCompleted)"

definition take_over :: "gostr \<Rightarrow> gostr \<Rightarrow> gostr \<Rightarrow> gostr \<Rightarrow> duration \<Rightarrow> gostr \<Rightarrow> nat tx" where
  "take_over attemptID expiredToken workerID leaseToken leaseDuration commandID =
     update_attempts
       (\<lambda>t a. att_ID a = attemptID \<and> att_LeaseToken a = expiredToken \<and> att_Phase a = AttemptPhaseClaimed \<and>
          att_LeaseExpiresAt a \<le> t)
       (\<lambda>t d a. a\<lparr>att_LeaseOwner := workerID, att_LeaseToken := leaseToken,
          att_LeaseExpiresAt :=
            (case find (\<lambda>c. cmd_ID c = commandID) (tbl_commands d) of
               None \<Rightarrow> t + Microseconds leaseDuration * Microsecond
             | Some c \<Rightarrow> min (t + Microseconds leaseDuration * Microsecond) (cmd_DispatchDeadlineAt c))\<rparr>)"

definition newUUID :: "gostr tx" where
  "newUUID = bnd (read_random 16) (\<lambda>value. ret (uuid_text (uuid_bits value)))"

definition max_attempt_no :: "gostr \<Rightarrow> db \<Rightarrow> int" where
  "max_attempt_no commandID d =
     (case map att_AttemptNo (filter (\<lambda>a. att_CommandID a = commandID) (tbl_attempts d)) of
        [] \<Rightarrow> 0
      | n # ns \<Rightarrow> fold max ns n)"

definition claim_new :: "ClaimCommandRequest \<Rightarrow> Command \<Rightarrow> (Command \<times> CommandAttempt) option tx" where
  "claim_new r c =
     bnd (query (\<lambda>t d. Inr (max_attempt_no (cmd_ID c) d + 1))) (\<lambda>attemptNo.
     bnd newUUID (\<lambda>attemptID.
     bnd (map_error
            (\<lambda>e. if e = ErrUniqueViolation ''uq_command_attempts_provider_request_key''
                 then ErrProviderRequestKeyConflict else e)
            (insert_attempt (\<lambda>t.
               \<lparr>att_ID = attemptID, att_CommandID = cmd_ID c, att_AttemptNo = attemptNo,
                att_Phase = AttemptPhaseClaimed, att_ProviderCode = ccr_ProviderCode r,
                att_Adapter = ccr_Adapter r, att_ProviderRequestKey = ccr_RequestKey r,
                att_Outcome = None, att_ConfirmationLevel = ConfirmationNone,
                att_EvidenceStatus = EvidenceNone, att_RequestSummary = ccr_RequestSummary r,
                att_ResponseSummary = [], att_ReasonCode = None, att_ErrorDetail = None,
                att_LeaseToken = ccr_LeaseToken r, att_LeaseOwner = ccr_WorkerID r,
                att_LeaseExpiresAt =
                  min (t + Microseconds (ccr_LeaseDuration r) * Microsecond) (cmd_DispatchDeadlineAt c),
                att_ClaimedAt = t, att_DispatchingAt = None, att_CompletedAt = None\<rparr>))) (\<lambda>u.
     bnd (getAttempt attemptID) (\<lambda>attempt. ret (Some (c, attempt))))))"

definition ClaimNext :: "ClaimCommandRequest \<Rightarrow> (Command \<times> CommandAttempt) option tx" where
  "ClaimNext r =
     (if ccr_LeaseDuration r < Microsecond then ret None
      else
        on_row (select_first tbl_commands (claimable (ccr_ProviderCode r) (ccr_Adapter r))
                  (\<lambda>c. (cmd_QueuedAt c, cmd_ID c)))
          (ret None)
          (\<lambda>c. on_row (incomplete_attempt_of (cmd_ID c))
             (claim_new r c)
             (\<lambda>existing.
                if att_LeaseToken existing = ccr_LeaseToken r then ret None
                else bnd (take_over (att_ID existing) (att_LeaseToken existing) (ccr_WorkerID r)
                            (ccr_LeaseToken r) (ccr_LeaseDuration r) (cmd_ID c)) (\<lambda>n.
                     if \<not> exactlyOneRow n then ret None
                     else bnd (getAttempt (att_ID existing)) (\<lambda>attempt. ret (Some (c, attempt)))))))"

subsection \<open>Completing\<close>

record lockedCommandAttempt =
  lck_commandStatus :: CommandStatus
  lck_commandConfirmation :: ConfirmationLevel
  lck_commandEvidence :: EvidenceStatus
  lck_dispatchDeadlineValid :: bool
  lck_attemptPhase :: AttemptPhase
  lck_attemptOutcome :: "AttemptOutcome option"
  lck_attemptConfirmation :: ConfirmationLevel
  lck_attemptEvidence :: EvidenceStatus
  lck_providerCode :: gostr
  lck_leaseToken :: gostr
  lck_leaseValid :: bool

definition locked_of :: "instant \<Rightarrow> Command \<Rightarrow> CommandAttempt \<Rightarrow> lockedCommandAttempt" where
  "locked_of t c a =
     \<lparr>lck_commandStatus = cmd_Status c, lck_commandConfirmation = cmd_ConfirmationLevel c,
      lck_commandEvidence = cmd_EvidenceStatus c, lck_dispatchDeadlineValid = (cmd_DispatchDeadlineAt c > t),
      lck_attemptPhase = att_Phase a, lck_attemptOutcome = att_Outcome a,
      lck_attemptConfirmation = att_ConfirmationLevel a, lck_attemptEvidence = att_EvidenceStatus a,
      lck_providerCode = att_ProviderCode a, lck_leaseToken = att_LeaseToken a,
      lck_leaseValid = (att_LeaseExpiresAt a > t)\<rparr>"

definition lockCommandAttempt :: "gostr \<Rightarrow> gostr \<Rightarrow> lockedCommandAttempt tx" where
  "lockCommandAttempt commandID attemptID =
     bnd (query_row tbl_commands (\<lambda>t c. cmd_ID c = commandID)) (\<lambda>c.
     select_row tbl_attempts (\<lambda>t a. att_ID a = attemptID \<and> att_CommandID a = commandID)
       (\<lambda>t a. locked_of t c a))"

definition ReclaimAttempt :: "gostr \<Rightarrow> gostr \<Rightarrow> ReclaimAttemptRequest \<Rightarrow> CommandAttempt option tx" where
  "ReclaimAttempt attemptID expiredToken r =
     (if rar_LeaseDuration r < Microsecond \<or> rar_LeaseToken r = expiredToken then ret None
      else
        on_row (select_row tbl_attempts (\<lambda>t a. att_ID a = attemptID) (\<lambda>t a. att_CommandID a))
          (ret None)
          (\<lambda>commandID. on_row (lockCommandAttempt commandID attemptID)
             (ret None)
             (\<lambda>l.
                if lck_commandStatus l \<noteq> CommandStatusQueued \<or> \<not> lck_dispatchDeadlineValid l \<or>
                   lck_attemptPhase l \<noteq> AttemptPhaseClaimed \<or> lck_leaseToken l \<noteq> expiredToken \<or> lck_leaseValid l
                then ret None
                else bnd (take_over attemptID expiredToken (rar_WorkerID r) (rar_LeaseToken r)
                            (rar_LeaseDuration r) commandID) (\<lambda>n.
                     if \<not> exactlyOneRow n then ret None
                     else bnd (getAttempt attemptID) (\<lambda>a. ret (Some a))))))"

definition MarkDispatching :: "gostr \<Rightarrow> gostr \<Rightarrow> gostr \<Rightarrow> MarkDispatchingRequest \<Rightarrow> bool tx" where
  "MarkDispatching commandID attemptID leaseToken r =
     (if mdr_ResultObservationTimeout r < Microsecond \<or> mdr_DispatchLeaseDuration r < Microsecond then ret False
      else
        on_row (lockCommandAttempt commandID attemptID) (ret False) (\<lambda>l.
          if lck_commandStatus l \<noteq> CommandStatusQueued \<or> \<not> lck_dispatchDeadlineValid l \<or>
             lck_attemptPhase l \<noteq> AttemptPhaseClaimed \<or> lck_leaseToken l \<noteq> leaseToken \<or> \<not> lck_leaseValid l
          then ret False
          else
            bnd (update_attempts (\<lambda>t a. att_ID a = attemptID)
                   (\<lambda>t d a. a\<lparr>att_Phase := AttemptPhaseDispatching, att_RequestSummary := mdr_RequestSummary r,
                      att_LeaseExpiresAt := t + Microseconds (mdr_DispatchLeaseDuration r) * Microsecond,
                      att_DispatchingAt := Some t\<rparr>)) (\<lambda>u.
            bnd (update_commands (\<lambda>t c. cmd_ID c = commandID)
                   (\<lambda>t c. c\<lparr>cmd_Status := CommandStatusSent, cmd_SentAt := Some t,
                      cmd_ResultDeadlineAt := Some (t + Microseconds (mdr_ResultObservationTimeout r) * Microsecond),
                      cmd_UpdatedAt := t\<rparr>)) (\<lambda>n. ret (exactlyOneRow n)))))"

definition reason_text :: "gostr option \<Rightarrow> gostr" where
  "reason_text r = (case r of None \<Rightarrow> [] | Some x \<Rightarrow> x)"

definition attemptCompletionAllowed :: "gostr \<Rightarrow> AttemptPhase \<Rightarrow> CompleteCommandAttemptRequest \<Rightarrow> bool" where
  "attemptCompletionAllowed providerCode phase r =
     (let level = cca_ConfirmationLevel r; evidence = cca_EvidenceStatus r; outcome = cca_Outcome r;
          reason = reason_text (cca_ReasonCode r)
      in
      if outcome = AttemptOutcomeInvalidRequest \<or> outcome = AttemptOutcomeNotDispatched then
        (if (providerCode \<noteq> ProviderCodeWWTIOT \<and> providerCode \<noteq> ProviderCodeOmni \<and> providerCode \<noteq> ProviderCodeSimulator) \<or>
            phase \<noteq> AttemptPhaseClaimed \<or> level \<noteq> ConfirmationNone \<or> evidence \<noteq> EvidenceNone \<or>
            cca_ReasonCode r = None
         then False
         else if outcome = AttemptOutcomeNotDispatched then reason = ''device_not_online''
         else reason \<in> set before_dispatch_reasons)
      else if phase \<noteq> AttemptPhaseDispatching then False
      else if \<not> (outcome = AttemptOutcomeProviderAccepted \<and> reason = [] \<or>
                 outcome = AttemptOutcomeTransportErrorBeforeSend \<and> reason = ''provider_transport_error'' \<or>
                 outcome = AttemptOutcomeProviderRejected \<and> reason = ''provider_rejected'' \<or>
                 outcome = AttemptOutcomeIndeterminate \<and>
                   (reason = ''provider_delivery_unknown'' \<or> reason = ''provider_response_invalid''))
      then False
      else if providerCode = ProviderCodeWWTIOT then
        (case outcome of
           AttemptOutcomeTransportErrorBeforeSend \<Rightarrow> level = ConfirmationNone \<and> evidence = EvidenceNone
         | AttemptOutcomeIndeterminate \<Rightarrow> level = ConfirmationTransportSent \<and> evidence = EvidenceVerified
         | AttemptOutcomeProviderRejected \<Rightarrow> level = ConfirmationTransportSent \<and> evidence = EvidenceUnverified
         | AttemptOutcomeProviderAccepted \<Rightarrow> level = ConfirmationProviderAccepted \<and> evidence = EvidenceUnverified
         | _ \<Rightarrow> False)
      else if providerCode = ProviderCodeSimulator then
        (case outcome of
           AttemptOutcomeTransportErrorBeforeSend \<Rightarrow> level = ConfirmationNone \<and> evidence = EvidenceNone
         | AttemptOutcomeIndeterminate \<Rightarrow> level = ConfirmationTransportSent \<and> evidence = EvidenceVerified
         | AttemptOutcomeProviderRejected \<Rightarrow> level = ConfirmationTransportSent \<and> evidence = EvidenceVerified
         | AttemptOutcomeProviderAccepted \<Rightarrow> level = ConfirmationProviderAccepted \<and> evidence = EvidenceVerified
         | _ \<Rightarrow> False)
      else if providerCode = ProviderCodeOmni then
        (case outcome of
           AttemptOutcomeTransportErrorBeforeSend \<Rightarrow> level = ConfirmationNone \<and> evidence = EvidenceNone
         | AttemptOutcomeIndeterminate \<Rightarrow> level = ConfirmationTransportSent \<and> evidence = EvidenceVerified \<and>
             reason = ''provider_delivery_unknown''
         | _ \<Rightarrow> False)
      else False)"

definition CompleteAttempt :: "gostr \<Rightarrow> gostr \<Rightarrow> gostr \<Rightarrow> CompleteCommandAttemptRequest \<Rightarrow> bool tx" where
  "CompleteAttempt commandID attemptID expectedLeaseToken r =
     on_row (lockCommandAttempt commandID attemptID) (ret False) (\<lambda>l.
       if lck_attemptPhase l = AttemptPhaseCompleted \<or> lck_leaseToken l \<noteq> expectedLeaseToken \<or> \<not> lck_leaseValid l
       then ret False
       else
         (let beforeDispatch = (cca_Outcome r = AttemptOutcomeInvalidRequest \<or> cca_Outcome r = AttemptOutcomeNotDispatched)
          in
          if (beforeDispatch \<and> lck_commandStatus l \<noteq> CommandStatusQueued) \<or>
             (\<not> beforeDispatch \<and> lck_commandStatus l \<noteq> CommandStatusSent) \<or>
             \<not> attemptCompletionAllowed (lck_providerCode l) (lck_attemptPhase l) r
          then ret False
          else
            bnd (update_attempts (\<lambda>t a. att_ID a = attemptID)
                   (\<lambda>t d a. a\<lparr>att_Phase := AttemptPhaseCompleted, att_Outcome := Some (cca_Outcome r),
                      att_ConfirmationLevel := cca_ConfirmationLevel r, att_EvidenceStatus := cca_EvidenceStatus r,
                      att_ResponseSummary := cca_ResponseSummary r, att_ReasonCode := cca_ReasonCode r,
                      att_ErrorDetail := cca_ErrorDetail r, att_CompletedAt := Some t\<rparr>)) (\<lambda>n.
            ret (exactlyOneRow n))))"

subsection \<open>Recovery, expiry and cancellation\<close>

definition RecoverExpiredDispatching :: "gostr \<Rightarrow> gostr \<Rightarrow> gostr \<Rightarrow> bool tx" where
  "RecoverExpiredDispatching commandID attemptID expiredLeaseToken =
     on_row (lockCommandAttempt commandID attemptID) (ret False) (\<lambda>l.
       if lck_commandStatus l \<noteq> CommandStatusSent \<or> lck_attemptPhase l \<noteq> AttemptPhaseDispatching \<or>
          lck_leaseToken l \<noteq> expiredLeaseToken \<or> lck_leaseValid l
       then ret False
       else
         bnd (update_attempts
                (\<lambda>t a. att_ID a = attemptID \<and> att_CommandID a = commandID \<and>
                   att_Phase a = AttemptPhaseDispatching \<and> att_LeaseToken a = expiredLeaseToken)
                (\<lambda>t d a. a\<lparr>att_Phase := AttemptPhaseCompleted, att_Outcome := Some AttemptOutcomeIndeterminate,
                   att_ConfirmationLevel := ConfirmationTransportSent, att_EvidenceStatus := EvidenceUnverified,
                   att_ResponseSummary := [], att_ReasonCode := Some ''provider_delivery_unknown'',
                   att_ErrorDetail := None, att_CompletedAt := Some t\<rparr>)) (\<lambda>u.
         bnd (update_commands (\<lambda>t c. cmd_ID c = commandID \<and> cmd_Status c = CommandStatusSent)
                (\<lambda>t c. c\<lparr>cmd_ConfirmationLevel := ConfirmationTransportSent,
                   cmd_EvidenceStatus := EvidenceUnverified, cmd_UpdatedAt := t\<rparr>)) (\<lambda>n.
         ret (exactlyOneRow n))))"

definition expired_dispatching :: "instant \<Rightarrow> db \<Rightarrow> CommandAttempt \<Rightarrow> bool" where
  "expired_dispatching t d a \<longleftrightarrow>
     att_Phase a = AttemptPhaseDispatching \<and> att_LeaseExpiresAt a \<le> t \<and>
     list_ex (\<lambda>c. cmd_ID c = att_CommandID a \<and> cmd_Status c = CommandStatusSent) (tbl_commands d)"

definition RecoverNextExpiredDispatching :: "(Command \<times> CommandAttempt) option tx" where
  "RecoverNextExpiredDispatching =
     on_row (select_first tbl_attempts expired_dispatching (\<lambda>a. (att_LeaseExpiresAt a, att_ID a)))
       (ret None)
       (\<lambda>a. bnd (RecoverExpiredDispatching (att_CommandID a) (att_ID a) (att_LeaseToken a)) (\<lambda>updated.
          if \<not> updated then ret None
          else
            bnd (command_Get (att_CommandID a)) (\<lambda>c.
            bnd (getAttempt (att_ID a)) (\<lambda>attempt. ret (Some (c, attempt))))))"

definition finishQueued :: "gostr \<Rightarrow> CommandStatus \<Rightarrow> gostr \<Rightarrow> gostr option \<Rightarrow> bool \<Rightarrow> bool tx" where
  "finishQueued commandID status reasonCode reasonDetail requireExpired =
     on_row (select_row tbl_commands (\<lambda>t c. cmd_ID c = commandID)
               (\<lambda>t c. (cmd_Status c, cmd_DispatchDeadlineAt c \<le> t)))
       (ret False)
       (\<lambda>(commandStatus, dispatchDeadlineExpired).
          let finish = bnd (update_commands (\<lambda>t c. cmd_ID c = commandID)
                (\<lambda>t c. c\<lparr>cmd_Status := status, cmd_ReasonCode := Some reasonCode, cmd_ReasonDetail := reasonDetail,
                   cmd_ConfirmationLevel := ConfirmationNone, cmd_EvidenceStatus := EvidenceNone,
                   cmd_FinishedAt := Some t, cmd_UpdatedAt := t\<rparr>)) (\<lambda>n. ret (exactlyOneRow n))
          in
          if commandStatus \<noteq> CommandStatusQueued \<or> (requireExpired \<and> \<not> dispatchDeadlineExpired) then ret False
          else
            on_row (select_row tbl_attempts
                      (\<lambda>t a. att_CommandID a = commandID \<and> att_Phase a \<noteq> AttemptPhaseCompleted)
                      (\<lambda>t a. (att_ID a, att_Phase a, att_LeaseToken a, att_LeaseExpiresAt a > t)))
              finish
              (\<lambda>(attemptID, phase, leaseToken, leaseValid).
                 if leaseValid \<or> phase \<noteq> AttemptPhaseClaimed then ret False
                 else
                   bnd (update_attempts (\<lambda>t a. att_ID a = attemptID \<and> att_LeaseToken a = leaseToken)
                          (\<lambda>t d a. a\<lparr>att_Phase := AttemptPhaseCompleted,
                             att_Outcome := Some AttemptOutcomeNotDispatched,
                             att_ConfirmationLevel := ConfirmationNone, att_EvidenceStatus := EvidenceNone,
                             att_ResponseSummary := [], att_ReasonCode := Some reasonCode,
                             att_ErrorDetail := reasonDetail, att_CompletedAt := Some t\<rparr>)) (\<lambda>u. finish)))"

definition CancelQueued :: "gostr \<Rightarrow> gostr option \<Rightarrow> bool tx" where
  "CancelQueued commandID reasonDetail =
     finishQueued commandID CommandStatusCancelled ''cancelled_by_request'' reasonDetail False"

definition ExpireQueued :: "gostr \<Rightarrow> bool tx" where
  "ExpireQueued commandID =
     finishQueued commandID CommandStatusTimeout ''dispatch_deadline_exceeded'' None True"

definition due :: "instant \<Rightarrow> instant option \<Rightarrow> bool" where
  "due t deadline = (case deadline of None \<Rightarrow> False | Some x \<Rightarrow> x \<le> t)"

definition ExpireResultObservation :: "gostr \<Rightarrow> bool tx" where
  "ExpireResultObservation commandID =
     on_row (select_row tbl_commands (\<lambda>t c. cmd_ID c = commandID \<and> due t (cmd_ResultDeadlineAt c)) (\<lambda>t c. cmd_Status c))
       (ret False)
       (\<lambda>status.
          if status \<noteq> CommandStatusSent \<and> status \<noteq> CommandStatusAcked then ret False
          else
            on_row (select_row tbl_attempts
                      (\<lambda>t a. att_CommandID a = commandID \<and> att_Phase a \<noteq> AttemptPhaseCompleted) (\<lambda>t a. att_ID a))
              (bnd (update_commands
                      (\<lambda>t c. cmd_ID c = commandID \<and> cmd_Status c = status \<and> due t (cmd_ResultDeadlineAt c))
                      (\<lambda>t c. c\<lparr>cmd_Status := CommandStatusTimeout,
                         cmd_ReasonCode := Some ''result_observation_timeout'', cmd_ReasonDetail := None,
                         cmd_FinishedAt := Some t, cmd_UpdatedAt := t\<rparr>)) (\<lambda>n. ret (exactlyOneRow n)))
              (\<lambda>incompleteAttemptID. ret False))"

definition expired_queued :: "instant \<Rightarrow> db \<Rightarrow> Command \<Rightarrow> bool" where
  "expired_queued t d c \<longleftrightarrow>
     cmd_Status c = CommandStatusQueued \<and> cmd_DispatchDeadlineAt c \<le> t \<and>
     \<not> list_ex (attempt_blocks t (cmd_ID c)) (tbl_attempts d)"

definition ExpireNextQueued :: "Command option tx" where
  "ExpireNextQueued =
     on_row (select_first tbl_commands expired_queued (\<lambda>c. (cmd_DispatchDeadlineAt c, cmd_ID c)))
       (ret None)
       (\<lambda>c. bnd (ExpireQueued (cmd_ID c)) (\<lambda>updated.
          if \<not> updated then ret None
          else bnd (command_Get (cmd_ID c)) (\<lambda>c'. ret (Some c'))))"

definition result_overdue :: "instant \<Rightarrow> db \<Rightarrow> Command \<Rightarrow> bool" where
  "result_overdue t d c \<longleftrightarrow>
     (cmd_Status c = CommandStatusSent \<or> cmd_Status c = CommandStatusAcked) \<and> due t (cmd_ResultDeadlineAt c) \<and>
     \<not> list_ex (\<lambda>a. att_CommandID a = cmd_ID c \<and> att_Phase a \<noteq> AttemptPhaseCompleted) (tbl_attempts d)"

definition result_deadline_key :: "Command \<Rightarrow> instant \<times> gostr" where
  "result_deadline_key c = (case cmd_ResultDeadlineAt c of None \<Rightarrow> 0 | Some x \<Rightarrow> x, cmd_ID c)"

definition ExpireNextResultObservation :: "(Command \<times> CommandStatus) option tx" where
  "ExpireNextResultObservation =
     on_row (select_first tbl_commands result_overdue result_deadline_key)
       (ret None)
       (\<lambda>c. bnd (ExpireResultObservation (cmd_ID c)) (\<lambda>updated.
          if \<not> updated then ret None
          else bnd (command_Get (cmd_ID c)) (\<lambda>c'. ret (Some (c', cmd_Status c)))))"

subsection \<open>Evidence and transitions\<close>

definition evidenceProgresses ::
  "ConfirmationLevel \<Rightarrow> EvidenceStatus \<Rightarrow> ConfirmationLevel \<Rightarrow> EvidenceStatus \<Rightarrow> bool" where
  "evidenceProgresses currentLevel currentEvidence nextLevel nextEvidence =
     (if \<not> CanAdvanceConfirmation currentLevel nextLevel then False
      else if nextLevel \<noteq> currentLevel then True
      else currentEvidence \<noteq> nextEvidence \<and> currentEvidence \<noteq> EvidenceVerified \<and> nextEvidence = EvidenceVerified)"

definition evidenceDoesNotRegress ::
  "ConfirmationLevel \<Rightarrow> EvidenceStatus \<Rightarrow> ConfirmationLevel \<Rightarrow> EvidenceStatus \<Rightarrow> bool" where
  "evidenceDoesNotRegress currentLevel currentEvidence nextLevel nextEvidence =
     (if \<not> CanAdvanceConfirmation currentLevel nextLevel then False
      else nextLevel \<noteq> currentLevel \<or> currentEvidence \<noteq> EvidenceVerified \<or> nextEvidence = EvidenceVerified)"

definition attemptTransitionMatches :: "AttemptOutcome \<Rightarrow> CommandStatusTransition \<Rightarrow> bool" where
  "attemptTransitionMatches outcome tr =
     (let reason = reason_text (cst_ReasonCode tr) in
      case outcome of
        AttemptOutcomeInvalidRequest \<Rightarrow>
          cst_From tr = CommandStatusQueued \<and> cst_To tr = CommandStatusFailed \<and> reason \<in> set before_dispatch_reasons
      | AttemptOutcomeTransportErrorBeforeSend \<Rightarrow>
          cst_From tr = CommandStatusSent \<and> cst_To tr = CommandStatusFailed \<and> reason = ''provider_transport_error''
      | AttemptOutcomeProviderRejected \<Rightarrow>
          cst_From tr = CommandStatusSent \<and> cst_To tr = CommandStatusFailed \<and> reason = ''provider_rejected''
      | AttemptOutcomeNotDispatched \<Rightarrow>
          cst_From tr = CommandStatusQueued \<and> cst_To tr = CommandStatusFailed \<and> reason = ''device_not_online''
      | _ \<Rightarrow> False)"

definition updateCommandTransition :: "gostr \<Rightarrow> CommandStatusTransition \<Rightarrow> bool tx" where
  "updateCommandTransition commandID tr =
     bnd (update_commands (\<lambda>t c. cmd_ID c = commandID \<and> cmd_Status c = cst_From tr)
            (\<lambda>t c. c\<lparr>cmd_Status := cst_To tr, cmd_ReasonCode := cst_ReasonCode tr,
               cmd_ReasonDetail := cst_ReasonDetail tr, cmd_ConfirmationLevel := cst_ConfirmationLevel tr,
               cmd_EvidenceStatus := cst_EvidenceStatus tr, cmd_FinishedAt := Some t, cmd_UpdatedAt := t\<rparr>)) (\<lambda>n.
     ret (exactlyOneRow n))"

definition TransitionFromAttempt :: "gostr \<Rightarrow> gostr \<Rightarrow> gostr \<Rightarrow> CommandStatusTransition \<Rightarrow> bool tx" where
  "TransitionFromAttempt commandID attemptID expectedLeaseToken tr =
     on_row (lockCommandAttempt commandID attemptID) (ret False) (\<lambda>l.
       if lck_commandStatus l \<noteq> cst_From tr \<or> lck_attemptPhase l \<noteq> AttemptPhaseCompleted \<or>
          lck_leaseToken l \<noteq> expectedLeaseToken \<or> lck_attemptOutcome l = None \<or>
          lck_attemptConfirmation l \<noteq> cst_ConfirmationLevel tr \<or> lck_attemptEvidence l \<noteq> cst_EvidenceStatus tr \<or>
          \<not> CanTransitionCommand (cst_From tr) (cst_To tr) \<or>
          \<not> attemptTransitionMatches (the (lck_attemptOutcome l)) tr \<or>
          \<not> evidenceDoesNotRegress (lck_commandConfirmation l) (lck_commandEvidence l)
              (cst_ConfirmationLevel tr) (cst_EvidenceStatus tr)
       then ret False
       else updateCommandTransition commandID tr)"

definition UpdateEvidenceFromAttempt :: "gostr \<Rightarrow> gostr \<Rightarrow> gostr \<Rightarrow> CommandStatus \<Rightarrow> bool tx" where
  "UpdateEvidenceFromAttempt commandID attemptID expectedLeaseToken expectedStatus =
     on_row (lockCommandAttempt commandID attemptID) (ret False) (\<lambda>l.
       if lck_commandStatus l \<noteq> expectedStatus \<or> expectedStatus \<noteq> CommandStatusSent \<or>
          lck_attemptPhase l \<noteq> AttemptPhaseCompleted \<or> lck_leaseToken l \<noteq> expectedLeaseToken \<or>
          (lck_attemptOutcome l \<noteq> Some AttemptOutcomeProviderAccepted \<and>
           lck_attemptOutcome l \<noteq> Some AttemptOutcomeIndeterminate) \<or>
          \<not> evidenceProgresses (lck_commandConfirmation l) (lck_commandEvidence l)
              (lck_attemptConfirmation l) (lck_attemptEvidence l)
       then ret False
       else
         bnd (update_commands (\<lambda>t c. cmd_ID c = commandID \<and> cmd_Status c = expectedStatus)
                (\<lambda>t c. c\<lparr>cmd_ConfirmationLevel := lck_attemptConfirmation l,
                   cmd_EvidenceStatus := lck_attemptEvidence l, cmd_UpdatedAt := t\<rparr>)) (\<lambda>n.
         ret (exactlyOneRow n)))"

definition verified_message_matches :: "gostr \<Rightarrow> VerifiedEvidenceUpdateRequest \<Rightarrow> db \<Rightarrow> bool" where
  "verified_message_matches commandID r d =
     list_ex (\<lambda>rm. list_ex (\<lambda>c. list_ex (\<lambda>a. list_ex (\<lambda>dv.
        cmd_ID c = commandID \<and> att_ID a = veu_AttemptID r \<and> att_CommandID a = cmd_ID c \<and>
        dev_ID dv = cmd_DeviceID c \<and> raw_ID rm = veu_RawMessageID r \<and>
        raw_DeduplicationKey rm = veu_RawMessageDeduplicationKey r \<and>
        raw_DeduplicationKey rm = att_ProviderRequestKey a \<and> raw_DeviceID rm = Some (cmd_DeviceID c) \<and>
        raw_ProviderCode rm = ProviderCodeSimulator \<and> raw_ProviderCode rm = att_ProviderCode a \<and>
        raw_Adapter rm = att_Adapter a \<and> raw_ProviderCode rm = dev_ProviderCode dv \<and>
        raw_ProviderDeviceID rm = dev_ProviderDeviceID dv \<and> raw_Direction rm = RawMessageInbound)
       (tbl_devices d)) (tbl_attempts d)) (tbl_commands d)) (tbl_messages d)"

definition UpdateProviderAcceptanceFromVerifiedMessage ::
  "gostr \<Rightarrow> VerifiedEvidenceUpdateRequest \<Rightarrow> bool tx" where
  "UpdateProviderAcceptanceFromVerifiedMessage commandID r =
     on_row (lockCommandAttempt commandID (veu_AttemptID r)) (ret False) (\<lambda>l.
       if lck_commandStatus l \<noteq> veu_ExpectedStatus r \<or> veu_ExpectedStatus r \<noteq> CommandStatusSent \<or>
          lck_attemptPhase l \<noteq> AttemptPhaseCompleted \<or>
          lck_attemptOutcome l \<noteq> Some AttemptOutcomeProviderAccepted \<or>
          veu_AttemptOutcome r \<noteq> AttemptOutcomeProviderAccepted \<or>
          lck_providerCode l \<noteq> ProviderCodeSimulator \<or> lck_attemptConfirmation l \<noteq> ConfirmationProviderAccepted \<or>
          \<not> evidenceProgresses (lck_commandConfirmation l) (lck_commandEvidence l)
              ConfirmationProviderAccepted EvidenceVerified \<or>
          \<not> evidenceProgresses (lck_attemptConfirmation l) (lck_attemptEvidence l)
              ConfirmationProviderAccepted EvidenceVerified
       then ret False
       else
         bnd (query (\<lambda>t d. Inr (verified_message_matches commandID r d))) (\<lambda>evidenceMatches.
         if \<not> evidenceMatches then ret False
         else
           bnd (update_attempts
                  (\<lambda>t a. att_ID a = veu_AttemptID r \<and> att_CommandID a = commandID \<and>
                     att_Phase a = AttemptPhaseCompleted)
                  (\<lambda>t d a. a\<lparr>att_Outcome := Some (veu_AttemptOutcome r),
                     att_ConfirmationLevel := ConfirmationProviderAccepted,
                     att_EvidenceStatus := EvidenceVerified, att_ResponseSummary := veu_ResponseSummary r\<rparr>)) (\<lambda>n.
           if \<not> exactlyOneRow n then ret False
           else
             bnd (update_commands (\<lambda>t c. cmd_ID c = commandID \<and> cmd_Status c = veu_ExpectedStatus r)
                    (\<lambda>t c. c\<lparr>cmd_ConfirmationLevel := ConfirmationProviderAccepted,
                       cmd_EvidenceStatus := EvidenceVerified, cmd_UpdatedAt := t\<rparr>)) (\<lambda>n.
             ret (exactlyOneRow n)))))"

definition ApplyResult :: "CommandResult \<Rightarrow> CommandResultAggregation tx" where
  "ApplyResult r =
     bnd (command_GetForUpdate (res_CommandID r)) (\<lambda>c.
       let previous = cmd_Status c;
           finish = (\<lambda>u. bnd (command_Get (res_CommandID r)) (\<lambda>current.
             ret \<lparr>cra_PreviousStatus = previous, cra_Command = current\<rparr>));
           apply_status = (\<lambda>status reasonCode finishedAt.
             bnd (update_commands (\<lambda>t c. cmd_ID c = res_CommandID r)
                    (\<lambda>t c. c\<lparr>cmd_Status := status, cmd_ReasonCode := reasonCode, cmd_ReasonDetail := None,
                       cmd_ConfirmationLevel := res_ConfirmationLevel r,
                       cmd_EvidenceStatus := res_EvidenceStatus r,
                       cmd_FinishedAt := map_option pg_time finishedAt,
                       cmd_UpdatedAt := pg_time (res_ObservedAt r)\<rparr>)) finish)
       in
       if res_Late r \<noteq> IsTerminal (cmd_Status c) then fail ErrInvalidRepositoryRequest
       else if res_Late r then
         (if evidenceProgresses (cmd_ConfirmationLevel c) (cmd_EvidenceStatus c)
              (res_ConfirmationLevel r) (res_EvidenceStatus r)
          then bnd (update_commands (\<lambda>t c. cmd_ID c = res_CommandID r)
                      (\<lambda>t c. c\<lparr>cmd_ConfirmationLevel := res_ConfirmationLevel r,
                         cmd_EvidenceStatus := res_EvidenceStatus r,
                         cmd_UpdatedAt := pg_time (res_ObservedAt r)\<rparr>)) finish
          else finish 0)
       else
         (case res_Outcome r of
            ResultOutcomeDeviceAcked \<Rightarrow>
              if cmd_Status c \<noteq> CommandStatusSent then fail ErrInvalidRepositoryRequest
              else apply_status CommandStatusAcked None None
          | ResultOutcomeDeviceSucceeded \<Rightarrow>
              if cmd_Status c \<noteq> CommandStatusSent \<and> cmd_Status c \<noteq> CommandStatusAcked
              then fail ErrInvalidRepositoryRequest
              else apply_status CommandStatusSuccess None (Some (res_ObservedAt r))
          | ResultOutcomeDeviceFailed \<Rightarrow>
              if cmd_Status c \<noteq> CommandStatusSent \<and> cmd_Status c \<noteq> CommandStatusAcked
              then fail ErrInvalidRepositoryRequest
              else apply_status CommandStatusFailed (Some ''device_reported_failure'') (Some (res_ObservedAt r))
          | ResultOutcomeOther _ \<Rightarrow> fail ErrInvalidRepositoryRequest))"

end
