(* ===== verification/Device_Repo.thy ===== *)
theory Device_Repo
  imports Command_Repo
begin

text \<open>
  Projects, Device types and Devices (\<open>internal/storage/repository/postgres_project_device.go\<close>). The
  JSON of a Device type profile is read by the driver's decoder, so the table holds its actions with
  the milliseconds already scaled as \<open>decodeCapabilityActions\<close> scales them. A Project's manager is the
  row of another table that its foreign key guarantees.
\<close>

subsection \<open>Projects\<close>

definition project_Get :: "gostr \<Rightarrow> Project tx" where
  "project_Get projectID = query_row tbl_projects (\<lambda>t p. prj_ID p = projectID)"

definition project_GetForUpdate :: "gostr \<Rightarrow> Project tx" where
  "project_GetForUpdate projectID = query_row tbl_projects (\<lambda>t p. prj_ID p = projectID)"

definition project_GetByAPIKeyDigest :: "8 word list \<Rightarrow> Project tx" where
  "project_GetByAPIKeyDigest digest = query_row tbl_projects (\<lambda>t p. prj_APIKeyDigest p = digest)"

definition project_GetWebhookSecretVersion :: "gostr \<Rightarrow> int \<Rightarrow> WebhookSecretVersion tx" where
  "project_GetWebhookSecretVersion projectID version =
     query_row tbl_secrets (\<lambda>t s. wsv_ProjectID s = projectID \<and> wsv_Version s = version)"

record ListProjectsRequest =
  lpr_Name :: "gostr option"
  lpr_ManagerUserID :: "gostr option"
  lpr_Limit :: int
  lpr_Offset :: int

definition listed_project :: "ListProjectsRequest \<Rightarrow> Project \<Rightarrow> bool" where
  "listed_project r p \<longleftrightarrow> matches (lpr_Name r) (prj_Name p) \<and> matches (lpr_ManagerUserID r) (prj_ManagerUserID p)"

definition project_List :: "ListProjectsRequest \<Rightarrow> (Project list \<times> nat) tx" where
  "project_List r =
     (if lpr_Limit r < 1 \<or> 100 < lpr_Limit r \<or> lpr_Offset r < 0 then fail ErrInvalidRepositoryRequest
      else
        bnd (query (\<lambda>t d. Inr (length (filter (listed_project r) (tbl_projects d))))) (\<lambda>total.
        bnd (query (\<lambda>t d. Inr (page (\<lambda>p. (prj_CreatedAt p, prj_ID p)) (lpr_Limit r) (lpr_Offset r)
               (filter (listed_project r) (tbl_projects d))))) (\<lambda>items.
        ret (items, total))))"

definition project_Create :: "Project \<Rightarrow> unit tx" where
  "project_Create p =
     sql (\<lambda>t d.
       if list_ex (\<lambda>x. prj_ID x = prj_ID p) (tbl_projects d) then Inl (ErrUniqueViolation ''projects_pkey'')
       else if list_ex (\<lambda>x. prj_APIKeyDigest x = prj_APIKeyDigest p) (tbl_projects d)
       then Inl (ErrUniqueViolation ''projects_api_key_hash_key'')
       else Inr ((), d\<lparr>tbl_projects := tbl_projects d @
         [p\<lparr>prj_CreatedAt := pg_time (prj_CreatedAt p), prj_UpdatedAt := pg_time (prj_UpdatedAt p)\<rparr>]\<rparr>))"

definition update_projects :: "(instant \<Rightarrow> Project \<Rightarrow> bool) \<Rightarrow> (instant \<Rightarrow> Project \<Rightarrow> Project) \<Rightarrow> nat tx" where
  "update_projects p f =
     sql (\<lambda>t d. case update_where (p t) (f t) (tbl_projects d) of
       (n, rows) \<Rightarrow> Inr (n, d\<lparr>tbl_projects := rows\<rparr>))"

definition project_CountByManager :: "gostr \<Rightarrow> nat tx" where
  "project_CountByManager managerUserID =
     query (\<lambda>t d. Inr (length (filter (\<lambda>p. prj_ManagerUserID p = managerUserID) (tbl_projects d))))"

definition project_SetManager :: "gostr \<Rightarrow> gostr \<Rightarrow> unit tx" where
  "project_SetManager projectID managerUserID =
     bnd (update_projects (\<lambda>t p. prj_ID p = projectID)
            (\<lambda>t p. p\<lparr>prj_ManagerUserID := managerUserID, prj_UpdatedAt := t\<rparr>)) (\<lambda>n. ret ())"

definition project_Rename :: "gostr \<Rightarrow> gostr \<Rightarrow> unit tx" where
  "project_Rename projectID name =
     bnd (update_projects (\<lambda>t p. prj_ID p = projectID) (\<lambda>t p. p\<lparr>prj_Name := name, prj_UpdatedAt := t\<rparr>)) (\<lambda>n. ret ())"

definition project_ReplaceIPWhitelist :: "gostr \<Rightarrow> gostr list \<Rightarrow> unit tx" where
  "project_ReplaceIPWhitelist projectID whitelist =
     bnd (update_projects (\<lambda>t p. prj_ID p = projectID)
            (\<lambda>t p. p\<lparr>prj_IPWhitelist := whitelist, prj_UpdatedAt := t\<rparr>)) (\<lambda>n. ret ())"

definition project_SetWebhookConfiguration :: "gostr \<Rightarrow> gostr option \<Rightarrow> int \<Rightarrow> int option \<Rightarrow> unit tx" where
  "project_SetWebhookConfiguration projectID webhookURL configVersion secretVersion =
     bnd (update_projects (\<lambda>t p. prj_ID p = projectID)
            (\<lambda>t p. p\<lparr>prj_WebhookURL := webhookURL, prj_WebhookConfigVersion := configVersion,
               prj_CurrentWebhookSecretVersion := secretVersion, prj_UpdatedAt := t\<rparr>)) (\<lambda>n. ret ())"

definition project_ReplaceAPIKeyDigest :: "gostr \<Rightarrow> 8 word list \<Rightarrow> unit tx" where
  "project_ReplaceAPIKeyDigest projectID digest =
     sql (\<lambda>t d.
       if list_ex (\<lambda>x. prj_ID x = projectID) (tbl_projects d) \<and>
          list_ex (\<lambda>x. prj_ID x \<noteq> projectID \<and> prj_APIKeyDigest x = digest) (tbl_projects d)
       then Inl (ErrUniqueViolation ''projects_api_key_hash_key'')
       else Inr ((), d\<lparr>tbl_projects := snd (update_where (\<lambda>p. prj_ID p = projectID)
         (\<lambda>p. p\<lparr>prj_APIKeyDigest := digest, prj_UpdatedAt := t\<rparr>) (tbl_projects d))\<rparr>))"

definition project_CreateWebhookSecretVersion :: "WebhookSecretVersion \<Rightarrow> unit tx" where
  "project_CreateWebhookSecretVersion s =
     sql (\<lambda>t d.
       if list_ex (\<lambda>x. wsv_ProjectID x = wsv_ProjectID s \<and> wsv_Version x = wsv_Version s) (tbl_secrets d)
       then Inl (ErrUniqueViolation ''project_webhook_secrets_pkey'')
       else Inr ((), d\<lparr>tbl_secrets := tbl_secrets d @
         [s\<lparr>wsv_CreatedAt := pg_time (wsv_CreatedAt s), wsv_RetiredAt := map_option pg_time (wsv_RetiredAt s)\<rparr>]\<rparr>))"

definition project_RetireWebhookSecretVersion :: "gostr \<Rightarrow> int \<Rightarrow> unit tx" where
  "project_RetireWebhookSecretVersion projectID version =
     sql (\<lambda>t d. Inr ((), d\<lparr>tbl_secrets := map (\<lambda>s.
       if wsv_ProjectID s = projectID \<and> wsv_Version s = version
       then s\<lparr>wsv_RetiredAt := (case wsv_RetiredAt s of None \<Rightarrow> Some (max t (wsv_CreatedAt s)) | Some x \<Rightarrow> Some x)\<rparr>
       else s) (tbl_secrets d)\<rparr>))"

subsection \<open>Device types\<close>

definition type_GetByCode :: "gostr \<Rightarrow> DeviceType tx" where
  "type_GetByCode code = query_row tbl_device_types (\<lambda>t x. dty_Code x = code)"

definition type_GetProfile :: "gostr \<Rightarrow> int \<Rightarrow> DeviceTypeProfile tx" where
  "type_GetProfile deviceTypeID revision =
     query_row tbl_profiles (\<lambda>t x. dtp_DeviceTypeID x = deviceTypeID \<and> dtp_Revision x = revision)"

definition type_List :: "DeviceType list tx" where
  "type_List = query (\<lambda>t d. Inr (sort_key dty_Code (tbl_device_types d)))"

subsection \<open>Devices\<close>

definition device_Get :: "gostr \<Rightarrow> Device tx" where
  "device_Get deviceID = query_row tbl_devices (\<lambda>t d. dev_ID d = deviceID)"

definition device_GetForUpdate :: "gostr \<Rightarrow> Device tx" where
  "device_GetForUpdate deviceID = query_row tbl_devices (\<lambda>t d. dev_ID d = deviceID)"

definition device_GetByProject :: "gostr \<Rightarrow> gostr \<Rightarrow> Device tx" where
  "device_GetByProject projectID deviceID =
     query_row tbl_devices (\<lambda>t d. dev_ProjectID d = projectID \<and> dev_ID d = deviceID)"

definition device_GetByProviderIdentity :: "gostr \<Rightarrow> gostr \<Rightarrow> Device tx" where
  "device_GetByProviderIdentity providerCode providerDeviceID =
     query_row tbl_devices (\<lambda>t d.
       ascii_lower (dev_ProviderCode d) = ascii_lower providerCode \<and> dev_ProviderDeviceID d = providerDeviceID)"

definition device_ListByProject :: "gostr \<Rightarrow> Device list tx" where
  "device_ListByProject projectID =
     query (\<lambda>t d. Inr (sort_key (\<lambda>x. (dev_CreatedAt x, dev_ID x))
       (filter (\<lambda>x. dev_ProjectID x = projectID) (tbl_devices d))))"

record ListDevicesRequest =
  ldr_ProjectID :: "gostr option"
  ldr_ManagerUserID :: "gostr option"
  ldr_DeviceTypeCode :: "gostr option"
  ldr_ProviderCode :: "gostr option"
  ldr_ConnectionStatus :: "ConnectionStatus option"
  ldr_LifecycleStatus :: "LifecycleStatus option"
  ldr_Limit :: int
  ldr_Offset :: int

definition listed_device :: "ListDevicesRequest \<Rightarrow> db \<Rightarrow> Device \<Rightarrow> bool" where
  "listed_device r d x \<longleftrightarrow>
     matches (ldr_ProjectID r) (dev_ProjectID x) \<and> managed_by d (ldr_ManagerUserID r) (dev_ProjectID x) \<and>
     matches (ldr_DeviceTypeCode r) (dev_DeviceTypeCode x) \<and> matches (ldr_ProviderCode r) (dev_ProviderCode x) \<and>
     matches (ldr_ConnectionStatus r) (dev_ConnectionStatus x) \<and>
     matches (ldr_LifecycleStatus r) (dev_LifecycleStatus x)"

definition device_List :: "ListDevicesRequest \<Rightarrow> (Device list \<times> nat) tx" where
  "device_List r =
     (if ldr_Limit r < 1 \<or> 100 < ldr_Limit r \<or> ldr_Offset r < 0 then fail ErrInvalidRepositoryRequest
      else
        bnd (query (\<lambda>t d. Inr (length (filter (listed_device r d) (tbl_devices d))))) (\<lambda>total.
        bnd (query (\<lambda>t d. Inr (page (\<lambda>x. (dev_CreatedAt x, dev_ID x)) (ldr_Limit r) (ldr_Offset r)
               (filter (listed_device r d) (tbl_devices d))))) (\<lambda>items.
        ret (items, total))))"

definition device_GetCurrentState :: "gostr \<Rightarrow> DeviceState tx" where
  "device_GetCurrentState deviceID =
     query (\<lambda>t d.
       case page (\<lambda>s. (dst_ObservedAt s, dst_CreatedAt s, dst_ID s)) 1 0
              (filter (\<lambda>s. dst_DeviceID s = deviceID) (tbl_states d)) of
         [] \<Rightarrow> Inl ErrNoRows
       | s # _ \<Rightarrow> Inr s)"

text \<open>\<open>chk_devices_provider_binding\<close>: the Provider's profile, its way in and the form of its identity.\<close>

definition device_check :: "Device \<Rightarrow> bool" where
  "device_check x \<longleftrightarrow>
     provider_route (dev_ProviderCode x) (dev_ProviderProfile x) (dev_ProviderDeviceID x) (dev_ID x) \<and>
     (dev_ProviderCode x, dev_AccessType x, dev_TransportProtocol x, dev_Adapter x) \<in>
       {(ProviderCodeWWTIOT, AccessTypeCloudAPI, TransportProtocolHTTP, AdapterWWTIOTCloudAPI),
        (ProviderCodeOmni, AccessTypeDirectDevice, TransportProtocolTCP, AdapterOmniDirectTCP),
        (ProviderCodeSimulator, AccessTypeSimulator, TransportProtocolInternal, AdapterSimulator)}"

definition device_Create :: "Device \<Rightarrow> unit tx" where
  "device_Create x =
     sql (\<lambda>t d.
       if list_ex (\<lambda>y. dev_ID y = dev_ID x) (tbl_devices d) then Inl (ErrUniqueViolation ''devices_pkey'')
       else if list_ex (\<lambda>y. ascii_lower (dev_ProviderCode y) = ascii_lower (dev_ProviderCode x) \<and>
           dev_ProviderDeviceID y = dev_ProviderDeviceID x) (tbl_devices d)
       then Inl (ErrUniqueViolation ''uq_devices_provider_identity'')
       else if \<not> device_check x then Inl (ErrCheckViolation ''devices'')
       else Inr ((), d\<lparr>tbl_devices := tbl_devices d @
         [x\<lparr>dev_CreatedAt := pg_time (dev_CreatedAt x), dev_UpdatedAt := pg_time (dev_UpdatedAt x)\<rparr>]\<rparr>))"

definition update_devices :: "(instant \<Rightarrow> Device \<Rightarrow> bool) \<Rightarrow> (instant \<Rightarrow> Device \<Rightarrow> Device) \<Rightarrow> nat tx" where
  "update_devices p f =
     sql (\<lambda>t d. case update_where (p t) (f t) (tbl_devices d) of
       (n, rows) \<Rightarrow> Inr (n, d\<lparr>tbl_devices := rows\<rparr>))"

definition device_Rename :: "gostr \<Rightarrow> gostr \<Rightarrow> unit tx" where
  "device_Rename deviceID name =
     bnd (update_devices (\<lambda>t x. dev_ID x = deviceID) (\<lambda>t x. x\<lparr>dev_Name := name, dev_UpdatedAt := t\<rparr>)) (\<lambda>n. ret ())"

definition device_SetLifecycleStatus :: "gostr \<Rightarrow> LifecycleStatus \<Rightarrow> LifecycleStatus \<Rightarrow> bool tx" where
  "device_SetLifecycleStatus deviceID old new =
     bnd (update_devices (\<lambda>t x. dev_ID x = deviceID \<and> dev_LifecycleStatus x = old)
            (\<lambda>t x. x\<lparr>dev_LifecycleStatus := new, dev_UpdatedAt := t\<rparr>)) (\<lambda>n. ret (exactlyOneRow n))"

definition device_SetConnectionStatus :: "gostr \<Rightarrow> ConnectionStatus \<Rightarrow> ConnectionStatus \<Rightarrow> bool tx" where
  "device_SetConnectionStatus deviceID old new =
     bnd (update_devices (\<lambda>t x. dev_ID x = deviceID \<and> dev_ConnectionStatus x = old)
            (\<lambda>t x. x\<lparr>dev_ConnectionStatus := new, dev_UpdatedAt := t\<rparr>)) (\<lambda>n. ret (exactlyOneRow n))"

definition device_SaveState :: "DeviceState \<Rightarrow> unit tx" where
  "device_SaveState s =
     sql (\<lambda>t d.
       if list_ex (\<lambda>x. dst_ID x = dst_ID s) (tbl_states d) then Inl (ErrUniqueViolation ''device_states_pkey'')
       else Inr ((), d\<lparr>tbl_states := tbl_states d @
         [s\<lparr>dst_ReportedAt := map_option pg_time (dst_ReportedAt s), dst_ObservedAt := pg_time (dst_ObservedAt s),
            dst_CreatedAt := pg_time (dst_CreatedAt s)\<rparr>]\<rparr>))"

end
