(* ===== verification/Record_Repo.thy ===== *)
theory Record_Repo
  imports Command_Repo
begin

text \<open>
  The append-only tables of \<open>postgres_command_event.go\<close>: CommandResults, RawMessages, Events and
  AuditLogs, with their unique indexes. Of their CHECK constraints, foreign keys and triggers those of
  CommandResults are modelled; those of the other three, which the rows the services build are meant to
  meet, are not: a statement that one of them refuses is a driver failure of the model.
\<close>

definition result_GetByDeduplicationKey :: "EventSource \<Rightarrow> gostr \<Rightarrow> CommandResult tx" where
  "result_GetByDeduplicationKey source deduplicationKey =
     query_row tbl_results (\<lambda>t r. res_Source r = source \<and> res_DeduplicationKey r = deduplicationKey)"

definition stored_result :: "CommandResult \<Rightarrow> CommandResult" where
  "stored_result r = r\<lparr>res_ReportedAt := map_option pg_time (res_ReportedAt r),
     res_ObservedAt := pg_time (res_ObservedAt r), res_CreatedAt := pg_time (res_CreatedAt r)\<rparr>"

definition insert_result :: "CommandResult \<Rightarrow> unit tx" where
  "insert_result r =
     sql (\<lambda>t d.
       if list_ex (\<lambda>x. res_ID x = res_ID r) (tbl_results d)
       then Inl (ErrUniqueViolation ''device_command_results_pkey'')
       else if list_ex (\<lambda>x. res_Source x = res_Source r \<and> res_DeduplicationKey x = res_DeduplicationKey r) (tbl_results d)
       then Inl (ErrUniqueViolation ''uq_command_results_source_deduplication'')
       else if \<not> list_ex (\<lambda>c. cmd_ID c = res_CommandID r) (tbl_commands d)
       then Inl (ErrForeignKeyViolation ''device_command_results_command_id_fkey'')
       else if res_AttemptID r \<noteq> None \<and>
         \<not> list_ex (\<lambda>a. att_ID a = the (res_AttemptID r) \<and> att_CommandID a = res_CommandID r) (tbl_attempts d)
       then Inl (ErrForeignKeyViolation ''fk_command_results_attempt'')
       else if \<not> result_check r then Inl (ErrCheckViolation ''device_command_results'')
       else Inr ((), d\<lparr>tbl_results := tbl_results d @ [r]\<rparr>))"

definition result_Create :: "CommandResult \<Rightarrow> unit tx" where
  "result_Create r =
     map_error
       (\<lambda>e. if e = ErrUniqueViolation ''uq_command_results_source_deduplication''
            then ErrCommandResultConflict else e)
       (insert_result (stored_result r))"

definition message_GetByDeduplicationKey :: "gostr \<Rightarrow> gostr \<Rightarrow> RawMessage tx" where
  "message_GetByDeduplicationKey providerCode deduplicationKey =
     query_row tbl_messages (\<lambda>t m. raw_ProviderCode m = providerCode \<and> raw_DeduplicationKey m = deduplicationKey)"

definition message_Create :: "RawMessage \<Rightarrow> unit tx" where
  "message_Create m =
     sql (\<lambda>t d.
       if list_ex (\<lambda>x. raw_ID x = raw_ID m) (tbl_messages d)
       then Inl (ErrUniqueViolation ''device_raw_messages_pkey'')
       else if list_ex (\<lambda>x. raw_ProviderCode x = raw_ProviderCode m \<and>
           raw_DeduplicationKey x = raw_DeduplicationKey m) (tbl_messages d)
       then Inl (ErrUniqueViolation ''uq_raw_messages_provider_deduplication'')
       else Inr ((), d\<lparr>tbl_messages := tbl_messages d @
         [m\<lparr>raw_ReceivedAt := pg_time (raw_ReceivedAt m), raw_CreatedAt := pg_time (raw_CreatedAt m)\<rparr>]\<rparr>))"

definition event_Get :: "gostr \<Rightarrow> Event tx" where
  "event_Get eventID = query_row tbl_events (\<lambda>t e. evt_ID e = eventID)"

definition event_GetByDeduplicationKey :: "gostr \<Rightarrow> gostr \<Rightarrow> Event tx" where
  "event_GetByDeduplicationKey projectID deduplicationKey =
     query_row tbl_events (\<lambda>t e. evt_ProjectID e = projectID \<and> evt_DeduplicationKey e = deduplicationKey)"

definition event_ListByCommand :: "gostr \<Rightarrow> Event list tx" where
  "event_ListByCommand commandID =
     query (\<lambda>t d. Inr (sort_key (\<lambda>e. (evt_OccurredAt e, evt_ID e))
       (filter (\<lambda>e. evt_CommandID e = Some commandID) (tbl_events d))))"

record ListEventsRequest =
  ler_ProjectID :: "gostr option"
  ler_ManagerUserID :: "gostr option"
  ler_DeviceID :: "gostr option"
  ler_CommandID :: "gostr option"
  ler_EventType :: "EventType option"
  ler_Limit :: int
  ler_Offset :: int

definition listed_event :: "ListEventsRequest \<Rightarrow> db \<Rightarrow> Event \<Rightarrow> bool" where
  "listed_event r d e \<longleftrightarrow>
     matches (ler_ProjectID r) (evt_ProjectID e) \<and> managed_by d (ler_ManagerUserID r) (evt_ProjectID e) \<and>
     (ler_DeviceID r = None \<or> evt_DeviceID e = ler_DeviceID r) \<and>
     (ler_CommandID r = None \<or> evt_CommandID e = ler_CommandID r) \<and> matches (ler_EventType r) (evt_EventType e)"

definition event_List :: "ListEventsRequest \<Rightarrow> (Event list \<times> nat) tx" where
  "event_List r =
     (if ler_Limit r < 1 \<or> ler_Limit r > 100 \<or> ler_Offset r < 0 then fail ErrInvalidRepositoryRequest
      else
        bnd (query (\<lambda>t d. Inr (length (filter (listed_event r d) (tbl_events d))))) (\<lambda>total.
        bnd (query (\<lambda>t d. Inr (page (\<lambda>e. (evt_OccurredAt e, evt_ID e)) (ler_Limit r) (ler_Offset r)
               (filter (listed_event r d) (tbl_events d))))) (\<lambda>items.
        ret (items, total))))"

definition event_Create :: "Event \<Rightarrow> unit tx" where
  "event_Create e =
     sql (\<lambda>t d.
       if list_ex (\<lambda>x. evt_ID x = evt_ID e) (tbl_events d)
       then Inl (ErrUniqueViolation ''device_events_pkey'')
       else if list_ex (\<lambda>x. evt_ProjectID x = evt_ProjectID e \<and>
           evt_DeduplicationKey x = evt_DeduplicationKey e) (tbl_events d)
       then Inl (ErrUniqueViolation ''uq_device_events_project_deduplication'')
       else Inr ((), d\<lparr>tbl_events := tbl_events d @
         [e\<lparr>evt_OccurredAt := pg_time (evt_OccurredAt e), evt_CreatedAt := pg_time (evt_CreatedAt e)\<rparr>]\<rparr>))"

record ListAuditsRequest =
  lar_ProjectID :: "gostr option"
  lar_ManagerUserID :: "gostr option"
  lar_ActorType :: "ActorType option"
  lar_Action :: "gostr option"
  lar_Result :: "AuditResult option"
  lar_ResourceType :: "gostr option"
  lar_ResourceID :: "gostr option"
  lar_Limit :: int
  lar_Offset :: int

text \<open>An Audit record without a Project is listed only to a caller who asks for every manager's.\<close>

definition listed_audit :: "ListAuditsRequest \<Rightarrow> db \<Rightarrow> AuditLog \<Rightarrow> bool" where
  "listed_audit r d a \<longleftrightarrow>
     (lar_ProjectID r = None \<or> aud_ProjectID a = lar_ProjectID r) \<and>
     (case lar_ManagerUserID r of
        None \<Rightarrow> True
      | Some m \<Rightarrow> (case aud_ProjectID a of None \<Rightarrow> False | Some p \<Rightarrow> managed_by d (Some m) p)) \<and>
     matches (lar_ActorType r) (aud_ActorType a) \<and> matches (lar_Action r) (aud_Action a) \<and>
     matches (lar_Result r) (aud_Result a) \<and> matches (lar_ResourceType r) (aud_ResourceType a) \<and>
     (lar_ResourceID r = None \<or> aud_ResourceID a = lar_ResourceID r)"

definition audit_Get :: "gostr \<Rightarrow> AuditLog tx" where
  "audit_Get auditID = query_row tbl_audits (\<lambda>t a. aud_ID a = auditID)"

definition audit_List :: "ListAuditsRequest \<Rightarrow> (AuditLog list \<times> nat) tx" where
  "audit_List r =
     (if lar_Limit r < 1 \<or> lar_Limit r > 100 \<or> lar_Offset r < 0 then fail ErrInvalidRepositoryRequest
      else
        bnd (query (\<lambda>t d. Inr (length (filter (listed_audit r d) (tbl_audits d))))) (\<lambda>total.
        bnd (query (\<lambda>t d. Inr (page (\<lambda>a. (aud_OccurredAt a, aud_ID a)) (lar_Limit r) (lar_Offset r)
               (filter (listed_audit r d) (tbl_audits d))))) (\<lambda>items.
        ret (items, total))))"

definition audit_Create :: "AuditLog \<Rightarrow> unit tx" where
  "audit_Create a =
     sql (\<lambda>t d.
       if list_ex (\<lambda>x. aud_ID x = aud_ID a) (tbl_audits d)
       then Inl (ErrUniqueViolation ''audit_logs_pkey'')
       else Inr ((), d\<lparr>tbl_audits := tbl_audits d @ [a\<lparr>aud_OccurredAt := pg_time (aud_OccurredAt a)\<rparr>]\<rparr>))"

subsection \<open>Pages\<close>

lemma length_page: "length (page key l k rows) \<le> nat l"
  by (simp add: page_def)

lemma set_page: "set (page key l k rows) \<subseteq> set rows"
  using set_drop_subset [of "nat k" "rev (sort_key key rows)"]
  by (auto simp: page_def dest: in_set_takeD)

lemma sorted_page: "sorted (map key (rev (page key l k rows)))"
proof -
  have "rev (page key l k rows) =
      drop (length rows - nat k - nat l) (take (length rows - nat k) (sort_key key rows))"
    by (simp add: page_def rev_take rev_drop)
  then show ?thesis
    by (simp add: drop_map [symmetric] take_map [symmetric] sorted_wrt_drop sorted_wrt_take)
qed

end
