(* ===== verification/Digest.thy ===== *)
theory Digest
  imports Prelude
begin

text \<open>
  Go's \<open>crypto/sha256\<close> and \<open>crypto/hmac\<close> over it (FIPS 180-4, RFC 2104), with which the program
  derives the hash of a canonical Command request, deduplication keys, API key digests and webhook
  signatures. Nothing is assumed of them beyond what is defined here.
\<close>

definition bytes_of :: "gostr \<Rightarrow> 8 word list" where "bytes_of s = map (\<lambda>c. of_nat (byte_of c)) s"
definition text_of :: "8 word list \<Rightarrow> gostr" where "text_of ws = map (\<lambda>w. char_of (unat w)) ws"

text \<open>
  The constants are those of FIPS 180-4, section 4.2.2 and 5.3.3: the first 32 bits of the fractional
  parts of the cube roots of the first 64 primes, and of the square roots of the first 8.
\<close>

definition integer_root :: "nat \<Rightarrow> nat \<Rightarrow> nat" where
  "integer_root k n = fold (\<lambda>b r. if (r + 2 ^ b) ^ k \<le> n then r + 2 ^ b else r) (rev [0..<40]) 0"

definition root_fraction :: "nat \<Rightarrow> nat \<Rightarrow> 32 word" where
  "root_fraction k p = of_nat (integer_root k (p * 2 ^ (32 * k)))"

definition small_primes :: "nat list" where
  "small_primes =
     [2, 3, 5, 7, 11, 13, 17, 19, 23, 29, 31, 37, 41, 43, 47, 53,
      59, 61, 67, 71, 73, 79, 83, 89, 97, 101, 103, 107, 109, 113, 127, 131,
      137, 139, 149, 151, 157, 163, 167, 173, 179, 181, 191, 193, 197, 199, 211, 223,
      227, 229, 233, 239, 241, 251, 257, 263, 269, 271, 277, 281, 283, 293, 307, 311]"

definition sha256_K :: "32 word list" where "sha256_K = map (root_fraction 3) small_primes"
definition sha256_H :: "32 word list" where "sha256_H = map (root_fraction 2) (take 8 small_primes)"

definition word_bytes :: "nat \<Rightarrow> nat \<Rightarrow> 8 word list" where
  "word_bytes k n = map (\<lambda>i. of_nat (n div 256 ^ i)) (rev [0..<k])"

definition sha256_pad :: "8 word list \<Rightarrow> 8 word list" where
  "sha256_pad m =
     m @ 0x80 # replicate ((119 - length m mod 64) mod 64) 0 @ word_bytes 8 (8 * length m)"

fun pieces :: "nat \<Rightarrow> nat \<Rightarrow> 'a list \<Rightarrow> 'a list list" where
  "pieces 0 k xs = []"
| "pieces (Suc n) k xs = take k xs # pieces n k (drop k xs)"

definition small_sigma0 :: "32 word \<Rightarrow> 32 word" where
  "small_sigma0 x = word_rotr 7 x XOR word_rotr 18 x XOR drop_bit 3 x"
definition small_sigma1 :: "32 word \<Rightarrow> 32 word" where
  "small_sigma1 x = word_rotr 17 x XOR word_rotr 19 x XOR drop_bit 10 x"
definition big_sigma0 :: "32 word \<Rightarrow> 32 word" where
  "big_sigma0 x = word_rotr 2 x XOR word_rotr 13 x XOR word_rotr 22 x"
definition big_sigma1 :: "32 word \<Rightarrow> 32 word" where
  "big_sigma1 x = word_rotr 6 x XOR word_rotr 11 x XOR word_rotr 25 x"

definition sha256_schedule :: "32 word list \<Rightarrow> 32 word list" where
  "sha256_schedule w0 =
     fold (\<lambda>i w. w @ [small_sigma1 (w ! (i - 2)) + w ! (i - 7) + small_sigma0 (w ! (i - 15)) + w ! (i - 16)])
       [16..<64] w0"

fun sha256_round :: "32 word \<times> 32 word \<Rightarrow> 32 word list \<Rightarrow> 32 word list" where
  "sha256_round (k, w) [a, b, c, d, e, f, g, h] =
     (let t1 = h + big_sigma1 e + ((e AND f) XOR (NOT e AND g)) + k + w;
          t2 = big_sigma0 a + ((a AND b) XOR (a AND c) XOR (b AND c))
      in [t1 + t2, a, b, c, d + t1, e, f, g])"
| "sha256_round kw s = s"

definition sha256_block :: "8 word list \<Rightarrow> 32 word list \<Rightarrow> 32 word list" where
  "sha256_block b h =
     (let w = sha256_schedule (map word_rcat (pieces 16 4 b))
      in map2 (+) h (fold sha256_round (zip sha256_K w) h))"

definition sha256 :: "8 word list \<Rightarrow> 8 word list" where
  "sha256 m =
     (let p = sha256_pad m
      in concat (map (\<lambda>w. word_bytes 4 (unat w)) (fold sha256_block (pieces (length p div 64) 64 p) sha256_H)))"

definition sha256_text :: "gostr \<Rightarrow> 8 word list" where "sha256_text s = sha256 (bytes_of s)"

definition hmac_sha256 :: "8 word list \<Rightarrow> 8 word list \<Rightarrow> 8 word list" where
  "hmac_sha256 key m =
     (let k0 = (if 64 < length key then sha256 key else key); k = k0 @ replicate (64 - length k0) 0
      in sha256 (map (\<lambda>x. x XOR 0x5c) k @ sha256 (map (\<lambda>x. x XOR 0x36) k @ m)))"

subsection \<open>Lengths\<close>

lemma length_word_bytes [simp]: "length (word_bytes k n) = k"
  by (simp add: word_bytes_def)

lemma length_sha256_round [simp]: "length (sha256_round kw s) = length s"
  by (cases "(kw, s)" rule: sha256_round.cases) (auto simp: Let_def)

lemma length_sha256_rounds: "length (fold sha256_round ks s) = length s"
  by (induction ks arbitrary: s) auto

lemma length_sha256_block [simp]: "length (sha256_block b h) = length h"
  by (simp add: sha256_block_def Let_def length_sha256_rounds)

lemma length_sha256_blocks: "length (fold sha256_block bs h) = length h"
  by (induction bs arbitrary: h) auto

lemma length_sha256 [simp]: "length (sha256 m) = 32"
proof -
  have "length (concat (map (\<lambda>w. word_bytes 4 (unat w)) ws)) = 4 * length ws" for ws :: "32 word list"
    by (induction ws) auto
  then show ?thesis by (simp add: sha256_def Let_def length_sha256_blocks) (simp add: sha256_H_def small_primes_def)
qed

lemma length_hmac_sha256 [simp]: "length (hmac_sha256 key m) = 32"
  by (simp add: hmac_sha256_def Let_def)

end
