(* ===== verification/Sample_World.thy ===== *)
theory Sample_World
  imports Store
begin

text \<open>
  Small worlds on which properties are applied to concrete inputs: a database without rows, and a world
  that stands at an instant, draws the bytes 0, 1, 2, ... as its random numbers and meets no driver failure.
\<close>

definition blank_db :: db where
  "blank_db =
     \<lparr>tbl_projects = [], tbl_devices = [], tbl_commands = [], tbl_attempts = [], tbl_results = [],
      tbl_messages = [], tbl_events = [], tbl_deliveries = [], tbl_delivery_attempts = [], tbl_audits = [],
      tbl_secrets = [], tbl_device_types = [], tbl_profiles = [], tbl_states = [], tbl_simulator = [], tbl_users = []\<rparr>"

definition counting_bytes :: "8 word list" where
  "counting_bytes = map of_nat [0..<240]"

definition world_at :: "db \<Rightarrow> instant \<Rightarrow> world" where
  "world_at d t =
     \<lparr>w_db = d, w_now = t, w_clock = t, w_ticks = [], w_faults = [], w_random = counting_bytes, w_net = []\<rparr>"

lemma world_at_simps [simp]:
  "w_db (world_at d t) = d" "w_now (world_at d t) = t" "w_clock (world_at d t) = t" "w_faults (world_at d t) = []"
  "w_random (world_at d t) = counting_bytes" "w_net (world_at d t) = []" "tick (world_at d t) = world_at d t"
  by (simp_all add: world_at_def tick_def)

lemma length_counting_bytes [simp]: "length counting_bytes = 240"
  by (simp add: counting_bytes_def)

end
