(* ===== verification/Omni_Inbound.thy ===== *)
theory Omni_Inbound
  imports Omni_Decoder Device_Repo Record_Repo Digest Json Sample_World
begin

text \<open>
  Recording a frame that a Device sent (\<open>internal/directdevice/omni/inbound.go\<close>): in one transaction the
  frame is attributed to a registered Device or rejected, its safe summary is stored once, and the decision
  is audited. \<open>TransactProviderMessage\<close> of \<open>postgres_project_device.go\<close> is \<open>WithinTransaction\<close>.
\<close>

definition unresolvedProviderDeviceID :: gostr where "unresolvedProviderDeviceID = ''unresolved''"

record InboundRecordRequest =
  ibq_Profile :: gostr
  ibq_ConnectionID :: gostr
  ibq_FirstFrame :: bool
  ibq_ExpectedDeviceID :: gostr
  ibq_Decoded :: DecodedFrame

record InboundRecordResult =
  ibr_RawMessageID :: gostr
  ibr_Device :: "Device option"
  ibr_Accepted :: bool
  ibr_Duplicate :: bool
  ibr_RejectCode :: gostr

text \<open>The frame of a decoded frame: the zero \<open>Frame\<close> when it did not parse.\<close>

definition received_frame :: "DecodedFrame \<Rightarrow> Frame" where
  "received_frame d =
     (case dcf_Frame d of
        None \<Rightarrow> \<lparr>frm_Profile = [], frm_IMEI = [], frm_Timestamp = [], frm_Command = [], frm_Fields = []\<rparr>
      | Some f \<Rightarrow> f)"

definition ErrorCode :: "FrameErrorCode option \<Rightarrow> FrameErrorCode" where
  "ErrorCode err = (case err of None \<Rightarrow> FrameInvalid | Some code \<Rightarrow> code)"

definition inboundParseStatus :: "FrameErrorCode option \<Rightarrow> gostr" where
  "inboundParseStatus err = (if err \<noteq> None then ''invalid'' else ''valid'')"

definition nul :: char where "nul = CHR 0x00"

definition inboundDeduplicationKey :: "InboundRecordRequest \<Rightarrow> gostr" where
  "inboundDeduplicationKey request =
     ibq_Profile request @ '':'' @
       hex_encode (sha256_text
         (ibq_Profile request @ [nul] @ ibq_ConnectionID request @ [nul] @
          (if dcf_Raw (ibq_Decoded request) \<noteq> [] then dcf_Raw (ibq_Decoded request)
           else wire_FrameErrorCode (ErrorCode (dcf_Err (ibq_Decoded request))))))"

definition inboundSafeSummary :: "InboundRecordRequest \<Rightarrow> gostr \<Rightarrow> gomap" where
  "inboundSafeSummary request rejectCode =
     (let d = ibq_Decoded request in
      [(''provider_profile'', JStr (ibq_Profile request)),
       (''frame_bytes'', JInt (int (length (dcf_Raw d)))),
       (''parse_status'', JStr (inboundParseStatus (dcf_Err d))),
       (''evidence_status'', JStr (wire_EvidenceStatus EvidenceUnverified))] @
      (if dcf_Err d \<noteq> None then [(''error_code'', JStr (wire_FrameErrorCode (ErrorCode (dcf_Err d))))]
       else [(''command'', JStr (frm_Command (received_frame d))),
             (''field_count'', JInt (int (length (frm_Fields (received_frame d)))))]) @
      (if rejectCode \<noteq> [] then [(''reject_code'', JStr rejectCode)] else []))"

definition inboundAuditMetadata :: "InboundRecordRequest \<Rightarrow> InboundRecordResult \<Rightarrow> gomap" where
  "inboundAuditMetadata request result =
     inboundSafeSummary request (ibr_RejectCode result) @
     [(''provider_code'', JStr ProviderCodeOmni), (''adapter'', JStr (wire_Adapter AdapterOmniDirectTCP)),
      (''connection_id'', JStr (ibq_ConnectionID request)), (''duplicate'', JBool (ibr_Duplicate result)),
      (''raw_message_id'', JStr (ibr_RawMessageID result))]"

subsection \<open>Whose frame it is\<close>

definition omni_binding :: "gostr \<Rightarrow> gostr \<Rightarrow> Device \<Rightarrow> bool" where
  "omni_binding profile imei d \<longleftrightarrow>
     dev_ProviderCode d = ProviderCodeOmni \<and> dev_ProviderProfile d = profile \<and> dev_ProviderDeviceID d = imei \<and>
     dev_AccessType d = AccessTypeDirectDevice \<and> dev_TransportProtocol d = TransportProtocolTCP \<and>
     dev_Adapter d = AdapterOmniDirectTCP"

definition judgeInboundDevice :: "InboundRecordRequest \<Rightarrow> Device \<Rightarrow> Device option \<times> gostr" where
  "judgeInboundDevice request device =
     (let imei = frm_IMEI (received_frame (ibq_Decoded request)) in
      if \<not> omni_binding (ibq_Profile request) imei device then
        (None, if \<not> ibq_FirstFrame request \<and> dev_ProviderDeviceID device \<noteq> imei then ''session_identity_mismatch''
               else ''device_binding_mismatch'')
      else if dev_LifecycleStatus device \<noteq> LifecycleStatusActive then (None, ''device_not_active'')
      else (Some device, []))"

text \<open>The Device a frame is accepted for, or none and the code of the rejection.\<close>

definition resolveInboundDevice :: "InboundRecordRequest \<Rightarrow> (Device option \<times> gostr) tx" where
  "resolveInboundDevice request =
     (let d = ibq_Decoded request; frame = received_frame d in
      if dcf_Err d \<noteq> None then ret (None, ''frame_'' @ wire_FrameErrorCode (ErrorCode (dcf_Err d)))
      else if ibq_FirstFrame request \<and> frm_Command frame \<noteq> ''Q0'' then ret (None, ''handshake_required'')
      else if \<not> ibq_FirstFrame request \<and> frm_Command frame = ''Q0'' then ret (None, ''unexpected_handshake'')
      else if \<not> ibq_FirstFrame request \<and> ibq_ExpectedDeviceID request = [] then ret (None, ''handshake_required'')
      else
        on_row
          (if ibq_FirstFrame request
           then bnd (device_GetByProviderIdentity ProviderCodeOmni (frm_IMEI frame)) (\<lambda>x. device_GetForUpdate (dev_ID x))
           else device_GetForUpdate (ibq_ExpectedDeviceID request))
          (ret (None, ''device_not_registered''))
          (\<lambda>device. ret (judgeInboundDevice request device)))"

subsection \<open>The record\<close>

definition inbound_message ::
  "InboundRecordRequest \<Rightarrow> gostr \<Rightarrow> instant \<Rightarrow> Device option \<Rightarrow> gostr \<Rightarrow> RawMessage" where
  "inbound_message request messageID now device rejectCode =
     (let d = ibq_Decoded request in
      \<lparr>raw_ID = messageID, raw_DeviceID = map_option dev_ID device, raw_ProviderCode = ProviderCodeOmni,
       raw_ProviderProfile = ibq_Profile request,
       raw_ProviderDeviceID =
         (if dcf_Err d = None \<and> validIMEI (frm_IMEI (received_frame d)) then frm_IMEI (received_frame d)
          else unresolvedProviderDeviceID),
       raw_AccessType = AccessTypeDirectDevice, raw_TransportProtocol = TransportProtocolTCP,
       raw_Adapter = AdapterOmniDirectTCP, raw_Direction = RawMessageInbound, raw_EvidenceStatus = EvidenceUnverified,
       raw_DeduplicationKey = inboundDeduplicationKey request,
       raw_Headers = [(''connection_id'', JStr (ibq_ConnectionID request)),
         (''parse_status'', JStr (inboundParseStatus (dcf_Err d)))],
       raw_Body = json_marshal (JMap (inboundSafeSummary request rejectCode)),
       raw_ReceivedAt = now, raw_CreatedAt = now\<rparr>)"

definition inbound_audit ::
  "InboundRecordRequest \<Rightarrow> gostr \<Rightarrow> instant \<Rightarrow> InboundRecordResult \<Rightarrow> AuditLog" where
  "inbound_audit request auditID now result =
     \<lparr>aud_ID = auditID, aud_ActorType = ActorTypeProvider, aud_ActorUserID = None, aud_ActorID = Some ProviderCodeOmni,
      aud_ProjectID = map_option dev_ProjectID (ibr_Device result),
      aud_Action = (if ibr_Accepted result then ''provider.message_received'' else ''provider.message_rejected''),
      aud_Result = (if ibr_Accepted result then AuditResultSuccess else AuditResultFailure),
      aud_ResourceType = ''device_raw_message'', aud_ResourceID = Some (ibr_RawMessageID result),
      aud_IPAddress = None, aud_RequestID = None, aud_Metadata = inboundAuditMetadata request result,
      aud_OccurredAt = now\<rparr>"

definition inbound_body :: "InboundRecordRequest \<Rightarrow> gostr \<Rightarrow> gostr \<Rightarrow> instant \<Rightarrow> InboundRecordResult tx" where
  "inbound_body request messageID auditID now =
     bnd (resolveInboundDevice request) (\<lambda>(device, rejectCode).
     bnd (on_row (message_GetByDeduplicationKey ProviderCodeOmni (inboundDeduplicationKey request))
            (bnd (message_Create (inbound_message request messageID now device rejectCode))
               (\<lambda>u. ret (messageID, False)))
            (\<lambda>existing. ret (raw_ID existing, True))) (\<lambda>(rawID, duplicate).
     let result = \<lparr>ibr_RawMessageID = rawID, ibr_Device = device, ibr_Accepted = (device \<noteq> None),
                   ibr_Duplicate = duplicate, ibr_RejectCode = rejectCode\<rparr>
     in bnd (audit_Create (inbound_audit request auditID now result)) (\<lambda>u. ret result)))"

definition newIDs :: "(gostr \<times> gostr) tx" where
  "newIDs = bnd randomUUID (\<lambda>messageID. bnd randomUUID (\<lambda>auditID. ret (messageID, auditID)))"

definition inbound_Record :: "InboundRecordRequest \<Rightarrow> InboundRecordResult tx" where
  "inbound_Record request =
     (if \<not> validProfile (ibq_Profile request) \<or> TrimSpace (ibq_ConnectionID request) = []
      then fail (ErrOther ''invalid Omni inbound record request'')
      else
        bnd newIDs (\<lambda>(messageID, auditID).
        bnd time_now (\<lambda>now.
        WithinTransaction (inbound_body request messageID auditID now))))"

subsection \<open>The decision\<close>

text \<open>
  The Device table: ids and provider identities are unique (the primary key and the unique index
  \<open>uq_devices_provider_identity\<close>, which \<open>device_Create\<close> enforces).
\<close>

definition provider_identity :: "Device \<Rightarrow> gostr \<times> gostr" where
  "provider_identity d = (ascii_lower (dev_ProviderCode d), dev_ProviderDeviceID d)"

definition devices_ok :: "db \<Rightarrow> bool" where
  "devices_ok d \<longleftrightarrow> distinct (map dev_ID (tbl_devices d)) \<and> distinct (map provider_identity (tbl_devices d))"

text \<open>A Device that a frame may be attributed to.\<close>

definition may_send :: "InboundRecordRequest \<Rightarrow> Device \<Rightarrow> bool" where
  "may_send request d \<longleftrightarrow>
     (let frame = received_frame (ibq_Decoded request) in
      dcf_Err (ibq_Decoded request) = None \<and> omni_binding (ibq_Profile request) (frm_IMEI frame) d \<and>
      dev_LifecycleStatus d = LifecycleStatusActive \<and>
      (if ibq_FirstFrame request then frm_Command frame = ''Q0''
       else frm_Command frame \<noteq> ''Q0'' \<and> ibq_ExpectedDeviceID request \<noteq> [] \<and> dev_ID d = ibq_ExpectedDeviceID request))"

lemma devices_ok_id: "devices_ok d \<Longrightarrow> x \<in> set (tbl_devices d) \<Longrightarrow> find (\<lambda>y. dev_ID y = dev_ID x) (tbl_devices d) = Some x"
  unfolding devices_ok_def by (auto intro: find_unique)

lemma omni_binding_identity: "omni_binding profile imei d \<Longrightarrow> provider_identity d = (''omni'', imei)"
  by (simp add: omni_binding_def provider_identity_def) code_simp

lemma judge_cases:
  "judgeInboundDevice request d = (dev, code) \<Longrightarrow>
   dev = (if omni_binding (ibq_Profile request) (frm_IMEI (received_frame (ibq_Decoded request))) d \<and>
             dev_LifecycleStatus d = LifecycleStatusActive then Some d else None) \<and> (code = [] \<longleftrightarrow> dev \<noteq> None)"
  by (auto simp: judgeInboundDevice_def Let_def split: if_splits)

lemma identity_lookup:
  fixes code i :: gostr
  assumes "devices_ok (w_db w)"
  defines "m \<equiv> bnd (device_GetByProviderIdentity code i) (\<lambda>x. device_GetForUpdate (dev_ID x))"
    and "found \<equiv> find (\<lambda>x. ascii_lower (dev_ProviderCode x) = ascii_lower code \<and> dev_ProviderDeviceID x = i) (tbl_devices (w_db w))"
  shows "m w = (Inr x, w') \<Longrightarrow> found = Some x \<and> w_db w' = w_db w"
    and "no_rows m w w' \<Longrightarrow> found = None \<and> w_db w' = w_db w"
proof -
  have again: "find (\<lambda>y. dev_ID y = dev_ID x) (tbl_devices (w_db w)) = Some x" if "found = Some x" for x
    using devices_ok_id [OF assms(1)] find_SomeD [OF that [unfolded found_def]] by blast
  show "m w = (Inr x, w') \<Longrightarrow> found = Some x \<and> w_db w' = w_db w"
    using again by (auto simp: m_def found_def device_GetByProviderIdentity_def device_GetForUpdate_def run_simps)
  show "no_rows m w w' \<Longrightarrow> found = None \<and> w_db w' = w_db w"
    using again by (auto simp: m_def found_def device_GetByProviderIdentity_def device_GetForUpdate_def run_simps)
qed

lemma id_lookup:
  shows "device_GetForUpdate i w = (Inr x, w') \<Longrightarrow>
      find (\<lambda>x. dev_ID x = i) (tbl_devices (w_db w)) = Some x \<and> w_db w' = w_db w"
    and "no_rows (device_GetForUpdate i) w w' \<Longrightarrow>
      find (\<lambda>x. dev_ID x = i) (tbl_devices (w_db w)) = None \<and> w_db w' = w_db w"
  by (auto simp: device_GetForUpdate_def run_simps)

lemma resolve_run:
  assumes run: "resolveInboundDevice request w = (Inr (dev, code), w')" and ok: "devices_ok (w_db w)"
  shows "dev = find (may_send request) (tbl_devices (w_db w)) \<and> (code = [] \<longleftrightarrow> dev \<noteq> None) \<and> w_db w' = w_db w"
proof -
  let ?d = "ibq_Decoded request" let ?f = "received_frame ?d" let ?rows = "tbl_devices (w_db w)"
  have none: "find (may_send request) ?rows = None" if "\<And>x. \<not> may_send request x"
    using that by (simp add: find_None_iff)
  show ?thesis
  proof (cases "dcf_Err ?d \<noteq> None \<or> (ibq_FirstFrame request \<longleftrightarrow> frm_Command ?f \<noteq> ''Q0'') \<or>
      (\<not> ibq_FirstFrame request \<and> ibq_ExpectedDeviceID request = [])")
    case True
    then have "\<not> may_send request x" for x by (auto simp: may_send_def Let_def)
    with True run none show ?thesis
      by (auto simp: resolveInboundDevice_def Let_def ret_def split: if_splits)
  next
    case False
    then have calm: "dcf_Err ?d = None" "ibq_FirstFrame request \<longleftrightarrow> frm_Command ?f = ''Q0''"
      "\<not> ibq_FirstFrame request \<Longrightarrow> ibq_ExpectedDeviceID request \<noteq> []" by auto
    show ?thesis
    proof (cases "ibq_FirstFrame request")
      case True
      have match: "find (may_send request) ?rows =
          (case find (\<lambda>x. ascii_lower (dev_ProviderCode x) = ascii_lower ''omni'' \<and> dev_ProviderDeviceID x = frm_IMEI ?f) ?rows of
             None \<Rightarrow> None | Some x \<Rightarrow> if may_send request x then Some x else None)"
        by (rule find_unique_eq [where k = provider_identity and v = "(ascii_lower ''omni'', frm_IMEI ?f)" , OF _ _ refl])
          (use ok in \<open>auto simp: devices_ok_def provider_identity_def may_send_def omni_binding_def Let_def\<close>)
      from run calm True consider x w1 where "judgeInboundDevice request x = (dev, code)" "w' = w1"
          "bnd (device_GetByProviderIdentity ''omni'' (frm_IMEI ?f)) (\<lambda>x. device_GetForUpdate (dev_ID x)) w = (Inr x, w1)"
        | w1 where "dev = None" "code \<noteq> []" "w' = w1"
          "no_rows (bnd (device_GetByProviderIdentity ''omni'' (frm_IMEI ?f)) (\<lambda>x. device_GetForUpdate (dev_ID x))) w w1"
        by (auto simp: resolveInboundDevice_def Let_def on_row_run ret_run)
      then show ?thesis
      proof cases
        case 1
        from identity_lookup(1) [OF ok 1(3)] match judge_cases [OF 1(1)] calm True 1(2)
        show ?thesis by (auto simp: may_send_def Let_def)
      next
        case 2
        from identity_lookup(2) [OF ok 2(4)] match 2 show ?thesis by simp
      qed
    next
      case False
      have match: "find (may_send request) ?rows =
          (case find (\<lambda>x. dev_ID x = ibq_ExpectedDeviceID request) ?rows of
             None \<Rightarrow> None | Some x \<Rightarrow> if may_send request x then Some x else None)"
        by (rule find_unique_eq [where k = dev_ID and v = "ibq_ExpectedDeviceID request", OF _ _ refl])
          (use ok False in \<open>auto simp: devices_ok_def may_send_def Let_def\<close>)
      from run calm False consider x w1 where "judgeInboundDevice request x = (dev, code)" "w' = w1"
          "device_GetForUpdate (ibq_ExpectedDeviceID request) w = (Inr x, w1)"
        | w1 where "dev = None" "code \<noteq> []" "w' = w1" "no_rows (device_GetForUpdate (ibq_ExpectedDeviceID request)) w w1"
        by (auto simp: resolveInboundDevice_def Let_def on_row_run ret_run)
      then show ?thesis
      proof cases
        case 1
        from id_lookup(1) [OF 1(3)] match judge_cases [OF 1(1)] calm False 1(2)
        show ?thesis by (auto simp: may_send_def Let_def dest: find_SomeD)
      next
        case 2
        from id_lookup(2) [OF 2(4)] match 2 show ?thesis by simp
      qed
    qed
  qed
qed

lemma inbound_decision:
  assumes ok: "devices_ok (w_db w)" and run: "inbound_Record request w = (Inr result, w')"
  shows "ibr_Device result = find (may_send request) (tbl_devices (w_db w)) \<and>
    (ibr_Accepted result \<longleftrightarrow> (\<exists>d\<in>set (tbl_devices (w_db w)). may_send request d)) \<and>
    (ibr_RejectCode result = [] \<longleftrightarrow> ibr_Accepted result)"
proof -
  from run obtain messageID auditID now w1 w2 device code w3 where
    res: "resolveInboundDevice request w1 = (Inr (device, code), w2)" "ibr_Device result = device"
      "ibr_Accepted result \<longleftrightarrow> device \<noteq> None" "ibr_RejectCode result = code" and db: "w_db w1 = w_db w"
    by (auto simp: inbound_Record_def inbound_body_def newIDs_def Let_def run_simps split: if_splits prod.splits)
  from resolve_run [OF res(1)] ok db
  have "device = find (may_send request) (tbl_devices (w_db w))" "code = [] \<longleftrightarrow> device \<noteq> None" by auto
  with res show ?thesis by (auto simp: find_None_iff dest: find_SomeD)
qed

text \<open>
  C18. A frame is attributed to a Device exactly if it parsed and a registered, active Device has the
  identity, the profile and the direct TCP binding of the frame, in a handshake the one the frame's IMEI
  names, later the one the connection was opened for; then it is attributed to that Device. Every other
  frame is rejected with a code.
\<close>

theorem inbound_attribution:
  assumes ok: "devices_ok (w_db w)" and run: "inbound_Record request w = (Inr result, w')"
  shows "ibr_Device result = find (may_send request) (tbl_devices (w_db w)) \<and>
    (ibr_Accepted result \<longleftrightarrow> (\<exists>d\<in>set (tbl_devices (w_db w)). may_send request d)) \<and>
    (ibr_RejectCode result = [] \<longleftrightarrow> ibr_Accepted result)"
  by (rule inbound_decision [OF assms])

text \<open>
  \<open>records d d' request result\<close>: the frame's decision is in the tables. Only the log of raw messages and the
  audit log grow, the audit log by one entry that names the decision; the frame is stored unless it is
  already, and it is never stored as evidence.
\<close>

definition records :: "db \<Rightarrow> db \<Rightarrow> InboundRecordRequest \<Rightarrow> InboundRecordResult \<Rightarrow> bool" where
  "records d d' request result \<longleftrightarrow>
     (\<exists>more a. d' = d\<lparr>tbl_messages := tbl_messages d @ more, tbl_audits := tbl_audits d @ [a]\<rparr> \<and>
        aud_Result a = (if ibr_Accepted result then AuditResultSuccess else AuditResultFailure) \<and>
        aud_ProjectID a = map_option dev_ProjectID (ibr_Device result) \<and>
        aud_ResourceID a = Some (ibr_RawMessageID result) \<and> aud_Metadata a = inboundAuditMetadata request result \<and>
        (case find (\<lambda>m. raw_ProviderCode m = ProviderCodeOmni \<and> raw_DeduplicationKey m = inboundDeduplicationKey request)
           (tbl_messages d) of
           Some m \<Rightarrow> more = [] \<and> ibr_Duplicate result \<and> ibr_RawMessageID result = raw_ID m
         | None \<Rightarrow> \<not> ibr_Duplicate result \<and> (\<exists>m. more = [m] \<and> raw_ID m = ibr_RawMessageID result \<and>
             raw_ProviderCode m = ProviderCodeOmni \<and> raw_DeduplicationKey m = inboundDeduplicationKey request \<and>
             raw_DeviceID m = map_option dev_ID (ibr_Device result) \<and> raw_EvidenceStatus m = EvidenceUnverified)))"

lemma resolve_reads: "reads (resolveInboundDevice request)"
  by (auto simp: resolveInboundDevice_def Let_def device_GetByProviderIdentity_def device_GetForUpdate_def
      intro!: reads_on_row reads_bnd)

lemma inbound_body_records:
  assumes "inbound_body request messageID auditID now w = (Inr result, w')"
  shows "records (w_db w) (w_db w') request result"
proof -
  from assms obtain device code w1 w2 rawID duplicate where
    res: "resolveInboundDevice request w = (Inr (device, code), w1)"
    and store: "on_row (message_GetByDeduplicationKey ProviderCodeOmni (inboundDeduplicationKey request))
            (bnd (message_Create (inbound_message request messageID now device code)) (\<lambda>u. ret (messageID, False)))
            (\<lambda>existing. ret (raw_ID existing, True)) w1 = (Inr (rawID, duplicate), w2)"
    and result: "result = \<lparr>ibr_RawMessageID = rawID, ibr_Device = device, ibr_Accepted = (device \<noteq> None),
                   ibr_Duplicate = duplicate, ibr_RejectCode = code\<rparr>"
    and audit: "audit_Create (inbound_audit request auditID now result) w2 = (Inr (), w')"
    by (auto simp: inbound_body_def Let_def bnd_run ret_run split: prod.splits)
  have db: "w_db w1 = w_db w" using readsD [OF resolve_reads res] .
  from audit have w': "w_db w' = (w_db w2)\<lparr>tbl_audits := tbl_audits (w_db w2) @
      [(inbound_audit request auditID now result)\<lparr>aud_OccurredAt := pg_time now\<rparr>]\<rparr>"
    by (auto simp: audit_Create_def run_simps inbound_audit_def split: if_splits)
  show ?thesis
  proof (cases "find (\<lambda>m. raw_ProviderCode m = ProviderCodeOmni \<and>
      raw_DeduplicationKey m = inboundDeduplicationKey request) (tbl_messages (w_db w))")
    case (Some m)
    with store db have "w_db w2 = w_db w" "rawID = raw_ID m" "duplicate"
      by (auto simp: message_GetByDeduplicationKey_def run_simps)
    with w' Some show ?thesis
      unfolding records_def result
      by (intro exI [of _ "[]"] exI conjI) (auto simp: inbound_audit_def result)
  next
    case None
    let ?m = "(inbound_message request messageID now device code)\<lparr>raw_ReceivedAt := pg_time now, raw_CreatedAt := pg_time now\<rparr>"
    from None store db have "w_db w2 = (w_db w)\<lparr>tbl_messages := tbl_messages (w_db w) @ [?m]\<rparr>" "rawID = messageID" "\<not> duplicate"
      by (auto simp: message_GetByDeduplicationKey_def message_Create_def run_simps inbound_message_def Let_def split: if_splits)
    with w' None show ?thesis
      unfolding records_def result
      by (intro exI [of _ "[?m]"] exI conjI) (auto simp: inbound_audit_def inbound_message_def Let_def result)
  qed
qed

lemma inbound_Record_records:
  "inbound_Record request w = (Inr result, w') \<Longrightarrow> records (w_db w) (w_db w') request result"
  by (auto simp: inbound_Record_def newIDs_def run_simps split: if_splits dest!: inbound_body_records)

text \<open>
  A frame that is received again is recorded once: whatever else was stored meanwhile, recording it again
  reports the raw message of the first time as a duplicate and stores no second one; only the audit log grows.
\<close>

theorem inbound_replay:
  assumes first: "inbound_Record request w = (Inr a, w1)" and later: "tbl_messages (w_db w2) = tbl_messages (w_db w1) @ others"
    and second: "inbound_Record request w2 = (Inr b, w3)"
  shows "ibr_Duplicate b \<and> ibr_RawMessageID b = ibr_RawMessageID a \<and> tbl_messages (w_db w3) = tbl_messages (w_db w2) \<and>
    length (tbl_audits (w_db w3)) = Suc (length (tbl_audits (w_db w2)))"
proof -
  let ?key = "\<lambda>m. raw_ProviderCode m = ProviderCodeOmni \<and> raw_DeduplicationKey m = inboundDeduplicationKey request"
  have "\<exists>m. find ?key (tbl_messages (w_db w1)) = Some m \<and> raw_ID m = ibr_RawMessageID a"
    using inbound_Record_records [OF first] unfolding records_def
    by (cases "find ?key (tbl_messages (w_db w))") (auto simp: find_append_None find_append_Some)
  then obtain m where "find ?key (tbl_messages (w_db w2)) = Some m" "raw_ID m = ibr_RawMessageID a"
    by (auto simp: later find_append_Some)
  with inbound_Record_records [OF second] show ?thesis by (auto simp: records_def)
qed

subsection \<open>Recording goes ahead\<close>

lemma resolve_answers:
  assumes calm: "w_faults w = []"
  shows "\<exists>dev code w1. resolveInboundDevice request w = (Inr (dev, code), w1) \<and> w_faults w1 = [] \<and> w_db w1 = w_db w"
proof -
  define judge where "judge = (\<lambda>device. ret (judgeInboundDevice request device) :: (Device option \<times> gostr) tx)"
  define none where "none = (ret (None, ''device_not_registered'') :: (Device option \<times> gostr) tx)"
  have judged: "\<exists>dev code w1. judge x v = (Inr (dev, code), w1) \<and> w_faults w1 = [] \<and> w_db w1 = w_db v"
      "\<exists>dev code w1. none v = (Inr (dev, code), w1) \<and> w_faults w1 = [] \<and> w_db w1 = w_db v"
    if "w_faults v = []" for x v using that by (simp_all add: judge_def none_def ret_def)
  have by_id: "\<exists>dev code w1. on_row (device_GetForUpdate i) none judge v = (Inr (dev, code), w1) \<and> w_faults w1 = [] \<and> w_db w1 = w_db v"
    if "w_faults v = []" for i v
    using that judged [of "consume v"]
      query_row_answers [OF that, of tbl_devices "\<lambda>t d. dev_ID d = i"]
    by (auto simp: on_row_def device_GetForUpdate_def)
  have by_identity: "\<exists>dev code w1. on_row (bnd (device_GetByProviderIdentity c i) (\<lambda>x. device_GetForUpdate (dev_ID x))) none judge w =
      (Inr (dev, code), w1) \<and> w_faults w1 = [] \<and> w_db w1 = w_db w" for c i
  proof (cases "device_GetByProviderIdentity c i w = (Inl ErrNoRows, consume w)")
    case False
    then obtain x where "device_GetByProviderIdentity c i w = (Inr x, consume w)"
      using query_row_answers [OF calm, of tbl_devices
          "\<lambda>t d. ascii_lower (dev_ProviderCode d) = ascii_lower c \<and> dev_ProviderDeviceID d = i"]
      by (auto simp: device_GetByProviderIdentity_def)
    then have "on_row (bnd (device_GetByProviderIdentity c i) (\<lambda>x. device_GetForUpdate (dev_ID x))) none judge w =
        on_row (device_GetForUpdate (dev_ID x)) none judge (consume w)"
      by (simp add: on_row_def bnd_def)
    with by_id [of "consume w" "dev_ID x"] calm show ?thesis by auto
  next
    case True
    with judged(2) [of "consume w"] calm show ?thesis by (auto simp: on_row_def bnd_def)
  qed
  show ?thesis
    using by_id [OF calm] by_identity calm
    by (auto simp: resolveInboundDevice_def Let_def ret_def judge_def [symmetric] none_def [symmetric])
qed

lemma inbound_Record_succeeds:
  assumes calm: "w_faults w = []" and drawn: "32 \<le> length (w_random w)"
    and new: "find (\<lambda>m. raw_ProviderCode m = ProviderCodeOmni \<and> raw_DeduplicationKey m = inboundDeduplicationKey request)
        (tbl_messages (w_db w)) = None \<Longrightarrow>
        uuid_text (uuid_bits (take 16 (w_random w))) \<notin> raw_ID ` set (tbl_messages (w_db w))"
      "uuid_text (uuid_bits (take 16 (drop 16 (w_random w)))) \<notin> aud_ID ` set (tbl_audits (w_db w))"
    and request: "validProfile (ibq_Profile request)" "TrimSpace (ibq_ConnectionID request) \<noteq> []"
  shows "\<exists>result w'. inbound_Record request w = (Inr result, w') \<and> w_faults w' = [] \<and>
    records (w_db w) (w_db w') request result"
proof -
  let ?i = "uuid_text (uuid_bits (take 16 (w_random w)))" and ?a = "uuid_text (uuid_bits (take 16 (drop 16 (w_random w))))"
  let ?v = "tick (w\<lparr>w_random := drop 32 (w_random w)\<rparr>)"
  let ?now = "w_clock ?v"
  obtain device code w1 where res: "resolveInboundDevice request (started ?v) = (Inr (device, code), w1)"
    and w1: "w_faults w1 = []" "w_db w1 = w_db w"
    using resolve_answers [of "started ?v" request] calm by (auto simp: started_def)
  let ?store = "on_row (message_GetByDeduplicationKey ProviderCodeOmni (inboundDeduplicationKey request))
      (bnd (message_Create (inbound_message request ?i ?now device code)) (\<lambda>u. ret (?i, False)))
      (\<lambda>existing. ret (raw_ID existing, True))"
  have "\<exists>r w2. ?store w1 = (Inr r, w2) \<and> w_faults w2 = [] \<and> tbl_audits (w_db w2) = tbl_audits (w_db w)"
  proof (cases "find (\<lambda>m. raw_ProviderCode m = ProviderCodeOmni \<and> raw_DeduplicationKey m = inboundDeduplicationKey request)
      (tbl_messages (w_db w))")
    case (Some m)
    with w1 show ?thesis
      by (auto simp: message_GetByDeduplicationKey_def on_row_run query_row_run no_rows_query_row ret_run)
  next
    case None
    then have "\<not> list_ex (\<lambda>m. raw_ProviderCode m = ProviderCodeOmni \<and> raw_DeduplicationKey m = inboundDeduplicationKey request)
        (tbl_messages (w_db w))" "\<not> list_ex (\<lambda>m. raw_ID m = ?i) (tbl_messages (w_db w))"
      using None new(1) [OF None] by (auto simp: find_None_iff list_ex_iff image_iff)
   
    with None w1 show ?thesis
      by (auto simp: message_GetByDeduplicationKey_def message_Create_def inbound_message_def Let_def run_simps)
  qed
  then obtain rawID duplicate w2 where st: "?store w1 = (Inr (rawID, duplicate), w2)"
    and w2: "w_faults w2 = []" "tbl_audits (w_db w2) = tbl_audits (w_db w)" by auto
  have "\<exists>result w3. inbound_body request ?i ?a ?now (started ?v) = (Inr result, w3) \<and> w_faults w3 = []"
    unfolding inbound_body_def bnd_Inr [where m = "resolveInboundDevice request", OF res] prod.case
      bnd_Inr [where m = ?store, OF st] Let_def
    using w2 new(2) by (auto simp: bnd_run ret_run audit_Create_def sql_run inbound_audit_def list_ex_iff image_iff)
  moreover have "inbound_Record request w = WithinTransaction (inbound_body request ?i ?a ?now) ?v"
  proof -
    have "\<not> length (w_random w) < 16" "\<not> length (w_random w) - 16 < 16" using drawn by linarith+
    then show ?thesis
      using request
      by (simp add: inbound_Record_def newIDs_def bnd_def ret_def randomUUID_def read_random_def time_now_def Let_def)
  qed
  ultimately have "\<exists>result w'. inbound_Record request w = (Inr result, w') \<and> w_faults w' = []"
    using calm by (auto simp: WithinTransaction_run)
  then show ?thesis using inbound_Record_records by blast
qed

text \<open>
  No frame is lost to the platform itself: for a known profile and a connection with an identifier, if the
  driver does not fail and the two identifiers that are drawn are new, the frame is recorded, whatever it is.
\<close>

theorem inbound_goes_ahead:
  assumes calm: "w_faults w = []" and drawn: "32 \<le> length (w_random w)"
    and new: "drawn_uuid 0 w \<notin> raw_ID ` set (tbl_messages (w_db w))"
      "drawn_uuid 1 w \<notin> aud_ID ` set (tbl_audits (w_db w))"
    and request: "validProfile (ibq_Profile request)" "TrimSpace (ibq_ConnectionID request) \<noteq> []"
  shows "\<exists>result w'. inbound_Record request w = (Inr result, w') \<and> w_faults w' = [] \<and>
    records (w_db w) (w_db w') request result"
  by (rule inbound_Record_succeeds) (use assms in \<open>simp_all add: drawn_uuid_def\<close>)

subsection \<open>A lock that shakes hands\<close>

definition lock_device :: Device where
  "lock_device =
     \<lparr>dev_ID = ''d1'', dev_ProjectID = ''p1'', dev_DeviceTypeID = ''t1'', dev_DeviceTypeCode = ''smart-lock'',
      dev_Name = ''lock'', dev_ProviderCode = ProviderCodeOmni, dev_ProviderProfile = ProviderProfileOmniIoTV135,
      dev_ProviderDeviceID = ''123456789012345'', dev_AccessType = AccessTypeDirectDevice,
      dev_TransportProtocol = TransportProtocolTCP, dev_Adapter = AdapterOmniDirectTCP,
      dev_ConnectionStatus = ConnectionStatusUnknown, dev_LifecycleStatus = LifecycleStatusActive,
      dev_CreatedAt = 0, dev_UpdatedAt = 0\<rparr>"

definition lock_db :: db where "lock_db = blank_db\<lparr>tbl_devices := [lock_device]\<rparr>"

definition handshake :: InboundRecordRequest where
  "handshake =
     \<lparr>ibq_Profile = ProviderProfileOmniIoTV135, ibq_ConnectionID = ''c1'', ibq_FirstFrame = True, ibq_ExpectedDeviceID = [],
      ibq_Decoded = \<lparr>dcf_Raw = ''*SCOR,OM,123456789012345,Q0,412,80,28'' @ wireTerminator,
        dcf_Frame = Some \<lparr>frm_Profile = ProviderProfileOmniIoTV135, frm_IMEI = ''123456789012345'', frm_Timestamp = [],
          frm_Command = ''Q0'', frm_Fields = [''412'', ''80'', ''28'']\<rparr>, dcf_Err = None\<rparr>\<rparr>"

lemma handshake_decoded:
  "dcf_Err (ibq_Decoded handshake) = None" "frm_Command (received_frame (ibq_Decoded handshake)) = ''Q0''"
  "frm_IMEI (received_frame (ibq_Decoded handshake)) = ''123456789012345''"
  by (simp_all add: handshake_def received_frame_def)

lemma handshake_may_send: "may_send handshake lock_device"
  by (simp add: may_send_def Let_def handshake_decoded omni_binding_def lock_device_def) (simp add: handshake_def)

lemma handshake_request: "validProfile (ibq_Profile handshake)" "TrimSpace (ibq_ConnectionID handshake) \<noteq> []"
  by code_simp+

lemma lock_tables [simp]:
  "tbl_devices lock_db = [lock_device]" "tbl_messages lock_db = []" "tbl_audits lock_db = []" "devices_ok lock_db"
  by (simp_all add: lock_db_def blank_db_def devices_ok_def)

lemma handshake_recorded:
  assumes "\<And>m. m \<in> set msgs \<Longrightarrow> raw_ProviderCode m = ProviderCodeOmni \<and> raw_DeduplicationKey m = inboundDeduplicationKey handshake"
  obtains result w' where
    "inbound_Record handshake (world_at (lock_db\<lparr>tbl_messages := msgs\<rparr>) Second) = (Inr result, w')"
proof -
  have "find (\<lambda>m. raw_ProviderCode m = ProviderCodeOmni \<and> raw_DeduplicationKey m = inboundDeduplicationKey handshake) msgs = None
      \<Longrightarrow> msgs = []"
    using assms by (cases msgs) auto
  then have "\<exists>result w'. inbound_Record handshake (world_at (lock_db\<lparr>tbl_messages := msgs\<rparr>) Second) = (Inr result, w') \<and>
      w_faults w' = [] \<and> records (w_db (world_at (lock_db\<lparr>tbl_messages := msgs\<rparr>) Second)) (w_db w') handshake result"
    by (intro inbound_Record_succeeds) (use handshake_request in simp_all)
  with that show thesis by blast
qed

lemma lock_db_again: "lock_db\<lparr>tbl_messages := []\<rparr> = lock_db"
  by (simp add: lock_db_def blank_db_def)

theorem inbound_goes_ahead_witness:
  "\<exists>result w'. inbound_Record handshake (world_at lock_db Second) = (Inr result, w') \<and> w_faults w' = [] \<and>
     records lock_db (w_db w') handshake result"
  using inbound_goes_ahead [of "world_at lock_db Second" handshake] handshake_request by simp

theorem inbound_attribution_witness:
  "\<exists>result w'. inbound_Record handshake (world_at lock_db Second) = (Inr result, w') \<and> ibr_Device result = Some lock_device"
proof -
  obtain result w' where run: "inbound_Record handshake (world_at lock_db Second) = (Inr result, w')"
    using handshake_recorded [of "[]"] by (auto simp: lock_db_again)
  from inbound_attribution [OF _ run] run show ?thesis by (simp add: handshake_may_send)
qed

theorem inbound_replay_witness:
  "\<exists>a b w1 w3. inbound_Record handshake (world_at lock_db Second) = (Inr a, w1) \<and>
     inbound_Record handshake (world_at (lock_db\<lparr>tbl_messages := tbl_messages (w_db w1)\<rparr>) Second) = (Inr b, w3) \<and>
     ibr_Duplicate b \<and> length (tbl_messages (w_db w3)) = 1"
proof -
  obtain a w1 where first: "inbound_Record handshake (world_at lock_db Second) = (Inr a, w1)"
    using handshake_recorded [of "[]"] by (auto simp: lock_db_again)
  let ?w2 = "world_at (lock_db\<lparr>tbl_messages := tbl_messages (w_db w1)\<rparr>) Second"
  obtain m where m: "tbl_messages (w_db w1) = [m]" "raw_ProviderCode m = ProviderCodeOmni"
      "raw_DeduplicationKey m = inboundDeduplicationKey handshake"
    using inbound_Record_records [OF first] by (auto simp: records_def)
  obtain b w3 where second: "inbound_Record handshake ?w2 = (Inr b, w3)"
    using handshake_recorded [of "tbl_messages (w_db w1)"] m by auto
  have "ibr_Duplicate b \<and> length (tbl_messages (w_db w3)) = 1"
    using inbound_replay [OF first _ second, of "[]"] m by simp
  with first second show ?thesis by blast
qed

end
