(* ===== verification/Omni_Session.thy ===== *)
theory Omni_Session
  imports Omni_Codec "HOL-Library.AList"
begin

text \<open>
  The registry of live TCP sessions (\<open>internal/directdevice/omni/session.go\<close>) and the exclusive write of a
  frame to one of them. A session is reached through a pointer: \<open>ses_ref\<close> is that pointer, taken from a
  counter that stands for the allocator. A connection and a \<open>context.Context\<close> are values of the outside: a
  writer is a function of the outside's state \<open>'s\<close> (what \<open>Write\<close> answers may depend on all that happened
  before), and a context may be cancelled in any state. The registry's mutexes make every operation one step.
\<close>

type_synonym sessionKey = "gostr \<times> gostr"

datatype session_error =
    ErrSessionUnavailable
  | ErrSessionAmbiguous
  | ErrSessionInvalid
  | ErrWriterCount
  | ErrNoProgress
  | ErrOutside gostr

record 's writer =
  wrt_Write :: "gostr \<Rightarrow> 's \<Rightarrow> (int \<times> gostr option) \<times> 's"
  wrt_SetWriteDeadline :: "(instant option \<Rightarrow> 's \<Rightarrow> gostr option \<times> 's) option"

record 's gocontext =
  ctx_Err :: "'s \<Rightarrow> gostr option"
  ctx_Deadline :: "instant option"

record 's Session =
  ses_ref :: nat
  ses_key :: sessionKey
  ses_deviceID :: gostr
  ses_projectID :: gostr
  ses_connectionID :: gostr
  ses_generation :: "64 word"
  ses_writer :: "'s writer"

record 's identitySessions =
  ids_sessions :: "(64 word \<times> 's Session) list"
  ids_generation :: "64 word"

record 's Registry =
  reg_identities :: "sessionKey \<Rightarrow> 's identitySessions option"
  reg_next :: nat

definition NewRegistry :: "'s Registry" where
  "NewRegistry = \<lparr>reg_identities = Map.empty, reg_next = 0\<rparr>"

definition registry_identity :: "'s Registry \<Rightarrow> sessionKey \<Rightarrow> 's identitySessions" where
  "registry_identity r key =
     (case reg_identities r key of None \<Rightarrow> \<lparr>ids_sessions = [], ids_generation = 0\<rparr> | Some ids \<Rightarrow> ids)"

definition Register ::
  "'s Registry \<Rightarrow> gostr \<Rightarrow> gostr \<Rightarrow> gostr \<Rightarrow> gostr \<Rightarrow> gostr \<Rightarrow> 's writer option \<Rightarrow>
   (session_error + 's Session) \<times> 's Registry" where
  "Register r profile imei deviceID projectID connectionID destination =
     (if \<not> validProfile profile \<or> \<not> validIMEI imei \<or> deviceID = [] \<or> projectID = [] \<or> connectionID = [] \<or>
         destination = None
      then (Inl ErrSessionInvalid, r)
      else
        (let key = (profile, imei);
             ids = registry_identity r key;
             generation = ids_generation ids + 1;
             session = \<lparr>ses_ref = reg_next r, ses_key = key, ses_deviceID = deviceID, ses_projectID = projectID,
               ses_connectionID = connectionID, ses_generation = generation, ses_writer = the destination\<rparr>
         in (Inr session,
             r\<lparr>reg_identities := (reg_identities r)(key \<mapsto>
                 \<lparr>ids_sessions = AList.update generation session (ids_sessions ids), ids_generation = generation\<rparr>),
               reg_next := Suc (reg_next r)\<rparr>)))"

definition holds_session :: "'s identitySessions \<Rightarrow> 's Session \<Rightarrow> bool" where
  "holds_session ids session \<longleftrightarrow>
     (case map_of (ids_sessions ids) (ses_generation session) of
        None \<Rightarrow> False | Some x \<Rightarrow> ses_ref x = ses_ref session)"

definition Unregister :: "'s Registry \<Rightarrow> 's Session option \<Rightarrow> 's Registry" where
  "Unregister r session =
     (case session of
        None \<Rightarrow> r
      | Some s \<Rightarrow>
          (case reg_identities r (ses_key s) of
             None \<Rightarrow> r
           | Some ids \<Rightarrow>
               if \<not> holds_session ids s then r
               else r\<lparr>reg_identities := (reg_identities r)(ses_key s \<mapsto>
                 ids\<lparr>ids_sessions := AList.delete (ses_generation s) (ids_sessions ids)\<rparr>)\<rparr>))"

definition LookupUnique :: "'s Registry \<Rightarrow> gostr \<Rightarrow> gostr \<Rightarrow> session_error + 's Session" where
  "LookupUnique r profile imei =
     (if \<not> validProfile profile \<or> \<not> validIMEI imei then Inl ErrSessionUnavailable
      else
        (case reg_identities r (profile, imei) of
           None \<Rightarrow> Inl ErrSessionUnavailable
         | Some ids \<Rightarrow>
             (case ids_sessions ids of
                [] \<Rightarrow> Inl ErrSessionUnavailable
              | [(g, s)] \<Rightarrow> Inr s
              | _ \<Rightarrow> Inl ErrSessionAmbiguous)))"

subsection \<open>Writing a frame\<close>

record WriteResult =
  wrs_BytesWritten :: nat
  wrs_Complete :: bool
  wrs_Err :: "session_error option"

function write_loop :: "'s writer \<Rightarrow> 's gocontext \<Rightarrow> gostr \<Rightarrow> nat \<Rightarrow> 's \<Rightarrow> WriteResult \<times> 's" where
  "write_loop out ctx frame written s =
     (if length frame \<le> written then (\<lparr>wrs_BytesWritten = written, wrs_Complete = True, wrs_Err = None\<rparr>, s)
      else
        (case ctx_Err ctx s of
           Some e \<Rightarrow> (\<lparr>wrs_BytesWritten = written, wrs_Complete = False, wrs_Err = Some (ErrOutside e)\<rparr>, s)
         | None \<Rightarrow>
             (let ((count, err), s') = wrt_Write out (drop written frame) s in
              if count < 0 \<or> count > int (length frame - written) then
                (\<lparr>wrs_BytesWritten = written, wrs_Complete = False, wrs_Err = Some ErrWriterCount\<rparr>, s')
              else
                (let written' = written + nat count in
                 if written' = length frame then
                   (\<lparr>wrs_BytesWritten = written', wrs_Complete = True, wrs_Err = None\<rparr>, s')
                 else if err \<noteq> None then
                   (\<lparr>wrs_BytesWritten = written', wrs_Complete = False, wrs_Err = Some (ErrOutside (the err))\<rparr>, s')
                 else if count = 0 then
                   (\<lparr>wrs_BytesWritten = written', wrs_Complete = False, wrs_Err = Some ErrNoProgress\<rparr>, s')
                 else write_loop out ctx frame written' s'))))"
  by pat_completeness auto
termination by (relation "measure (\<lambda>(out, ctx, frame, written, s). length frame - written)") auto

declare write_loop.simps [simp del]

definition no_write :: "session_error \<Rightarrow> WriteResult" where
  "no_write e = \<lparr>wrs_BytesWritten = 0, wrs_Complete = False, wrs_Err = Some e\<rparr>"

definition write_session :: "'s gocontext \<Rightarrow> 's Session \<Rightarrow> gostr \<Rightarrow> 's \<Rightarrow> WriteResult \<times> 's" where
  "write_session ctx session frame s =
     (let out = ses_writer session in
      case (wrt_SetWriteDeadline out, ctx_Deadline ctx) of
        (Some set_deadline, Some deadline) \<Rightarrow>
          (case set_deadline (Some deadline) s of
             (Some e, s1) \<Rightarrow> (no_write (ErrOutside e), s1)
           | (None, s1) \<Rightarrow>
               (let (result, s2) = write_loop out ctx frame 0 s1 in (result, snd (set_deadline None s2))))
      | _ \<Rightarrow> write_loop out ctx frame 0 s)"

definition WriteUnique ::
  "'s Registry \<Rightarrow> 's gocontext \<Rightarrow> 's Session option \<Rightarrow> gostr \<Rightarrow> 's \<Rightarrow> WriteResult \<times> 's" where
  "WriteUnique r ctx session frame s =
     (case session of
        None \<Rightarrow> (no_write ErrSessionUnavailable, s)
      | Some ses \<Rightarrow>
          if frame = [] then (no_write ErrSessionUnavailable, s)
          else
            (case reg_identities r (ses_key ses) of
               None \<Rightarrow> (no_write ErrSessionUnavailable, s)
             | Some ids \<Rightarrow>
                 if length (ids_sessions ids) \<noteq> 1 \<or> \<not> holds_session ids ses
                 then (no_write ErrSessionUnavailable, s)
                 else
                   (case ctx_Err ctx s of
                      Some e \<Rightarrow> (no_write (ErrOutside e), s)
                    | None \<Rightarrow> write_session ctx ses frame s)))"

subsection \<open>Invariant\<close>

definition registry_ok :: "'s Registry \<Rightarrow> bool" where
  "registry_ok r \<longleftrightarrow>
     (\<forall>key ids. reg_identities r key = Some ids \<longrightarrow>
        distinct (map fst (ids_sessions ids)) \<and>
        (\<forall>g s. (g, s) \<in> set (ids_sessions ids) \<longrightarrow>
           ses_generation s = g \<and> ses_key s = key \<and> g \<le> ids_generation ids \<and> ses_ref s < reg_next r))"

definition live :: "'s Registry \<Rightarrow> 's Session set" where
  "live r = {s. \<exists>ids. reg_identities r (ses_key s) = Some ids \<and> (ses_generation s, s) \<in> set (ids_sessions ids)}"

text \<open>The generation counter has not reached its last value.\<close>

definition room_for :: "'s Registry \<Rightarrow> sessionKey \<Rightarrow> bool" where
  "room_for r key \<longleftrightarrow> ids_generation (registry_identity r key) \<noteq> - 1"

lemma registry_okD:
  assumes "registry_ok r" and "reg_identities r key = Some ids"
  shows "distinct (map fst (ids_sessions ids))"
    and "\<And>g s. (g, s) \<in> set (ids_sessions ids) \<Longrightarrow>
      ses_generation s = g \<and> ses_key s = key \<and> g \<le> ids_generation ids \<and> ses_ref s < reg_next r"
  using assms unfolding registry_ok_def by blast+

lemma NewRegistry_ok: "registry_ok NewRegistry" "live NewRegistry = {}"
  by (simp_all add: registry_ok_def NewRegistry_def live_def)

lemma live_of_key:
  assumes "registry_ok r" and "reg_identities r key = Some ids"
  shows "{s \<in> live r. ses_key s = key} = snd ` set (ids_sessions ids)"
proof
  show "{s \<in> live r. ses_key s = key} \<subseteq> snd ` set (ids_sessions ids)"
    using assms(2) by (force simp: live_def)
  show "snd ` set (ids_sessions ids) \<subseteq> {s \<in> live r. ses_key s = key}"
    using registry_okD(2) [OF assms] assms(2) by (auto simp: live_def)
qed

lemma next_generation: "(g::64 word) \<noteq> - 1 \<Longrightarrow> g < g + 1"
proof -
  assume "g \<noteq> - 1"
  then have "unat g \<noteq> 2 ^ 64 - 1"
    by (simp add: word_unat_eq_iff unsigned_minus_1_eq_mask mask_eq_exp_minus_1)
  then have "unat g < 2 ^ 64 - 1" using unsigned_less [of g, where 'a = nat] by simp
  then show "g < g + 1" by (simp add: word_less_nat_alt unat_word_ariths)
qed

lemma registry_identity_ok:
  assumes "registry_ok r"
  shows "distinct (map fst (ids_sessions (registry_identity r key)))"
    and "\<And>g s. (g, s) \<in> set (ids_sessions (registry_identity r key)) \<Longrightarrow>
      ses_generation s = g \<and> ses_key s = key \<and> g \<le> ids_generation (registry_identity r key) \<and> ses_ref s < reg_next r"
  using registry_okD [OF assms] by (auto simp: registry_identity_def split: option.splits)

lemma live_identity:
  assumes "registry_ok r"
  shows "{s \<in> live r. ses_key s = key} = snd ` set (ids_sessions (registry_identity r key))"
  using live_of_key [OF assms, of key] by (cases "reg_identities r key") (auto simp: registry_identity_def live_def)

lemma Register_unfold:
  assumes "Register r profile imei deviceID projectID connectionID destination = (Inr s, r')"
  obtains out where "validProfile profile" "validIMEI imei" "deviceID \<noteq> []" "projectID \<noteq> []" "connectionID \<noteq> []" "destination = Some out"
    "s = \<lparr>ses_ref = reg_next r, ses_key = (profile, imei), ses_deviceID = deviceID, ses_projectID = projectID,
       ses_connectionID = connectionID, ses_generation = ids_generation (registry_identity r (profile, imei)) + 1, ses_writer = out\<rparr>"
    "r' = r\<lparr>reg_identities := (reg_identities r)((profile, imei) \<mapsto>
        \<lparr>ids_sessions = AList.update (ses_generation s) s (ids_sessions (registry_identity r (profile, imei))),
          ids_generation = ses_generation s\<rparr>), reg_next := Suc (reg_next r)\<rparr>"
  using assms by (auto simp: Register_def Let_def split: if_splits)

lemma AList_update_new: "k \<notin> fst ` set xs \<Longrightarrow> AList.update k v xs = xs @ [(k, v)]"
  by (induction xs) auto

lemma Register_live:
  assumes ok: "registry_ok r" and run: "Register r profile imei deviceID projectID connectionID destination = (Inr s, r')"
    and room: "room_for r (profile, imei)"
  shows "registry_ok r'" and "live r' = insert s (live r)" and "s \<notin> live r"
proof -
  let ?key = "(profile, imei)" let ?ids = "registry_identity r ?key"
  from run obtain out where s: "s = \<lparr>ses_ref = reg_next r, ses_key = ?key, ses_deviceID = deviceID,
       ses_projectID = projectID, ses_connectionID = connectionID, ses_generation = ids_generation ?ids + 1, ses_writer = out\<rparr>"
    and r': "r' = r\<lparr>reg_identities := (reg_identities r)(?key \<mapsto>
        \<lparr>ids_sessions = AList.update (ses_generation s) s (ids_sessions ?ids), ids_generation = ses_generation s\<rparr>),
        reg_next := Suc (reg_next r)\<rparr>" by (rule Register_unfold)
  note ids = registry_identity_ok(1) [OF ok, of ?key] registry_identity_ok(2) [OF ok, of _ _ ?key]
  have up: "ids_generation ?ids < ses_generation s"
    using next_generation room by (simp add: room_for_def s)
  then have fresh: "ses_generation s \<notin> fst ` set (ids_sessions ?ids)"
    by (auto dest!: ids(2))
  note upd = AList_update_new [OF fresh, of s]
  show "registry_ok r'"
    unfolding registry_ok_def
  proof (intro allI impI)
    fix key ids' assume at: "reg_identities r' key = Some ids'"
    show "distinct (map fst (ids_sessions ids')) \<and> (\<forall>g x. (g, x) \<in> set (ids_sessions ids') \<longrightarrow>
        ses_generation x = g \<and> ses_key x = key \<and> g \<le> ids_generation ids' \<and> ses_ref x < reg_next r')"
    proof (cases "key = ?key")
      case True
      with at have ids': "ids' = \<lparr>ids_sessions = ids_sessions ?ids @ [(ses_generation s, s)], ids_generation = ses_generation s\<rparr>"
        by (simp add: r' upd)
      show ?thesis using ids fresh up True
        by (auto simp: ids' r' s dest!: ids(2) intro: less_SucI)
    next
      case False
      with at have "reg_identities r key = Some ids'" by (auto simp: r' split: if_splits)
      with registry_okD [OF ok this] show ?thesis by (auto simp: r' intro: less_SucI)
    qed
  qed
  show "s \<notin> live r"
  proof
    assume "s \<in> live r"
    then obtain ids' where "reg_identities r ?key = Some ids'" "(ses_generation s, s) \<in> set (ids_sessions ids')"
      by (auto simp: live_def s)
    with fresh show False by (force simp: registry_identity_def)
  qed
  show "live r' = insert s (live r)"
  proof -
    have "x \<in> live r' \<longleftrightarrow> x = s \<or> x \<in> live r" for x
    proof (cases "ses_key x = ?key")
      case True
      then have "x \<in> live r' \<longleftrightarrow> (ses_generation x, x) \<in> set (ids_sessions ?ids @ [(ses_generation s, s)])"
        by (auto simp: live_def r' upd)
      moreover have "x \<in> live r \<longleftrightarrow> (ses_generation x, x) \<in> set (ids_sessions ?ids)"
        using True by (auto simp: live_def registry_identity_def split: option.splits)
      ultimately show ?thesis by auto
    next
      case False
      then have "x \<noteq> s" by (auto simp: s)
      with False show ?thesis by (auto simp: live_def r')
    qed
    then show ?thesis by blast
  qed
qed

lemma Register_error: "Register r profile imei deviceID projectID connectionID destination = (Inl e, r') \<Longrightarrow> r' = r"
  by (auto simp: Register_def Let_def split: if_splits)

lemma Unregister_live:
  assumes ok: "registry_ok r" and s: "s \<in> live r"
  shows "registry_ok (Unregister r (Some s))" and "live (Unregister r (Some s)) = live r - {s}"
proof -
  from s obtain ids where ids: "reg_identities r (ses_key s) = Some ids" "(ses_generation s, s) \<in> set (ids_sessions ids)"
    by (auto simp: live_def)
  note dist = registry_okD(1) [OF ok ids(1)] and rows = registry_okD(2) [OF ok ids(1)]
  have look: "map_of (ids_sessions ids) (ses_generation s) = Some s" using dist ids(2) by simp
  then have r': "Unregister r (Some s) = r\<lparr>reg_identities := (reg_identities r)(ses_key s \<mapsto>
      ids\<lparr>ids_sessions := AList.delete (ses_generation s) (ids_sessions ids)\<rparr>)\<rparr>"
    by (simp add: Unregister_def ids holds_session_def)
  have del: "set (AList.delete (ses_generation s) (ids_sessions ids)) = {p \<in> set (ids_sessions ids). fst p \<noteq> ses_generation s}"
    by (auto simp: AList.delete_eq)
  show "registry_ok (Unregister r (Some s))"
    unfolding registry_ok_def r'
    using registry_okD [OF ok] dist rows by (auto simp: del distinct_delete split: if_splits)
  have "x \<in> live (Unregister r (Some s)) \<longleftrightarrow> x \<in> live r \<and> x \<noteq> s" for x
  proof (cases "ses_key x = ses_key s")
    case True
    have same: "x = s" if "(ses_generation x, x) \<in> set (ids_sessions ids)" "ses_generation x = ses_generation s"
      using map_of_is_SomeI [OF dist that(1)] that(2) look by simp
    show ?thesis using True ids same by (auto simp: live_def r' del)
  next
    case False
    then show ?thesis by (auto simp: live_def r')
  qed
  then show "live (Unregister r (Some s)) = live r - {s}" by blast
qed

lemma LookupUnique_live:
  assumes ok: "registry_ok r" and valid: "validProfile profile" "validIMEI imei"
  shows "LookupUnique r profile imei = Inr s \<longleftrightarrow> {x \<in> live r. ses_key x = (profile, imei)} = {s}"
proof (cases "reg_identities r (profile, imei)")
  case None
  then have "{x \<in> live r. ses_key x = (profile, imei)} = {}" by (auto simp: live_def)
  then have "{x \<in> live r. ses_key x = (profile, imei)} \<noteq> {s}" by (simp only: empty_not_insert not_False_eq_True)
  with None show ?thesis by (simp add: LookupUnique_def)
next
  case (Some ids)
  note eq = live_of_key [OF ok Some]
  have inj: "inj_on snd (set (ids_sessions ids))"
    by (rule inj_onI) (metis prod.collapse registry_okD(2) [OF ok Some])
  have card: "card (snd ` set (ids_sessions ids)) = length (ids_sessions ids)"
    using registry_okD(1) [OF ok Some] by (simp add: card_image [OF inj] distinct_card distinct_map)
  show ?thesis
  proof (cases "ids_sessions ids" rule: remdups_adj.cases)
    case 1
    then show ?thesis unfolding eq using Some by (simp add: LookupUnique_def)
  next
    case (2 p)
    then show ?thesis unfolding eq using Some valid by (cases p) (auto simp: LookupUnique_def)
  next
    case (3 p q ps)
    then have "2 \<le> length (ids_sessions ids)" by simp
    then have "2 \<le> card (snd ` set (ids_sessions ids))" by (simp only: card)
    then have "snd ` set (ids_sessions ids) \<noteq> {s}" by auto
    then show ?thesis unfolding eq using Some valid 3 by (cases p) (auto simp: LookupUnique_def)
  qed
qed

subsection \<open>What a client of the registry relies on\<close>

text \<open>
  The contract between the registry and those who use it: the listener registers and unregisters
  connections, the adapter looks a device up before it prepares a dispatch and again when it writes.
\<close>

locale session_registry =
  fixes invar :: "'r \<Rightarrow> bool" and alive :: "'r \<Rightarrow> 's set" and key :: "'s \<Rightarrow> 'k"
    and register :: "'c \<Rightarrow> 'r \<Rightarrow> ('e + 's) \<times> 'r" and unregister :: "'s \<Rightarrow> 'r \<Rightarrow> 'r"
    and lookup :: "'k \<Rightarrow> 'r \<Rightarrow> 'e + 's" and known :: "'k \<Rightarrow> bool" and room :: "'c \<Rightarrow> 'r \<Rightarrow> bool"
  assumes register_ok: "invar r \<Longrightarrow> room c r \<Longrightarrow> register c r = (Inr s, r') \<Longrightarrow>
      invar r' \<and> alive r' = insert s (alive r) \<and> s \<notin> alive r \<and> known (key s)"
    and register_refused: "register c r = (Inl e, r') \<Longrightarrow> r' = r"
    and unregister_ok: "invar r \<Longrightarrow> s \<in> alive r \<Longrightarrow> invar (unregister s r) \<and> alive (unregister s r) = alive r - {s}"
    and lookup_ok: "invar r \<Longrightarrow> known k \<Longrightarrow> lookup k r = Inr s \<longleftrightarrow> {x \<in> alive r. key x = k} = {s}"
begin

inductive reaches :: "'r \<Rightarrow> 'r \<Rightarrow> bool" where
  same: "reaches r r"
| joins: "reaches r r1 \<Longrightarrow> room c r1 \<Longrightarrow> register c r1 = (x, r2) \<Longrightarrow> reaches r r2"
| leaves: "reaches r r1 \<Longrightarrow> s \<in> alive r1 \<Longrightarrow> reaches r (unregister s r1)"

lemma reaches_invar: "reaches r r' \<Longrightarrow> invar r \<Longrightarrow> invar r'"
proof (induction rule: reaches.induct)
  case (joins r r1 c x r2)
  then show ?case by (cases x) (auto dest: register_ok register_refused)
qed (auto simp: unregister_ok)

lemma newcomer_blocks:
  assumes "invar r" and "room c r" and "lookup (key s) r = Inr old" and "register c r = (Inr s, r')"
  shows "lookup (key s) r' \<noteq> Inr x"
proof -
  note new = register_ok [OF assms(1,2,4)]
  have "{y \<in> alive r. key y = key s} = {old}" using assms new lookup_ok by blast
  then have "{y \<in> alive r'. key y = key s} = {s, old}" "s \<noteq> old" using new by auto
  then have "{y \<in> alive r'. key y = key s} \<noteq> {x}" by (auto simp: doubleton_eq_iff)
  then show ?thesis using new lookup_ok by simp
qed

lemma newcomer_takes_over:
  assumes "invar r" and "room c r" and "lookup (key s) r = Inr old" and "register c r = (Inr s, r')"
  shows "lookup (key s) (unregister old r') = Inr s"
proof -
  note new = register_ok [OF assms(1,2,4)]
  have old: "{y \<in> alive r. key y = key s} = {old}" using assms new lookup_ok by blast
  then have "old \<in> alive r'" using new by auto
  from unregister_ok [OF _ this] new have un: "invar (unregister old r')" "alive (unregister old r') = alive r' - {old}" by simp_all
  have "s \<noteq> old" using old new by auto
  with old new have "{y \<in> alive (unregister old r'). key y = key s} = {s}" by (auto simp: un)
  then show ?thesis using new lookup_ok [OF un(1)] by simp
qed

end

type_synonym 's registration = "gostr \<times> gostr \<times> gostr \<times> gostr \<times> gostr \<times> 's writer option"

definition register_call :: "'s registration \<Rightarrow> 's Registry \<Rightarrow> (session_error + 's Session) \<times> 's Registry" where
  "register_call c r = (case c of (profile, imei, deviceID, projectID, connectionID, destination) \<Rightarrow>
     Register r profile imei deviceID projectID connectionID destination)"

interpretation sessions: session_registry registry_ok live ses_key register_call "\<lambda>s r. Unregister r (Some s)"
  "\<lambda>k r. LookupUnique r (fst k) (snd k)" "\<lambda>k. validProfile (fst k) \<and> validIMEI (snd k)"
  "\<lambda>c r. room_for r (fst c, fst (snd c))"
proof
  fix r c s r'
  assume ok: "registry_ok r" and room: "room_for r (fst c, fst (snd c))" and run: "register_call c r = (Inr s, r')"
  obtain profile imei dv pj cn out where c: "c = (profile, imei, dv, pj, cn, out)" by (cases c) auto
  from run have reg: "Register r profile imei dv pj cn out = (Inr s, r')" by (simp add: register_call_def c)
  from reg have "validProfile (fst (ses_key s)) \<and> validIMEI (snd (ses_key s))" by (rule Register_unfold) simp
  with Register_live [OF ok reg] room show "registry_ok r' \<and> live r' = insert s (live r) \<and> s \<notin> live r \<and>
      validProfile (fst (ses_key s)) \<and> validIMEI (snd (ses_key s))" by (simp add: c)
next
  fix c r e r'
  assume "register_call c r = (Inl e, r')"
  then show "r' = r" by (cases c) (auto simp: register_call_def dest: Register_error)
qed (simp_all add: Unregister_live LookupUnique_live)

text \<open>
  C34. One connection per Device. While a Device with exactly one session opens a second connection, no lookup
  for it is answered with any session; as soon as the old connection is unregistered, the new one is.
\<close>

theorem reconnect_is_exclusive:
  assumes "registry_ok r" and "room_for r (profile, imei)" and "LookupUnique r profile imei = Inr old"
    and "Register r profile imei deviceID projectID connectionID destination = (Inr s, r')"
  shows "(\<forall>x. LookupUnique r' profile imei \<noteq> Inr x) \<and> LookupUnique (Unregister r' (Some old)) profile imei = Inr s"
proof (intro conjI allI)
  have key: "ses_key s = (profile, imei)" using assms(4) by (rule Register_unfold) simp
  have call: "register_call (profile, imei, deviceID, projectID, connectionID, destination) r = (Inr s, r')"
    using assms(4) by (simp add: register_call_def)
  show "LookupUnique r' profile imei \<noteq> Inr x" for x
    using sessions.newcomer_blocks [OF assms(1) _ _ call, of old x] assms(2,3) key by simp
  show "LookupUnique (Unregister r' (Some old)) profile imei = Inr s"
    using sessions.newcomer_takes_over [OF assms(1) _ _ call, of old] assms(2,3) key by simp
qed

subsection \<open>Frames on the wire\<close>

text \<open>
  \<open>io.Writer\<close>: a call of \<open>Write\<close> answers how many of the bytes it was given it has put on the wire.
  \<open>sent\<close> reads from the outside's state what is on the wire.
\<close>

definition puts_on_wire :: "('s \<Rightarrow> gostr) \<Rightarrow> 's writer \<Rightarrow> bool" where
  "puts_on_wire sent out \<longleftrightarrow>
     (\<forall>chunk s count err s'. wrt_Write out chunk s = ((count, err), s') \<longrightarrow>
        0 \<le> count \<and> count \<le> int (length chunk) \<and> sent s' = sent s @ take (nat count) chunk) \<and>
     (case wrt_SetWriteDeadline out of None \<Rightarrow> True
      | Some put \<Rightarrow> (\<forall>d s. sent (snd (put d s)) = sent s))"

lemma drop_take_join:
  assumes "i \<le> j" and "j \<le> k"
  shows "drop i (take j xs) @ drop j (take k xs) = drop i (take k xs)"
proof -
  have cut: "drop i (take j ys) @ drop j ys = drop i ys" for ys :: "'a list"
  proof -
    have "drop i ys = drop i (take j ys @ drop j ys)" by (simp only: append_take_drop_id)
    also have "\<dots> = drop i (take j ys) @ drop (i - length (take j ys)) (drop j ys)" by (simp only: drop_append)
    also have "\<dots> = drop i (take j ys) @ drop j ys" using assms(1) by (cases "length ys \<le> j") auto
    finally show ?thesis ..
  qed
  from cut [of "take k xs"] assms(2) show ?thesis by (simp add: min_def)
qed

lemma write_loop_done:
  "length frame \<le> written \<Longrightarrow>
   write_loop out ctx frame written s = (\<lparr>wrs_BytesWritten = written, wrs_Complete = True, wrs_Err = None\<rparr>, s)"
  by (subst write_loop.simps) simp

lemma write_loop_cancelled:
  "written < length frame \<Longrightarrow> ctx_Err ctx s = Some e \<Longrightarrow>
   write_loop out ctx frame written s =
     (\<lparr>wrs_BytesWritten = written, wrs_Complete = False, wrs_Err = Some (ErrOutside e)\<rparr>, s)"
  by (subst write_loop.simps) simp

lemma write_loop_call:
  "written < length frame \<Longrightarrow> ctx_Err ctx s = None \<Longrightarrow> wrt_Write out (drop written frame) s = ((count, err), s1) \<Longrightarrow>
   0 \<le> count \<Longrightarrow> count \<le> int (length frame - written) \<Longrightarrow>
   write_loop out ctx frame written s =
     (if written + nat count = length frame then
        (\<lparr>wrs_BytesWritten = written + nat count, wrs_Complete = True, wrs_Err = None\<rparr>, s1)
      else if err \<noteq> None \<or> count = 0 then
        (\<lparr>wrs_BytesWritten = written + nat count, wrs_Complete = False,
           wrs_Err = Some (case err of Some e \<Rightarrow> ErrOutside e | None \<Rightarrow> ErrNoProgress)\<rparr>, s1)
      else write_loop out ctx frame (written + nat count) s1)"
  by (subst write_loop.simps) (auto simp: Let_def)

lemma write_loop_wire:
  assumes out: "puts_on_wire sent out"
  shows "write_loop out ctx frame written s = (result, s') \<Longrightarrow> written \<le> length frame \<Longrightarrow>
    sent s' = sent s @ drop written (take (wrs_BytesWritten result) frame) \<and>
    written \<le> wrs_BytesWritten result \<and> wrs_BytesWritten result \<le> length frame \<and>
    (wrs_Complete result \<longleftrightarrow> wrs_BytesWritten result = length frame) \<and> (wrs_Complete result \<longleftrightarrow> wrs_Err result = None)"
  using out
proof (induction out ctx frame written s arbitrary: result s' rule: write_loop.induct)
  case (1 out ctx frame written s)
  show ?case
  proof (cases "written = length frame \<or> ctx_Err ctx s \<noteq> None")
    case True
    with "1.prems"(1,2) show ?thesis
      by (cases "written = length frame") (auto simp: write_loop_done write_loop_cancelled)
  next
    case False
    then have more: "written < length frame" and calm: "ctx_Err ctx s = None" using "1.prems"(2) by auto
    obtain count err s1 where call: "wrt_Write out (drop written frame) s = ((count, err), s1)" by (metis prod.collapse)
    with "1.prems"(3) have "0 \<le> count \<and> count \<le> int (length (drop written frame)) \<and>
        sent s1 = sent s @ take (nat count) (drop written frame)" unfolding puts_on_wire_def by blast
    then have count: "0 \<le> count" "count \<le> int (length frame - written)"
      and sent: "sent s1 = sent s @ take (nat count) (drop written frame)" by simp_all
    let ?w = "written + nat count"
    have le: "?w \<le> length frame" using count more by linarith
    have wire: "sent s1 = sent s @ drop written (take ?w frame)" by (simp add: sent drop_take)
    show ?thesis
    proof (cases "?w = length frame \<or> err \<noteq> None \<or> count = 0")
      case True
      with "1.prems"(1) le wire show ?thesis
        by (auto simp: write_loop_call [OF more calm call count] split: if_splits)
    next
      case False
      then have "write_loop out ctx frame ?w s1 = (result, s')"
        using "1.prems"(1) by (auto simp: write_loop_call [OF more calm call count])
      from "1.IH" [OF _ calm call [symmetric] refl refl _ refl _ _ _ this le "1.prems"(3)] False more count
      have ih: "sent s' = sent s1 @ drop ?w (take (wrs_BytesWritten result) frame)" "?w \<le> wrs_BytesWritten result"
        "wrs_BytesWritten result \<le> length frame" "wrs_Complete result \<longleftrightarrow> wrs_BytesWritten result = length frame"
        "wrs_Complete result \<longleftrightarrow> wrs_Err result = None" by auto
      have "drop written (take ?w frame) @ drop ?w (take (wrs_BytesWritten result) frame) =
          drop written (take (wrs_BytesWritten result) frame)"
        by (rule drop_take_join) (use ih(2) in simp_all)
      with ih wire show ?thesis by simp
    qed
  qed
qed

lemma WriteUnique_frame:
  assumes "puts_on_wire sent (ses_writer ses)" and "WriteUnique r ctx (Some ses) frame s = (result, s')"
  shows "sent s' = sent s @ take (wrs_BytesWritten result) frame \<and> wrs_BytesWritten result \<le> length frame \<and>
    (wrs_Complete result \<longleftrightarrow> wrs_Err result = None) \<and>
    (wrs_Complete result \<longrightarrow> wrs_BytesWritten result = length frame \<and> frame \<noteq> [])"
proof -
  have loop: "sent s2 = sent s1 @ take (wrs_BytesWritten res) frame \<and> wrs_BytesWritten res \<le> length frame \<and>
      (wrs_Complete res \<longleftrightarrow> wrs_Err res = None) \<and> (wrs_Complete res \<longrightarrow> wrs_BytesWritten res = length frame)"
    if "write_loop (ses_writer ses) ctx frame 0 s1 = (res, s2)" for res s1 s2
    using write_loop_wire [OF assms(1) that] by auto
  have quiet: "sent (snd (put d v)) = sent v" if "wrt_SetWriteDeadline (ses_writer ses) = Some put" for put d v
    using assms(1) that by (simp add: puts_on_wire_def)
  have ses: "sent s2 = sent s @ take (wrs_BytesWritten res) frame \<and> wrs_BytesWritten res \<le> length frame \<and>
      (wrs_Complete res \<longleftrightarrow> wrs_Err res = None) \<and> (wrs_Complete res \<longrightarrow> wrs_BytesWritten res = length frame)"
    if run: "write_session ctx ses frame s = (res, s2)" for res s2
  proof (cases "wrt_SetWriteDeadline (ses_writer ses) = None \<or> ctx_Deadline ctx = None")
    case True
    with run have "write_loop (ses_writer ses) ctx frame 0 s = (res, s2)"
      by (auto simp: write_session_def Let_def split: option.splits)
    then show ?thesis by (rule loop)
  next
    case False
    then obtain put d where put: "wrt_SetWriteDeadline (ses_writer ses) = Some put" "ctx_Deadline ctx = Some d" by auto
    obtain e s1 where set: "put (Some d) s = (e, s1)" by fastforce
    with quiet [OF put(1), of "Some d" s] have s1: "sent s1 = sent s" by simp
    obtain res' s3 where lp: "write_loop (ses_writer ses) ctx frame 0 s1 = (res', s3)" by fastforce
    show ?thesis
      using run put set loop [OF lp] s1 lp quiet [OF put(1), of None s3]
      by (cases e) (auto simp: write_session_def Let_def no_write_def)
  qed
  show ?thesis
    using assms(2) ses
    by (auto simp: WriteUnique_def no_write_def split: option.splits if_splits)
qed

text \<open>
  What the caller is told is what happened. Whatever the connection does, and whenever the context is
  cancelled, the bytes \<open>WriteUnique\<close> reports as written are exactly those put on the wire, in order and from
  the start of the frame; it reports completion exactly when that is the whole frame and there is no error.
  If the session is not the only one of its Device, nothing is written.
\<close>

theorem WriteUnique_wire:
  assumes "puts_on_wire sent (ses_writer ses)" and "WriteUnique r ctx (Some ses) frame s = (result, s')"
  shows "sent s' = sent s @ take (wrs_BytesWritten result) frame \<and> wrs_BytesWritten result \<le> length frame \<and>
    (wrs_Complete result \<longleftrightarrow> wrs_Err result = None) \<and>
    (wrs_Complete result \<longrightarrow> wrs_BytesWritten result = length frame \<and> frame \<noteq> [])"
  by (rule WriteUnique_frame [OF assms])

text \<open>
  C35. A write ends: whatever the connection answers, a frame is given up or written after at most as many
  calls of \<open>Write\<close> as it has bytes.
\<close>

theorem write_loop_calls:
  fixes calls :: "'s \<Rightarrow> nat"
  assumes "\<And>chunk v. calls (snd (wrt_Write out chunk v)) = Suc (calls v)"
  shows "calls (snd (write_loop out ctx frame written s)) \<le> calls s + (length frame - written)"
  using assms
proof (induction out ctx frame written s rule: write_loop.induct)
  case (1 out ctx frame written s)
  show ?case
  proof (cases "written < length frame \<and> ctx_Err ctx s = None")
    case False
    then show ?thesis
      by (cases "written < length frame") (auto simp: write_loop_done write_loop_cancelled)
  next
    case True
    then have more: "written < length frame" and calm: "ctx_Err ctx s = None" by simp_all
    obtain count err s1 where call: "wrt_Write out (drop written frame) s = ((count, err), s1)" by (metis prod.collapse)
    have one: "calls s1 = Suc (calls s)" using "1.prems" [of "drop written frame" s] call by simp
    show ?thesis
    proof (cases "0 \<le> count \<and> count \<le> int (length frame - written)")
      case False
      then show ?thesis using more calm call one by (subst write_loop.simps) auto
    next
      case True
      then have count: "0 \<le> count" "count \<le> int (length frame - written)" by simp_all
      have "calls (snd (write_loop out ctx frame (written + nat count) s1)) \<le> calls s1 + (length frame - (written + nat count))"
        if "written + nat count \<noteq> length frame" "err = None" "count \<noteq> 0"
        using "1.IH" [OF _ calm call [symmetric] refl refl _ refl that(1) _ that(3) "1.prems"] that more count by auto
      then show ?thesis using more one count by (auto simp: write_loop_call [OF more calm call count])
    qed
  qed
qed

subsection \<open>A small registry\<close>

text \<open>A connection that takes at most three bytes at a time; the outside's state is what is on the wire.\<close>

definition slow_writer :: "gostr writer" where
  "slow_writer = \<lparr>wrt_Write = (\<lambda>chunk wire. ((int (min 3 (length chunk)), None), wire @ take 3 chunk)),
     wrt_SetWriteDeadline = None\<rparr>"

definition background :: "'s gocontext" where
  "background = \<lparr>ctx_Err = (\<lambda>s. None), ctx_Deadline = None\<rparr>"

definition sample_registration_of :: "gostr \<Rightarrow> gostr registration" where
  "sample_registration_of connectionID =
     (ProviderProfileOmniIoTV135, ''123456789012345'', ''d1'', ''p1'', connectionID, Some slow_writer)"

definition one_session :: "gostr Registry" where
  "one_session = snd (register_call (sample_registration_of ''c1'') NewRegistry)"

definition two_sessions :: "gostr Registry" where
  "two_sessions = snd (register_call (sample_registration_of ''c2'') one_session)"

definition session_no :: "nat \<Rightarrow> gostr Session" where
  "session_no n =
     \<lparr>ses_ref = n, ses_key = (ProviderProfileOmniIoTV135, ''123456789012345''), ses_deviceID = ''d1'', ses_projectID = ''p1'',
      ses_connectionID = (if n = 0 then ''c1'' else ''c2''), ses_generation = of_nat (Suc n), ses_writer = slow_writer\<rparr>"

lemma sample_keys: "validProfile ProviderProfileOmniIoTV135" "validIMEI ''123456789012345''"
  by code_simp+

lemma sample_Register:
  "Register NewRegistry ProviderProfileOmniIoTV135 ''123456789012345'' ''d1'' ''p1'' ''c1'' (Some slow_writer) = (Inr (session_no 0), one_session)"
  "Register one_session ProviderProfileOmniIoTV135 ''123456789012345'' ''d1'' ''p1'' ''c2'' (Some slow_writer) = (Inr (session_no 1), two_sessions)"
  by (simp_all add: Register_def Let_def sample_keys two_sessions_def one_session_def register_call_def sample_registration_of_def
      session_no_def registry_identity_def NewRegistry_def)

lemma one_session_ok: "registry_ok one_session"
  by (rule Register_live(1) [OF NewRegistry_ok(1) sample_Register(1)])
    (simp add: room_for_def registry_identity_def NewRegistry_def)

theorem reconnect_is_exclusive_witness:
  "LookupUnique two_sessions ProviderProfileOmniIoTV135 ''123456789012345'' \<noteq> Inr (session_no 1) \<and>
   LookupUnique (Unregister two_sessions (Some (session_no 0))) ProviderProfileOmniIoTV135 ''123456789012345'' = Inr (session_no 1)"
proof -
  have eq: "one_session = \<lparr>reg_identities = [(ProviderProfileOmniIoTV135, ''123456789012345'') \<mapsto>
      \<lparr>ids_sessions = [(1, session_no 0)], ids_generation = 1\<rparr>], reg_next = 1\<rparr>"
    using sample_Register(1) by (simp add: Register_def Let_def sample_keys registry_identity_def NewRegistry_def) (simp add: session_no_def)
  have "room_for one_session (ProviderProfileOmniIoTV135, ''123456789012345'')"
    "LookupUnique one_session ProviderProfileOmniIoTV135 ''123456789012345'' = Inr (session_no 0)"
    by (simp_all add: eq room_for_def registry_identity_def LookupUnique_def sample_keys)
  from reconnect_is_exclusive [OF one_session_ok this sample_Register(2)] show ?thesis by blast
qed

lemma slow_writer_wire: "puts_on_wire id slow_writer"
  by (auto simp: puts_on_wire_def slow_writer_def min_def)

theorem WriteUnique_wire_witness:
  "case WriteUnique one_session background (Some (session_no 0)) ''12345678'' ''x'' of
     (result, wire) \<Rightarrow> wrs_Complete result \<and> wrs_BytesWritten result = 8 \<and> wire = ''x12345678''"
proof -
  have run: "WriteUnique one_session background (Some (session_no 0)) ''12345678'' ''x'' =
      (\<lparr>wrs_BytesWritten = 8, wrs_Complete = True, wrs_Err = None\<rparr>, ''x12345678'')"
    by code_simp
  have "puts_on_wire id (ses_writer (session_no 0))" by (simp add: session_no_def slow_writer_wire)
  from WriteUnique_wire [OF this run] run show ?thesis by simp
qed

theorem write_loop_calls_witness:
  "snd (write_loop \<lparr>wrt_Write = (\<lambda>chunk n. ((1, None), Suc n)), wrt_SetWriteDeadline = None\<rparr> background ''abc'' 0 0) \<le> 3"
  using write_loop_calls [of "\<lambda>n. n" "\<lparr>wrt_Write = (\<lambda>chunk n. ((1, None), Suc n)), wrt_SetWriteDeadline = None\<rparr>"
      background "''abc''" 0 0] by simp

end
