(* ===== verification/Webhook_Repo.thy ===== *)
theory Webhook_Repo
  imports Record_Repo
begin

text \<open>
  The webhook repository (\<open>internal/storage/repository/postgres_webhook_simulator.go\<close>): creating a
  Delivery with its Event, replaying a dead one, and the claim, completion and recovery of
  delivery attempts under a lease.
\<close>

definition webhookAttemptLimit :: int where "webhookAttemptLimit = 5"

record CreateWebhookDeliveryRequest =
  cwd_ID :: gostr
  cwd_EventID :: gostr
  cwd_RawBody :: gostr

record CreateWebhookReplayRequest =
  cwr_ID :: gostr
  cwr_ReplayOfDeliveryID :: gostr

record ClaimWebhookRequest =
  cwq_WorkerID :: gostr
  cwq_LeaseToken :: gostr
  cwq_LeaseDuration :: duration
  cwq_MaxAttempts :: int

record RecoverExpiredWebhookRequest =
  rew_ErrorCode :: gostr
  rew_ErrorDetail :: gostr
  rew_RetrySchedule :: "duration list"
  rew_MaxAttempts :: int

record CompleteWebhookAttemptRequest =
  cwa_AttemptID :: gostr
  cwa_HTTPStatus :: "int option"
  cwa_ResponseSummary :: "gostr option"
  cwa_ErrorCode :: "gostr option"
  cwa_ErrorDetail :: "gostr option"
  cwa_RetryDelay :: duration
  cwa_MaxAttempts :: int

record ListWebhookDeliveriesRequest =
  lwr_ProjectID :: "gostr option"
  lwr_ManagerUserID :: "gostr option"
  lwr_EventID :: "gostr option"
  lwr_Status :: "WebhookDeliveryStatus option"
  lwr_Limit :: int
  lwr_Offset :: int

record currentWebhookConfig =
  wcf_targetURL :: gostr
  wcf_configVersion :: int
  wcf_secretVersion :: int

subsection \<open>Constraints\<close>

text \<open>The CHECKs of \<open>webhook_deliveries\<close> (migrations 002 and 004) and of \<open>webhook_delivery_attempts\<close> (002).\<close>

definition delivery_check :: "WebhookDelivery \<Rightarrow> bool" where
  "delivery_check w \<longleftrightarrow>
     whd_WebhookConfigVersion w > 0 \<and> whd_RawBody w \<noteq> [] \<and> 0 \<le> whd_AttemptCount w \<and> whd_AttemptCount w \<le> 5 \<and>
     (whd_LeaseToken w = None \<and> whd_LeaseOwner w = None \<and> whd_LeaseExpiresAt w = None \<or>
      whd_LeaseToken w \<noteq> None \<and> whd_LeaseOwner w \<noteq> None \<and> whd_LeaseExpiresAt w \<noteq> None) \<and>
     (case whd_Status w of
        WebhookDeliveryStatusPending \<Rightarrow>
          whd_AttemptCount w = 0 \<and> whd_NextAttemptAt w \<noteq> None \<and> whd_LeaseToken w = None
      | WebhookDeliveryStatusSending \<Rightarrow> 1 \<le> whd_AttemptCount w \<and> whd_LeaseToken w \<noteq> None
      | WebhookDeliveryStatusFailed \<Rightarrow>
          1 \<le> whd_AttemptCount w \<and> whd_AttemptCount w \<le> 4 \<and> whd_NextAttemptAt w \<noteq> None \<and> whd_LeaseToken w = None
      | WebhookDeliveryStatusDelivered \<Rightarrow>
          1 \<le> whd_AttemptCount w \<and> whd_NextAttemptAt w = None \<and> whd_LeaseToken w = None
      | WebhookDeliveryStatusDead \<Rightarrow>
          1 \<le> whd_AttemptCount w \<and> whd_NextAttemptAt w = None \<and> whd_LeaseToken w = None) \<and>
     (whd_Status w = WebhookDeliveryStatusDelivered \<longleftrightarrow> whd_DeliveredAt w \<noteq> None) \<and>
     whd_ReplayOfDeliveryID w \<noteq> Some (whd_ID w)"

definition delivery_attempt_check :: "WebhookDeliveryAttempt \<Rightarrow> bool" where
  "delivery_attempt_check a \<longleftrightarrow>
     1 \<le> wha_AttemptNo a \<and> wha_AttemptNo a \<le> 5 \<and>
     (case wha_HTTPStatus a of None \<Rightarrow> True | Some s \<Rightarrow> 100 \<le> s \<and> s \<le> 599) \<and>
     (case wha_ResponseSummary a of None \<Rightarrow> True | Some s \<Rightarrow> length s \<le> 4096) \<and>
     (case wha_CompletedAt a of None \<Rightarrow> True | Some t \<Rightarrow> wha_StartedAt a \<le> t)"

text \<open>The secret version a Delivery refers to (a foreign key).\<close>

definition secret_known :: "db \<Rightarrow> gostr \<Rightarrow> int \<Rightarrow> bool" where
  "secret_known d projectID version \<longleftrightarrow>
     list_ex (\<lambda>s. wsv_ProjectID s = projectID \<and> wsv_Version s = version) (tbl_secrets d)"

subsection \<open>Statements\<close>

definition update_deliveries ::
  "(instant \<Rightarrow> WebhookDelivery \<Rightarrow> bool) \<Rightarrow> (instant \<Rightarrow> WebhookDelivery \<Rightarrow> WebhookDelivery) \<Rightarrow> nat tx" where
  "update_deliveries p f =
     sql (\<lambda>t d. case update_where (p t) (f t) (tbl_deliveries d) of
       (n, rows) \<Rightarrow>
         if list_all (\<lambda>w. p t w \<longrightarrow> delivery_check (f t w)) (tbl_deliveries d)
         then Inr (n, d\<lparr>tbl_deliveries := rows\<rparr>)
         else Inl (ErrCheckViolation ''webhook_deliveries''))"

definition update_delivery_attempts ::
  "(instant \<Rightarrow> WebhookDeliveryAttempt \<Rightarrow> bool) \<Rightarrow>
   (instant \<Rightarrow> WebhookDeliveryAttempt \<Rightarrow> WebhookDeliveryAttempt) \<Rightarrow> nat tx" where
  "update_delivery_attempts p f =
     sql (\<lambda>t d. case update_where (p t) (f t) (tbl_delivery_attempts d) of
       (n, rows) \<Rightarrow>
         if list_all (\<lambda>a. p t a \<longrightarrow> delivery_attempt_check (f t a)) (tbl_delivery_attempts d)
         then Inr (n, d\<lparr>tbl_delivery_attempts := rows\<rparr>)
         else Inl (ErrCheckViolation ''webhook_delivery_attempts''))"

definition webhook_GetDelivery :: "gostr \<Rightarrow> WebhookDelivery tx" where
  "webhook_GetDelivery deliveryID = query_row tbl_deliveries (\<lambda>t w. whd_ID w = deliveryID)"

definition webhook_getAttempt :: "gostr \<Rightarrow> WebhookDeliveryAttempt tx" where
  "webhook_getAttempt attemptID = query_row tbl_delivery_attempts (\<lambda>t a. wha_ID a = attemptID)"

definition webhook_ListAttempts :: "gostr \<Rightarrow> WebhookDeliveryAttempt list tx" where
  "webhook_ListAttempts deliveryID =
     query (\<lambda>t d. Inr (sort_key wha_AttemptNo (filter (\<lambda>a. wha_DeliveryID a = deliveryID) (tbl_delivery_attempts d))))"

definition listed_delivery :: "ListWebhookDeliveriesRequest \<Rightarrow> db \<Rightarrow> WebhookDelivery \<Rightarrow> bool" where
  "listed_delivery r d w \<longleftrightarrow>
     matches (lwr_ProjectID r) (whd_ProjectID w) \<and> managed_by d (lwr_ManagerUserID r) (whd_ProjectID w) \<and>
     matches (lwr_EventID r) (whd_EventID w) \<and> matches (lwr_Status r) (whd_Status w)"

definition webhook_ListDeliveries :: "ListWebhookDeliveriesRequest \<Rightarrow> (WebhookDelivery list \<times> nat) tx" where
  "webhook_ListDeliveries r =
     (if lwr_Limit r < 1 \<or> lwr_Limit r > 100 \<or> lwr_Offset r < 0 then fail ErrInvalidRepositoryRequest
      else
        bnd (query (\<lambda>t d. Inr (length (filter (listed_delivery r d) (tbl_deliveries d))))) (\<lambda>total.
        bnd (query (\<lambda>t d. Inr (page (\<lambda>w. (whd_CreatedAt w, whd_ID w)) (lwr_Limit r) (lwr_Offset r)
               (filter (listed_delivery r d) (tbl_deliveries d))))) (\<lambda>items.
        ret (items, total))))"

subsection \<open>Creating deliveries\<close>

definition usable_config :: "Project \<Rightarrow> currentWebhookConfig option" where
  "usable_config p =
     (case (prj_WebhookURL p, prj_CurrentWebhookSecretVersion p) of
        (Some url, Some secret) \<Rightarrow>
          if TrimSpace url = [] \<or> prj_WebhookConfigVersion p \<le> 0 \<or> secret \<le> 0 then None
          else Some \<lparr>wcf_targetURL = url, wcf_configVersion = prj_WebhookConfigVersion p, wcf_secretVersion = secret\<rparr>
      | _ \<Rightarrow> None)"

definition lockCurrentWebhookConfig :: "gostr \<Rightarrow> currentWebhookConfig option tx" where
  "lockCurrentWebhookConfig projectID =
     on_row (query_row tbl_projects (\<lambda>t p. prj_ID p = projectID)) (ret None) (\<lambda>p. ret (usable_config p))"

definition insertDelivery ::
  "gostr \<Rightarrow> gostr \<Rightarrow> gostr \<Rightarrow> gostr \<Rightarrow> currentWebhookConfig \<Rightarrow> gostr option \<Rightarrow> unit tx" where
  "insertDelivery deliveryID projectID eventID rawBody config replayOfDeliveryID =
     sql (\<lambda>t d.
       if list_ex (\<lambda>x. whd_ID x = deliveryID) (tbl_deliveries d)
       then Inl (ErrUniqueViolation ''webhook_deliveries_pkey'')
       else if replayOfDeliveryID = None \<and>
         list_ex (\<lambda>x. whd_EventID x = eventID \<and> whd_ReplayOfDeliveryID x = None) (tbl_deliveries d)
       then Inl (ErrUniqueViolation ''uq_webhook_deliveries_initial_event'')
       else if \<not> secret_known d projectID (wcf_secretVersion config)
       then Inl (ErrForeignKeyViolation ''fk_webhook_deliveries_secret_version'')
       else Inr ((), d\<lparr>tbl_deliveries := tbl_deliveries d @
         [\<lparr>whd_ID = deliveryID, whd_ProjectID = projectID, whd_EventID = eventID,
           whd_TargetURL = wcf_targetURL config, whd_WebhookConfigVersion = wcf_configVersion config,
           whd_WebhookSecretVersion = wcf_secretVersion config, whd_RawBody = rawBody, whd_AttemptCount = 0,
           whd_Status = WebhookDeliveryStatusPending, whd_LastErrorCode = None, whd_LastErrorDetail = None,
           whd_NextAttemptAt = Some t, whd_LeaseToken = None, whd_LeaseOwner = None, whd_LeaseExpiresAt = None,
           whd_ReplayOfDeliveryID = replayOfDeliveryID, whd_DeliveredAt = None, whd_CreatedAt = t,
           whd_UpdatedAt = t\<rparr>]\<rparr>))"

definition CreateDelivery :: "CreateWebhookDeliveryRequest \<Rightarrow> WebhookDelivery option tx" where
  "CreateDelivery r =
     (if TrimSpace (cwd_ID r) = [] \<or> TrimSpace (cwd_EventID r) = [] \<or> cwd_RawBody r = []
      then fail ErrInvalidRepositoryRequest
      else
        on_row (select_row tbl_events (\<lambda>t e. evt_ID e = cwd_EventID r) (\<lambda>t e. evt_ProjectID e))
          (fail ErrWebhookEventNotFound)
          (\<lambda>projectID. bnd (lockCurrentWebhookConfig projectID) (\<lambda>config.
             case config of
               None \<Rightarrow> ret None
             | Some cfg \<Rightarrow>
                 bnd (insertDelivery (cwd_ID r) projectID (cwd_EventID r) (cwd_RawBody r) cfg None) (\<lambda>u.
                 bnd (webhook_GetDelivery (cwd_ID r)) (\<lambda>delivery. ret (Some delivery))))))"

definition CreateReplay :: "CreateWebhookReplayRequest \<Rightarrow> WebhookDelivery tx" where
  "CreateReplay r =
     (if TrimSpace (cwr_ID r) = [] \<or> TrimSpace (cwr_ReplayOfDeliveryID r) = [] \<or>
         cwr_ID r = cwr_ReplayOfDeliveryID r
      then fail ErrInvalidRepositoryRequest
      else
        on_row (select_row tbl_deliveries (\<lambda>t w. whd_ID w = cwr_ReplayOfDeliveryID r) (\<lambda>t w. whd_ProjectID w))
          (fail ErrWebhookDeliveryNotFound)
          (\<lambda>projectID. bnd (lockCurrentWebhookConfig projectID) (\<lambda>config.
             on_row (select_row tbl_deliveries
                       (\<lambda>t w. whd_ID w = cwr_ReplayOfDeliveryID r \<and> whd_ProjectID w = projectID)
                       (\<lambda>t w. (whd_EventID w, whd_RawBody w, whd_Status w)))
               (fail ErrWebhookDeliveryNotFound)
               (\<lambda>(eventID, rawBody, status).
                  if status \<noteq> WebhookDeliveryStatusDead then fail ErrWebhookDeliveryNotDead
                  else
                    (case config of
                       None \<Rightarrow> fail ErrWebhookNotConfigured
                     | Some cfg \<Rightarrow>
                         bnd (insertDelivery (cwr_ID r) projectID eventID rawBody cfg
                                (Some (cwr_ReplayOfDeliveryID r))) (\<lambda>u.
                         webhook_GetDelivery (cwr_ID r)))))))"

subsection \<open>Attempts\<close>

definition validWebhookMaxAttempts :: "int \<Rightarrow> bool" where
  "validWebhookMaxAttempts value \<longleftrightarrow> value \<ge> 1 \<and> value \<le> webhookAttemptLimit"

definition validWebhookRetrySchedule :: "int \<Rightarrow> duration list \<Rightarrow> bool" where
  "validWebhookRetrySchedule maxAttempts schedule =
     (if \<not> validWebhookMaxAttempts maxAttempts \<or> int (length schedule) \<noteq> maxAttempts - 1 then False
      else list_all (\<lambda>delay. \<not> delay < Microsecond) schedule)"

definition webhookCompletion ::
  "int \<Rightarrow> int \<Rightarrow> int option \<Rightarrow> gostr option \<Rightarrow> gostr option \<Rightarrow> duration \<Rightarrow>
   (WebhookDeliveryStatus \<times> duration) option" where
  "webhookCompletion attemptCount maxAttempts httpStatus errorCode errorDetail retryDelay =
     (if (case httpStatus of None \<Rightarrow> False | Some s \<Rightarrow> s < 100 \<or> s > 599) then None
      else if (case httpStatus of None \<Rightarrow> False | Some s \<Rightarrow> s \<ge> 200 \<and> s \<le> 299) then
        (if errorCode \<noteq> None \<or> errorDetail \<noteq> None \<or> retryDelay \<noteq> 0 then None
         else Some (WebhookDeliveryStatusDelivered, 0))
      else if (case errorCode of None \<Rightarrow> True | Some e \<Rightarrow> TrimSpace e = []) then None
      else if attemptCount \<ge> maxAttempts then
        (if retryDelay \<noteq> 0 then None else Some (WebhookDeliveryStatusDead, 0))
      else if retryDelay < Microsecond then None
      else Some (WebhookDeliveryStatusFailed, retryDelay))"

definition waiting :: "instant \<Rightarrow> int \<Rightarrow> WebhookDelivery \<Rightarrow> bool" where
  "waiting t maxAttempts w \<longleftrightarrow>
     (whd_Status w = WebhookDeliveryStatusPending \<or> whd_Status w = WebhookDeliveryStatusFailed) \<and>
     (case whd_NextAttemptAt w of None \<Rightarrow> False | Some n \<Rightarrow> n \<le> t) \<and>
     whd_AttemptCount w < maxAttempts \<and> whd_LeaseToken w = None"

definition insert_delivery_attempt :: "gostr \<Rightarrow> gostr \<Rightarrow> unit tx" where
  "insert_delivery_attempt attemptID deliveryID =
     sql (\<lambda>t d.
       let rows = map (\<lambda>w. \<lparr>wha_ID = attemptID, wha_DeliveryID = whd_ID w, wha_AttemptNo = whd_AttemptCount w,
             wha_RequestTimestamp = t div Second, wha_HTTPStatus = None, wha_ResponseSummary = None,
             wha_ErrorCode = None, wha_ErrorDetail = None, wha_StartedAt = t, wha_CompletedAt = None\<rparr>)
           (filter (\<lambda>w. whd_ID w = deliveryID) (tbl_deliveries d))
       in
       if list_ex (\<lambda>x. wha_ID x = attemptID) (tbl_delivery_attempts d)
       then Inl (ErrUniqueViolation ''webhook_delivery_attempts_pkey'')
       else if list_ex (\<lambda>a. list_ex (\<lambda>x. wha_DeliveryID x = wha_DeliveryID a \<and> wha_AttemptNo x = wha_AttemptNo a)
           (tbl_delivery_attempts d)) rows
       then Inl (ErrUniqueViolation ''webhook_delivery_attempts_delivery_id_attempt_no_key'')
       else if list_ex (\<lambda>a. list_ex (\<lambda>x. wha_DeliveryID x = wha_DeliveryID a \<and> wha_CompletedAt x = None)
           (tbl_delivery_attempts d)) rows
       then Inl (ErrUniqueViolation ''uq_webhook_delivery_attempts_one_incomplete'')
       else if \<not> list_all delivery_attempt_check rows then Inl (ErrCheckViolation ''webhook_delivery_attempts'')
       else Inr ((), d\<lparr>tbl_delivery_attempts := tbl_delivery_attempts d @ rows\<rparr>))"

definition due_key :: "WebhookDelivery \<Rightarrow> instant \<times> instant \<times> gostr" where
  "due_key w = (case whd_NextAttemptAt w of None \<Rightarrow> 0 | Some n \<Rightarrow> n, whd_CreatedAt w, whd_ID w)"

definition ClaimDue :: "ClaimWebhookRequest \<Rightarrow> (WebhookDelivery \<times> WebhookDeliveryAttempt) option tx" where
  "ClaimDue r =
     (if TrimSpace (cwq_WorkerID r) = [] \<or> TrimSpace (cwq_LeaseToken r) = [] \<or>
         cwq_LeaseDuration r < Microsecond \<or> \<not> validWebhookMaxAttempts (cwq_MaxAttempts r)
      then ret None
      else
        on_row (select_first tbl_deliveries (\<lambda>t d. waiting t (cwq_MaxAttempts r)) due_key)
          (ret None)
          (\<lambda>w. bnd (update_deliveries (\<lambda>t x. whd_ID x = whd_ID w \<and> waiting t (cwq_MaxAttempts r) x)
                 (\<lambda>t x. x\<lparr>whd_Status := WebhookDeliveryStatusSending,
                    whd_AttemptCount := whd_AttemptCount x + 1, whd_NextAttemptAt := None,
                    whd_LeaseToken := Some (cwq_LeaseToken r), whd_LeaseOwner := Some (cwq_WorkerID r),
                    whd_LeaseExpiresAt := Some (t + Microseconds (cwq_LeaseDuration r) * Microsecond),
                    whd_UpdatedAt := t\<rparr>)) (\<lambda>n.
             if \<not> exactlyOneRow n then ret None
             else
               bnd newUUID (\<lambda>attemptID.
               bnd (insert_delivery_attempt attemptID (whd_ID w)) (\<lambda>u.
               bnd (webhook_GetDelivery (whd_ID w)) (\<lambda>delivery.
               bnd (webhook_getAttempt attemptID) (\<lambda>attempt. ret (Some (delivery, attempt)))))))))"

definition exhausted :: "int \<Rightarrow> WebhookDelivery \<Rightarrow> bool" where
  "exhausted maxAttempts w \<longleftrightarrow>
     whd_Status w = WebhookDeliveryStatusFailed \<and> whd_AttemptCount w \<ge> maxAttempts \<and> whd_LeaseToken w = None"

definition ExhaustRetryBudget :: "int \<Rightarrow> WebhookDelivery option tx" where
  "ExhaustRetryBudget maxAttempts =
     (if \<not> validWebhookMaxAttempts maxAttempts then ret None
      else
        on_row (select_first tbl_deliveries (\<lambda>t d. exhausted maxAttempts) (\<lambda>w. (whd_UpdatedAt w, whd_ID w)))
          (ret None)
          (\<lambda>w. bnd (update_deliveries (\<lambda>t x. whd_ID x = whd_ID w \<and> exhausted maxAttempts x)
                 (\<lambda>t x. x\<lparr>whd_Status := WebhookDeliveryStatusDead, whd_NextAttemptAt := None,
                    whd_UpdatedAt := t\<rparr>)) (\<lambda>n.
             if \<not> exactlyOneRow n then ret None
             else bnd (webhook_GetDelivery (whd_ID w)) (\<lambda>delivery. ret (Some delivery)))))"

definition finishDelivery ::
  "gostr \<Rightarrow> WebhookDeliveryStatus \<Rightarrow> gostr option \<Rightarrow> gostr option \<Rightarrow> duration \<Rightarrow> bool tx" where
  "finishDelivery deliveryID status errorCode errorDetail retryDelay =
     (let sending = (\<lambda>t w. whd_ID w = deliveryID \<and> whd_Status w = WebhookDeliveryStatusSending);
          release = (\<lambda>t w. w\<lparr>whd_Status := status, whd_LastErrorCode := errorCode, whd_LastErrorDetail := errorDetail,
            whd_NextAttemptAt := None, whd_LeaseToken := None, whd_LeaseOwner := None,
            whd_LeaseExpiresAt := None, whd_UpdatedAt := t\<rparr>)
      in
      case status of
        WebhookDeliveryStatusDelivered \<Rightarrow>
          bnd (update_deliveries sending
                 (\<lambda>t w. (release t w)\<lparr>whd_LastErrorCode := None, whd_LastErrorDetail := None,
                    whd_DeliveredAt := Some t\<rparr>)) (\<lambda>n. ret (exactlyOneRow n))
      | WebhookDeliveryStatusFailed \<Rightarrow>
          bnd (update_deliveries sending
                 (\<lambda>t w. (release t w)\<lparr>whd_NextAttemptAt := Some (t + Microseconds retryDelay * Microsecond)\<rparr>)) (\<lambda>n.
          ret (exactlyOneRow n))
      | WebhookDeliveryStatusDead \<Rightarrow>
          bnd (update_deliveries sending release) (\<lambda>n. ret (exactlyOneRow n))
      | _ \<Rightarrow> ret False)"

record lockedWebhookDeliveryAttempt =
  lwd_status :: WebhookDeliveryStatus
  lwd_attemptCount :: int
  lwd_leaseToken :: gostr
  lwd_leaseValid :: bool
  lwd_attemptNo :: int
  lwd_attemptCompleted :: bool

definition lockDeliveryAttempt :: "gostr \<Rightarrow> gostr \<Rightarrow> lockedWebhookDeliveryAttempt tx" where
  "lockDeliveryAttempt deliveryID attemptID =
     bnd (query_row tbl_deliveries (\<lambda>t w. whd_ID w = deliveryID)) (\<lambda>w.
     select_row tbl_delivery_attempts (\<lambda>t a. wha_ID a = attemptID \<and> wha_DeliveryID a = deliveryID)
       (\<lambda>t a. \<lparr>lwd_status = whd_Status w, lwd_attemptCount = whd_AttemptCount w,
          lwd_leaseToken = reason_text (whd_LeaseToken w),
          lwd_leaseValid = (case whd_LeaseExpiresAt w of None \<Rightarrow> False | Some e \<Rightarrow> e > t),
          lwd_attemptNo = wha_AttemptNo a, lwd_attemptCompleted = (wha_CompletedAt a \<noteq> None)\<rparr>))"

definition webhook_CompleteAttempt :: "gostr \<Rightarrow> gostr \<Rightarrow> CompleteWebhookAttemptRequest \<Rightarrow> bool tx" where
  "webhook_CompleteAttempt deliveryID leaseToken r =
     on_row (lockDeliveryAttempt deliveryID (cwa_AttemptID r)) (ret False) (\<lambda>l.
       if lwd_status l \<noteq> WebhookDeliveryStatusSending \<or> lwd_leaseToken l \<noteq> leaseToken \<or> \<not> lwd_leaseValid l \<or>
          lwd_attemptCompleted l \<or> lwd_attemptNo l \<noteq> lwd_attemptCount l \<or>
          \<not> validWebhookMaxAttempts (cwa_MaxAttempts r)
       then ret False
       else
         (case webhookCompletion (lwd_attemptCount l) (cwa_MaxAttempts r) (cwa_HTTPStatus r)
                 (cwa_ErrorCode r) (cwa_ErrorDetail r) (cwa_RetryDelay r) of
            None \<Rightarrow> ret False
          | Some (nextStatus, retry) \<Rightarrow>
              bnd (update_delivery_attempts
                     (\<lambda>t a. wha_ID a = cwa_AttemptID r \<and> wha_DeliveryID a = deliveryID \<and> wha_CompletedAt a = None)
                     (\<lambda>t a. a\<lparr>wha_HTTPStatus := cwa_HTTPStatus r, wha_ResponseSummary := cwa_ResponseSummary r,
                        wha_ErrorCode := cwa_ErrorCode r, wha_ErrorDetail := cwa_ErrorDetail r,
                        wha_CompletedAt := Some t\<rparr>)) (\<lambda>u.
              finishDelivery deliveryID nextStatus (cwa_ErrorCode r) (cwa_ErrorDetail r) retry)))"

definition expired_sending :: "instant \<Rightarrow> db \<Rightarrow> WebhookDelivery \<Rightarrow> bool" where
  "expired_sending t d w \<longleftrightarrow>
     whd_Status w = WebhookDeliveryStatusSending \<and>
     (case whd_LeaseExpiresAt w of None \<Rightarrow> False | Some e \<Rightarrow> e \<le> t) \<and>
     list_ex (\<lambda>a. wha_DeliveryID a = whd_ID w \<and> wha_AttemptNo a = whd_AttemptCount w \<and> wha_CompletedAt a = None)
       (tbl_delivery_attempts d)"

definition lease_key :: "WebhookDelivery \<Rightarrow> instant \<times> gostr" where
  "lease_key w = (case whd_LeaseExpiresAt w of None \<Rightarrow> 0 | Some n \<Rightarrow> n, whd_ID w)"

definition RecoverNextExpiredSending :: "RecoverExpiredWebhookRequest \<Rightarrow> WebhookDelivery option tx" where
  "RecoverNextExpiredSending r =
     (if TrimSpace (rew_ErrorCode r) = [] \<or> \<not> validWebhookRetrySchedule (rew_MaxAttempts r) (rew_RetrySchedule r)
      then ret None
      else
        on_row (select_first tbl_deliveries expired_sending lease_key)
          (ret None)
          (\<lambda>w. on_row (select_row tbl_delivery_attempts
                    (\<lambda>t a. wha_DeliveryID a = whd_ID w \<and> wha_AttemptNo a = whd_AttemptCount w \<and>
                       wha_CompletedAt a = None) (\<lambda>t a. wha_ID a))
             (ret None)
             (\<lambda>attemptID.
                let again = whd_AttemptCount w < rew_MaxAttempts r;
                    nextStatus = (if again then WebhookDeliveryStatusFailed else WebhookDeliveryStatusDead);
                    retry = (if again then rew_RetrySchedule r ! nat (whd_AttemptCount w - 1) else 0)
                in
                bnd (update_delivery_attempts
                       (\<lambda>t a. wha_ID a = attemptID \<and> wha_DeliveryID a = whd_ID w \<and> wha_CompletedAt a = None)
                       (\<lambda>t a. a\<lparr>wha_ErrorCode := Some (rew_ErrorCode r), wha_ErrorDetail := Some (rew_ErrorDetail r),
                          wha_CompletedAt := Some t\<rparr>)) (\<lambda>u.
                bnd (finishDelivery (whd_ID w) nextStatus (Some (rew_ErrorCode r)) (Some (rew_ErrorDetail r)) retry) (\<lambda>updated.
                if \<not> updated then ret None
                else bnd (webhook_GetDelivery (whd_ID w)) (\<lambda>delivery. ret (Some delivery)))))))"

end
