(* ===== verification/Provider_Adapter.thy ===== *)
theory Provider_Adapter
  imports Store
begin

text \<open>
  \<open>internal/provideradapter/types.go\<close>: the boundary between the Command worker and a provider. An
  adapter is a record of functions. A prepared dispatch performs the provider's I/O: it maps a world
  to a \<open>DispatchResult\<close> and a later world, and since it runs outside every transaction the later
  world may differ in anything the program's other actors do meanwhile.
\<close>

record DispatchRequest =
  drq_ProjectID :: gostr
  drq_DeviceID :: gostr
  drq_ProviderDeviceID :: gostr
  drq_ProviderProfile :: gostr
  drq_Action :: ActionIdentifier
  drq_Payload :: gomap
  drq_ProviderRequestKey :: gostr
  drq_AttemptRequestSummary :: gomap

datatype PrepareFailure =
  PrepareActionUnsupported | PrepareMappingUnknown | PrepareSessionUnavailable | PrepareRequestInvalid

fun wire_PrepareFailure :: "PrepareFailure \<Rightarrow> gostr" where
  "wire_PrepareFailure PrepareActionUnsupported = ''provider_action_unsupported''"
| "wire_PrepareFailure PrepareMappingUnknown = ''provider_mapping_unknown''"
| "wire_PrepareFailure PrepareSessionUnavailable = ''provider_session_unavailable''"
| "wire_PrepareFailure PrepareRequestInvalid = ''provider_request_invalid''"

text \<open>An error of \<open>Prepare\<close>: a \<open>*PrepareError\<close>, or any other error with its text.\<close>

datatype prepare_error = PrepareError PrepareFailure gostr | OtherPrepareError gostr

fun prepare_error_text :: "prepare_error \<Rightarrow> gostr" where
  "prepare_error_text (PrepareError f detail) =
     (if detail = [] then ''Provider dispatch preparation failed'' else detail)"
| "prepare_error_text (OtherPrepareError t) = t"

record DispatchResult =
  drs_Outcome :: AttemptOutcome
  drs_ConfirmationLevel :: ConfirmationLevel
  drs_EvidenceStatus :: EvidenceStatus
  drs_HTTPStatus :: int
  drs_RequestSummary :: gomap
  drs_ResponseSummary :: gomap
  drs_ReasonCode :: gostr
  drs_ErrorDetail :: gostr

record PreparedDispatch =
  prp_RequestSummary :: gomap
  prp_Dispatch :: "world \<Rightarrow> DispatchResult \<times> world"

record ProviderAdapter =
  adp_Configured :: "world \<Rightarrow> bool"
  adp_Prepare :: "DispatchRequest \<Rightarrow> world \<Rightarrow> prepare_error + PreparedDispatch"

end
