(* ===== verification/Command_Worker.thy ===== *)
theory Command_Worker
  imports Webhook_Repo Device_Repo Provider_Adapter
begin

text \<open>
  The Command worker (\<open>internal/commandworker/worker.go\<close>): claiming, dispatching to a provider,
  persisting what the provider answered, recovering what a dead worker left, and the two expiries.
  Each function that opens a transaction is a \<open>WithinTransaction\<close> here; the loop \<open>Run\<close> is the order
  in which \<open>poll_dispatch\<close> and \<open>poll_maintenance\<close> try their steps.
\<close>

definition defaultLeaseDuration :: duration where "defaultLeaseDuration = 15 * Second"
definition defaultPollInterval :: duration where "defaultPollInterval = 100 * Millisecond"
definition requestKeyAttempts :: nat where "requestKeyAttempts = 8"

record AdapterRegistration =
  reg_ProviderCode :: gostr
  reg_AdapterCode :: "Adapter option"
  reg_Adapter :: "ProviderAdapter option"
  reg_ResultSource :: "EventSource option"
  reg_ClaimSnapshot :: "gomap tx option"

record WorkerConfig =
  wcg_WorkerID :: gostr
  wcg_LeaseDuration :: duration
  wcg_PollInterval :: duration
  wcg_Adapters :: "AdapterRegistration list"

text \<open>A registration of the running worker: \<open>New\<close> has checked and completed it.\<close>

record registered =
  rgd_ProviderCode :: gostr
  rgd_AdapterCode :: Adapter
  rgd_Adapter :: ProviderAdapter
  rgd_ResultSource :: EventSource
  rgd_ClaimSnapshot :: "gomap tx option"

record Worker =
  wkr_workerID :: gostr
  wkr_leaseDuration :: duration
  wkr_pollInterval :: duration
  wkr_adapters :: "registered list"
  wkr_nextAdapter :: nat

subsection \<open>Construction\<close>

fun register_all :: "(gostr \<times> Adapter) list \<Rightarrow> AdapterRegistration list \<Rightarrow> registered list option" where
  "register_all seen [] = Some []"
| "register_all seen (r # rs) =
     (case (reg_AdapterCode r, reg_Adapter r) of
        (Some code, Some impl) \<Rightarrow>
          (let provider = TrimSpace (reg_ProviderCode r) in
           if provider = [] \<or> (provider, code) \<in> set seen then None
           else
             (case register_all ((provider, code) # seen) rs of
                None \<Rightarrow> None
              | Some done' \<Rightarrow>
                  Some (\<lparr>rgd_ProviderCode = provider, rgd_AdapterCode = code, rgd_Adapter = impl,
                    rgd_ResultSource = (case reg_ResultSource r of None \<Rightarrow> EventSourceSystem | Some s \<Rightarrow> s),
                    rgd_ClaimSnapshot = reg_ClaimSnapshot r\<rparr> # done')))
      | _ \<Rightarrow> None)"

definition worker_New :: "WorkerConfig \<Rightarrow> Worker tx" where
  "worker_New config =
     (if wcg_Adapters config = [] then fail ErrInvalidConfig
      else
        (let lease = (if wcg_LeaseDuration config = 0 then defaultLeaseDuration else wcg_LeaseDuration config);
             poll = (if wcg_PollInterval config = 0 then defaultPollInterval else wcg_PollInterval config)
         in
         if lease < Microsecond \<or> poll < Millisecond then fail ErrInvalidConfig
         else
           bnd (if TrimSpace (wcg_WorkerID config) = []
                then bnd (map_error (ErrWrapped ''generate Command worker ID'') randomUUID)
                       (\<lambda>u. ret (''command-worker-'' @ u))
                else ret (TrimSpace (wcg_WorkerID config))) (\<lambda>workerID.
           case register_all [] (wcg_Adapters config) of
             None \<Rightarrow> fail ErrInvalidConfig
           | Some registrations \<Rightarrow>
               ret \<lparr>wkr_workerID = workerID, wkr_leaseDuration = lease, wkr_pollInterval = poll,
                    wkr_adapters = registrations, wkr_nextAdapter = 0\<rparr>)))"

subsection \<open>Identities\<close>

text \<open>The serial number of a provider request: four random bytes, big-endian, in 1 to 999999999.\<close>

definition request_serial :: "8 word list \<Rightarrow> int" where
  "request_serial value = uint (word_rcat value :: 32 word) mod 999999999 + 1"

definition newLeaseIdentity :: "(gostr \<times> gostr \<times> int) tx" where
  "newLeaseIdentity =
     bnd randomUUID (\<lambda>leaseToken.
     bnd (read_random 4) (\<lambda>value.
     ret (leaseToken, show_int (request_serial value), request_serial value)))"

definition newEventIdentities :: "(gostr \<times> gostr) tx" where
  "newEventIdentities = bnd randomUUID (\<lambda>eventID. bnd randomUUID (\<lambda>deliveryID. ret (eventID, deliveryID)))"

definition optional :: "gostr \<Rightarrow> gostr option" where
  "optional value = (if value = [] then None else Some value)"

subsection \<open>Events\<close>

definition event_envelope :: "Event \<Rightarrow> json" where
  "event_envelope e =
     JStruct [(''event_id'', JStr (evt_ID e)), (''schema_version'', JInt (evt_SchemaVersion e)),
       (''event_type'', JStr (wire_EventType (evt_EventType e))), (''project_id'', JStr (evt_ProjectID e)),
       (''device_id'', JStrOpt (evt_DeviceID e)), (''command_id'', JStrOpt (evt_CommandID e)),
       (''occurred_at'', JTime (evt_OccurredAt e)), (''source'', JStr (wire_EventSource (evt_Source e))),
       (''payload'', JMap (evt_Payload e))]"

definition createCommandEvent :: "Command \<Rightarrow> EventSource \<Rightarrow> EventType \<Rightarrow> gomap \<Rightarrow> gostr \<Rightarrow> unit tx" where
  "createCommandEvent c source eventType payload deduplicationKey =
     bnd newEventIdentities (\<lambda>(eventID, deliveryID).
     bnd (if cmd_UpdatedAt c = zero_time then time_now else ret (cmd_UpdatedAt c)) (\<lambda>occurredAt.
     let e = \<lparr>evt_ID = eventID, evt_SchemaVersion = EventSchemaVersion, evt_EventType = eventType,
              evt_ProjectID = cmd_ProjectID c, evt_DeviceID = Some (cmd_DeviceID c),
              evt_CommandID = Some (cmd_ID c), evt_Source = source, evt_Payload = payload,
              evt_RawMessageID = None, evt_DeduplicationKey = deduplicationKey,
              evt_OccurredAt = occurredAt, evt_CreatedAt = occurredAt\<rparr>
     in
     bnd (event_Create e) (\<lambda>u.
     bnd (CreateDelivery \<lparr>cwd_ID = deliveryID, cwd_EventID = eventID,
            cwd_RawBody = json_marshal (event_envelope e)\<rparr>) (\<lambda>delivery. ret ()))))"

definition createStatusEvent :: "Command \<Rightarrow> CommandStatus \<Rightarrow> EventSource \<Rightarrow> gostr \<Rightarrow> unit tx" where
  "createStatusEvent c old source deduplicationKey =
     (if old = cmd_Status c then fail ErrRuntimeState
      else
        createCommandEvent c source EventTypeCommandStatusChanged
          [(''from'', JStr (wire_CommandStatus old)), (''to'', JStr (wire_CommandStatus (cmd_Status c))),
           (''reason_code'', JStrOpt (cmd_ReasonCode c)),
           (''confirmation_level'', JStr (wire_ConfirmationLevel (cmd_ConfirmationLevel c))),
           (''evidence_status'', JStr (wire_EvidenceStatus (cmd_EvidenceStatus c)))]
          deduplicationKey)"

definition createEvidenceEvent ::
  "Command \<Rightarrow> gostr \<Rightarrow> AttemptOutcome \<Rightarrow> EventSource \<Rightarrow> gostr \<Rightarrow> unit tx" where
  "createEvidenceEvent c attemptID outcome source deduplicationKey =
     createCommandEvent c source EventTypeCommandEvidenceUpdated
       [(''status'', JStr (wire_CommandStatus (cmd_Status c))), (''attempt_id'', JStr attemptID),
        (''outcome'', JStr (wire_AttemptOutcome outcome)),
        (''confirmation_level'', JStr (wire_ConfirmationLevel (cmd_ConfirmationLevel c))),
        (''evidence_status'', JStr (wire_EvidenceStatus (cmd_EvidenceStatus c)))]
       deduplicationKey"

definition status_key :: "gostr \<Rightarrow> CommandStatus \<Rightarrow> gostr" where
  "status_key commandID status = ''command.status_changed:'' @ commandID @ '':'' @ wire_CommandStatus status"

definition evidence_key :: "gostr \<Rightarrow> gostr \<Rightarrow> AttemptOutcome \<Rightarrow> ConfirmationLevel \<Rightarrow> EvidenceStatus \<Rightarrow> gostr" where
  "evidence_key commandID attemptID outcome level evidence =
     join_with '':'' [''command.evidence_updated'', commandID, ''attempt'', attemptID, wire_AttemptOutcome outcome,
       wire_ConfirmationLevel level, wire_EvidenceStatus evidence]"

subsection \<open>Recovery and expiry\<close>

definition recover_body :: "bool tx" where
  "recover_body =
     bnd RecoverNextExpiredDispatching (\<lambda>recovered.
     case recovered of
       None \<Rightarrow> ret False
     | Some (c, a) \<Rightarrow>
         bnd (createEvidenceEvent c (att_ID a) AttemptOutcomeIndeterminate EventSourceSystem
                (''command.evidence_updated:'' @ cmd_ID c @ '':attempt:'' @ att_ID a @
                 '':indeterminate:transport_sent:unverified'')) (\<lambda>u. ret True))"

definition worker_RecoverNext :: "bool tx" where
  "worker_RecoverNext = WithinTransaction recover_body"

definition expire_queued_body :: "bool tx" where
  "expire_queued_body =
     bnd ExpireNextQueued (\<lambda>expired.
     case expired of
       None \<Rightarrow> ret False
     | Some c \<Rightarrow>
         bnd (createStatusEvent c CommandStatusQueued EventSourceSystem (status_key (cmd_ID c) (cmd_Status c)))
           (\<lambda>u. ret True))"

definition worker_ExpireNextQueued :: "bool tx" where
  "worker_ExpireNextQueued = WithinTransaction expire_queued_body"

definition expire_result_body :: "bool tx" where
  "expire_result_body =
     bnd ExpireNextResultObservation (\<lambda>expired.
     case expired of
       None \<Rightarrow> ret False
     | Some (c, previousStatus) \<Rightarrow>
         bnd (createStatusEvent c previousStatus EventSourceSystem (status_key (cmd_ID c) (cmd_Status c)))
           (\<lambda>u. ret True))"

definition worker_ExpireNextResultObservation :: "bool tx" where
  "worker_ExpireNextResultObservation = WithinTransaction expire_result_body"

subsection \<open>Claiming\<close>

text \<open>The entries of the snapshot override those of the base map.\<close>

definition overlay :: "gomap \<Rightarrow> gomap \<Rightarrow> gomap" where
  "overlay base snapshot = fold (\<lambda>(k, v) m. map_put k v m) snapshot base"

definition claim_once :: "Worker \<Rightarrow> registered \<Rightarrow> (Command \<times> CommandAttempt) option tx" where
  "claim_once w reg =
     bnd newLeaseIdentity (\<lambda>(leaseToken, requestKey, serial).
     WithinTransaction
       (bnd (case rgd_ClaimSnapshot reg of
               None \<Rightarrow> ret [(''serialnum'', JInt serial)]
             | Some snapshot \<Rightarrow> bnd snapshot (\<lambda>m. ret (overlay [(''serialnum'', JInt serial)] m))) (\<lambda>requestSummary.
        ClaimNext \<lparr>ccr_WorkerID = wkr_workerID w, ccr_LeaseToken = leaseToken,
          ccr_LeaseDuration = wkr_leaseDuration w, ccr_ProviderCode = rgd_ProviderCode reg,
          ccr_Adapter = rgd_AdapterCode reg, ccr_RequestKey = requestKey, ccr_RequestSummary = requestSummary\<rparr>)))"

fun claim_attempts :: "nat \<Rightarrow> Worker \<Rightarrow> registered \<Rightarrow> (Command \<times> CommandAttempt) option tx" where
  "claim_attempts 0 w reg = fail ErrProviderRequestKeyConflict"
| "claim_attempts (Suc n) w reg =
     (\<lambda>s. case claim_once w reg s of
        (Inr r, s1) \<Rightarrow> (Inr r, s1)
      | (Inl e, s1) \<Rightarrow>
          if errors_Is e ErrProviderRequestKeyConflict then claim_attempts n w reg s1 else (Inl e, s1))"

definition claimNext :: "Worker \<Rightarrow> registered \<Rightarrow> (Command \<times> CommandAttempt) option tx" where
  "claimNext = claim_attempts requestKeyAttempts"

subsection \<open>Dispatching\<close>

definition require :: "bool \<Rightarrow> unit tx" where
  "require b = check b ErrLeaseLost"

definition fail_in_transaction ::
  "Command \<Rightarrow> CommandAttempt \<Rightarrow> EventSource \<Rightarrow> AttemptOutcome \<Rightarrow> gostr \<Rightarrow> gostr option \<Rightarrow> unit tx" where
  "fail_in_transaction c a source outcome reasonCode detail =
     bnd (CompleteAttempt (cmd_ID c) (att_ID a) (att_LeaseToken a)
            \<lparr>cca_Outcome = outcome, cca_ConfirmationLevel = ConfirmationNone, cca_EvidenceStatus = EvidenceNone,
             cca_ResponseSummary = [], cca_ReasonCode = Some reasonCode, cca_ErrorDetail = detail\<rparr>) (\<lambda>completed.
     bnd (require completed) (\<lambda>u.
     bnd (TransitionFromAttempt (cmd_ID c) (att_ID a) (att_LeaseToken a)
            \<lparr>cst_From = CommandStatusQueued, cst_To = CommandStatusFailed, cst_ReasonCode = Some reasonCode,
             cst_ReasonDetail = detail, cst_ConfirmationLevel = ConfirmationNone,
             cst_EvidenceStatus = EvidenceNone\<rparr>) (\<lambda>transitioned.
     bnd (require transitioned) (\<lambda>u.
     bnd (command_Get (cmd_ID c)) (\<lambda>updated.
     createStatusEvent updated CommandStatusQueued source (status_key (cmd_ID c) (cmd_Status updated)))))))"

definition failBeforeDispatch :: "Command \<Rightarrow> CommandAttempt \<Rightarrow> EventSource \<Rightarrow> gostr \<Rightarrow> gostr \<Rightarrow> unit tx" where
  "failBeforeDispatch c a source reasonCode detail =
     (if reasonCode \<notin> set before_dispatch_reasons then fail ErrRuntimeState
      else
        WithinTransaction
          (fail_in_transaction c a source AttemptOutcomeInvalidRequest reasonCode
             (optional (truncate_utf8 detail 4096))))"

text \<open>
  \<open>commitDispatch\<close> returns whether the Attempt may be dispatched. It answers False only after it has
  failed the Command of an offline Device whose policy is \<open>online_only\<close>.
\<close>

definition commit_dispatch_body :: "Command \<Rightarrow> CommandAttempt \<Rightarrow> EventSource \<Rightarrow> duration \<Rightarrow> gomap \<Rightarrow> bool tx" where
  "commit_dispatch_body c a source dispatchLeaseDuration requestSummary =
     bnd (if cmd_DeliveryPolicy c = DeliveryPolicyOnlineOnly
          then bnd (device_GetForUpdate (cmd_DeviceID c)) (\<lambda>d.
                 ret (dev_ConnectionStatus d = ConnectionStatusOnline))
          else ret True) (\<lambda>online.
     if \<not> online then
       bnd (fail_in_transaction c a source AttemptOutcomeNotDispatched ''device_not_online'' None)
         (\<lambda>u. ret False)
     else
       bnd (MarkDispatching (cmd_ID c) (att_ID a) (att_LeaseToken a)
              \<lparr>mdr_ResultObservationTimeout = cmd_ResultTimeout c,
               mdr_DispatchLeaseDuration = dispatchLeaseDuration, mdr_RequestSummary = requestSummary\<rparr>) (\<lambda>updated.
       bnd (require updated) (\<lambda>u.
       bnd (command_Get (cmd_ID c)) (\<lambda>sent.
       bnd (createStatusEvent sent CommandStatusQueued source (status_key (cmd_ID c) (cmd_Status sent)))
         (\<lambda>u. ret True)))))"

definition commitDispatch :: "Command \<Rightarrow> CommandAttempt \<Rightarrow> EventSource \<Rightarrow> duration \<Rightarrow> gomap \<Rightarrow> bool tx" where
  "commitDispatch c a source dispatchLeaseDuration requestSummary =
     WithinTransaction (commit_dispatch_body c a source dispatchLeaseDuration requestSummary)"

definition resultTransition :: "DispatchResult \<Rightarrow> (gostr option \<times> CommandStatus) option" where
  "resultTransition r =
     (case drs_Outcome r of
        AttemptOutcomeProviderAccepted \<Rightarrow> Some (None, CommandStatusSent)
      | AttemptOutcomeTransportErrorBeforeSend \<Rightarrow> Some (Some ''provider_transport_error'', CommandStatusFailed)
      | AttemptOutcomeIndeterminate \<Rightarrow>
          if drs_ReasonCode r \<noteq> ''provider_delivery_unknown'' \<and> drs_ReasonCode r \<noteq> ''provider_response_invalid''
          then None
          else Some (Some (drs_ReasonCode r), CommandStatusSent)
      | AttemptOutcomeProviderRejected \<Rightarrow> Some (Some ''provider_rejected'', CommandStatusFailed)
      | _ \<Rightarrow> None)"

definition persist_body :: "registered \<Rightarrow> Command \<Rightarrow> CommandAttempt \<Rightarrow> DispatchResult \<Rightarrow> unit tx" where
  "persist_body reg c a r =
     (case resultTransition r of
       None \<Rightarrow> fail ErrRuntimeState
     | Some (reasonCode, target) \<Rightarrow>
         bnd (CompleteAttempt (cmd_ID c) (att_ID a) (att_LeaseToken a)
                \<lparr>cca_Outcome = drs_Outcome r, cca_ConfirmationLevel = drs_ConfirmationLevel r,
                 cca_EvidenceStatus = drs_EvidenceStatus r, cca_ResponseSummary = drs_ResponseSummary r,
                 cca_ReasonCode = reasonCode,
                 cca_ErrorDetail = optional (truncate_utf8 (drs_ErrorDetail r) 4096)\<rparr>) (\<lambda>completed.
         bnd (require completed) (\<lambda>u.
         if drs_Outcome r = AttemptOutcomeProviderAccepted \<or> drs_Outcome r = AttemptOutcomeIndeterminate then
           bnd (UpdateEvidenceFromAttempt (cmd_ID c) (att_ID a) (att_LeaseToken a) CommandStatusSent) (\<lambda>updated.
           bnd (require updated) (\<lambda>u.
           bnd (command_Get (cmd_ID c)) (\<lambda>current.
           createEvidenceEvent current (att_ID a) (drs_Outcome r) (rgd_ResultSource reg)
             (evidence_key (cmd_ID c) (att_ID a) (drs_Outcome r)
                (cmd_ConfirmationLevel current) (cmd_EvidenceStatus current)))))
         else
           bnd (TransitionFromAttempt (cmd_ID c) (att_ID a) (att_LeaseToken a)
                  \<lparr>cst_From = CommandStatusSent, cst_To = target, cst_ReasonCode = reasonCode,
                   cst_ReasonDetail = optional (truncate_utf8 (drs_ErrorDetail r) 4096),
                   cst_ConfirmationLevel = drs_ConfirmationLevel r,
                   cst_EvidenceStatus = drs_EvidenceStatus r\<rparr>) (\<lambda>transitioned.
           bnd (require transitioned) (\<lambda>u.
           bnd (command_Get (cmd_ID c)) (\<lambda>current.
           createStatusEvent current CommandStatusSent (rgd_ResultSource reg)
             (status_key (cmd_ID c) (cmd_Status current))))))))"

definition persistResult :: "registered \<Rightarrow> Command \<Rightarrow> CommandAttempt \<Rightarrow> DispatchResult \<Rightarrow> unit tx" where
  "persistResult reg c a r = WithinTransaction (persist_body reg c a r)"

definition dispatch_request :: "Command \<Rightarrow> CommandAttempt \<Rightarrow> DispatchRequest" where
  "dispatch_request c a =
     \<lparr>drq_ProjectID = cmd_ProjectID c, drq_DeviceID = cmd_DeviceID c,
      drq_ProviderDeviceID = cmd_ProviderDeviceID c, drq_ProviderProfile = cmd_ProviderProfile c,
      drq_Action = cmd_CommandType c, drq_Payload = cmd_Payload c,
      drq_ProviderRequestKey = att_ProviderRequestKey a, drq_AttemptRequestSummary = att_RequestSummary a\<rparr>"

definition dispatchClaimed :: "Worker \<Rightarrow> registered \<Rightarrow> Command \<Rightarrow> CommandAttempt \<Rightarrow> unit tx" where
  "dispatchClaimed w reg c a =
     (if cmd_ProviderCode c \<noteq> rgd_ProviderCode reg \<or> cmd_Adapter c \<noteq> rgd_AdapterCode reg \<or>
         att_ProviderCode a \<noteq> rgd_ProviderCode reg \<or> att_Adapter a \<noteq> rgd_AdapterCode reg
      then fail ErrRuntimeState
      else if cmd_RetryAllowed c \<or> cmd_ProviderTimeout c \<le> 0 \<or> cmd_ResultTimeout c \<le> 0 then fail ErrRuntimeState
      else
        (\<lambda>s.
          if \<not> adp_Configured (rgd_Adapter reg) s then
            failBeforeDispatch c a (rgd_ResultSource reg) ''provider_not_configured'' ''Provider is not configured'' s
          else
            (case adp_Prepare (rgd_Adapter reg) (dispatch_request c a) s of
               Inl e \<Rightarrow>
                 failBeforeDispatch c a (rgd_ResultSource reg)
                   (case e of PrepareError f d \<Rightarrow> wire_PrepareFailure f | OtherPrepareError t \<Rightarrow> ''provider_request_invalid'')
                   (prepare_error_text e) s
             | Inr prepared \<Rightarrow>
                 bnd (commitDispatch c a (rgd_ResultSource reg)
                        (max (wkr_leaseDuration w) (cmd_ProviderTimeout c + 5 * Second))
                        (prp_RequestSummary prepared)) (\<lambda>dispatched.
                 if \<not> dispatched then ret ()
                 else
                   (\<lambda>s1. case prp_Dispatch prepared s1 of
                      (r, s2) \<Rightarrow> persistResult reg c a r s2)) s)))"

text \<open>
  \<open>DispatchNext\<close> starts with the adapter after the one it started with the last time and dispatches
  the first Command it can claim. It answers whether it claimed one, and the error if any.
\<close>

fun try_adapters :: "Worker \<Rightarrow> registered list \<Rightarrow> world \<Rightarrow> (bool \<times> goerr option) \<times> world" where
  "try_adapters w [] s = ((False, None), s)"
| "try_adapters w (reg # regs) s =
     (case claimNext w reg s of
        (Inl e, s1) \<Rightarrow> ((False, Some e), s1)
      | (Inr None, s1) \<Rightarrow> try_adapters w regs s1
      | (Inr (Some (c, a)), s1) \<Rightarrow>
          (case dispatchClaimed w reg c a s1 of
             (Inl e, s2) \<Rightarrow> ((True, Some e), s2)
           | (Inr u, s2) \<Rightarrow> ((True, None), s2)))"

definition worker_DispatchNext :: "Worker \<Rightarrow> world \<Rightarrow> (bool \<times> goerr option \<times> Worker) \<times> world" where
  "worker_DispatchNext w s =
     (let start = wkr_nextAdapter w;
          w' = w\<lparr>wkr_nextAdapter := (wkr_nextAdapter w + 1) mod length (wkr_adapters w)\<rparr>
      in case try_adapters w' (rotate start (wkr_adapters w)) s of
           ((worked, err), s1) \<Rightarrow> ((worked, err, w'), s1))"

definition poll_maintenance :: "bool tx" where
  "poll_maintenance =
     bnd worker_RecoverNext (\<lambda>recovered.
     if recovered then ret True
     else
       bnd worker_ExpireNextQueued (\<lambda>expired.
       if expired then ret True
       else worker_ExpireNextResultObservation))"

end
