(* ===== verification/Omni_Adapter.thy ===== *)
theory Omni_Adapter
  imports Omni_Session Command_Worker Sample_World
begin

text \<open>
  The Omni provider adapter (\<open>internal/directdevice/omni/adapter.go\<close>): it prepares one kind of request, a
  status query, for the one session of the Device, and reports of a write only what it knows. The registry
  and the availability of the listeners belong to the process and change while it runs: they are functions
  of the world. The deadline and the cancellation of a dispatch are its context.
\<close>

definition NormalizeDeviceIdentity :: "gostr option \<Rightarrow> gostr \<Rightarrow> goerr + gostr" where
  "NormalizeDeviceIdentity requested profile =
     (case requested of
        None \<Rightarrow> Inl (ErrOther ''provider_device_id is required'')
      | Some text \<Rightarrow>
          (let value = TrimSpace text in
           if \<not> validIMEI value then Inl (ErrOther ''provider_device_id must be a 15-digit IMEI'')
           else Inr value))"

record omni_config =
  ocf_Configured :: bool
  ocf_Clock :: "(world \<Rightarrow> instant) option"
  ocf_Available :: "(world \<Rightarrow> bool) option"

record omni_adapter =
  oad_registry :: "(world \<Rightarrow> world Registry) option"
  oad_configured :: bool
  oad_available :: "(world \<Rightarrow> bool) option"
  oad_clock :: "world \<Rightarrow> instant"

definition NewAdapter :: "(world \<Rightarrow> world Registry) option \<Rightarrow> omni_config \<Rightarrow> omni_adapter" where
  "NewAdapter registry config =
     \<lparr>oad_registry = registry, oad_configured = ocf_Configured config, oad_available = ocf_Available config,
      oad_clock = (case ocf_Clock config of None \<Rightarrow> w_clock | Some clock \<Rightarrow> clock)\<rparr>"

definition omni_Configured :: "omni_adapter \<Rightarrow> world \<Rightarrow> bool" where
  "omni_Configured a w \<longleftrightarrow>
     oad_configured a \<and> oad_registry a \<noteq> None \<and>
     (case oad_available a of None \<Rightarrow> True | Some available \<Rightarrow> available w)"

subsection \<open>Preparing\<close>

record preparedDispatch =
  pdi_session :: "world Session"
  pdi_frame :: gostr
  pdi_summary :: gomap

text \<open>The switch over the profile and the action: what, if anything, stands against the action.\<close>

definition omni_action :: "gostr \<Rightarrow> ActionIdentifier \<Rightarrow> prepare_error option" where
  "omni_action profile action =
     (if profile = ProviderProfileOmniBikeV207 then
        (if action = ''unlock'' then Some (PrepareError PrepareMappingUnknown ''Omni bike unlock mapping is not frozen'')
         else if action = ''lock'' then
           Some (PrepareError PrepareActionUnsupported ''Omni bike does not define active lock dispatch'')
         else if action = ''query_status'' then None
         else Some (PrepareError PrepareActionUnsupported ''Omni action is unsupported''))
      else if profile = ProviderProfileOmniIoTV135 then
        (if action = ''unlock'' \<or> action = ''lock'' then
           Some (PrepareError PrepareMappingUnknown ''Omni IoT physical action mapping is not frozen'')
         else if action = ''query_status'' then None
         else Some (PrepareError PrepareActionUnsupported ''Omni action is unsupported''))
      else None)"

definition omni_summary :: "gostr \<Rightarrow> gostr \<Rightarrow> world Session \<Rightarrow> gomap" where
  "omni_summary profile frame session =
     [(''provider_profile'', JStr profile),
      (''command'', JStr (if profile = ProviderProfileOmniBikeV207 then ''S5'' else ''S6'')),
      (''frame_bytes'', JInt (int (length frame))),
      (''session_generation'', JInt (uint (ses_generation session)))]"

definition omni_Prepare :: "omni_adapter \<Rightarrow> DispatchRequest \<Rightarrow> world \<Rightarrow> prepare_error + preparedDispatch" where
  "omni_Prepare a request w =
     (if \<not> omni_Configured a w
      then Inl (PrepareError PrepareSessionUnavailable ''Omni session registry is unavailable'')
      else if \<not> validProfile (drq_ProviderProfile request) \<or>
        isl (NormalizeDeviceIdentity (Some (drq_ProviderDeviceID request)) []) \<or>
        TrimSpace (drq_ProviderRequestKey request) = []
      then Inl (PrepareError PrepareRequestInvalid ''Omni dispatch request is invalid'')
      else
        (case omni_action (drq_ProviderProfile request) (drq_Action request) of
           Some e \<Rightarrow> Inl e
         | None \<Rightarrow>
             if drq_Payload request \<noteq> [] then
               Inl (PrepareError PrepareRequestInvalid ''Omni query_status payload must be empty'')
             else
               (case LookupUnique (the (oad_registry a) w) (drq_ProviderProfile request) (drq_ProviderDeviceID request) of
                  Inl _ \<Rightarrow> Inl (PrepareError PrepareSessionUnavailable ''Omni requires one unique current session'')
                | Inr session \<Rightarrow>
                    if ses_deviceID session \<noteq> drq_DeviceID request \<or> ses_projectID session \<noteq> drq_ProjectID request then
                      Inl (PrepareError PrepareSessionUnavailable
                        ''Omni session ownership does not match the frozen Command'')
                    else
                      (case EncodeQueryStatus (drq_ProviderProfile request) (drq_ProviderDeviceID request) (oad_clock a w) of
                         Inl _ \<Rightarrow> Inl (PrepareError PrepareRequestInvalid ''Omni query_status frame cannot be encoded'')
                       | Inr frame \<Rightarrow>
                           Inr \<lparr>pdi_session = session, pdi_frame = frame,
                             pdi_summary = omni_summary (drq_ProviderProfile request) frame session\<rparr>))))"

subsection \<open>Dispatching\<close>

definition omni_response :: "WriteResult \<Rightarrow> preparedDispatch \<Rightarrow> gomap" where
  "omni_response written p =
     [(''bytes_written'', JInt (int (wrs_BytesWritten written))),
      (''frame_bytes'', JInt (int (length (pdi_frame p)))),
      (''session_generation'', JInt (uint (ses_generation (pdi_session p))))]"

definition omni_result :: "WriteResult \<Rightarrow> preparedDispatch \<Rightarrow> DispatchResult" where
  "omni_result written p =
     (if wrs_Complete written then
        \<lparr>drs_Outcome = AttemptOutcomeIndeterminate, drs_ConfirmationLevel = ConfirmationTransportSent,
         drs_EvidenceStatus = EvidenceVerified, drs_HTTPStatus = 0, drs_RequestSummary = pdi_summary p,
         drs_ResponseSummary = omni_response written p, drs_ReasonCode = ''provider_delivery_unknown'',
         drs_ErrorDetail = ''Omni frame was written completely; Device receipt and execution remain unknown''\<rparr>
      else if wrs_BytesWritten written = 0 then
        \<lparr>drs_Outcome = AttemptOutcomeTransportErrorBeforeSend, drs_ConfirmationLevel = ConfirmationNone,
         drs_EvidenceStatus = EvidenceNone, drs_HTTPStatus = 0, drs_RequestSummary = pdi_summary p,
         drs_ResponseSummary = omni_response written p, drs_ReasonCode = ''provider_transport_error'',
         drs_ErrorDetail = ''Omni write failed before sending any frame bytes''\<rparr>
      else
        \<lparr>drs_Outcome = AttemptOutcomeIndeterminate, drs_ConfirmationLevel = ConfirmationTransportSent,
         drs_EvidenceStatus = EvidenceVerified, drs_HTTPStatus = 0, drs_RequestSummary = pdi_summary p,
         drs_ResponseSummary = omni_response written p, drs_ReasonCode = ''provider_delivery_unknown'',
         drs_ErrorDetail = ''Omni delivery is unknown after writing '' @ show_int (int (wrs_BytesWritten written)) @ '' of '' @
           show_int (int (length (pdi_frame p))) @ '' frame bytes''\<rparr>)"

definition omni_Dispatch ::
  "(world \<Rightarrow> world Registry) \<Rightarrow> world gocontext \<Rightarrow> preparedDispatch \<Rightarrow> world \<Rightarrow> DispatchResult \<times> world" where
  "omni_Dispatch registry ctx p w =
     (case WriteUnique (registry w) ctx (Some (pdi_session p)) (pdi_frame p) w of
        (written, w') \<Rightarrow> (omni_result written p, w'))"

text \<open>The adapter as the worker sees it.\<close>

definition omni_provider :: "world gocontext \<Rightarrow> omni_adapter \<Rightarrow> ProviderAdapter" where
  "omni_provider ctx a =
     \<lparr>adp_Configured = omni_Configured a,
      adp_Prepare = (\<lambda>request w.
        case omni_Prepare a request w of
          Inl e \<Rightarrow> Inl e
        | Inr p \<Rightarrow> Inr \<lparr>prp_RequestSummary = pdi_summary p,
            prp_Dispatch = omni_Dispatch (the (oad_registry a)) ctx p\<rparr>)\<rparr>"

subsection \<open>What is prepared\<close>

lemma digits_plain: "list_all is_digit s \<Longrightarrow> list_all plain_char s"
  by (auto simp: list_all_iff is_digit_def plain_char_def ascii_space_def)

lemma TrimSpace_IMEI: "validIMEI imei \<Longrightarrow> TrimSpace imei = imei"
  by (simp add: validIMEI_def TrimSpace_plain digits_plain)

lemma LookupUnique_valid: "LookupUnique r profile imei = Inr s \<Longrightarrow> validProfile profile \<and> validIMEI imei"
  by (auto simp: LookupUnique_def split: if_splits)

lemma omni_action_None:
  "validProfile profile \<Longrightarrow> omni_action profile action = None \<longleftrightarrow> action = ''query_status''"
  by (auto simp: validProfile_def omni_action_def)

lemma EncodeQueryStatus_ok:
  "validProfile profile \<Longrightarrow> validIMEI imei \<Longrightarrow> \<exists>frame. EncodeQueryStatus profile imei t = Inr frame \<and> frame \<noteq> []"
  by (auto simp: EncodeQueryStatus_def downlinkPrefix_def Let_def)

lemma omni_Prepare_Inr:
  "omni_Prepare a request w = Inr p \<longleftrightarrow>
     omni_Configured a w \<and> drq_Action request = ''query_status'' \<and> drq_Payload request = [] \<and>
     TrimSpace (drq_ProviderRequestKey request) \<noteq> [] \<and>
     LookupUnique (the (oad_registry a) w) (drq_ProviderProfile request) (drq_ProviderDeviceID request) = Inr (pdi_session p) \<and>
     ses_deviceID (pdi_session p) = drq_DeviceID request \<and> ses_projectID (pdi_session p) = drq_ProjectID request \<and>
     EncodeQueryStatus (drq_ProviderProfile request) (drq_ProviderDeviceID request) (oad_clock a w) = Inr (pdi_frame p) \<and>
     pdi_summary p = omni_summary (drq_ProviderProfile request) (pdi_frame p) (pdi_session p)"
proof (cases "LookupUnique (the (oad_registry a) w) (drq_ProviderProfile request) (drq_ProviderDeviceID request)")
  case (Inl e)
  then show ?thesis by (auto simp: omni_Prepare_def split: if_splits option.splits)
next
  case (Inr s)
  note ids = LookupUnique_valid [OF Inr]
  then obtain frame where
    "EncodeQueryStatus (drq_ProviderProfile request) (drq_ProviderDeviceID request) (oad_clock a w) = Inr frame"
    using EncodeQueryStatus_ok by blast
  moreover have "NormalizeDeviceIdentity (Some (drq_ProviderDeviceID request)) [] = Inr (drq_ProviderDeviceID request)"
    using ids by (simp add: NormalizeDeviceIdentity_def TrimSpace_IMEI)
  ultimately show ?thesis
    using Inr ids omni_action_None [of "drq_ProviderProfile request" "drq_Action request"]
    by (cases "omni_action (drq_ProviderProfile request) (drq_Action request)")
      (auto simp: omni_Prepare_def split: if_splits)
qed

text \<open>
  The adapter prepares a dispatch exactly when it is configured and available, the action is
  \<open>query_status\<close> with an empty payload and a request key, and the registry holds exactly one session of the
  Device's identity, opened for the same Device and the same Project. What it prepares is then that session
  and the status query of that identity; physical actions are never prepared.
\<close>

theorem omni_Prepare_iff:
  "omni_Prepare a request w = Inr p \<longleftrightarrow>
     omni_Configured a w \<and> drq_Action request = ''query_status'' \<and> drq_Payload request = [] \<and>
     TrimSpace (drq_ProviderRequestKey request) \<noteq> [] \<and>
     LookupUnique (the (oad_registry a) w) (drq_ProviderProfile request) (drq_ProviderDeviceID request) = Inr (pdi_session p) \<and>
     ses_deviceID (pdi_session p) = drq_DeviceID request \<and> ses_projectID (pdi_session p) = drq_ProjectID request \<and>
     EncodeQueryStatus (drq_ProviderProfile request) (drq_ProviderDeviceID request) (oad_clock a w) = Inr (pdi_frame p) \<and>
     pdi_summary p = omni_summary (drq_ProviderProfile request) (pdi_frame p) (pdi_session p)"
  by (rule omni_Prepare_Inr)

subsection \<open>What is reported\<close>

lemma omni_result_simps:
  "drs_Outcome (omni_result written p) =
     (if \<not> wrs_Complete written \<and> wrs_BytesWritten written = 0 then AttemptOutcomeTransportErrorBeforeSend
      else AttemptOutcomeIndeterminate)"
  "drs_ConfirmationLevel (omni_result written p) =
     (if \<not> wrs_Complete written \<and> wrs_BytesWritten written = 0 then ConfirmationNone else ConfirmationTransportSent)"
  "resultTransition (omni_result written p) =
     (if \<not> wrs_Complete written \<and> wrs_BytesWritten written = 0
      then Some (Some ''provider_transport_error'', CommandStatusFailed)
      else Some (Some ''provider_delivery_unknown'', CommandStatusSent))"
  by (simp_all add: omni_result_def resultTransition_def)

text \<open>
  C17. The adapter never claims more than it knows. Whatever the connection does, a prepared dispatch puts a
  prefix of its frame on the wire; it reports \<open>transport_error_before_send\<close>, which fails the Command, exactly
  when that prefix is empty, and otherwise an indeterminate outcome confirmed no further than
  \<open>transport_sent\<close>, which leaves the Command sent. The worker accepts every such result.
\<close>

theorem omni_Dispatch_honest:
  assumes "omni_Prepare a request w = Inr p" and "puts_on_wire sent (ses_writer (pdi_session p))"
    and "omni_Dispatch registry ctx p w1 = (result, w2)"
  shows "\<exists>n. n \<le> length (pdi_frame p) \<and> sent w2 = sent w1 @ take n (pdi_frame p) \<and>
    resultTransition result =
      Some (if n = 0 then (Some ''provider_transport_error'', CommandStatusFailed)
            else (Some ''provider_delivery_unknown'', CommandStatusSent)) \<and>
    (drs_Outcome result, drs_ConfirmationLevel result) =
      (if n = 0 then (AttemptOutcomeTransportErrorBeforeSend, ConfirmationNone)
       else (AttemptOutcomeIndeterminate, ConfirmationTransportSent))"
proof -
  obtain written where run: "WriteUnique (registry w1) ctx (Some (pdi_session p)) (pdi_frame p) w1 = (written, w2)"
    and result: "result = omni_result written p"
    using assms(3) by (auto simp: omni_Dispatch_def split: prod.splits)
  from WriteUnique_frame [OF assms(2) run]
  have wire: "sent w2 = sent w1 @ take (wrs_BytesWritten written) (pdi_frame p)"
    "wrs_BytesWritten written \<le> length (pdi_frame p)"
    "wrs_Complete written \<longrightarrow> wrs_BytesWritten written = length (pdi_frame p) \<and> pdi_frame p \<noteq> []" by simp_all
  then show ?thesis
    by (intro exI [of _ "wrs_BytesWritten written"]) (auto simp: result omni_result_simps)
qed

subsection \<open>A Device with one session\<close>

text \<open>A connection that takes whole frames: what it is given is on the network.\<close>

definition device_writer :: "gostr \<Rightarrow> world writer" where
  "device_writer peer =
     \<lparr>wrt_Write = (\<lambda>chunk w. ((int (length chunk), None), w\<lparr>w_net := w_net w @ [(peer, chunk)]\<rparr>)),
      wrt_SetWriteDeadline = None\<rparr>"

definition sent_to :: "gostr \<Rightarrow> world \<Rightarrow> gostr" where
  "sent_to peer w = concat (map snd (filter (\<lambda>e. fst e = peer) (w_net w)))"

lemma device_writer_wire: "puts_on_wire (sent_to peer) (device_writer peer)"
  by (auto simp: puts_on_wire_def device_writer_def sent_to_def)

definition sample_imei :: gostr where "sample_imei = ''123456789012345''"

definition device_session :: "world Session" where
  "device_session =
     \<lparr>ses_ref = 0, ses_key = (ProviderProfileOmniIoTV135, sample_imei), ses_deviceID = ''d1'', ses_projectID = ''p1'',
      ses_connectionID = ''c1'', ses_generation = 1, ses_writer = device_writer ''c1''\<rparr>"

definition one_device :: "world Registry" where
  "one_device =
     \<lparr>reg_identities = [(ProviderProfileOmniIoTV135, sample_imei) \<mapsto>
        \<lparr>ids_sessions = [(1, device_session)], ids_generation = 1\<rparr>], reg_next = 1\<rparr>"

definition sample_adapter :: omni_adapter where
  "sample_adapter =
     NewAdapter (Some (\<lambda>w. one_device)) \<lparr>ocf_Configured = True, ocf_Clock = None, ocf_Available = None\<rparr>"

definition status_request :: DispatchRequest where
  "status_request =
     \<lparr>drq_ProjectID = ''p1'', drq_DeviceID = ''d1'', drq_ProviderDeviceID = sample_imei,
      drq_ProviderProfile = ProviderProfileOmniIoTV135, drq_Action = ''query_status'', drq_Payload = [],
      drq_ProviderRequestKey = ''7'', drq_AttemptRequestSummary = []\<rparr>"

definition status_bytes :: gostr where
  "status_bytes = downlinkPrefix @ ''*SCOS,OM,123456789012345,S6'' @ wireTerminator"

definition prepared_status :: preparedDispatch where
  "prepared_status =
     \<lparr>pdi_session = device_session,
      pdi_frame = status_bytes,
      pdi_summary = omni_summary ProviderProfileOmniIoTV135
        status_bytes device_session\<rparr>"

lemma one_device_registered:
  "Register NewRegistry ProviderProfileOmniIoTV135 sample_imei ''d1'' ''p1'' ''c1'' (Some (device_writer ''c1'')) =
     (Inr device_session, one_device)"
  by (simp add: Register_def Let_def sample_keys sample_imei_def registry_identity_def NewRegistry_def
      one_device_def device_session_def)

lemma sample_imei_valid: "validIMEI sample_imei"
  by (simp add: sample_imei_def sample_keys)

lemma status_frame:
  "EncodeQueryStatus ProviderProfileOmniIoTV135 sample_imei t =
     Inr status_bytes"
  by (simp add: status_bytes_def EncodeQueryStatus_def sample_keys sample_imei_def Let_def iotRequestHead_def vendorCode_def)

lemma prepared_status_run: "omni_Prepare sample_adapter status_request w = Inr prepared_status"
proof -
  have "TrimSpace ''7'' = ''7''" by code_simp
  then show ?thesis
    unfolding omni_Prepare_Inr
    by (simp add: sample_adapter_def NewAdapter_def omni_Configured_def status_request_def prepared_status_def
        status_frame LookupUnique_def one_device_def sample_imei_valid device_session_def sample_keys(1))
qed

lemma status_bytes_not_Nil: "status_bytes \<noteq> []"
  by (simp add: status_bytes_def downlinkPrefix_def)

lemma whole_frame:
  "frame \<noteq> [] \<Longrightarrow> write_loop (device_writer peer) background frame 0 w =
     (\<lparr>wrs_BytesWritten = length frame, wrs_Complete = True, wrs_Err = None\<rparr>, w\<lparr>w_net := w_net w @ [(peer, frame)]\<rparr>)"
  by (subst write_loop.simps) (simp add: background_def device_writer_def Let_def)

lemma status_dispatched:
  "\<exists>result. omni_Dispatch (\<lambda>w. one_device) background prepared_status w =
     (result, w\<lparr>w_net := w_net w @ [(''c1'', status_bytes)]\<rparr>)"
proof -
  have "WriteUnique one_device background (Some device_session) status_bytes w =
      write_loop (device_writer ''c1'') background status_bytes 0 w"
    by (simp add: WriteUnique_def device_session_def one_device_def holds_session_def write_session_def
        status_bytes_not_Nil) (simp add: background_def device_writer_def write_session_def)
  then show ?thesis by (simp add: omni_Dispatch_def prepared_status_def whole_frame status_bytes_not_Nil)
qed

theorem omni_Dispatch_honest_witness:
  "\<exists>result w2. omni_Dispatch (\<lambda>w. one_device) background prepared_status (world_at blank_db Second) = (result, w2) \<and>
     drs_Outcome result = AttemptOutcomeIndeterminate \<and> drs_ConfirmationLevel result = ConfirmationTransportSent \<and>
     sent_to ''c1'' w2 = status_bytes"
proof -
  obtain result w2 where run: "omni_Dispatch (\<lambda>w. one_device) background prepared_status (world_at blank_db Second) = (result, w2)"
    and w2: "w2 = (world_at blank_db Second)\<lparr>w_net := [(''c1'', pdi_frame prepared_status)]\<rparr>"
    using status_dispatched [of "world_at blank_db Second"] by (auto simp: prepared_status_def)
  have "puts_on_wire (sent_to ''c1'') (ses_writer (pdi_session prepared_status))"
    using device_writer_wire by (simp add: prepared_status_def device_session_def)
  from omni_Dispatch_honest [OF prepared_status_run [of "world_at blank_db Second"] this run]
  obtain n where n: "sent_to ''c1'' w2 = sent_to ''c1'' (world_at blank_db Second) @ take n (pdi_frame prepared_status)"
    "(drs_Outcome result, drs_ConfirmationLevel result) =
      (if n = 0 then (AttemptOutcomeTransportErrorBeforeSend, ConfirmationNone)
       else (AttemptOutcomeIndeterminate, ConfirmationTransportSent))" by blast
  have all: "sent_to ''c1'' w2 = pdi_frame prepared_status" by (simp add: w2 sent_to_def)
  have "n \<noteq> 0"
    using n(1) all status_bytes_not_Nil by (cases n) (simp_all add: prepared_status_def, simp add: sent_to_def)
  with n(2) all run show ?thesis by (auto simp: prepared_status_def)
qed

end
