(* ===== verification/Omni_Listener.thy ===== *)
theory Omni_Listener
  imports Omni_Inbound Omni_Adapter
begin

text \<open>
  The TCP listeners and their connections (\<open>internal/directdevice/omni/listener.go\<close>). A connection is what
  \<open>handleConnection\<close> keeps in its local variables: the decoder, whether the next frame is the first, the bound
  Device and the registered session. Connections run concurrently; a step is one read of a connection, one
  frame of it (its \<open>process\<close>), its end, or anything another part of the system does to the world. A socket is
  a number, and \<open>wire\<close> gives the writer of a socket, which is what a session writes to.
\<close>

datatype listener_error = ErrListenerAccept | ErrConnectionLimit | ErrInboundRecord | ErrConnectionIdentity | ErrConnectionIdentifier

abbreviation (input) defaultMaxFrameBytes :: int where "defaultMaxFrameBytes \<equiv> 4096"
abbreviation (input) defaultMaxConnections :: int where "defaultMaxConnections \<equiv> 256"
abbreviation (input) defaultReadTimeout :: duration where "defaultReadTimeout \<equiv> 5 * Minute"

record ListenerConfig =
  lcf_Profile :: gostr
  lcf_Address :: gostr
  lcf_MaxFrameBytes :: int
  lcf_MaxConnections :: int
  lcf_ReadTimeout :: duration

record TCPListener =
  lsn_profile :: gostr
  lsn_maxFrameBytes :: int
  lsn_maxConnections :: int
  lsn_readTimeout :: duration

definition NewTCPListener :: "ListenerConfig \<Rightarrow> TCPListener option" where
  "NewTCPListener config =
     (let frame = (if lcf_MaxFrameBytes config = 0 then defaultMaxFrameBytes else lcf_MaxFrameBytes config);
          connections = (if lcf_MaxConnections config = 0 then defaultMaxConnections else lcf_MaxConnections config);
          timeout = (if lcf_ReadTimeout config = 0 then defaultReadTimeout else lcf_ReadTimeout config)
      in
      if \<not> validProfile (lcf_Profile config) then None
      else if frame < 64 \<or> connections < 1 \<or> timeout \<le> 0 then None
      else Some \<lparr>lsn_profile = lcf_Profile config, lsn_maxFrameBytes = frame, lsn_maxConnections = connections,
             lsn_readTimeout = timeout\<rparr>)"

text \<open>\<open>opens\<close> tells whether \<open>net.Listen\<close> opens an address.\<close>

definition OpenTCPListener :: "(gostr \<Rightarrow> bool) \<Rightarrow> ListenerConfig \<Rightarrow> TCPListener option" where
  "OpenTCPListener opens config =
     (if \<not> validProfile (lcf_Profile config) \<or> TrimSpace (lcf_Address config) = [] then None
      else if \<not> opens (lcf_Address config) then None
      else NewTCPListener config)"

subsection \<open>A connection\<close>

record connection =
  cn_profile :: gostr
  cn_id :: gostr
  cn_decoder :: Decoder
  cn_firstFrame :: bool
  cn_boundDevice :: "Device option"
  cn_session :: "world Session option"
  cn_pending :: "DecodedFrame list"
  cn_ended :: bool

record host =
  hst_world :: world
  hst_registry :: "world Registry"
  hst_connections :: "(nat \<times> connection) list"
  hst_reports :: "listener_error list"

definition report :: "listener_error \<Rightarrow> host \<Rightarrow> host" where
  "report e h = h\<lparr>hst_reports := hst_reports h @ [e]\<rparr>"

definition put_connection :: "nat \<Rightarrow> connection \<Rightarrow> host \<Rightarrow> host" where
  "put_connection i c h = h\<lparr>hst_connections := AList.update i c (hst_connections h)\<rparr>"

text \<open>The deferred calls of \<open>handleConnection\<close>: the session leaves the registry and the connection is closed.\<close>

definition close_connection :: "nat \<Rightarrow> connection \<Rightarrow> host \<Rightarrow> host" where
  "close_connection i c h =
     h\<lparr>hst_registry := Unregister (hst_registry h) (cn_session c),
       hst_connections := AList.delete i (hst_connections h)\<rparr>"

text \<open>
  \<open>Run\<close>'s treatment of an accepted socket and the beginning of \<open>handleConnection\<close>: the limit of open
  connections of the listener, the connection's identifier, and the decoder.
\<close>

definition accept_connection :: "TCPListener \<Rightarrow> nat \<Rightarrow> host \<Rightarrow> host" where
  "accept_connection l i h =
     (if lsn_maxConnections l \<le> int (length (filter (\<lambda>e. cn_profile (snd e) = lsn_profile l) (hst_connections h)))
      then report ErrConnectionLimit h
      else
        (case randomUUID (hst_world h) of
           (Inl e, w) \<Rightarrow> report ErrConnectionIdentifier (h\<lparr>hst_world := w\<rparr>)
         | (Inr connectionID, w) \<Rightarrow>
             (case NewDecoder (lsn_profile l) (lsn_maxFrameBytes l) of
                Inl e \<Rightarrow> h\<lparr>hst_world := w\<rparr>
              | Inr d \<Rightarrow>
                  put_connection i
                    \<lparr>cn_profile = lsn_profile l, cn_id = connectionID, cn_decoder = d, cn_firstFrame = True,
                     cn_boundDevice = None, cn_session = None, cn_pending = [], cn_ended = False\<rparr>
                    (h\<lparr>hst_world := w\<rparr>))))"

text \<open>What \<open>Read\<close> returned: bytes, and no error, the end of the stream, or another error.\<close>

datatype read_error = NoError | EOF | OtherError

definition read_connection :: "nat \<Rightarrow> connection \<Rightarrow> gostr \<Rightarrow> read_error \<Rightarrow> host \<Rightarrow> host" where
  "read_connection i c chunk err h =
     (let (frames, d) = (if chunk = [] then ([], cn_decoder c) else Feed (cn_decoder c) chunk);
          (rest, d') = (if err = EOF then Close d else ([], d))
      in put_connection i (c\<lparr>cn_decoder := d', cn_pending := frames @ rest, cn_ended := (err \<noteq> NoError)\<rparr>) h)"

definition frame_request :: "connection \<Rightarrow> DecodedFrame \<Rightarrow> InboundRecordRequest" where
  "frame_request c decoded =
     \<lparr>ibq_Profile = cn_profile c, ibq_ConnectionID = cn_id c, ibq_FirstFrame = cn_firstFrame c,
      ibq_ExpectedDeviceID = (case cn_boundDevice c of None \<Rightarrow> [] | Some d \<Rightarrow> dev_ID d), ibq_Decoded = decoded\<rparr>"

text \<open>\<open>process\<close>: whether the connection goes on, the connection and the host afterwards.\<close>

definition process_frame ::
  "(nat \<Rightarrow> world writer) \<Rightarrow> nat \<Rightarrow> connection \<Rightarrow> DecodedFrame \<Rightarrow> host \<Rightarrow> bool \<times> connection \<times> host" where
  "process_frame wire i c decoded h =
     (case inbound_Record (frame_request c decoded) (hst_world h) of
        (Inl e, w) \<Rightarrow> (False, c, report ErrInboundRecord (h\<lparr>hst_world := w\<rparr>))
      | (Inr result, w) \<Rightarrow>
          (let h1 = h\<lparr>hst_world := w\<rparr> in
           case ibr_Device result of
             None \<Rightarrow> (False, c, report ErrConnectionIdentity h1)
           | Some device \<Rightarrow>
               if \<not> ibr_Accepted result then (False, c, report ErrConnectionIdentity h1)
               else if cn_firstFrame c then
                 (case Register (hst_registry h1) (cn_profile c) (dev_ProviderDeviceID device) (dev_ID device)
                    (dev_ProjectID device) (cn_id c) (Some (wire i)) of
                    (Inl e, r) \<Rightarrow> (False, c, report ErrConnectionIdentity (h1\<lparr>hst_registry := r\<rparr>))
                  | (Inr session, r) \<Rightarrow>
                      (True, c\<lparr>cn_session := Some session, cn_boundDevice := Some device, cn_firstFrame := False\<rparr>,
                       h1\<lparr>hst_registry := r\<rparr>))
               else (True, c, h1)))"

definition step_frame :: "(nat \<Rightarrow> world writer) \<Rightarrow> nat \<Rightarrow> connection \<Rightarrow> DecodedFrame \<Rightarrow> DecodedFrame list \<Rightarrow> host \<Rightarrow> host" where
  "step_frame wire i c decoded rest h =
     (case process_frame wire i c decoded h of
        (True, c', h') \<Rightarrow> put_connection i (c'\<lparr>cn_pending := rest\<rparr>) h'
      | (False, c', h') \<Rightarrow> close_connection i c' h')"

inductive host_step :: "TCPListener list \<Rightarrow> (nat \<Rightarrow> world writer) \<Rightarrow> host \<Rightarrow> host \<Rightarrow> bool" for listeners wire where
  accept: "l \<in> set listeners \<Longrightarrow> i \<notin> fst ` set (hst_connections h) \<Longrightarrow> host_step listeners wire h (accept_connection l i h)"
| read: "map_of (hst_connections h) i = Some c \<Longrightarrow> cn_pending c = [] \<Longrightarrow> \<not> cn_ended c \<Longrightarrow>
    host_step listeners wire h (read_connection i c chunk err h)"
| frame: "map_of (hst_connections h) i = Some c \<Longrightarrow> cn_pending c = decoded # rest \<Longrightarrow>
    host_step listeners wire h (step_frame wire i c decoded rest h)"
| ended: "map_of (hst_connections h) i = Some c \<Longrightarrow> cn_pending c = [] \<Longrightarrow>
    host_step listeners wire h (close_connection i c h)"
| elsewhere: "host_step listeners wire h (h\<lparr>hst_world := w\<rparr>)"

abbreviation host_run :: "TCPListener list \<Rightarrow> (nat \<Rightarrow> world writer) \<Rightarrow> host \<Rightarrow> host \<Rightarrow> bool" where
  "host_run listeners wire \<equiv> (host_step listeners wire)\<^sup>*\<^sup>*"

definition idle_host :: "world \<Rightarrow> host" where
  "idle_host w = \<lparr>hst_world = w, hst_registry = NewRegistry, hst_connections = [], hst_reports = []\<rparr>"

subsection \<open>Invariant\<close>

text \<open>What a connection holds: nothing before its handshake is accepted, afterwards its Device and its session.\<close>

definition bound_ok :: "(nat \<Rightarrow> world writer) \<Rightarrow> nat \<Rightarrow> connection \<Rightarrow> bool" where
  "bound_ok wire i c \<longleftrightarrow>
     (case cn_session c of
        None \<Rightarrow> cn_firstFrame c \<and> cn_boundDevice c = None
      | Some s \<Rightarrow> \<not> cn_firstFrame c \<and> (\<exists>d. cn_boundDevice c = Some d \<and>
          omni_binding (cn_profile c) (dev_ProviderDeviceID d) d \<and> ses_key s = (cn_profile c, dev_ProviderDeviceID d) \<and>
          ses_deviceID s = dev_ID d \<and> ses_projectID s = dev_ProjectID d \<and> ses_connectionID s = cn_id c \<and>
          ses_writer s = wire i))"

definition held :: "(nat \<times> connection) list \<Rightarrow> (nat \<times> world Session) set" where
  "held cs = {(i, s). \<exists>c. map_of cs i = Some c \<and> cn_session c = Some s}"

definition generations_ok :: "'s Registry \<Rightarrow> bool" where
  "generations_ok r \<longleftrightarrow> (\<forall>key. unat (ids_generation (registry_identity r key)) \<le> reg_next r)"

definition host_ok :: "(nat \<Rightarrow> world writer) \<Rightarrow> host \<Rightarrow> bool" where
  "host_ok wire h \<longleftrightarrow>
     registry_ok (hst_registry h) \<and> generations_ok (hst_registry h) \<and>
     (\<forall>i c. map_of (hst_connections h) i = Some c \<longrightarrow> bound_ok wire i c) \<and>
     snd ` held (hst_connections h) = live (hst_registry h) \<and> inj_on snd (held (hst_connections h))"

lemma held_update:
  "held (AList.update i c cs) = {p \<in> held cs. fst p \<noteq> i} \<union> (case cn_session c of None \<Rightarrow> {} | Some s \<Rightarrow> {(i, s)})"
  by (auto simp: held_def update_conv' split: option.splits if_splits)

lemma held_delete: "held (AList.delete i cs) = {p \<in> held cs. fst p \<noteq> i}"
  by (auto simp: held_def delete_conv' split: if_splits)

lemma held_fst: "(i, s) \<in> held cs \<Longrightarrow> map_of cs i = Some c \<Longrightarrow> cn_session c = Some s"
  by (simp add: held_def)

lemma generations_room: "generations_ok r \<Longrightarrow> Suc (reg_next r) < 2 ^ 64 \<Longrightarrow> room_for r key"
proof -
  assume "generations_ok r" "Suc (reg_next r) < 2 ^ 64"
  then have "unat (ids_generation (registry_identity r key)) < 2 ^ 64 - 1"
    unfolding generations_ok_def by (metis Suc_lessE diff_Suc_1 le_less_trans lessI not_less_eq)
  moreover have "unat (- 1 :: 64 word) = 2 ^ 64 - 1" by (simp add: unsigned_minus_1_eq_mask mask_eq_exp_minus_1)
  ultimately show "room_for r key" by (auto simp: room_for_def)
qed

lemma Register_generations:
  assumes "generations_ok r" and "Register r profile imei dv pj cn out = (Inr s, r')"
  shows "generations_ok r'" and "reg_next r' = Suc (reg_next r)"
proof -
  from assms(2) obtain w where r': "r' = r\<lparr>reg_identities := (reg_identities r)((profile, imei) \<mapsto>
        \<lparr>ids_sessions = AList.update (ses_generation s) s (ids_sessions (registry_identity r (profile, imei))),
          ids_generation = ses_generation s\<rparr>), reg_next := Suc (reg_next r)\<rparr>"
    and s: "ses_generation s = ids_generation (registry_identity r (profile, imei)) + 1"
    by (rule Register_unfold) simp
  have "unat (ses_generation s) = (unat (ids_generation (registry_identity r (profile, imei))) + 1) mod 2 ^ 64"
    by (simp add: s unat_word_ariths)
  then have "unat (ses_generation s) \<le> Suc (unat (ids_generation (registry_identity r (profile, imei))))"
    using mod_less_eq_dividend by (metis Suc_eq_plus1)
  with assms(1) have new: "unat (ses_generation s) \<le> Suc (reg_next r)"
    unfolding generations_ok_def by (meson Suc_le_mono le_trans)
  show "reg_next r' = Suc (reg_next r)" by (simp add: r')
  show "generations_ok r'"
    unfolding generations_ok_def
  proof
    fix key
    have "unat (ids_generation (registry_identity r key)) \<le> Suc (reg_next r)"
      using assms(1) unfolding generations_ok_def by (metis le_SucI)
    with new show "unat (ids_generation (registry_identity r' key)) \<le> reg_next r'"
      by (cases "key = (profile, imei)") (simp_all add: r' registry_identity_def)
  qed
qed

lemma Unregister_next: "reg_next (Unregister r s) = reg_next r"
  by (auto simp: Unregister_def split: option.splits)

lemma Unregister_generations: "generations_ok r \<Longrightarrow> generations_ok (Unregister r s)"
  unfolding generations_ok_def Unregister_next
  by (auto simp: Unregister_def registry_identity_def split: option.splits) (metis option.simps(5))+

lemma host_ok_world [simp]:
  "host_ok wire (h\<lparr>hst_world := w\<rparr>) = host_ok wire h" "host_ok wire (report e h) = host_ok wire h"
  by (simp_all add: host_ok_def report_def)

lemma host_ok_bound: "host_ok wire h \<Longrightarrow> map_of (hst_connections h) i = Some c \<Longrightarrow> bound_ok wire i c"
  by (simp add: host_ok_def)

lemma bound_ok_cong:
  "cn_session c' = cn_session c \<Longrightarrow> cn_firstFrame c' = cn_firstFrame c \<Longrightarrow> cn_boundDevice c' = cn_boundDevice c \<Longrightarrow>
   cn_profile c' = cn_profile c \<Longrightarrow> cn_id c' = cn_id c \<Longrightarrow> bound_ok wire i c' = bound_ok wire i c"
  by (cases "cn_session c") (simp_all add: bound_ok_def)

lemma held_session: "map_of cs i = Some c \<Longrightarrow> cn_session c = Some s \<Longrightarrow> (i, s) \<in> held cs"
  by (simp add: held_def)

lemma host_ok_D:
  assumes "host_ok wire h"
  shows "registry_ok (hst_registry h)" "generations_ok (hst_registry h)"
    "snd ` held (hst_connections h) = live (hst_registry h)" "inj_on snd (held (hst_connections h))"
  using assms by (simp_all add: host_ok_def)

lemma put_connection_ok:
  assumes "host_ok wire h" and "registry_ok (hst_registry h')" and "generations_ok (hst_registry h')" and "bound_ok wire i c"
    and "hst_connections h' = hst_connections h" and "held (AList.update i c (hst_connections h)) = H"
    and "snd ` H = live (hst_registry h')" and "inj_on snd H"
  shows "host_ok wire (put_connection i c h')"
proof -
  have "bound_ok wire j x" if "map_of (AList.update i c (hst_connections h)) j = Some x" for j x
    using that assms(4) host_ok_bound [OF assms(1)] by (auto simp: update_conv' split: if_splits)
  with assms show ?thesis by (simp add: host_ok_def put_connection_def)
qed

lemma held_no_session: "map_of cs i = Some c \<Longrightarrow> cn_session c = None \<Longrightarrow> (i, s) \<notin> held cs"
  by (simp add: held_def)

lemma close_connection_ok:
  assumes ok: "host_ok wire h" and c: "map_of (hst_connections h) i = Some c"
  shows "host_ok wire (close_connection i c h)"
proof -
  let ?cs = "hst_connections h"
  have inj: "inj_on snd (held (AList.delete i ?cs))"
    using ok unfolding host_ok_def held_delete by (auto intro: inj_on_subset)
  have others: "\<And>j x. map_of (AList.delete i ?cs) j = Some x \<Longrightarrow> bound_ok wire j x"
    using ok by (auto simp: host_ok_def delete_conv' split: if_splits)
  show ?thesis
  proof (cases "cn_session c")
    case None
    then have "held (AList.delete i ?cs) = held ?cs" using held_no_session [OF c] by (auto simp: held_delete)
    with host_ok_D [OF ok] others None show ?thesis
      unfolding host_ok_def close_connection_def by (simp add: Unregister_def)
  next
    case (Some s)
    then have here: "(i, s) \<in> held ?cs" using c by (simp add: held_def)
    then have "s \<in> live (hst_registry h)" using ok by (force simp: host_ok_def)
    with ok have un: "registry_ok (Unregister (hst_registry h) (Some s))"
      "live (Unregister (hst_registry h) (Some s)) = live (hst_registry h) - {s}"
      by (simp_all add: host_ok_def Unregister_live)
    have only: "j = i" if "(j, s) \<in> held ?cs" for j
      using inj_onD [OF host_ok_D(4) [OF ok] _ that here] by simp
    have "snd ` held (AList.delete i ?cs) = snd ` held ?cs - {s}"
    proof
      show "snd ` held (AList.delete i ?cs) \<subseteq> snd ` held ?cs - {s}"
        using only by (auto simp: held_delete)
      show "snd ` held ?cs - {s} \<subseteq> snd ` held (AList.delete i ?cs)"
        using held_fst [OF _ c] Some by (force simp: held_delete)
    qed
    with un others inj Some host_ok_D [OF ok] show ?thesis
      unfolding host_ok_def close_connection_def by (simp add: Unregister_generations)
  qed
qed

lemma put_new_ok:
  assumes ok: "host_ok wire h" and i: "i \<notin> fst ` set (hst_connections h)"
    and c: "cn_session c = None" "cn_firstFrame c" "cn_boundDevice c = None"
  shows "host_ok wire (put_connection i c (h\<lparr>hst_world := w\<rparr>))"
proof -
  have "\<And>x. (i, x) \<notin> held (hst_connections h)"
    using i by (auto simp: held_def dest: map_of_SomeD intro: rev_image_eqI)
  then have "held (AList.update i c (hst_connections h)) = held (hst_connections h)" using c by (auto simp: held_update)
  moreover have "bound_ok wire i c" using c by (simp add: bound_ok_def)
  ultimately show ?thesis using host_ok_D [OF ok]
    by (intro put_connection_ok [OF ok, where H = "held (hst_connections h)"]) simp_all
qed

lemma put_same_session_ok:
  assumes ok: "host_ok wire h" and c: "map_of (hst_connections h) i = Some c"
    and same: "cn_session c' = cn_session c" "cn_firstFrame c' = cn_firstFrame c" "cn_boundDevice c' = cn_boundDevice c"
      "cn_profile c' = cn_profile c" "cn_id c' = cn_id c"
  shows "host_ok wire (put_connection i c' h)"
proof -
  have "bound_ok wire i c'" using host_ok_bound [OF ok c] bound_ok_cong [OF same] by simp
  moreover have "held (AList.update i c' (hst_connections h)) = held (hst_connections h)"
  proof (cases "cn_session c")
    case None
    with held_no_session [OF c None] same(1) show ?thesis by (auto simp: held_update)
  next
    case (Some x)
    have "p \<in> held (AList.update i c' (hst_connections h)) \<longleftrightarrow> p \<in> held (hst_connections h)" for p
    proof (cases "fst p = i")
      case True
      then obtain y where p: "p = (i, y)" by (cases p) auto
      have "p \<in> held (hst_connections h) \<longleftrightarrow> y = x"
        using held_fst [of i y "hst_connections h", OF _ c] held_session [OF c Some] Some p by (cases "y = x") auto
      then show ?thesis using Some same(1) p by (simp add: held_update)
    next
      case False
      then show ?thesis using Some same(1) by (cases p) (simp add: held_update)
    qed
    then show ?thesis by blast
  qed
  ultimately show ?thesis
    using put_connection_ok [OF ok host_ok_D(1,2) [OF ok] _ refl _ host_ok_D(3,4) [OF ok]] by blast
qed

lemma inbound_binding:
  assumes "inbound_Record request w = (Inr result, w')" and "ibr_Device result = Some d"
  shows "omni_binding (ibq_Profile request) (dev_ProviderDeviceID d) d"
proof -
  from assms(1) obtain code w1 w2 where res: "resolveInboundDevice request w1 = (Inr (ibr_Device result, code), w2)"
    by (auto simp: inbound_Record_def inbound_body_def newIDs_def Let_def run_simps split: if_splits prod.splits)
  have judged: "omni_binding (ibq_Profile request) (dev_ProviderDeviceID d) d"
    if "judgeInboundDevice request x = (Some d, c)" for x c
    using that by (auto simp: judgeInboundDevice_def Let_def omni_binding_def split: if_splits)
  show ?thesis
    using res assms(2)
    by (auto simp: resolveInboundDevice_def Let_def ret_run on_row_run split: if_splits intro: judged dest: sym)
qed

lemma step_frame_ok:
  assumes ok: "host_ok wire h" and c: "map_of (hst_connections h) i = Some c"
    and few: "reg_next (hst_registry (step_frame wire i c decoded rest h)) < 2 ^ 64"
  shows "host_ok wire (step_frame wire i c decoded rest h)"
proof -
  obtain b c' h' where run: "process_frame wire i c decoded h = (b, c', h')" by (metis prod_cases3)
  obtain r w where rec: "inbound_Record (frame_request c decoded) (hst_world h) = (r, w)" by fastforce
  show ?thesis
  proof (cases b)
    case False
    have "c' = c \<and> hst_connections h' = hst_connections h \<and> hst_registry h' = hst_registry h"
      using run rec False
      by (auto simp: process_frame_def Let_def report_def split: sum.splits option.splits if_splits prod.splits dest: Register_error)
    moreover from this ok have "host_ok wire h'" by (simp add: host_ok_def)
    ultimately show ?thesis using False run c by (simp add: step_frame_def close_connection_ok)
  next
    case True
    then obtain result d where result: "r = Inr result" "ibr_Device result = Some d"
      using run rec by (auto simp: process_frame_def Let_def split: sum.splits option.splits if_splits)
    note bind = inbound_binding [OF rec [unfolded result(1)] result(2)]
    show ?thesis
    proof (cases "cn_firstFrame c")
      case False
      then have "c' = c" "h' = h\<lparr>hst_world := w\<rparr>"
        using run rec True result by (auto simp: process_frame_def Let_def split: if_splits)
      moreover have "host_ok wire (put_connection i (c\<lparr>cn_pending := rest\<rparr>) (h\<lparr>hst_world := w\<rparr>))"
        by (rule put_same_session_ok) (use ok c in simp_all)
      ultimately show ?thesis using True run by (simp add: step_frame_def)
    next
      case first: True
      obtain s reg where reg: "Register (hst_registry h) (cn_profile c) (dev_ProviderDeviceID d) (dev_ID d) (dev_ProjectID d)
          (cn_id c) (Some (wire i)) = (Inr s, reg)"
        and c': "c' = c\<lparr>cn_session := Some s, cn_boundDevice := Some d, cn_firstFrame := False\<rparr>"
        and h': "h' = h\<lparr>hst_world := w, hst_registry := reg\<rparr>"
        using run rec True result first
        by (auto simp: process_frame_def Let_def split: if_splits sum.splits prod.splits)
      have s: "ses_key s = (cn_profile c, dev_ProviderDeviceID d)" "ses_deviceID s = dev_ID d"
        "ses_projectID s = dev_ProjectID d" "ses_connectionID s = cn_id c" "ses_writer s = wire i"
        using reg by (rule Register_unfold, simp)+
      have gen: "generations_ok (hst_registry h)" "registry_ok (hst_registry h)" using ok by (simp_all add: host_ok_def)
      note reg' = Register_generations [OF gen(1) reg]
      have "room_for (hst_registry h) (cn_profile c, dev_ProviderDeviceID d)"
        using few True run by (intro generations_room [OF gen(1)]) (simp add: step_frame_def h' put_connection_def reg')
      note live = Register_live [OF gen(2) reg this]
      have "cn_session c = None"
        using host_ok_bound [OF ok c] first by (auto simp: bound_ok_def split: option.splits)
      then have none: "\<And>x. (i, x) \<notin> held (hst_connections h)" using c by (simp add: held_def)
      let ?c = "c'\<lparr>cn_pending := rest\<rparr>"
      have held: "held (AList.update i ?c (hst_connections h)) = insert (i, s) (held (hst_connections h))"
        using none by (auto simp: held_update c')
      have new: "s \<notin> snd ` held (hst_connections h)" using live(3) ok by (simp add: host_ok_def)
      have "bound_ok wire i ?c" using s bind by (simp add: bound_ok_def c' frame_request_def)
      moreover have "snd ` insert (i, s) (held (hst_connections h)) = live reg" "inj_on snd (insert (i, s) (held (hst_connections h)))"
        using ok live(2) new by (auto simp: host_ok_def)
      ultimately have "host_ok wire (put_connection i ?c h')"
        by (intro put_connection_ok [OF ok _ _ _ _ held]) (use live(1) reg'(1) in \<open>simp_all add: h'\<close>)
      then show ?thesis using True run by (simp add: step_frame_def)
    qed
  qed
qed

lemma host_step_ok:
  assumes "host_step listeners wire h h'" and "host_ok wire h" and "reg_next (hst_registry h') < 2 ^ 64"
  shows "host_ok wire h'"
  using assms
proof cases
  case (accept l i)
  then show ?thesis
    using assms(2) put_new_ok [OF assms(2) accept(3)]
    by (auto simp: accept_connection_def split: if_splits sum.splits prod.splits)
next
  case (read i c chunk err)
  then show ?thesis
    using assms(2) by (auto simp: read_connection_def split: prod.splits intro!: put_same_session_ok)
next
  case (frame i c decoded rest)
  then show ?thesis using assms(2,3) step_frame_ok by simp
next
  case (ended i c)
  then show ?thesis using assms(2) close_connection_ok by simp
next
  case (elsewhere w)
  then show ?thesis using assms(2) by simp
qed

lemma idle_host_ok: "host_ok wire (idle_host w)"
  by (simp add: host_ok_def idle_host_def NewRegistry_ok held_def)
    (simp add: generations_ok_def registry_identity_def NewRegistry_def)

lemma step_next: "host_step listeners wire h h' \<Longrightarrow> reg_next (hst_registry h) \<le> reg_next (hst_registry h')"
proof (induction rule: host_step.induct)
  case (accept l i h)
  then show ?case
    by (auto simp: accept_connection_def report_def put_connection_def split: sum.splits prod.splits)
next
  case (read h i c chunk err)
  then show ?case by (auto simp: read_connection_def put_connection_def split: prod.splits)
next
  case (frame h i c decoded rest)
  have "reg_next (hst_registry h) \<le> reg_next (hst_registry h')" if "process_frame wire i c decoded h = (b, c', h')" for b c' h'
    using that
    by (auto simp: process_frame_def Let_def report_def split: sum.splits option.splits if_splits prod.splits
        dest: Register_error elim!: Register_unfold)
  then show ?case
    by (auto simp: step_frame_def close_connection_def put_connection_def Unregister_next split: prod.splits bool.splits)
next
  case (ended h i c)
  then show ?case by (simp add: close_connection_def Unregister_next)
qed simp

lemma host_run_ok:
  assumes "host_run listeners wire h h'" and "host_ok wire h" and "reg_next (hst_registry h') < 2 ^ 64"
  shows "host_ok wire h'"
  using assms
proof (induction rule: rtranclp_induct)
  case (step y z)
  then have "reg_next (hst_registry y) < 2 ^ 64" using step_next le_less_trans by blast
  with step host_step_ok show ?case by blast
qed

text \<open>
  C16. The registry mirrors the open connections. Whatever the Devices send and however connections come and
  go, up to 2 ^ 64 registrations, the live sessions are exactly those of the open connections whose handshake
  was accepted: none outlives its connection, no two connections share one, and each carries the identity, the
  Device and the Project it was accepted for and writes to its own socket.
\<close>

theorem registry_mirrors_connections:
  assumes "host_run listeners wire (idle_host w) h" and "reg_next (hst_registry h) < 2 ^ 64"
  shows "live (hst_registry h) = {s. \<exists>i c. map_of (hst_connections h) i = Some c \<and> cn_session c = Some s} \<and>
    (\<forall>i j c c' s. map_of (hst_connections h) i = Some c \<and> cn_session c = Some s \<and>
        map_of (hst_connections h) j = Some c' \<and> cn_session c' = Some s \<longrightarrow> i = j) \<and>
    (\<forall>i c. map_of (hst_connections h) i = Some c \<longrightarrow> bound_ok wire i c)"
proof -
  note ok = host_run_ok [OF assms(1) idle_host_ok assms(2)]
  have "snd ` held (hst_connections h) = {s. \<exists>i c. map_of (hst_connections h) i = Some c \<and> cn_session c = Some s}"
    unfolding held_def by (auto simp: image_iff) blast+
  moreover have "i = j" if "map_of (hst_connections h) i = Some c" "cn_session c = Some s"
    "map_of (hst_connections h) j = Some c'" "cn_session c' = Some s" for i j c c' s
    using inj_onD [OF host_ok_D(4) [OF ok], of "(i, s)" "(j, s)"] held_session [OF that(1,2)] held_session [OF that(3,4)] by simp
  ultimately show ?thesis using host_ok_D(3) [OF ok] host_ok_bound [OF ok] by (intro conjI allI impI) metis+
qed

lemma session_connection:
  assumes ok: "host_ok wire h" and look: "LookupUnique (hst_registry h) profile imei = Inr s"
  obtains i c d where "map_of (hst_connections h) i = Some c" "cn_session c = Some s" "cn_boundDevice c = Some d"
    "omni_binding profile imei d" "ses_deviceID s = dev_ID d" "ses_projectID s = dev_ProjectID d" "ses_writer s = wire i"
    "\<And>j c' d'. map_of (hst_connections h) j = Some c' \<Longrightarrow> cn_boundDevice c' = Some d' \<Longrightarrow>
       cn_profile c' = profile \<Longrightarrow> dev_ProviderDeviceID d' = imei \<Longrightarrow> j = i"
proof -
  have only: "{x \<in> live (hst_registry h). ses_key x = (profile, imei)} = {s}"
    using LookupUnique_live [OF host_ok_D(1) [OF ok]] LookupUnique_valid [OF look] look by blast
  then obtain i c where c: "map_of (hst_connections h) i = Some c" "cn_session c = Some s" and key: "ses_key s = (profile, imei)"
    using host_ok_D(3) [OF ok] by (auto simp: held_def image_iff) force
  obtain d where d: "cn_boundDevice c = Some d" "omni_binding profile imei d" "ses_deviceID s = dev_ID d"
      "ses_projectID s = dev_ProjectID d" "ses_writer s = wire i"
    using host_ok_bound [OF ok c(1)] c(2) key by (auto simp: bound_ok_def)
  have "j = i" if c': "map_of (hst_connections h) j = Some c'" "cn_boundDevice c' = Some d'" "cn_profile c' = profile"
    "dev_ProviderDeviceID d' = imei" for j c' d'
  proof -
    obtain s' where s': "cn_session c' = Some s'" "ses_key s' = (profile, imei)"
      using host_ok_bound [OF ok c'(1)] c' by (auto simp: bound_ok_def split: option.splits)
    then have "s' \<in> live (hst_registry h)" using host_ok_D(3) [OF ok] held_session [OF c'(1)] by force
    with only s' have "s' = s" by blast
    then show "j = i"
      using inj_onD [OF host_ok_D(4) [OF ok], of "(j, s)" "(i, s)"] held_session [OF c'(1)] held_session [OF c(1)] s' c(2) by simp
  qed
  with that c d show thesis by blast
qed

text \<open>
  C15. A query reaches the Device it is for. In every reachable state, a dispatch the adapter prepares writes to
  the socket of an open connection that the recorder accepted for the Command's Device, in the Command's Project
  and with the provider identity that is frozen in the Command, and no other open connection is bound to it.
\<close>

theorem dispatch_reaches_its_device:
  assumes "host_run listeners wire (idle_host w) h" and "reg_next (hst_registry h) < 2 ^ 64"
    and "omni_Prepare a request v = Inr p" and "the (oad_registry a) v = hst_registry h"
  shows "\<exists>i c d. map_of (hst_connections h) i = Some c \<and> cn_boundDevice c = Some d \<and> ses_writer (pdi_session p) = wire i \<and>
    dev_ID d = drq_DeviceID request \<and> dev_ProjectID d = drq_ProjectID request \<and>
    omni_binding (drq_ProviderProfile request) (drq_ProviderDeviceID request) d \<and>
    (\<forall>j c' d'. map_of (hst_connections h) j = Some c' \<and> cn_boundDevice c' = Some d' \<and>
       cn_profile c' = drq_ProviderProfile request \<and> dev_ProviderDeviceID d' = drq_ProviderDeviceID request \<longrightarrow> j = i)"
proof -
  note ok = host_run_ok [OF assms(1) idle_host_ok assms(2)]
  from assms(3,4) have look: "LookupUnique (hst_registry h) (drq_ProviderProfile request) (drq_ProviderDeviceID request) =
      Inr (pdi_session p)" "ses_deviceID (pdi_session p) = drq_DeviceID request"
      "ses_projectID (pdi_session p) = drq_ProjectID request"
    by (simp_all add: omni_Prepare_Inr)
  show ?thesis by (rule session_connection [OF ok look(1)]) (use look(2,3) in metis)
qed

subsection \<open>The limit of connections\<close>

definition open_connections :: "gostr \<Rightarrow> host \<Rightarrow> int" where
  "open_connections profile h = int (length (filter (\<lambda>e. cn_profile (snd e) = profile) (hst_connections h)))"

lemma count_update:
  "map_of cs i = Some c \<Longrightarrow> cn_profile c' = cn_profile c \<Longrightarrow>
   length (filter (\<lambda>e. cn_profile (snd e) = p) (AList.update i c' cs)) = length (filter (\<lambda>e. cn_profile (snd e) = p) cs)"
  by (induction cs) (auto split: if_splits)

lemma count_delete:
  "length (filter (\<lambda>e. cn_profile (snd e) = p) (AList.delete i cs)) \<le> length (filter (\<lambda>e. cn_profile (snd e) = p) cs)"
  by (induction cs) auto

lemma count_new:
  "i \<notin> fst ` set cs \<Longrightarrow> AList.update i c cs = cs @ [(i, c)]"
  by (rule AList_update_new)

lemma process_frame_keeps:
  "process_frame wire i c decoded h = (b, c', h') \<Longrightarrow> hst_connections h' = hst_connections h \<and> cn_profile c' = cn_profile c"
  by (auto simp: process_frame_def Let_def report_def split: sum.splits option.splits if_splits prod.splits)

text \<open>
  Neither listener ever serves more connections than its limit.
\<close>

theorem connection_limit:
  assumes "host_run listeners wire (idle_host w) h" and "l \<in> set listeners" and "distinct (map lsn_profile listeners)"
    and "0 \<le> lsn_maxConnections l"
  shows "open_connections (lsn_profile l) h \<le> lsn_maxConnections l"
  using assms
proof (induction rule: rtranclp_induct)
  case base
  then show ?case by (simp add: open_connections_def idle_host_def)
next
  case (step y z)
  then have le: "open_connections (lsn_profile l) y \<le> lsn_maxConnections l" by blast
  from step.hyps(2) show ?case
  proof cases
    case (accept k i)
    show ?thesis
    proof (cases "lsn_profile k = lsn_profile l")
      case True
      then have "k = l" using accept(2) assms(2,3) by (metis distinct_map inj_onD)
      with le accept show ?thesis
        by (auto simp: accept_connection_def open_connections_def report_def put_connection_def count_new
            split: sum.splits prod.splits)
    next
      case False
      with le accept show ?thesis
        by (auto simp: accept_connection_def open_connections_def report_def put_connection_def count_new
            split: sum.splits prod.splits)
    qed
  next
    case (read i c chunk err)
    with le show ?thesis
      by (auto simp: read_connection_def open_connections_def put_connection_def count_update split: prod.splits)
  next
    case (frame i c decoded rest)
    obtain b c' h' where run: "process_frame wire i c decoded y = (b, c', h')" by (metis prod_cases3)
    note keeps = process_frame_keeps [OF run]
    show ?thesis
    proof (cases b)
      case True
      with le frame run keeps show ?thesis
        by (simp add: step_frame_def open_connections_def put_connection_def count_update)
    next
      case False
      with le frame run keeps count_delete [of "lsn_profile l" i "hst_connections y"] show ?thesis
        by (simp add: step_frame_def open_connections_def close_connection_def)
    qed
  next
    case (ended i c)
    with le count_delete [of "lsn_profile l" i "hst_connections y"] show ?thesis
      by (simp add: open_connections_def close_connection_def)
  next
    case (elsewhere v)
    with le show ?thesis by (simp add: open_connections_def)
  qed
qed

subsection \<open>A lock that connects\<close>

definition hello_frame :: Frame where
  "hello_frame =
     \<lparr>frm_Profile = ProviderProfileOmniIoTV135, frm_IMEI = sample_imei, frm_Timestamp = [], frm_Command = ''Q0'',
      frm_Fields = [''412'', ''80'', ''28'']\<rparr>"

definition lock_listener :: TCPListener where
  "lock_listener =
     \<lparr>lsn_profile = ProviderProfileOmniIoTV135, lsn_maxFrameBytes = 1024, lsn_maxConnections = 1, lsn_readTimeout = Minute\<rparr>"

definition socket_writer :: "nat \<Rightarrow> world writer" where
  "socket_writer i = device_writer (decimal_digits i)"

lemma hello_frame_wf: "wf_frame ProviderProfileOmniIoTV135 hello_frame"
  by (simp add: wf_frame_def hello_frame_def sample_imei_def validIMEI_def is_digit_def byte_of_def
      knownResponseCommand_def validResponseFields_def decimalInRange_def unsignedDecimal_def
      parseUnsignedDecimal_def field_ok_def part_ok_def frame_byte_ok_def validProfile_def)

lemma length_hello_frame: "length (render_frame ProviderProfileOmniIoTV135 hello_frame) = 39"
  by (simp add: render_frame_def frame_parts_def hello_frame_def sample_imei_def iotResponseHead_def vendorCode_def)

definition hello_decoded :: DecodedFrame where
  "hello_decoded =
     \<lparr>dcf_Raw = render_frame ProviderProfileOmniIoTV135 hello_frame, dcf_Frame = Some hello_frame, dcf_Err = None\<rparr>"

definition fresh_decoder :: Decoder where
  "fresh_decoder = \<lparr>dec_profile = ProviderProfileOmniIoTV135, dec_maxBytes = 1024, dec_buffer = [], dec_discarding = False\<rparr>"

definition fresh_connection :: connection where
  "fresh_connection =
     \<lparr>cn_profile = ProviderProfileOmniIoTV135, cn_id = uuid_text (uuid_bits (take 16 counting_bytes)), cn_decoder = fresh_decoder,
      cn_firstFrame = True, cn_boundDevice = None, cn_session = None, cn_pending = [], cn_ended = False\<rparr>"

lemma fresh_connection_simps [simp]:
  "cn_profile fresh_connection = ProviderProfileOmniIoTV135" "cn_decoder fresh_connection = fresh_decoder"
  "cn_firstFrame fresh_connection" "cn_boundDevice fresh_connection = None" "cn_session fresh_connection = None"
  "cn_pending fresh_connection = []" "\<not> cn_ended fresh_connection"
  by (simp_all add: fresh_connection_def)

lemma lock_device_simps [simp]: "dev_ID lock_device = ''d1''" "dev_ProjectID lock_device = ''p1''"
  by (simp_all add: lock_device_def)

definition lock_world :: world where
  "lock_world = (world_at lock_db Second)\<lparr>w_random := drop 16 counting_bytes\<rparr>"

lemma hello_read: "Feed fresh_decoder (render_frame ProviderProfileOmniIoTV135 hello_frame) = ([hello_decoded], fresh_decoder)"
  using Feed_render [of fresh_decoder hello_frame] hello_frame_wf
  by (simp add: fresh_decoder_def idle_def length_hello_frame hello_decoded_def)

lemma hello_recorded:
  obtains result w where "inbound_Record (frame_request fresh_connection hello_decoded) lock_world = (Inr result, w)"
    "ibr_Device result = Some lock_device" "ibr_Accepted result"
proof -
  let ?r = "frame_request fresh_connection hello_decoded"
  have "\<exists>result w. inbound_Record ?r lock_world = (Inr result, w) \<and> w_faults w = [] \<and> records (w_db lock_world) (w_db w) ?r result"
    by (rule inbound_Record_succeeds)
      (simp_all add: lock_world_def frame_request_def fresh_connection_def TrimSpace_uuid sample_keys)
  then obtain result w where run: "inbound_Record ?r lock_world = (Inr result, w)" by blast
  have ok: "devices_ok (w_db lock_world)" by (simp add: lock_world_def)
  have "may_send ?r lock_device"
    by (simp add: may_send_def Let_def frame_request_def fresh_connection_def hello_decoded_def received_frame_def hello_frame_def
        omni_binding_def lock_device_def sample_imei_def)
  with inbound_decision [OF ok run] have "ibr_Device result = Some lock_device" "ibr_Accepted result"
    by (simp_all add: lock_world_def)
  with run that show thesis by blast
qed

lemma lock_connects:
  obtains h c s where "host_run [lock_listener] socket_writer (idle_host (world_at lock_db Second)) h"
    "reg_next (hst_registry h) = 1" "hst_connections h = [(0, c)]" "cn_profile c = ProviderProfileOmniIoTV135"
    "cn_boundDevice c = Some lock_device" "cn_session c = Some s"
    "LookupUnique (hst_registry h) ProviderProfileOmniIoTV135 sample_imei = Inr s"
    "ses_deviceID s = ''d1''" "ses_projectID s = ''p1''"
proof -
  let ?h0 = "idle_host (world_at lock_db Second)" and ?hello = "render_frame ProviderProfileOmniIoTV135 hello_frame"
  let ?h1 = "put_connection 0 fresh_connection (?h0\<lparr>hst_world := lock_world\<rparr>)"
  let ?c2 = "fresh_connection\<lparr>cn_pending := [hello_decoded]\<rparr>"
  let ?h2 = "put_connection 0 ?c2 ?h1"
  have acc: "accept_connection lock_listener 0 ?h0 = ?h1"
  proof -
    have "randomUUID (world_at lock_db Second) = (Inr (cn_id fresh_connection), lock_world)"
      by (simp add: randomUUID_run fresh_connection_def lock_world_def)
    then show ?thesis
      by (simp add: accept_connection_def idle_host_def lock_listener_def NewDecoder_def sample_keys fresh_connection_def fresh_decoder_def)
  qed
  have rd: "read_connection 0 fresh_connection ?hello NoError ?h1 = ?h2"
  proof -
    have "?hello \<noteq> []" using length_hello_frame by (metis list.size(3) zero_neq_numeral)
    then show ?thesis by (simp add: read_connection_def hello_read put_connection_def) (simp add: fresh_connection_def)
  qed
  obtain result w where rec: "inbound_Record (frame_request fresh_connection hello_decoded) lock_world = (Inr result, w)"
    "ibr_Device result = Some lock_device" "ibr_Accepted result" by (rule hello_recorded)
  obtain s reg where reg: "Register NewRegistry ProviderProfileOmniIoTV135 (dev_ProviderDeviceID lock_device) ''d1'' ''p1''
      (cn_id fresh_connection) (Some (socket_writer 0)) = (Inr s, reg)" "reg_next reg = 1"
      "LookupUnique reg ProviderProfileOmniIoTV135 sample_imei = Inr s" "ses_deviceID s = ''d1''" "ses_projectID s = ''p1''"
    by (simp add: Register_def Let_def sample_keys sample_imei_def lock_device_def registry_identity_def NewRegistry_def
        fresh_connection_def TrimSpace_uuid LookupUnique_def)
  let ?c3 = "?c2\<lparr>cn_session := Some s, cn_boundDevice := Some lock_device, cn_firstFrame := False, cn_pending := []\<rparr>"
  let ?h3 = "put_connection 0 ?c3 (?h2\<lparr>hst_world := w, hst_registry := reg\<rparr>)"
  have "frame_request ?c2 hello_decoded = frame_request fresh_connection hello_decoded" by (simp add: frame_request_def)
  then have fr: "step_frame socket_writer 0 ?c2 hello_decoded [] ?h2 = ?h3"
    using rec reg(1)
    by (simp add: step_frame_def process_frame_def put_connection_def idle_host_def)
  have "host_step [lock_listener] socket_writer ?h0 ?h1"
    unfolding acc [symmetric] by (rule host_step.accept) (simp_all add: idle_host_def)
  moreover have "host_step [lock_listener] socket_writer ?h1 ?h2"
    unfolding rd [symmetric] by (rule host_step.read) (simp_all add: put_connection_def idle_host_def)
  moreover have "host_step [lock_listener] socket_writer ?h2 ?h3"
    unfolding fr [symmetric] by (rule host_step.frame) (simp_all add: put_connection_def idle_host_def)
  ultimately have "host_run [lock_listener] socket_writer ?h0 ?h3" by (meson rtranclp.rtrancl_into_rtrancl rtranclp.rtrancl_refl)
  then show thesis
    by (rule that) (simp_all add: reg put_connection_def idle_host_def, simp_all add: reg)
qed

theorem registry_mirrors_connections_witness:
  "\<exists>h s. host_run [lock_listener] socket_writer (idle_host (world_at lock_db Second)) h \<and> live (hst_registry h) = {s}"
proof (rule lock_connects)
  fix h c s
  assume run: "host_run [lock_listener] socket_writer (idle_host (world_at lock_db Second)) h" "reg_next (hst_registry h) = 1"
    "hst_connections h = [(0, c)]" "cn_session c = Some s"
  have "{x. \<exists>i c'. map_of (hst_connections h) i = Some c' \<and> cn_session c' = Some x} = {s}"
    by (auto simp: run(3,4) split: if_splits)
  moreover have "reg_next (hst_registry h) < 2 ^ 64" by (simp add: run(2))
  ultimately have "live (hst_registry h) = {s}" using registry_mirrors_connections [OF run(1)] by simp
  with run(1) show ?thesis by blast
qed

theorem connection_limit_witness:
  "\<exists>h. host_run [lock_listener] socket_writer (idle_host (world_at lock_db Second)) h \<and> hst_connections h \<noteq> [] \<and>
     open_connections ProviderProfileOmniIoTV135 h \<le> 1"
proof (rule lock_connects)
  fix h c
  assume run: "host_run [lock_listener] socket_writer (idle_host (world_at lock_db Second)) h" "hst_connections h = [(0, c)]"
  from connection_limit [OF run(1), of lock_listener] have "open_connections ProviderProfileOmniIoTV135 h \<le> 1"
    by (simp add: lock_listener_def)
  with run show ?thesis by auto
qed

theorem dispatch_reaches_its_device_witness:
  "\<exists>h p. host_run [lock_listener] socket_writer (idle_host (world_at lock_db Second)) h \<and>
     omni_Prepare (NewAdapter (Some (\<lambda>w. hst_registry h)) \<lparr>ocf_Configured = True, ocf_Clock = None, ocf_Available = None\<rparr>)
       status_request lock_world = Inr p \<and> ses_writer (pdi_session p) = socket_writer 0"
proof (rule lock_connects)
  fix h c s
  assume run: "host_run [lock_listener] socket_writer (idle_host (world_at lock_db Second)) h" "reg_next (hst_registry h) = 1"
    "hst_connections h = [(0, c)]" "LookupUnique (hst_registry h) ProviderProfileOmniIoTV135 sample_imei = Inr s"
    "ses_deviceID s = ''d1''" "ses_projectID s = ''p1''"
  let ?a = "NewAdapter (Some (\<lambda>w. hst_registry h)) \<lparr>ocf_Configured = True, ocf_Clock = None, ocf_Available = None\<rparr>"
  let ?p = "\<lparr>pdi_session = s, pdi_frame = status_bytes, pdi_summary = omni_summary ProviderProfileOmniIoTV135 status_bytes s\<rparr>"
  have "TrimSpace ''7'' = ''7''" by code_simp
  then have prep: "omni_Prepare ?a status_request lock_world = Inr ?p"
    unfolding omni_Prepare_Inr using run(4-)
    by (simp add: NewAdapter_def omni_Configured_def status_request_def status_frame)
  have "ses_writer (pdi_session ?p) = socket_writer 0"
    using dispatch_reaches_its_device [OF run(1) _ prep] run(2,3) by (auto simp: NewAdapter_def split: if_splits)
  with run(1) prep show ?thesis by blast
qed

end
