(* ===== verification/Command_Life.thy ===== *)
theory Command_Life
  imports Command_Repo
begin

text \<open>
  What the repository promises about one Command: an abstract machine whose state is the Command and
  its Attempts, and whose steps are the only changes a committed transaction may make to them at
  time \<open>t\<close>. Its invariant says that a Command never has a second Attempt, that the Attempt is
  claimed exactly while the Command is queued, and that it is dispatched at most once. The theory
  \<open>Command_Refine\<close> shows that every transaction of the program is a step of this machine.
\<close>

type_synonym life = "Command \<times> CommandAttempt list"

definition on_attempt ::
  "gostr \<Rightarrow> (CommandAttempt \<Rightarrow> CommandAttempt) \<Rightarrow> CommandAttempt list \<Rightarrow> CommandAttempt list" where
  "on_attempt attemptID f rows = map (\<lambda>a. if att_ID a = attemptID then f a else a) rows"

definition completed_as ::
  "instant \<Rightarrow> AttemptOutcome \<Rightarrow> ConfirmationLevel \<Rightarrow> EvidenceStatus \<Rightarrow> gomap \<Rightarrow> gostr option \<Rightarrow> gostr option \<Rightarrow>
   CommandAttempt \<Rightarrow> CommandAttempt" where
  "completed_as t outcome level evidence response reason detail a =
     a\<lparr>att_Phase := AttemptPhaseCompleted, att_Outcome := Some outcome, att_ConfirmationLevel := level,
       att_EvidenceStatus := evidence, att_ResponseSummary := response, att_ReasonCode := reason,
       att_ErrorDetail := detail, att_CompletedAt := Some t\<rparr>"

definition leased_to :: "gostr \<Rightarrow> gostr \<Rightarrow> instant \<Rightarrow> CommandAttempt \<Rightarrow> CommandAttempt" where
  "leased_to owner token expires a =
     a\<lparr>att_LeaseOwner := owner, att_LeaseToken := token, att_LeaseExpiresAt := expires\<rparr>"

definition dispatching_from :: "instant \<Rightarrow> gomap \<Rightarrow> instant \<Rightarrow> CommandAttempt \<Rightarrow> CommandAttempt" where
  "dispatching_from t summary expires a =
     a\<lparr>att_Phase := AttemptPhaseDispatching, att_RequestSummary := summary, att_LeaseExpiresAt := expires,
       att_DispatchingAt := Some t\<rparr>"

definition sent_with :: "instant \<Rightarrow> instant \<Rightarrow> Command \<Rightarrow> Command" where
  "sent_with t deadline c =
     c\<lparr>cmd_Status := CommandStatusSent, cmd_SentAt := Some t, cmd_ResultDeadlineAt := Some deadline,
       cmd_UpdatedAt := t\<rparr>"

definition finished_as ::
  "instant \<Rightarrow> CommandStatus \<Rightarrow> gostr option \<Rightarrow> gostr option \<Rightarrow> ConfirmationLevel \<Rightarrow> EvidenceStatus \<Rightarrow>
   Command \<Rightarrow> Command" where
  "finished_as t status reason detail level evidence c =
     c\<lparr>cmd_Status := status, cmd_ReasonCode := reason, cmd_ReasonDetail := detail,
       cmd_ConfirmationLevel := level, cmd_EvidenceStatus := evidence, cmd_FinishedAt := Some t,
       cmd_UpdatedAt := t\<rparr>"

definition evidenced :: "instant \<Rightarrow> ConfirmationLevel \<Rightarrow> EvidenceStatus \<Rightarrow> Command \<Rightarrow> Command" where
  "evidenced t level evidence c =
     c\<lparr>cmd_ConfirmationLevel := level, cmd_EvidenceStatus := evidence, cmd_UpdatedAt := t\<rparr>"

definition concluded ::
  "CommandStatus \<Rightarrow> gostr option \<Rightarrow> ConfirmationLevel \<Rightarrow> EvidenceStatus \<Rightarrow> instant option \<Rightarrow> instant \<Rightarrow>
   Command \<Rightarrow> Command" where
  "concluded status reason level evidence finished updated c =
     c\<lparr>cmd_Status := status, cmd_ReasonCode := reason, cmd_ReasonDetail := None,
       cmd_ConfirmationLevel := level, cmd_EvidenceStatus := evidence, cmd_FinishedAt := finished,
       cmd_UpdatedAt := updated\<rparr>"

definition timed_out :: "instant \<Rightarrow> Command \<Rightarrow> Command" where
  "timed_out t c =
     c\<lparr>cmd_Status := CommandStatusTimeout, cmd_ReasonCode := Some ''result_observation_timeout'',
       cmd_ReasonDetail := None, cmd_FinishedAt := Some t, cmd_UpdatedAt := t\<rparr>"

lemmas life_updates = completed_as_def leased_to_def dispatching_from_def sent_with_def finished_as_def
  evidenced_def concluded_def timed_out_def

inductive life_step :: "instant \<Rightarrow> life \<Rightarrow> life \<Rightarrow> bool" for t :: instant where
  claim:
    "\<lbrakk>cmd_Status c = CommandStatusQueued; t < cmd_DispatchDeadlineAt c;
      \<forall>x\<in>set as. att_Phase x = AttemptPhaseCompleted; att_Phase a = AttemptPhaseClaimed;
      att_CommandID a = cmd_ID c; t < att_LeaseExpiresAt a; att_LeaseExpiresAt a \<le> cmd_DispatchDeadlineAt c\<rbrakk> \<Longrightarrow>
     life_step t (c, as) (c, as @ [a])"
| take_over:
    "\<lbrakk>cmd_Status c = CommandStatusQueued; t < cmd_DispatchDeadlineAt c; a \<in> set as;
      att_Phase a = AttemptPhaseClaimed; att_LeaseExpiresAt a \<le> t; token \<noteq> att_LeaseToken a;
      t < expires; expires \<le> cmd_DispatchDeadlineAt c\<rbrakk> \<Longrightarrow>
     life_step t (c, as) (c, on_attempt (att_ID a) (leased_to owner token expires) as)"
| dispatch:
    "\<lbrakk>cmd_Status c = CommandStatusQueued; t < cmd_DispatchDeadlineAt c; a \<in> set as;
      att_Phase a = AttemptPhaseClaimed; t < att_LeaseExpiresAt a\<rbrakk> \<Longrightarrow>
     life_step t (c, as) (sent_with t deadline c, on_attempt (att_ID a) (dispatching_from t summary expires) as)"
| refuse:
    "\<lbrakk>cmd_Status c = CommandStatusQueued; a \<in> set as; att_Phase a = AttemptPhaseClaimed;
      t < att_LeaseExpiresAt a; before_dispatch_outcome outcome\<rbrakk> \<Longrightarrow>
     life_step t (c, as)
       (finished_as t CommandStatusFailed reason detail ConfirmationNone EvidenceNone c,
        on_attempt (att_ID a) (completed_as t outcome ConfirmationNone EvidenceNone [] reason detail) as)"
| settle:
    "\<lbrakk>cmd_Status c = CommandStatusSent; a \<in> set as; att_Phase a = AttemptPhaseDispatching;
      t < att_LeaseExpiresAt a; outcome = AttemptOutcomeProviderAccepted \<or> outcome = AttemptOutcomeIndeterminate;
      evidenceProgresses (cmd_ConfirmationLevel c) (cmd_EvidenceStatus c) level evidence\<rbrakk> \<Longrightarrow>
     life_step t (c, as)
       (evidenced t level evidence c,
        on_attempt (att_ID a) (completed_as t outcome level evidence response reason detail) as)"
| reject:
    "\<lbrakk>cmd_Status c = CommandStatusSent; a \<in> set as; att_Phase a = AttemptPhaseDispatching;
      t < att_LeaseExpiresAt a;
      outcome = AttemptOutcomeTransportErrorBeforeSend \<or> outcome = AttemptOutcomeProviderRejected;
      evidenceDoesNotRegress (cmd_ConfirmationLevel c) (cmd_EvidenceStatus c) level evidence\<rbrakk> \<Longrightarrow>
     life_step t (c, as)
       (finished_as t CommandStatusFailed reason detail level evidence c,
        on_attempt (att_ID a) (completed_as t outcome level evidence response reason detail) as)"
| recover:
    "\<lbrakk>cmd_Status c = CommandStatusSent; a \<in> set as; att_Phase a = AttemptPhaseDispatching;
      att_LeaseExpiresAt a \<le> t\<rbrakk> \<Longrightarrow>
     life_step t (c, as)
       (evidenced t ConfirmationTransportSent EvidenceUnverified c,
        on_attempt (att_ID a) (completed_as t AttemptOutcomeIndeterminate ConfirmationTransportSent
          EvidenceUnverified [] (Some ''provider_delivery_unknown'') None) as)"
| give_up:
    "\<lbrakk>cmd_Status c = CommandStatusQueued; \<forall>x\<in>set as. att_Phase x = AttemptPhaseCompleted;
      status = CommandStatusCancelled \<or> status = CommandStatusTimeout\<rbrakk> \<Longrightarrow>
     life_step t (c, as) (finished_as t status reason detail ConfirmationNone EvidenceNone c, as)"
| give_up_claimed:
    "\<lbrakk>cmd_Status c = CommandStatusQueued; a \<in> set as; att_Phase a = AttemptPhaseClaimed;
      att_LeaseExpiresAt a \<le> t; status = CommandStatusCancelled \<or> status = CommandStatusTimeout\<rbrakk> \<Longrightarrow>
     life_step t (c, as)
       (finished_as t status reason detail ConfirmationNone EvidenceNone c,
        on_attempt (att_ID a) (completed_as t AttemptOutcomeNotDispatched ConfirmationNone EvidenceNone []
          reason detail) as)"
| overdue:
    "\<lbrakk>cmd_Status c = CommandStatusSent \<or> cmd_Status c = CommandStatusAcked; due t (cmd_ResultDeadlineAt c);
      \<forall>x\<in>set as. att_Phase x = AttemptPhaseCompleted\<rbrakk> \<Longrightarrow>
     life_step t (c, as) (timed_out t c, as)"
| verified:
    "\<lbrakk>cmd_Status c = CommandStatusSent; a \<in> set as; att_Phase a = AttemptPhaseCompleted;
      att_Outcome a = Some AttemptOutcomeProviderAccepted;
      evidenceProgresses (cmd_ConfirmationLevel c) (cmd_EvidenceStatus c) ConfirmationProviderAccepted EvidenceVerified\<rbrakk> \<Longrightarrow>
     life_step t (c, as)
       (evidenced t ConfirmationProviderAccepted EvidenceVerified c,
        on_attempt (att_ID a) (\<lambda>x. x\<lparr>att_Outcome := Some AttemptOutcomeProviderAccepted,
          att_ConfirmationLevel := ConfirmationProviderAccepted, att_EvidenceStatus := EvidenceVerified,
          att_ResponseSummary := response\<rparr>) as)"
| device_acked:
    "\<lbrakk>cmd_Status c = CommandStatusSent\<rbrakk> \<Longrightarrow>
     life_step t (c, as) (concluded CommandStatusAcked None ConfirmationDeviceAcked EvidenceVerified None u c, as)"
| device_final:
    "\<lbrakk>cmd_Status c = CommandStatusSent \<or> cmd_Status c = CommandStatusAcked;
      status = CommandStatusSuccess \<or> status = CommandStatusFailed\<rbrakk> \<Longrightarrow>
     life_step t (c, as) (concluded status reason ConfirmationDeviceFinal EvidenceVerified (Some f) u c, as)"
| late_result:
    "\<lbrakk>IsTerminal (cmd_Status c);
      evidenceProgresses (cmd_ConfirmationLevel c) (cmd_EvidenceStatus c) level evidence\<rbrakk> \<Longrightarrow>
     life_step t (c, as) (evidenced u level evidence c, as)"

inductive_cases life_stepE: "life_step t (c, as) (c', as')"

subsection \<open>The invariant\<close>

definition rows_ok :: "life \<Rightarrow> bool" where
  "rows_ok s \<longleftrightarrow> command_check (fst s) \<and> list_all attempt_check (snd s)"

text \<open>The Attempt's phase decides the statuses its Command can have.\<close>

fun phase_status :: "CommandAttempt list \<Rightarrow> CommandStatus \<Rightarrow> bool" where
  "phase_status [] status =
     (status = CommandStatusQueued \<or> status = CommandStatusCancelled \<or> status = CommandStatusTimeout)"
| "phase_status [a] status =
     (case att_Phase a of
        AttemptPhaseClaimed \<Rightarrow> status = CommandStatusQueued
      | AttemptPhaseDispatching \<Rightarrow>
          status = CommandStatusSent \<or> status = CommandStatusAcked \<or> status = CommandStatusSuccess \<or>
          status = CommandStatusFailed
      | AttemptPhaseCompleted \<Rightarrow> status \<noteq> CommandStatusQueued)"
| "phase_status (a # b # as) status = False"

definition life_ok :: "life \<Rightarrow> bool" where
  "life_ok s \<longleftrightarrow> rows_ok s \<and> list_all (\<lambda>a. att_CommandID a = cmd_ID (fst s)) (snd s) \<and>
     phase_status (snd s) (cmd_Status (fst s)) \<and>
     (cmd_Status (fst s) = CommandStatusSent \<longrightarrow>
        list_all (\<lambda>a. att_Phase a = AttemptPhaseDispatching \<longrightarrow> cmd_ConfirmationLevel (fst s) = ConfirmationNone) (snd s))"

lemma phase_status_cases:
  assumes "phase_status as s"
  obtains "as = []" "s = CommandStatusQueued \<or> s = CommandStatusCancelled \<or> s = CommandStatusTimeout"
  | a where "as = [a]" "att_Phase a = AttemptPhaseClaimed" "s = CommandStatusQueued"
  | a where "as = [a]" "att_Phase a = AttemptPhaseDispatching"
      "s = CommandStatusSent \<or> s = CommandStatusAcked \<or> s = CommandStatusSuccess \<or> s = CommandStatusFailed"
  | a where "as = [a]" "att_Phase a = AttemptPhaseCompleted" "s \<noteq> CommandStatusQueued"
  using assms by (cases "(as, s)" rule: phase_status.cases) (auto split: AttemptPhase.splits)

lemma queued_unconfirmed:
  "command_check c \<Longrightarrow> cmd_Status c = CommandStatusQueued \<Longrightarrow>
   cmd_ConfirmationLevel c = ConfirmationNone \<and> cmd_EvidenceStatus c = EvidenceNone"
  by (simp add: command_check_def chk_status_confirmation_def)

lemma life_step_ok:
  assumes step: "life_step t s s'" and ok: "life_ok s" and rows: "rows_ok s'"
  shows "life_ok s'"
  using step ok rows
proof (induction rule: life_step.induct)
  case (claim c as a)
  then have "as = []" by (auto simp: life_ok_def elim!: phase_status_cases)
  with claim show ?case by (auto simp: life_ok_def)
next
  case (dispatch c a as deadline summary expires)
  then have "cmd_ConfirmationLevel c = ConfirmationNone"
    by (auto simp: life_ok_def rows_ok_def dest: queued_unconfirmed)
  with dispatch show ?case
    by (auto simp: life_ok_def life_updates on_attempt_def elim!: phase_status_cases)
qed (auto simp: life_ok_def life_updates on_attempt_def elim!: phase_status_cases)

lemma life_ok_attempts: "life_ok s \<Longrightarrow> length (snd s) \<le> 1"
  by (auto simp: life_ok_def elim!: phase_status_cases)

subsection \<open>What a step may change\<close>

text \<open>The frozen snapshot of a Command: what it was created with.\<close>

definition same_snapshot :: "Command \<Rightarrow> Command \<Rightarrow> bool" where
  "same_snapshot c c' \<longleftrightarrow>
     c' = c\<lparr>cmd_Status := cmd_Status c', cmd_ReasonCode := cmd_ReasonCode c', cmd_ReasonDetail := cmd_ReasonDetail c',
       cmd_ConfirmationLevel := cmd_ConfirmationLevel c', cmd_EvidenceStatus := cmd_EvidenceStatus c',
       cmd_SentAt := cmd_SentAt c', cmd_ResultDeadlineAt := cmd_ResultDeadlineAt c',
       cmd_FinishedAt := cmd_FinishedAt c', cmd_UpdatedAt := cmd_UpdatedAt c'\<rparr>"

lemma same_snapshot_refl: "same_snapshot c c"
  by (simp add: same_snapshot_def)

lemma step_snapshot: "life_step t s s' \<Longrightarrow> same_snapshot (fst s) (fst s')"
  by (induction rule: life_step.induct) (simp_all add: same_snapshot_def life_updates)

lemma step_status:
  "life_step t s s' \<Longrightarrow>
   cmd_Status (fst s') = cmd_Status (fst s) \<or> CanTransitionCommand (cmd_Status (fst s)) (cmd_Status (fst s'))"
  by (induction rule: life_step.induct) (auto simp: life_updates)

lemma step_terminal:
  "life_step t s s' \<Longrightarrow> IsTerminal (cmd_Status (fst s)) \<Longrightarrow>
   cmd_Status (fst s') = cmd_Status (fst s) \<and> cmd_ReasonCode (fst s') = cmd_ReasonCode (fst s) \<and>
   cmd_ReasonDetail (fst s') = cmd_ReasonDetail (fst s) \<and> cmd_FinishedAt (fst s') = cmd_FinishedAt (fst s)"
  by (induction rule: life_step.induct) (auto simp: life_updates)

lemma CanAdvance_refl: "known_confirmation l \<Longrightarrow> CanAdvanceConfirmation l l"
  by (cases l) (auto simp: CanAdvanceConfirmation_def known_confirmation_def)

lemma CanAdvance_to_acked:
  "known_confirmation l \<Longrightarrow> l \<noteq> ConfirmationDeviceFinal \<Longrightarrow> CanAdvanceConfirmation l ConfirmationDeviceAcked"
  by (cases l) (auto simp: CanAdvanceConfirmation_def known_confirmation_def)

lemma CanAdvance_to_final: "known_confirmation l \<Longrightarrow> CanAdvanceConfirmation l ConfirmationDeviceFinal"
  by (cases l) (auto simp: CanAdvanceConfirmation_def known_confirmation_def)

lemma CanAdvance_from_none: "known_confirmation l \<Longrightarrow> CanAdvanceConfirmation ConfirmationNone l"
  by (cases l) (auto simp: CanAdvanceConfirmation_def known_confirmation_def)

lemma evidenceProgresses_advances: "evidenceProgresses l e l' e' \<Longrightarrow> CanAdvanceConfirmation l l'"
  by (simp add: evidenceProgresses_def split: if_splits)

lemma evidenceDoesNotRegress_advances: "evidenceDoesNotRegress l e l' e' \<Longrightarrow> CanAdvanceConfirmation l l'"
  by (simp add: evidenceDoesNotRegress_def split: if_splits)

lemma step_confirmation:
  assumes "life_step t s s'" and "life_ok s" and "rows_ok s'"
  shows "CanAdvanceConfirmation (cmd_ConfirmationLevel (fst s)) (cmd_ConfirmationLevel (fst s'))"
proof -
  have k: "known_confirmation (cmd_ConfirmationLevel (fst s))"
    using assms(2) by (simp add: life_ok_def rows_ok_def command_check_def)
  note refl = CanAdvance_refl [OF k]
  from assms(1,2) k refl show ?thesis
  proof (induction rule: life_step.induct)
    case (refuse c a as outcome reason detail)
    then show ?case using queued_unconfirmed [of c]
      by (simp add: life_ok_def rows_ok_def life_updates)
  next
    case (recover c a as)
    then have "cmd_ConfirmationLevel c = ConfirmationNone"
      by (auto simp: life_ok_def elim!: phase_status_cases)
    then show ?case by (simp add: life_updates CanAdvance_from_none known_confirmation_def)
  next
    case (give_up c as status reason detail)
    then show ?case using queued_unconfirmed [of c]
      by (simp add: life_ok_def rows_ok_def life_updates)
  next
    case (give_up_claimed c a as status reason detail)
    then show ?case using queued_unconfirmed [of c]
      by (simp add: life_ok_def rows_ok_def life_updates)
  next
    case (device_acked c as u)
    then have "cmd_ConfirmationLevel c \<noteq> ConfirmationDeviceFinal"
      by (auto simp: life_ok_def rows_ok_def command_check_def chk_status_confirmation_def)
    with device_acked show ?case by (simp add: life_updates CanAdvance_to_acked)
  qed (auto simp: life_updates CanAdvance_to_final evidenceProgresses_advances
      evidenceDoesNotRegress_advances)
qed

text \<open>When an Attempt has been handed to the provider, its time of dispatch never changes again.\<close>

definition dispatches :: "life \<Rightarrow> instant list" where
  "dispatches s = concat (map (\<lambda>a. case att_DispatchingAt a of None \<Rightarrow> [] | Some x \<Rightarrow> [x]) (snd s))"

lemma dispatches_on_attempt:
  "(\<And>a. att_DispatchingAt (f a) = att_DispatchingAt a) \<Longrightarrow> dispatches (c', on_attempt aid f as) = dispatches (c, as)"
  by (induction as) (auto simp: dispatches_def on_attempt_def)

lemma claimed_undispatched:
  "attempt_check a \<Longrightarrow> att_Phase a = AttemptPhaseClaimed \<Longrightarrow> att_DispatchingAt a = None"
  by (simp add: attempt_check_def)

lemma step_dispatches:
  assumes "life_step t s s'" and "life_ok s" and "rows_ok s'"
  shows "dispatches s' = dispatches s \<or>
    (dispatches s = [] \<and> dispatches s' = [t] \<and> cmd_Status (fst s) = CommandStatusQueued \<and>
     cmd_Status (fst s') = CommandStatusSent \<and> t < cmd_DispatchDeadlineAt (fst s))"
  using assms
proof (induction rule: life_step.induct)
  case (claim c as a)
  then show ?case by (auto simp: dispatches_def rows_ok_def claimed_undispatched)
next
  case (dispatch c a as deadline summary expires)
  then have "as = [a]" "att_DispatchingAt a = None"
    by (auto simp: life_ok_def rows_ok_def claimed_undispatched elim!: phase_status_cases)
  with dispatch show ?case by (auto simp: dispatches_def on_attempt_def life_updates)
next
  case (take_over c a as token expires owner)
  then show ?case by (simp add: dispatches_on_attempt [of _ _ _ _ c] life_updates)
next
  case (verified c a as response)
  then show ?case by (simp add: dispatches_on_attempt [of _ _ _ _ c] life_updates)
qed (simp_all add: dispatches_on_attempt [where c = c for c] completed_as_def, simp_all add: dispatches_def)

lemma life_ok_dispatches: "life_ok s \<Longrightarrow> length (dispatches s) \<le> 1"
  by (auto simp: life_ok_def dispatches_def elim!: phase_status_cases split: option.splits)

end
