(* ===== verification/Command_Effect.thy ===== *)
theory Command_Effect
  imports Command_Worker Command_Life
begin

text \<open>
  What a successful repository call has done to the tables: each lemma turns a run of an operation
  into the rows it found and the edit it made, in the vocabulary of \<open>Command_Life\<close>.
\<close>

subsection \<open>Rows and edits\<close>

definition keys_ok :: "db \<Rightarrow> bool" where
  "keys_ok d \<longleftrightarrow> distinct (map cmd_ID (tbl_commands d)) \<and> distinct (map att_ID (tbl_attempts d))"

definition owns :: "db \<Rightarrow> Command \<Rightarrow> CommandAttempt \<Rightarrow> bool" where
  "owns d c a \<longleftrightarrow> c \<in> set (tbl_commands d) \<and> a \<in> set (tbl_attempts d) \<and> att_CommandID a = cmd_ID c"

definition put_command :: "Command \<Rightarrow> db \<Rightarrow> db" where
  "put_command c' d = d\<lparr>tbl_commands := map (\<lambda>x. if cmd_ID x = cmd_ID c' then c' else x) (tbl_commands d)\<rparr>"

definition edit_attempt :: "gostr \<Rightarrow> (CommandAttempt \<Rightarrow> CommandAttempt) \<Rightarrow> db \<Rightarrow> db" where
  "edit_attempt attemptID f d = d\<lparr>tbl_attempts := on_attempt attemptID f (tbl_attempts d)\<rparr>"

lemma put_command_tables [simp]:
  "tbl_attempts (put_command c d) = tbl_attempts d" "tbl_events (put_command c d) = tbl_events d"
  "tbl_projects (put_command c d) = tbl_projects d" "tbl_results (put_command c d) = tbl_results d"
  "tbl_deliveries (put_command c d) = tbl_deliveries d" "tbl_devices (put_command c d) = tbl_devices d"
  by (simp_all add: put_command_def)

lemma edit_attempt_tables [simp]:
  "tbl_commands (edit_attempt i f d) = tbl_commands d" "tbl_events (edit_attempt i f d) = tbl_events d"
  "tbl_projects (edit_attempt i f d) = tbl_projects d" "tbl_results (edit_attempt i f d) = tbl_results d"
  "tbl_deliveries (edit_attempt i f d) = tbl_deliveries d" "tbl_devices (edit_attempt i f d) = tbl_devices d"
  by (simp_all add: edit_attempt_def)

lemma keys_put: "keys_ok d \<Longrightarrow> keys_ok (put_command c d)"
  by (simp add: keys_ok_def put_command_def if_distrib [of cmd_ID] comp_def cong: if_cong)

lemma map_on_attempt:
  "(\<And>a. att_ID (f a) = att_ID a) \<Longrightarrow> map att_ID (on_attempt i f as) = map att_ID as"
  by (induction as) (auto simp: on_attempt_def)

lemma keys_edit: "keys_ok d \<Longrightarrow> (\<And>a. att_ID (f a) = att_ID a) \<Longrightarrow> keys_ok (edit_attempt i f d)"
  by (simp add: keys_ok_def edit_attempt_def map_on_attempt)

lemma command_unique:
  "keys_ok d \<Longrightarrow> c \<in> set (tbl_commands d) \<Longrightarrow> c' \<in> set (tbl_commands d) \<Longrightarrow> cmd_ID c = cmd_ID c' \<Longrightarrow> c = c'"
  by (auto simp: keys_ok_def distinct_map dest: inj_onD)

lemma attempt_unique:
  "keys_ok d \<Longrightarrow> a \<in> set (tbl_attempts d) \<Longrightarrow> a' \<in> set (tbl_attempts d) \<Longrightarrow> att_ID a = att_ID a' \<Longrightarrow> a = a'"
  by (auto simp: keys_ok_def distinct_map dest: inj_onD)

lemma owns_edit:
  assumes "keys_ok d" and "owns d c a" and "\<And>x. att_ID (f x) = att_ID x" and "\<And>x. att_CommandID (f x) = att_CommandID x"
    and "owns (edit_attempt (att_ID a) f d) c' a'" and "cmd_ID c' = cmd_ID c" and "att_ID a' = att_ID a"
  shows "c' = c \<and> a' = f a"
proof -
  have "c' = c" using assms command_unique [of d c' c] by (simp add: owns_def)
  moreover from assms(5) obtain x where x: "x \<in> set (tbl_attempts d)"
    "a' = (if att_ID x = att_ID a then f x else x)"
    by (auto simp: owns_def edit_attempt_def on_attempt_def)
  then have "att_ID x = att_ID a" using assms(3,7) by (auto split: if_splits)
  with x have "x = a" using assms(1,2) attempt_unique [of d x a] by (simp add: owns_def)
  with x show ?thesis using \<open>c' = c\<close> by simp
qed

subsection \<open>Statements\<close>

lemma update_commands_run:
  "update_commands p f w = (Inr n, w') \<longleftrightarrow>
     next_fault w = None \<and>
     list_all (\<lambda>c. p (w_now w) c \<longrightarrow> command_check (f (w_now w) c)) (tbl_commands (w_db w)) \<and>
     n = length (filter (p (w_now w)) (tbl_commands (w_db w))) \<and>
     w' = (consume w)\<lparr>w_db := (w_db w)\<lparr>tbl_commands :=
       map (\<lambda>c. if p (w_now w) c then f (w_now w) c else c) (tbl_commands (w_db w))\<rparr>\<rparr>"
  unfolding update_commands_def sql_run by (auto simp: update_where_def)

lemma update_attempts_run:
  "update_attempts p f w = (Inr n, w') \<longleftrightarrow>
     next_fault w = None \<and>
     list_all (\<lambda>a. p (w_now w) a \<longrightarrow> attempt_check (f (w_now w) (w_db w) a)) (tbl_attempts (w_db w)) \<and>
     n = length (filter (p (w_now w)) (tbl_attempts (w_db w))) \<and>
     w' = (consume w)\<lparr>w_db := (w_db w)\<lparr>tbl_attempts :=
       map (\<lambda>a. if p (w_now w) a then f (w_now w) (w_db w) a else a) (tbl_attempts (w_db w))\<rparr>\<rparr>"
  unfolding update_attempts_def sql_run by (auto simp: update_where_def)

text \<open>An UPDATE whose condition fixes the key of a row that satisfies it edits just that row.\<close>

lemma update_commands_one:
  assumes run: "update_commands p f w = (Inr n, w')" and keys: "keys_ok (w_db w)"
    and c: "c \<in> set (tbl_commands (w_db w))" "p (w_now w) c"
    and key: "\<And>x. p (w_now w) x \<Longrightarrow> cmd_ID x = cmd_ID c"
    and same: "cmd_ID (f (w_now w) c) = cmd_ID c"
  shows "n = 1 \<and> command_check (f (w_now w) c) \<and> w_now w' = w_now w \<and>
    w_db w' = put_command (f (w_now w) c) (w_db w)"
proof -
  let ?p = "p (w_now w)" and ?rows = "tbl_commands (w_db w)"
  have id_iff: "cmd_ID x = cmd_ID c \<longleftrightarrow> x = c" if "x \<in> set ?rows" for x
    using command_unique [OF keys that c(1)] by blast
  have iff: "?p x \<longleftrightarrow> x = c" if "x \<in> set ?rows" for x
    using id_iff [OF that] key [of x] c(2) by blast
  have "filter ?p ?rows = [c]"
  proof (rule filter_key_unique [of cmd_ID])
    show "distinct (map cmd_ID ?rows)" using keys by (simp add: keys_ok_def)
  qed (rule c key; assumption?)+
  moreover have "map (\<lambda>x. if ?p x then f (w_now w) x else x) ?rows =
      map (\<lambda>x. if cmd_ID x = cmd_ID c then f (w_now w) c else x) ?rows"
    by (rule map_cong) (auto simp: iff id_iff)
  ultimately show ?thesis
    using run c same by (auto simp: update_commands_run put_command_def list_all_iff)
qed

lemma update_attempts_one:
  assumes run: "update_attempts p f w = (Inr n, w')" and keys: "keys_ok (w_db w)"
    and a: "a \<in> set (tbl_attempts (w_db w))" "p (w_now w) a"
    and key: "\<And>x. p (w_now w) x \<Longrightarrow> att_ID x = att_ID a"
  shows "n = 1 \<and> attempt_check (f (w_now w) (w_db w) a) \<and> w_now w' = w_now w \<and>
    w_db w' = edit_attempt (att_ID a) (f (w_now w) (w_db w)) (w_db w)"
proof -
  let ?p = "p (w_now w)" and ?rows = "tbl_attempts (w_db w)"
  have id_iff: "att_ID x = att_ID a \<longleftrightarrow> x = a" if "x \<in> set ?rows" for x
    using attempt_unique [OF keys that a(1)] by blast
  have iff: "?p x \<longleftrightarrow> x = a" if "x \<in> set ?rows" for x
    using id_iff [OF that] key [of x] a(2) by blast
  have "filter ?p ?rows = [a]"
  proof (rule filter_key_unique [of att_ID])
    show "distinct (map att_ID ?rows)" using keys by (simp add: keys_ok_def)
  qed (rule a key; assumption?)+
  moreover have "map (\<lambda>x. if ?p x then f (w_now w) (w_db w) x else x) ?rows =
      on_attempt (att_ID a) (f (w_now w) (w_db w)) ?rows"
    unfolding on_attempt_def by (rule map_cong) (auto simp: iff id_iff)
  ultimately show ?thesis
    using run a by (auto simp: update_attempts_run edit_attempt_def list_all_iff)
qed

lemma find_command: "find (\<lambda>c. cmd_ID c = i) (tbl_commands d) = Some c \<Longrightarrow> c \<in> set (tbl_commands d) \<and> cmd_ID c = i"
  by (auto dest: find_SomeD)

lemma on_select_cases:
  assumes "on_row (select_row tbl p col) none some w = (Inr y, w')"
  obtains (row) r w1 where "find (p (w_now w)) (tbl (w_db w)) = Some r" "w_db w1 = w_db w" "w_now w1 = w_now w"
      "some (col (w_now w) r) w1 = (Inr y, w')"
  | (no_row) w1 where "find (p (w_now w)) (tbl (w_db w)) = None" "w_db w1 = w_db w" "w_now w1 = w_now w"
      "none w1 = (Inr y, w')"
  using assms that(1) [of _ "consume w"] that(2) [of "consume w"]
  by (auto simp: on_row_run select_row_run no_rows_select)

lemma first_by_in: "first_by key (filter q xs) = Some r \<Longrightarrow> r \<in> set xs"
  and first_by_sat: "first_by key (filter q xs) = Some r \<Longrightarrow> q r"
  by (auto dest: first_by_Some)

lemma on_first_cases:
  assumes "on_row (select_first tbl p key) none some w = (Inr y, w')"
  obtains (row) r w1 where "first_by key (filter (p (w_now w) (w_db w)) (tbl (w_db w))) = Some r"
      "r \<in> set (tbl (w_db w))" "p (w_now w) (w_db w) r" "w_db w1 = w_db w" "w_now w1 = w_now w"
      "some r w1 = (Inr y, w')"
  | (no_row) w1 where "filter (p (w_now w) (w_db w)) (tbl (w_db w)) = []" "w_db w1 = w_db w" "w_now w1 = w_now w"
      "none w1 = (Inr y, w')"
proof -
  from assms consider (a) x where
      "first_by key (filter (p (w_now w) (w_db w)) (tbl (w_db w))) = Some x" "some x (consume w) = (Inr y, w')"
    | (b) "filter (p (w_now w) (w_db w)) (tbl (w_db w)) = []" "none (consume w) = (Inr y, w')"
    by (auto simp: on_row_run select_first_run no_rows_select_first)
  then show thesis
  proof cases
    case a
    show thesis
      by (rule row [OF a(1) first_by_in [OF a(1)] first_by_sat [OF a(1)] _ _ a(2)]) simp_all
  next
    case b
    then show thesis by (intro no_row [of "consume w"]) simp_all
  qed
qed

lemma bnd_cases:
  assumes "bnd m f w = (Inr y, w')"
  obtains x w1 where "m w = (Inr x, w1)" "f x w1 = (Inr y, w')"
  using assms by (auto simp: bnd_run)

lemma lockCommandAttempt_run:
  assumes "lockCommandAttempt commandID attemptID w = (Inr l, w')"
  obtains c a where "owns (w_db w) c a" "cmd_ID c = commandID" "att_ID a = attemptID"
    "l = locked_of (w_now w) c a" "w_db w' = w_db w" "w_now w' = w_now w"
proof -
  from assms obtain c a where "find (\<lambda>c. cmd_ID c = commandID) (tbl_commands (w_db w)) = Some c"
    "find (\<lambda>a. att_ID a = attemptID \<and> att_CommandID a = commandID) (tbl_attempts (w_db w)) = Some a"
    "l = locked_of (w_now w) c a" "w' = consume (consume w)"
    by (auto simp: lockCommandAttempt_def run_simps)
  with that [of c a] show thesis by (auto simp: owns_def dest!: find_SomeD)
qed

lemma on_lock_True:
  assumes "on_row (lockCommandAttempt commandID attemptID) (ret False) body w = (Inr True, w')"
  obtains c a w1 where "owns (w_db w) c a" "cmd_ID c = commandID" "att_ID a = attemptID"
    "w_db w1 = w_db w" "w_now w1 = w_now w" "body (locked_of (w_now w) c a) w1 = (Inr True, w')"
  using assms by (auto simp: on_row_run ret_run elim!: lockCommandAttempt_run)

subsection \<open>Operations on an Attempt\<close>

lemma CompleteAttempt_True:
  assumes run: "CompleteAttempt commandID attemptID token r w = (Inr True, w')" and keys: "keys_ok (w_db w)"
  obtains c a where "owns (w_db w) c a" "cmd_ID c = commandID" "att_ID a = attemptID"
    "att_Phase a \<noteq> AttemptPhaseCompleted" "att_LeaseToken a = token" "w_now w < att_LeaseExpiresAt a"
    "cmd_Status c = (if before_dispatch_outcome (cca_Outcome r) then CommandStatusQueued else CommandStatusSent)"
    "attemptCompletionAllowed (att_ProviderCode a) (att_Phase a) r"
    "attempt_check (completed_as (w_now w) (cca_Outcome r) (cca_ConfirmationLevel r) (cca_EvidenceStatus r)
       (cca_ResponseSummary r) (cca_ReasonCode r) (cca_ErrorDetail r) a)"
    "w_now w' = w_now w"
    "w_db w' = edit_attempt attemptID (completed_as (w_now w) (cca_Outcome r) (cca_ConfirmationLevel r)
       (cca_EvidenceStatus r) (cca_ResponseSummary r) (cca_ReasonCode r) (cca_ErrorDetail r)) (w_db w)"
proof -
  from run obtain c a w1 where lock: "owns (w_db w) c a" "cmd_ID c = commandID" "att_ID a = attemptID"
    "w_db w1 = w_db w" "w_now w1 = w_now w" and body:
    "(let l = locked_of (w_now w) c a in
       if lck_attemptPhase l = AttemptPhaseCompleted \<or> lck_leaseToken l \<noteq> token \<or> \<not> lck_leaseValid l
       then ret False
       else
         (let beforeDispatch = (cca_Outcome r = AttemptOutcomeInvalidRequest \<or> cca_Outcome r = AttemptOutcomeNotDispatched)
          in
          if (beforeDispatch \<and> lck_commandStatus l \<noteq> CommandStatusQueued) \<or>
             (\<not> beforeDispatch \<and> lck_commandStatus l \<noteq> CommandStatusSent) \<or>
             \<not> attemptCompletionAllowed (lck_providerCode l) (lck_attemptPhase l) r
          then ret False
          else
            bnd (update_attempts (\<lambda>t a. att_ID a = attemptID)
                   (\<lambda>t d. completed_as t (cca_Outcome r) (cca_ConfirmationLevel r) (cca_EvidenceStatus r)
                      (cca_ResponseSummary r) (cca_ReasonCode r) (cca_ErrorDetail r))) (\<lambda>n.
            ret (exactlyOneRow n)))) w1 = (Inr True, w')"
    unfolding CompleteAttempt_def completed_as_def Let_def by (elim on_lock_True) blast
  from body have guards: "att_Phase a \<noteq> AttemptPhaseCompleted" "att_LeaseToken a = token"
    "w_now w < att_LeaseExpiresAt a"
    "cmd_Status c = (if before_dispatch_outcome (cca_Outcome r) then CommandStatusQueued else CommandStatusSent)"
    "attemptCompletionAllowed (att_ProviderCode a) (att_Phase a) r"
    and upd: "\<exists>n. update_attempts (\<lambda>t a. att_ID a = attemptID)
                   (\<lambda>t d. completed_as t (cca_Outcome r) (cca_ConfirmationLevel r) (cca_EvidenceStatus r)
                      (cca_ResponseSummary r) (cca_ReasonCode r) (cca_ErrorDetail r)) w1 = (Inr n, w')"
    by (auto simp: Let_def locked_of_def before_dispatch_outcome_def run_simps split: if_splits)
  from upd obtain n where "update_attempts (\<lambda>t a. att_ID a = attemptID)
       (\<lambda>t d. completed_as t (cca_Outcome r) (cca_ConfirmationLevel r) (cca_EvidenceStatus r)
          (cca_ResponseSummary r) (cca_ReasonCode r) (cca_ErrorDetail r)) w1 = (Inr n, w')" by blast
  from update_attempts_one [OF this, of a] lock keys
  have "attempt_check (completed_as (w_now w) (cca_Outcome r) (cca_ConfirmationLevel r) (cca_EvidenceStatus r)
       (cca_ResponseSummary r) (cca_ReasonCode r) (cca_ErrorDetail r) a) \<and> w_now w' = w_now w \<and>
    w_db w' = edit_attempt attemptID (completed_as (w_now w) (cca_Outcome r) (cca_ConfirmationLevel r)
       (cca_EvidenceStatus r) (cca_ResponseSummary r) (cca_ReasonCode r) (cca_ErrorDetail r)) (w_db w)"
    by (simp add: owns_def)
  with that [of c a] lock guards show thesis by simp
qed

lemma updateCommandTransition_finished:
  "updateCommandTransition commandID tr =
     bnd (update_commands (\<lambda>t c. cmd_ID c = commandID \<and> cmd_Status c = cst_From tr)
            (\<lambda>t. finished_as t (cst_To tr) (cst_ReasonCode tr) (cst_ReasonDetail tr)
               (cst_ConfirmationLevel tr) (cst_EvidenceStatus tr))) (\<lambda>n. ret (exactlyOneRow n))"
  unfolding updateCommandTransition_def finished_as_def by simp

lemma TransitionFromAttempt_True:
  assumes run: "TransitionFromAttempt commandID attemptID token tr w = (Inr True, w')" and keys: "keys_ok (w_db w)"
  obtains c a where "owns (w_db w) c a" "cmd_ID c = commandID" "att_ID a = attemptID"
    "cmd_Status c = cst_From tr" "att_Phase a = AttemptPhaseCompleted" "att_LeaseToken a = token"
    "att_ConfirmationLevel a = cst_ConfirmationLevel tr" "att_EvidenceStatus a = cst_EvidenceStatus tr"
    "CanTransitionCommand (cst_From tr) (cst_To tr)" "att_Outcome a \<noteq> None"
    "attemptTransitionMatches (the (att_Outcome a)) tr"
    "evidenceDoesNotRegress (cmd_ConfirmationLevel c) (cmd_EvidenceStatus c)
       (cst_ConfirmationLevel tr) (cst_EvidenceStatus tr)"
    "command_check (finished_as (w_now w) (cst_To tr) (cst_ReasonCode tr) (cst_ReasonDetail tr)
       (cst_ConfirmationLevel tr) (cst_EvidenceStatus tr) c)"
    "w_now w' = w_now w"
    "w_db w' = put_command (finished_as (w_now w) (cst_To tr) (cst_ReasonCode tr) (cst_ReasonDetail tr)
       (cst_ConfirmationLevel tr) (cst_EvidenceStatus tr) c) (w_db w)"
proof -
  from run obtain c a w1 where lock: "owns (w_db w) c a" "cmd_ID c = commandID" "att_ID a = attemptID"
    "w_db w1 = w_db w" "w_now w1 = w_now w" and body:
    "(let l = locked_of (w_now w) c a in
       if lck_commandStatus l \<noteq> cst_From tr \<or> lck_attemptPhase l \<noteq> AttemptPhaseCompleted \<or>
          lck_leaseToken l \<noteq> token \<or> lck_attemptOutcome l = None \<or>
          lck_attemptConfirmation l \<noteq> cst_ConfirmationLevel tr \<or> lck_attemptEvidence l \<noteq> cst_EvidenceStatus tr \<or>
          \<not> CanTransitionCommand (cst_From tr) (cst_To tr) \<or>
          \<not> attemptTransitionMatches (the (lck_attemptOutcome l)) tr \<or>
          \<not> evidenceDoesNotRegress (lck_commandConfirmation l) (lck_commandEvidence l)
              (cst_ConfirmationLevel tr) (cst_EvidenceStatus tr)
       then ret False
       else updateCommandTransition commandID tr) w1 = (Inr True, w')"
    unfolding TransitionFromAttempt_def Let_def by (elim on_lock_True) blast
  from body have guards: "cmd_Status c = cst_From tr" "att_Phase a = AttemptPhaseCompleted" "att_LeaseToken a = token"
    "att_ConfirmationLevel a = cst_ConfirmationLevel tr" "att_EvidenceStatus a = cst_EvidenceStatus tr"
    "CanTransitionCommand (cst_From tr) (cst_To tr)" "att_Outcome a \<noteq> None"
    "attemptTransitionMatches (the (att_Outcome a)) tr"
    "evidenceDoesNotRegress (cmd_ConfirmationLevel c) (cmd_EvidenceStatus c)
       (cst_ConfirmationLevel tr) (cst_EvidenceStatus tr)"
    and upd: "updateCommandTransition commandID tr w1 = (Inr True, w')"
    by (auto simp: Let_def locked_of_def run_simps split: if_splits)
  from upd obtain n where "update_commands (\<lambda>t c. cmd_ID c = commandID \<and> cmd_Status c = cst_From tr)
      (\<lambda>t. finished_as t (cst_To tr) (cst_ReasonCode tr) (cst_ReasonDetail tr)
         (cst_ConfirmationLevel tr) (cst_EvidenceStatus tr)) w1 = (Inr n, w')"
    by (auto simp: updateCommandTransition_finished run_simps)
  from update_commands_one [OF this, of c] lock keys guards
  have "command_check (finished_as (w_now w) (cst_To tr) (cst_ReasonCode tr) (cst_ReasonDetail tr)
       (cst_ConfirmationLevel tr) (cst_EvidenceStatus tr) c) \<and> w_now w' = w_now w \<and>
    w_db w' = put_command (finished_as (w_now w) (cst_To tr) (cst_ReasonCode tr) (cst_ReasonDetail tr)
       (cst_ConfirmationLevel tr) (cst_EvidenceStatus tr) c) (w_db w)"
    by (simp add: owns_def finished_as_def)
  with that [of c a] lock guards show thesis by simp
qed

lemma MarkDispatching_dispatching:
  "MarkDispatching commandID attemptID leaseToken r =
     (if mdr_ResultObservationTimeout r < Microsecond \<or> mdr_DispatchLeaseDuration r < Microsecond then ret False
      else
        on_row (lockCommandAttempt commandID attemptID) (ret False) (\<lambda>l.
          if lck_commandStatus l \<noteq> CommandStatusQueued \<or> \<not> lck_dispatchDeadlineValid l \<or>
             lck_attemptPhase l \<noteq> AttemptPhaseClaimed \<or> lck_leaseToken l \<noteq> leaseToken \<or> \<not> lck_leaseValid l
          then ret False
          else
            bnd (update_attempts (\<lambda>t a. att_ID a = attemptID)
                   (\<lambda>t d. dispatching_from t (mdr_RequestSummary r)
                      (t + Microseconds (mdr_DispatchLeaseDuration r) * Microsecond))) (\<lambda>u.
            bnd (update_commands (\<lambda>t c. cmd_ID c = commandID)
                   (\<lambda>t. sent_with t (t + Microseconds (mdr_ResultObservationTimeout r) * Microsecond))) (\<lambda>n.
            ret (exactlyOneRow n)))))"
  unfolding MarkDispatching_def dispatching_from_def sent_with_def by simp

lemma MarkDispatching_True:
  assumes run: "MarkDispatching commandID attemptID token r w = (Inr True, w')" and keys: "keys_ok (w_db w)"
  obtains c a where "owns (w_db w) c a" "cmd_ID c = commandID" "att_ID a = attemptID"
    "cmd_Status c = CommandStatusQueued" "w_now w < cmd_DispatchDeadlineAt c"
    "att_Phase a = AttemptPhaseClaimed" "att_LeaseToken a = token" "w_now w < att_LeaseExpiresAt a"
    "attempt_check (dispatching_from (w_now w) (mdr_RequestSummary r)
       (w_now w + Microseconds (mdr_DispatchLeaseDuration r) * Microsecond) a)"
    "command_check (sent_with (w_now w) (w_now w + Microseconds (mdr_ResultObservationTimeout r) * Microsecond) c)"
    "w_now w' = w_now w"
    "w_db w' = put_command (sent_with (w_now w) (w_now w + Microseconds (mdr_ResultObservationTimeout r) * Microsecond) c)
       (edit_attempt attemptID (dispatching_from (w_now w) (mdr_RequestSummary r)
          (w_now w + Microseconds (mdr_DispatchLeaseDuration r) * Microsecond)) (w_db w))"
proof -
  let ?g = "dispatching_from (w_now w) (mdr_RequestSummary r)
      (w_now w + Microseconds (mdr_DispatchLeaseDuration r) * Microsecond)"
  let ?f = "sent_with (w_now w) (w_now w + Microseconds (mdr_ResultObservationTimeout r) * Microsecond)"
  have valid: "\<not> (mdr_ResultObservationTimeout r < Microsecond \<or> mdr_DispatchLeaseDuration r < Microsecond)"
    using run by (auto simp: MarkDispatching_def ret_run)
  from run obtain c a w1 where lock: "owns (w_db w) c a" "cmd_ID c = commandID" "att_ID a = attemptID"
    "w_db w1 = w_db w" "w_now w1 = w_now w" and body:
    "(let l = locked_of (w_now w) c a in
      if lck_commandStatus l \<noteq> CommandStatusQueued \<or> \<not> lck_dispatchDeadlineValid l \<or>
             lck_attemptPhase l \<noteq> AttemptPhaseClaimed \<or> lck_leaseToken l \<noteq> token \<or> \<not> lck_leaseValid l
          then ret False
          else
            bnd (update_attempts (\<lambda>t a. att_ID a = attemptID)
                   (\<lambda>t d. dispatching_from t (mdr_RequestSummary r)
                      (t + Microseconds (mdr_DispatchLeaseDuration r) * Microsecond))) (\<lambda>u.
            bnd (update_commands (\<lambda>t c. cmd_ID c = commandID)
                   (\<lambda>t. sent_with t (t + Microseconds (mdr_ResultObservationTimeout r) * Microsecond))) (\<lambda>n.
            ret (exactlyOneRow n)))) w1 = (Inr True, w')"
    unfolding MarkDispatching_dispatching if_not_P [OF valid] Let_def by (elim on_lock_True) blast
  from body have guards: "cmd_Status c = CommandStatusQueued" "w_now w < cmd_DispatchDeadlineAt c"
    "att_Phase a = AttemptPhaseClaimed" "att_LeaseToken a = token" "w_now w < att_LeaseExpiresAt a"
    and upd: "\<exists>n w2 m. update_attempts (\<lambda>t a. att_ID a = attemptID)
                   (\<lambda>t d. dispatching_from t (mdr_RequestSummary r)
                      (t + Microseconds (mdr_DispatchLeaseDuration r) * Microsecond)) w1 = (Inr n, w2) \<and>
        update_commands (\<lambda>t c. cmd_ID c = commandID)
                   (\<lambda>t. sent_with t (t + Microseconds (mdr_ResultObservationTimeout r) * Microsecond)) w2 = (Inr m, w')"
    by (auto simp: Let_def locked_of_def run_simps split: if_splits)
  from upd obtain n w2 m where
    u1: "update_attempts (\<lambda>t a. att_ID a = attemptID)
                   (\<lambda>t d. dispatching_from t (mdr_RequestSummary r)
                      (t + Microseconds (mdr_DispatchLeaseDuration r) * Microsecond)) w1 = (Inr n, w2)" and
    u2: "update_commands (\<lambda>t c. cmd_ID c = commandID)
                   (\<lambda>t. sent_with t (t + Microseconds (mdr_ResultObservationTimeout r) * Microsecond)) w2 = (Inr m, w')"
    by blast
  from update_attempts_one [OF u1, of a] lock keys
  have e1: "attempt_check (?g a)" "w_now w2 = w_now w" "w_db w2 = edit_attempt attemptID ?g (w_db w)"
    by (simp_all add: owns_def)
  have k2: "keys_ok (w_db w2)" using e1(3) keys keys_edit [of "w_db w" ?g] by (simp add: dispatching_from_def)
  have "c \<in> set (tbl_commands (w_db w2))" using e1(3) lock(1) by (simp add: owns_def)
  from update_commands_one [OF u2 k2 this] lock(2) e1
  have "command_check (?f c)" "w_now w' = w_now w" "w_db w' = put_command (?f c) (edit_attempt attemptID ?g (w_db w))"
    by (simp_all add: sent_with_def)
  with that [of c a] lock guards e1 show thesis by simp
qed

lemma UpdateEvidenceFromAttempt_True:
  assumes run: "UpdateEvidenceFromAttempt commandID attemptID token CommandStatusSent w = (Inr True, w')"
    and keys: "keys_ok (w_db w)"
  obtains c a where "owns (w_db w) c a" "cmd_ID c = commandID" "att_ID a = attemptID"
    "cmd_Status c = CommandStatusSent" "att_Phase a = AttemptPhaseCompleted" "att_LeaseToken a = token"
    "att_Outcome a = Some AttemptOutcomeProviderAccepted \<or> att_Outcome a = Some AttemptOutcomeIndeterminate"
    "evidenceProgresses (cmd_ConfirmationLevel c) (cmd_EvidenceStatus c)
       (att_ConfirmationLevel a) (att_EvidenceStatus a)"
    "command_check (evidenced (w_now w) (att_ConfirmationLevel a) (att_EvidenceStatus a) c)"
    "w_now w' = w_now w"
    "w_db w' = put_command (evidenced (w_now w) (att_ConfirmationLevel a) (att_EvidenceStatus a) c) (w_db w)"
proof -
  from run obtain c a w1 where lock: "owns (w_db w) c a" "cmd_ID c = commandID" "att_ID a = attemptID"
    "w_db w1 = w_db w" "w_now w1 = w_now w" and body:
    "(let l = locked_of (w_now w) c a in
       if lck_commandStatus l \<noteq> CommandStatusSent \<or> CommandStatusSent \<noteq> CommandStatusSent \<or>
          lck_attemptPhase l \<noteq> AttemptPhaseCompleted \<or> lck_leaseToken l \<noteq> token \<or>
          (lck_attemptOutcome l \<noteq> Some AttemptOutcomeProviderAccepted \<and>
           lck_attemptOutcome l \<noteq> Some AttemptOutcomeIndeterminate) \<or>
          \<not> evidenceProgresses (lck_commandConfirmation l) (lck_commandEvidence l)
              (lck_attemptConfirmation l) (lck_attemptEvidence l)
       then ret False
       else
         bnd (update_commands (\<lambda>t c. cmd_ID c = commandID \<and> cmd_Status c = CommandStatusSent)
                (\<lambda>t. evidenced t (lck_attemptConfirmation l) (lck_attemptEvidence l))) (\<lambda>n.
         ret (exactlyOneRow n))) w1 = (Inr True, w')"
    unfolding UpdateEvidenceFromAttempt_def evidenced_def Let_def by (elim on_lock_True) blast
  from body have guards: "cmd_Status c = CommandStatusSent" "att_Phase a = AttemptPhaseCompleted" "att_LeaseToken a = token"
    "att_Outcome a = Some AttemptOutcomeProviderAccepted \<or> att_Outcome a = Some AttemptOutcomeIndeterminate"
    "evidenceProgresses (cmd_ConfirmationLevel c) (cmd_EvidenceStatus c)
       (att_ConfirmationLevel a) (att_EvidenceStatus a)"
    and upd: "\<exists>n. update_commands (\<lambda>t c. cmd_ID c = commandID \<and> cmd_Status c = CommandStatusSent)
                (\<lambda>t. evidenced t (att_ConfirmationLevel a) (att_EvidenceStatus a)) w1 = (Inr n, w')"
    by (auto simp: Let_def locked_of_def run_simps split: if_splits)
  from upd obtain n where u: "update_commands (\<lambda>t c. cmd_ID c = commandID \<and> cmd_Status c = CommandStatusSent)
                (\<lambda>t. evidenced t (att_ConfirmationLevel a) (att_EvidenceStatus a)) w1 = (Inr n, w')" by blast
  from update_commands_one [OF u, of c] lock keys guards
  have "command_check (evidenced (w_now w) (att_ConfirmationLevel a) (att_EvidenceStatus a) c) \<and> w_now w' = w_now w \<and>
    w_db w' = put_command (evidenced (w_now w) (att_ConfirmationLevel a) (att_EvidenceStatus a) c) (w_db w)"
    by (simp add: owns_def evidenced_def)
  with that [of c a] lock guards show thesis by simp
qed

text \<open>Recovery either completes the Attempt and marks the Command, or changes nothing.\<close>

lemma RecoverExpiredDispatching_run:
  assumes run: "RecoverExpiredDispatching commandID attemptID token w = (Inr b, w')" and keys: "keys_ok (w_db w)"
  obtains (refused) "\<not> b" "w_db w' = w_db w" "w_now w' = w_now w"
  | (recovered) c a where "b" "owns (w_db w) c a" "cmd_ID c = commandID" "att_ID a = attemptID"
    "cmd_Status c = CommandStatusSent" "att_Phase a = AttemptPhaseDispatching" "att_LeaseToken a = token"
    "att_LeaseExpiresAt a \<le> w_now w"
    "attempt_check (completed_as (w_now w) AttemptOutcomeIndeterminate ConfirmationTransportSent
       EvidenceUnverified [] (Some ''provider_delivery_unknown'') None a)"
    "command_check (evidenced (w_now w) ConfirmationTransportSent EvidenceUnverified c)"
    "w_now w' = w_now w"
    "w_db w' = put_command (evidenced (w_now w) ConfirmationTransportSent EvidenceUnverified c)
       (edit_attempt attemptID (completed_as (w_now w) AttemptOutcomeIndeterminate ConfirmationTransportSent
          EvidenceUnverified [] (Some ''provider_delivery_unknown'') None) (w_db w))"
proof -
  let ?g = "\<lambda>t. completed_as t AttemptOutcomeIndeterminate ConfirmationTransportSent
      EvidenceUnverified [] (Some ''provider_delivery_unknown'') None"
  let ?f = "\<lambda>t. evidenced t ConfirmationTransportSent EvidenceUnverified"
  let ?p = "\<lambda>t a. att_ID a = attemptID \<and> att_CommandID a = commandID \<and>
      att_Phase a = AttemptPhaseDispatching \<and> att_LeaseToken a = token"
  let ?q = "\<lambda>t c. cmd_ID c = commandID \<and> cmd_Status c = CommandStatusSent"
  have unfold: "RecoverExpiredDispatching commandID attemptID token =
     on_row (lockCommandAttempt commandID attemptID) (ret False) (\<lambda>l.
       if lck_commandStatus l \<noteq> CommandStatusSent \<or> lck_attemptPhase l \<noteq> AttemptPhaseDispatching \<or>
          lck_leaseToken l \<noteq> token \<or> lck_leaseValid l
       then ret False
       else bnd (update_attempts ?p (\<lambda>t d. ?g t)) (\<lambda>u. bnd (update_commands ?q ?f) (\<lambda>n. ret (exactlyOneRow n))))"
    unfolding RecoverExpiredDispatching_def completed_as_def evidenced_def by simp
  have no_rows_same: "no_rows (lockCommandAttempt commandID attemptID) w w1 \<Longrightarrow> w_db w1 = w_db w \<and> w_now w1 = w_now w" for w1
    by (auto simp: lockCommandAttempt_def run_simps)
  from run consider "\<not> b" "w_db w' = w_db w" "w_now w' = w_now w"
    | c a w1 n w2 m where "owns (w_db w) c a" "cmd_ID c = commandID" "att_ID a = attemptID"
      "w_db w1 = w_db w" "w_now w1 = w_now w"
      "cmd_Status c = CommandStatusSent" "att_Phase a = AttemptPhaseDispatching" "att_LeaseToken a = token"
      "att_LeaseExpiresAt a \<le> w_now w"
      "update_attempts ?p (\<lambda>t d. ?g t) w1 = (Inr n, w2)" "update_commands ?q ?f w2 = (Inr m, w')" "b = exactlyOneRow m"
    unfolding unfold
    by (auto simp: run_simps locked_of_def split: if_splits elim!: lockCommandAttempt_run dest!: no_rows_same)
  then show thesis
  proof cases
    case 1
    then show thesis by (rule refused)
  next
    case (2 c a w1 n w2 m)
    have a: "a \<in> set (tbl_attempts (w_db w1))" "?p (w_now w1) a" using 2 by (auto simp: owns_def)
    have e1: "attempt_check (?g (w_now w) a)" "w_now w2 = w_now w" "w_db w2 = edit_attempt attemptID (?g (w_now w)) (w_db w)"
      using update_attempts_one [OF 2(10) _ a] 2 keys by simp_all
    have k2: "keys_ok (w_db w2)"
      using e1(3) keys keys_edit [of "w_db w" "?g (w_now w)"] by (simp add: completed_as_def)
    have c: "c \<in> set (tbl_commands (w_db w2))" "?q (w_now w2) c" using e1(3) 2 by (auto simp: owns_def)
    from update_commands_one [OF 2(11) k2 c] 2 e1
    have "m = 1" "command_check (?f (w_now w) c)" "w_now w' = w_now w"
      "w_db w' = put_command (?f (w_now w) c) (edit_attempt attemptID (?g (w_now w)) (w_db w))"
      by (simp_all add: evidenced_def)
    with recovered [of c a] 2 e1 show thesis by (simp add: exactlyOneRow_def)
  qed
qed

subsection \<open>Expiry, results and claims\<close>

lemma finishQueued_run:
  assumes run: "finishQueued commandID status reason detail requireExpired w = (Inr b, w')" and keys: "keys_ok (w_db w)"
  obtains (refused) "\<not> b" "w_db w' = w_db w" "w_now w' = w_now w"
  | (free) c where "b" "c \<in> set (tbl_commands (w_db w))" "cmd_ID c = commandID" "cmd_Status c = CommandStatusQueued"
    "requireExpired \<longrightarrow> cmd_DispatchDeadlineAt c \<le> w_now w"
    "\<forall>a\<in>set (tbl_attempts (w_db w)). att_CommandID a = commandID \<longrightarrow> att_Phase a = AttemptPhaseCompleted"
    "command_check (finished_as (w_now w) status (Some reason) detail ConfirmationNone EvidenceNone c)"
    "w_now w' = w_now w"
    "w_db w' = put_command (finished_as (w_now w) status (Some reason) detail ConfirmationNone EvidenceNone c) (w_db w)"
  | (claimed) c a where "b" "owns (w_db w) c a" "cmd_ID c = commandID" "cmd_Status c = CommandStatusQueued"
    "requireExpired \<longrightarrow> cmd_DispatchDeadlineAt c \<le> w_now w"
    "att_Phase a = AttemptPhaseClaimed" "att_LeaseExpiresAt a \<le> w_now w"
    "attempt_check (completed_as (w_now w) AttemptOutcomeNotDispatched ConfirmationNone EvidenceNone []
       (Some reason) detail a)"
    "command_check (finished_as (w_now w) status (Some reason) detail ConfirmationNone EvidenceNone c)"
    "w_now w' = w_now w"
    "w_db w' = put_command (finished_as (w_now w) status (Some reason) detail ConfirmationNone EvidenceNone c)
       (edit_attempt (att_ID a) (completed_as (w_now w) AttemptOutcomeNotDispatched ConfirmationNone EvidenceNone []
          (Some reason) detail) (w_db w))"
proof -
  let ?g = "\<lambda>t. completed_as t AttemptOutcomeNotDispatched ConfirmationNone EvidenceNone [] (Some reason) detail"
  let ?f = "\<lambda>t. finished_as t status (Some reason) detail ConfirmationNone EvidenceNone"
  let ?inc = "\<lambda>t a. att_CommandID a = commandID \<and> att_Phase a \<noteq> AttemptPhaseCompleted"
  have unfold: "finishQueued commandID status reason detail requireExpired =
     on_row (select_row tbl_commands (\<lambda>t c. cmd_ID c = commandID)
               (\<lambda>t c. (cmd_Status c, cmd_DispatchDeadlineAt c \<le> t)))
       (ret False)
       (\<lambda>(commandStatus, dispatchDeadlineExpired).
          if commandStatus \<noteq> CommandStatusQueued \<or> (requireExpired \<and> \<not> dispatchDeadlineExpired) then ret False
          else
            on_row (select_row tbl_attempts ?inc
                      (\<lambda>t a. (att_ID a, att_Phase a, att_LeaseToken a, att_LeaseExpiresAt a > t)))
              (bnd (update_commands (\<lambda>t c. cmd_ID c = commandID) ?f) (\<lambda>n. ret (exactlyOneRow n)))
              (\<lambda>(attemptID, phase, leaseToken, leaseValid).
                 if leaseValid \<or> phase \<noteq> AttemptPhaseClaimed then ret False
                 else
                   bnd (update_attempts (\<lambda>t a. att_ID a = attemptID \<and> att_LeaseToken a = leaseToken) (\<lambda>t d. ?g t))
                     (\<lambda>u. bnd (update_commands (\<lambda>t c. cmd_ID c = commandID) ?f) (\<lambda>n. ret (exactlyOneRow n)))))"
    unfolding finishQueued_def finished_as_def completed_as_def Let_def by simp
  from run show thesis unfolding unfold
  proof (cases rule: on_select_cases)
    case (no_row w1)
    then show thesis using refused by (simp add: ret_run)
  next
    case (row c w1)
    have c: "c \<in> set (tbl_commands (w_db w))" "cmd_ID c = commandID" using row(1) by (auto dest: find_SomeD)
    show thesis
    proof (cases "cmd_Status c \<noteq> CommandStatusQueued \<or> (requireExpired \<and> \<not> cmd_DispatchDeadlineAt c \<le> w_now w)")
      case True
      with row refused show thesis by (auto simp: ret_run split: if_splits)
    next
      case False
      then have guards: "cmd_Status c = CommandStatusQueued" "requireExpired \<longrightarrow> cmd_DispatchDeadlineAt c \<le> w_now w" by auto
      from row(4) have "on_row (select_row tbl_attempts ?inc
                      (\<lambda>t a. (att_ID a, att_Phase a, att_LeaseToken a, att_LeaseExpiresAt a > t)))
              (bnd (update_commands (\<lambda>t c. cmd_ID c = commandID) ?f) (\<lambda>n. ret (exactlyOneRow n)))
              (\<lambda>(attemptID, phase, leaseToken, leaseValid).
                 if leaseValid \<or> phase \<noteq> AttemptPhaseClaimed then ret False
                 else
                   bnd (update_attempts (\<lambda>t a. att_ID a = attemptID \<and> att_LeaseToken a = leaseToken) (\<lambda>t d. ?g t))
                     (\<lambda>u. bnd (update_commands (\<lambda>t c. cmd_ID c = commandID) ?f) (\<lambda>n. ret (exactlyOneRow n)))) w1 = (Inr b, w')"
        unfolding prod.case if_not_P [OF False] .
      then show thesis
      proof (cases rule: on_select_cases)
        case (no_row w2)
        from no_row(4) obtain m where upd: "update_commands (\<lambda>t c. cmd_ID c = commandID) ?f w2 = (Inr m, w')"
          and b: "b = exactlyOneRow m" by (auto simp: bnd_run ret_run)
        from update_commands_one [OF upd, of c] c row no_row keys
        have "m = 1" "command_check (?f (w_now w) c)" "w_now w' = w_now w" "w_db w' = put_command (?f (w_now w) c) (w_db w)"
          by (simp_all add: finished_as_def)
        moreover have "\<forall>a\<in>set (tbl_attempts (w_db w)). att_CommandID a = commandID \<longrightarrow> att_Phase a = AttemptPhaseCompleted"
          using no_row(1) row by (auto simp: find_None_iff)
        ultimately show thesis using free [of c] guards c b by (simp add: exactlyOneRow_def)
      next
        case (row a w2)
        have a: "a \<in> set (tbl_attempts (w_db w))" "att_CommandID a = commandID"
          using row(1) \<open>w_db w1 = w_db w\<close> by (auto dest: find_SomeD)
        show thesis
        proof (cases "att_LeaseExpiresAt a > w_now w \<or> att_Phase a \<noteq> AttemptPhaseClaimed")
          case True
          with row(4) have "b = False \<and> w' = w2" by (simp add: ret_run \<open>w_now w1 = w_now w\<close>)
          with row refused \<open>w_db w1 = w_db w\<close> \<open>w_now w1 = w_now w\<close> show thesis by simp
        next
          case False
          with row(4) obtain n w3 m where
            u1: "update_attempts (\<lambda>t x. att_ID x = att_ID a \<and> att_LeaseToken x = att_LeaseToken a) (\<lambda>t d. ?g t) w2 = (Inr n, w3)"
            and u2: "update_commands (\<lambda>t c. cmd_ID c = commandID) ?f w3 = (Inr m, w')" and b: "b = exactlyOneRow m"
            by (auto simp: bnd_run ret_run \<open>w_now w1 = w_now w\<close>)
          have db: "w_db w2 = w_db w" "w_now w2 = w_now w" using row \<open>w_db w1 = w_db w\<close> \<open>w_now w1 = w_now w\<close> by simp_all
          have e1: "attempt_check (?g (w_now w) a)" "w_now w3 = w_now w"
            "w_db w3 = edit_attempt (att_ID a) (?g (w_now w)) (w_db w)"
            using update_attempts_one [OF u1, of a] db a keys by simp_all
          have k3: "keys_ok (w_db w3)"
            using e1(3) keys keys_edit [of "w_db w" "?g (w_now w)"] by (simp add: completed_as_def)
          have "c \<in> set (tbl_commands (w_db w3))" using e1(3) c by simp
          from update_commands_one [OF u2 k3 this] c e1
          have "m = 1" "command_check (?f (w_now w) c)" "w_now w' = w_now w"
            "w_db w' = put_command (?f (w_now w) c) (edit_attempt (att_ID a) (?g (w_now w)) (w_db w))"
            by (simp_all add: finished_as_def)
          with claimed [of c a] guards e1 a c b False show thesis by (simp add: exactlyOneRow_def owns_def)
        qed
      qed
    qed
  qed
qed

lemma ExpireResultObservation_run:
  assumes run: "ExpireResultObservation commandID w = (Inr b, w')" and keys: "keys_ok (w_db w)"
  obtains (refused) "\<not> b" "w_db w' = w_db w" "w_now w' = w_now w"
  | (expired) c where "b" "c \<in> set (tbl_commands (w_db w))" "cmd_ID c = commandID"
    "cmd_Status c = CommandStatusSent \<or> cmd_Status c = CommandStatusAcked" "due (w_now w) (cmd_ResultDeadlineAt c)"
    "\<forall>a\<in>set (tbl_attempts (w_db w)). att_CommandID a = commandID \<longrightarrow> att_Phase a = AttemptPhaseCompleted"
    "command_check (timed_out (w_now w) c)" "w_now w' = w_now w"
    "w_db w' = put_command (timed_out (w_now w) c) (w_db w)"
proof -
  have unfold: "ExpireResultObservation commandID =
     on_row (select_row tbl_commands (\<lambda>t c. cmd_ID c = commandID \<and> due t (cmd_ResultDeadlineAt c)) (\<lambda>t c. cmd_Status c))
       (ret False)
       (\<lambda>status.
          if status \<noteq> CommandStatusSent \<and> status \<noteq> CommandStatusAcked then ret False
          else
            on_row (select_row tbl_attempts
                      (\<lambda>t a. att_CommandID a = commandID \<and> att_Phase a \<noteq> AttemptPhaseCompleted) (\<lambda>t a. att_ID a))
              (bnd (update_commands
                      (\<lambda>t c. cmd_ID c = commandID \<and> cmd_Status c = status \<and> due t (cmd_ResultDeadlineAt c))
                      timed_out) (\<lambda>n. ret (exactlyOneRow n)))
              (\<lambda>incompleteAttemptID. ret False))"
    unfolding ExpireResultObservation_def timed_out_def by simp
  from run show thesis unfolding unfold
  proof (cases rule: on_select_cases)
    case (no_row w1)
    then show thesis using refused by (simp add: ret_run)
  next
    case (row c w1)
    have c: "c \<in> set (tbl_commands (w_db w))" "cmd_ID c = commandID" "due (w_now w) (cmd_ResultDeadlineAt c)"
      using row(1) by (auto dest: find_SomeD)
    show thesis
    proof (cases "cmd_Status c \<noteq> CommandStatusSent \<and> cmd_Status c \<noteq> CommandStatusAcked")
      case True
      with row refused show thesis by (auto simp: ret_run)
    next
      case False
      with row(4) have "on_row (select_row tbl_attempts
                      (\<lambda>t a. att_CommandID a = commandID \<and> att_Phase a \<noteq> AttemptPhaseCompleted) (\<lambda>t a. att_ID a))
              (bnd (update_commands
                      (\<lambda>t x. cmd_ID x = commandID \<and> cmd_Status x = cmd_Status c \<and> due t (cmd_ResultDeadlineAt x))
                      timed_out) (\<lambda>n. ret (exactlyOneRow n)))
              (\<lambda>incompleteAttemptID. ret False) w1 = (Inr b, w')"
        by (simp split: if_splits)
      then show thesis
      proof (cases rule: on_select_cases)
        case (row a w2)
        with refused \<open>w_db w1 = w_db w\<close> \<open>w_now w1 = w_now w\<close> show thesis by (simp add: ret_run)
      next
        case (no_row w2)
        from no_row(4) obtain m where upd: "update_commands
            (\<lambda>t x. cmd_ID x = commandID \<and> cmd_Status x = cmd_Status c \<and> due t (cmd_ResultDeadlineAt x))
            timed_out w2 = (Inr m, w')" and b: "b = exactlyOneRow m" by (auto simp: bnd_run ret_run)
        from update_commands_one [OF upd, of c] c row no_row keys
        have "m = 1" "command_check (timed_out (w_now w) c)" "w_now w' = w_now w"
          "w_db w' = put_command (timed_out (w_now w) c) (w_db w)"
          by (simp_all add: timed_out_def)
        moreover have "\<forall>a\<in>set (tbl_attempts (w_db w)). att_CommandID a = commandID \<longrightarrow> att_Phase a = AttemptPhaseCompleted"
          using no_row(1) row by (auto simp: find_None_iff)
        ultimately show thesis using expired [of c] c b False by (simp add: exactlyOneRow_def)
      qed
    qed
  qed
qed

lemma insert_attempt_run:
  "insert_attempt mk w = (Inr u, w') \<longleftrightarrow>
     next_fault w = None \<and> att_ID (mk (w_now w)) \<notin> att_ID ` set (tbl_attempts (w_db w)) \<and>
     (\<forall>x\<in>set (tbl_attempts (w_db w)). att_CommandID x = att_CommandID (mk (w_now w)) \<longrightarrow>
        att_AttemptNo x \<noteq> att_AttemptNo (mk (w_now w))) \<and>
     (\<forall>x\<in>set (tbl_attempts (w_db w)). att_ProviderCode x = att_ProviderCode (mk (w_now w)) \<longrightarrow>
        att_ProviderRequestKey x \<noteq> att_ProviderRequestKey (mk (w_now w))) \<and>
     (att_Phase (mk (w_now w)) \<noteq> AttemptPhaseCompleted \<longrightarrow>
       (\<forall>x\<in>set (tbl_attempts (w_db w)). att_CommandID x = att_CommandID (mk (w_now w)) \<longrightarrow>
          att_Phase x = AttemptPhaseCompleted)) \<and>
     attempt_check (mk (w_now w)) \<and>
     (\<exists>c\<in>set (tbl_commands (w_db w)). cmd_ID c = att_CommandID (mk (w_now w)) \<and>
        cmd_ProviderCode c = att_ProviderCode (mk (w_now w)) \<and> cmd_Adapter c = att_Adapter (mk (w_now w))) \<and>
     w' = (consume w)\<lparr>w_db := (w_db w)\<lparr>tbl_attempts := tbl_attempts (w_db w) @ [mk (w_now w)]\<rparr>\<rparr>"
  unfolding insert_attempt_def sql_run by (simp add: Let_def list_ex_iff image_iff) (auto dest: sym)

definition add_attempt :: "CommandAttempt \<Rightarrow> db \<Rightarrow> db" where
  "add_attempt a d = d\<lparr>tbl_attempts := tbl_attempts d @ [a]\<rparr>"

lemma ClaimNext_run:
  assumes run: "ClaimNext r w = (Inr res, w')" and keys: "keys_ok (w_db w)"
  obtains (none) "res = None" "w_db w' = w_db w" "w_now w' = w_now w"
  | (fresh) c a where "res = Some (c, a)" "c \<in> set (tbl_commands (w_db w))"
    "claimable (ccr_ProviderCode r) (ccr_Adapter r) (w_now w) (w_db w) c"
    "first_by (\<lambda>c. (cmd_QueuedAt c, cmd_ID c))
       (filter (claimable (ccr_ProviderCode r) (ccr_Adapter r) (w_now w) (w_db w)) (tbl_commands (w_db w))) = Some c"
    "\<forall>x\<in>set (tbl_attempts (w_db w)). att_CommandID x = cmd_ID c \<longrightarrow> att_Phase x = AttemptPhaseCompleted"
    "att_ID a \<notin> att_ID ` set (tbl_attempts (w_db w))"
    "att_Phase a = AttemptPhaseClaimed" "att_CommandID a = cmd_ID c" "att_LeaseToken a = ccr_LeaseToken r"
    "att_LeaseExpiresAt a = min (w_now w + Microseconds (ccr_LeaseDuration r) * Microsecond) (cmd_DispatchDeadlineAt c)"
    "1000 \<le> ccr_LeaseDuration r" "attempt_check a" "w_now w' = w_now w"
    "w_db w' = add_attempt a (w_db w)"
  | (taken) c a0 where "res = Some (c, leased_to (ccr_WorkerID r) (ccr_LeaseToken r)
       (min (w_now w + Microseconds (ccr_LeaseDuration r) * Microsecond) (cmd_DispatchDeadlineAt c)) a0)"
    "owns (w_db w) c a0"
    "claimable (ccr_ProviderCode r) (ccr_Adapter r) (w_now w) (w_db w) c"
    "first_by (\<lambda>c. (cmd_QueuedAt c, cmd_ID c))
       (filter (claimable (ccr_ProviderCode r) (ccr_Adapter r) (w_now w) (w_db w)) (tbl_commands (w_db w))) = Some c"
    "att_Phase a0 = AttemptPhaseClaimed" "att_LeaseExpiresAt a0 \<le> w_now w" "att_LeaseToken a0 \<noteq> ccr_LeaseToken r"
    "1000 \<le> ccr_LeaseDuration r"
    "attempt_check (leased_to (ccr_WorkerID r) (ccr_LeaseToken r)
       (min (w_now w + Microseconds (ccr_LeaseDuration r) * Microsecond) (cmd_DispatchDeadlineAt c)) a0)"
    "w_now w' = w_now w"
    "w_db w' = edit_attempt (att_ID a0) (leased_to (ccr_WorkerID r) (ccr_LeaseToken r)
       (min (w_now w + Microseconds (ccr_LeaseDuration r) * Microsecond) (cmd_DispatchDeadlineAt c))) (w_db w)"
proof -
  let ?cl = "claimable (ccr_ProviderCode r) (ccr_Adapter r)" and ?key = "\<lambda>c. (cmd_QueuedAt c, cmd_ID c)"
  let ?inc = "\<lambda>c a. att_CommandID a = cmd_ID c \<and> att_Phase a \<noteq> AttemptPhaseCompleted"
  show thesis
  proof (cases "ccr_LeaseDuration r < Microsecond")
    case True
    with run none show thesis by (simp add: ClaimNext_def ret_run)
  next
    case False
    from run consider "res = None" "w_db w' = w_db w" "w_now w' = w_now w"
      | c w1 where "first_by ?key (filter (?cl (w_now w) (w_db w)) (tbl_commands (w_db w))) = Some c"
        "find (?inc c) (tbl_attempts (w_db w)) = None" "w_db w1 = w_db w" "w_now w1 = w_now w"
        "claim_new r c w1 = (Inr res, w')"
      | c a0 w1 n w2 where "first_by ?key (filter (?cl (w_now w) (w_db w)) (tbl_commands (w_db w))) = Some c"
        "find (?inc c) (tbl_attempts (w_db w)) = Some a0" "att_LeaseToken a0 \<noteq> ccr_LeaseToken r"
        "w_db w1 = w_db w" "w_now w1 = w_now w"
        "take_over (att_ID a0) (att_LeaseToken a0) (ccr_WorkerID r) (ccr_LeaseToken r) (ccr_LeaseDuration r)
           (cmd_ID c) w1 = (Inr n, w2)"
        "(if \<not> exactlyOneRow n then ret None
          else bnd (getAttempt (att_ID a0)) (\<lambda>attempt. ret (Some (c, attempt)))) w2 = (Inr res, w')"
      unfolding ClaimNext_def if_not_P [OF False] incomplete_attempt_of_def query_row_def
    proof (cases rule: on_first_cases)
      case (no_row w1)
      with that(1) show thesis by (simp add: ret_run)
    next
      case (row c w1)
      from row(6) show thesis
      proof (cases rule: on_select_cases)
        case (no_row w2)
        with row that(2) [of c w2] show thesis by simp
      next
        case (row a0 w2)
        show thesis
        proof (cases "att_LeaseToken a0 = ccr_LeaseToken r")
          case True
          with row that(1) \<open>w_db w1 = w_db w\<close> \<open>w_now w1 = w_now w\<close> show thesis by (simp add: ret_run)
        next
          case False
          with row(4) obtain n w3 where
            "take_over (att_ID a0) (att_LeaseToken a0) (ccr_WorkerID r) (ccr_LeaseToken r) (ccr_LeaseDuration r)
               (cmd_ID c) w2 = (Inr n, w3)"
            "(if \<not> exactlyOneRow n then ret None
              else bnd (getAttempt (att_ID a0)) (\<lambda>attempt. ret (Some (c, attempt)))) w3 = (Inr res, w')"
            by (auto elim: bnd_cases)
          with row that(3) [of c a0 w2 n w3] False
            \<open>w_db w1 = w_db w\<close> \<open>w_now w1 = w_now w\<close> \<open>first_by ?key _ = Some c\<close>
          show thesis by simp
        qed
      qed
    qed
    then show thesis
    proof cases
      case 1
      then show thesis by (rule none)
    next
      case (2 c w1)
      from first_by_Some [OF 2(1)] have c: "c \<in> set (tbl_commands (w_db w))" "?cl (w_now w) (w_db w) c" by auto
      from 2(5) obtain i no w2 w3 a where
        ins: "insert_attempt (\<lambda>t.
               \<lparr>att_ID = i, att_CommandID = cmd_ID c, att_AttemptNo = no,
                att_Phase = AttemptPhaseClaimed, att_ProviderCode = ccr_ProviderCode r,
                att_Adapter = ccr_Adapter r, att_ProviderRequestKey = ccr_RequestKey r,
                att_Outcome = None, att_ConfirmationLevel = ConfirmationNone,
                att_EvidenceStatus = EvidenceNone, att_RequestSummary = ccr_RequestSummary r,
                att_ResponseSummary = [], att_ReasonCode = None, att_ErrorDetail = None,
                att_LeaseToken = ccr_LeaseToken r, att_LeaseOwner = ccr_WorkerID r,
                att_LeaseExpiresAt =
                  min (t + Microseconds (ccr_LeaseDuration r) * Microsecond) (cmd_DispatchDeadlineAt c),
                att_ClaimedAt = t, att_DispatchingAt = None, att_CompletedAt = None\<rparr>) w2 = (Inr (), w3)"
        and get: "find (\<lambda>a. att_ID a = i) (tbl_attempts (w_db w3)) = Some a" "res = Some (c, a)"
          "w_db w' = w_db w3" "w_now w' = w_now w3"
        and v: "w_db w2 = w_db w1" "w_now w2 = w_now w1"
        unfolding claim_new_def newUUID_def getAttempt_def
        by (auto simp: run_simps)
      define a' where "a' = \<lparr>att_ID = i, att_CommandID = cmd_ID c, att_AttemptNo = no,
                att_Phase = AttemptPhaseClaimed, att_ProviderCode = ccr_ProviderCode r,
                att_Adapter = ccr_Adapter r, att_ProviderRequestKey = ccr_RequestKey r,
                att_Outcome = None, att_ConfirmationLevel = ConfirmationNone,
                att_EvidenceStatus = EvidenceNone, att_RequestSummary = ccr_RequestSummary r,
                att_ResponseSummary = [], att_ReasonCode = None, att_ErrorDetail = None,
                att_LeaseToken = ccr_LeaseToken r, att_LeaseOwner = ccr_WorkerID r,
                att_LeaseExpiresAt =
                  min (w_now w + Microseconds (ccr_LeaseDuration r) * Microsecond) (cmd_DispatchDeadlineAt c),
                att_ClaimedAt = w_now w, att_DispatchingAt = None, att_CompletedAt = None\<rparr>"
      have new: "att_ID a' \<notin> att_ID ` set (tbl_attempts (w_db w))" "attempt_check a'"
        "w_db w3 = add_attempt a' (w_db w)" "w_now w3 = w_now w"
        using ins v 2 by (simp_all add: insert_attempt_run a'_def add_attempt_def)
      have "find (\<lambda>a. att_ID a = i) (tbl_attempts (w_db w)) = None"
        using new(1) by (auto simp: find_None_iff a'_def)
      then have "a = a'"
        using get(1) new(3) by (simp add: add_attempt_def find_append_None a'_def)
      moreover have "\<forall>x\<in>set (tbl_attempts (w_db w)). att_CommandID x = cmd_ID c \<longrightarrow> att_Phase x = AttemptPhaseCompleted"
        using 2(2) by (auto simp: find_None_iff)
      ultimately show thesis using fresh [of c a'] c 2 new get False by (simp add: a'_def)
    next
      case (3 c a0 w1 n w2)
      from first_by_Some [OF 3(1)] have c: "c \<in> set (tbl_commands (w_db w))" "?cl (w_now w) (w_db w) c" by auto
      from 3(2) have a0: "a0 \<in> set (tbl_attempts (w_db w))" "att_CommandID a0 = cmd_ID c"
        "att_Phase a0 \<noteq> AttemptPhaseCompleted" by (auto dest: find_SomeD)
      with c have exp: "att_Phase a0 = AttemptPhaseClaimed" "att_LeaseExpiresAt a0 \<le> w_now w"
        by (auto simp: claimable_def list_ex_iff attempt_blocks_def)
      let ?g = "leased_to (ccr_WorkerID r) (ccr_LeaseToken r)
          (min (w_now w + Microseconds (ccr_LeaseDuration r) * Microsecond) (cmd_DispatchDeadlineAt c))"
      have fc: "find (\<lambda>x. cmd_ID x = cmd_ID c) (tbl_commands (w_db w1)) = Some c"
        using find_unique [of cmd_ID "tbl_commands (w_db w1)" c] keys c 3 by (simp add: keys_ok_def)
      have g: "(\<lambda>a. a\<lparr>att_LeaseOwner := ccr_WorkerID r, att_LeaseToken := ccr_LeaseToken r,
          att_LeaseExpiresAt := min (w_now w + Microseconds (ccr_LeaseDuration r) * Microsecond) (cmd_DispatchDeadlineAt c)\<rparr>) = ?g"
        by (simp add: leased_to_def fun_eq_iff)
      from update_attempts_one [OF 3(6) [unfolded take_over_def], of a0] a0 exp 3 keys fc
      have n: "n = 1" "attempt_check (?g a0)" "w_now w2 = w_now w" "w_db w2 = edit_attempt (att_ID a0) ?g (w_db w)"
        by (simp_all add: g leased_to_def)
      have "find (\<lambda>a. att_ID a = att_ID a0) (tbl_attempts (w_db w2)) = Some (?g a0)"
      proof -
        have "?g a0 \<in> set (tbl_attempts (w_db w2))"
          using a0 n by (auto simp: edit_attempt_def on_attempt_def intro!: image_eqI [of _ _ a0])
        moreover have "keys_ok (w_db w2)"
          using n(4) keys keys_edit [of "w_db w" ?g] by (simp add: leased_to_def)
        ultimately show ?thesis
          using find_unique [of att_ID "tbl_attempts (w_db w2)" "?g a0"] by (simp add: keys_ok_def leased_to_def)
      qed
      with 3(7) n have "res = Some (c, ?g a0)" "w_db w' = w_db w2" "w_now w' = w_now w2"
        by (auto simp: exactlyOneRow_def getAttempt_def run_simps)
      with taken [of c a0] c a0 exp 3 n False show thesis by (simp add: owns_def)
    qed
  qed
qed

subsection \<open>Device results\<close>

definition result_updated :: "CommandResult \<Rightarrow> instant" where
  "result_updated r = pg_time (res_ObservedAt r)"

lemma command_Get_put:
  assumes "command_Get i w = (Inr c', w')" and "w_db w = put_command x d" and "c \<in> set (tbl_commands d)"
    and "cmd_ID c = i" and "cmd_ID x = i" and "keys_ok d"
  shows "c' = x \<and> w_db w' = w_db w \<and> w_now w' = w_now w"
proof -
  have "x \<in> set (tbl_commands (w_db w))" using assms by (auto simp: put_command_def)
  moreover have "keys_ok (w_db w)" using assms keys_put by simp
  ultimately have "find (\<lambda>c. cmd_ID c = i) (tbl_commands (w_db w)) = Some x"
    using find_unique [of cmd_ID "tbl_commands (w_db w)" x] assms(5) by (simp add: keys_ok_def)
  with assms(1) show ?thesis by (auto simp: command_Get_def query_row_run)
qed

lemma ApplyResult_run:
  assumes run: "ApplyResult r w = (Inr agg, w')" and keys: "keys_ok (w_db w)"
  obtains (same) c where "c \<in> set (tbl_commands (w_db w))" "cmd_ID c = res_CommandID r" "res_Late r"
      "IsTerminal (cmd_Status c)" "w_db w' = w_db w" "w_now w' = w_now w"
      "agg = \<lparr>cra_PreviousStatus = cmd_Status c, cra_Command = c\<rparr>"
      "\<not> evidenceProgresses (cmd_ConfirmationLevel c) (cmd_EvidenceStatus c) (res_ConfirmationLevel r) (res_EvidenceStatus r)"
  | (late) c where "c \<in> set (tbl_commands (w_db w))" "cmd_ID c = res_CommandID r" "res_Late r"
      "IsTerminal (cmd_Status c)"
      "evidenceProgresses (cmd_ConfirmationLevel c) (cmd_EvidenceStatus c) (res_ConfirmationLevel r) (res_EvidenceStatus r)"
      "command_check (evidenced (result_updated r) (res_ConfirmationLevel r) (res_EvidenceStatus r) c)"
      "w_db w' = put_command (evidenced (result_updated r) (res_ConfirmationLevel r) (res_EvidenceStatus r) c) (w_db w)"
      "w_now w' = w_now w"
      "agg = \<lparr>cra_PreviousStatus = cmd_Status c,
        cra_Command = evidenced (result_updated r) (res_ConfirmationLevel r) (res_EvidenceStatus r) c\<rparr>"
  | (applied) c status reason finished where "c \<in> set (tbl_commands (w_db w))" "cmd_ID c = res_CommandID r" "\<not> res_Late r"
      "\<not> IsTerminal (cmd_Status c)"
      "(res_Outcome r = ResultOutcomeDeviceAcked \<and> cmd_Status c = CommandStatusSent \<and>
          status = CommandStatusAcked \<and> reason = None \<and> finished = None) \<or>
       (cmd_Status c \<in> {CommandStatusSent, CommandStatusAcked} \<and> finished = Some (result_updated r) \<and>
          (res_Outcome r = ResultOutcomeDeviceSucceeded \<and> status = CommandStatusSuccess \<and> reason = None \<or>
           res_Outcome r = ResultOutcomeDeviceFailed \<and> status = CommandStatusFailed \<and>
             reason = Some ''device_reported_failure''))"
      "command_check (concluded status reason (res_ConfirmationLevel r) (res_EvidenceStatus r) finished (result_updated r) c)"
      "w_db w' = put_command (concluded status reason (res_ConfirmationLevel r) (res_EvidenceStatus r) finished
         (result_updated r) c) (w_db w)"
      "w_now w' = w_now w"
      "agg = \<lparr>cra_PreviousStatus = cmd_Status c,
        cra_Command = concluded status reason (res_ConfirmationLevel r) (res_EvidenceStatus r) finished (result_updated r) c\<rparr>"
proof -
  let ?apply = "\<lambda>status reasonCode finishedAt.
     update_commands (\<lambda>t c. cmd_ID c = res_CommandID r)
       (\<lambda>t. concluded status reasonCode (res_ConfirmationLevel r) (res_EvidenceStatus r)
          (map_option pg_time finishedAt) (result_updated r))"
  let ?late = "update_commands (\<lambda>t c. cmd_ID c = res_CommandID r)
       (\<lambda>t. evidenced (result_updated r) (res_ConfirmationLevel r) (res_EvidenceStatus r))"
  let ?finish = "\<lambda>previous. bnd (command_Get (res_CommandID r)) (\<lambda>current.
      ret \<lparr>cra_PreviousStatus = previous, cra_Command = current\<rparr>)"
  from run obtain c w1 where get: "command_Get (res_CommandID r) w = (Inr c, w1)" and body:
    "(if res_Late r \<noteq> IsTerminal (cmd_Status c) then fail ErrInvalidRepositoryRequest
      else if res_Late r then
        (if evidenceProgresses (cmd_ConfirmationLevel c) (cmd_EvidenceStatus c)
              (res_ConfirmationLevel r) (res_EvidenceStatus r)
         then bnd ?late (\<lambda>u. ?finish (cmd_Status c)) else ?finish (cmd_Status c))
      else
        (case res_Outcome r of
            ResultOutcomeDeviceAcked \<Rightarrow>
              if cmd_Status c \<noteq> CommandStatusSent then fail ErrInvalidRepositoryRequest
              else bnd (?apply CommandStatusAcked None None) (\<lambda>u. ?finish (cmd_Status c))
          | ResultOutcomeDeviceSucceeded \<Rightarrow>
              if cmd_Status c \<noteq> CommandStatusSent \<and> cmd_Status c \<noteq> CommandStatusAcked
              then fail ErrInvalidRepositoryRequest
              else bnd (?apply CommandStatusSuccess None (Some (res_ObservedAt r))) (\<lambda>u. ?finish (cmd_Status c))
          | ResultOutcomeDeviceFailed \<Rightarrow>
              if cmd_Status c \<noteq> CommandStatusSent \<and> cmd_Status c \<noteq> CommandStatusAcked
              then fail ErrInvalidRepositoryRequest
              else bnd (?apply CommandStatusFailed (Some ''device_reported_failure'') (Some (res_ObservedAt r)))
                     (\<lambda>u. ?finish (cmd_Status c))
          | ResultOutcomeOther _ \<Rightarrow> fail ErrInvalidRepositoryRequest)) w1 = (Inr agg, w')"
    unfolding ApplyResult_def Let_def concluded_def evidenced_def result_updated_def command_Get_def command_GetForUpdate_def
    by (rule bnd_cases)
  from get have c: "c \<in> set (tbl_commands (w_db w))" "cmd_ID c = res_CommandID r" and w1: "w_db w1 = w_db w" "w_now w1 = w_now w"
    by (auto simp: command_Get_def query_row_run dest: find_SomeD)
  have fc: "find (\<lambda>c. cmd_ID c = res_CommandID r) (tbl_commands (w_db w)) = Some c"
    using get by (simp add: command_Get_def query_row_run)
  have finish_same: "?finish s w1 = (Inr agg, w') \<Longrightarrow>
      agg = \<lparr>cra_PreviousStatus = s, cra_Command = c\<rparr> \<and> w_db w' = w_db w \<and> w_now w' = w_now w" for s
    using fc w1 by (auto simp: bnd_run ret_run command_Get_def query_row_run)
  have finish_put: "?finish s w2 = (Inr agg, w') \<Longrightarrow> w_db w2 = put_command x (w_db w) \<Longrightarrow> cmd_ID x = cmd_ID c \<Longrightarrow>
      agg = \<lparr>cra_PreviousStatus = s, cra_Command = x\<rparr> \<and> w_db w' = w_db w2 \<and> w_now w' = w_now w2" for s w2 x
    using c keys by (auto simp: bnd_run ret_run dest!: command_Get_put)
  show thesis
  proof (cases "res_Late r")
    case True
    then have trm: "IsTerminal (cmd_Status c)" using body by (cases "IsTerminal (cmd_Status c)") (simp_all add: fail_run)
    show thesis
    proof (cases "evidenceProgresses (cmd_ConfirmationLevel c) (cmd_EvidenceStatus c)
        (res_ConfirmationLevel r) (res_EvidenceStatus r)")
      case False
      with body True trm have "?finish (cmd_Status c) w1 = (Inr agg, w')" by simp
      from finish_same [OF this] same [OF c True trm] False show thesis by simp
    next
      case prog: True
      with body True trm obtain n w2 where u: "?late w1 = (Inr n, w2)" and f: "?finish (cmd_Status c) w2 = (Inr agg, w')"
        by (auto elim: bnd_cases)
      from update_commands_one [OF u, of c] c keys w1
      have e: "command_check (evidenced (result_updated r) (res_ConfirmationLevel r) (res_EvidenceStatus r) c)"
        "w_now w2 = w_now w"
        "w_db w2 = put_command (evidenced (result_updated r) (res_ConfirmationLevel r) (res_EvidenceStatus r) c) (w_db w)"
        by (simp_all add: evidenced_def)
      from finish_put [OF f e(3)] have "agg = \<lparr>cra_PreviousStatus = cmd_Status c,
          cra_Command = evidenced (result_updated r) (res_ConfirmationLevel r) (res_EvidenceStatus r) c\<rparr>"
        "w_db w' = w_db w2" "w_now w' = w_now w2" by (simp_all add: evidenced_def)
      with late [OF c True trm prog e(1)] e show thesis by simp
    qed
  next
    case False
    then have nterm: "\<not> IsTerminal (cmd_Status c)" using body by (cases "IsTerminal (cmd_Status c)") (simp_all add: fail_run)
    have step: thesis if u: "bnd (?apply st rs fin) (\<lambda>u. ?finish (cmd_Status c)) w1 = (Inr agg, w')"
      and ok: "(res_Outcome r = ResultOutcomeDeviceAcked \<and> cmd_Status c = CommandStatusSent \<and>
          st = CommandStatusAcked \<and> rs = None \<and> map_option pg_time fin = None) \<or>
       (cmd_Status c \<in> {CommandStatusSent, CommandStatusAcked} \<and> map_option pg_time fin = Some (result_updated r) \<and>
          (res_Outcome r = ResultOutcomeDeviceSucceeded \<and> st = CommandStatusSuccess \<and> rs = None \<or>
           res_Outcome r = ResultOutcomeDeviceFailed \<and> st = CommandStatusFailed \<and>
             rs = Some ''device_reported_failure''))" for st rs fin
    proof -
      let ?x = "concluded st rs (res_ConfirmationLevel r) (res_EvidenceStatus r) (map_option pg_time fin) (result_updated r) c"
      from u obtain n w2 where u: "?apply st rs fin w1 = (Inr n, w2)" and f: "?finish (cmd_Status c) w2 = (Inr agg, w')"
        by (rule bnd_cases)
      from update_commands_one [OF u, of c] c keys w1
      have e: "command_check ?x" "w_now w2 = w_now w" "w_db w2 = put_command ?x (w_db w)"
        by (simp_all add: concluded_def)
      from finish_put [OF f e(3)] have "agg = \<lparr>cra_PreviousStatus = cmd_Status c, cra_Command = ?x\<rparr>"
        "w_db w' = w_db w2" "w_now w' = w_now w2" by (simp_all add: concluded_def)
      with applied [OF c False nterm ok e(1)] e show thesis by simp
    qed
    show thesis
    proof (cases "res_Outcome r")
      case ResultOutcomeDeviceAcked
      with body False nterm show thesis
        by (cases "cmd_Status c = CommandStatusSent") (auto simp: fail_run intro: step [where fin = None])
    next
      case ResultOutcomeDeviceSucceeded
      with body False nterm show thesis
        by (cases "cmd_Status c \<in> {CommandStatusSent, CommandStatusAcked}")
          (auto simp: fail_run result_updated_def intro!: step [where fin = "Some (res_ObservedAt r)"])
    next
      case ResultOutcomeDeviceFailed
      with body False nterm show thesis
        by (cases "cmd_Status c \<in> {CommandStatusSent, CommandStatusAcked}")
          (auto simp: fail_run result_updated_def intro!: step [where fin = "Some (res_ObservedAt r)"])
    next
      case (ResultOutcomeOther x)
      with body False nterm show thesis by (simp add: fail_run)
    qed
  qed
qed

subsection \<open>Events and their deliveries\<close>

definition configured :: "db \<Rightarrow> gostr \<Rightarrow> currentWebhookConfig option" where
  "configured d projectID =
     (case find (\<lambda>p. prj_ID p = projectID) (tbl_projects d) of None \<Rightarrow> None | Some p \<Rightarrow> usable_config p)"

definition same_facts :: "db \<Rightarrow> db \<Rightarrow> bool" where
  "same_facts d d' \<longleftrightarrow> tbl_commands d' = tbl_commands d \<and> tbl_attempts d' = tbl_attempts d \<and>
     tbl_results d' = tbl_results d \<and> tbl_projects d' = tbl_projects d \<and> tbl_devices d' = tbl_devices d \<and>
     tbl_messages d' = tbl_messages d \<and> tbl_audits d' = tbl_audits d \<and>
     tbl_delivery_attempts d' = tbl_delivery_attempts d \<and> tbl_secrets d' = tbl_secrets d \<and>
     tbl_device_types d' = tbl_device_types d \<and> tbl_profiles d' = tbl_profiles d \<and>
     tbl_states d' = tbl_states d \<and> tbl_simulator d' = tbl_simulator d \<and> tbl_users d' = tbl_users d"

text \<open>
  \<open>announces d d' e body\<close>: nothing but the Event log and the outbox differ, the Event is the log's new
  last entry, and exactly if its Project has a usable webhook configuration there is one new pending
  Delivery of it, addressed by that configuration.
\<close>

definition announces :: "db \<Rightarrow> db \<Rightarrow> Event \<Rightarrow> gostr \<Rightarrow> bool" where
  "announces d d' e body \<longleftrightarrow> same_facts d d' \<and>
     tbl_events d' = tbl_events d @
       [e\<lparr>evt_OccurredAt := pg_time (evt_OccurredAt e), evt_CreatedAt := pg_time (evt_CreatedAt e)\<rparr>] \<and>
     (case configured d (evt_ProjectID e) of
        None \<Rightarrow> tbl_deliveries d' = tbl_deliveries d
      | Some cfg \<Rightarrow>
          (\<exists>dl. tbl_deliveries d' = tbl_deliveries d @ [dl] \<and> whd_EventID dl = evt_ID e \<and>
             whd_ProjectID dl = evt_ProjectID e \<and> whd_RawBody dl = body \<and>
             whd_Status dl = WebhookDeliveryStatusPending \<and> whd_AttemptCount dl = 0 \<and>
             whd_TargetURL dl = wcf_targetURL cfg \<and> whd_WebhookSecretVersion dl = wcf_secretVersion cfg))"

lemma same_facts_core: "announces d d' e body \<Longrightarrow> tbl_commands d' = tbl_commands d \<and> tbl_attempts d' = tbl_attempts d"
  by (simp add: announces_def same_facts_def)

lemma event_Create_run:
  "event_Create e w = (Inr u, w') \<longleftrightarrow>
     next_fault w = None \<and> evt_ID e \<notin> evt_ID ` set (tbl_events (w_db w)) \<and>
     \<not> list_ex (\<lambda>x. evt_ProjectID x = evt_ProjectID e \<and> evt_DeduplicationKey x = evt_DeduplicationKey e) (tbl_events (w_db w)) \<and>
     w' = (consume w)\<lparr>w_db := (w_db w)\<lparr>tbl_events := tbl_events (w_db w) @
       [e\<lparr>evt_OccurredAt := pg_time (evt_OccurredAt e), evt_CreatedAt := pg_time (evt_CreatedAt e)\<rparr>]\<rparr>\<rparr>"
  unfolding event_Create_def sql_run by (simp add: list_ex_iff image_iff) (auto dest: sym)

lemma lockCurrentWebhookConfig_run:
  "lockCurrentWebhookConfig projectID w = (Inr cfg, w') \<longleftrightarrow>
     next_fault w = None \<and> cfg = configured (w_db w) projectID \<and> w' = consume w"
  unfolding lockCurrentWebhookConfig_def configured_def
  by (auto simp: on_row_run query_row_run no_rows_query_row ret_run split: option.splits)

lemma insertDelivery_run:
  "insertDelivery i projectID eventID rawBody cfg replay w = (Inr u, w') \<Longrightarrow>
   w_now w' = w_now w \<and> (\<exists>dl. w_db w' = (w_db w)\<lparr>tbl_deliveries := tbl_deliveries (w_db w) @ [dl]\<rparr> \<and>
     whd_EventID dl = eventID \<and> whd_ProjectID dl = projectID \<and> whd_RawBody dl = rawBody \<and>
     whd_Status dl = WebhookDeliveryStatusPending \<and> whd_AttemptCount dl = 0 \<and>
     whd_TargetURL dl = wcf_targetURL cfg \<and> whd_WebhookSecretVersion dl = wcf_secretVersion cfg)"
  unfolding insertDelivery_def sql_run by (auto split: if_splits)

lemma publish_after:
  assumes ev: "event_Create e w = (Inr u1, w0)" and between: "w_db w1 = w_db w0" "w_now w1 = w_now w0"
    and cd: "CreateDelivery \<lparr>cwd_ID = i, cwd_EventID = evt_ID e, cwd_RawBody = body\<rparr> w1 = (Inr res, w')"
  shows "announces (w_db w) (w_db w') e body \<and> w_now w' = w_now w"
proof -
  let ?e = "e\<lparr>evt_OccurredAt := pg_time (evt_OccurredAt e), evt_CreatedAt := pg_time (evt_CreatedAt e)\<rparr>"
  from ev have fresh: "evt_ID e \<notin> evt_ID ` set (tbl_events (w_db w))" and d1: "w_now w1 = w_now w"
    "w_db w1 = (w_db w)\<lparr>tbl_events := tbl_events (w_db w) @ [?e]\<rparr>" using between by (auto simp: event_Create_run)
  have "find (\<lambda>x. evt_ID x = evt_ID e) (tbl_events (w_db w)) = None" using fresh by (simp add: find_None_iff image_iff) metis
  then have found: "find (\<lambda>x. evt_ID x = evt_ID e) (tbl_events (w_db w1)) = Some ?e"
    by (simp add: d1 find_append_None)
  have valid: "\<not> (TrimSpace i = [] \<or> TrimSpace (evt_ID e) = [] \<or> body = [])"
    using cd by (auto simp: CreateDelivery_def fail_run)
  from cd obtain w2 where w2: "w_db w2 = w_db w1" "w_now w2 = w_now w1" and rest:
    "bnd (lockCurrentWebhookConfig (evt_ProjectID e)) (\<lambda>config.
             case config of
               None \<Rightarrow> ret None
             | Some cfg \<Rightarrow>
                 bnd (insertDelivery i (evt_ProjectID e) (evt_ID e) body cfg None) (\<lambda>u.
                 bnd (webhook_GetDelivery i) (\<lambda>delivery. ret (Some delivery)))) w2 = (Inr res, w')"
    using valid unfolding CreateDelivery_def by (auto simp: found fail_run elim!: on_select_cases)
  have cfg: "configured (w_db w2) (evt_ProjectID e) = configured (w_db w) (evt_ProjectID e)"
    by (simp add: configured_def w2 d1)
  show ?thesis
  proof (cases "configured (w_db w) (evt_ProjectID e)")
    case None
    with rest cfg have "w_db w' = w_db w1" "w_now w' = w_now w"
      using w2 d1 by (auto simp: bnd_run lockCurrentWebhookConfig_run ret_run)
    with None d1 show ?thesis by (simp add: announces_def same_facts_def)
  next
    case (Some c)
    with rest cfg obtain u2 w3 w4 where
      ins: "insertDelivery i (evt_ProjectID e) (evt_ID e) body c None w3 = (Inr u2, w4)"
      and w: "w_db w3 = w_db w2" "w_now w3 = w_now w2" "w_db w' = w_db w4" "w_now w' = w_now w4"
      by (auto simp: bnd_run lockCurrentWebhookConfig_run ret_run webhook_GetDelivery_def query_row_run)
    from insertDelivery_run [OF ins] w w2 d1 Some show ?thesis
      by (auto simp: announces_def same_facts_def)
  qed
qed

lemma publish_run:
  assumes "bnd (event_Create e) (\<lambda>u. bnd (CreateDelivery \<lparr>cwd_ID = i, cwd_EventID = evt_ID e, cwd_RawBody = body\<rparr>)
      (\<lambda>delivery. ret ())) w = (Inr u, w')"
  shows "announces (w_db w) (w_db w') e body \<and> w_now w' = w_now w"
  using assms publish_after [OF _ refl refl] by (auto simp: bnd_run ret_run)

definition command_event :: "Command \<Rightarrow> EventType \<Rightarrow> gomap \<Rightarrow> gostr \<Rightarrow> Event \<Rightarrow> bool" where
  "command_event c eventType payload key e \<longleftrightarrow>
     evt_CommandID e = Some (cmd_ID c) \<and> evt_DeviceID e = Some (cmd_DeviceID c) \<and>
     evt_ProjectID e = cmd_ProjectID c \<and> evt_EventType e = eventType \<and> evt_Payload e = payload \<and>
     evt_DeduplicationKey e = key"

lemma createCommandEvent_run:
  assumes "createCommandEvent c source eventType payload key w = (Inr u, w')"
  obtains e where "announces (w_db w) (w_db w') e (json_marshal (event_envelope e))"
    "command_event c eventType payload key e" "w_now w' = w_now w"
proof -
  from assms obtain eventID deliveryID w1 t w2 where ids: "newEventIdentities w = (Inr (eventID, deliveryID), w1)"
    and t: "(if cmd_UpdatedAt c = zero_time then time_now else ret (cmd_UpdatedAt c)) w1 = (Inr t, w2)" and
    pub: "(let e = \<lparr>evt_ID = eventID, evt_SchemaVersion = EventSchemaVersion, evt_EventType = eventType,
              evt_ProjectID = cmd_ProjectID c, evt_DeviceID = Some (cmd_DeviceID c),
              evt_CommandID = Some (cmd_ID c), evt_Source = source, evt_Payload = payload,
              evt_RawMessageID = None, evt_DeduplicationKey = key,
              evt_OccurredAt = t, evt_CreatedAt = t\<rparr>
       in bnd (event_Create e) (\<lambda>u.
          bnd (CreateDelivery \<lparr>cwd_ID = deliveryID, cwd_EventID = eventID,
            cwd_RawBody = json_marshal (event_envelope e)\<rparr>) (\<lambda>delivery. ret ()))) w2 = (Inr u, w')"
    unfolding createCommandEvent_def by (auto elim!: bnd_cases)
  let ?e = "\<lparr>evt_ID = eventID, evt_SchemaVersion = EventSchemaVersion, evt_EventType = eventType,
              evt_ProjectID = cmd_ProjectID c, evt_DeviceID = Some (cmd_DeviceID c),
              evt_CommandID = Some (cmd_ID c), evt_Source = source, evt_Payload = payload,
              evt_RawMessageID = None, evt_DeduplicationKey = key,
              evt_OccurredAt = t, evt_CreatedAt = t\<rparr>"
  have w2: "w_db w2 = w_db w" "w_now w2 = w_now w"
    using ids t by (auto simp: newEventIdentities_def run_simps split: if_splits)
  have "announces (w_db w2) (w_db w') ?e (json_marshal (event_envelope ?e)) \<and> w_now w' = w_now w2"
    by (rule publish_run [of ?e deliveryID]) (use pub in \<open>simp add: Let_def\<close>)
  with that [of ?e] w2 show thesis by (simp add: command_event_def)
qed

definition status_payload :: "CommandStatus \<Rightarrow> Command \<Rightarrow> gomap" where
  "status_payload old c =
     [(''from'', JStr (wire_CommandStatus old)), (''to'', JStr (wire_CommandStatus (cmd_Status c))),
      (''reason_code'', JStrOpt (cmd_ReasonCode c)),
      (''confirmation_level'', JStr (wire_ConfirmationLevel (cmd_ConfirmationLevel c))),
      (''evidence_status'', JStr (wire_EvidenceStatus (cmd_EvidenceStatus c)))]"

lemma createStatusEvent_run:
  assumes "createStatusEvent c old source key w = (Inr u, w')"
  obtains e where "announces (w_db w) (w_db w') e (json_marshal (event_envelope e))"
    "command_event c EventTypeCommandStatusChanged (status_payload old c) key e" "old \<noteq> cmd_Status c"
    "w_now w' = w_now w"
  using assms by (auto simp: createStatusEvent_def status_payload_def fail_run split: if_splits
      elim!: createCommandEvent_run)

end
