(* ===== verification/Command_Result.thy ===== *)
theory Command_Result
  imports Command_Worker Record_Repo
begin

text \<open>
  The CommandResult service (\<open>internal/commandresultservice/service.go\<close>): a provider callback or the
  simulator reports what a Device did with a Command. \<open>Record\<close> deduplicates the report, appends it,
  lets it move the Command and announces it, in one transaction.

  A request's payload is a map of JSON values, so the encoding errors of the code's \<open>json.Marshal\<close>
  cannot occur; a nil map is None.
\<close>

record RecordRequest =
  rrq_CommandID :: gostr
  rrq_AttemptID :: "gostr option"
  rrq_Source :: EventSource
  rrq_Outcome :: ResultOutcome
  rrq_DeduplicationKey :: gostr
  rrq_ReportedAt :: "instant option"
  rrq_ObservedAt :: instant
  rrq_Payload :: "gomap option"

record RecordResult =
  rrs_Result :: CommandResult
  rrs_Command :: Command
  rrs_IdempotentReplay :: bool

definition result_confirmation :: "ResultOutcome \<Rightarrow> ConfirmationLevel option" where
  "result_confirmation outcome =
     (case outcome of
        ResultOutcomeDeviceAcked \<Rightarrow> Some ConfirmationDeviceAcked
      | ResultOutcomeDeviceSucceeded \<Rightarrow> Some ConfirmationDeviceFinal
      | ResultOutcomeDeviceFailed \<Rightarrow> Some ConfirmationDeviceFinal
      | ResultOutcomeOther _ \<Rightarrow> None)"

definition result_normalize :: "RecordRequest \<Rightarrow> instant \<Rightarrow> (RecordRequest \<times> ConfirmationLevel) option" where
  "result_normalize r now =
     (let r = r\<lparr>rrq_CommandID := TrimSpace (rrq_CommandID r),
               rrq_DeduplicationKey := TrimSpace (rrq_DeduplicationKey r)\<rparr> in
      if rrq_CommandID r = [] \<or> rrq_DeduplicationKey r = [] \<or> 256 < length (rrq_DeduplicationKey r) then None
      else if (case rrq_AttemptID r of None \<Rightarrow> False | Some v \<Rightarrow> TrimSpace v = []) then None
      else
        (let r = r\<lparr>rrq_AttemptID := map_option TrimSpace (rrq_AttemptID r)\<rparr> in
         if rrq_Source r \<notin> {EventSourceProviderCallback, EventSourceSimulator, EventSourceSystem} then None
         else
           (case result_confirmation (rrq_Outcome r) of
              None \<Rightarrow> None
            | Some confirmation \<Rightarrow>
                (let r = r\<lparr>rrq_ObservedAt := (if rrq_ObservedAt r = zero_time then now else rrq_ObservedAt r)\<rparr> in
                 if (case rrq_ReportedAt r of None \<Rightarrow> False | Some t \<Rightarrow> rrq_ObservedAt r < t) then None
                 else Some (r\<lparr>rrq_Payload := Some (case rrq_Payload r of None \<Rightarrow> [] | Some p \<Rightarrow> p)\<rparr>,
                            confirmation)))))"

definition request_payload :: "RecordRequest \<Rightarrow> gomap" where
  "request_payload r = (case rrq_Payload r of None \<Rightarrow> [] | Some p \<Rightarrow> p)"

definition sameResult :: "CommandResult \<Rightarrow> RecordRequest \<Rightarrow> ConfirmationLevel \<Rightarrow> bool" where
  "sameResult existing r confirmation \<longleftrightarrow>
     \<not> (res_CommandID existing \<noteq> rrq_CommandID r \<or> res_Source existing \<noteq> rrq_Source r \<or>
        res_Outcome existing \<noteq> rrq_Outcome r \<or> res_ConfirmationLevel existing \<noteq> confirmation \<or>
        res_EvidenceStatus existing \<noteq> EvidenceVerified \<or> res_AttemptID existing \<noteq> rrq_AttemptID r) \<and>
     json_marshal (JMap (res_Payload existing)) = json_marshal (JMap (request_payload r))"

definition result_event :: "gostr \<Rightarrow> CommandResult \<Rightarrow> Command \<Rightarrow> Event" where
  "result_event eventID r c =
     \<lparr>evt_ID = eventID, evt_SchemaVersion = EventSchemaVersion, evt_EventType = EventTypeCommandResultRecorded,
      evt_ProjectID = cmd_ProjectID c, evt_DeviceID = Some (cmd_DeviceID c), evt_CommandID = Some (cmd_ID c),
      evt_Source = res_Source r,
      evt_Payload =
        [(''status'', JStr (wire_CommandStatus (cmd_Status c))), (''result_id'', JStr (res_ID r)),
         (''outcome'', JStr (wire_ResultOutcome (res_Outcome r))),
         (''confirmation_level'', JStr (wire_ConfirmationLevel (res_ConfirmationLevel r))),
         (''evidence_status'', JStr (wire_EvidenceStatus (res_EvidenceStatus r))), (''late'', JBool (res_Late r))],
      evt_RawMessageID = None,
      evt_DeduplicationKey = ''command.result_recorded:'' @ cmd_ID c @ '':result:'' @ res_ID r,
      evt_OccurredAt = res_ObservedAt r, evt_CreatedAt = res_ObservedAt r\<rparr>"

definition createResultEvent :: "gostr \<Rightarrow> gostr \<Rightarrow> CommandResult \<Rightarrow> Command \<Rightarrow> unit tx" where
  "createResultEvent eventID deliveryID r c =
     (let e = result_event eventID r c in
      bnd (event_Create e) (\<lambda>u.
      bnd (CreateDelivery \<lparr>cwd_ID = deliveryID, cwd_EventID = evt_ID e,
             cwd_RawBody = json_marshal (event_envelope e)\<rparr>) (\<lambda>delivery. ret ())))"

definition new_result ::
  "gostr \<Rightarrow> RecordRequest \<Rightarrow> ConfirmationLevel \<Rightarrow> Command \<Rightarrow> CommandResult" where
  "new_result resultID r confirmation c =
     \<lparr>res_ID = resultID, res_CommandID = cmd_ID c, res_AttemptID = rrq_AttemptID r, res_Source = rrq_Source r,
      res_Outcome = rrq_Outcome r, res_ConfirmationLevel = confirmation, res_EvidenceStatus = EvidenceVerified,
      res_DeduplicationKey = rrq_DeduplicationKey r, res_ReportedAt = rrq_ReportedAt r,
      res_ObservedAt = rrq_ObservedAt r, res_Late = IsTerminal (cmd_Status c), res_Payload = request_payload r,
      res_CreatedAt = rrq_ObservedAt r\<rparr>"

text \<open>The body of \<open>Record\<close>'s transaction, for a normalised request and its three identities.\<close>

definition record_body ::
  "RecordRequest \<Rightarrow> ConfirmationLevel \<Rightarrow> gostr \<Rightarrow> gostr \<Rightarrow> gostr \<Rightarrow> RecordResult tx" where
  "record_body r confirmation resultID eventID deliveryID =
     on_row (command_GetForUpdate (rrq_CommandID r)) (fail ErrCommandMissing) (\<lambda>c.
     on_row (result_GetByDeduplicationKey (rrq_Source r) (rrq_DeduplicationKey r))
       (let result = new_result resultID r confirmation c in
        bnd (map_error (\<lambda>e. if errors_Is e ErrCommandResultConflict then ErrResultConflict else e)
               (result_Create result)) (\<lambda>u.
        bnd (ApplyResult result) (\<lambda>aggregation.
        bnd (createResultEvent eventID deliveryID result (cra_Command aggregation)) (\<lambda>u.
        ret \<lparr>rrs_Result = result, rrs_Command = cra_Command aggregation, rrs_IdempotentReplay = False\<rparr>))))
       (\<lambda>existing.
          if \<not> sameResult existing r confirmation then fail ErrResultConflict
          else ret \<lparr>rrs_Result = existing, rrs_Command = c, rrs_IdempotentReplay = True\<rparr>))"

definition result_Record :: "RecordRequest \<Rightarrow> RecordResult tx" where
  "result_Record request =
     bnd time_now (\<lambda>now.
     case result_normalize request now of
       None \<Rightarrow> fail ErrInvalidResult
     | Some (r, confirmation) \<Rightarrow>
         bnd randomUUID (\<lambda>resultID.
         bnd randomUUID (\<lambda>eventID.
         bnd randomUUID (\<lambda>deliveryID.
         WithinTransaction (record_body r confirmation resultID eventID deliveryID)))))"

subsection \<open>Normalisation\<close>

lemma result_normalize_cases:
  assumes "result_normalize request now = Some (r, confirmation)"
  obtains "TrimSpace (rrq_CommandID request) \<noteq> []" "TrimSpace (rrq_DeduplicationKey request) \<noteq> []"
    "length (TrimSpace (rrq_DeduplicationKey request)) \<le> 256" "map_option TrimSpace (rrq_AttemptID request) \<noteq> Some []"
    "rrq_Source request \<in> {EventSourceProviderCallback, EventSourceSimulator, EventSourceSystem}"
    "result_confirmation (rrq_Outcome request) = Some confirmation"
    "\<And>t. rrq_ReportedAt request = Some t \<Longrightarrow> t \<le> rrq_ObservedAt r"
    "r = request\<lparr>rrq_CommandID := TrimSpace (rrq_CommandID request),
       rrq_DeduplicationKey := TrimSpace (rrq_DeduplicationKey request),
       rrq_AttemptID := map_option TrimSpace (rrq_AttemptID request),
       rrq_ObservedAt := (if rrq_ObservedAt request = zero_time then now else rrq_ObservedAt request),
       rrq_Payload := Some (request_payload request)\<rparr>"
proof (cases "result_confirmation (rrq_Outcome request)")
  case None
  with assms show thesis by (simp add: result_normalize_def Let_def split: if_split_asm)
next
  case (Some level)
  with assms that show thesis
    by (simp add: result_normalize_def Let_def request_payload_def split: if_split_asm option.split_asm)
qed

lemma result_normalize_Some:
  assumes "result_normalize request now = Some (r, confirmation)"
  shows "rrq_CommandID r = TrimSpace (rrq_CommandID request)"
    and "rrq_DeduplicationKey r = TrimSpace (rrq_DeduplicationKey request)"
    and "rrq_CommandID r \<noteq> []" and "rrq_DeduplicationKey r \<noteq> []" and "length (rrq_DeduplicationKey r) \<le> 256"
    and "rrq_AttemptID r \<noteq> Some []"
    and "rrq_Outcome r = rrq_Outcome request" and "result_confirmation (rrq_Outcome r) = Some confirmation"
    and "rrq_Source r \<in> {EventSourceProviderCallback, EventSourceSimulator, EventSourceSystem}"
    and "\<And>t. rrq_ReportedAt r = Some t \<Longrightarrow> t \<le> rrq_ObservedAt r"
  by (rule result_normalize_cases [OF assms], simp)+

lemma result_confirmation_cases:
  "result_confirmation outcome = Some level \<Longrightarrow>
   level = (if outcome = ResultOutcomeDeviceAcked then ConfirmationDeviceAcked else ConfirmationDeviceFinal)"
  by (cases outcome) (auto simp: result_confirmation_def)

end
