(* ===== verification/Command_Refine.thy ===== *)
theory Command_Refine
  imports Command_Effect Command_Result
begin

text \<open>
  The transactions of the program refine the machine of \<open>Command_Life\<close>. \<open>db_ok\<close> says that every
  Command of the tables, with its Attempts, is in a state of that machine; \<open>moves\<close> that one Command has
  made one step and the others none. Each body of a transaction is shown to be such a move, with the
  Event that reports it appended by the same transaction.
\<close>

definition attempts_of :: "gostr \<Rightarrow> db \<Rightarrow> CommandAttempt list" where
  "attempts_of i d = filter (\<lambda>a. att_CommandID a = i) (tbl_attempts d)"

definition life_of :: "Command \<Rightarrow> db \<Rightarrow> life" where
  "life_of c d = (c, attempts_of (cmd_ID c) d)"

definition db_ok :: "db \<Rightarrow> bool" where
  "db_ok d \<longleftrightarrow> keys_ok d \<and> (\<forall>a\<in>set (tbl_attempts d). \<exists>c\<in>set (tbl_commands d). cmd_ID c = att_CommandID a) \<and>
     (\<forall>c\<in>set (tbl_commands d). life_ok (life_of c d))"

definition moves :: "instant \<Rightarrow> Command \<Rightarrow> Command \<Rightarrow> db \<Rightarrow> db \<Rightarrow> bool" where
  "moves t c c' d d' \<longleftrightarrow>
     c \<in> set (tbl_commands d) \<and> cmd_ID c' = cmd_ID c \<and> tbl_commands d' = tbl_commands (put_command c' d) \<and>
     keys_ok d' \<and> (\<forall>i. i \<noteq> cmd_ID c \<longrightarrow> attempts_of i d' = attempts_of i d) \<and>
     life_step t (life_of c d) (life_of c' d') \<and> rows_ok (life_of c' d')"

lemma db_ok_keys: "db_ok d \<Longrightarrow> keys_ok d"
  by (simp add: db_ok_def)

lemma db_ok_life: "db_ok d \<Longrightarrow> c \<in> set (tbl_commands d) \<Longrightarrow> life_ok (life_of c d)"
  by (simp add: db_ok_def)

lemma in_attempts_of [simp]: "a \<in> set (attempts_of i d) \<longleftrightarrow> a \<in> set (tbl_attempts d) \<and> att_CommandID a = i"
  by (auto simp: attempts_of_def)

lemma moves_db_ok:
  assumes ok: "db_ok d" and mv: "moves t c c' d d'"
  shows "db_ok d'"
proof -
  from mv have c: "c \<in> set (tbl_commands d)" "cmd_ID c' = cmd_ID c"
    and cs: "tbl_commands d' = map (\<lambda>x. if cmd_ID x = cmd_ID c' then c' else x) (tbl_commands d)"
    and same: "\<And>i. i \<noteq> cmd_ID c \<Longrightarrow> attempts_of i d' = attempts_of i d"
    and keys: "keys_ok d'" and step: "life_step t (life_of c d) (life_of c' d')" and rows: "rows_ok (life_of c' d')"
    by (auto simp: moves_def put_command_def)
  have c': "c' \<in> set (tbl_commands d')" using c by (auto simp: cs)
  have "\<exists>x\<in>set (tbl_commands d'). cmd_ID x = att_CommandID a" if a: "a \<in> set (tbl_attempts d')" for a
  proof (cases "att_CommandID a = cmd_ID c")
    case True
    with c c' show ?thesis by auto
  next
    case False
    from a have "a \<in> set (attempts_of (att_CommandID a) d')" by simp
    with same [OF False] have "a \<in> set (tbl_attempts d)" by simp
    then obtain x where "x \<in> set (tbl_commands d)" "cmd_ID x = att_CommandID a"
      using ok by (auto simp: db_ok_def)
    with False c show ?thesis by (intro bexI [of _ x]) (auto simp: cs image_iff)
  qed
  moreover have "life_ok (life_of x d')" if "x \<in> set (tbl_commands d')" for x
  proof (cases "x = c'")
    case True
    with life_step_ok [OF step _ rows] db_ok_life [OF ok c(1)] show ?thesis by simp
  next
    case False
    with that have "x \<in> set (tbl_commands d)" "cmd_ID x \<noteq> cmd_ID c" by (auto simp: cs c split: if_splits)
    with same db_ok_life [OF ok] show ?thesis by (simp add: life_of_def)
  qed
  ultimately show ?thesis using keys by (simp add: db_ok_def)
qed

lemma moves_same_tables:
  "moves t c c' d d1 \<Longrightarrow> tbl_commands d2 = tbl_commands d1 \<and> tbl_attempts d2 = tbl_attempts d1 \<Longrightarrow> moves t c c' d d2"
  by (clarsimp simp: moves_def life_of_def attempts_of_def keys_ok_def)

lemma db_ok_same_tables:
  "db_ok d \<Longrightarrow> tbl_commands d2 = tbl_commands d \<and> tbl_attempts d2 = tbl_attempts d \<Longrightarrow> db_ok d2"
  by (simp add: db_ok_def life_of_def attempts_of_def keys_ok_def)

subsection \<open>Edits that are moves\<close>

lemma attempts_of_edit:
  "(\<And>x. att_CommandID (f x) = att_CommandID x) \<Longrightarrow>
   attempts_of i (edit_attempt aid f d) = on_attempt aid f (attempts_of i d)"
  by (simp add: attempts_of_def edit_attempt_def on_attempt_def filter_map comp_def if_distrib [of att_CommandID] cong: if_cong)

lemma commands_put: "tbl_commands (put_command c d) = map (\<lambda>x. if cmd_ID x = cmd_ID c then c else x) (tbl_commands d)"
  by (simp add: put_command_def)

lemma attempts_of_put [simp]: "attempts_of i (put_command c d) = attempts_of i d"
  by (simp add: attempts_of_def)

lemma attempts_of_edit_other:
  assumes "keys_ok d" and "owns d c a" and "i \<noteq> cmd_ID c"
  shows "on_attempt (att_ID a) f (attempts_of i d) = attempts_of i d"
proof -
  have "att_ID x \<noteq> att_ID a" if "x \<in> set (attempts_of i d)" for x
    using that assms attempt_unique [of d x a] by (auto simp: owns_def)
  then show ?thesis unfolding on_attempt_def by (intro map_idI) auto
qed

lemma rows_on_attempt:
  assumes "life_ok (life_of c d)" and "attempt_check (f a)" and "owns d c a" and "keys_ok d" and "command_check c'"
  shows "rows_ok (c', on_attempt (att_ID a) f (attempts_of (cmd_ID c) d))"
proof -
  have "attempt_check (if att_ID x = att_ID a then f x else x)" if "x \<in> set (attempts_of (cmd_ID c) d)" for x
    using that assms attempt_unique [of d x a] by (auto simp: owns_def life_ok_def rows_ok_def life_of_def list_all_iff)
  then have "list_all attempt_check (on_attempt (att_ID a) f (attempts_of (cmd_ID c) d))"
    unfolding on_attempt_def list.pred_map by (simp add: list_all_iff)
  with assms(5) show ?thesis by (simp add: rows_ok_def)
qed

lemma moves_put_edit:
  assumes ok: "db_ok d" and own: "owns d c a" and i: "\<And>x. att_ID (f x) = att_ID x"
    and ci: "\<And>x. att_CommandID (f x) = att_CommandID x" and "cmd_ID c' = cmd_ID c"
    and chk: "command_check c'" "attempt_check (f a)"
    and step: "life_step t (c, attempts_of (cmd_ID c) d) (c', on_attempt (att_ID a) f (attempts_of (cmd_ID c) d))"
  shows "moves t c c' d (put_command c' (edit_attempt (att_ID a) f d))"
proof -
  have k: "keys_ok (put_command c' (edit_attempt (att_ID a) f d))"
    by (rule keys_put, rule keys_edit) (simp_all add: db_ok_keys [OF ok] i)
  have c: "c \<in> set (tbl_commands d)" using own by (simp add: owns_def)
  have r: "rows_ok (c', on_attempt (att_ID a) f (attempts_of (cmd_ID c) d))"
    by (rule rows_on_attempt) (simp_all add: db_ok_life [OF ok c] chk own db_ok_keys [OF ok])
  show ?thesis
    using c k r step \<open>cmd_ID c' = cmd_ID c\<close> attempts_of_edit_other [OF db_ok_keys [OF ok] own, of _ f]
    by (simp add: moves_def life_of_def attempts_of_edit [of f, OF ci] commands_put)
qed

lemma put_command_same:
  assumes "keys_ok d" and "c \<in> set (tbl_commands d)"
  shows "put_command c d = d"
proof -
  have "map (\<lambda>x. if cmd_ID x = cmd_ID c then c else x) (tbl_commands d) = tbl_commands d"
    using assms command_unique [of d _ c] by (intro map_idI) auto
  then show ?thesis by (simp add: put_command_def)
qed

lemma moves_edit:
  assumes ok: "db_ok d" and own: "owns d c a" and i: "\<And>x. att_ID (f x) = att_ID x"
    and ci: "\<And>x. att_CommandID (f x) = att_CommandID x" and chk: "attempt_check (f a)"
    and step: "life_step t (c, attempts_of (cmd_ID c) d) (c, on_attempt (att_ID a) f (attempts_of (cmd_ID c) d))"
  shows "moves t c c d (edit_attempt (att_ID a) f d)"
proof -
  have "command_check c" using db_ok_life [OF ok, of c] own by (simp add: owns_def life_ok_def rows_ok_def life_of_def)
  from moves_put_edit [OF ok own i ci refl this chk step]
    put_command_same [OF keys_edit [OF db_ok_keys [OF ok] i], of c] own
  show ?thesis by (simp add: owns_def)
qed

lemma moves_put:
  assumes ok: "db_ok d" and c: "c \<in> set (tbl_commands d)" and "cmd_ID c' = cmd_ID c" and "command_check c'"
    and "life_step t (c, attempts_of (cmd_ID c) d) (c', attempts_of (cmd_ID c) d)"
  shows "moves t c c' d (put_command c' d)"
  using assms keys_put [OF db_ok_keys [OF ok], of c'] db_ok_life [OF ok c]
  by (clarsimp simp: moves_def life_of_def life_ok_def rows_ok_def)

lemma moves_add:
  assumes ok: "db_ok d" and c: "c \<in> set (tbl_commands d)" and "att_ID a \<notin> att_ID ` set (tbl_attempts d)"
    and "att_CommandID a = cmd_ID c" and "attempt_check a"
    and "life_step t (c, attempts_of (cmd_ID c) d) (c, attempts_of (cmd_ID c) d @ [a])"
  shows "moves t c c d (add_attempt a d)"
proof -
  have "attempts_of i (add_attempt a d) = attempts_of i d @ (if cmd_ID c = i then [a] else [])" for i
    using assms by (simp add: attempts_of_def add_attempt_def)
  moreover have "keys_ok (add_attempt a d)" using db_ok_keys [OF ok] assms by (simp add: keys_ok_def add_attempt_def)
  moreover have "tbl_commands (add_attempt a d) = tbl_commands (put_command c d)"
    using put_command_same [OF db_ok_keys [OF ok] c] by (simp add: add_attempt_def)
  ultimately show ?thesis using assms db_ok_life [OF ok c]
    by (clarsimp simp: moves_def life_of_def life_ok_def rows_ok_def)
qed

subsection \<open>Moves that are reported\<close>

definition reported ::
  "instant \<Rightarrow> Command \<Rightarrow> Command \<Rightarrow> EventType \<Rightarrow> gomap \<Rightarrow> gostr \<Rightarrow> db \<Rightarrow> db \<Rightarrow> bool" where
  "reported t c c' eventType payload key d d' \<longleftrightarrow>
     (\<exists>d1 e. moves t c c' d d1 \<and> announces d1 d' e (json_marshal (event_envelope e)) \<and>
        command_event c' eventType payload key e)"

lemma reported_moves: "reported t c c' ty payload key d d' \<Longrightarrow> moves t c c' d d'"
  unfolding reported_def by (auto dest: same_facts_core intro: moves_same_tables)

definition status_reported :: "instant \<Rightarrow> Command \<Rightarrow> Command \<Rightarrow> db \<Rightarrow> db \<Rightarrow> bool" where
  "status_reported t c c' d d' \<longleftrightarrow> cmd_Status c' \<noteq> cmd_Status c \<and>
     reported t c c' EventTypeCommandStatusChanged (status_payload (cmd_Status c) c')
       (status_key (cmd_ID c) (cmd_Status c')) d d'"

lemma status_reported_moves: "status_reported t c c' d d' \<Longrightarrow> moves t c c' d d'"
  by (auto simp: status_reported_def dest: reported_moves)

lemma status_reportedI:
  assumes "moves t c c' d (w_db w)" and "createStatusEvent c' (cmd_Status c) source (status_key (cmd_ID c) (cmd_Status c')) w = (Inr u, w')"
  shows "status_reported t c c' d (w_db w')"
proof -
  from assms(2) obtain e where "announces (w_db w) (w_db w') e (json_marshal (event_envelope e))"
    "command_event c' EventTypeCommandStatusChanged (status_payload (cmd_Status c) c') (status_key (cmd_ID c) (cmd_Status c')) e"
    "cmd_Status c \<noteq> cmd_Status c'"
    by (rule createStatusEvent_run)
  with assms(1) show ?thesis by (auto simp: status_reported_def reported_def)
qed

definition evidence_reported :: "instant \<Rightarrow> Command \<Rightarrow> Command \<Rightarrow> db \<Rightarrow> db \<Rightarrow> bool" where
  "evidence_reported t c c' d d' \<longleftrightarrow> cmd_Status c' = cmd_Status c \<and>
     (\<exists>payload key. reported t c c' EventTypeCommandEvidenceUpdated payload key d d')"

lemma evidence_reportedI:
  assumes "moves t c c' d (w_db w)" and "cmd_Status c' = cmd_Status c"
    and "createEvidenceEvent c' attemptID outcome source key w = (Inr u, w')"
  shows "evidence_reported t c c' d (w_db w')"
proof -
  obtain payload where "createCommandEvent c' source EventTypeCommandEvidenceUpdated payload key w = (Inr u, w')"
    using assms(3) unfolding createEvidenceEvent_def by blast
  then obtain e where "announces (w_db w) (w_db w') e (json_marshal (event_envelope e))"
    "command_event c' EventTypeCommandEvidenceUpdated payload key e"
    by (rule createCommandEvent_run)
  with assms(1,2) show ?thesis by (auto simp: evidence_reported_def reported_def)
qed

lemma evidence_reported_moves: "evidence_reported t c c' d d' \<Longrightarrow> moves t c c' d d'"
  by (auto simp: evidence_reported_def dest: reported_moves)

lemma life_update_ids [simp]:
  "att_ID (completed_as t out l e resp r dt a) = att_ID a"
  "att_CommandID (completed_as t out l e resp r dt a) = att_CommandID a"
  "att_ID (leased_to ow tok x a) = att_ID a" "att_CommandID (leased_to ow tok x a) = att_CommandID a"
  "att_ID (dispatching_from t m x a) = att_ID a" "att_CommandID (dispatching_from t m x a) = att_CommandID a"
  "cmd_ID (sent_with t dl c) = cmd_ID c" "cmd_ID (finished_as t st r dt l e c) = cmd_ID c"
  "cmd_ID (evidenced t l e c) = cmd_ID c" "cmd_ID (concluded st r l e f u c) = cmd_ID c"
  "cmd_ID (timed_out t c) = cmd_ID c"
  "cmd_Status (finished_as t st r dt l e c) = st" "cmd_Status (evidenced t l e c) = cmd_Status c"
  "cmd_Status (sent_with t dl c) = CommandStatusSent" "cmd_Status (timed_out t c) = CommandStatusTimeout"
  "cmd_Status (concluded st r l e f u c) = st"
  by (simp_all add: life_updates)

lemma owns_attempts_of: "owns d c a \<Longrightarrow> a \<in> set (attempts_of (cmd_ID c) d)"
  by (simp add: owns_def)

subsection \<open>Claiming\<close>

lemma ClaimNext_moves:
  assumes run: "ClaimNext r w = (Inr res, w')" and ok: "db_ok (w_db w)"
  obtains (none) "res = None" "w_db w' = w_db w"
  | (some) c a where "res = Some (c, a)" "moves (w_now w) c c (w_db w) (w_db w')" "owns (w_db w') c a"
      "att_Phase a = AttemptPhaseClaimed" "att_LeaseToken a = ccr_LeaseToken r"
      "w_now w < att_LeaseExpiresAt a" "att_LeaseExpiresAt a \<le> cmd_DispatchDeadlineAt c"
      "first_by (\<lambda>c. (cmd_QueuedAt c, cmd_ID c))
         (filter (claimable (ccr_ProviderCode r) (ccr_Adapter r) (w_now w) (w_db w)) (tbl_commands (w_db w))) = Some c"
proof -
  have cl: "cmd_Status c = CommandStatusQueued \<and> w_now w < cmd_DispatchDeadlineAt c"
    if "claimable (ccr_ProviderCode r) (ccr_Adapter r) (w_now w) (w_db w) c" for c
    using that by (simp add: claimable_def)
  have lease: "w_now w < min (w_now w + Microseconds (ccr_LeaseDuration r) * Microsecond) x"
    if "1000 \<le> ccr_LeaseDuration r" "w_now w < x" for x
    using that Microseconds_pos by simp
  show thesis
    using run db_ok_keys [OF ok]
  proof (cases rule: ClaimNext_run)
    case none
    with that(1) show thesis by blast
  next
    case (fresh c a)
    note q = cl [OF fresh(3)] and l = lease [OF fresh(11), of "cmd_DispatchDeadlineAt c"]
    have "moves (w_now w) c c (w_db w) (add_attempt a (w_db w))"
      by (rule moves_add [OF ok fresh(2,6,8,12)], rule life_step.claim)
        (use q l fresh in simp_all)
    moreover have "owns (add_attempt a (w_db w)) c a" using fresh by (simp add: owns_def add_attempt_def)
    ultimately show thesis using that(2) [of c a] fresh q l by simp
  next
    case (taken c a0)
    let ?x = "min (w_now w + Microseconds (ccr_LeaseDuration r) * Microsecond) (cmd_DispatchDeadlineAt c)"
    let ?f = "leased_to (ccr_WorkerID r) (ccr_LeaseToken r) ?x"
    note q = cl [OF taken(3)] and l = lease [OF taken(8), of "cmd_DispatchDeadlineAt c"]
    have "moves (w_now w) c c (w_db w) (edit_attempt (att_ID a0) ?f (w_db w))"
    proof (rule moves_edit [OF ok taken(2)])
      show "life_step (w_now w) (c, attempts_of (cmd_ID c) (w_db w))
          (c, on_attempt (att_ID a0) ?f (attempts_of (cmd_ID c) (w_db w)))"
        by (rule life_step.take_over) (use q l taken owns_attempts_of [OF taken(2)] in auto)
    qed (use taken in simp_all)
    moreover have "owns (edit_attempt (att_ID a0) ?f (w_db w)) c (?f a0)"
      using taken(2) by (auto simp: owns_def edit_attempt_def on_attempt_def)
    ultimately show thesis using that(2) [of c "?f a0"] taken q l by (simp add: leased_to_def)
  qed
qed

subsection \<open>Dispatching\<close>

lemma require_run [run_simps]: "require b w = (Inr u, w') \<longleftrightarrow> b \<and> w' = w"
  by (simp add: require_def check_run)

text \<open>
  Completing the Attempt and moving its Command, one after the other in a transaction, are one move.
\<close>

lemma complete_transition_moves:
  assumes ok: "db_ok (w_db w)"
    and complete: "CompleteAttempt commandID attemptID token r w = (Inr True, w1)"
    and transition: "TransitionFromAttempt commandID attemptID token tr w1 = (Inr True, w2)"
    and same: "cst_ConfirmationLevel tr = cca_ConfirmationLevel r" "cst_EvidenceStatus tr = cca_EvidenceStatus r"
      "cst_ReasonCode tr = cca_ReasonCode r" "cst_ReasonDetail tr = cca_ErrorDetail r"
    and target: "cst_To tr = CommandStatusFailed"
    and kind: "before_dispatch_outcome (cca_Outcome r) \<and> cca_ConfirmationLevel r = ConfirmationNone \<and>
        cca_EvidenceStatus r = EvidenceNone \<and> cca_ResponseSummary r = [] \<or>
      cca_Outcome r = AttemptOutcomeTransportErrorBeforeSend \<or> cca_Outcome r = AttemptOutcomeProviderRejected"
  obtains c a where "owns (w_db w) c a" "cmd_ID c = commandID" "att_ID a = attemptID" "att_LeaseToken a = token"
    "w_now w < att_LeaseExpiresAt a" "cmd_Status c = cst_From tr"
    "moves (w_now w) c (finished_as (w_now w) CommandStatusFailed (cca_ReasonCode r) (cca_ErrorDetail r)
       (cca_ConfirmationLevel r) (cca_EvidenceStatus r) c) (w_db w) (w_db w2)"
    "w_now w2 = w_now w" "w_db w2 = put_command (finished_as (w_now w) CommandStatusFailed (cca_ReasonCode r)
       (cca_ErrorDetail r) (cca_ConfirmationLevel r) (cca_EvidenceStatus r) c) (w_db w1)" "keys_ok (w_db w1)"
    "c \<in> set (tbl_commands (w_db w1))"
proof -
  let ?g = "completed_as (w_now w) (cca_Outcome r) (cca_ConfirmationLevel r) (cca_EvidenceStatus r)
     (cca_ResponseSummary r) (cca_ReasonCode r) (cca_ErrorDetail r)"
  from complete db_ok_keys [OF ok] obtain c a where own: "owns (w_db w) c a"
    and ids: "cmd_ID c = commandID" "att_ID a = attemptID" and a: "att_Phase a \<noteq> AttemptPhaseCompleted"
    "att_LeaseToken a = token" "w_now w < att_LeaseExpiresAt a"
    and st: "cmd_Status c = (if before_dispatch_outcome (cca_Outcome r) then CommandStatusQueued else CommandStatusSent)"
    and allowed: "attemptCompletionAllowed (att_ProviderCode a) (att_Phase a) r"
    and chk: "attempt_check (?g a)" and w1: "w_now w1 = w_now w" "w_db w1 = edit_attempt attemptID ?g (w_db w)"
    by (rule CompleteAttempt_True)
  have keys1: "keys_ok (w_db w1)" unfolding w1 by (rule keys_edit [OF db_ok_keys [OF ok]]) simp
  from transition keys1 obtain c2 a2 where own2: "owns (w_db w1) c2 a2" "cmd_ID c2 = commandID" "att_ID a2 = attemptID"
    and from2: "cmd_Status c2 = cst_From tr"
    and prog: "evidenceDoesNotRegress (cmd_ConfirmationLevel c2) (cmd_EvidenceStatus c2)
       (cst_ConfirmationLevel tr) (cst_EvidenceStatus tr)"
    and chk2: "command_check (finished_as (w_now w1) (cst_To tr) (cst_ReasonCode tr) (cst_ReasonDetail tr)
       (cst_ConfirmationLevel tr) (cst_EvidenceStatus tr) c2)" and w2: "w_now w2 = w_now w1"
    "w_db w2 = put_command (finished_as (w_now w1) (cst_To tr) (cst_ReasonCode tr) (cst_ReasonDetail tr)
       (cst_ConfirmationLevel tr) (cst_EvidenceStatus tr) c2) (w_db w1)"
    by (rule TransitionFromAttempt_True)
  have "c2 = c"
    using owns_edit [OF db_ok_keys [OF ok] own, of ?g c2 a2] own2 ids w1 by simp
  let ?x = "finished_as (w_now w) CommandStatusFailed (cca_ReasonCode r) (cca_ErrorDetail r)
       (cca_ConfirmationLevel r) (cca_EvidenceStatus r) c"
  have x: "command_check ?x" and d2: "w_db w2 = put_command ?x (w_db w1)"
    using chk2 w2 w1(1) \<open>c2 = c\<close> same target by simp_all
  note mem = owns_attempts_of [OF own]
  have "life_step (w_now w) (c, attempts_of (cmd_ID c) (w_db w))
      (?x, on_attempt (att_ID a) ?g (attempts_of (cmd_ID c) (w_db w)))"
    using kind
  proof
    assume k: "before_dispatch_outcome (cca_Outcome r) \<and> cca_ConfirmationLevel r = ConfirmationNone \<and>
        cca_EvidenceStatus r = EvidenceNone \<and> cca_ResponseSummary r = []"
    then have "att_Phase a = AttemptPhaseClaimed"
      using allowed by (auto simp: attemptCompletionAllowed_def before_dispatch_outcome_def Let_def split: if_splits)
    with k st a mem show ?thesis by (simp add: life_step.refuse)
  next
    assume k: "cca_Outcome r = AttemptOutcomeTransportErrorBeforeSend \<or> cca_Outcome r = AttemptOutcomeProviderRejected"
    then have "att_Phase a = AttemptPhaseDispatching"
      using allowed by (auto simp: attemptCompletionAllowed_def Let_def split: if_splits)
    with k st a mem prog same \<open>c2 = c\<close> show ?thesis
      by (intro life_step.reject) (auto simp: before_dispatch_outcome_def)
  qed
  then have "moves (w_now w) c ?x (w_db w) (put_command ?x (edit_attempt (att_ID a) ?g (w_db w)))"
    by (intro moves_put_edit [OF ok own]) (simp_all add: x chk)
  with d2 w1 ids have "moves (w_now w) c ?x (w_db w) (w_db w2)" by simp
  moreover have "c \<in> set (tbl_commands (w_db w1))" using own by (simp add: w1 owns_def)
  ultimately show thesis
    using that [of c a] own ids a from2 \<open>c2 = c\<close> w1(1) w2(1) d2 keys1 by simp
qed

lemma fail_in_transaction_moves:
  assumes run: "fail_in_transaction c a source outcome reason detail w = (Inr u, w')" and ok: "db_ok (w_db w)"
    and out: "before_dispatch_outcome outcome"
  obtains c0 a0 where "owns (w_db w) c0 a0" "cmd_ID c0 = cmd_ID c" "att_ID a0 = att_ID a"
    "att_LeaseToken a0 = att_LeaseToken a" "w_now w < att_LeaseExpiresAt a0"
    "status_reported (w_now w) c0 (finished_as (w_now w) CommandStatusFailed (Some reason) detail
       ConfirmationNone EvidenceNone c0) (w_db w) (w_db w')" "w_now w' = w_now w"
proof -
  let ?r = "\<lparr>cca_Outcome = outcome, cca_ConfirmationLevel = ConfirmationNone, cca_EvidenceStatus = EvidenceNone,
     cca_ResponseSummary = [], cca_ReasonCode = Some reason, cca_ErrorDetail = detail\<rparr>"
  let ?tr = "\<lparr>cst_From = CommandStatusQueued, cst_To = CommandStatusFailed, cst_ReasonCode = Some reason,
     cst_ReasonDetail = detail, cst_ConfirmationLevel = ConfirmationNone, cst_EvidenceStatus = EvidenceNone\<rparr>"
  from run obtain w1 w2 c3 w3 where
    cp: "CompleteAttempt (cmd_ID c) (att_ID a) (att_LeaseToken a) ?r w = (Inr True, w1)"
    and tr: "TransitionFromAttempt (cmd_ID c) (att_ID a) (att_LeaseToken a) ?tr w1 = (Inr True, w2)"
    and get: "command_Get (cmd_ID c) w2 = (Inr c3, w3)"
    and ev: "createStatusEvent c3 CommandStatusQueued source (status_key (cmd_ID c) (cmd_Status c3)) w3 = (Inr u, w')"
    unfolding fail_in_transaction_def by (auto simp: require_run elim!: bnd_cases)
  obtain c0 a0 where own: "owns (w_db w) c0 a0" and ids: "cmd_ID c0 = cmd_ID c" "att_ID a0 = att_ID a"
    and a0: "att_LeaseToken a0 = att_LeaseToken a" "w_now w < att_LeaseExpiresAt a0"
    and st: "cmd_Status c0 = CommandStatusQueued"
    and mv: "moves (w_now w) c0 (finished_as (w_now w) CommandStatusFailed (Some reason) detail
       ConfirmationNone EvidenceNone c0) (w_db w) (w_db w2)" and w2: "w_now w2 = w_now w"
    "w_db w2 = put_command (finished_as (w_now w) CommandStatusFailed (Some reason) detail
       ConfirmationNone EvidenceNone c0) (w_db w1)" "keys_ok (w_db w1)" "c0 \<in> set (tbl_commands (w_db w1))"
    using complete_transition_moves [OF ok cp tr] out by auto
  let ?x = "finished_as (w_now w) CommandStatusFailed (Some reason) detail ConfirmationNone EvidenceNone c0"
  from command_Get_put [OF get w2(2,4)] ids w2(3) have c3: "c3 = ?x" "w_db w3 = w_db w2" "w_now w3 = w_now w2"
    by simp_all
  have "status_reported (w_now w) c0 ?x (w_db w) (w_db w')"
    by (rule status_reportedI [of _ _ _ _ w3]) (use mv ev c3 st ids in simp_all)
  moreover from ev have "w_now w' = w_now w3" by (auto elim: createStatusEvent_run)
  ultimately show thesis using that own ids a0 c3 w2 by simp
qed

lemma commit_dispatch_moves:
  assumes run: "commit_dispatch_body c a source lease summary w = (Inr b, w')" and ok: "db_ok (w_db w)"
  obtains (dispatched) c0 a0 where "b" "owns (w_db w) c0 a0" "cmd_ID c0 = cmd_ID c" "att_ID a0 = att_ID a"
      "att_LeaseToken a0 = att_LeaseToken a" "att_Phase a0 = AttemptPhaseClaimed"
      "w_now w < att_LeaseExpiresAt a0" "w_now w < cmd_DispatchDeadlineAt c0"
      "status_reported (w_now w) c0
         (sent_with (w_now w) (w_now w + Microseconds (cmd_ResultTimeout c) * Microsecond) c0) (w_db w) (w_db w')"
  | (offline) c0 a0 where "\<not> b" "owns (w_db w) c0 a0" "cmd_ID c0 = cmd_ID c" "att_ID a0 = att_ID a"
      "att_LeaseToken a0 = att_LeaseToken a" "w_now w < att_LeaseExpiresAt a0"
      "cmd_DeliveryPolicy c = DeliveryPolicyOnlineOnly"
      "\<exists>d\<in>set (tbl_devices (w_db w)). dev_ID d = cmd_DeviceID c \<and> dev_ConnectionStatus d \<noteq> ConnectionStatusOnline"
      "status_reported (w_now w) c0 (finished_as (w_now w) CommandStatusFailed (Some ''device_not_online'') None
         ConfirmationNone EvidenceNone c0) (w_db w) (w_db w')"
proof -
  let ?online = "if cmd_DeliveryPolicy c = DeliveryPolicyOnlineOnly
     then bnd (device_GetForUpdate (cmd_DeviceID c)) (\<lambda>d. ret (dev_ConnectionStatus d = ConnectionStatusOnline))
     else ret True"
  from run obtain online w1 where on: "?online w = (Inr online, w1)" and body:
    "(if \<not> online then
          bnd (fail_in_transaction c a source AttemptOutcomeNotDispatched ''device_not_online'' None)
            (\<lambda>u. ret False)
        else
          bnd (MarkDispatching (cmd_ID c) (att_ID a) (att_LeaseToken a)
                 \<lparr>mdr_ResultObservationTimeout = cmd_ResultTimeout c,
                  mdr_DispatchLeaseDuration = lease, mdr_RequestSummary = summary\<rparr>) (\<lambda>updated.
          bnd (require updated) (\<lambda>u.
          bnd (command_Get (cmd_ID c)) (\<lambda>sent.
          bnd (createStatusEvent sent CommandStatusQueued source (status_key (cmd_ID c) (cmd_Status sent)))
            (\<lambda>u. ret True))))) w1 = (Inr b, w')"
    unfolding commit_dispatch_body_def by (rule bnd_cases)
  have w1: "w_db w1 = w_db w" "w_now w1 = w_now w"
    using on by (auto simp: device_GetForUpdate_def run_simps split: if_splits)
  show thesis
  proof (cases online)
    case False
    from on False have dev: "cmd_DeliveryPolicy c = DeliveryPolicyOnlineOnly"
      "\<exists>d\<in>set (tbl_devices (w_db w)). dev_ID d = cmd_DeviceID c \<and> dev_ConnectionStatus d \<noteq> ConnectionStatusOnline"
      by (auto simp: device_GetForUpdate_def run_simps split: if_splits dest!: find_SomeD)
    from body False obtain u where nb: "\<not> b" and
      f: "fail_in_transaction c a source AttemptOutcomeNotDispatched ''device_not_online'' None w1 = (Inr u, w')"
      by (auto simp: bnd_run ret_run)
    have ok1: "db_ok (w_db w1)" and nd: "before_dispatch_outcome AttemptOutcomeNotDispatched"
      using ok w1 by (simp_all add: before_dispatch_outcome_def)
    obtain c0 a0 where "owns (w_db w) c0 a0" "cmd_ID c0 = cmd_ID c" "att_ID a0 = att_ID a"
      "att_LeaseToken a0 = att_LeaseToken a" "w_now w < att_LeaseExpiresAt a0"
      "status_reported (w_now w) c0 (finished_as (w_now w) CommandStatusFailed (Some ''device_not_online'') None
         ConfirmationNone EvidenceNone c0) (w_db w) (w_db w')"
      by (rule fail_in_transaction_moves [OF f ok1 nd, unfolded w1])
    with offline [OF nb] dev show thesis by blast
  next
    case True
    let ?r = "\<lparr>mdr_ResultObservationTimeout = cmd_ResultTimeout c,
                  mdr_DispatchLeaseDuration = lease, mdr_RequestSummary = summary\<rparr>"
    from body True obtain w2 c3 w3 u where b: "b" and
      md: "MarkDispatching (cmd_ID c) (att_ID a) (att_LeaseToken a) ?r w1 = (Inr True, w2)" and
      get: "command_Get (cmd_ID c) w2 = (Inr c3, w3)" and
      ev: "createStatusEvent c3 CommandStatusQueued source (status_key (cmd_ID c) (cmd_Status c3)) w3 = (Inr u, w')"
      by (auto simp: require_run ret_run elim!: bnd_cases)
    let ?g = "dispatching_from (w_now w) summary (w_now w + Microseconds lease * Microsecond)"
    let ?x = "\<lambda>c0. sent_with (w_now w) (w_now w + Microseconds (cmd_ResultTimeout c) * Microsecond) c0"
    have keys1: "keys_ok (w_db w1)" using ok w1 db_ok_keys by simp
    obtain c0 a0 where own: "owns (w_db w) c0 a0" and ids: "cmd_ID c0 = cmd_ID c" "att_ID a0 = att_ID a"
      and st: "cmd_Status c0 = CommandStatusQueued" "w_now w < cmd_DispatchDeadlineAt c0"
      and a0: "att_Phase a0 = AttemptPhaseClaimed" "att_LeaseToken a0 = att_LeaseToken a" "w_now w < att_LeaseExpiresAt a0"
      and chk: "attempt_check (?g a0)" "command_check (?x c0)" and w2: "w_now w2 = w_now w"
      "w_db w2 = put_command (?x c0) (edit_attempt (att_ID a) ?g (w_db w))"
      by (rule MarkDispatching_True [OF md keys1, unfolded w1 MarkDispatchingRequest.select_convs])
    have "life_step (w_now w) (c0, attempts_of (cmd_ID c0) (w_db w))
        (?x c0, on_attempt (att_ID a0) ?g (attempts_of (cmd_ID c0) (w_db w)))"
      by (rule life_step.dispatch) (use st a0 owns_attempts_of [OF own] in simp_all)
    then have "moves (w_now w) c0 (?x c0) (w_db w) (put_command (?x c0) (edit_attempt (att_ID a0) ?g (w_db w)))"
      by (intro moves_put_edit [OF ok own]) (simp_all add: chk)
    then have mv: "moves (w_now w) c0 (?x c0) (w_db w) (w_db w2)" by (simp add: w2 ids)
    from command_Get_put [OF get w2(2), of c0] own ids keys_edit [OF db_ok_keys [OF ok], of ?g]
    have c3: "c3 = ?x c0" "w_db w3 = w_db w2" by (simp_all add: owns_def)
    have "status_reported (w_now w) c0 (?x c0) (w_db w) (w_db w')"
      by (rule status_reportedI [of _ _ _ _ w3]) (use mv ev c3 st ids in simp_all)
    with dispatched [OF b own ids a0(2,1,3) st(2)] show thesis by blast
  qed
qed

lemma complete_evidence_moves:
  assumes ok: "db_ok (w_db w)"
    and complete: "CompleteAttempt commandID attemptID token r w = (Inr True, w1)"
    and update: "UpdateEvidenceFromAttempt commandID attemptID token CommandStatusSent w1 = (Inr True, w2)"
    and kind: "cca_Outcome r = AttemptOutcomeProviderAccepted \<or> cca_Outcome r = AttemptOutcomeIndeterminate"
  obtains c a where "owns (w_db w) c a" "cmd_ID c = commandID" "att_ID a = attemptID" "att_LeaseToken a = token"
    "w_now w < att_LeaseExpiresAt a" "cmd_Status c = CommandStatusSent"
    "moves (w_now w) c (evidenced (w_now w) (cca_ConfirmationLevel r) (cca_EvidenceStatus r) c) (w_db w) (w_db w2)"
    "w_db w2 = put_command (evidenced (w_now w) (cca_ConfirmationLevel r) (cca_EvidenceStatus r) c) (w_db w1)"
    "keys_ok (w_db w1)" "c \<in> set (tbl_commands (w_db w1))"
proof -
  let ?g = "completed_as (w_now w) (cca_Outcome r) (cca_ConfirmationLevel r) (cca_EvidenceStatus r)
     (cca_ResponseSummary r) (cca_ReasonCode r) (cca_ErrorDetail r)"
  let ?x = "evidenced (w_now w) (cca_ConfirmationLevel r) (cca_EvidenceStatus r)"
  from complete db_ok_keys [OF ok] obtain c a where own: "owns (w_db w) c a"
    and ids: "cmd_ID c = commandID" "att_ID a = attemptID" and a: "att_LeaseToken a = token" "w_now w < att_LeaseExpiresAt a"
    and st: "cmd_Status c = (if before_dispatch_outcome (cca_Outcome r) then CommandStatusQueued else CommandStatusSent)"
    and allowed: "attemptCompletionAllowed (att_ProviderCode a) (att_Phase a) r"
    and chk: "attempt_check (?g a)" and w1: "w_now w1 = w_now w" "w_db w1 = edit_attempt attemptID ?g (w_db w)"
    by (rule CompleteAttempt_True)
  have keys1: "keys_ok (w_db w1)" unfolding w1 by (rule keys_edit [OF db_ok_keys [OF ok]]) simp
  from update keys1 obtain c2 a2 where own2: "owns (w_db w1) c2 a2" "cmd_ID c2 = commandID" "att_ID a2 = attemptID"
    and prog: "evidenceProgresses (cmd_ConfirmationLevel c2) (cmd_EvidenceStatus c2)
       (att_ConfirmationLevel a2) (att_EvidenceStatus a2)"
    and chk2: "command_check (evidenced (w_now w1) (att_ConfirmationLevel a2) (att_EvidenceStatus a2) c2)"
    and w2: "w_db w2 = put_command (evidenced (w_now w1) (att_ConfirmationLevel a2) (att_EvidenceStatus a2) c2) (w_db w1)"
    by (rule UpdateEvidenceFromAttempt_True)
  have same: "c2 = c" "a2 = ?g a"
    using owns_edit [OF db_ok_keys [OF ok] own, of ?g c2 a2] own2 ids w1 by simp_all
  then have lv: "att_ConfirmationLevel a2 = cca_ConfirmationLevel r" "att_EvidenceStatus a2 = cca_EvidenceStatus r"
    by (simp_all add: completed_as_def)
  have st': "cmd_Status c = CommandStatusSent" using st kind by (auto simp: before_dispatch_outcome_def)
  have "att_Phase a = AttemptPhaseDispatching"
    using allowed kind by (auto simp: attemptCompletionAllowed_def Let_def split: if_splits)
  then have "life_step (w_now w) (c, attempts_of (cmd_ID c) (w_db w))
      (?x c, on_attempt (att_ID a) ?g (attempts_of (cmd_ID c) (w_db w)))"
    using st' a prog same(1) lv kind owns_attempts_of [OF own] by (intro life_step.settle) simp_all
  then have "moves (w_now w) c (?x c) (w_db w) (put_command (?x c) (edit_attempt (att_ID a) ?g (w_db w)))"
    using chk2 same(1) lv w1(1) by (intro moves_put_edit [OF ok own]) (simp_all add: chk)
  moreover have "w_db w2 = put_command (?x c) (w_db w1)" using w2 same(1) lv w1(1) by simp
  moreover have "c \<in> set (tbl_commands (w_db w1))" using own by (simp add: w1 owns_def)
  ultimately show thesis using that own ids a st' keys1 w1 by simp
qed

lemma persist_moves:
  assumes run: "persist_body reg c a r w = (Inr u, w')" and ok: "db_ok (w_db w)"
  obtains (settled) c0 a0 where "drs_Outcome r = AttemptOutcomeProviderAccepted \<or> drs_Outcome r = AttemptOutcomeIndeterminate"
      "owns (w_db w) c0 a0" "cmd_ID c0 = cmd_ID c" "att_ID a0 = att_ID a" "att_LeaseToken a0 = att_LeaseToken a"
      "w_now w < att_LeaseExpiresAt a0" "cmd_Status c0 = CommandStatusSent"
      "evidence_reported (w_now w) c0 (evidenced (w_now w) (drs_ConfirmationLevel r) (drs_EvidenceStatus r) c0)
         (w_db w) (w_db w')"
  | (failed) c0 a0 reason detail where
      "drs_Outcome r = AttemptOutcomeTransportErrorBeforeSend \<and> reason = ''provider_transport_error'' \<or>
       drs_Outcome r = AttemptOutcomeProviderRejected \<and> reason = ''provider_rejected''"
      "owns (w_db w) c0 a0" "cmd_ID c0 = cmd_ID c" "att_ID a0 = att_ID a" "att_LeaseToken a0 = att_LeaseToken a"
      "w_now w < att_LeaseExpiresAt a0" "cmd_Status c0 = CommandStatusSent"
      "status_reported (w_now w) c0 (finished_as (w_now w) CommandStatusFailed (Some reason) detail
         (drs_ConfirmationLevel r) (drs_EvidenceStatus r) c0) (w_db w) (w_db w')"
proof -
  from run obtain reason target where tr: "resultTransition r = Some (reason, target)"
    by (auto simp: persist_body_def fail_run split: option.splits)
  let ?r = "\<lparr>cca_Outcome = drs_Outcome r, cca_ConfirmationLevel = drs_ConfirmationLevel r,
     cca_EvidenceStatus = drs_EvidenceStatus r, cca_ResponseSummary = drs_ResponseSummary r,
     cca_ReasonCode = reason, cca_ErrorDetail = optional (truncate_utf8 (drs_ErrorDetail r) 4096)\<rparr>"
  let ?tr = "\<lparr>cst_From = CommandStatusSent, cst_To = target, cst_ReasonCode = reason,
     cst_ReasonDetail = optional (truncate_utf8 (drs_ErrorDetail r) 4096),
     cst_ConfirmationLevel = drs_ConfirmationLevel r, cst_EvidenceStatus = drs_EvidenceStatus r\<rparr>"
  show thesis
  proof (cases "drs_Outcome r = AttemptOutcomeProviderAccepted \<or> drs_Outcome r = AttemptOutcomeIndeterminate")
    case True
    with run tr obtain w1 w2 c3 w3 where
      cp: "CompleteAttempt (cmd_ID c) (att_ID a) (att_LeaseToken a) ?r w = (Inr True, w1)" and
      up: "UpdateEvidenceFromAttempt (cmd_ID c) (att_ID a) (att_LeaseToken a) CommandStatusSent w1 = (Inr True, w2)" and
      get: "command_Get (cmd_ID c) w2 = (Inr c3, w3)" and
      ev: "createEvidenceEvent c3 (att_ID a) (drs_Outcome r) (rgd_ResultSource reg)
                (evidence_key (cmd_ID c) (att_ID a) (drs_Outcome r)
                   (cmd_ConfirmationLevel c3) (cmd_EvidenceStatus c3)) w3 = (Inr u, w')"
      unfolding persist_body_def by (auto simp: require_run elim!: bnd_cases)
    have k: "cca_Outcome ?r = AttemptOutcomeProviderAccepted \<or> cca_Outcome ?r = AttemptOutcomeIndeterminate"
      using True by simp
    let ?x = "evidenced (w_now w) (drs_ConfirmationLevel r) (drs_EvidenceStatus r)"
    obtain c0 a0 where own: "owns (w_db w) c0 a0" and ids: "cmd_ID c0 = cmd_ID c" "att_ID a0 = att_ID a"
      and a0: "att_LeaseToken a0 = att_LeaseToken a" "w_now w < att_LeaseExpiresAt a0"
      and st: "cmd_Status c0 = CommandStatusSent" and mv: "moves (w_now w) c0 (?x c0) (w_db w) (w_db w2)"
      and w2: "w_db w2 = put_command (?x c0) (w_db w1)" "keys_ok (w_db w1)" "c0 \<in> set (tbl_commands (w_db w1))"
      by (rule complete_evidence_moves [OF ok cp up k, unfolded CompleteCommandAttemptRequest.select_convs])
    from command_Get_put [OF get w2(1,3)] ids w2(2) have c3: "c3 = ?x c0" "w_db w3 = w_db w2" by simp_all
    have "evidence_reported (w_now w) c0 (?x c0) (w_db w) (w_db w')"
      by (rule evidence_reportedI [OF _ _ ev [unfolded c3(1)]]) (use mv c3 in simp_all)
    with settled [OF True own ids a0 st] show thesis by blast
  next
    case False
    with run tr obtain w1 w2 c3 w3 where
      cp: "CompleteAttempt (cmd_ID c) (att_ID a) (att_LeaseToken a) ?r w = (Inr True, w1)" and
      up: "TransitionFromAttempt (cmd_ID c) (att_ID a) (att_LeaseToken a) ?tr w1 = (Inr True, w2)" and
      get: "command_Get (cmd_ID c) w2 = (Inr c3, w3)" and
      ev: "createStatusEvent c3 CommandStatusSent (rgd_ResultSource reg)
                (status_key (cmd_ID c) (cmd_Status c3)) w3 = (Inr u, w')"
      unfolding persist_body_def by (auto simp: require_run elim!: bnd_cases)
    from False tr obtain rs where why: "drs_Outcome r = AttemptOutcomeTransportErrorBeforeSend \<and> rs = ''provider_transport_error'' \<or>
       drs_Outcome r = AttemptOutcomeProviderRejected \<and> rs = ''provider_rejected''"
      and tgt: "reason = Some rs" "target = CommandStatusFailed"
      by (cases "drs_Outcome r") (auto simp: resultTransition_def)
    let ?dt = "optional (truncate_utf8 (drs_ErrorDetail r) 4096)"
    have k: "before_dispatch_outcome (cca_Outcome ?r) \<and> cca_ConfirmationLevel ?r = ConfirmationNone \<and>
        cca_EvidenceStatus ?r = EvidenceNone \<and> cca_ResponseSummary ?r = [] \<or>
      cca_Outcome ?r = AttemptOutcomeTransportErrorBeforeSend \<or> cca_Outcome ?r = AttemptOutcomeProviderRejected"
      using why by auto
    let ?x = "finished_as (w_now w) CommandStatusFailed (Some rs) ?dt (drs_ConfirmationLevel r) (drs_EvidenceStatus r)"
    obtain c0 a0 where own: "owns (w_db w) c0 a0" and ids: "cmd_ID c0 = cmd_ID c" "att_ID a0 = att_ID a"
      and a0: "att_LeaseToken a0 = att_LeaseToken a" "w_now w < att_LeaseExpiresAt a0"
      and st: "cmd_Status c0 = CommandStatusSent" and mv: "moves (w_now w) c0 (?x c0) (w_db w) (w_db w2)"
      and w2: "w_db w2 = put_command (?x c0) (w_db w1)" "keys_ok (w_db w1)" "c0 \<in> set (tbl_commands (w_db w1))"
      by (rule complete_transition_moves [OF ok cp [unfolded tgt] up [unfolded tgt] _ _ _ _ _ k [unfolded tgt],
        unfolded CompleteCommandAttemptRequest.select_convs CommandStatusTransition.select_convs]) (rule refl)+
    from command_Get_put [OF get w2(1,3)] ids w2(2) have c3: "c3 = ?x c0" "w_db w3 = w_db w2" by simp_all
    have "status_reported (w_now w) c0 (?x c0) (w_db w) (w_db w')"
      by (rule status_reportedI [of _ _ _ _ w3]) (use mv ev c3 st ids in simp_all)
    with failed [OF why own ids a0 st] show thesis by blast
  qed
qed

subsection \<open>Recovery, expiry and cancellation\<close>

lemma recover_moves:
  assumes run: "recover_body w = (Inr b, w')" and ok: "db_ok (w_db w)"
  obtains (idle) "\<not> b" "w_db w' = w_db w"
  | (recovered) c a where "b" "owns (w_db w) c a" "cmd_Status c = CommandStatusSent"
      "att_Phase a = AttemptPhaseDispatching" "att_LeaseExpiresAt a \<le> w_now w"
      "evidence_reported (w_now w) c (evidenced (w_now w) ConfirmationTransportSent EvidenceUnverified c) (w_db w) (w_db w')"
proof -
  from run obtain res w1 where rec: "RecoverNextExpiredDispatching w = (Inr res, w1)" and rest:
    "(case res of None \<Rightarrow> ret False
      | Some (c, a) \<Rightarrow>
         bnd (createEvidenceEvent c (att_ID a) AttemptOutcomeIndeterminate EventSourceSystem
                (''command.evidence_updated:'' @ cmd_ID c @ '':attempt:'' @ att_ID a @
                 '':indeterminate:transport_sent:unverified'')) (\<lambda>u. ret True)) w1 = (Inr b, w')"
    unfolding recover_body_def by (rule bnd_cases)
  from rec show thesis unfolding RecoverNextExpiredDispatching_def
  proof (cases rule: on_first_cases)
    case (no_row w2)
    with rest idle show thesis by (auto simp: ret_run)
  next
    case (row a w2)
    note w2 = row(4,5)
    from row(6) obtain upd w3 where rx: "RecoverExpiredDispatching (att_CommandID a) (att_ID a) (att_LeaseToken a) w2 = (Inr upd, w3)"
      and r3: "(if \<not> upd then ret None else bnd (command_Get (att_CommandID a)) (\<lambda>c.
            bnd (getAttempt (att_ID a)) (\<lambda>attempt. ret (Some (c, attempt))))) w3 = (Inr res, w1)"
      by (rule bnd_cases)
    have keys2: "keys_ok (w_db w2)" using ok w2 db_ok_keys by simp
    from rx keys2 show thesis
    proof (cases rule: RecoverExpiredDispatching_run)
      case refused
      with r3 rest idle w2 show thesis by (auto simp: ret_run)
    next
      case (recovered c0 a0)
      let ?g = "completed_as (w_now w) AttemptOutcomeIndeterminate ConfirmationTransportSent
          EvidenceUnverified [] (Some ''provider_delivery_unknown'') None"
      let ?x = "evidenced (w_now w) ConfirmationTransportSent EvidenceUnverified c0"
      have own: "owns (w_db w) c0 a0" using recovered(2) w2 by simp
      have d3: "w_db w3 = put_command ?x (edit_attempt (att_ID a0) ?g (w_db w))"
        using recovered w2 by simp
      have "life_step (w_now w) (c0, attempts_of (cmd_ID c0) (w_db w))
          (?x, on_attempt (att_ID a0) ?g (attempts_of (cmd_ID c0) (w_db w)))"
        by (rule life_step.recover) (use recovered w2 owns_attempts_of [OF own] in simp_all)
      then have mv: "moves (w_now w) c0 ?x (w_db w) (w_db w3)"
        unfolding d3 using recovered w2 by (intro moves_put_edit [OF ok own]) simp_all
      from r3 recovered(1) obtain c1 w4 at w5 where get: "command_Get (att_CommandID a) w3 = (Inr c1, w4)"
        and ga: "getAttempt (att_ID a) w4 = (Inr at, w5)" and res: "res = Some (c1, at)" "w1 = w5"
        by (auto simp: bnd_run ret_run)
      have "keys_ok (edit_attempt (att_ID a0) ?g (w_db w))"
        by (rule keys_edit [OF db_ok_keys [OF ok]]) simp
      from command_Get_put [OF get d3, of c0] own recovered(3) this
      have c1: "c1 = ?x" "w_db w4 = w_db w3" by (simp_all add: owns_def)
      have w5: "w_db w5 = w_db w4" using ga by (auto simp: getAttempt_def query_row_run)
      from rest res obtain u where b: "b" and ev: "createEvidenceEvent ?x (att_ID at) AttemptOutcomeIndeterminate EventSourceSystem
                (''command.evidence_updated:'' @ cmd_ID c1 @ '':attempt:'' @ att_ID at @
                 '':indeterminate:transport_sent:unverified'') w5 = (Inr u, w')"
        by (auto simp: bnd_run ret_run c1)
      have "evidence_reported (w_now w) c0 ?x (w_db w) (w_db w')"
        by (rule evidence_reportedI [OF _ _ ev]) (use mv c1 w5 in simp_all)
      with that(2) [OF b own] recovered w2 show thesis by simp
    qed
  qed
qed

text \<open>\<open>finishQueued\<close>, with which a Command leaves the queue without being dispatched.\<close>

lemma finishQueued_moves:
  assumes run: "finishQueued commandID status reason detail requireExpired w = (Inr b, w')" and ok: "db_ok (w_db w)"
    and status: "status = CommandStatusCancelled \<or> status = CommandStatusTimeout"
  obtains (refused) "\<not> b" "w_db w' = w_db w" "w_now w' = w_now w"
  | (finished) c where "b" "c \<in> set (tbl_commands (w_db w))" "cmd_ID c = commandID" "cmd_Status c = CommandStatusQueued"
      "requireExpired \<longrightarrow> cmd_DispatchDeadlineAt c \<le> w_now w"
      "moves (w_now w) c (finished_as (w_now w) status (Some reason) detail ConfirmationNone EvidenceNone c) (w_db w) (w_db w')"
      "\<exists>d. w_db w' = put_command (finished_as (w_now w) status (Some reason) detail ConfirmationNone EvidenceNone c) d \<and>
         keys_ok d \<and> c \<in> set (tbl_commands d)" "w_now w' = w_now w"
  using run db_ok_keys [OF ok]
proof (cases rule: finishQueued_run)
  case refused
  with that(1) show thesis by blast
next
  case (free c)
  let ?x = "finished_as (w_now w) status (Some reason) detail ConfirmationNone EvidenceNone c"
  have "moves (w_now w) c ?x (w_db w) (put_command ?x (w_db w))"
    using free status by (intro moves_put [OF ok] life_step.give_up) simp_all
  with free db_ok_keys [OF ok] show thesis by (intro finished [of c]) auto
next
  case (claimed c a)
  let ?x = "finished_as (w_now w) status (Some reason) detail ConfirmationNone EvidenceNone c"
  let ?g = "completed_as (w_now w) AttemptOutcomeNotDispatched ConfirmationNone EvidenceNone [] (Some reason) detail"
  have "life_step (w_now w) (c, attempts_of (cmd_ID c) (w_db w))
      (?x, on_attempt (att_ID a) ?g (attempts_of (cmd_ID c) (w_db w)))"
    using claimed status owns_attempts_of [OF claimed(2)] by (intro life_step.give_up_claimed) simp_all
  then have "moves (w_now w) c ?x (w_db w) (put_command ?x (edit_attempt (att_ID a) ?g (w_db w)))"
    using claimed by (intro moves_put_edit [OF ok]) simp_all
  moreover have "keys_ok (edit_attempt (att_ID a) ?g (w_db w))" by (rule keys_edit [OF db_ok_keys [OF ok]]) simp
  ultimately show thesis using claimed by (intro finished [of c]) (auto simp: owns_def)
qed

lemma ExpireQueued_moves:
  assumes run: "expire_queued_body w = (Inr b, w')" and ok: "db_ok (w_db w)"
  obtains (idle) "\<not> b" "w_db w' = w_db w"
  | (expired) c where "b" "c \<in> set (tbl_commands (w_db w))" "cmd_Status c = CommandStatusQueued"
      "cmd_DispatchDeadlineAt c \<le> w_now w"
      "status_reported (w_now w) c (finished_as (w_now w) CommandStatusTimeout (Some ''dispatch_deadline_exceeded'') None
         ConfirmationNone EvidenceNone c) (w_db w) (w_db w')"
proof -
  from run obtain res w1 where rec: "ExpireNextQueued w = (Inr res, w1)" and rest:
    "(case res of None \<Rightarrow> ret False
      | Some c \<Rightarrow> bnd (createStatusEvent c CommandStatusQueued EventSourceSystem (status_key (cmd_ID c) (cmd_Status c)))
           (\<lambda>u. ret True)) w1 = (Inr b, w')"
    unfolding expire_queued_body_def by (rule bnd_cases)
  from rec show thesis unfolding ExpireNextQueued_def
  proof (cases rule: on_first_cases)
    case (no_row w2)
    with rest idle show thesis by (auto simp: ret_run)
  next
    case (row c w2)
    note w2 = row(4,5)
    from row(6) obtain upd w3 where fin: "finishQueued (cmd_ID c) CommandStatusTimeout ''dispatch_deadline_exceeded'' None True w2 = (Inr upd, w3)"
      and r3: "(if \<not> upd then ret None else bnd (command_Get (cmd_ID c)) (\<lambda>c'. ret (Some c'))) w3 = (Inr res, w1)"
      unfolding ExpireQueued_def by (rule bnd_cases)
    have ok2: "db_ok (w_db w2)" using ok w2 by simp
    have timeout: "CommandStatusTimeout = CommandStatusCancelled \<or> CommandStatusTimeout = CommandStatusTimeout" by simp
    from fin ok2 timeout show thesis
    proof (cases rule: finishQueued_moves)
      case refused
      with r3 rest idle w2 show thesis by (auto simp: ret_run)
    next
      case (finished c0)
      let ?x = "finished_as (w_now w) CommandStatusTimeout (Some ''dispatch_deadline_exceeded'') None ConfirmationNone EvidenceNone c0"
      from finished(7) w2 obtain d where d: "w_db w3 = put_command ?x d" "keys_ok d" "c0 \<in> set (tbl_commands d)" by auto
      from r3 finished(1) obtain c1 w4 where get: "command_Get (cmd_ID c) w3 = (Inr c1, w4)" and res: "res = Some c1" "w1 = w4"
        by (auto simp: bnd_run ret_run)
      from command_Get_put [OF get d(1,3)] finished(3) d(2) have c1: "c1 = ?x" "w_db w4 = w_db w3" by simp_all
      from rest res obtain u where b: "b" and ev: "createStatusEvent ?x CommandStatusQueued EventSourceSystem
          (status_key (cmd_ID c0) (cmd_Status ?x)) w4 = (Inr u, w')"
        by (auto simp: bnd_run ret_run c1)
      have "status_reported (w_now w) c0 ?x (w_db w) (w_db w')"
        by (rule status_reportedI [of _ _ _ _ w4]) (use finished w2 c1 ev in simp_all)
      with expired [OF b, of c0] finished w2 show thesis by simp
    qed
  qed
qed

lemma ExpireResult_moves:
  assumes run: "expire_result_body w = (Inr b, w')" and ok: "db_ok (w_db w)"
  obtains (idle) "\<not> b" "w_db w' = w_db w"
  | (expired) c where "b" "c \<in> set (tbl_commands (w_db w))"
      "cmd_Status c = CommandStatusSent \<or> cmd_Status c = CommandStatusAcked" "due (w_now w) (cmd_ResultDeadlineAt c)"
      "status_reported (w_now w) c (timed_out (w_now w) c) (w_db w) (w_db w')"
proof -
  from run obtain res w1 where rec: "ExpireNextResultObservation w = (Inr res, w1)" and rest:
    "(case res of None \<Rightarrow> ret False
      | Some (c, previousStatus) \<Rightarrow>
         bnd (createStatusEvent c previousStatus EventSourceSystem (status_key (cmd_ID c) (cmd_Status c)))
           (\<lambda>u. ret True)) w1 = (Inr b, w')"
    unfolding expire_result_body_def by (rule bnd_cases)
  from rec show thesis unfolding ExpireNextResultObservation_def
  proof (cases rule: on_first_cases)
    case (no_row w2)
    with rest idle show thesis by (auto simp: ret_run)
  next
    case (row c w2)
    note w2 = row(4,5)
    from row(6) obtain upd w3 where fin: "ExpireResultObservation (cmd_ID c) w2 = (Inr upd, w3)"
      and r3: "(if \<not> upd then ret None else bnd (command_Get (cmd_ID c)) (\<lambda>c'. ret (Some (c', cmd_Status c)))) w3 = (Inr res, w1)"
      by (rule bnd_cases)
    have keys2: "keys_ok (w_db w2)" using ok w2 db_ok_keys by simp
    from fin keys2 show thesis
    proof (cases rule: ExpireResultObservation_run)
      case refused
      with r3 rest idle w2 show thesis by (auto simp: ret_run)
    next
      case (expired c0)
      let ?x = "timed_out (w_now w) c0"
      have c0: "c0 \<in> set (tbl_commands (w_db w))" using expired w2 by simp
      have "c0 = c" using command_unique [OF db_ok_keys [OF ok] c0 row(2)] expired by simp
      have d3: "w_db w3 = put_command ?x (w_db w)" using expired w2 by simp
      have mv: "moves (w_now w) c0 ?x (w_db w) (w_db w3)"
        unfolding d3 using expired w2 by (intro moves_put [OF ok c0] life_step.overdue) simp_all
      from r3 expired(1) obtain c1 w4 where get: "command_Get (cmd_ID c) w3 = (Inr c1, w4)"
        and res: "res = Some (c1, cmd_Status c)" "w1 = w4"
        by (auto simp: bnd_run ret_run)
      from command_Get_put [OF get d3 c0] expired(3) db_ok_keys [OF ok] have c1: "c1 = ?x" "w_db w4 = w_db w3" by simp_all
      from rest res obtain u where b: "b" and ev: "createStatusEvent ?x (cmd_Status c0) EventSourceSystem
          (status_key (cmd_ID c0) (cmd_Status ?x)) w4 = (Inr u, w')"
        by (auto simp: bnd_run ret_run c1 \<open>c0 = c\<close>)
      have "status_reported (w_now w) c0 ?x (w_db w) (w_db w')"
        by (rule status_reportedI [of _ _ _ _ w4]) (use mv c1 ev in simp_all)
      with that(2) [OF b c0] expired w2 show thesis by simp
    qed
  qed
qed

subsection \<open>Results\<close>

lemma on_query_cases:
  assumes "on_row (query_row tbl p) none some w = (Inr y, w')"
  obtains (row) r w1 where "r \<in> set (tbl (w_db w))" "p (w_now w) r" "w_db w1 = w_db w" "w_now w1 = w_now w"
      "some r w1 = (Inr y, w')"
  | (no_row) w1 where "\<forall>r\<in>set (tbl (w_db w)). \<not> p (w_now w) r" "w_db w1 = w_db w" "w_now w1 = w_now w"
      "none w1 = (Inr y, w')"
  using assms unfolding query_row_def
  by (rule on_select_cases) (auto simp: find_None_iff dest: find_SomeD intro: that)

lemma insert_result_run:
  "insert_result r w = (Inr u, w') \<Longrightarrow>
     w_db w' = (w_db w)\<lparr>tbl_results := tbl_results (w_db w) @ [r]\<rparr> \<and> w_now w' = w_now w \<and> result_check r \<and>
     res_ID r \<notin> res_ID ` set (tbl_results (w_db w)) \<and>
     (\<forall>x\<in>set (tbl_results (w_db w)). \<not> (res_Source x = res_Source r \<and> res_DeduplicationKey x = res_DeduplicationKey r))"
  unfolding insert_result_def sql_run by (auto simp: list_ex_iff image_iff split: if_splits)

lemma ApplyResult_moves:
  assumes run: "ApplyResult r w = (Inr agg, w')" and ok: "db_ok (w_db w)"
    and level: "result_confirmation (res_Outcome r) = Some (res_ConfirmationLevel r)"
    and evidence: "res_EvidenceStatus r = EvidenceVerified"
  obtains c where "c \<in> set (tbl_commands (w_db w))" "cmd_ID c = res_CommandID r" "res_Late r = IsTerminal (cmd_Status c)"
    "cra_PreviousStatus agg = cmd_Status c" "w_now w' = w_now w"
    "moves (w_now w) c (cra_Command agg) (w_db w) (w_db w') \<or> cra_Command agg = c \<and> w_db w' = w_db w"
    "tbl_results (w_db w') = tbl_results (w_db w)"
  using run db_ok_keys [OF ok]
proof (cases rule: ApplyResult_run)
  case (same c)
  with that [of c] show thesis by simp
next
  case (late c)
  have "moves (w_now w) c (evidenced (result_updated r) (res_ConfirmationLevel r) (res_EvidenceStatus r) c) (w_db w)
      (put_command (evidenced (result_updated r) (res_ConfirmationLevel r) (res_EvidenceStatus r) c) (w_db w))"
    using late by (intro moves_put [OF ok] life_step.late_result) simp_all
  with late that [of c] show thesis by simp
next
  case (applied c status reason finished)
  let ?x = "concluded status reason (res_ConfirmationLevel r) (res_EvidenceStatus r) finished (result_updated r) c"
  have "life_step (w_now w) (c, attempts_of (cmd_ID c) (w_db w)) (?x, attempts_of (cmd_ID c) (w_db w))"
  proof (cases "res_Outcome r = ResultOutcomeDeviceAcked")
    case True
    then have l: "res_ConfirmationLevel r = ConfirmationDeviceAcked" using level by (simp add: result_confirmation_def)
    from True applied(5) have "cmd_Status c = CommandStatusSent" "status = CommandStatusAcked" "reason = None" "finished = None"
      by auto
    then show ?thesis by (simp add: l evidence life_step.device_acked)
  next
    case False
    then have l: "res_ConfirmationLevel r = ConfirmationDeviceFinal"
      using result_confirmation_cases [OF level] by simp
    from False applied(5) have "cmd_Status c = CommandStatusSent \<or> cmd_Status c = CommandStatusAcked"
      "status = CommandStatusSuccess \<or> status = CommandStatusFailed" "finished = Some (result_updated r)"
      by auto
    then show ?thesis by (simp add: l evidence life_step.device_final)
  qed
  then have "moves (w_now w) c ?x (w_db w) (put_command ?x (w_db w))"
    using applied by (intro moves_put [OF ok]) simp_all
  with applied that [of c] show thesis by simp
qed

lemma record_moves:
  assumes run: "record_body r level i eventID deliveryID w = (Inr rec, w')" and ok: "db_ok (w_db w)"
    and level: "result_confirmation (rrq_Outcome r) = Some level"
  obtains (replay) "w_db w' = w_db w" "rrs_IdempotentReplay rec"
      "rrs_Result rec \<in> set (tbl_results (w_db w))" "sameResult (rrs_Result rec) r level"
      "res_Source (rrs_Result rec) = rrq_Source r" "res_DeduplicationKey (rrs_Result rec) = rrq_DeduplicationKey r"
  | (recorded) c d1 d where "\<not> rrs_IdempotentReplay rec" "c \<in> set (tbl_commands (w_db w))" "cmd_ID c = rrq_CommandID r"
      "rrs_Result rec = new_result i r level c" "result_check (stored_result (new_result i r level c))"
      "\<forall>x\<in>set (tbl_results (w_db w)). \<not> (res_Source x = rrq_Source r \<and> res_DeduplicationKey x = rrq_DeduplicationKey r)"
      "d1 = (w_db w)\<lparr>tbl_results := tbl_results (w_db w) @ [stored_result (new_result i r level c)]\<rparr>"
      "moves (w_now w) c (rrs_Command rec) d1 d \<or> rrs_Command rec = c \<and> d = d1"
      "announces d (w_db w') (result_event eventID (rrs_Result rec) (rrs_Command rec))
         (json_marshal (event_envelope (result_event eventID (rrs_Result rec) (rrs_Command rec))))"
      "tbl_results (w_db w') = tbl_results d1"
proof -
  let ?body = "\<lambda>c. on_row (result_GetByDeduplicationKey (rrq_Source r) (rrq_DeduplicationKey r))
       (let result = new_result i r level c in
        bnd (map_error (\<lambda>e. if errors_Is e ErrCommandResultConflict then ErrResultConflict else e)
               (result_Create result)) (\<lambda>u.
        bnd (ApplyResult result) (\<lambda>aggregation.
        bnd (createResultEvent eventID deliveryID result (cra_Command aggregation)) (\<lambda>u.
        ret \<lparr>rrs_Result = result, rrs_Command = cra_Command aggregation, rrs_IdempotentReplay = False\<rparr>))))
       (\<lambda>existing.
          if \<not> sameResult existing r level then fail ErrResultConflict
          else ret \<lparr>rrs_Result = existing, rrs_Command = c, rrs_IdempotentReplay = True\<rparr>)"
  from run obtain c w1 where c: "c \<in> set (tbl_commands (w_db w))" "cmd_ID c = rrq_CommandID r"
    and w1: "w_db w1 = w_db w" "w_now w1 = w_now w" and b: "?body c w1 = (Inr rec, w')"
    unfolding record_body_def command_GetForUpdate_def by (rule on_query_cases) (auto simp: fail_run)
  from b show thesis unfolding result_GetByDeduplicationKey_def
  proof (cases rule: on_query_cases)
    case (row x w2)
    then have "sameResult x r level" "rec = \<lparr>rrs_Result = x, rrs_Command = c, rrs_IdempotentReplay = True\<rparr>" "w' = w2"
      by (auto simp: fail_run ret_run split: if_splits)
    with row w1 replay show thesis by simp
  next
    case (no_row w2)
    let ?result = "new_result i r level c"
    let ?d1 = "(w_db w)\<lparr>tbl_results := tbl_results (w_db w) @ [stored_result ?result]\<rparr>"
    from no_row(4) obtain u w3 agg w4 v where ins: "result_Create ?result w2 = (Inr u, w3)"
      and ap: "ApplyResult ?result w3 = (Inr agg, w4)"
      and ev: "createResultEvent eventID deliveryID ?result (cra_Command agg) w4 = (Inr v, w')"
      and rec: "rec = \<lparr>rrs_Result = ?result, rrs_Command = cra_Command agg, rrs_IdempotentReplay = False\<rparr>"
      by (auto simp: Let_def bnd_run map_error_run ret_run)
    from insert_result_run [of "stored_result ?result" w2 u w3] ins no_row w1
    have d3: "w_db w3 = ?d1" "w_now w3 = w_now w" and rc: "result_check (stored_result ?result)"
      by (simp_all add: result_Create_def map_error_run)
    have ok3: "db_ok (w_db w3)" unfolding d3 by (rule db_ok_same_tables [OF ok]) simp
    from ap ok3 obtain c2 where c2: "c2 \<in> set (tbl_commands (w_db w3))" "cmd_ID c2 = cmd_ID c"
      and mv: "moves (w_now w) c2 (cra_Command agg) ?d1 (w_db w4) \<or> cra_Command agg = c2 \<and> w_db w4 = ?d1"
      and rs: "tbl_results (w_db w4) = tbl_results ?d1"
      by (rule ApplyResult_moves) (use level d3 in \<open>simp_all add: new_result_def\<close>)
    have "c2 = c" using command_unique [OF db_ok_keys [OF ok], of c2 c] c c2 d3 by simp
    have an: "announces (w_db w4) (w_db w') (result_event eventID ?result (cra_Command agg))
         (json_marshal (event_envelope (result_event eventID ?result (cra_Command agg))))"
      using ev unfolding createResultEvent_def Let_def by (blast dest: publish_run)
    then have "tbl_results (w_db w') = tbl_results ?d1" using rs by (simp add: announces_def same_facts_def)
    with recorded [of c ?d1 "w_db w4"] rec c rc no_row w1 mv an \<open>c2 = c\<close> show thesis by simp
  qed
qed

end
