(* ===== verification/Netip.thy ===== *)
theory Netip
  imports Prelude
begin

text \<open>
  What the program uses of Go's \<open>net/netip\<close>: parsing and printing of IP addresses, \<open>Unmap\<close>, and
  prefixes with their containment test. An address is its bits with a width of 32 or 128; an IPv6
  address may carry a zone.
\<close>

datatype addr = IPv4 "32 word" | IPv6 "128 word" gostr

subsection \<open>Parsing\<close>

definition octet :: "gostr \<Rightarrow> nat option" where
  "octet s =
     (if s \<noteq> [] \<and> list_all is_digit s \<and> (length s = 1 \<or> hd s \<noteq> CHR ''0'') \<and> length s \<le> 3 \<and> decimal_value s 0 \<le> 255
      then Some (decimal_value s 0) else None)"

definition parse_ipv4 :: "gostr \<Rightarrow> 8 word list option" where
  "parse_ipv4 s =
     (case map octet (split_on (CHR ''.'') s) of
        [Some a, Some b, Some c, Some d] \<Rightarrow> Some [of_nat a, of_nat b, of_nat c, of_nat d]
      | _ \<Rightarrow> None)"

fun hex_number :: "gostr \<Rightarrow> nat \<Rightarrow> nat" where
  "hex_number [] acc = acc"
| "hex_number (c # cs) acc = hex_number cs (16 * acc + (case hex_value c of None \<Rightarrow> 0 | Some v \<Rightarrow> v))"

definition hex_prefix :: "gostr \<Rightarrow> gostr" where
  "hex_prefix s = takeWhile (\<lambda>c. hex_value c \<noteq> None) s"

definition two_bytes :: "nat \<Rightarrow> 8 word list" where
  "two_bytes n = [of_nat (n div 256), of_nat (n mod 256)]"

text \<open>
  The loop of \<open>parseIPv6\<close>: the bytes read so far and the position of the \<open>::\<close>, if it was seen. The
  loop reads a group, then a colon, at most eight times; \<open>fuel\<close> counts them.
\<close>

fun parse_groups :: "nat \<Rightarrow> gostr \<Rightarrow> 8 word list \<Rightarrow> nat option \<Rightarrow> (gostr \<times> 8 word list \<times> nat option) option" where
  "parse_groups 0 s ip ellipsis = Some (s, ip, ellipsis)"
| "parse_groups (Suc n) s ip ellipsis =
     (if 16 \<le> length ip then Some (s, ip, ellipsis)
      else
        (let g = hex_prefix s; rest = drop (length g) s in
         if g = [] \<or> 4 < length g then None
         else if rest \<noteq> [] \<and> hd rest = CHR ''.'' then
           (if ellipsis = None \<and> length ip \<noteq> 12 then None
            else if 16 < length ip + 4 then None
            else case parse_ipv4 s of None \<Rightarrow> None | Some b \<Rightarrow> Some ([], ip @ b, ellipsis))
         else
           (let ip' = ip @ two_bytes (hex_number g 0) in
            case rest of
              [] \<Rightarrow> Some ([], ip', ellipsis)
            | c # s1 \<Rightarrow>
                if c \<noteq> CHR '':'' \<or> s1 = [] then None
                else if hd s1 = CHR '':'' then
                  (if ellipsis \<noteq> None then None
                   else if tl s1 = [] then Some ([], ip', Some (length ip'))
                   else parse_groups n (tl s1) ip' (Some (length ip')))
                else parse_groups n s1 ip' ellipsis)))"

definition expand_ellipsis :: "8 word list \<Rightarrow> nat option \<Rightarrow> 8 word list option" where
  "expand_ellipsis ip ellipsis =
     (if length ip < 16 then
        (case ellipsis of
           None \<Rightarrow> None
         | Some e \<Rightarrow> Some (take e ip @ replicate (16 - length ip) 0 @ drop e ip))
      else if ellipsis \<noteq> None then None else Some ip)"

definition parse_ipv6 :: "gostr \<Rightarrow> addr option" where
  "parse_ipv6 text =
     (let has_zone = CHR ''%'' \<in> set text;
          s = takeWhile (\<lambda>c. c \<noteq> CHR ''%'') text;
          zone = drop (length s + 1) text
      in
      if has_zone \<and> zone = [] then None
      else if s = ''::'' then Some (IPv6 0 zone)
      else
        (let (s1, e) = (if has_prefix s ''::'' then (drop 2 s, Some 0) else (s, None)) in
         case parse_groups 8 s1 [] e of
           None \<Rightarrow> None
         | Some (rest, ip, e') \<Rightarrow>
             if rest \<noteq> [] then None
             else map_option (\<lambda>b. IPv6 (word_rcat b) zone) (expand_ellipsis ip e')))"

definition ParseAddr :: "gostr \<Rightarrow> addr option" where
  "ParseAddr s =
     (case find (\<lambda>c. c = CHR ''.'' \<or> c = CHR '':'' \<or> c = CHR ''%'') s of
        None \<Rightarrow> None
      | Some c \<Rightarrow>
          if c = CHR ''.'' then map_option (\<lambda>b. IPv4 (word_rcat b)) (parse_ipv4 s)
          else if c = CHR '':'' then parse_ipv6 s
          else None)"

subsection \<open>Queries\<close>

fun addr_Zone :: "addr \<Rightarrow> gostr" where
  "addr_Zone (IPv4 a) = []"
| "addr_Zone (IPv6 a z) = z"

fun BitLen :: "addr \<Rightarrow> nat" where
  "BitLen (IPv4 a) = 32"
| "BitLen (IPv6 a z) = 128"

fun addr_bits :: "addr \<Rightarrow> nat" where
  "addr_bits (IPv4 a) = unat a"
| "addr_bits (IPv6 a z) = unat a"

fun Unmap :: "addr \<Rightarrow> addr" where
  "Unmap (IPv4 a) = IPv4 a"
| "Unmap (IPv6 a z) =
     (if unat a div 2 ^ 32 = 65535 then IPv4 (of_nat (unat a mod 2 ^ 32)) else IPv6 a z)"

fun is_loopback4 :: "nat \<Rightarrow> bool" where "is_loopback4 n = (n div 2 ^ 24 = 127)"

fun IsLoopback :: "addr \<Rightarrow> bool" where
  "IsLoopback a =
     (case Unmap a of
        IPv4 x \<Rightarrow> is_loopback4 (unat x)
      | IPv6 x z \<Rightarrow> unat x = 1)"

subsection \<open>Printing\<close>

definition ipv4_text :: "nat \<Rightarrow> gostr" where
  "ipv4_text n = join_with ''.'' (map (\<lambda>k. decimal_digits (n div 256 ^ k mod 256)) [3, 2, 1, 0])"

definition ipv6_fields :: "nat \<Rightarrow> nat list" where
  "ipv6_fields n = map (\<lambda>k. n div 65536 ^ k mod 65536) [7, 6, 5, 4, 3, 2, 1, 0]"

function hex_digits :: "nat \<Rightarrow> gostr" where
  "hex_digits n = (if n < 16 then [hex_digit n] else hex_digits (n div 16) @ [hex_digit (n mod 16)])"
  by auto
termination by (relation "measure id") auto

declare hex_digits.simps [simp del]

text \<open>The first of the longest runs of at least two zero fields: its start and its length.\<close>

fun zero_run :: "nat list \<Rightarrow> nat" where
  "zero_run [] = 0"
| "zero_run (f # fs) = (if f = 0 then Suc (zero_run fs) else 0)"

definition best_run :: "nat list \<Rightarrow> nat \<times> nat" where
  "best_run fs =
     fold (\<lambda>i (s, l). let k = zero_run (drop i fs) in if 2 \<le> k \<and> l < k then (i, k) else (s, l))
       [0..<length fs] (0, 0)"

definition ipv6_text :: "nat \<Rightarrow> gostr" where
  "ipv6_text n =
     (let fs = ipv6_fields n; (s, l) = best_run fs; part = \<lambda>xs. join_with '':'' (map hex_digits xs) in
      if l = 0 then part fs else part (take s fs) @ ''::'' @ part (drop (s + l) fs))"

fun addr_String :: "addr \<Rightarrow> gostr" where
  "addr_String (IPv4 a) = ipv4_text (unat a)"
| "addr_String (IPv6 a z) =
     (if unat a div 2 ^ 32 = 65535 then ''::ffff:'' @ ipv4_text (unat a mod 2 ^ 32) else ipv6_text (unat a)) @
     (if z = [] then [] else ''%'' @ z)"

text \<open>\<open>net.ParseIP\<close>, as far as the program asks whether a text is an address.\<close>

definition ParseIP :: "gostr \<Rightarrow> addr option" where
  "ParseIP s = (case ParseAddr s of None \<Rightarrow> None | Some a \<Rightarrow> if addr_Zone a \<noteq> [] then None else Some a)"

subsection \<open>Prefixes\<close>

text \<open>A prefix is an address without a zone and a number of leading bits.\<close>

type_synonym addr_prefix = "addr \<times> nat"

definition ParsePrefix :: "gostr \<Rightarrow> addr_prefix option" where
  "ParsePrefix s =
     (if CHR ''/'' \<notin> set s then None
      else
        (let bits = rev (takeWhile (\<lambda>c. c \<noteq> CHR ''/'') (rev s)); host = take (length s - length bits - 1) s in
         case ParseAddr host of
           None \<Rightarrow> None
         | Some a \<Rightarrow>
             if addr_Zone a \<noteq> [] then None
             else if bits = [] \<or> \<not> list_all is_digit bits \<or> (1 < length bits \<and> hd bits = CHR ''0'') then None
             else if BitLen a < decimal_value bits 0 then None
             else Some (a, decimal_value bits 0)))"

text \<open>\<open>Contains\<close>: the same family, no zone, and the same leading bits.\<close>

definition prefix_Contains :: "addr_prefix \<Rightarrow> addr \<Rightarrow> bool" where
  "prefix_Contains p a =
     (case p of (b, bits) \<Rightarrow>
        BitLen a = BitLen b \<and> addr_Zone a = [] \<and>
        addr_bits a div 2 ^ (BitLen b - bits) = addr_bits b div 2 ^ (BitLen b - bits))"

definition prefix_Masked :: "addr_prefix \<Rightarrow> addr_prefix" where
  "prefix_Masked p =
     (case p of
        (IPv4 a, bits) \<Rightarrow> (IPv4 (of_nat (unat a div 2 ^ (32 - bits) * 2 ^ (32 - bits))), bits)
      | (IPv6 a z, bits) \<Rightarrow> (IPv6 (of_nat (unat a div 2 ^ (128 - bits) * 2 ^ (128 - bits))) [], bits))"

definition prefix_String :: "addr_prefix \<Rightarrow> gostr" where
  "prefix_String p = (case p of (a, bits) \<Rightarrow> addr_String a @ ''/'' @ decimal_digits bits)"

lemma addr_bits_bound: "addr_bits a < 2 ^ BitLen a"
proof (cases a)
  case (IPv4 x)
  then show ?thesis using unsigned_less [of x] by simp
next
  case (IPv6 x z)
  then show ?thesis using unsigned_less [of x] by simp
qed

lemma Unmap_idem: "Unmap (Unmap a) = Unmap a"
  by (cases a) auto

lemma prefix_Contains_own: "addr_Zone a = [] \<Longrightarrow> prefix_Contains (a, n) a"
  by (simp add: prefix_Contains_def)

lemma prefix_Contains_all: "prefix_Contains (b, 0) a \<longleftrightarrow> BitLen a = BitLen b \<and> addr_Zone a = []"
proof -
  have "addr_bits x div 2 ^ BitLen x = 0" for x using addr_bits_bound [of x] by simp
  then show ?thesis by (auto simp: prefix_Contains_def) metis
qed

lemma prefix_Contains_mono:
  assumes "prefix_Contains (b, n) a" and "m \<le> n" and "n \<le> BitLen b"
  shows "prefix_Contains (b, m) a"
proof -
  have "x div 2 ^ (BitLen b - m) = x div 2 ^ (BitLen b - n) div 2 ^ (n - m)" for x :: nat
    using assms by (simp add: div_mult2_eq [symmetric] power_add [symmetric])
  with assms show ?thesis by (simp add: prefix_Contains_def)
qed

end
