(* ===== verification/Access.thy ===== *)
theory Access
  imports Store Netip Digest
begin

text \<open>
  Authorization scopes (\<open>internal/access/scope.go\<close>), the request metadata that the services put into
  their Audit records, and its validation.
\<close>

datatype ScopeKind = ScopeSuperAdmin | ScopeUser | ScopeProject | ScopeOther gostr

record Scope =
  scp_Kind :: ScopeKind
  scp_UserID :: gostr
  scp_ProjectID :: gostr

definition access_SuperAdmin :: "gostr \<Rightarrow> Scope" where
  "access_SuperAdmin userID = \<lparr>scp_Kind = ScopeSuperAdmin, scp_UserID = TrimSpace userID, scp_ProjectID = []\<rparr>"

definition access_User :: "gostr \<Rightarrow> Scope" where
  "access_User userID = \<lparr>scp_Kind = ScopeUser, scp_UserID = TrimSpace userID, scp_ProjectID = []\<rparr>"

definition access_Project :: "gostr \<Rightarrow> Scope" where
  "access_Project projectID = \<lparr>scp_Kind = ScopeProject, scp_UserID = [], scp_ProjectID = TrimSpace projectID\<rparr>"

definition scope_Validate :: "Scope \<Rightarrow> bool" where
  "scope_Validate s =
     (case scp_Kind s of
        ScopeProject \<Rightarrow> TrimSpace (scp_UserID s) = [] \<and> TrimSpace (scp_ProjectID s) \<noteq> []
      | ScopeOther _ \<Rightarrow> False
      | _ \<Rightarrow> TrimSpace (scp_UserID s) \<noteq> [] \<and> TrimSpace (scp_ProjectID s) = [])"

definition IsSuperAdmin :: "Scope \<Rightarrow> bool" where
  "IsSuperAdmin s \<longleftrightarrow> scp_Kind s = ScopeSuperAdmin"

definition IsHuman :: "Scope \<Rightarrow> bool" where
  "IsHuman s \<longleftrightarrow> scp_Kind s = ScopeSuperAdmin \<or> scp_Kind s = ScopeUser"

definition scope_ManagerUserID :: "Scope \<Rightarrow> gostr option" where
  "scope_ManagerUserID s = (if scp_Kind s \<noteq> ScopeUser then None else Some (scp_UserID s))"

definition CanAccessProject :: "Scope \<Rightarrow> Project \<Rightarrow> bool" where
  "CanAccessProject s p =
     (case scp_Kind s of
        ScopeSuperAdmin \<Rightarrow> True
      | ScopeUser \<Rightarrow> prj_ManagerUserID p = scp_UserID s
      | ScopeProject \<Rightarrow> prj_ID p = scp_ProjectID s
      | ScopeOther _ \<Rightarrow> False)"

record RequestMetadata =
  rmd_ActorType :: ActorType
  rmd_ActorUserID :: gostr
  rmd_ActorID :: gostr
  rmd_IPAddress :: gostr
  rmd_RequestID :: gostr

definition optionalString :: "gostr \<Rightarrow> gostr option" where
  "optionalString value = (if TrimSpace value = [] then None else Some value)"

definition invalid_request :: "gostr \<Rightarrow> goerr" where
  "invalid_request detail = ErrWrapped detail ErrInvalidRequest"

end
