(* ===== verification/Command_Service.thy ===== *)
theory Command_Service
  imports Access Device_Repo Webhook_Repo Record_Repo Command_Worker
begin

text \<open>
  The Command service (\<open>internal/commandservice\<close>): who may create, read, list and cancel Commands, what
  a request must look like, and the transactions that create and cancel.
\<close>

record CreateRequest =
  crq_ProjectID :: gostr
  crq_DeviceID :: gostr
  crq_CommandType :: ActionIdentifier
  crq_Payload :: "gomap option"
  crq_IdempotencyKey :: gostr

record CreateResult =
  crs_Command :: Command
  crs_IdempotentReplay :: bool

record ListRequest =
  lrq_ProjectID :: "gostr option"
  lrq_DeviceID :: "gostr option"
  lrq_CommandType :: "ActionIdentifier option"
  lrq_Status :: "CommandStatus option"
  lrq_Page :: int
  lrq_PageSize :: int

record ListResult =
  lrs_Items :: "Command list"
  lrs_Page :: int
  lrs_PageSize :: int
  lrs_Total :: nat

record Detail =
  det_Command :: Command
  det_Attempts :: "CommandAttempt list"
  det_Results :: "CommandResult list"
  det_Events :: "Event list"

text \<open>The service's registry of Providers; a later Provider of the list replaces one of its code.\<close>

type_synonym provider_registry = "gostr \<rightharpoonup> Provider"

definition command_service_New :: "Provider list \<Rightarrow> provider_registry option" where
  "command_service_New providers =
     (if list_ex (\<lambda>p. TrimSpace (pvd_Code p) = []) providers then None
      else Some (fold (\<lambda>p m. m(pvd_Code p \<mapsto> p)) providers Map.empty))"

subsection \<open>Validation\<close>

definition validateScope :: "Scope \<Rightarrow> goerr + Scope" where
  "validateScope s =
     (if \<not> scope_Validate s \<or> (scp_Kind s = ScopeProject \<and> \<not> validUUID (scp_ProjectID s)) \<or>
         (IsHuman s \<and> scp_UserID s \<noteq> [] \<and> \<not> validUUID (scp_UserID s))
      then Inl (invalid_request ''scope is invalid'') else Inr s)"

definition validateMetadata :: "Scope \<Rightarrow> RequestMetadata \<Rightarrow> goerr + RequestMetadata" where
  "validateMetadata s m =
     (let m = m\<lparr>rmd_ActorID := TrimSpace (rmd_ActorID m), rmd_ActorUserID := TrimSpace (rmd_ActorUserID m),
               rmd_RequestID := TrimSpace (rmd_RequestID m)\<rparr> in
      if rmd_RequestID m = [] \<or> 255 < length (rmd_RequestID m) then Inl (invalid_request ''request_id is required'')
      else
        (let address = (if rmd_IPAddress m = [] then Some None
              else (case ParseAddr (TrimSpace (rmd_IPAddress m)) of
                      None \<Rightarrow> None
                    | Some a \<Rightarrow> if addr_Zone a \<noteq> [] then None else Some (Some (addr_String (Unmap a))))) in
         case address of
           None \<Rightarrow> Inl (invalid_request ''ip_address is invalid'')
         | Some ip \<Rightarrow>
             (let m = m\<lparr>rmd_IPAddress := (case ip of None \<Rightarrow> [] | Some text \<Rightarrow> text)\<rparr> in
              if IsHuman s \<and>
                 (rmd_ActorType m \<noteq> ActorTypeUser \<or> \<not> validUUID (rmd_ActorUserID m) \<or>
                  (scp_UserID s \<noteq> [] \<and> rmd_ActorUserID m \<noteq> scp_UserID s) \<or> rmd_ActorID m \<noteq> [])
              then Inl (invalid_request ''human scope requires its authenticated User actor'')
              else if scp_Kind s = ScopeProject \<and>
                 (rmd_ActorType m \<noteq> ActorTypeProject \<or> rmd_ActorID m \<noteq> scp_ProjectID s \<or> rmd_ActorUserID m \<noteq> [])
              then Inl (invalid_request ''Project scope requires its authenticated Project actor'')
              else Inr m)))"

definition projectForCreate :: "Scope \<Rightarrow> gostr \<Rightarrow> goerr + gostr" where
  "projectForCreate s requested =
     (let requested = TrimSpace requested in
      if scp_Kind s = ScopeProject then
        (if requested \<noteq> [] then Inl (invalid_request ''Project scope cannot override project_id'')
         else Inr (scp_ProjectID s))
      else if \<not> validUUID requested then Inl (invalid_request ''project_id is invalid'')
      else Inr requested)"

definition text_within :: "nat \<Rightarrow> gostr \<Rightarrow> bool" where
  "text_within n value \<longleftrightarrow> ValidString value \<and> 1 \<le> RuneCount value \<and> RuneCount value \<le> n"

definition normalizeIdempotencyKey :: "gostr \<Rightarrow> goerr + gostr" where
  "normalizeIdempotencyKey value =
     (if text_within 128 (TrimSpace value) then Inr (TrimSpace value)
      else Inl (invalid_request ''idempotency_key is invalid''))"

definition normalizeCommandType :: "ActionIdentifier \<Rightarrow> goerr + ActionIdentifier" where
  "normalizeCommandType value =
     (if text_within 128 (TrimSpace value) then Inr (TrimSpace value)
      else Inl (invalid_request ''command_type is invalid''))"

definition normalizePayload :: "gomap option \<Rightarrow> goerr + gomap" where
  "normalizePayload payload =
     (case payload of None \<Rightarrow> Inr [] | Some m \<Rightarrow> if m \<noteq> [] then Inl ErrPayloadInvalid else Inr [])"

definition validCommandStatus :: "CommandStatus \<Rightarrow> bool" where
  "validCommandStatus s = (case s of CommandStatusOther _ \<Rightarrow> False | _ \<Rightarrow> True)"

definition MaxInt :: int where "MaxInt = 2 ^ 63 - 1"

definition validateListRequest :: "Scope \<Rightarrow> ListRequest \<Rightarrow> goerr + ListRequest" where
  "validateListRequest s r =
     (let r = r\<lparr>lrq_Page := (if lrq_Page r = 0 then 1 else lrq_Page r),
               lrq_PageSize := (if lrq_PageSize r = 0 then 20 else lrq_PageSize r)\<rparr> in
      if lrq_Page r < 1 \<or> lrq_PageSize r < 1 \<or> 100 < lrq_PageSize r \<or> MaxInt div lrq_PageSize r < lrq_Page r - 1
      then Inl (invalid_request ''pagination is invalid'')
      else if scp_Kind s = ScopeProject \<and> lrq_ProjectID r \<noteq> None
      then Inl (invalid_request ''Project scope cannot override project_id'')
      else if scp_Kind s \<noteq> ScopeProject \<and> (case lrq_ProjectID r of None \<Rightarrow> False | Some p \<Rightarrow> \<not> validUUID p)
      then Inl (invalid_request ''project_id is invalid'')
      else
        (let r = r\<lparr>lrq_ProjectID := (if scp_Kind s = ScopeProject then Some (scp_ProjectID s) else lrq_ProjectID r)\<rparr> in
         if (case lrq_DeviceID r of None \<Rightarrow> False | Some i \<Rightarrow> \<not> validUUID i)
         then Inl (invalid_request ''device_id is invalid'')
         else if (case lrq_CommandType r of None \<Rightarrow> False | Some t \<Rightarrow> normalizeCommandType t \<noteq> Inr t)
         then Inl (invalid_request ''command_type filter is invalid'')
         else if (case lrq_Status r of None \<Rightarrow> False | Some st \<Rightarrow> \<not> validCommandStatus st)
         then Inl (invalid_request ''status filter is invalid'')
         else Inr r))"

subsection \<open>Capabilities\<close>

definition findAction :: "DeviceTypeProfile \<Rightarrow> ActionIdentifier \<Rightarrow> CapabilityAction option" where
  "findAction profile commandType = find (\<lambda>a. cap_Identifier a = commandType) (dtp_Actions profile)"

definition validateActionPayload :: "CapabilityAction \<Rightarrow> gomap \<Rightarrow> bool" where
  "validateActionPayload action payload \<longleftrightarrow>
     map_of (cap_PayloadSchema action) ''type'' = Some (JStr ''object'') \<and>
     map_of (cap_PayloadSchema action) ''additionalProperties'' = Some (JBool False) \<and>
     map_of (cap_PayloadSchema action) ''maxProperties'' = Some (JInt 0) \<and> payload = []"

definition canonicalRequestHash ::
  "Device \<Rightarrow> ActionIdentifier \<Rightarrow> gomap \<Rightarrow> int \<Rightarrow> CapabilityAction \<Rightarrow> gostr" where
  "canonicalRequestHash device commandType payload revision action =
     text_of (sha256_text (json_marshal (JMap
       [(''command_type'', JStr commandType),
        (''delivery_policy'', JStr (wire_DeliveryPolicy (cap_DeliveryPolicy action))),
        (''device_id'', JStr (dev_ID device)), (''device_type_code'', JStr (dev_DeviceTypeCode device)),
        (''device_type_revision'', JInt revision),
        (''dispatch_deadline_ms'', JInt (Milliseconds (cap_DispatchDeadline action))),
        (''normalized_payload'', JMap payload), (''provider_code'', JStr (dev_ProviderCode device)),
        (''provider_profile'', JStr (dev_ProviderProfile device)),
        (''provider_device_id'', JStr (dev_ProviderDeviceID device)),
        (''provider_request_timeout_ms'', JInt (Milliseconds (cap_ProviderRequestTimeout action))),
        (''result_observation_timeout_ms'', JInt (Milliseconds (cap_ResultObservationTimeout action))),
        (''retry_allowed'', JBool (cap_RetryAllowed action))])))"

text \<open>Whether the registry lets a Provider execute the action for this Device.\<close>

definition provider_allows :: "provider_registry \<Rightarrow> Device \<Rightarrow> ActionIdentifier \<Rightarrow> goerr + unit" where
  "provider_allows providers device commandType =
     (case providers (dev_ProviderCode device) of
        None \<Rightarrow> Inl ErrProviderNotConfigured
      | Some p \<Rightarrow>
          if pvd_IntegrationStatus p = ProviderIntegrationUnconfigured \<or> pvd_Code p \<noteq> dev_ProviderCode device \<or>
             pvd_Adapter p \<noteq> dev_Adapter device
          then Inl ErrProviderNotConfigured
          else
            (case map_of (pvd_ProfileActions p) (dev_ProviderProfile device) of
               None \<Rightarrow> Inl ErrProviderNotConfigured
             | Some actions \<Rightarrow>
                 (case map_of actions commandType of
                    Some ProviderActionSupported \<Rightarrow> Inr ()
                  | Some ProviderActionUnsupported \<Rightarrow> Inl ErrProviderActionUnsupported
                  | Some ProviderActionMappingUnknown \<Rightarrow> Inl ErrProviderMappingUnknown
                  | None \<Rightarrow> Inl ErrProviderNotConfigured)))"

subsection \<open>Events and Audit records\<close>

definition service_randomUUID :: "gostr tx" where
  "service_randomUUID = map_error (\<lambda>e. ErrWrapped ''identifier'' ErrIdentifierGeneration) randomUUID"

definition no_status :: CommandStatus where "no_status = CommandStatusOther []"

definition service_event ::
  "gostr \<Rightarrow> instant \<Rightarrow> RequestMetadata \<Rightarrow> Command \<Rightarrow> CommandStatus \<Rightarrow> CommandStatus \<Rightarrow> gostr option \<Rightarrow> Event" where
  "service_event eventID now m c old new reasonCode =
     (let (eventType, payload, key) =
           (if old = no_status then
              (EventTypeCommandCreated,
               [(''command_type'', JStr (cmd_CommandType c)),
                (''delivery_policy'', JStr (wire_DeliveryPolicy (cmd_DeliveryPolicy c))),
                (''status'', JStr (wire_CommandStatus (cmd_Status c)))],
               ''command.created:'' @ cmd_ID c)
            else
              (EventTypeCommandStatusChanged,
               [(''from'', JStr (wire_CommandStatus old)), (''to'', JStr (wire_CommandStatus new)),
                (''reason_code'', JStrOpt reasonCode),
                (''confirmation_level'', JStr (wire_ConfirmationLevel (cmd_ConfirmationLevel c))),
                (''evidence_status'', JStr (wire_EvidenceStatus (cmd_EvidenceStatus c)))],
               ''command.status_changed:'' @ cmd_ID c @ '':'' @ wire_CommandStatus new))
      in \<lparr>evt_ID = eventID, evt_SchemaVersion = EventSchemaVersion, evt_EventType = eventType,
          evt_ProjectID = cmd_ProjectID c, evt_DeviceID = Some (cmd_DeviceID c), evt_CommandID = Some (cmd_ID c),
          evt_Source = (if rmd_ActorType m = ActorTypeProject then EventSourceOpenAPI else EventSourceAdmin),
          evt_Payload = payload, evt_RawMessageID = None, evt_DeduplicationKey = key,
          evt_OccurredAt = now, evt_CreatedAt = now\<rparr>)"

definition service_createEvent ::
  "RequestMetadata \<Rightarrow> Command \<Rightarrow> CommandStatus \<Rightarrow> CommandStatus \<Rightarrow> gostr option \<Rightarrow> unit tx" where
  "service_createEvent m c old new reasonCode =
     bnd service_randomUUID (\<lambda>eventID.
     bnd time_now (\<lambda>now.
     let e = service_event eventID now m c old new reasonCode
     in
     bnd (event_Create e) (\<lambda>u.
     bnd service_randomUUID (\<lambda>deliveryID.
     bnd (CreateDelivery \<lparr>cwd_ID = deliveryID, cwd_EventID = evt_ID e,
            cwd_RawBody = json_marshal (event_envelope e)\<rparr>) (\<lambda>delivery. ret ())))))"

definition service_createAudit :: "RequestMetadata \<Rightarrow> Command \<Rightarrow> gostr \<Rightarrow> gomap \<Rightarrow> unit tx" where
  "service_createAudit m c action details =
     bnd service_randomUUID (\<lambda>auditID.
     bnd time_now (\<lambda>now.
     audit_Create \<lparr>aud_ID = auditID, aud_ActorType = rmd_ActorType m,
       aud_ActorUserID = optionalString (rmd_ActorUserID m), aud_ActorID = optionalString (rmd_ActorID m),
       aud_ProjectID = Some (cmd_ProjectID c), aud_Action = action, aud_Result = AuditResultSuccess,
       aud_ResourceType = ''command'', aud_ResourceID = Some (cmd_ID c),
       aud_IPAddress = optionalString (rmd_IPAddress m), aud_RequestID = optionalString (rmd_RequestID m),
       aud_Metadata = details, aud_OccurredAt = now\<rparr>))"

subsection \<open>Create\<close>

definition findIdempotentReplay ::
  "gostr \<Rightarrow> gostr \<Rightarrow> gostr \<Rightarrow> ActionIdentifier \<Rightarrow> gomap \<Rightarrow> CreateResult option tx" where
  "findIdempotentReplay projectID idempotencyKey deviceID commandType payload =
     on_row (command_GetByIdempotencyKey projectID idempotencyKey) (ret None) (\<lambda>existing.
       if cmd_DeviceID existing \<noteq> deviceID \<or> cmd_CommandType existing \<noteq> commandType \<or>
          json_marshal (JMap (cmd_Payload existing)) \<noteq> json_marshal (JMap payload)
       then fail ErrIdempotencyKeyConflict
       else ret (Some \<lparr>crs_Command = existing, crs_IdempotentReplay = True\<rparr>))"

definition new_command ::
  "gostr \<Rightarrow> gostr \<Rightarrow> Device \<Rightarrow> DeviceType \<Rightarrow> ActionIdentifier \<Rightarrow> gomap \<Rightarrow> DeviceTypeProfile \<Rightarrow> CapabilityAction \<Rightarrow>
   gostr \<Rightarrow> gostr \<Rightarrow> instant \<Rightarrow> Command" where
  "new_command commandID projectID device deviceType commandType payload profile action idempotencyKey requestHash now =
     \<lparr>cmd_ID = commandID, cmd_ProjectID = projectID, cmd_DeviceID = dev_ID device,
      cmd_DeviceTypeID = dty_ID deviceType, cmd_DeviceTypeCode = dty_Code deviceType,
      cmd_ProviderCode = dev_ProviderCode device, cmd_ProviderProfile = dev_ProviderProfile device,
      cmd_ProviderDeviceID = dev_ProviderDeviceID device, cmd_Adapter = dev_Adapter device,
      cmd_CommandType = commandType, cmd_Payload = payload, cmd_DeviceTypeRevision = dtp_Revision profile,
      cmd_DeliveryPolicy = cap_DeliveryPolicy action, cmd_DispatchDeadline = cap_DispatchDeadline action,
      cmd_ProviderTimeout = cap_ProviderRequestTimeout action,
      cmd_ResultTimeout = cap_ResultObservationTimeout action, cmd_RetryAllowed = cap_RetryAllowed action,
      cmd_Status = CommandStatusQueued, cmd_ReasonCode = None, cmd_ReasonDetail = None,
      cmd_ConfirmationLevel = ConfirmationNone, cmd_EvidenceStatus = EvidenceNone,
      cmd_IdempotencyKey = idempotencyKey, cmd_RequestHash = requestHash, cmd_QueuedAt = now,
      cmd_DispatchDeadlineAt = now + cap_DispatchDeadline action, cmd_SentAt = None,
      cmd_ResultDeadlineAt = None, cmd_FinishedAt = None, cmd_CreatedAt = now, cmd_UpdatedAt = now\<rparr>"

text \<open>\<open>Create\<close>'s transaction, on the normalised request.\<close>

definition create_command ::
  "provider_registry \<Rightarrow> RequestMetadata \<Rightarrow> gostr \<Rightarrow> Device \<Rightarrow> DeviceType \<Rightarrow> DeviceTypeProfile \<Rightarrow> CapabilityAction \<Rightarrow>
   ActionIdentifier \<Rightarrow> gomap \<Rightarrow> gostr \<Rightarrow> CreateResult tx" where
  "create_command providers m projectID device deviceType profile action commandType payload idempotencyKey =
     bnd service_randomUUID (\<lambda>commandID.
     bnd time_now (\<lambda>now.
     let c = new_command commandID projectID device deviceType commandType payload profile action idempotencyKey
               (canonicalRequestHash device commandType payload (dtp_Revision profile) action) now
     in
     bnd (command_Create c) (\<lambda>u.
     bnd (service_createEvent m c no_status CommandStatusQueued None) (\<lambda>u.
     bnd (service_createAudit m c ''command.created''
            [(''command_type'', JStr (cmd_CommandType c)),
             (''delivery_policy'', JStr (wire_DeliveryPolicy (cmd_DeliveryPolicy c)))]) (\<lambda>u.
     ret \<lparr>crs_Command = c, crs_IdempotentReplay = False\<rparr>)))))"

definition admit_command ::
  "provider_registry \<Rightarrow> RequestMetadata \<Rightarrow> gostr \<Rightarrow> Device \<Rightarrow> ActionIdentifier \<Rightarrow> gomap \<Rightarrow> gostr \<Rightarrow> CreateResult tx" where
  "admit_command providers m projectID device commandType payload idempotencyKey =
     (if dev_LifecycleStatus device \<noteq> LifecycleStatusActive then fail ErrDeviceDisabled
      else
        on_row (type_GetByCode (dev_DeviceTypeCode device)) (fail ErrCapabilityUnsupported) (\<lambda>deviceType.
          if dty_ID deviceType \<noteq> dev_DeviceTypeID device then fail ErrCapabilityUnsupported
          else
            bnd (type_GetProfile (dty_ID deviceType) (dty_CurrentRevision deviceType)) (\<lambda>profile.
            case findAction profile commandType of
              None \<Rightarrow> fail ErrCapabilityUnsupported
            | Some action \<Rightarrow>
                if \<not> validateActionPayload action payload then fail ErrPayloadInvalid
                else
                  bnd (lift_result (provider_allows providers device commandType)) (\<lambda>u.
                  if cap_DeliveryPolicy action = DeliveryPolicyOnlineOnly \<and>
                     dev_ConnectionStatus device \<noteq> ConnectionStatusOnline
                  then fail ErrDeviceNotOnline
                  else create_command providers m projectID device deviceType profile action commandType payload
                         idempotencyKey))))"

definition create_body ::
  "provider_registry \<Rightarrow> Scope \<Rightarrow> RequestMetadata \<Rightarrow> gostr \<Rightarrow> gostr \<Rightarrow> ActionIdentifier \<Rightarrow> gomap \<Rightarrow> gostr \<Rightarrow>
   CreateResult tx" where
  "create_body providers s m projectID deviceID commandType payload idempotencyKey =
     on_row (project_GetForUpdate projectID) (fail ErrProjectNotFound) (\<lambda>project.
       if \<not> CanAccessProject s project then fail ErrProjectNotFound
       else
         bnd (findIdempotentReplay projectID idempotencyKey deviceID commandType payload) (\<lambda>replay.
         case replay of
           Some result \<Rightarrow> ret result
         | None \<Rightarrow>
             on_row (device_GetForUpdate deviceID) (fail ErrDeviceNotFound) (\<lambda>device.
               if dev_ProjectID device \<noteq> projectID then fail ErrDeviceNotFound
               else admit_command providers m projectID device commandType payload idempotencyKey)))"

definition command_service_Create ::
  "provider_registry \<Rightarrow> Scope \<Rightarrow> CreateRequest \<Rightarrow> RequestMetadata \<Rightarrow> CreateResult tx" where
  "command_service_Create providers scope request metadata =
     bnd (lift_result (validateScope scope)) (\<lambda>s.
     bnd (lift_result (validateMetadata s metadata)) (\<lambda>m.
     bnd (lift_result (projectForCreate s (crq_ProjectID request))) (\<lambda>projectID.
     let deviceID = TrimSpace (crq_DeviceID request) in
     if \<not> validUUID deviceID then fail (invalid_request ''device_id is invalid'')
     else
       bnd (lift_result (normalizeCommandType (crq_CommandType request))) (\<lambda>commandType.
       bnd (lift_result (normalizePayload (crq_Payload request))) (\<lambda>payload.
       bnd (lift_result (normalizeIdempotencyKey (crq_IdempotencyKey request))) (\<lambda>idempotencyKey.
       WithinTransaction (create_body providers s m projectID deviceID commandType payload idempotencyKey)))))))"

subsection \<open>Reading\<close>

definition command_service_List :: "Scope \<Rightarrow> ListRequest \<Rightarrow> ListResult tx" where
  "command_service_List scope request =
     bnd (lift_result (validateScope scope)) (\<lambda>s.
     bnd (lift_result (validateListRequest s request)) (\<lambda>r.
     bnd (case (scp_Kind s, lrq_ProjectID r) of
            (ScopeUser, Some projectID) \<Rightarrow>
              on_row (project_Get projectID) (fail ErrProjectNotFound)
                (\<lambda>project. if \<not> CanAccessProject s project then fail ErrProjectNotFound else ret ())
          | _ \<Rightarrow> ret ()) (\<lambda>u.
     bnd (command_List \<lparr>lcr_ProjectID = lrq_ProjectID r, lcr_ManagerUserID = scope_ManagerUserID s,
            lcr_DeviceID = lrq_DeviceID r, lcr_CommandType = lrq_CommandType r, lcr_Status = lrq_Status r,
            lcr_Limit = lrq_PageSize r, lcr_Offset = (lrq_Page r - 1) * lrq_PageSize r\<rparr>) (\<lambda>(items, total).
     ret \<lparr>lrs_Items = items, lrs_Page = lrq_Page r, lrs_PageSize = lrq_PageSize r, lrs_Total = total\<rparr>))))"

definition command_service_Get :: "Scope \<Rightarrow> gostr \<Rightarrow> Detail tx" where
  "command_service_Get scope commandID =
     (case validateScope scope of
        Inl e \<Rightarrow> fail ErrInvalidRequest
      | Inr s \<Rightarrow>
          if \<not> validUUID commandID then fail ErrInvalidRequest
          else
            on_row (command_Get commandID) (fail ErrCommandNotFound) (\<lambda>c.
              if scp_Kind s = ScopeProject \<and> cmd_ProjectID c \<noteq> scp_ProjectID s then fail ErrCommandNotFound
              else
                bnd (if scp_Kind s = ScopeUser
                     then on_row (project_Get (cmd_ProjectID c)) (fail ErrCommandNotFound)
                            (\<lambda>project. if \<not> CanAccessProject s project then fail ErrCommandNotFound else ret ())
                     else ret ()) (\<lambda>u.
                bnd (command_ListAttempts commandID) (\<lambda>attempts.
                bnd (command_ListResults commandID) (\<lambda>results.
                bnd (event_ListByCommand commandID) (\<lambda>events.
                ret \<lparr>det_Command = c, det_Attempts = attempts, det_Results = results, det_Events = events\<rparr>))))))"

subsection \<open>Cancel\<close>

definition cancel_body :: "Scope \<Rightarrow> gostr \<Rightarrow> RequestMetadata \<Rightarrow> Command tx" where
  "cancel_body s commandID m =
     on_row (command_GetForUpdate commandID) (fail ErrCommandNotFound) (\<lambda>current.
       if scp_Kind s = ScopeProject \<and> cmd_ProjectID current \<noteq> scp_ProjectID s then fail ErrCommandNotFound
       else
         on_row (project_Get (cmd_ProjectID current)) (fail ErrCommandNotFound) (\<lambda>project.
           if \<not> CanAccessProject s project then fail ErrCommandNotFound
           else
             bnd (CancelQueued commandID None) (\<lambda>updated.
             if \<not> updated then fail ErrCommandNotCancellable
             else
               bnd (command_Get commandID) (\<lambda>cancelled.
               bnd (service_createEvent m cancelled (cmd_Status current) (cmd_Status cancelled)
                      (cmd_ReasonCode cancelled)) (\<lambda>u.
               bnd (service_createAudit m cancelled ''command.cancelled''
                      [(''reason_code'', JStrOpt (cmd_ReasonCode cancelled))]) (\<lambda>u.
               ret cancelled))))))"

definition command_service_Cancel :: "Scope \<Rightarrow> gostr \<Rightarrow> RequestMetadata \<Rightarrow> Command tx" where
  "command_service_Cancel scope commandID metadata =
     (case validateScope scope of
        Inl e \<Rightarrow> fail ErrInvalidRequest
      | Inr s \<Rightarrow>
          if \<not> validUUID commandID then fail ErrInvalidRequest
          else
            bnd (lift_result (validateMetadata s metadata)) (\<lambda>m. WithinTransaction (cancel_body s commandID m)))"

end
