(* ===== verification/Command_Platform.thy ===== *)
theory Command_Platform
  imports Command_Refine Command_Service
begin

text \<open>
  The Command side of the platform as a whole: every transaction of the Command service, the worker and
  the result service, in any order, by any number of processes, under any schedule of driver failures.
  \<open>evolves\<close> is what such a transaction may do to the tables; it is a reflexive and transitive relation,
  so it composes (\<open>db_relation\<close>), and from it follow the history properties of every Command.
\<close>

subsection \<open>Histories of one Command\<close>

definition life_moves :: "life \<Rightarrow> life \<Rightarrow> bool" where
  "life_moves s s' \<longleftrightarrow> (\<exists>t. life_step t s s') \<and> rows_ok s'"

abbreviation lifetime :: "life \<Rightarrow> life \<Rightarrow> bool" where
  "lifetime \<equiv> life_moves\<^sup>*\<^sup>*"

lemma lifetime_ok: "lifetime s s' \<Longrightarrow> life_ok s \<Longrightarrow> life_ok s'"
  by (induction rule: rtranclp_induct) (auto simp: life_moves_def intro: life_step_ok)

lemma lifetime_status:
  "lifetime s s' \<Longrightarrow> CanTransitionCommand\<^sup>*\<^sup>* (cmd_Status (fst s)) (cmd_Status (fst s'))"
proof (induction rule: rtranclp_induct)
  case (step y z)
  then show ?case by (auto simp: life_moves_def dest!: step_status intro: rtranclp.rtrancl_into_rtrancl)
qed simp

lemma same_snapshot_trans: "same_snapshot a b \<Longrightarrow> same_snapshot b c \<Longrightarrow> same_snapshot a c"
  by (cases a, cases b, cases c) (simp add: same_snapshot_def)

lemma lifetime_snapshot: "lifetime s s' \<Longrightarrow> same_snapshot (fst s) (fst s')"
  by (induction rule: rtranclp_induct)
    (auto simp: life_moves_def same_snapshot_refl dest!: step_snapshot intro: same_snapshot_trans)

lemma lifetime_terminal:
  "lifetime s s' \<Longrightarrow> IsTerminal (cmd_Status (fst s)) \<Longrightarrow>
   cmd_Status (fst s') = cmd_Status (fst s) \<and> cmd_ReasonCode (fst s') = cmd_ReasonCode (fst s) \<and>
   cmd_ReasonDetail (fst s') = cmd_ReasonDetail (fst s) \<and> cmd_FinishedAt (fst s') = cmd_FinishedAt (fst s)"
  by (induction rule: rtranclp_induct) (auto simp: life_moves_def dest: step_terminal)

lemma lifetime_confirmation:
  "lifetime s s' \<Longrightarrow> life_ok s \<Longrightarrow>
   CanAdvanceConfirmation (cmd_ConfirmationLevel (fst s)) (cmd_ConfirmationLevel (fst s'))"
proof (induction rule: rtranclp_induct)
  case base
  then show ?case by (simp add: life_ok_def rows_ok_def command_check_def CanAdvance_refl)
next
  case (step y z)
  then have "life_ok y" using lifetime_ok by blast
  with step show ?case
    by (auto simp: life_moves_def intro: CanAdvanceConfirmation_trans dest: step_confirmation)
qed

lemma lifetime_dispatches:
  "lifetime s s' \<Longrightarrow> life_ok s \<Longrightarrow> dispatches s' = dispatches s \<or> (dispatches s = [] \<and> length (dispatches s') = 1)"
proof (induction rule: rtranclp_induct)
  case (step y z)
  then have "life_ok y" using lifetime_ok by blast
  with step show ?case by (auto simp: life_moves_def dest: step_dispatches)
qed simp

subsection \<open>Relations on the tables\<close>

definition evolves :: "db \<Rightarrow> db \<Rightarrow> bool" where
  "evolves d d' \<longleftrightarrow>
     (db_ok d \<longrightarrow> db_ok d' \<and>
        (\<forall>c\<in>set (tbl_commands d). \<exists>c'\<in>set (tbl_commands d').
           cmd_ID c' = cmd_ID c \<and> lifetime (life_of c d) (life_of c' d')))"

definition same_core :: "db \<Rightarrow> db \<Rightarrow> bool" where
  "same_core d d' \<longleftrightarrow> tbl_commands d' = tbl_commands d \<and> tbl_attempts d' = tbl_attempts d"

text \<open>Events and results are only ever appended: no statement of the program changes or deletes one.\<close>

definition log_grows :: "db \<Rightarrow> db \<Rightarrow> bool" where
  "log_grows d d' \<longleftrightarrow> set (tbl_events d) \<subseteq> set (tbl_events d') \<and> set (tbl_results d) \<subseteq> set (tbl_results d')"

definition bystander :: "db \<Rightarrow> db \<Rightarrow> bool" where
  "bystander d d' \<longleftrightarrow> same_core d d' \<and> tbl_results d' = tbl_results d \<and> set (tbl_events d) \<subseteq> set (tbl_events d')"

interpretation core: db_relation same_core
  by unfold_locales (auto simp: same_core_def)

interpretation history_relation: db_relation evolves
proof
  show "evolves d d" for d by (auto simp: evolves_def)
next
  show "evolves d1 d3" if "evolves d1 d2" "evolves d2 d3" for d1 d2 d3
    using that unfolding evolves_def
    by (clarsimp, metis (mono_tags, lifting) rtranclp_trans)
qed

lemma same_core_evolves: "same_core d d' \<Longrightarrow> evolves d d'"
  by (auto simp: evolves_def same_core_def life_of_def attempts_of_def dest: db_ok_same_tables)

lemma moves_evolves:
  assumes "moves t c c' d d'"
  shows "evolves d d'"
  unfolding evolves_def
proof (intro impI conjI ballI)
  assume ok: "db_ok d"
  show "db_ok d'" by (rule moves_db_ok [OF ok assms])
  fix x assume x: "x \<in> set (tbl_commands d)"
  show "\<exists>x'\<in>set (tbl_commands d'). cmd_ID x' = cmd_ID x \<and> lifetime (life_of x d) (life_of x' d')"
  proof (cases "cmd_ID x = cmd_ID c")
    case True
    then have "x = c" using command_unique [OF db_ok_keys [OF ok] x] assms by (simp add: moves_def)
    moreover have "lifetime (life_of c d) (life_of c' d')"
      by (rule r_into_rtranclp) (use assms in \<open>auto simp: moves_def life_moves_def\<close>)
    moreover have "c' \<in> set (tbl_commands d')" using assms by (force simp: moves_def commands_put)
    ultimately show ?thesis using assms by (auto simp: moves_def)
  next
    case False
    then have "x \<in> set (tbl_commands d')" using assms x by (force simp: moves_def commands_put)
    moreover have "life_of x d' = life_of x d" using assms False by (simp add: moves_def life_of_def)
    ultimately show ?thesis by auto
  qed
qed

text \<open>A transaction whose body evolves the tables it is given, if those are well-formed.\<close>

lemma keeps_evolvesI:
  "(\<And>w x w'. m w = (Inr x, w') \<Longrightarrow> db_ok (w_db w) \<Longrightarrow> evolves (w_db w) (w_db w')) \<Longrightarrow> keeps evolves m"
  by (rule keepsI) (metis evolves_def)

lemma core_keeps: "keeps same_core m \<Longrightarrow> keeps evolves m"
  by (auto simp: keeps_def intro: same_core_evolves)

subsection \<open>New Commands\<close>

lemma insert_command_run:
  "insert_command c w = (Inr u, w') \<Longrightarrow>
     w_db w' = (w_db w)\<lparr>tbl_commands := tbl_commands (w_db w) @ [c]\<rparr> \<and> command_check c \<and>
     cmd_ID c \<notin> cmd_ID ` set (tbl_commands (w_db w))"
  unfolding insert_command_def sql_run by (auto simp: list_ex_iff image_iff split: if_splits)

lemma append_command_evolves:
  assumes "command_check c" and "cmd_Status c = CommandStatusQueued" and "cmd_ID c \<notin> cmd_ID ` set (tbl_commands d)"
  shows "evolves d (d\<lparr>tbl_commands := tbl_commands d @ [c]\<rparr>)"
  unfolding evolves_def
proof (intro impI conjI ballI)
  let ?d = "d\<lparr>tbl_commands := tbl_commands d @ [c]\<rparr>"
  assume ok: "db_ok d"
  have at: "attempts_of i ?d = attempts_of i d" for i by (simp add: attempts_of_def)
  have "att_CommandID a \<noteq> cmd_ID c" if "a \<in> set (tbl_attempts d)" for a
    using ok that assms(3) unfolding db_ok_def by (metis imageI)
  then have none: "attempts_of (cmd_ID c) d = []" by (simp add: attempts_of_def filter_empty_conv)
  have "life_ok (c, [])" using assms by (simp add: life_ok_def rows_ok_def)
  then show "db_ok ?d" using ok assms(3) by (auto simp: db_ok_def keys_ok_def life_of_def at none)
  fix x assume "x \<in> set (tbl_commands d)"
  then show "\<exists>x'\<in>set (tbl_commands ?d). cmd_ID x' = cmd_ID x \<and> lifetime (life_of x d) (life_of x' ?d)"
    by (auto simp: life_of_def at)
qed

subsection \<open>Operations that leave Commands and Attempts alone\<close>

lemma sql_core: "(\<And>t d x d'. q t d = Inr (x, d') \<Longrightarrow> same_core d d') \<Longrightarrow> keeps same_core (sql q)"
  by (rule keepsI) (auto simp: sql_run)

lemma event_Create_core: "keeps same_core (event_Create e)"
  unfolding event_Create_def by (rule sql_core) (auto simp: same_core_def split: if_splits)

lemma insertDelivery_core: "keeps same_core (insertDelivery i p e b cfg r)"
  unfolding insertDelivery_def by (rule sql_core) (auto simp: same_core_def split: if_splits)

lemma audit_Create_core: "keeps same_core (audit_Create a)"
  unfolding audit_Create_def by (rule sql_core) (auto simp: same_core_def split: if_splits)

lemma CreateDelivery_core: "keeps same_core (CreateDelivery r)"
  unfolding CreateDelivery_def lockCurrentWebhookConfig_def webhook_GetDelivery_def
  by (rule insertDelivery_core core.keeps_intros reads_intros | rule core.keeps_reads)+

lemma service_events_core:
  "keeps same_core (service_createEvent m c old new reason)" "keeps same_core (service_createAudit m c action details)"
  unfolding service_createEvent_def service_createAudit_def service_randomUUID_def Let_def
  by (rule event_Create_core audit_Create_core CreateDelivery_core core.keeps_intros reads_intros | rule core.keeps_reads)+

lemma project_reads [simp]: "reads (project_Get i)" "reads (project_GetForUpdate i)"
  and device_reads [simp]: "reads (device_GetForUpdate i)"
  and type_reads [simp]: "reads (type_GetByCode k)" "reads (type_GetProfile i r)"
  and command_reads [simp]: "reads (command_Get i)" "reads (command_GetForUpdate i)" "reads (command_GetByIdempotencyKey p k)"
  by (simp_all add: project_Get_def project_GetForUpdate_def device_GetForUpdate_def type_GetByCode_def
      type_GetProfile_def command_Get_def command_GetForUpdate_def command_GetByIdempotencyKey_def)

lemmas platform_reads = project_reads device_reads type_reads command_reads reads_intros

subsection \<open>The transactions\<close>

lemma command_Create_evolves:
  assumes "cmd_Status c = CommandStatusQueued"
  shows "keeps evolves (command_Create c)"
  unfolding command_Create_def
  by (rule keepsI) (use assms in \<open>auto dest!: insert_command_run intro!: append_command_evolves\<close>)

lemma create_body_evolves: "keeps evolves (create_body providers s m p i ty payload k)"
  unfolding create_body_def admit_command_def create_command_def findIdempotentReplay_def service_randomUUID_def Let_def
  by (rule command_Create_evolves service_events_core [THEN core_keeps] history_relation.keeps_intros platform_reads
      | rule history_relation.keeps_reads | simp add: new_command_def)+

lemma CancelQueued_evolves: "keeps evolves (CancelQueued i detail)"
proof (rule keeps_evolvesI)
  fix w b w'
  assume run: "CancelQueued i detail w = (Inr b, w')" and ok: "db_ok (w_db w)"
  show "evolves (w_db w) (w_db w')"
    using finishQueued_moves [OF run [unfolded CancelQueued_def] ok]
    by (metis history_relation.R_refl moves_evolves)
qed

lemma cancel_body_evolves: "keeps evolves (cancel_body s i m)"
  unfolding cancel_body_def
  by (rule CancelQueued_evolves service_events_core [THEN core_keeps] history_relation.keeps_intros platform_reads
      | rule history_relation.keeps_reads)+

lemma ClaimNext_evolves: "keeps evolves (ClaimNext r)"
  by (rule keeps_evolvesI, erule ClaimNext_moves) (auto intro: moves_evolves simp: history_relation.R_refl)

lemma fail_in_transaction_evolves:
  "before_dispatch_outcome outcome \<Longrightarrow> keeps evolves (fail_in_transaction c a source outcome reason detail)"
  by (rule keeps_evolvesI, erule fail_in_transaction_moves) (auto dest: status_reported_moves intro: moves_evolves)

lemma commit_dispatch_evolves: "keeps evolves (commit_dispatch_body c a source lease summary)"
  by (rule keeps_evolvesI, erule commit_dispatch_moves) (auto dest: status_reported_moves intro: moves_evolves)

lemma persist_evolves: "keeps evolves (persist_body reg c a r)"
  by (rule keeps_evolvesI, erule persist_moves)
    (auto dest: status_reported_moves evidence_reported_moves intro: moves_evolves)

lemma recover_evolves: "keeps evolves recover_body"
  by (rule keeps_evolvesI, erule recover_moves)
    (auto dest: evidence_reported_moves intro: moves_evolves simp: history_relation.R_refl)

lemma expire_queued_evolves: "keeps evolves expire_queued_body"
  by (rule keeps_evolvesI, erule ExpireQueued_moves)
    (auto dest: status_reported_moves intro: moves_evolves simp: history_relation.R_refl)

lemma expire_result_evolves: "keeps evolves expire_result_body"
  by (rule keeps_evolvesI, erule ExpireResult_moves)
    (auto dest: status_reported_moves intro: moves_evolves simp: history_relation.R_refl)

lemma record_evolves:
  assumes "result_confirmation (rrq_Outcome r) = Some level"
  shows "keeps evolves (record_body r level i e dl)"
proof (rule keeps_evolvesI)
  fix w rec w'
  assume run: "record_body r level i e dl w = (Inr rec, w')" and ok: "db_ok (w_db w)"
  show "evolves (w_db w) (w_db w')"
    using run ok assms
  proof (cases rule: record_moves)
    case replay
    then show ?thesis by (simp add: history_relation.R_refl)
  next
    case (recorded c d1 d)
    have "same_core (w_db w) d1" using recorded(7) by (simp add: same_core_def)
    moreover have "evolves d1 d" using recorded(8) by (auto intro: moves_evolves simp: history_relation.R_refl)
    moreover have "same_core d (w_db w')" using same_facts_core [OF recorded(9)] by (simp add: same_core_def)
    ultimately show ?thesis by (blast intro: history_relation.R_trans same_core_evolves)
  qed
qed

subsection \<open>Calls\<close>

text \<open>
  A registered adapter is trusted with two things: the snapshot it takes inside the claiming transaction
  only reads, and while its dispatch is under way the rest of the world moves only as the platform does
  (the dispatch itself writes no table; other actors may commit meanwhile).
\<close>

definition reading_snapshot :: "registered \<Rightarrow> bool" where
  "reading_snapshot reg \<longleftrightarrow> (case rgd_ClaimSnapshot reg of None \<Rightarrow> True | Some snapshot \<Rightarrow> reads snapshot)"

definition well_behaved :: "(db \<Rightarrow> db \<Rightarrow> bool) \<Rightarrow> registered \<Rightarrow> bool" where
  "well_behaved R reg \<longleftrightarrow> reading_snapshot reg \<and>
     (\<forall>r s p. adp_Prepare (rgd_Adapter reg) r s = Inr p \<longrightarrow> guards R (prp_Dispatch p))"

subsection \<open>The platform\<close>

text \<open>
  One step of the platform, as any process can make it, with any arguments: a caller's request, a
  worker's transaction, a result, or something elsewhere in the system that touches neither Commands,
  Attempts nor results and only appends Events (including the passing of time). An interleaving of
  concurrent processes is a sequence of steps.
\<close>

inductive platform_step :: "world \<Rightarrow> world \<Rightarrow> bool" where
  create: "platform_step w (snd (command_service_Create providers scope request metadata w))"
| cancel: "platform_step w (snd (command_service_Cancel scope commandID metadata w))"
| claim: "reading_snapshot reg \<Longrightarrow> platform_step w (snd (claimNext worker reg w))"
| refuse: "platform_step w (snd (failBeforeDispatch c a source reason detail w))"
| dispatch: "platform_step w (snd (commitDispatch c a source lease summary w))"
| persist: "platform_step w (snd (persistResult reg c a result w))"
| maintain: "platform_step w (snd (poll_maintenance w))"
| report: "platform_step w (snd (result_Record request w))"
| elsewhere: "bystander (w_db w) (w_db w') \<Longrightarrow> platform_step w w'"

abbreviation platform_run :: "world \<Rightarrow> world \<Rightarrow> bool" where
  "platform_run \<equiv> platform_step\<^sup>*\<^sup>*"

text \<open>
  A relation on the tables that every transaction body of the program respects holds between the two
  ends of every call, of every step and of every run. Each history property is an interpretation.
\<close>

locale platform_relation = db_relation R for R :: "db \<Rightarrow> db \<Rightarrow> bool" +
  assumes R_create: "keeps R (create_body providers s m p i ty payload k)"
    and R_cancel: "keeps R (cancel_body s i m)"
    and R_claim: "keeps R (ClaimNext r)"
    and R_refuse: "before_dispatch_outcome outcome \<Longrightarrow> keeps R (fail_in_transaction c a source outcome reason detail)"
    and R_commit: "keeps R (commit_dispatch_body c a source lease summary)"
    and R_persist: "keeps R (persist_body reg c a result)"
    and R_recover: "keeps R recover_body"
    and R_expire_queued: "keeps R expire_queued_body"
    and R_expire_result: "keeps R expire_result_body"
    and R_record: "result_confirmation (rrq_Outcome q) = Some level \<Longrightarrow> keeps R (record_body q level resultID eventID deliveryID)"
    and R_elsewhere: "bystander d d' \<Longrightarrow> R d d'"
begin

lemma claim_once_guards:
  assumes "reading_snapshot reg"
  shows "guards R (claim_once w reg)"
proof -
  have "keeps R (case rgd_ClaimSnapshot reg of
               None \<Rightarrow> ret [(''serialnum'', JInt serial)]
             | Some snapshot \<Rightarrow> bnd snapshot (\<lambda>m. ret (overlay [(''serialnum'', JInt serial)] m)))" for serial
    using assms by (cases "rgd_ClaimSnapshot reg")
      (auto simp: reading_snapshot_def intro!: keeps_intros keeps_reads)
  then show ?thesis
    unfolding claim_once_def newLeaseIdentity_def
    by (intro guards_bnd guards_prod guards_transaction keeps_bnd R_claim)
      (auto intro!: guards_reads reads_intros)
qed

lemma claim_attempts_guards: "reading_snapshot reg \<Longrightarrow> guards R (claim_attempts n w reg)"
proof (induction n)
  case (Suc n)
  have "R (w_db s) (w_db (snd (claim_attempts (Suc n) w reg s)))" for s
  proof -
    obtain r s1 where run: "claim_once w reg s = (r, s1)" by fastforce
    with claim_once_guards [OF Suc.prems, of w] have e: "R (w_db s) (w_db s1)"
      unfolding guards_def by (metis snd_conv)
    moreover have "R (w_db s1) (w_db (snd (claim_attempts n w reg s1)))"
      using Suc by (simp add: guards_def)
    ultimately show ?thesis using run by (auto split: sum.splits intro: R_trans)
  qed
  then show ?case by (simp add: guards_def)
qed (simp add: guards_reads)

lemma failBeforeDispatch_guards: "guards R (failBeforeDispatch c a source reason detail)"
  unfolding failBeforeDispatch_def
  by (intro guards_if guards_transaction R_refuse)
    (auto intro: guards_reads simp: before_dispatch_outcome_def)

lemma commitDispatch_guards: "guards R (commitDispatch c a source lease summary)"
  unfolding commitDispatch_def by (rule guards_transaction [OF R_commit])

lemma persistResult_guards: "guards R (persistResult reg c a r)"
  unfolding persistResult_def by (rule guards_transaction [OF R_persist])

lemma dispatchClaimed_guards:
  assumes "well_behaved R reg"
  shows "guards R (dispatchClaimed w reg c a)"
proof -
  have step: "guards R (\<lambda>s1. case prp_Dispatch p s1 of (r, s2) \<Rightarrow> persistResult reg c a r s2)"
    if "guards R (prp_Dispatch p)" for p
    unfolding guards_def
  proof
    fix s
    obtain r s2 where run: "prp_Dispatch p s = (r, s2)" by fastforce
    with that have "R (w_db s) (w_db s2)" unfolding guards_def by (metis snd_conv)
    moreover have "R (w_db s2) (w_db (snd (persistResult reg c a r s2)))"
      using persistResult_guards by (simp add: guards_def)
    ultimately show "R (w_db s) (w_db (snd (case prp_Dispatch p s of (r, s2) \<Rightarrow> persistResult reg c a r s2)))"
      using run by (auto intro: R_trans)
  qed
  have go: "guards R (bnd (commitDispatch c a (rgd_ResultSource reg) lease (prp_RequestSummary p)) (\<lambda>dispatched.
       if \<not> dispatched then ret ()
       else (\<lambda>s1. case prp_Dispatch p s1 of (r, s2) \<Rightarrow> persistResult reg c a r s2)))"
    if "adp_Prepare (rgd_Adapter reg) (dispatch_request c a) s = Inr p" for p s lease
    using that assms by (intro guards_bnd guards_if commitDispatch_guards step) (auto simp: well_behaved_def intro: guards_reads)
  show ?thesis
    unfolding guards_def
  proof
    fix s
    show "R (w_db s) (w_db (snd (dispatchClaimed w reg c a s)))"
      using failBeforeDispatch_guards go
      by (auto simp: dispatchClaimed_def guards_def fail_def R_refl split: sum.splits)
  qed
qed

lemma try_adapters_guards:
  assumes "\<forall>reg\<in>set regs. well_behaved R reg"
  shows "guards R (try_adapters w regs)"
  using assms
proof (induction regs)
  case Nil
  then show ?case by (simp add: guards_def R_refl)
next
  case (Cons reg regs)
  have claim: "guards R (claimNext w reg)" using Cons.prems claim_attempts_guards by (simp add: claimNext_def well_behaved_def)
  have disp: "guards R (dispatchClaimed w reg c a)" for c a using Cons.prems dispatchClaimed_guards by simp
  show ?case
    unfolding guards_def
  proof
    fix s
    obtain r s1 where run: "claimNext w reg s = (r, s1)" by fastforce
    with claim have e1: "R (w_db s) (w_db s1)" unfolding guards_def by (metis snd_conv)
    have e2: "R (w_db s1) (w_db (snd (try_adapters w regs s1)))" using Cons by (simp add: guards_def)
    have e3: "R (w_db s1) (w_db (snd (dispatchClaimed w reg c a s1)))" for c a
      using disp by (simp add: guards_def)
    have e3': "R (w_db s1) (w_db (snd (case dispatchClaimed w reg c a s1 of
        (Inl e, s2) \<Rightarrow> ((True, Some e), s2) | (Inr u, s2) \<Rightarrow> ((True, None), s2))))" for c a
      using e3 [of c a] by (cases "dispatchClaimed w reg c a s1") (auto split: sum.splits)
    show "R (w_db s) (w_db (snd (try_adapters w (reg # regs) s)))"
      using run e1 e2 e3' by (auto split: sum.split option.split intro: R_trans)
  qed
qed

lemma DispatchNext_guards:
  "\<forall>reg\<in>set (wkr_adapters w). well_behaved R reg \<Longrightarrow> guards R (worker_DispatchNext w)"
  using try_adapters_guards [of "rotate (wkr_nextAdapter w) (wkr_adapters w)"]
  by (auto simp: guards_def worker_DispatchNext_def Let_def split: prod.splits) (metis snd_conv)

lemma maintenance_guards: "guards R poll_maintenance"
  unfolding poll_maintenance_def worker_RecoverNext_def worker_ExpireNextQueued_def worker_ExpireNextResultObservation_def
  by (intro guards_bnd guards_if guards_transaction R_recover R_expire_queued R_expire_result)
    (auto intro: guards_reads)

lemma Record_guards: "guards R (result_Record request)"
proof -
  have "guards R (case result_normalize request now of
       None \<Rightarrow> fail ErrInvalidResult
     | Some (r, confirmation) \<Rightarrow>
         bnd randomUUID (\<lambda>resultID.
         bnd randomUUID (\<lambda>eventID.
         bnd randomUUID (\<lambda>deliveryID.
         WithinTransaction (record_body r confirmation resultID eventID deliveryID)))))" for now
  proof (cases "result_normalize request now")
    case (Some n)
    obtain r level where n: "n = (r, level)" by fastforce
    with Some show ?thesis
      by (simp, intro guards_bnd guards_transaction R_record guards_reads)
        (auto intro: result_normalize_Some(8))
  qed (simp add: guards_reads)
  then show ?thesis unfolding result_Record_def by (intro guards_bnd) (auto intro: guards_reads)
qed

lemma Create_guards: "guards R (command_service_Create providers scope request metadata)"
  unfolding command_service_Create_def Let_def
  by (intro guards_bnd guards_if guards_transaction R_create) (auto intro: guards_reads)

lemma Cancel_guards: "guards R (command_service_Cancel scope commandID metadata)"
  unfolding command_service_Cancel_def
  by (intro guards_bnd guards_if guards_sum guards_transaction R_cancel) (auto intro: guards_reads)

lemma step_related: "platform_step w w' \<Longrightarrow> R (w_db w) (w_db w')"
proof (induction rule: platform_step.induct)
  case (claim reg w worker)
  then have "guards R (claimNext worker reg)" by (simp add: claimNext_def claim_attempts_guards)
  then show ?case by (simp add: guards_def)
next
  case (elsewhere w w')
  then show ?case by (rule R_elsewhere)
qed (use Create_guards Cancel_guards failBeforeDispatch_guards commitDispatch_guards persistResult_guards
    maintenance_guards Record_guards in \<open>auto simp: guards_def\<close>)

lemma run_related: "platform_run w w' \<Longrightarrow> R (w_db w) (w_db w')"
  by (induction rule: rtranclp_induct) (auto intro: R_refl R_trans step_related)

end

interpretation history: platform_relation evolves
  by unfold_locales (auto intro: create_body_evolves cancel_body_evolves ClaimNext_evolves fail_in_transaction_evolves
      commit_dispatch_evolves persist_evolves recover_evolves expire_queued_evolves expire_result_evolves
      record_evolves same_core_evolves simp: bystander_def)

text \<open>Before the first Command.\<close>

definition no_commands :: "world \<Rightarrow> bool" where
  "no_commands w \<longleftrightarrow> tbl_commands (w_db w) = [] \<and> tbl_attempts (w_db w) = []"

lemma reachable_ok: "no_commands w0 \<Longrightarrow> platform_run w0 w \<Longrightarrow> db_ok (w_db w)"
  using history.run_related [of w0 w] by (simp add: evolves_def db_ok_def no_commands_def keys_ok_def)

lemma run_follows:
  assumes "db_ok (w_db w)" and "platform_run w w'" and "c \<in> set (tbl_commands (w_db w))"
  obtains c' where "c' \<in> set (tbl_commands (w_db w'))" "cmd_ID c' = cmd_ID c"
    "lifetime (life_of c (w_db w)) (life_of c' (w_db w'))" "db_ok (w_db w')"
    "\<And>x. x \<in> set (tbl_commands (w_db w')) \<Longrightarrow> cmd_ID x = cmd_ID c \<Longrightarrow> x = c'"
proof -
  from history.run_related [OF assms(2)] assms(1,3) obtain c' where c': "c' \<in> set (tbl_commands (w_db w'))" "cmd_ID c' = cmd_ID c"
    "lifetime (life_of c (w_db w)) (life_of c' (w_db w'))" "db_ok (w_db w')"
    by (auto simp: evolves_def)
  with command_unique [OF db_ok_keys [OF c'(4)]] show thesis by (intro that [of c']) auto
qed

end
