(* ===== verification/Command_Statements.thy ===== *)
theory Command_Statements
  imports Command_Platform
begin

text \<open>
  Relations that hold statement by statement: if every SQL statement with which the program writes Commands,
  Attempts, results, Events, Deliveries and audit records respects a relation, so does every transaction,
  and with \<open>platform_relation\<close> every run. The two instances are the append-only log and the uniqueness of the
  idempotency keys.
\<close>

lemma more_reads [simp]: "reads (lockCommandAttempt i j)" "reads (getAttempt j)" "reads newUUID"
  "reads (incomplete_attempt_of i)" "reads (result_GetByDeduplicationKey src k)" "reads newEventIdentities"
  "reads service_randomUUID" "reads (webhook_GetDelivery i)" "reads (require b)"
  by (auto simp: lockCommandAttempt_def getAttempt_def newUUID_def incomplete_attempt_of_def require_def
      result_GetByDeduplicationKey_def newEventIdentities_def service_randomUUID_def webhook_GetDelivery_def
      intro!: reads_intros)

lemma keeps_outcome:
  "keeps R a \<Longrightarrow> keeps R b \<Longrightarrow> keeps R c \<Longrightarrow> (\<And>x. keeps R (d x)) \<Longrightarrow>
   keeps R (case v of ResultOutcomeDeviceAcked \<Rightarrow> a | ResultOutcomeDeviceSucceeded \<Rightarrow> b
     | ResultOutcomeDeviceFailed \<Rightarrow> c | ResultOutcomeOther x \<Rightarrow> d x)"
  by (cases v) simp_all

locale statement_relation = db_relation R for R :: "db \<Rightarrow> db \<Rightarrow> bool" +
  assumes S_command: "(\<And>t c. cmd_ID (f t c) = cmd_ID c) \<Longrightarrow> (\<And>t c. cmd_ProjectID (f t c) = cmd_ProjectID c) \<Longrightarrow>
      (\<And>t c. cmd_IdempotencyKey (f t c) = cmd_IdempotencyKey c) \<Longrightarrow> keeps R (update_commands p f)"
    and S_attempt: "keeps R (update_attempts q g)"
    and S_new_command: "keeps R (insert_command c)"
    and S_new_attempt: "keeps R (insert_attempt mk)"
    and S_new_result: "keeps R (insert_result r)"
    and S_new_event: "keeps R (event_Create e)"
    and S_new_delivery: "keeps R (insertDelivery i projectID eventID body cfg replay)"
    and S_new_audit: "keeps R (audit_Create a)"
    and S_elsewhere: "bystander d d' \<Longrightarrow> R d d'"
begin

lemmas statement_intros = S_command S_attempt S_new_command S_new_attempt S_new_result S_new_event S_new_delivery
  S_new_audit keeps_outcome keeps_intros platform_reads more_reads

lemma S_CreateDelivery: "keeps R (CreateDelivery r)"
  unfolding CreateDelivery_def lockCurrentWebhookConfig_def
  by (rule statement_intros | rule keeps_reads)+

lemma S_announcements: "keeps R (createStatusEvent c old source key)" "keeps R (createEvidenceEvent c i outcome source key)"
  "keeps R (service_createEvent m c old new reason)" "keeps R (service_createAudit m c action details)"
  "keeps R (createResultEvent i j res c)"
  unfolding createStatusEvent_def createEvidenceEvent_def createCommandEvent_def service_createEvent_def
    service_createAudit_def createResultEvent_def Let_def
  by (rule S_CreateDelivery statement_intros | rule keeps_reads)+

lemma S_repository:
  "keeps R (CompleteAttempt i j tok r)" "keeps R (TransitionFromAttempt i j tok tr)"
  "keeps R (UpdateEvidenceFromAttempt i j tok st)" "keeps R (MarkDispatching i j tok q)"
  "keeps R (finishQueued i status reason detail e)" "keeps R (RecoverExpiredDispatching i j tok)"
  "keeps R (ExpireResultObservation i)" "keeps R (ApplyResult res)" "keeps R (ClaimNext claim)"
  "keeps R (result_Create res)" "keeps R (command_Create c)"
  unfolding CompleteAttempt_def TransitionFromAttempt_def updateCommandTransition_def UpdateEvidenceFromAttempt_def
    MarkDispatching_def finishQueued_def RecoverExpiredDispatching_def ExpireResultObservation_def ApplyResult_def
    ClaimNext_def claim_new_def take_over_def result_Create_def command_Create_def Let_def
  by (rule statement_intros | rule keeps_reads | simp)+

lemmas body_intros = S_repository S_announcements statement_intros

lemma S_bodies:
  "keeps R (create_body providers s m p i ty payload k)" "keeps R (cancel_body s i m)"
  "keeps R (fail_in_transaction c a source outcome reason detail)" "keeps R (commit_dispatch_body c a source lease summary)"
  "keeps R (persist_body reg c a r)" "keeps R recover_body" "keeps R expire_queued_body" "keeps R expire_result_body"
  "keeps R (record_body q level resultID eventID deliveryID)"
  unfolding create_body_def admit_command_def create_command_def findIdempotentReplay_def cancel_body_def CancelQueued_def
    commit_dispatch_body_def fail_in_transaction_def persist_body_def recover_body_def RecoverNextExpiredDispatching_def
    expire_queued_body_def ExpireNextQueued_def ExpireQueued_def expire_result_body_def ExpireNextResultObservation_def
    record_body_def Let_def
  by (rule body_intros | rule keeps_reads)+

end

sublocale statement_relation \<subseteq> platform_relation R
  by unfold_locales (rule S_bodies S_repository S_elsewhere, assumption?)+

subsection \<open>The log only grows\<close>

lemma sql_keeps: "(\<And>t d x d'. q t d = Inr (x, d') \<Longrightarrow> R d d') \<Longrightarrow> keeps R (sql q)"
  by (rule keepsI) (auto simp: sql_run)

lemmas statement_defs = update_commands_def update_attempts_def insert_command_def insert_attempt_def insert_result_def
  event_Create_def insertDelivery_def audit_Create_def Let_def

lemma statements_log:
  "keeps log_grows (update_commands p f)" "keeps log_grows (update_attempts q g)" "keeps log_grows (insert_command c)"
  "keeps log_grows (insert_attempt mk)" "keeps log_grows (insert_result r)" "keeps log_grows (event_Create e)"
  "keeps log_grows (insertDelivery i pj ev b cfg rp)" "keeps log_grows (audit_Create a)"
  unfolding statement_defs
  by (rule sql_keeps, auto simp: log_grows_def split: if_splits prod.splits)+

interpretation log: statement_relation log_grows
  by unfold_locales (auto intro: statements_log simp: log_grows_def bystander_def)

subsection \<open>One Command per idempotency key\<close>

definition idempotent_keys :: "db \<Rightarrow> bool" where
  "idempotent_keys d \<longleftrightarrow> distinct (map (\<lambda>c. (cmd_ProjectID c, cmd_IdempotencyKey c)) (tbl_commands d))"

definition keeps_idempotent_keys :: "db \<Rightarrow> db \<Rightarrow> bool" where
  "keeps_idempotent_keys d d' \<longleftrightarrow> (idempotent_keys d \<longrightarrow> idempotent_keys d')"

lemma update_commands_keys:
  assumes "\<And>t c. cmd_ProjectID (f t c) = cmd_ProjectID c" and "\<And>t c. cmd_IdempotencyKey (f t c) = cmd_IdempotencyKey c"
  shows "keeps keeps_idempotent_keys (update_commands p f)"
proof -
  have "map (\<lambda>c. (cmd_ProjectID c, cmd_IdempotencyKey c)) (map (\<lambda>c. if p t c then f t c else c) cs) =
      map (\<lambda>c. (cmd_ProjectID c, cmd_IdempotencyKey c)) cs" for t cs
    by (induction cs) (simp_all add: assms)
  then show ?thesis
    unfolding update_commands_def
    by (intro sql_keeps) (auto simp: keeps_idempotent_keys_def idempotent_keys_def update_where_def simp del: map_map split: if_splits)
qed

lemma insert_command_keys: "keeps keeps_idempotent_keys (insert_command c)"
  unfolding insert_command_def
  by (rule sql_keeps) (auto simp: keeps_idempotent_keys_def idempotent_keys_def list_ex_iff split: if_splits, metis)

lemma other_statements_keys:
  "keeps keeps_idempotent_keys (update_attempts pa fa)" "keeps keeps_idempotent_keys (insert_attempt mk)"
  "keeps keeps_idempotent_keys (insert_result r)" "keeps keeps_idempotent_keys (event_Create e)"
  "keeps keeps_idempotent_keys (insertDelivery i p ev b cfg rp)" "keeps keeps_idempotent_keys (audit_Create a)"
  unfolding statement_defs
  by (rule sql_keeps, auto simp: keeps_idempotent_keys_def idempotent_keys_def split: if_splits prod.splits)+

interpretation keys: statement_relation keeps_idempotent_keys
  by unfold_locales
    (auto intro: update_commands_keys insert_command_keys other_statements_keys
      simp: keeps_idempotent_keys_def idempotent_keys_def same_core_def bystander_def)

subsection \<open>One result per source and deduplication key\<close>

definition result_keys :: "db \<Rightarrow> bool" where
  "result_keys d \<longleftrightarrow> distinct (map (\<lambda>r. (res_Source r, res_DeduplicationKey r)) (tbl_results d))"

definition keeps_result_keys :: "db \<Rightarrow> db \<Rightarrow> bool" where
  "keeps_result_keys d d' \<longleftrightarrow> (result_keys d \<longrightarrow> result_keys d')"

lemma insert_result_keys: "keeps keeps_result_keys (insert_result r)"
  unfolding insert_result_def
  by (rule sql_keeps) (auto simp: keeps_result_keys_def result_keys_def list_ex_iff split: if_splits; metis)

lemma statements_result_keys:
  "keeps keeps_result_keys (update_commands p f)" "keeps keeps_result_keys (update_attempts q g)"
  "keeps keeps_result_keys (insert_command c)" "keeps keeps_result_keys (insert_attempt mk)"
  "keeps keeps_result_keys (event_Create e)" "keeps keeps_result_keys (insertDelivery i pj ev b cfg rp)"
  "keeps keeps_result_keys (audit_Create a)"
  unfolding statement_defs
  by (rule sql_keeps, auto simp: keeps_result_keys_def result_keys_def split: if_splits prod.splits)+

interpretation results: statement_relation keeps_result_keys
  by unfold_locales
    (auto intro: insert_result_keys statements_result_keys simp: keeps_result_keys_def result_keys_def bystander_def)

end
