(* ===== verification/Command_Outbox.thy ===== *)
theory Command_Outbox
  imports Command_Statements
begin

text \<open>
  The Event log and the outbox: every transaction that moves a Command appends, in the same transaction,
  the Event that tells of it. So the log is complete at every moment: whatever status a Command has,
  some Event in the log says so.
\<close>

subsection \<open>The log tells every status\<close>

text \<open>
  An Event tells a Command's status if it is its creation, a change of its status or a result recorded
  for it, and its payload names that status.
\<close>

definition event_tells :: "Event \<Rightarrow> Command \<Rightarrow> bool" where
  "event_tells e c \<longleftrightarrow> evt_CommandID e = Some (cmd_ID c) \<and>
     (evt_EventType e = EventTypeCommandStatusChanged \<and>
        map_of (evt_Payload e) ''to'' = Some (JStr (wire_CommandStatus (cmd_Status c))) \<or>
      (evt_EventType e = EventTypeCommandCreated \<or> evt_EventType e = EventTypeCommandResultRecorded) \<and>
        map_of (evt_Payload e) ''status'' = Some (JStr (wire_CommandStatus (cmd_Status c))))"

definition announced :: "Command \<Rightarrow> db \<Rightarrow> bool" where
  "announced c d \<longleftrightarrow> (\<exists>e\<in>set (tbl_events d). event_tells e c)"

definition outbox :: "db \<Rightarrow> db \<Rightarrow> bool" where
  "outbox d d' \<longleftrightarrow>
     (db_ok d \<longrightarrow> db_ok d' \<and> log_grows d d' \<and>
        (\<forall>c'\<in>set (tbl_commands d'). announced c' d' \<or>
           (\<exists>c\<in>set (tbl_commands d). cmd_ID c = cmd_ID c' \<and> cmd_Status c = cmd_Status c')))"

lemma announced_same: "announced c d \<Longrightarrow> cmd_ID c = cmd_ID c' \<Longrightarrow> cmd_Status c = cmd_Status c' \<Longrightarrow> announced c' d"
  by (simp add: announced_def event_tells_def)

lemma announced_grows: "announced c d \<Longrightarrow> log_grows d d' \<Longrightarrow> announced c d'"
  by (auto simp: announced_def log_grows_def)

interpretation outbox_relation: db_relation outbox
proof
  show "outbox d d" for d by (auto simp: outbox_def log_grows_def)
next
  fix d1 d2 d3 assume a: "outbox d1 d2" "outbox d2 d3"
  show "outbox d1 d3"
    unfolding outbox_def
  proof (intro impI conjI ballI)
    assume ok: "db_ok d1"
    then have 2: "db_ok d2" "log_grows d1 d2" using a by (auto simp: outbox_def)
    then have 3: "log_grows d2 d3" using a by (auto simp: outbox_def)
    show "db_ok d3" using a 2 by (auto simp: outbox_def)
    show "log_grows d1 d3" using 2 3 by (auto simp: log_grows_def)
    fix c3 assume "c3 \<in> set (tbl_commands d3)"
    then consider "announced c3 d3" | c2 where "c2 \<in> set (tbl_commands d2)" "cmd_ID c2 = cmd_ID c3" "cmd_Status c2 = cmd_Status c3"
      using a 2 by (auto simp: outbox_def)
    then show "announced c3 d3 \<or> (\<exists>c\<in>set (tbl_commands d1). cmd_ID c = cmd_ID c3 \<and> cmd_Status c = cmd_Status c3)"
    proof cases
      case 2
      then consider "announced c2 d2" | c1 where "c1 \<in> set (tbl_commands d1)" "cmd_ID c1 = cmd_ID c2" "cmd_Status c1 = cmd_Status c2"
        using a ok by (auto simp: outbox_def)
      then show ?thesis using 2 3 by cases (auto intro: announced_same announced_grows)
    qed simp
  qed
qed

lemma announcesE:
  assumes "announces d d' e body"
  obtains e' where "e' \<in> set (tbl_events d')" "evt_CommandID e' = evt_CommandID e" "evt_EventType e' = evt_EventType e"
    "evt_Payload e' = evt_Payload e" "tbl_commands d' = tbl_commands d"
proof -
  let ?e = "e\<lparr>evt_OccurredAt := pg_time (evt_OccurredAt e), evt_CreatedAt := pg_time (evt_CreatedAt e)\<rparr>"
  have "?e \<in> set (tbl_events d')" "tbl_commands d' = tbl_commands d" using assms by (simp_all add: announces_def same_facts_def)
  then show thesis by (intro that [of ?e]) simp_all
qed

lemma outboxI:
  assumes mv: "moves t c c' d d'" and log: "log_grows d d'" and tell: "cmd_Status c' = cmd_Status c \<or> announced c' d'"
  shows "outbox d d'"
  unfolding outbox_def
proof (intro impI conjI ballI)
  assume "db_ok d"
  then show "db_ok d'" using mv by (rule moves_db_ok)
  show "log_grows d d'" by (rule log)
  fix x assume "x \<in> set (tbl_commands d')"
  then have "x = c' \<or> x \<in> set (tbl_commands d)" using mv by (auto simp: moves_def commands_put)
  then show "announced x d' \<or> (\<exists>c\<in>set (tbl_commands d). cmd_ID c = cmd_ID x \<and> cmd_Status c = cmd_Status x)"
    using mv tell by (auto simp: moves_def)
qed

lemma outbox_core: "same_core d d' \<Longrightarrow> log_grows d d' \<Longrightarrow> outbox d d'"
  unfolding outbox_def by (metis db_ok_same_tables same_core_def)

lemma status_reported_outbox:
  assumes "status_reported t c c' d d'" and "log_grows d d'"
  shows "outbox d d'"
proof (rule outboxI [OF status_reported_moves [OF assms(1)] assms(2)])
  from assms(1) obtain d1 e where mv: "moves t c c' d d1" and an: "announces d1 d' e (json_marshal (event_envelope e))"
    and e: "command_event c' EventTypeCommandStatusChanged (status_payload (cmd_Status c) c') (status_key (cmd_ID c) (cmd_Status c')) e"
    by (auto simp: status_reported_def reported_def)
  from an obtain e' where e': "e' \<in> set (tbl_events d')" "evt_CommandID e' = evt_CommandID e"
    "evt_EventType e' = evt_EventType e" "evt_Payload e' = evt_Payload e" by (rule announcesE)
  then have "event_tells e' c'" using e by (simp add: event_tells_def command_event_def status_payload_def)
  with e' show "cmd_Status c' = cmd_Status c \<or> announced c' d'" by (auto simp: announced_def)
qed

lemma evidence_reported_outbox: "evidence_reported t c c' d d' \<Longrightarrow> log_grows d d' \<Longrightarrow> outbox d d'"
  by (rule outboxI [OF evidence_reported_moves]) (auto simp: evidence_reported_def)

lemma same_db_outbox: "w_db w' = w_db w \<Longrightarrow> outbox (w_db w) (w_db w')"
  by (simp add: outbox_relation.R_refl)

lemma keeps_outboxI:
  assumes "keeps log_grows m"
    and "\<And>w x w'. m w = (Inr x, w') \<Longrightarrow> db_ok (w_db w) \<Longrightarrow> log_grows (w_db w) (w_db w') \<Longrightarrow> outbox (w_db w) (w_db w')"
  shows "keeps outbox m"
  by (rule keepsI) (metis assms keepsD outbox_def)

subsection \<open>The service's transactions\<close>

lemma service_event_facts [simp]:
  "evt_ID (service_event i t m c old new reason) = i"
  "evt_CommandID (service_event i t m c old new reason) = Some (cmd_ID c)"
  "evt_EventType (service_event i t m c old new reason) =
     (if old = no_status then EventTypeCommandCreated else EventTypeCommandStatusChanged)"
  "old = no_status \<Longrightarrow> map_of (evt_Payload (service_event i t m c old new reason)) ''status'' =
     Some (JStr (wire_CommandStatus (cmd_Status c)))"
  "old \<noteq> no_status \<Longrightarrow> map_of (evt_Payload (service_event i t m c old new reason)) ''to'' =
     Some (JStr (wire_CommandStatus new))"
  by (simp_all add: service_event_def Let_def)

lemma service_createEvent_run:
  assumes "service_createEvent m c old new reason w = (Inr u, w')"
  obtains i t where "announces (w_db w) (w_db w') (service_event i t m c old new reason)
      (json_marshal (event_envelope (service_event i t m c old new reason)))"
proof -
  from assms obtain i w1 t u1 w3 j w4 v where i: "service_randomUUID w = (Inr i, w1)"
    and ev: "event_Create (service_event i t m c old new reason) (tick w1) = (Inr u1, w3)" and j: "service_randomUUID w3 = (Inr j, w4)"
    and cd: "CreateDelivery \<lparr>cwd_ID = j, cwd_EventID = evt_ID (service_event i t m c old new reason),
        cwd_RawBody = json_marshal (event_envelope (service_event i t m c old new reason))\<rparr> w4 = (Inr v, w')"
    unfolding service_createEvent_def Let_def by (auto simp: bnd_run ret_run time_now_run)
  from i j have "w_db w1 = w_db w" "w_db w4 = w_db w3" "w_now w4 = w_now w3"
    by (auto simp: service_randomUUID_def map_error_run randomUUID_run)
  with publish_after [OF ev _ _ cd] that show thesis by auto
qed

lemma service_createAudit_run:
  "service_createAudit m c action details w = (Inr u, w') \<Longrightarrow> same_core (w_db w) (w_db w') \<and> tbl_events (w_db w') = tbl_events (w_db w)"
  by (auto simp: service_createAudit_def bnd_run service_randomUUID_def map_error_run randomUUID_run time_now_run
      audit_Create_def sql_run same_core_def split: if_splits)

lemma service_announced:
  assumes "service_createEvent m c old new reason w = (Inr u, w')"
    and "if old = no_status then cmd_Status c = status else new = status" and "cmd_ID x = cmd_ID c" and "cmd_Status x = status"
  shows "announced x (w_db w') \<and> same_core (w_db w) (w_db w')"
proof -
  from assms(1) obtain i t where an: "announces (w_db w) (w_db w') (service_event i t m c old new reason)
      (json_marshal (event_envelope (service_event i t m c old new reason)))" by (rule service_createEvent_run)
  from an obtain e' where e': "e' \<in> set (tbl_events (w_db w'))"
    "evt_CommandID e' = Some (cmd_ID c)" "evt_EventType e' = (if old = no_status then EventTypeCommandCreated else EventTypeCommandStatusChanged)"
    "evt_Payload e' = evt_Payload (service_event i t m c old new reason)" by (auto elim: announcesE)
  have "event_tells e' x"
    using e'(2-4) assms(2-4) by (auto simp: event_tells_def split: if_splits)
  with e'(1) same_facts_core [OF an] show ?thesis by (auto simp: announced_def same_core_def)
qed

lemma command_Create_run:
  "command_Create c w = (Inr u, w') \<Longrightarrow>
   \<exists>x. w_db w' = (w_db w)\<lparr>tbl_commands := tbl_commands (w_db w) @ [x]\<rparr> \<and> cmd_ID x = cmd_ID c \<and> cmd_Status x = cmd_Status c"
  unfolding command_Create_def by (drule insert_command_run) auto

lemma create_command_outbox: "keeps outbox (create_command providers m p dv ty profile action command payload k)"
proof (rule keeps_outboxI)
  show "keeps log_grows (create_command providers m p dv ty profile action command payload k)"
    unfolding create_command_def Let_def by (rule log.body_intros | rule log.keeps_reads)+
  have hist: "keeps evolves (create_command providers m p dv ty profile action command payload k)"
    unfolding create_command_def service_randomUUID_def Let_def
    by (rule command_Create_evolves service_events_core [THEN core_keeps] history_relation.keeps_intros platform_reads
        | rule history_relation.keeps_reads | simp add: new_command_def)+
  fix w r w'
  assume run: "create_command providers m p dv ty profile action command payload k w = (Inr r, w')"
    and ok: "db_ok (w_db w)" and log: "log_grows (w_db w) (w_db w')"
  from run obtain i h t c w1 u1 w2 u2 w3 u3 where
    c: "c = new_command i p dv ty command payload profile action k h t"
    and cr: "command_Create c w1 = (Inr u1, w2)"
    and ev: "service_createEvent m c no_status CommandStatusQueued None w2 = (Inr u2, w3)"
    and au: "service_createAudit m c ''command.created''
            [(''command_type'', JStr (cmd_CommandType c)),
             (''delivery_policy'', JStr (wire_DeliveryPolicy (cmd_DeliveryPolicy c)))] w3 = (Inr u3, w')"
    and w1: "w_db w1 = w_db w"
    by (auto simp: create_command_def Let_def bnd_run ret_run service_randomUUID_def map_error_run randomUUID_run
        time_now_run)
  then have st: "cmd_Status c = CommandStatusQueued" by (simp add: new_command_def)
  obtain x where x: "w_db w2 = (w_db w)\<lparr>tbl_commands := tbl_commands (w_db w) @ [x]\<rparr>" "cmd_ID x = cmd_ID c" "cmd_Status x = cmd_Status c"
    using command_Create_run [OF cr] w1 by auto
  have tell: "announced x (w_db w3) \<and> same_core (w_db w2) (w_db w3)"
    by (rule service_announced [OF ev, of "cmd_Status c"]) (use x st in simp_all)
  note audit = service_createAudit_run [OF au]
  have cmds: "tbl_commands (w_db w') = tbl_commands (w_db w) @ [x]" using tell audit x(1) by (simp add: same_core_def)
  have "announced x (w_db w')" using tell audit by (simp add: announced_def)
  with cmds log keepsD [OF hist run] show "outbox (w_db w) (w_db w')" by (auto simp: outbox_def evolves_def)
qed

lemma create_body_outbox: "keeps outbox (create_body providers s m p i ty payload k)"
  unfolding create_body_def admit_command_def findIdempotentReplay_def
  by (rule create_command_outbox outbox_relation.keeps_intros platform_reads | rule outbox_relation.keeps_reads)+

lemma cancel_body_outbox: "keeps outbox (cancel_body s i m)"
proof (rule keeps_outboxI)
  show "keeps log_grows (cancel_body s i m)" by (rule log.R_cancel)
  fix w x w'
  assume run: "cancel_body s i m w = (Inr x, w')" and ok: "db_ok (w_db w)" and log: "log_grows (w_db w) (w_db w')"
  from run obtain current w1 w2 w3 w4 u u2 w5 where w1: "w_db w1 = w_db w" and cur: "current \<in> set (tbl_commands (w_db w))" "cmd_ID current = i"
    and cq: "finishQueued i CommandStatusCancelled ''cancelled_by_request'' None False w1 = (Inr True, w2)"
    and get: "command_Get i w2 = (Inr x, w3)"
    and ev: "service_createEvent m x (cmd_Status current) (cmd_Status x) (cmd_ReasonCode x) w3 = (Inr u, w4)"
    and au: "service_createAudit m x ''command.cancelled'' [(''reason_code'', JStrOpt (cmd_ReasonCode x))] w4 = (Inr u2, w')"
    by (auto simp: cancel_body_def CancelQueued_def on_row_run bnd_run ret_run fail_run command_GetForUpdate_def
        query_row_run project_Get_def split: if_splits dest!: find_SomeD) (metis consume_simps(1))+
  have ok1: "db_ok (w_db w1)" using ok w1 by simp
  from cq ok1 obtain c where c: "c \<in> set (tbl_commands (w_db w))" "cmd_ID c = i" "cmd_Status c = CommandStatusQueued"
    and mv: "moves (w_now w1) c (finished_as (w_now w1) CommandStatusCancelled (Some ''cancelled_by_request'') None ConfirmationNone EvidenceNone c)
        (w_db w) (w_db w2)"
    by (rule finishQueued_moves) (use w1 in auto)
  let ?c = "finished_as (w_now w1) CommandStatusCancelled (Some ''cancelled_by_request'') None ConfirmationNone EvidenceNone c"
  have "?c \<in> set (tbl_commands (w_db w2))" using mv by (force simp: moves_def commands_put)
  moreover have "x \<in> set (tbl_commands (w_db w2))" "cmd_ID x = i" "w_db w3 = w_db w2"
    using get by (auto simp: command_Get_def query_row_run dest: find_SomeD)
  ultimately have x: "x = ?c"
    using command_unique [OF db_ok_keys [OF moves_db_ok [OF ok mv]], of x ?c] c by simp
  have "current = c" using command_unique [OF db_ok_keys [OF ok] cur(1) c(1)] cur c by simp
  then have tell: "announced x (w_db w4) \<and> same_core (w_db w3) (w_db w4)"
    by (intro service_announced [OF ev, of "cmd_Status x"]) (use c in \<open>simp_all add: no_status_def\<close>)
  note audit = service_createAudit_run [OF au]
  have "moves (w_now w1) c x (w_db w) (w_db w')"
    using moves_same_tables [OF mv [folded x], of "w_db w'"] tell audit \<open>w_db w3 = w_db w2\<close> by (simp add: same_core_def)
  moreover have "announced x (w_db w')" using tell audit by (simp add: announced_def)
  ultimately show "outbox (w_db w) (w_db w')" using log by (blast intro: outboxI)
qed

subsection \<open>The worker's and the result service's transactions\<close>

lemma moves_from_same:
  "moves t c c' d1 d2 \<Longrightarrow> tbl_commands d1 = tbl_commands d \<Longrightarrow> tbl_attempts d1 = tbl_attempts d \<Longrightarrow> moves t c c' d d2"
  unfolding moves_def put_command_def life_of_def attempts_of_def by auto

lemma record_outbox:
  assumes "result_confirmation (rrq_Outcome q) = Some level"
  shows "keeps outbox (record_body q level i e dl)"
proof (rule keeps_outboxI)
  show "keeps log_grows (record_body q level i e dl)" using assms by (rule log.R_record)
  fix w r w'
  assume run: "record_body q level i e dl w = (Inr r, w')" and ok: "db_ok (w_db w)" and log: "log_grows (w_db w) (w_db w')"
  from run ok assms show "outbox (w_db w) (w_db w')"
  proof (cases rule: record_moves)
    case replay
    then show ?thesis by (simp add: same_db_outbox)
  next
    case (recorded c d1 d)
    let ?e = "result_event e (rrs_Result r) (rrs_Command r)"
    from recorded(9) obtain e' where e': "e' \<in> set (tbl_events (w_db w'))" "evt_CommandID e' = evt_CommandID ?e"
      "evt_EventType e' = evt_EventType ?e" "evt_Payload e' = evt_Payload ?e" "tbl_commands (w_db w') = tbl_commands d"
      by (rule announcesE)
    have tell: "announced (rrs_Command r) (w_db w')"
      using e'(1) unfolding announced_def
      by (rule bexI [rotated]) (simp add: event_tells_def e'(2-4) result_event_def)
    note core = same_facts_core [OF recorded(9)]
    from recorded(8) show ?thesis
    proof
      assume "moves (w_now w) c (rrs_Command r) d1 d"
      then have "moves (w_now w) c (rrs_Command r) d1 (w_db w')" by (rule moves_same_tables) (use core in simp)
      then have "moves (w_now w) c (rrs_Command r) (w_db w) (w_db w')" by (rule moves_from_same) (simp_all add: recorded(7))
      with log tell show ?thesis by (blast intro: outboxI)
    next
      assume "rrs_Command r = c \<and> d = d1"
      then have "same_core (w_db w) (w_db w')" using core recorded(7) by (simp add: same_core_def)
      with log show ?thesis by (rule outbox_core [rotated])
    qed
  qed
qed

lemma claim_outbox: "keeps outbox (ClaimNext r)"
  by (rule keeps_outboxI [OF log.R_claim], erule ClaimNext_moves, assumption)
    (auto intro: same_db_outbox outboxI)

lemma fail_outbox:
  "before_dispatch_outcome outcome \<Longrightarrow> keeps outbox (fail_in_transaction c a source outcome reason detail)"
  by (rule keeps_outboxI [OF log.R_refuse], assumption, erule fail_in_transaction_moves)
    (auto intro: status_reported_outbox)

lemma commit_outbox: "keeps outbox (commit_dispatch_body c a source lease summary)"
  by (rule keeps_outboxI [OF log.R_commit], erule commit_dispatch_moves) (auto intro: status_reported_outbox)

lemma persist_outbox: "keeps outbox (persist_body reg c a r)"
  by (rule keeps_outboxI [OF log.R_persist], erule persist_moves)
    (auto intro: status_reported_outbox evidence_reported_outbox)

lemma maintenance_outbox: "keeps outbox recover_body" "keeps outbox expire_queued_body" "keeps outbox expire_result_body"
proof -
  show "keeps outbox recover_body"
    by (rule keeps_outboxI [OF log.R_recover], erule recover_moves) (auto intro: same_db_outbox evidence_reported_outbox)
  show "keeps outbox expire_queued_body"
    by (rule keeps_outboxI [OF log.R_expire_queued], erule ExpireQueued_moves) (auto intro: same_db_outbox status_reported_outbox)
  show "keeps outbox expire_result_body"
    by (rule keeps_outboxI [OF log.R_expire_result], erule ExpireResult_moves) (auto intro: same_db_outbox status_reported_outbox)
qed

interpretation outbox: platform_relation outbox
  by unfold_locales
    (auto intro: create_body_outbox cancel_body_outbox claim_outbox fail_outbox commit_outbox persist_outbox
      maintenance_outbox record_outbox outbox_core simp: bystander_def log_grows_def)

end
