(* ===== verification/Command_Progress.thy ===== *)
theory Command_Progress
  imports Command_Platform
begin

text \<open>
  When the driver does not fail, what is due is done: the conditions under which publishing an Event,
  handing a claimed Attempt to its provider, and recovering or expiring a Command succeed. The random
  identities the process is about to draw must be new; nothing else is left to chance.
\<close>

subsection \<open>Publishing\<close>

text \<open>A Project with a webhook has the secret its configuration names.\<close>

definition secret_ready :: "db \<Rightarrow> gostr \<Rightarrow> bool" where
  "secret_ready d projectID \<longleftrightarrow>
     (case configured d projectID of None \<Rightarrow> True | Some cfg \<Rightarrow> secret_known d projectID (wcf_secretVersion cfg))"

lemma secret_ready_cong:
  "tbl_projects d = tbl_projects d' \<Longrightarrow> tbl_secrets d = tbl_secrets d' \<Longrightarrow> secret_ready d p = secret_ready d' p"
proof -
  assume "tbl_projects d = tbl_projects d'" "tbl_secrets d = tbl_secrets d'"
  moreover then have "secret_known d = secret_known d'" by (simp add: secret_known_def fun_eq_iff)
  ultimately show ?thesis by (auto simp: secret_ready_def configured_def split: option.splits)
qed

lemma edits_keep_secrets [simp]:
  "tbl_secrets (put_command c d) = tbl_secrets d" "tbl_secrets (edit_attempt i f d) = tbl_secrets d"
  by (simp_all add: put_command_def edit_attempt_def)

lemma secret_ready_no_webhook: "list_all (\<lambda>p. prj_WebhookURL p = None) (tbl_projects d) \<Longrightarrow> secret_ready d x"
  by (auto simp: secret_ready_def configured_def usable_config_def list_all_iff dest: find_SomeD split: option.splits)

definition can_announce :: "gostr \<Rightarrow> gostr \<Rightarrow> world \<Rightarrow> bool" where
  "can_announce projectID key w \<longleftrightarrow>
     w_faults w = [] \<and> 32 \<le> length (w_random w) \<and> secret_ready (w_db w) projectID \<and>
     drawn_uuid 0 w \<notin> evt_ID ` set (tbl_events (w_db w)) \<and>
     drawn_uuid 0 w \<notin> whd_EventID ` set (tbl_deliveries (w_db w)) \<and>
     drawn_uuid 1 w \<notin> whd_ID ` set (tbl_deliveries (w_db w)) \<and>
     \<not> list_ex (\<lambda>x. evt_ProjectID x = projectID \<and> evt_DeduplicationKey x = key) (tbl_events (w_db w))"

lemma CreateDelivery_succeeds:
  assumes calm: "w_faults w = []" and found: "find (\<lambda>x. evt_ID x = eventID) (tbl_events (w_db w)) = Some e"
    and new: "eventID \<notin> whd_EventID ` set (tbl_deliveries (w_db w))" "i \<notin> whd_ID ` set (tbl_deliveries (w_db w))"
    and filled: "TrimSpace i \<noteq> []" "TrimSpace eventID \<noteq> []" "body \<noteq> []"
    and secret: "secret_ready (w_db w) (evt_ProjectID e)"
  shows "\<exists>r w'. CreateDelivery \<lparr>cwd_ID = i, cwd_EventID = eventID, cwd_RawBody = body\<rparr> w = (Inr r, w') \<and>
    w_faults w' = [] \<and> w_random w' = w_random w \<and> tbl_audits (w_db w') = tbl_audits (w_db w)"
proof (cases "configured (w_db w) (evt_ProjectID e)")
  case None
  with filled found calm show ?thesis
    by (simp add: CreateDelivery_def on_row_run select_row_run bnd_run lockCurrentWebhookConfig_run ret_run
        ex_disj_distrib conj_disj_distribR)
next
  case (Some cfg)
  let ?w3 = "consume (consume w)"
  have "\<not> list_ex (\<lambda>x. whd_ID x = i) (tbl_deliveries (w_db w))"
    "\<not> list_ex (\<lambda>x. whd_EventID x = eventID \<and> whd_ReplayOfDeliveryID x = None) (tbl_deliveries (w_db w))"
    using new by (auto simp: list_ex_iff image_iff)
  then obtain dl where ins: "insertDelivery i (evt_ProjectID e) eventID body cfg None ?w3 =
      (Inr (), (consume ?w3)\<lparr>w_db := (w_db ?w3)\<lparr>tbl_deliveries := tbl_deliveries (w_db ?w3) @ [dl]\<rparr>\<rparr>)" "whd_ID dl = i"
    using calm secret Some by (auto simp: insertDelivery_def sql_def secret_ready_def)
  have "find (\<lambda>x. whd_ID x = i) (tbl_deliveries (w_db w) @ [dl]) \<noteq> None"
    using ins(2) by (auto simp: find_None_iff)
  then have "\<exists>x. find (\<lambda>x. whd_ID x = i) (tbl_deliveries (w_db w) @ [dl]) = Some x" by blast
  with filled found calm Some ins show ?thesis
    by (auto simp: CreateDelivery_def on_row_run select_row_run bnd_run lockCurrentWebhookConfig_run ret_run
        webhook_GetDelivery_def query_row_run intro!: exI)
qed

lemma event_Create_succeeds:
  assumes "w_faults w = []" and "evt_ID e \<notin> evt_ID ` set (tbl_events (w_db w))"
    and "\<not> list_ex (\<lambda>x. evt_ProjectID x = evt_ProjectID e \<and> evt_DeduplicationKey x = evt_DeduplicationKey e)
       (tbl_events (w_db w))"
  obtains e' w' where "event_Create e w = (Inr (), w')" "w_faults w' = []" "w_random w' = w_random w"
    "w_db w' = (w_db w)\<lparr>tbl_events := tbl_events (w_db w) @ [e']\<rparr>"
    "find (\<lambda>x. evt_ID x = evt_ID e) (tbl_events (w_db w')) = Some e'" "evt_ProjectID e' = evt_ProjectID e"
proof -
  let ?e = "e\<lparr>evt_OccurredAt := pg_time (evt_OccurredAt e), evt_CreatedAt := pg_time (evt_CreatedAt e)\<rparr>"
  let ?w1 = "(consume w)\<lparr>w_db := (w_db w)\<lparr>tbl_events := tbl_events (w_db w) @ [?e]\<rparr>\<rparr>"
  have "find (\<lambda>x. evt_ID x = evt_ID e) (tbl_events (w_db w)) = None"
    using assms(2) by (simp add: find_None_iff image_iff) metis
  then have "find (\<lambda>x. evt_ID x = evt_ID e) (tbl_events (w_db ?w1)) = Some ?e"
    by (simp add: find_append_None)
  with that [of ?w1 ?e] assms show thesis by (simp add: event_Create_run)
qed

lemma publish_succeeds:
  assumes calm: "w_faults w = []" and new: "evt_ID e \<notin> evt_ID ` set (tbl_events (w_db w))"
    "evt_ID e \<notin> whd_EventID ` set (tbl_deliveries (w_db w))" "i \<notin> whd_ID ` set (tbl_deliveries (w_db w))"
    and key: "\<not> list_ex (\<lambda>x. evt_ProjectID x = evt_ProjectID e \<and> evt_DeduplicationKey x = evt_DeduplicationKey e)
       (tbl_events (w_db w))"
    and filled: "TrimSpace i \<noteq> []" "TrimSpace (evt_ID e) \<noteq> []" "body \<noteq> []"
    and secret: "secret_ready (w_db w) (evt_ProjectID e)"
  shows "\<exists>w'. bnd (event_Create e) (\<lambda>u. bnd (CreateDelivery \<lparr>cwd_ID = i, cwd_EventID = evt_ID e, cwd_RawBody = body\<rparr>)
      (\<lambda>delivery. ret ())) w = (Inr (), w') \<and> w_faults w' = []"
proof -
  from calm new(1) key obtain e' w1 where ev: "event_Create e w = (Inr (), w1)" "w_faults w1 = []"
    "w_db w1 = (w_db w)\<lparr>tbl_events := tbl_events (w_db w) @ [e']\<rparr>"
    "find (\<lambda>x. evt_ID x = evt_ID e) (tbl_events (w_db w1)) = Some e'" "evt_ProjectID e' = evt_ProjectID e" by (rule event_Create_succeeds)
  have "secret_ready (w_db w1) (evt_ProjectID e')"
    using secret by (subst secret_ready_cong [of _ "w_db w"]) (simp_all add: ev(3,5))
  from CreateDelivery_succeeds [OF ev(2,4), of i body] this new filled ev show ?thesis
    by (auto simp: bnd_run ret_run)
qed

lemma createCommandEvent_succeeds:
  assumes "can_announce (cmd_ProjectID c) key w"
  shows "\<exists>w'. createCommandEvent c source eventType payload key w = (Inr (), w') \<and> w_faults w' = []"
proof -
  let ?w2 = "w\<lparr>w_random := drop 32 (w_random w)\<rparr>"
  have ids: "newEventIdentities w = (Inr (drawn_uuid 0 w, drawn_uuid 1 w), ?w2)"
    using assms by (simp add: newEventIdentities_def bnd_run randomUUID_run ret_run can_announce_def drawn_uuid_def le_diff_conv2)
  obtain t w3 where t: "(if cmd_UpdatedAt c = zero_time then time_now else ret (cmd_UpdatedAt c)) ?w2 = (Inr t, w3)"
    and w3: "w_db w3 = w_db w" "w_faults w3 = []"
  proof (cases "cmd_UpdatedAt c = zero_time")
    case True
    with that [of _ "tick ?w2"] assms show ?thesis by (simp add: time_now_run can_announce_def)
  next
    case False
    with that [of _ ?w2] assms show ?thesis by (simp add: ret_run can_announce_def)
  qed
  let ?e = "\<lparr>evt_ID = drawn_uuid 0 w, evt_SchemaVersion = EventSchemaVersion, evt_EventType = eventType,
              evt_ProjectID = cmd_ProjectID c, evt_DeviceID = Some (cmd_DeviceID c),
              evt_CommandID = Some (cmd_ID c), evt_Source = source, evt_Payload = payload,
              evt_RawMessageID = None, evt_DeduplicationKey = key,
              evt_OccurredAt = t, evt_CreatedAt = t\<rparr>"
  have "\<exists>w'. bnd (event_Create ?e) (\<lambda>u. bnd (CreateDelivery \<lparr>cwd_ID = drawn_uuid 1 w, cwd_EventID = evt_ID ?e,
      cwd_RawBody = json_marshal (event_envelope ?e)\<rparr>) (\<lambda>delivery. ret ())) w3 = (Inr (), w') \<and> w_faults w' = []"
    by (rule publish_succeeds)
      (use assms w3 in \<open>simp_all add: can_announce_def json_marshal_not_Nil, simp_all add: drawn_uuid_def TrimSpace_uuid\<close>)
  with ids t show ?thesis unfolding createCommandEvent_def by (auto simp: bnd_run Let_def)
qed

subsection \<open>Handing a claimed Attempt to its provider\<close>

lemma update_attempts_succeeds:
  assumes "next_fault w = None" and keys: "keys_ok (w_db w)" and a: "a \<in> set (tbl_attempts (w_db w))" "p (w_now w) a"
    and key: "\<And>x. p (w_now w) x \<Longrightarrow> att_ID x = att_ID a" and chk: "attempt_check (f (w_now w) (w_db w) a)"
  shows "update_attempts p f w =
    (Inr 1, (consume w)\<lparr>w_db := edit_attempt (att_ID a) (f (w_now w) (w_db w)) (w_db w)\<rparr>)"
proof -
  have "p (w_now w) x \<longrightarrow> attempt_check (f (w_now w) (w_db w) x)" if "x \<in> set (tbl_attempts (w_db w))" for x
    using key attempt_unique [OF keys that a(1)] chk by blast
  with assms(1) obtain n w' where run: "update_attempts p f w = (Inr n, w')"
    by (simp add: update_attempts_run list_all_iff)
  from update_attempts_one [OF run keys a key] run show ?thesis by (auto simp: update_attempts_run)
qed

lemma update_commands_succeeds:
  assumes "next_fault w = None" and keys: "keys_ok (w_db w)" and c: "c \<in> set (tbl_commands (w_db w))" "p (w_now w) c"
    and key: "\<And>x. p (w_now w) x \<Longrightarrow> cmd_ID x = cmd_ID c" and chk: "command_check (f (w_now w) c)"
    and same: "cmd_ID (f (w_now w) c) = cmd_ID c"
  shows "update_commands p f w = (Inr 1, (consume w)\<lparr>w_db := put_command (f (w_now w) c) (w_db w)\<rparr>)"
proof -
  have "p (w_now w) x \<longrightarrow> command_check (f (w_now w) x)" if "x \<in> set (tbl_commands (w_db w))" for x
    using key command_unique [OF keys that c(1)] chk by blast
  with assms(1) obtain n w' where run: "update_commands p f w = (Inr n, w')"
    by (simp add: update_commands_run list_all_iff)
  from update_commands_one [OF run keys c key same] run show ?thesis by (auto simp: update_commands_run)
qed

lemma find_owned:
  assumes "keys_ok d" and "owns d c a"
  shows "find (\<lambda>x. cmd_ID x = cmd_ID c) (tbl_commands d) = Some c"
    and "find (\<lambda>x. att_ID x = att_ID a \<and> att_CommandID x = cmd_ID c) (tbl_attempts d) = Some a"
proof -
  have c: "c \<in> set (tbl_commands d)" and a: "a \<in> set (tbl_attempts d)" "att_CommandID a = cmd_ID c"
    using assms(2) by (simp_all add: owns_def)
  show "find (\<lambda>x. cmd_ID x = cmd_ID c) (tbl_commands d) = Some c"
    by (rule find_only [OF c refl]) (rule command_unique [OF assms(1) _ c])
  show "find (\<lambda>x. att_ID x = att_ID a \<and> att_CommandID x = cmd_ID c) (tbl_attempts d) = Some a"
    by (rule find_only) (simp_all add: a, blast intro: attempt_unique [OF assms(1) _ a(1)])
qed

lemma only_attempt:
  assumes "db_ok d" and "owns d c a"
  shows "attempts_of (cmd_ID c) d = [a]"
proof -
  have "length (attempts_of (cmd_ID c) d) \<le> 1"
    using life_ok_attempts [OF db_ok_life [OF assms(1), of c]] assms(2) by (simp add: owns_def life_of_def)
  with owns_attempts_of [OF assms(2)] show ?thesis by (cases "attempts_of (cmd_ID c) d") auto
qed

lemma owned_ok:
  assumes "db_ok d" and "owns d c a"
  shows "command_check c" "attempt_check a" "phase_status [a] (cmd_Status c)" "keys_ok d"
  using db_ok_life [OF assms(1), of c] assms only_attempt [OF assms]
  by (auto simp: owns_def life_of_def life_ok_def rows_ok_def dest: db_ok_keys)

lemma lockCommandAttempt_succeeds:
  assumes "w_faults w = []" and "keys_ok (w_db w)" and "owns (w_db w) c a"
  shows "lockCommandAttempt (cmd_ID c) (att_ID a) w = (Inr (locked_of (w_now w) c a), consume (consume w))"
  using assms find_owned [OF assms(2,3)]
  by (simp add: lockCommandAttempt_def bnd_run query_row_run select_row_run)

lemma can_announce_cong:
  "w_faults w = w_faults w' \<Longrightarrow> w_random w = w_random w' \<Longrightarrow> tbl_events (w_db w) = tbl_events (w_db w') \<Longrightarrow>
   tbl_deliveries (w_db w) = tbl_deliveries (w_db w') \<Longrightarrow> tbl_projects (w_db w) = tbl_projects (w_db w') \<Longrightarrow>
   tbl_secrets (w_db w) = tbl_secrets (w_db w') \<Longrightarrow> can_announce p key w \<longleftrightarrow> can_announce p key w'"
  by (simp add: can_announce_def drawn_uuid_def cong: secret_ready_cong)

lemma sent_check:
  assumes "command_check c" and "cmd_Status c = CommandStatusQueued" and "cmd_QueuedAt c \<le> t" and "t < deadline"
  shows "command_check (sent_with t deadline c)"
  using assms
  by (auto simp: command_check_def chk_status_confirmation_def chk_reason_def chk_reason_evidence_def chk_finished_def
      chk_status_timing_def chk_deadlines_def chk_snapshot_policy_def sent_with_def Let_def)

lemma dispatching_check:
  assumes "attempt_check a" and "att_Phase a = AttemptPhaseClaimed" and "att_ClaimedAt a \<le> t" and "t < expires"
  shows "attempt_check (dispatching_from t summary expires a)"
  using assms by (auto simp: attempt_check_def dispatching_from_def)

definition device_ready :: "db \<Rightarrow> Command \<Rightarrow> bool" where
  "device_ready d c \<longleftrightarrow>
     (cmd_DeliveryPolicy c = DeliveryPolicyOnlineOnly \<longrightarrow>
        (case find (\<lambda>x. dev_ID x = cmd_DeviceID c) (tbl_devices d) of
           None \<Rightarrow> False
         | Some x \<Rightarrow> dev_ConnectionStatus x = ConnectionStatusOnline))"

lemma commit_dispatch_body_succeeds:
  assumes ok: "db_ok (w_db w)" and own: "owns (w_db w) c a" and claimed: "att_Phase a = AttemptPhaseClaimed"
    and live: "w_now w < att_LeaseExpiresAt a" "w_now w < cmd_DispatchDeadlineAt c"
    and past: "cmd_QueuedAt c \<le> w_now w" "att_ClaimedAt a \<le> w_now w"
    and times: "Microsecond \<le> cmd_ResultTimeout c" "Microsecond \<le> lease"
    and ready: "device_ready (w_db w) c"
    and new: "can_announce (cmd_ProjectID c) (status_key (cmd_ID c) CommandStatusSent) w"
  shows "\<exists>w'. commit_dispatch_body c a source lease summary w = (Inr True, w') \<and> w_faults w' = []"
proof -
  let ?t = "w_now w"
  let ?deadline = "?t + Microseconds (cmd_ResultTimeout c) * Microsecond" and ?expires = "?t + Microseconds lease * Microsecond"
  let ?a = "dispatching_from ?t summary ?expires" and ?c = "sent_with ?t ?deadline c"
  let ?m = "\<lparr>mdr_ResultObservationTimeout = cmd_ResultTimeout c, mdr_DispatchLeaseDuration = lease, mdr_RequestSummary = summary\<rparr>"
  have calm: "w_faults w = []" using new by (simp add: can_announce_def)
  note keys = db_ok_keys [OF ok]
  have queued: "cmd_Status c = CommandStatusQueued" using owned_ok(3) [OF ok own] claimed by simp
  note chk = owned_ok(1,2) [OF ok own]
  have later: "?t < ?deadline" "?t < ?expires"
    using times by (simp_all add: Microseconds_pos)
  obtain w1 where online: "(if cmd_DeliveryPolicy c = DeliveryPolicyOnlineOnly
          then bnd (device_GetForUpdate (cmd_DeviceID c)) (\<lambda>d. ret (dev_ConnectionStatus d = ConnectionStatusOnline))
          else ret True) w = (Inr True, w1)"
    and w1: "w_db w1 = w_db w" "w_now w1 = ?t" "w_faults w1 = []" "w_random w1 = w_random w"
  proof (cases "cmd_DeliveryPolicy c = DeliveryPolicyOnlineOnly")
    case True
    with ready calm that [of "consume w"] show ?thesis
      by (auto simp: device_ready_def device_GetForUpdate_def bnd_run query_row_run ret_run split: option.splits)
  next
    case False
    with that [of w] calm show ?thesis by (simp add: ret_run)
  qed
  let ?w2 = "consume (consume w1)"
  let ?w3 = "(consume ?w2)\<lparr>w_db := edit_attempt (att_ID a) ?a (w_db w)\<rparr>"
  let ?w4 = "(consume ?w3)\<lparr>w_db := put_command ?c (w_db ?w3)\<rparr>"
  have own1: "owns (w_db w1) c a" using own w1 by simp
  have lock: "lockCommandAttempt (cmd_ID c) (att_ID a) w1 = (Inr (locked_of ?t c a), ?w2)"
    using lockCommandAttempt_succeeds [OF _ _ own1] w1 keys by simp
  have "update_attempts (\<lambda>t x. att_ID x = att_ID a) (\<lambda>t d. dispatching_from t summary (t + Microseconds lease * Microsecond)) ?w2 = (Inr 1, ?w3)"
    using update_attempts_succeeds [of ?w2 a "\<lambda>t x. att_ID x = att_ID a"
        "\<lambda>t d. dispatching_from t summary (t + Microseconds lease * Microsecond)"]
      keys own w1 dispatching_check [OF chk(2) claimed past(2) later(2)] by (simp add: owns_def)
  moreover have "update_commands (\<lambda>t x. cmd_ID x = cmd_ID c) (\<lambda>t. sent_with t (t + Microseconds (cmd_ResultTimeout c) * Microsecond)) ?w3 = (Inr 1, ?w4)"
    using update_commands_succeeds [of ?w3 c "\<lambda>t x. cmd_ID x = cmd_ID c"
        "\<lambda>t. sent_with t (t + Microseconds (cmd_ResultTimeout c) * Microsecond)"]
      keys_edit [OF keys, of ?a] own w1 sent_check [OF chk(1) queued past(1) later(1)] by (simp add: owns_def)
  ultimately have mark: "MarkDispatching (cmd_ID c) (att_ID a) (att_LeaseToken a) ?m w1 = (Inr True, ?w4)"
    using times lock queued claimed live
    by (auto simp: MarkDispatching_dispatching on_row_run bnd_run ret_run locked_of_def exactlyOneRow_def intro!: exI)
  have get: "command_Get (cmd_ID c) ?w4 = (Inr ?c, consume ?w4)"
  proof -
    have "find (\<lambda>x. cmd_ID x = cmd_ID c) (tbl_commands (w_db ?w4)) = Some ?c"
      using own keys by (intro find_only) (auto simp: owns_def commands_put intro: command_unique)
    then show ?thesis using w1 by (simp add: command_Get_def query_row_run)
  qed
  have "can_announce (cmd_ProjectID ?c) (status_key (cmd_ID c) CommandStatusSent) (consume ?w4)"
    using new w1 by (subst can_announce_cong [of _ w]) (simp_all add: sent_with_def consume_def calm)
  from createCommandEvent_succeeds [OF this, of source EventTypeCommandStatusChanged "status_payload CommandStatusQueued ?c"]
  obtain w' where "createStatusEvent ?c CommandStatusQueued source (status_key (cmd_ID c) CommandStatusSent) (consume ?w4) = (Inr (), w')"
    "w_faults w' = []" by (auto simp: createStatusEvent_def status_payload_def)
  then show ?thesis using online mark get
    by (auto simp: commit_dispatch_body_def require_def bnd_run check_run ret_run intro!: exI)
qed

subsection \<open>Recovering an expired dispatch\<close>

definition recovery_key :: "gostr \<Rightarrow> gostr \<Rightarrow> gostr" where
  "recovery_key commandID attemptID =
     ''command.evidence_updated:'' @ commandID @ '':attempt:'' @ attemptID @ '':indeterminate:transport_sent:unverified''"

lemma recovered_check:
  assumes "attempt_check a" and "att_Phase a = AttemptPhaseDispatching" and "att_LeaseExpiresAt a \<le> t"
    and "\<And>x. att_DispatchingAt a = Some x \<Longrightarrow> x \<le> t"
  shows "attempt_check (completed_as t AttemptOutcomeIndeterminate ConfirmationTransportSent EvidenceUnverified []
       (Some ''provider_delivery_unknown'') None a)"
  using assms
  by (auto simp: attempt_check_def completed_as_def before_dispatch_outcome_def reason_in_def known_confirmation_def
      confirmation_evidence_def split: option.splits)

lemma unverified_check:
  assumes "command_check c" and "cmd_Status c = CommandStatusSent"
  shows "command_check (evidenced t ConfirmationTransportSent EvidenceUnverified c)"
  using assms
  by (auto simp: command_check_def chk_status_confirmation_def chk_reason_def chk_reason_evidence_def chk_finished_def
      chk_status_timing_def chk_deadlines_def chk_snapshot_policy_def evidenced_def known_confirmation_def
      confirmation_evidence_def Let_def)

lemma recover_body_succeeds:
  assumes ok: "db_ok (w_db w)" and own: "owns (w_db w) c a"
    and first: "first_by (\<lambda>a. (att_LeaseExpiresAt a, att_ID a))
       (filter (expired_dispatching (w_now w) (w_db w)) (tbl_attempts (w_db w))) = Some a"
    and past: "\<And>x. att_DispatchingAt a = Some x \<Longrightarrow> x \<le> w_now w"
    and new: "can_announce (cmd_ProjectID c) (recovery_key (cmd_ID c) (att_ID a)) w"
  shows "\<exists>w'. recover_body w = (Inr True, w') \<and> w_faults w' = [] \<and>
    tbl_attempts (w_db w') = on_attempt (att_ID a) (completed_as (w_now w) AttemptOutcomeIndeterminate
      ConfirmationTransportSent EvidenceUnverified [] (Some ''provider_delivery_unknown'') None) (tbl_attempts (w_db w))"
proof -
  let ?t = "w_now w"
  let ?g = "\<lambda>t. completed_as t AttemptOutcomeIndeterminate ConfirmationTransportSent
      EvidenceUnverified [] (Some ''provider_delivery_unknown'') None"
  let ?f = "\<lambda>t. evidenced t ConfirmationTransportSent EvidenceUnverified"
  let ?p = "\<lambda>t x. att_ID x = att_ID a \<and> att_CommandID x = cmd_ID c \<and>
      att_Phase x = AttemptPhaseDispatching \<and> att_LeaseToken x = att_LeaseToken a"
  let ?q = "\<lambda>t x. cmd_ID x = cmd_ID c \<and> cmd_Status x = CommandStatusSent"
  have calm: "w_faults w = []" using new by (simp add: can_announce_def)
  note keys = db_ok_keys [OF ok]
  have mem: "c \<in> set (tbl_commands (w_db w))" "a \<in> set (tbl_attempts (w_db w))" "att_CommandID a = cmd_ID c"
    using own by (simp_all add: owns_def)
  have due: "att_Phase a = AttemptPhaseDispatching" "att_LeaseExpiresAt a \<le> ?t" "cmd_Status c = CommandStatusSent"
    using first_by_sat [OF first] command_unique [OF keys _ mem(1)]
    by (auto simp: expired_dispatching_def list_ex_iff mem)
  note chk = owned_ok(1,2) [OF ok own]
  let ?w1 = "consume w" let ?w3 = "consume (consume ?w1)"
  let ?w4 = "(consume ?w3)\<lparr>w_db := edit_attempt (att_ID a) (?g ?t) (w_db w)\<rparr>"
  let ?w5 = "(consume ?w4)\<lparr>w_db := put_command (?f ?t c) (w_db ?w4)\<rparr>"
  have unfold: "RecoverExpiredDispatching (cmd_ID c) (att_ID a) (att_LeaseToken a) =
     on_row (lockCommandAttempt (cmd_ID c) (att_ID a)) (ret False) (\<lambda>l.
       if lck_commandStatus l \<noteq> CommandStatusSent \<or> lck_attemptPhase l \<noteq> AttemptPhaseDispatching \<or>
          lck_leaseToken l \<noteq> att_LeaseToken a \<or> lck_leaseValid l
       then ret False
       else bnd (update_attempts ?p (\<lambda>t d. ?g t)) (\<lambda>u. bnd (update_commands ?q ?f) (\<lambda>n. ret (exactlyOneRow n))))"
    unfolding RecoverExpiredDispatching_def completed_as_def evidenced_def by simp
  have lock: "lockCommandAttempt (cmd_ID c) (att_ID a) ?w1 = (Inr (locked_of ?t c a), ?w3)"
    using lockCommandAttempt_succeeds [of ?w1 c a] calm keys own by simp
  have "update_attempts ?p (\<lambda>t d. ?g t) ?w3 = (Inr 1, ?w4)"
    using update_attempts_succeeds [of ?w3 a ?p "\<lambda>t d. ?g t"] calm keys mem due recovered_check [OF chk(2) due(1,2) past]
    by simp
  moreover have "update_commands ?q ?f ?w4 = (Inr 1, ?w5)"
    using update_commands_succeeds [of ?w4 c ?q ?f] calm keys_edit [OF keys, of "?g ?t"] mem due unverified_check [OF chk(1) due(3)]
    by simp
  ultimately have rec: "RecoverExpiredDispatching (cmd_ID c) (att_ID a) (att_LeaseToken a) ?w1 = (Inr True, ?w5)"
    unfolding unfold using lock due
    by (auto simp: on_row_run bnd_run ret_run locked_of_def exactlyOneRow_def intro!: exI)
  have get: "command_Get (cmd_ID c) ?w5 = (Inr (?f ?t c), consume ?w5)"
  proof -
    have "find (\<lambda>x. cmd_ID x = cmd_ID c) (tbl_commands (w_db ?w5)) = Some (?f ?t c)"
      using mem keys by (intro find_only) (auto simp: commands_put intro: command_unique)
    then show ?thesis using calm by (simp add: command_Get_def query_row_run)
  qed
  have att: "getAttempt (att_ID a) (consume ?w5) = (Inr (?g ?t a), consume (consume ?w5))"
  proof -
    have "find (\<lambda>x. att_ID x = att_ID a) (tbl_attempts (w_db ?w5)) = Some (?g ?t a)"
      using mem attempt_unique [OF keys _ mem(2)]
      by (intro find_only) (auto simp: edit_attempt_def on_attempt_def split: if_splits)
    then show ?thesis using calm by (simp add: getAttempt_def query_row_run)
  qed
  have sel: "select_first tbl_attempts expired_dispatching (\<lambda>a. (att_LeaseExpiresAt a, att_ID a)) w = (Inr a, ?w1)"
    using calm first by (simp add: select_first_run)
  have next_one: "RecoverNextExpiredDispatching w = (Inr (Some (?f ?t c, ?g ?t a)), consume (consume ?w5))"
    using sel rec get att mem(3)
    by (auto simp: RecoverNextExpiredDispatching_def on_row_run bnd_run ret_run intro!: exI)
  have "can_announce (cmd_ProjectID (?f ?t c)) (recovery_key (cmd_ID c) (att_ID a)) (consume (consume ?w5))"
    using new by (subst can_announce_cong [of _ w]) (simp_all add: evidenced_def consume_def calm)
  from createCommandEvent_succeeds [OF this] obtain w' where
    "createEvidenceEvent (?f ?t c) (att_ID a) AttemptOutcomeIndeterminate EventSourceSystem
       (recovery_key (cmd_ID c) (att_ID a)) (consume (consume ?w5)) = (Inr (), w')" "w_faults w' = []"
    and "tbl_attempts (w_db w') = tbl_attempts (w_db ?w5)"
    unfolding createEvidenceEvent_def by (metis createCommandEvent_run same_facts_core consume_simps(1))
  with next_one show ?thesis
    by (auto simp: recover_body_def bnd_run ret_run recovery_key_def edit_attempt_def intro!: exI)
qed

end
