(* ===== verification/Command_Create.thy ===== *)
theory Command_Create
  imports Command_Outbox Command_Progress
begin

text \<open>
  Creating Commands: what a request must satisfy to be admitted, that it then succeeds, and that a
  repeated request is answered with the Command the first one made.
\<close>

subsection \<open>What a successful Create has done\<close>

text \<open>The facts that admit a request: all of them read in the transaction that stores the Command.\<close>

definition admitted ::
  "provider_registry \<Rightarrow> Scope \<Rightarrow> gostr \<Rightarrow> gostr \<Rightarrow> ActionIdentifier \<Rightarrow> gomap \<Rightarrow> db \<Rightarrow>
   Project \<Rightarrow> Device \<Rightarrow> DeviceType \<Rightarrow> DeviceTypeProfile \<Rightarrow> CapabilityAction \<Rightarrow> bool" where
  "admitted providers s projectID deviceID commandType payload d project device deviceType profile action \<longleftrightarrow>
     find (\<lambda>p. prj_ID p = projectID) (tbl_projects d) = Some project \<and> CanAccessProject s project \<and>
     find (\<lambda>x. dev_ID x = deviceID) (tbl_devices d) = Some device \<and> dev_ProjectID device = projectID \<and>
     dev_LifecycleStatus device = LifecycleStatusActive \<and>
     find (\<lambda>x. dty_Code x = dev_DeviceTypeCode device) (tbl_device_types d) = Some deviceType \<and>
     dty_ID deviceType = dev_DeviceTypeID device \<and>
     find (\<lambda>x. dtp_DeviceTypeID x = dty_ID deviceType \<and> dtp_Revision x = dty_CurrentRevision deviceType) (tbl_profiles d)
       = Some profile \<and>
     findAction profile commandType = Some action \<and> validateActionPayload action payload \<and>
     provider_allows providers device commandType = Inr () \<and>
     (cap_DeliveryPolicy action = DeliveryPolicyOnlineOnly \<longrightarrow> dev_ConnectionStatus device = ConnectionStatusOnline)"

definition same_request :: "gostr \<Rightarrow> ActionIdentifier \<Rightarrow> gomap \<Rightarrow> Command \<Rightarrow> bool" where
  "same_request deviceID commandType payload c \<longleftrightarrow>
     cmd_DeviceID c = deviceID \<and> cmd_CommandType c = commandType \<and>
     json_marshal (JMap (cmd_Payload c)) = json_marshal (JMap payload)"

definition stored_command :: "Command \<Rightarrow> Command" where
  "stored_command c =
     c\<lparr>cmd_DispatchDeadline := Milliseconds (cmd_DispatchDeadline c) * Millisecond,
       cmd_ProviderTimeout := Milliseconds (cmd_ProviderTimeout c) * Millisecond,
       cmd_ResultTimeout := Milliseconds (cmd_ResultTimeout c) * Millisecond,
       cmd_QueuedAt := pg_time (cmd_QueuedAt c), cmd_DispatchDeadlineAt := pg_time (cmd_DispatchDeadlineAt c),
       cmd_SentAt := map_option pg_time (cmd_SentAt c),
       cmd_ResultDeadlineAt := map_option pg_time (cmd_ResultDeadlineAt c),
       cmd_FinishedAt := map_option pg_time (cmd_FinishedAt c),
       cmd_CreatedAt := pg_time (cmd_CreatedAt c), cmd_UpdatedAt := pg_time (cmd_UpdatedAt c)\<rparr>"

definition trimmed_actor :: "RequestMetadata \<Rightarrow> RequestMetadata \<Rightarrow> bool" where
  "trimmed_actor raw m \<longleftrightarrow> rmd_ActorType m = rmd_ActorType raw \<and>
     rmd_ActorUserID m = TrimSpace (rmd_ActorUserID raw) \<and> rmd_ActorID m = TrimSpace (rmd_ActorID raw)"

lemma validated_actor: "validateMetadata s raw = Inr m \<Longrightarrow> trimmed_actor raw m"
  by (auto simp: validateMetadata_def trimmed_actor_def Let_def split: if_splits option.splits)

text \<open>The audit record of a creation names the Command and, as the request did, the actor.\<close>

definition creation_audit :: "RequestMetadata \<Rightarrow> Command \<Rightarrow> AuditLog \<Rightarrow> bool" where
  "creation_audit m c a \<longleftrightarrow>
     aud_Action a = ''command.created'' \<and> aud_Result a = AuditResultSuccess \<and>
     aud_ResourceType a = ''command'' \<and> aud_ResourceID a = Some (cmd_ID c) \<and>
     aud_ProjectID a = Some (cmd_ProjectID c) \<and> aud_ActorType a = rmd_ActorType m \<and>
     aud_ActorUserID a = optionalString (TrimSpace (rmd_ActorUserID m)) \<and>
     aud_ActorID a = optionalString (TrimSpace (rmd_ActorID m))"

lemma create_command_run:
  assumes "create_command providers m p dv ty profile action command payload k w = (Inr r, w')"
  obtains i t where "r = \<lparr>crs_Command = new_command i p dv ty command payload profile action k
        (canonicalRequestHash dv command payload (dtp_Revision profile) action) t, crs_IdempotentReplay = False\<rparr>"
    "tbl_commands (w_db w') = tbl_commands (w_db w) @ [stored_command (crs_Command r)]"
    "tbl_attempts (w_db w') = tbl_attempts (w_db w)"
    "\<forall>x\<in>set (tbl_commands (w_db w)). \<not> (cmd_ProjectID x = p \<and> cmd_IdempotencyKey x = k)"
    "\<forall>m'. trimmed_actor m' m \<longrightarrow>
       (\<exists>a. tbl_audits (w_db w') = tbl_audits (w_db w) @ [a] \<and> creation_audit m' (crs_Command r) a)"
    "\<exists>e\<in>set (tbl_events (w_db w')). evt_EventType e = EventTypeCommandCreated \<and> evt_CommandID e = Some (cmd_ID (crs_Command r))"
proof -
  from assms obtain i t c w1 u1 w2 u2 w3 u3 where
    c: "c = new_command i p dv ty command payload profile action k
          (canonicalRequestHash dv command payload (dtp_Revision profile) action) t"
    and cr: "command_Create c w1 = (Inr u1, w2)"
    and ev: "service_createEvent m c no_status CommandStatusQueued None w2 = (Inr u2, w3)"
    and au: "service_createAudit m c ''command.created''
            [(''command_type'', JStr (cmd_CommandType c)),
             (''delivery_policy'', JStr (wire_DeliveryPolicy (cmd_DeliveryPolicy c)))] w3 = (Inr u3, w')"
    and w1: "w_db w1 = w_db w" and r: "r = \<lparr>crs_Command = c, crs_IdempotentReplay = False\<rparr>"
    by (auto simp: create_command_def Let_def bnd_run ret_run service_randomUUID_def map_error_run randomUUID_run
        time_now_run)
  have d2: "w_db w2 = (w_db w)\<lparr>tbl_commands := tbl_commands (w_db w) @ [stored_command c]\<rparr>"
    and fresh: "\<forall>x\<in>set (tbl_commands (w_db w)). \<not> (cmd_ProjectID x = p \<and> cmd_IdempotencyKey x = k)"
    using cr w1 unfolding command_Create_def insert_command_def sql_run stored_command_def
    by (auto simp: list_ex_iff c new_command_def split: if_splits)
  from ev obtain j t2 where an: "announces (w_db w2) (w_db w3) (service_event j t2 m c no_status CommandStatusQueued None)
      (json_marshal (event_envelope (service_event j t2 m c no_status CommandStatusQueued None)))"
    by (rule service_createEvent_run)
  from an obtain e where e: "e \<in> set (tbl_events (w_db w3))" "evt_CommandID e = Some (cmd_ID c)"
    "evt_EventType e = EventTypeCommandCreated" by (auto elim: announcesE)
  note core = same_facts_core [OF an] and audit = service_createAudit_run [OF au]
  have "tbl_audits (w_db w3) = tbl_audits (w_db w)" using an d2 by (simp add: announces_def same_facts_def)
  then have "\<forall>m'. trimmed_actor m' m \<longrightarrow> (\<exists>a. tbl_audits (w_db w') = tbl_audits (w_db w) @ [a] \<and> creation_audit m' c a)"
    using au by (auto simp: service_createAudit_def bnd_run audit_Create_def sql_run creation_audit_def
        trimmed_actor_def service_randomUUID_def map_error_run randomUUID_run time_now_run split: if_splits)
  then show thesis
    using that [of i t] c r d2 core audit e fresh by (auto simp: same_core_def)
qed

lemma create_body_run:
  assumes "create_body providers s m p i ty payload k w = (Inr r, w')"
  obtains (replay) "crs_IdempotentReplay r" "crs_Command r \<in> set (tbl_commands (w_db w))"
      "cmd_ProjectID (crs_Command r) = p" "cmd_IdempotencyKey (crs_Command r) = k"
      "same_request i ty payload (crs_Command r)" "w_db w' = w_db w"
  | (created) project device deviceType profile action w1 where
      "admitted providers s p i ty payload (w_db w) project device deviceType profile action"
      "w_db w1 = w_db w" "create_command providers m p device deviceType profile action ty payload k w1 = (Inr r, w')"
proof -
  from assms obtain project rep w1 w2 where pr: "find (\<lambda>q. prj_ID q = p) (tbl_projects (w_db w)) = Some project"
    "CanAccessProject s project" and rep: "findIdempotentReplay p k i ty payload w1 = (Inr rep, w2)"
    and rest: "(case rep of
           Some result \<Rightarrow> ret result
         | None \<Rightarrow>
             on_row (device_GetForUpdate i) (fail ErrDeviceNotFound) (\<lambda>device.
               if dev_ProjectID device \<noteq> p then fail ErrDeviceNotFound
               else admit_command providers m p device ty payload k)) w2 = (Inr r, w')"
    and w1: "w_db w1 = w_db w"
    by (auto simp: create_body_def on_row_run fail_run bnd_run project_GetForUpdate_def query_row_run split: if_splits)
  show thesis
  proof (cases rep)
    case (Some x)
    with rest rep w1 show thesis
      by (intro replay) (auto simp: ret_run findIdempotentReplay_def on_row_run command_GetByIdempotencyKey_def query_row_run
          fail_run same_request_def split: if_splits dest: find_SomeD)
  next
    case None
    have w2: "w_db w2 = w_db w" using rep w1
      by (auto simp: findIdempotentReplay_def dest!: readsD [rotated] intro!: reads_intros)
    from rest None w2 obtain device w3 where dv: "find (\<lambda>x. dev_ID x = i) (tbl_devices (w_db w)) = Some device"
      "dev_ProjectID device = p" and ad: "admit_command providers m p device ty payload k w3 = (Inr r, w')" and w3: "w_db w3 = w_db w"
      by (auto simp: on_row_run fail_run device_GetForUpdate_def query_row_run split: if_splits)
    from ad w3 obtain deviceType profile action w4 where
      "find (\<lambda>x. dty_Code x = dev_DeviceTypeCode device) (tbl_device_types (w_db w)) = Some deviceType"
      "dty_ID deviceType = dev_DeviceTypeID device" "dev_LifecycleStatus device = LifecycleStatusActive"
      "find (\<lambda>x. dtp_DeviceTypeID x = dty_ID deviceType \<and> dtp_Revision x = dty_CurrentRevision deviceType) (tbl_profiles (w_db w)) = Some profile"
      "findAction profile ty = Some action" "validateActionPayload action payload" "provider_allows providers device ty = Inr ()"
      "cap_DeliveryPolicy action = DeliveryPolicyOnlineOnly \<longrightarrow> dev_ConnectionStatus device = ConnectionStatusOnline"
      "create_command providers m p device deviceType profile action ty payload k w4 = (Inr r, w')" "w_db w4 = w_db w"
      by (auto simp: admit_command_def on_row_run fail_run bnd_run type_GetByCode_def type_GetProfile_def query_row_run
          lift_result_run split: if_splits option.splits)
    with created pr dv show thesis by (auto simp: admitted_def)
  qed
qed

subsection \<open>The service's Create\<close>

definition create_arguments ::
  "Scope \<Rightarrow> CreateRequest \<Rightarrow> (gostr \<times> gostr) option" where
  "create_arguments scope request =
     (case (projectForCreate scope (crq_ProjectID request), normalizeIdempotencyKey (crq_IdempotencyKey request)) of
        (Inr projectID, Inr key) \<Rightarrow> Some (projectID, key)
      | _ \<Rightarrow> None)"

text \<open>
  \<open>created_for\<close>: the request asks for exactly this Command, what the tables hold admits it, and every
  column of it is the Device's, the action's, the profile's or the request's.
\<close>

definition created_for ::
  "provider_registry \<Rightarrow> Scope \<Rightarrow> CreateRequest \<Rightarrow> db \<Rightarrow> Command \<Rightarrow>
   Project \<Rightarrow> Device \<Rightarrow> DeviceType \<Rightarrow> DeviceTypeProfile \<Rightarrow> CapabilityAction \<Rightarrow> bool" where
  "created_for providers scope request d c project device deviceType profile action \<longleftrightarrow>
     create_arguments scope request = Some (cmd_ProjectID c, cmd_IdempotencyKey c) \<and>
     normalizeCommandType (crq_CommandType request) = Inr (cmd_CommandType c) \<and>
     normalizePayload (crq_Payload request) = Inr (cmd_Payload c) \<and>
     admitted providers scope (cmd_ProjectID c) (TrimSpace (crq_DeviceID request)) (cmd_CommandType c) (cmd_Payload c) d
       project device deviceType profile action \<and>
     c = new_command (cmd_ID c) (cmd_ProjectID c) device deviceType (cmd_CommandType c) (cmd_Payload c) profile action
       (cmd_IdempotencyKey c)
       (canonicalRequestHash device (cmd_CommandType c) (cmd_Payload c) (dtp_Revision profile) action) (cmd_CreatedAt c)"

text \<open>Every Create is a validation that writes nothing, then one transaction.\<close>

lemma Create_cases:
  obtains (invalid) e where "command_service_Create providers scope request metadata w = (Inl e, w)"
  | (valid) m p k ty payload where "create_arguments scope request = Some (p, k)"
      "validateMetadata scope metadata = Inr m" "validateScope scope = Inr scope"
      "normalizeCommandType (crq_CommandType request) = Inr ty" "normalizePayload (crq_Payload request) = Inr payload"
      "validUUID (TrimSpace (crq_DeviceID request))"
      "command_service_Create providers scope request metadata w =
         WithinTransaction (create_body providers scope m p (TrimSpace (crq_DeviceID request)) ty payload k) w"
proof -
  have same: "validateScope scope = Inr s \<Longrightarrow> s = scope" for s by (simp add: validateScope_def split: if_splits)
  have lift: "bnd (lift_result v) f u = (case v of Inl e \<Rightarrow> (Inl e, u) | Inr x \<Rightarrow> f x u)" for v :: "goerr + 'x" and f :: "'x \<Rightarrow> CreateResult tx" and u
    by (simp add: lift_result_def bnd_def fail_def ret_def split: sum.split)
  show thesis
  proof (cases "validateScope scope")
    case (Inl e)
    then show thesis by (intro invalid) (simp add: command_service_Create_def lift)
  next
    case (Inr s)
    note vs = same [OF Inr] Inr
    show thesis
    proof (cases "\<exists>m p k ty payload. validateMetadata scope metadata = Inr m \<and> create_arguments scope request = Some (p, k) \<and>
        normalizeCommandType (crq_CommandType request) = Inr ty \<and> normalizePayload (crq_Payload request) = Inr payload \<and>
        validUUID (TrimSpace (crq_DeviceID request))")
      case True
      then obtain m p k ty payload where v: "validateMetadata scope metadata = Inr m" "create_arguments scope request = Some (p, k)"
        "normalizeCommandType (crq_CommandType request) = Inr ty" "normalizePayload (crq_Payload request) = Inr payload"
        "validUUID (TrimSpace (crq_DeviceID request))" by blast
      then have "projectForCreate scope (crq_ProjectID request) = Inr p" "normalizeIdempotencyKey (crq_IdempotencyKey request) = Inr k"
        by (auto simp: create_arguments_def split: sum.splits)
      with v vs show thesis
        by (intro valid [OF v(2,1) _ v(3-5)]) (simp_all add: command_service_Create_def lift Let_def)
    next
      case False
      with vs show thesis
        by (intro invalid [of "projl (fst (command_service_Create providers scope request metadata w))"])
          (auto simp: command_service_Create_def lift create_arguments_def fail_def Let_def split: sum.splits)
    qed
  qed
qed

lemma Create_created:
  assumes "command_service_Create providers scope request metadata w = (Inr r, w')" and "\<not> crs_IdempotentReplay r"
  obtains project device deviceType profile action audit where
    "created_for providers scope request (w_db w) (crs_Command r) project device deviceType profile action"
    "cmd_Status (crs_Command r) = CommandStatusQueued"
    "tbl_commands (w_db w') = tbl_commands (w_db w) @ [stored_command (crs_Command r)]"
    "tbl_attempts (w_db w') = tbl_attempts (w_db w)"
    "tbl_audits (w_db w') = tbl_audits (w_db w) @ [audit]" "creation_audit metadata (crs_Command r) audit"
proof (cases rule: Create_cases [of providers scope request metadata w])
  case (valid m p k ty payload)
  let ?i = "TrimSpace (crq_DeviceID request)"
  from assms(1) valid obtain w1 where body: "create_body providers scope m p ?i ty payload k (started w) = (Inr r, w1)"
    and db: "w_db w' = w_db w1" by (auto simp: WithinTransaction_run)
  from body show ?thesis
  proof (cases rule: create_body_run)
    case (created project device deviceType profile action w2)
    from created(3) obtain i t where r: "r = \<lparr>crs_Command = new_command i p device deviceType ty payload profile action k
          (canonicalRequestHash device ty payload (dtp_Revision profile) action) t, crs_IdempotentReplay = False\<rparr>"
      and tables: "tbl_commands (w_db w1) = tbl_commands (w_db w2) @ [stored_command (crs_Command r)]"
        "tbl_attempts (w_db w1) = tbl_attempts (w_db w2)"
      and audit: "\<forall>m'. trimmed_actor m' m \<longrightarrow>
         (\<exists>a. tbl_audits (w_db w1) = tbl_audits (w_db w2) @ [a] \<and> creation_audit m' (crs_Command r) a)"
      by (rule create_command_run)
    from audit validated_actor [OF valid(2)] obtain a where
      a: "tbl_audits (w_db w1) = tbl_audits (w_db w2) @ [a]" "creation_audit metadata (crs_Command r) a" by blast
    have "created_for providers scope request (w_db w) (crs_Command r) project device deviceType profile action"
      using created(1) valid(1,4,5) by (simp add: created_for_def r) (simp add: new_command_def)
    moreover have "cmd_Status (crs_Command r) = CommandStatusQueued" by (simp add: r new_command_def)
    ultimately show thesis using that tables a created(2) db by (simp add: started_simps)
  qed (use assms(2) in simp)
qed (use assms(1) in simp)

text \<open>
  C7. A Command is only created for a caller, Project and Device that may have it: the scope may access the
  Project, the Device is an active Device of that Project, its type's current profile has the action and its
  payload schema accepts the payload, the Provider is configured and supports the action for the Device's
  profile, and an \<open>online_only\<close> action needs the Device online. The Device, the Project, the idempotency key,
  the action and the payload are those of the request, and the Command copies the Device's binding and the
  action's policy (\<open>created_for\<close>). It is the one new row of its table, queued, without an Attempt, and one
  audit record is added, which names the Command and the actor of the request's metadata.
\<close>

theorem create_is_admitted:
  assumes "command_service_Create providers scope request metadata w = (Inr r, w')" and "\<not> crs_IdempotentReplay r"
  shows "\<exists>project device deviceType profile action audit.
     created_for providers scope request (w_db w) (crs_Command r) project device deviceType profile action \<and>
     cmd_Status (crs_Command r) = CommandStatusQueued \<and>
     tbl_commands (w_db w') = tbl_commands (w_db w) @ [stored_command (crs_Command r)] \<and>
     tbl_attempts (w_db w') = tbl_attempts (w_db w) \<and>
     tbl_audits (w_db w') = tbl_audits (w_db w) @ [audit] \<and> creation_audit metadata (crs_Command r) audit"
  using assms by (rule Create_created) blast

lemma create_leaves_command:
  assumes "command_service_Create providers scope request metadata w = (Inr r, w')"
  obtains p k c where "create_arguments scope request = Some (p, k)" "c \<in> set (tbl_commands (w_db w'))"
    "cmd_ID c = cmd_ID (crs_Command r)" "cmd_ProjectID c = p" "cmd_IdempotencyKey c = k"
proof (cases rule: Create_cases [of providers scope request metadata w])
  case (valid m p k ty payload)
  from assms valid obtain w1 where body: "create_body providers scope m p (TrimSpace (crq_DeviceID request)) ty payload k (started w) = (Inr r, w1)"
    and db: "w_db w' = w_db w1" by (auto simp: WithinTransaction_run)
  from body show ?thesis
  proof (cases rule: create_body_run)
    case replay
    with that [OF valid(1), of "crs_Command r"] db show ?thesis by simp
  next
    case (created project device deviceType profile action w2)
    from created(3) obtain i t where r: "r = \<lparr>crs_Command = new_command i p device deviceType ty payload profile action k
          (canonicalRequestHash device ty payload (dtp_Revision profile) action) t, crs_IdempotentReplay = False\<rparr>"
      and rows: "tbl_commands (w_db w1) = tbl_commands (w_db w2) @ [stored_command (crs_Command r)]"
      by (rule create_command_run)
    show ?thesis
      by (rule that [OF valid(1), of "stored_command (crs_Command r)"])
        (simp_all add: db rows, simp_all add: r stored_command_def new_command_def)
  qed
qed (use assms in simp)

definition asks_for :: "CreateRequest \<Rightarrow> Command \<Rightarrow> bool" where
  "asks_for request c \<longleftrightarrow>
     (case (normalizeCommandType (crq_CommandType request), normalizePayload (crq_Payload request)) of
        (Inr ty, Inr payload) \<Rightarrow> same_request (TrimSpace (crq_DeviceID request)) ty payload c
      | _ \<Rightarrow> False)"

text \<open>
  C5. Create is idempotent. After a Create succeeded, a Create with the same project and idempotency key,
  at any later point of any run, writes nothing at all: if it succeeds it is answered as a replay with the
  Command the first one made, as the tables hold it then, and only if that Command is for the Device, the
  action and, compared as JSON, the payload that the request asks for; otherwise it is refused.
\<close>

theorem create_idempotent:
  assumes ok: "db_ok (w_db w)" "idempotent_keys (w_db w)"
    and first: "command_service_Create providers scope request metadata w = (Inr r, w1)"
    and run: "platform_run w1 w2"
    and same: "create_arguments scope' request' = create_arguments scope request"
    and again: "command_service_Create providers' scope' request' metadata' w2 = (answer, w3)"
  shows "w_db w3 = w_db w2 \<and>
    (case answer of
       Inl e \<Rightarrow> True
     | Inr r' \<Rightarrow> crs_IdempotentReplay r' \<and> crs_Command r' \<in> set (tbl_commands (w_db w2)) \<and>
         cmd_ID (crs_Command r') = cmd_ID (crs_Command r) \<and> asks_for request' (crs_Command r'))"
proof -
  from first obtain p k c where args: "create_arguments scope request = Some (p, k)"
    and c: "c \<in> set (tbl_commands (w_db w1))" "cmd_ID c = cmd_ID (crs_Command r)" "cmd_ProjectID c = p" "cmd_IdempotencyKey c = k"
    by (rule create_leaves_command)
  have "evolves (w_db w) (w_db w1)" "keeps_idempotent_keys (w_db w) (w_db w1)"
    using history.Create_guards [of providers scope request metadata] keys.Create_guards [of providers scope request metadata] first
    unfolding guards_def by (metis snd_conv)+
  then have ok1: "db_ok (w_db w1)" and keys2: "idempotent_keys (w_db w2)"
    using ok keys.run_related [OF run] by (auto simp: evolves_def keeps_idempotent_keys_def)
  from ok1 run c(1) obtain c2 where c2: "c2 \<in> set (tbl_commands (w_db w2))" "cmd_ID c2 = cmd_ID c"
    and life: "lifetime (life_of c (w_db w1)) (life_of c2 (w_db w2))" by (rule run_follows)
  have "same_snapshot c c2" using lifetime_snapshot [OF life] by (simp add: life_of_def)
  then have snap: "cmd_ProjectID c2 = p" "cmd_IdempotencyKey c2 = k"
    using c by (cases c, cases c2, simp add: same_snapshot_def)+
  have unique: "x = c2" if "x \<in> set (tbl_commands (w_db w2))" "cmd_ProjectID x = p" "cmd_IdempotencyKey x = k" for x
    using keys2 that c2(1) snap unfolding idempotent_keys_def distinct_map by (auto dest: inj_onD)
  have replayed: "crs_IdempotentReplay r' \<and> crs_Command r' \<in> set (tbl_commands (w_db w2)) \<and>
      cmd_ID (crs_Command r') = cmd_ID (crs_Command r) \<and> same_request i ty payload (crs_Command r') \<and> w_db v = w_db w2"
    if "create_body providers' scope' m p i ty payload k (started w2) = (Inr r', v)" for m i ty payload r' v
    using that
  proof (cases rule: create_body_run)
    case replay
    then show ?thesis using unique [of "crs_Command r'"] c2(2) c(2) by simp
  next
    case (created project device deviceType profile action w4)
    from created(3) have "\<forall>x\<in>set (tbl_commands (w_db w4)). \<not> (cmd_ProjectID x = p \<and> cmd_IdempotencyKey x = k)"
      by (rule create_command_run)
    with created(2) c2(1) snap show ?thesis by simp
  qed
  show ?thesis
  proof (cases rule: Create_cases [of providers' scope' request' metadata' w2])
    case (valid m p' k' ty payload)
    with same args have [simp]: "p' = p" "k' = k" by simp_all
    show ?thesis
      using again unfolding valid(7)
      by (cases rule: WithinTransaction_cases [of "create_body providers' scope' m p' (TrimSpace (crq_DeviceID request')) ty payload k'" w2])
        (auto simp: asks_for_def valid(4,5) dest: replayed)
  qed (use again in auto)
qed

subsection \<open>An admissible request succeeds\<close>

definition whole_milliseconds :: "duration \<Rightarrow> bool" where
  "whole_milliseconds d \<longleftrightarrow> 0 < d \<and> d mod Millisecond = 0"

definition usable_action :: "CapabilityAction \<Rightarrow> bool" where
  "usable_action action \<longleftrightarrow> whole_milliseconds (cap_DispatchDeadline action) \<and>
     whole_milliseconds (cap_ProviderRequestTimeout action) \<and> whole_milliseconds (cap_ResultObservationTimeout action) \<and>
     \<not> cap_RetryAllowed action"

text \<open>
  What the constraints of the other tables say of the rows a Command refers to, and that the two texts of the
  request hold no NUL, which the service does not check and PostgreSQL refuses.
\<close>

definition storable :: "Device \<Rightarrow> DeviceType \<Rightarrow> DeviceTypeProfile \<Rightarrow> ActionIdentifier \<Rightarrow> gostr \<Rightarrow> bool" where
  "storable device deviceType profile commandType key \<longleftrightarrow>
     device_check device \<and> dty_Code deviceType = ''smart-lock'' \<and> 0 < dtp_Revision profile \<and>
     CHR 0x00 \<notin> set commandType \<union> set key"

text \<open>The four identities Create draws: of the Command, its Event, the Delivery and the audit record.\<close>

definition can_create :: "gostr \<Rightarrow> gostr \<Rightarrow> world \<Rightarrow> bool" where
  "can_create projectID key w \<longleftrightarrow> w_faults w = [] \<and> 64 \<le> length (w_random w) \<and>
     secret_ready (w_db w) projectID \<and>
     \<not> list_ex (\<lambda>c. cmd_ID c = drawn_uuid 0 w \<or> cmd_ProjectID c = projectID \<and> cmd_IdempotencyKey c = key) (tbl_commands (w_db w)) \<and>
     drawn_uuid 1 w \<notin> evt_ID ` set (tbl_events (w_db w)) \<and> drawn_uuid 1 w \<notin> whd_EventID ` set (tbl_deliveries (w_db w)) \<and>
     drawn_uuid 2 w \<notin> whd_ID ` set (tbl_deliveries (w_db w)) \<and>
     \<not> list_ex (\<lambda>e. evt_ProjectID e = projectID \<and> evt_DeduplicationKey e = ''command.created:'' @ drawn_uuid 0 w) (tbl_events (w_db w)) \<and>
     \<not> list_ex (\<lambda>a. aud_ID a = drawn_uuid 3 w) (tbl_audits (w_db w))"

lemma whole_milliseconds: "whole_milliseconds d \<Longrightarrow> Milliseconds d * Millisecond = d"
  by (auto simp: whole_milliseconds_def Milliseconds_def go_quot_def)

lemma pg_time_shift: "whole_milliseconds d \<Longrightarrow> pg_time (t + d) = pg_time t + d"
proof -
  assume "whole_milliseconds d"
  then have "d mod 1000000 = 0" by (simp add: whole_milliseconds_def)
  then obtain k where d: "d = 1000000 * k" by auto
  have "t + d + 500 = t + 500 + 1000 * (1000 * k)" by (simp add: d)
  then have "(t + d + 500) div 1000 = (t + 500) div 1000 + 1000 * k" by simp
  then show "pg_time (t + d) = pg_time t + d" by (simp add: pg_time_def d algebra_simps)
qed

lemma normalized_texts:
  "normalizeIdempotencyKey v = Inr k \<Longrightarrow> CHR 0x00 \<notin> set k \<Longrightarrow> chk_key_text 128 k"
  "normalizeCommandType v = Inr ty \<Longrightarrow> CHR 0x00 \<notin> set ty \<Longrightarrow> pg_text ty \<and> char_length_within 128 (btrim ty)"
  by (auto simp: normalizeIdempotencyKey_def normalizeCommandType_def text_within_def chk_key_text_def
      char_length_within_def pg_text_def split: if_splits)

lemma stored_columns:
  assumes "storable dv dty profile ty k" and "normalizeIdempotencyKey v = Inr k" and "normalizeCommandType v' = Inr ty"
  shows "snapshot_identity (dty_Code dty) (dev_ProviderCode dv) (dev_ProviderProfile dv) (dev_Adapter dv) (dev_ProviderDeviceID dv) (dev_ID dv)"
    and "request_columns ty k (canonicalRequestHash dv ty payload revision action) (dtp_Revision profile)"
  using assms normalized_texts [of v k] normalized_texts(2) [of v' ty]
  by (auto simp: storable_def device_check_def snapshot_identity_def provider_pair_def request_columns_def
      canonicalRequestHash_def text_of_def sha256_text_def)

lemma stored_check:
  assumes "usable_action action" and "storable dv dty profile ty k"
    and "normalizeIdempotencyKey v = Inr k" and "normalizeCommandType v' = Inr ty"
  shows "command_check (stored_command (new_command i p dv dty ty payload profile action k
    (canonicalRequestHash dv ty payload (dtp_Revision profile) action) t))"
  using assms(1) pg_time_shift [of "cap_DispatchDeadline action" t] stored_columns [OF assms(2-4)]
  by (auto simp: usable_action_def command_check_def chk_status_confirmation_def chk_reason_def chk_reason_evidence_def
      chk_finished_def chk_status_timing_def chk_deadlines_def chk_snapshot_policy_def stored_command_def new_command_def
      known_confirmation_def confirmation_evidence_def Let_def whole_milliseconds)
    (simp_all add: whole_milliseconds_def)

text \<open>The rows a new Command's foreign keys name are those its admission read.\<close>

lemma admitted_rows:
  assumes "admitted providers s p i ty payload d project device deviceType profile action"
  shows "device \<in> set (tbl_devices d)" "dev_ProjectID device = p" "dev_DeviceTypeID device = dty_ID deviceType"
    "profile \<in> set (tbl_profiles d)" "dtp_DeviceTypeID profile = dty_ID deviceType"
  using assms by (auto simp: admitted_def dest: find_SomeD)

lemma service_uuid_succeeds:
  "16 \<le> length (w_random w) \<Longrightarrow> service_randomUUID w = (Inr (drawn_uuid 0 w), w\<lparr>w_random := drop 16 (w_random w)\<rparr>)"
  by (simp add: service_randomUUID_def map_error_run randomUUID_run drawn_uuid_def)

lemma create_command_succeeds:
  assumes new: "can_create p k w" and chk: "\<And>i t. command_check (stored_command (new_command i p dv ty command payload profile action k
      (canonicalRequestHash dv command payload (dtp_Revision profile) action) t))"
    and rows: "dv \<in> set (tbl_devices (w_db w))" "dev_ProjectID dv = p" "dev_DeviceTypeID dv = dty_ID ty"
      "profile \<in> set (tbl_profiles (w_db w))" "dtp_DeviceTypeID profile = dty_ID ty"
  shows "\<exists>r w'. create_command providers m p dv ty profile action command payload k w = (Inr r, w') \<and>
    \<not> crs_IdempotentReplay r \<and> w_faults w' = []"
proof -
  let ?w1 = "w\<lparr>w_random := drop 16 (w_random w)\<rparr>" let ?w2 = "tick ?w1"
  let ?c = "new_command (drawn_uuid 0 w) p dv ty command payload profile action k
        (canonicalRequestHash dv command payload (dtp_Revision profile) action) (w_clock ?w2)"
  let ?w3 = "(consume ?w2)\<lparr>w_db := (w_db w)\<lparr>tbl_commands := tbl_commands (w_db w) @ [stored_command ?c]\<rparr>\<rparr>"
  have calm: "w_faults w = []" "64 \<le> length (w_random w)" using new by (simp_all add: can_create_def)
  have id: "service_randomUUID w = (Inr (drawn_uuid 0 w), ?w1)" using calm by (simp add: service_uuid_succeeds)
  let ?s = "stored_command ?c"
  have cols: "cmd_ID ?s = drawn_uuid 0 w" "cmd_ProjectID ?s = p" "cmd_IdempotencyKey ?s = k" "cmd_DeviceID ?s = dev_ID dv"
    "cmd_DeviceTypeID ?s = dty_ID ty" "cmd_DeviceTypeRevision ?s = dtp_Revision profile" "cmd_ProviderCode ?s = dev_ProviderCode dv"
    "cmd_ProviderProfile ?s = dev_ProviderProfile dv" "cmd_ProviderDeviceID ?s = dev_ProviderDeviceID dv"
    "cmd_Adapter ?s = dev_Adapter dv" by (simp_all add: stored_command_def new_command_def)
  have unused: "\<not> list_ex (\<lambda>x. cmd_ID x = cmd_ID ?s) (tbl_commands (w_db w))"
    "\<not> list_ex (\<lambda>x. cmd_ProjectID x = cmd_ProjectID ?s \<and> cmd_IdempotencyKey x = cmd_IdempotencyKey ?s) (tbl_commands (w_db w))"
    using new unfolding cols by (auto simp: can_create_def list_ex_iff)
  have refs: "list_ex (\<lambda>x. dev_ID x = cmd_DeviceID ?s \<and> dev_ProjectID x = cmd_ProjectID ?s \<and>
      dev_DeviceTypeID x = cmd_DeviceTypeID ?s) (tbl_devices (w_db w))"
    "list_ex (\<lambda>x. dtp_DeviceTypeID x = cmd_DeviceTypeID ?s \<and> dtp_Revision x = cmd_DeviceTypeRevision ?s) (tbl_profiles (w_db w))"
    "list_ex (\<lambda>x. dev_ID x = cmd_DeviceID ?s \<and> dev_ProviderCode x = cmd_ProviderCode ?s \<and>
      dev_ProviderProfile x = cmd_ProviderProfile ?s \<and> dev_ProviderDeviceID x = cmd_ProviderDeviceID ?s \<and>
      dev_Adapter x = cmd_Adapter ?s) (tbl_devices (w_db w))"
    unfolding cols list_ex_iff using rows by blast+
  have cr: "command_Create ?c ?w2 = (Inr (), ?w3)"
    unfolding command_Create_def stored_command_def [symmetric] insert_command_def
    by (simp add: sql_run unused refs chk calm)
  let ?w4 = "?w3\<lparr>w_random := drop 16 (w_random ?w3)\<rparr>" let ?w5 = "tick ?w4"
  have eid: "service_randomUUID ?w3 = (Inr (drawn_uuid 1 w), ?w4)"
    using calm by (simp add: service_uuid_succeeds drawn_uuid_def)
  let ?e = "service_event (drawn_uuid 1 w) (w_clock ?w5) m ?c no_status CommandStatusQueued None"
  let ?e = "service_event (drawn_uuid 1 w) (w_clock ?w5) m ?c no_status CommandStatusQueued None"
  obtain e' w6 where ev: "event_Create ?e ?w5 = (Inr (), w6)" and w6: "w_faults w6 = []" "w_random w6 = drop 32 (w_random w)"
    and d6: "w_db w6 = (w_db ?w5)\<lparr>tbl_events := tbl_events (w_db ?w5) @ [e']\<rparr>"
    and found: "find (\<lambda>x. evt_ID x = drawn_uuid 1 w) (tbl_events (w_db w6)) = Some e'" and proj: "evt_ProjectID e' = evt_ProjectID ?e"
    by (rule event_Create_succeeds [of ?w5 ?e])
      (use new calm in \<open>simp_all add: can_create_def, simp_all add: service_event_def new_command_def Let_def\<close>)
  let ?w7 = "w6\<lparr>w_random := drop 16 (w_random w6)\<rparr>"
  have "evt_ProjectID e' = p" by (simp add: proj service_event_def new_command_def Let_def)
  then have sec: "secret_ready (w_db ?w7) (evt_ProjectID e')"
    using new by (subst secret_ready_cong [of _ "w_db w"]) (simp_all add: d6 can_create_def)
  have did: "service_randomUUID w6 = (Inr (drawn_uuid 2 w), ?w7)"
    using calm w6 by (simp add: service_uuid_succeeds drawn_uuid_def)
  obtain dl w8 where cd: "CreateDelivery \<lparr>cwd_ID = drawn_uuid 2 w, cwd_EventID = evt_ID ?e,
      cwd_RawBody = json_marshal (event_envelope ?e)\<rparr> ?w7 = (Inr dl, w8)"
    and w8: "w_faults w8 = []" "w_random w8 = drop 48 (w_random w)" "tbl_audits (w_db w8) = tbl_audits (w_db w)"
  proof -
    have "\<exists>r w'. CreateDelivery \<lparr>cwd_ID = drawn_uuid 2 w, cwd_EventID = drawn_uuid 1 w,
        cwd_RawBody = json_marshal (event_envelope ?e)\<rparr> ?w7 = (Inr r, w') \<and> w_faults w' = [] \<and>
        w_random w' = w_random ?w7 \<and> tbl_audits (w_db w') = tbl_audits (w_db ?w7)"
      by (rule CreateDelivery_succeeds [of _ _ e'])
        (use new w6 found d6 sec in \<open>simp_all add: can_create_def json_marshal_not_Nil\<close>, simp_all add: drawn_uuid_def TrimSpace_uuid)
    with that w6 d6 show thesis by auto
  qed
  have "service_createEvent m ?c no_status CommandStatusQueued None ?w3 = (Inr (), w8)"
    using eid ev did cd by (auto simp: service_createEvent_def Let_def bnd_run ret_run time_now_run intro!: exI)
  moreover
  let ?w9 = "tick (w8\<lparr>w_random := drop 16 (w_random w8)\<rparr>)"
  have "service_randomUUID w8 = (Inr (drawn_uuid 3 w), w8\<lparr>w_random := drop 16 (w_random w8)\<rparr>)"
    using calm w8 by (simp add: service_uuid_succeeds drawn_uuid_def)
  then obtain w10 where "service_createAudit m ?c ''command.created''
      [(''command_type'', JStr (cmd_CommandType ?c)), (''delivery_policy'', JStr (wire_DeliveryPolicy (cmd_DeliveryPolicy ?c)))] w8
      = (Inr (), w10)" "w_faults w10 = []"
    using new w8 by (auto simp: service_createAudit_def bnd_run time_now_run audit_Create_def sql_run can_create_def)
  ultimately show ?thesis
    using id cr unfolding create_command_def Let_def by (auto simp: bnd_run ret_run time_now_run intro!: exI)
qed

lemma can_create_cong:
  "w_faults w = w_faults w' \<Longrightarrow> w_random w = w_random w' \<Longrightarrow> w_db w = w_db w' \<Longrightarrow> can_create p k w \<longleftrightarrow> can_create p k w'"
  by (simp add: can_create_def drawn_uuid_def)

lemma admit_command_succeeds:
  assumes adm: "admitted providers s p i ty payload (w_db w) project device deviceType profile action"
    and texts: "normalizeIdempotencyKey v = Inr k" "normalizeCommandType v' = Inr ty"
    and usable: "usable_action action" "storable device deviceType profile ty k" and new: "can_create p k w"
  shows "\<exists>r w'. admit_command providers m p device ty payload k w = (Inr r, w') \<and> \<not> crs_IdempotentReplay r \<and> w_faults w' = []"
proof -
  have calm: "w_faults w = []" using new by (simp add: can_create_def)
  let ?w2 = "consume (consume w)"
  have new2: "can_create p k ?w2" using new by (subst can_create_cong [of _ w]) (simp_all add: consume_def calm)
  have "\<exists>r w'. create_command providers m p device deviceType profile action ty payload k ?w2 = (Inr r, w') \<and>
      \<not> crs_IdempotentReplay r \<and> w_faults w' = []"
    by (rule create_command_succeeds [OF new2 stored_check [OF usable texts]])
      (use admitted_rows [OF adm] in simp_all)
  then obtain r w' where
    "create_command providers m p device deviceType profile action ty payload k ?w2 = (Inr r, w')"
    "\<not> crs_IdempotentReplay r" "w_faults w' = []" by blast
  with adm calm show ?thesis
    by (auto simp: admitted_def admit_command_def on_row_run bnd_run type_GetByCode_def type_GetProfile_def query_row_run
        lift_result_run intro!: exI)
qed

lemma create_body_succeeds:
  assumes adm: "admitted providers s p i ty payload (w_db w) project device deviceType profile action"
    and texts: "normalizeIdempotencyKey v = Inr k" "normalizeCommandType v' = Inr ty"
    and usable: "usable_action action" "storable device deviceType profile ty k" and new: "can_create p k w"
  shows "\<exists>r w'. create_body providers s m p i ty payload k w = (Inr r, w') \<and> \<not> crs_IdempotentReplay r \<and> w_faults w' = []"
proof -
  have calm: "w_faults w = []" using new by (simp add: can_create_def)
  let ?w3 = "consume (consume (consume w))"
  have "can_create p k ?w3" using new by (subst can_create_cong [of _ w]) (simp_all add: consume_def calm)
  from admit_command_succeeds [OF _ texts usable this] adm obtain r w' where
    ad: "admit_command providers m p device ty payload k ?w3 = (Inr r, w')" "\<not> crs_IdempotentReplay r" "w_faults w' = []" by fastforce
  have "find (\<lambda>c. cmd_ProjectID c = p \<and> cmd_IdempotencyKey c = k) (tbl_commands (w_db w)) = None"
    using new by (auto simp: can_create_def list_ex_iff find_None_iff)
  then have "findIdempotentReplay p k i ty payload (consume w) = (Inr None, consume (consume w))"
    using calm by (simp add: findIdempotentReplay_def on_row_run command_GetByIdempotencyKey_def query_row_run no_rows_query_row ret_run)
  with ad adm calm show ?thesis
    by (auto simp: admitted_def create_body_def on_row_run bnd_run project_GetForUpdate_def device_GetForUpdate_def
        query_row_run intro!: exI)
qed

lemma Create_transaction:
  assumes "validateScope scope = Inr scope" "validateMetadata scope metadata = Inr m"
    "create_arguments scope request = Some (p, k)" "validUUID (TrimSpace (crq_DeviceID request))"
    "normalizeCommandType (crq_CommandType request) = Inr ty" "normalizePayload (crq_Payload request) = Inr payload"
  shows "command_service_Create providers scope request metadata w =
      WithinTransaction (create_body providers scope m p (TrimSpace (crq_DeviceID request)) ty payload k) w"
  using assms by (auto simp: command_service_Create_def create_arguments_def lift_result_def bnd_def ret_def Let_def
      split: sum.splits)

text \<open>
  C12. A well-formed and admissible request is accepted, with every CHECK, unique index and foreign key of
  \<open>device_commands\<close> in force: Create makes a new Command, provided the action's three durations are positive
  whole milliseconds and it allows no retry (\<open>usable_action\<close>); the rows it reads meet their own tables'
  constraints and the request's texts hold no NUL (\<open>storable\<close>); the driver reports no failure, the 64 random
  bytes it needs are there and the identities they give are unused, the idempotency key is unused in the
  Project, and a Project with a webhook has the secret version it names (\<open>can_create\<close>).
\<close>

theorem create_accepts:
  assumes valid: "validateScope scope = Inr scope" "validateMetadata scope metadata = Inr m"
    "create_arguments scope request = Some (p, k)" "validUUID (TrimSpace (crq_DeviceID request))"
    "normalizeCommandType (crq_CommandType request) = Inr ty" "normalizePayload (crq_Payload request) = Inr payload"
    and adm: "admitted providers scope p (TrimSpace (crq_DeviceID request)) ty payload (w_db w)
       project device deviceType profile action"
    and usable: "usable_action action" "storable device deviceType profile ty k" and new: "can_create p k w"
  shows "\<exists>r w'. command_service_Create providers scope request metadata w = (Inr r, w') \<and> \<not> crs_IdempotentReplay r"
proof -
  note eq = Create_transaction [OF valid, of providers w]
  have calm: "w_faults w = []" using new by (simp add: can_create_def)
  have key: "normalizeIdempotencyKey (crq_IdempotencyKey request) = Inr k"
    using valid(3) by (simp add: create_arguments_def split: sum.splits)
  have "can_create p k (started w)" using new by (subst can_create_cong [of _ w]) (simp_all add: started_def consume_def calm)
  from create_body_succeeds [OF _ key valid(5) usable this, of providers scope "TrimSpace (crq_DeviceID request)" payload project
      m] adm
  obtain r w' where "create_body providers scope m p (TrimSpace (crq_DeviceID request)) ty payload k (started w) = (Inr r, w')"
    "\<not> crs_IdempotentReplay r" "w_faults w' = []" by auto
  with calm show ?thesis unfolding eq by (auto simp: WithinTransaction_run)
qed

subsection \<open>A small platform without Commands\<close>

definition create_project :: Project where
  "create_project =
     \<lparr>prj_ID = ''11111111-1111-4111-8111-111111111111'', prj_Name = ''P'', prj_ManagerUserID = ''44444444-4444-4444-8444-444444444444'', prj_WebhookURL = None,
      prj_WebhookConfigVersion = 1, prj_CurrentWebhookSecretVersion = None, prj_APIKeyDigest = [],
      prj_IPWhitelist = [], prj_CreatedAt = 0, prj_UpdatedAt = 0\<rparr>"

definition create_device :: Device where
  "create_device =
     \<lparr>dev_ID = ''22222222-2222-4222-8222-222222222222'', dev_ProjectID = prj_ID create_project, dev_DeviceTypeID = ''33333333-3333-4333-8333-333333333333'',
      dev_DeviceTypeCode = ''smart-lock'', dev_Name = ''D'', dev_ProviderCode = ProviderCodeSimulator,
      dev_ProviderProfile = ''simulator-v1'', dev_ProviderDeviceID = ''22222222-2222-4222-8222-222222222222'', dev_AccessType = AccessTypeSimulator,
      dev_TransportProtocol = TransportProtocolInternal, dev_Adapter = AdapterSimulator,
      dev_ConnectionStatus = ConnectionStatusUnknown, dev_LifecycleStatus = LifecycleStatusActive,
      dev_CreatedAt = 0, dev_UpdatedAt = 0\<rparr>"

definition create_action :: CapabilityAction where
  "create_action =
     \<lparr>cap_Identifier = ''query_status'',
      cap_PayloadSchema = [(''type'', JStr ''object''), (''additionalProperties'', JBool False), (''maxProperties'', JInt 0)],
      cap_RiskLevel = ''low'', cap_DeliveryPolicy = DeliveryPolicyDispatchOnce, cap_DispatchDeadline = 60 * Second,
      cap_ProviderRequestTimeout = 10 * Second, cap_ResultObservationTimeout = 30 * Second,
      cap_RetryAllowed = False, cap_DeliveryPolicyOverrideAllowed = False\<rparr>"

definition create_type :: DeviceType where
  "create_type = \<lparr>dty_ID = ''33333333-3333-4333-8333-333333333333'', dty_Code = ''smart-lock'', dty_CurrentRevision = 2, dty_Name = ''L'', dty_CreatedAt = 0, dty_UpdatedAt = 0\<rparr>"

definition create_profile :: DeviceTypeProfile where
  "create_profile = \<lparr>dtp_DeviceTypeID = ''33333333-3333-4333-8333-333333333333'', dtp_Revision = 2, dtp_Actions = [create_action], dtp_ProfileHash = [], dtp_CreatedAt = 0\<rparr>"

definition create_provider :: Provider where
  "create_provider =
     \<lparr>pvd_Code = ProviderCodeSimulator, pvd_Name = ''S'', pvd_AccessType = AccessTypeSimulator,
      pvd_TransportProtocol = TransportProtocolInternal, pvd_Adapter = AdapterSimulator, pvd_Profiles = [''simulator-v1''],
      pvd_ProfileActions = [(''simulator-v1'', [(''query_status'', ProviderActionSupported)])],
      pvd_IntegrationStatus = ProviderIntegrationVerified\<rparr>"

definition create_providers :: provider_registry where
  "create_providers = [ProviderCodeSimulator \<mapsto> create_provider]"

definition create_scope :: Scope where
  "create_scope = access_Project (prj_ID create_project)"

definition create_metadata :: RequestMetadata where
  "create_metadata =
     \<lparr>rmd_ActorType = ActorTypeProject, rmd_ActorUserID = [], rmd_ActorID = prj_ID create_project, rmd_IPAddress = [],
      rmd_RequestID = ''r1''\<rparr>"

definition create_request :: CreateRequest where
  "create_request =
     \<lparr>crq_ProjectID = [], crq_DeviceID = dev_ID create_device, crq_CommandType = ''query_status'', crq_Payload = None,
      crq_IdempotencyKey = ''k1''\<rparr>"

definition create_random :: "8 word list" where
  "create_random = concat (map (replicate 16) [1, 2, 3, 4, 5, 6, 7, 8])"

definition create_world :: world where
  "create_world =
     \<lparr>w_db = \<lparr>tbl_projects = [create_project], tbl_devices = [create_device], tbl_commands = [], tbl_attempts = [],
        tbl_results = [], tbl_messages = [], tbl_events = [], tbl_deliveries = [], tbl_delivery_attempts = [],
        tbl_audits = [], tbl_secrets = [], tbl_device_types = [create_type], tbl_profiles = [create_profile],
        tbl_states = [], tbl_simulator = [], tbl_users = []\<rparr>,
      w_now = Second, w_clock = Second, w_ticks = [], w_faults = [], w_random = create_random, w_net = []\<rparr>"

lemma create_world_tables [simp]:
  "tbl_commands (w_db create_world) = []" "tbl_attempts (w_db create_world) = []" "tbl_events (w_db create_world) = []"
  "tbl_deliveries (w_db create_world) = []" "tbl_audits (w_db create_world) = []" "w_faults create_world = []"
  "w_random create_world = create_random"
  by (simp_all add: create_world_def)

lemma create_world_ready: "secret_ready (w_db create_world) p"
  by (rule secret_ready_no_webhook) (simp add: create_world_def create_project_def)

lemma create_request_valid:
  "validateScope create_scope = Inr create_scope" "validateMetadata create_scope create_metadata = Inr create_metadata"
  "create_arguments create_scope create_request = Some (prj_ID create_project, ''k1'')"
  "validUUID (TrimSpace (crq_DeviceID create_request))"
  "normalizeCommandType (crq_CommandType create_request) = Inr ''query_status''"
  "normalizePayload (crq_Payload create_request) = Inr []"
  by code_simp+

lemma create_request_admitted:
  "admitted create_providers create_scope (prj_ID create_project) (TrimSpace (crq_DeviceID create_request)) ''query_status'' []
     (w_db create_world) create_project create_device create_type create_profile create_action"
  by code_simp

lemma create_storable:
  "usable_action create_action" "storable create_device create_type create_profile ''query_status'' ''k1''"
  "normalizeIdempotencyKey ''k1'' = Inr ''k1''"
  by code_simp+

theorem create_accepts_witness:
  "\<exists>r w'. command_service_Create create_providers create_scope create_request create_metadata create_world = (Inr r, w') \<and>
     \<not> crs_IdempotentReplay r"
proof (rule create_accepts [OF create_request_valid create_request_admitted])
  show "usable_action create_action" "storable create_device create_type create_profile ''query_status'' ''k1''"
    by (rule create_storable)+
  show "can_create (prj_ID create_project) ''k1'' create_world"
    by (simp add: can_create_def create_random_def create_world_ready)
qed

lemma create_world_run:
  "\<exists>r w'. command_service_Create create_providers create_scope create_request create_metadata create_world = (Inr r, w') \<and>
     \<not> crs_IdempotentReplay r"
proof -
  have "can_create (prj_ID create_project) ''k1'' (started create_world)"
    by (subst can_create_cong [of _ create_world])
      (simp_all add: started_def consume_def can_create_def create_random_def create_world_ready)
  from create_body_succeeds [OF _ _ create_request_valid(5) _ _ this, of create_providers create_scope
      "TrimSpace (crq_DeviceID create_request)" "[]" create_project create_device create_type create_profile create_action
      "''k1''" create_metadata] create_request_admitted create_storable
  obtain r w' where "create_body create_providers create_scope create_metadata (prj_ID create_project)
      (TrimSpace (crq_DeviceID create_request)) ''query_status'' [] ''k1'' (started create_world) = (Inr r, w')"
    "\<not> crs_IdempotentReplay r" "w_faults w' = []" by auto
  then show ?thesis
    unfolding Create_transaction [OF create_request_valid, of create_providers create_world] by (auto simp: WithinTransaction_run)
qed

theorem create_is_admitted_witness:
  "\<exists>r w'. command_service_Create create_providers create_scope create_request create_metadata create_world = (Inr r, w') \<and>
     tbl_commands (w_db w') = [stored_command (crs_Command r)] \<and> cmd_Status (crs_Command r) = CommandStatusQueued"
proof -
  obtain r w' where run: "command_service_Create create_providers create_scope create_request create_metadata create_world = (Inr r, w')"
    "\<not> crs_IdempotentReplay r" using create_world_run by blast
  from create_is_admitted [OF run] run show ?thesis by auto
qed

theorem create_idempotent_witness:
  "\<exists>r w1. command_service_Create create_providers create_scope create_request create_metadata create_world = (Inr r, w1) \<and>
     (\<forall>answer w3. command_service_Create create_providers create_scope create_request create_metadata w1 = (answer, w3) \<longrightarrow>
        w_db w3 = w_db w1)"
proof -
  obtain r w1 where run: "command_service_Create create_providers create_scope create_request create_metadata create_world = (Inr r, w1)"
    using create_world_run by blast
  have "db_ok (w_db create_world)" "idempotent_keys (w_db create_world)"
    by (simp_all add: db_ok_def keys_ok_def idempotent_keys_def)
  from create_idempotent [OF this run rtranclp.rtrancl_refl refl] run show ?thesis by blast
qed

end
