(* ===== verification/Command_Safety.thy ===== *)
theory Command_Safety
  imports Command_Create
begin

text \<open>
  What the platform promises of its Commands, whatever its processes do in whatever order and whichever
  statements fail: the properties are stated over \<open>platform_run\<close>, and each rests on the abstract machine
  of \<open>Command_Life\<close> through the refinement of \<open>Command_Refine\<close>.
\<close>

subsection \<open>A small platform\<close>

text \<open>One Simulator Command of one Project without a webhook, on which the witnesses are evaluated.\<close>

definition sample_command :: Command where
  "sample_command =
     \<lparr>cmd_ID = ''c1c1c1c1-0000-4000-8000-000000000001'', cmd_ProjectID = ''b1b1b1b1-0000-4000-8000-000000000001'', cmd_DeviceID = ''d1d1d1d1-0000-4000-8000-000000000001'', cmd_DeviceTypeID = ''e1e1e1e1-0000-4000-8000-000000000001'',
      cmd_DeviceTypeCode = ''smart-lock'', cmd_ProviderCode = ProviderCodeSimulator,
      cmd_ProviderProfile = ''simulator-v1'', cmd_ProviderDeviceID = ''d1d1d1d1-0000-4000-8000-000000000001'', cmd_Adapter = AdapterSimulator,
      cmd_CommandType = ''query_status'', cmd_Payload = [], cmd_DeviceTypeRevision = 2,
      cmd_DeliveryPolicy = DeliveryPolicyDispatchOnce, cmd_DispatchDeadline = 60 * Second,
      cmd_ProviderTimeout = 10 * Second, cmd_ResultTimeout = 30 * Second, cmd_RetryAllowed = False,
      cmd_Status = CommandStatusQueued, cmd_ReasonCode = None, cmd_ReasonDetail = None,
      cmd_ConfirmationLevel = ConfirmationNone, cmd_EvidenceStatus = EvidenceNone,
      cmd_IdempotencyKey = ''k1'', cmd_RequestHash = replicate 32 CHR ''h'', cmd_QueuedAt = Second,
      cmd_DispatchDeadlineAt = 61 * Second, cmd_SentAt = None, cmd_ResultDeadlineAt = None,
      cmd_FinishedAt = None, cmd_CreatedAt = Second, cmd_UpdatedAt = Second\<rparr>"

definition sample_attempt :: CommandAttempt where
  "sample_attempt =
     \<lparr>att_ID = ''a1a1a1a1-0000-4000-8000-000000000001'', att_CommandID = ''c1c1c1c1-0000-4000-8000-000000000001'', att_AttemptNo = 1, att_Phase = AttemptPhaseClaimed,
      att_ProviderCode = ProviderCodeSimulator, att_Adapter = AdapterSimulator, att_ProviderRequestKey = ''7'',
      att_Outcome = None, att_ConfirmationLevel = ConfirmationNone, att_EvidenceStatus = EvidenceNone,
      att_RequestSummary = [], att_ResponseSummary = [], att_ReasonCode = None, att_ErrorDetail = None,
      att_LeaseToken = ''f1f1f1f1-0000-4000-8000-000000000001'', att_LeaseOwner = ''w1'', att_LeaseExpiresAt = 17 * Second,
      att_ClaimedAt = 2 * Second, att_DispatchingAt = None, att_CompletedAt = None\<rparr>"

definition sample_project :: Project where
  "sample_project =
     \<lparr>prj_ID = ''b1b1b1b1-0000-4000-8000-000000000001'', prj_Name = ''P'', prj_ManagerUserID = ''a2a2a2a2-0000-4000-8000-000000000001'', prj_WebhookURL = None,
      prj_WebhookConfigVersion = 1, prj_CurrentWebhookSecretVersion = None, prj_APIKeyDigest = [],
      prj_IPWhitelist = [], prj_CreatedAt = 0, prj_UpdatedAt = 0\<rparr>"

definition empty_db :: db where
  "empty_db =
     \<lparr>tbl_projects = [sample_project], tbl_devices = [], tbl_commands = [], tbl_attempts = [], tbl_results = [],
      tbl_messages = [], tbl_events = [], tbl_deliveries = [], tbl_delivery_attempts = [], tbl_audits = [],
      tbl_secrets = [], tbl_device_types = [], tbl_profiles = [], tbl_states = [], tbl_simulator = [], tbl_users = []\<rparr>"

definition sample_random :: "8 word list" where
  "sample_random =
     [0, 1, 2, 3, 4, 5, 6, 7, 8, 9, 10, 11, 12, 13, 14, 15, 16, 17, 18, 19,
      20, 21, 22, 23, 24, 25, 26, 27, 28, 29, 30, 31, 32, 33, 34, 35, 36, 37, 38, 39,
      40, 41, 42, 43, 44, 45, 46, 47, 48, 49, 50, 51, 52, 53, 54, 55, 56, 57, 58, 59,
      60, 61, 62, 63, 64, 65, 66, 67, 68, 69, 70, 71, 72, 73, 74, 75, 76, 77, 78, 79,
      80, 81, 82, 83, 84, 85, 86, 87, 88, 89, 90, 91, 92, 93, 94, 95, 96, 97, 98, 99,
      100, 101, 102, 103, 104, 105, 106, 107, 108, 109, 110, 111, 112, 113, 114, 115, 116, 117, 118, 119,
      120, 121, 122, 123, 124, 125, 126, 127, 128, 129, 130, 131, 132, 133, 134, 135, 136, 137, 138, 139,
      140, 141, 142, 143, 144, 145, 146, 147, 148, 149, 150, 151, 152, 153, 154, 155, 156, 157, 158, 159]"

definition sample_world :: "Command list \<Rightarrow> CommandAttempt list \<Rightarrow> instant \<Rightarrow> world" where
  "sample_world cs as t =
     \<lparr>w_db = empty_db\<lparr>tbl_commands := cs, tbl_attempts := as\<rparr>, w_now = t, w_clock = t, w_ticks = [],
      w_faults = [], w_random = sample_random, w_net = []\<rparr>"

definition claimed_world :: world where
  "claimed_world = sample_world [sample_command] [sample_attempt] (3 * Second)"

lemma db_ok_eval:
  "db_ok d \<longleftrightarrow> keys_ok d \<and> list_all (\<lambda>a. list_ex (\<lambda>c. cmd_ID c = att_CommandID a) (tbl_commands d)) (tbl_attempts d) \<and>
     list_all (\<lambda>c. life_ok (life_of c d)) (tbl_commands d)"
  by (auto simp: db_ok_def list_all_iff list_ex_iff)

lemma claimed_world_ok: "db_ok (w_db claimed_world)"
  unfolding db_ok_eval by code_simp

lemma sample_ready [simp]: "secret_ready (w_db (sample_world cs as t)) p" "secret_ready (w_db (started (sample_world cs as t))) p"
  by (rule secret_ready_no_webhook, simp add: sample_world_def empty_db_def sample_project_def)+

lemma claimed_world_dispatch:
  "\<exists>w'. commitDispatch sample_command sample_attempt EventSourceSystem (15 * Second) [] claimed_world = (Inr True, w')"
proof -
  have "owns (w_db (started claimed_world)) sample_command sample_attempt"
    by (simp add: owns_def) (simp add: claimed_world_def sample_world_def sample_attempt_def sample_command_def)
  moreover have "att_Phase sample_attempt = AttemptPhaseClaimed" "cmd_ProjectID sample_command = ''b1b1b1b1-0000-4000-8000-000000000001''"
    "cmd_ResultTimeout sample_command = 30 * Second" "cmd_DeliveryPolicy sample_command = DeliveryPolicyDispatchOnce"
    "att_LeaseExpiresAt sample_attempt = 17 * Second" "cmd_DispatchDeadlineAt sample_command = 61 * Second"
    "cmd_QueuedAt sample_command = Second" "att_ClaimedAt sample_attempt = 2 * Second"
    by (simp_all add: sample_attempt_def sample_command_def)
  moreover have "w_now (started claimed_world) = 3 * Second" "w_faults (started claimed_world) = []"
    "32 \<le> length (w_random (started claimed_world))"
    by (simp_all add: started_def claimed_world_def sample_world_def sample_random_def tick_def consume_def)
  moreover have "tbl_events (w_db (started claimed_world)) = []" "tbl_deliveries (w_db (started claimed_world)) = []"
    by (simp_all add: claimed_world_def sample_world_def empty_db_def)
  moreover have "w_faults claimed_world = []" by (simp add: claimed_world_def sample_world_def)
  moreover have "secret_ready (w_db (started claimed_world)) ''b1b1b1b1-0000-4000-8000-000000000001''" unfolding claimed_world_def by simp
  ultimately show ?thesis
    using commit_dispatch_body_succeeds [of "started claimed_world" sample_command sample_attempt "15 * Second"] claimed_world_ok
    by (fastforce simp: commitDispatch_def WithinTransaction_run device_ready_def can_announce_def)
qed

definition cancelled_command :: Command where
  "cancelled_command =
     sample_command\<lparr>cmd_Status := CommandStatusCancelled, cmd_ReasonCode := Some ''cancelled_by_request'',
       cmd_FinishedAt := Some (2 * Second), cmd_UpdatedAt := 2 * Second\<rparr>"

definition cancelled_world :: world where
  "cancelled_world = sample_world [cancelled_command] [] (3 * Second)"

lemma cancelled_world_ok: "db_ok (w_db cancelled_world)"
  unfolding db_ok_eval by code_simp

lemma sample_members [simp]:
  "tbl_commands (w_db claimed_world) = [sample_command]" "tbl_commands (w_db cancelled_world) = [cancelled_command]"
  "tbl_attempts (w_db claimed_world) = [sample_attempt]" "tbl_attempts (w_db cancelled_world) = []"
  by (simp_all add: claimed_world_def cancelled_world_def sample_world_def)

lemma sample_ids [simp]:
  "cmd_ID sample_command = ''c1c1c1c1-0000-4000-8000-000000000001''" "cmd_Status sample_command = CommandStatusQueued" "att_ID sample_attempt = ''a1a1a1a1-0000-4000-8000-000000000001''"
  "cmd_ID cancelled_command = ''c1c1c1c1-0000-4000-8000-000000000001''" "cmd_Status cancelled_command = CommandStatusCancelled"
  "att_CommandID sample_attempt = ''c1c1c1c1-0000-4000-8000-000000000001''" "att_LeaseToken sample_attempt = ''f1f1f1f1-0000-4000-8000-000000000001''"
  by (simp_all add: sample_command_def sample_attempt_def cancelled_command_def)

lemma dispatch_step: "commitDispatch c a source lease summary w = (r, w') \<Longrightarrow> platform_run w w'"
  using platform_step.dispatch [of w c a source lease summary] by auto

subsection \<open>The history of a Command\<close>

text \<open>
  C2. However the platform runs on, a Command stays in the tables with the snapshot it was created with
  (project, device, provider route, action, payload, policy, deadlines, idempotency key); its status has
  only moved along the transition table of \<open>lifecycle.go\<close>, and the confirmation it has never goes back.
\<close>

theorem command_history:
  assumes "db_ok (w_db w)" and "platform_run w w'" and "c \<in> set (tbl_commands (w_db w))"
  shows "\<exists>c'\<in>set (tbl_commands (w_db w')). cmd_ID c' = cmd_ID c \<and> same_snapshot c c' \<and>
    CanTransitionCommand\<^sup>*\<^sup>* (cmd_Status c) (cmd_Status c') \<and>
    CanAdvanceConfirmation (cmd_ConfirmationLevel c) (cmd_ConfirmationLevel c')"
  using assms
proof (rule run_follows)
  fix c' assume c': "c' \<in> set (tbl_commands (w_db w'))" "cmd_ID c' = cmd_ID c"
    and l: "lifetime (life_of c (w_db w)) (life_of c' (w_db w'))"
  have "life_ok (life_of c (w_db w))" using assms by (simp add: db_ok_life)
  with c' l show ?thesis
    using lifetime_snapshot [OF l] lifetime_status [OF l] lifetime_confirmation [OF l]
    by (auto simp: life_of_def)
qed

theorem command_history_witness:
  "\<exists>w'. commitDispatch sample_command sample_attempt EventSourceSystem (15 * Second) [] claimed_world = (Inr True, w') \<and>
    (\<exists>c'\<in>set (tbl_commands (w_db w')). cmd_ID c' = ''c1c1c1c1-0000-4000-8000-000000000001'' \<and> same_snapshot sample_command c' \<and>
      CanTransitionCommand\<^sup>*\<^sup>* CommandStatusQueued (cmd_Status c') \<and>
      CanAdvanceConfirmation (cmd_ConfirmationLevel sample_command) (cmd_ConfirmationLevel c'))"
proof -
  obtain w' where run: "commitDispatch sample_command sample_attempt EventSourceSystem (15 * Second) [] claimed_world = (Inr True, w')"
    using claimed_world_dispatch by blast
  from command_history [OF claimed_world_ok dispatch_step [OF run], of sample_command] run show ?thesis by auto
qed

text \<open>
  C11. A terminal Command is final: no later step of any process changes its status, the reason it ended
  for, or the time it ended at (a late result can only add evidence).
\<close>

theorem terminal_is_final:
  assumes "db_ok (w_db w)" and "platform_run w w'" and "c \<in> set (tbl_commands (w_db w))"
    and "IsTerminal (cmd_Status c)" and "c' \<in> set (tbl_commands (w_db w'))" and "cmd_ID c' = cmd_ID c"
  shows "cmd_Status c' = cmd_Status c \<and> cmd_ReasonCode c' = cmd_ReasonCode c \<and>
    cmd_ReasonDetail c' = cmd_ReasonDetail c \<and> cmd_FinishedAt c' = cmd_FinishedAt c"
  using assms(1-3)
proof (rule run_follows)
  fix d assume l: "lifetime (life_of c (w_db w)) (life_of d (w_db w'))"
    and unique: "\<And>x. x \<in> set (tbl_commands (w_db w')) \<Longrightarrow> cmd_ID x = cmd_ID c \<Longrightarrow> x = d"
  have "c' = d" using unique assms by blast
  with lifetime_terminal [OF l] assms(4) show ?thesis by (simp add: life_of_def)
qed

theorem terminal_is_final_witness:
  "\<exists>c'\<in>set (tbl_commands (w_db (snd (poll_maintenance cancelled_world)))). cmd_ID c' = ''c1c1c1c1-0000-4000-8000-000000000001'' \<and>
     cmd_Status c' = CommandStatusCancelled \<and> cmd_FinishedAt c' = Some (2 * Second)"
proof -
  have run: "platform_run cancelled_world (snd (poll_maintenance cancelled_world))"
    by (rule r_into_rtranclp) (rule platform_step.maintain)
  obtain c' where c': "c' \<in> set (tbl_commands (w_db (snd (poll_maintenance cancelled_world))))" "cmd_ID c' = ''c1c1c1c1-0000-4000-8000-000000000001''"
    using run_follows [OF cancelled_world_ok run, of cancelled_command] by (metis list.set_intros(1) sample_ids(4) sample_members(2))
  from terminal_is_final [OF cancelled_world_ok run, of cancelled_command c'] c' show ?thesis
    by (auto simp: cancelled_command_def)
qed

lemma commitDispatch_True:
  assumes "commitDispatch c a source lease summary w = (Inr True, w')" and ok: "db_ok (w_db w)"
  obtains t c0 a0 where "owns (w_db w) c0 a0" "cmd_ID c0 = cmd_ID c" "att_ID a0 = att_ID a"
    "att_LeaseToken a0 = att_LeaseToken a" "att_Phase a0 = AttemptPhaseClaimed"
    "status_reported t c0 (sent_with t (t + Microseconds (cmd_ResultTimeout c) * Microsecond) c0) (w_db w) (w_db w')"
proof -
  from assms(1) obtain w1 where body: "commit_dispatch_body c a source lease summary (started w) = (Inr True, w1)"
    and db: "w_db w' = w_db w1" by (auto simp: commitDispatch_def WithinTransaction_run)
  have ok': "db_ok (w_db (started w))" using ok by simp
  from body ok' show thesis
  proof (cases rule: commit_dispatch_moves)
    case (dispatched c0 a0)
    from dispatched(2-6,9) show thesis by (intro that [of c0 a0 "w_now (started w)"]) (simp_all add: db)
  qed simp
qed

lemma never_queued_again: "CanTransitionCommand\<^sup>*\<^sup>* s s' \<Longrightarrow> s \<noteq> CommandStatusQueued \<Longrightarrow> s' \<noteq> CommandStatusQueued"
  by (induction rule: rtranclp_induct) (auto simp: no_transition_to_queued)

text \<open>
  C1. A Command is handed to its provider at most once. Once \<open>commitDispatch\<close> has let one worker dispatch
  it, no call of \<open>commitDispatch\<close> for the same Command, by any worker with any Attempt and at any later
  point of any run, answers that it may be dispatched.
\<close>

theorem dispatch_at_most_once:
  assumes ok: "db_ok (w_db w)" and first: "commitDispatch c a source lease summary w = (Inr True, w1)"
    and run: "platform_run w1 w2" and same: "cmd_ID c' = cmd_ID c"
  shows "fst (commitDispatch c' a' source' lease' summary' w2) \<noteq> Inr True"
proof
  assume "fst (commitDispatch c' a' source' lease' summary' w2) = Inr True"
  then obtain w3 where second: "commitDispatch c' a' source' lease' summary' w2 = (Inr True, w3)"
    by (metis prod.collapse)
  from first ok obtain c0 a0 t where id: "cmd_ID c0 = cmd_ID c"
    and rep: "status_reported t c0 (sent_with t (t + Microseconds (cmd_ResultTimeout c) * Microsecond) c0) (w_db w) (w_db w1)"
    by (rule commitDispatch_True)
  note mv = status_reported_moves [OF rep]
  define c1 where "c1 = sent_with t (t + Microseconds (cmd_ResultTimeout c) * Microsecond) c0"
  have c1: "c1 \<in> set (tbl_commands (w_db w1))" "cmd_ID c1 = cmd_ID c" "cmd_Status c1 = CommandStatusSent"
    using mv id by (force simp: c1_def moves_def commands_put)+
  have "db_ok (w_db w1)" by (rule moves_db_ok [OF ok mv])
  with run c1(1) obtain c2 where c2: "db_ok (w_db w2)" "lifetime (life_of c1 (w_db w1)) (life_of c2 (w_db w2))"
    "\<And>x. x \<in> set (tbl_commands (w_db w2)) \<Longrightarrow> cmd_ID x = cmd_ID c1 \<Longrightarrow> x = c2" by (metis run_follows)
  have "cmd_Status c2 \<noteq> CommandStatusQueued"
    using never_queued_again [OF lifetime_status [OF c2(2)]] c1(3) by (simp add: life_of_def)
  moreover
  from second c2(1) obtain x y where "owns (w_db w2) x y" "cmd_ID x = cmd_ID c'" "att_Phase y = AttemptPhaseClaimed"
    by (rule commitDispatch_True)
  then have "x = c2" "cmd_Status x = CommandStatusQueued"
    using c2(3) [of x] owned_ok(3) [OF c2(1), of x y] same c1(2) by (auto simp: owns_def)
  ultimately show False by simp
qed

theorem dispatch_at_most_once_witness:
  "\<exists>w'. commitDispatch sample_command sample_attempt EventSourceSystem (15 * Second) [] claimed_world = (Inr True, w') \<and>
     fst (commitDispatch sample_command sample_attempt EventSourceSystem (15 * Second) [] w') \<noteq> Inr True"
proof -
  obtain w' where run: "commitDispatch sample_command sample_attempt EventSourceSystem (15 * Second) [] claimed_world = (Inr True, w')"
    using claimed_world_dispatch by blast
  from dispatch_at_most_once [OF claimed_world_ok run rtranclp.rtrancl_refl refl] run show ?thesis by blast
qed

text \<open>
  What the tables say of a Command that one worker is dispatching.
\<close>

definition dispatch_committed :: "Command \<Rightarrow> CommandAttempt \<Rightarrow> world \<Rightarrow> bool" where
  "dispatch_committed c a s \<longleftrightarrow>
     list_ex (\<lambda>x. cmd_ID x = cmd_ID c \<and> cmd_Status x = CommandStatusSent) (tbl_commands (w_db s)) \<and>
     list_ex (\<lambda>y. att_ID y = att_ID a \<and> att_CommandID y = cmd_ID c \<and> att_LeaseToken y = att_LeaseToken a \<and>
       att_Phase y = AttemptPhaseDispatching) (tbl_attempts (w_db s))"

lemma commitDispatch_committed:
  assumes run: "commitDispatch c a source lease summary w = (Inr True, w')" and ok: "db_ok (w_db w)"
  shows "dispatch_committed c a w'"
proof -
  from run ok obtain t c0 a0 where own: "owns (w_db w) c0 a0" and ids: "cmd_ID c0 = cmd_ID c" "att_ID a0 = att_ID a"
    "att_LeaseToken a0 = att_LeaseToken a" "att_Phase a0 = AttemptPhaseClaimed"
    and rep: "status_reported t c0 (sent_with t (t + Microseconds (cmd_ResultTimeout c) * Microsecond) c0) (w_db w) (w_db w')"
    by (rule commitDispatch_True)
  define c1 where "c1 = sent_with t (t + Microseconds (cmd_ResultTimeout c) * Microsecond) c0"
  have mv: "moves t c0 c1 (w_db w) (w_db w')" unfolding c1_def by (rule status_reported_moves [OF rep])
  have c1: "c1 \<in> set (tbl_commands (w_db w'))" "cmd_ID c1 = cmd_ID c" "cmd_Status c1 = CommandStatusSent"
    using mv ids by (force simp: c1_def moves_def commands_put)+
  have "life_step t (c0, [a0]) (c1, attempts_of (cmd_ID c) (w_db w'))"
    using mv only_attempt [OF ok own] by (simp add: moves_def life_of_def ids c1)
  moreover have "cmd_Status c0 = CommandStatusQueued" using owned_ok(3) [OF ok own] ids(4) by simp
  ultimately obtain summary' expires where
    "attempts_of (cmd_ID c) (w_db w') = on_attempt (att_ID a0) (dispatching_from t summary' expires) [a0]"
    using c1(3) by (cases rule: life_stepE) (auto simp: life_updates)
  then have "dispatching_from t summary' expires a0 \<in> set (attempts_of (cmd_ID c) (w_db w'))"
    by (simp add: on_attempt_def)
  then have "\<exists>y\<in>set (tbl_attempts (w_db w')). att_ID y = att_ID a \<and> att_CommandID y = cmd_ID c \<and>
      att_LeaseToken y = att_LeaseToken a \<and> att_Phase y = AttemptPhaseDispatching"
    using ids by (intro bexI [of _ "dispatching_from t summary' expires a0"]) (simp_all add: dispatching_from_def)
  with c1 show ?thesis by (auto simp: dispatch_committed_def list_ex_iff)
qed

text \<open>
  C9. A provider is only called when the dispatch is already durable. Two adapters that prepare the same
  requests and whose \<open>Dispatch\<close> functions agree on every world in which the Command is recorded as sent and
  the Attempt as dispatching under this worker's lease are indistinguishable to \<open>dispatchClaimed\<close>: it
  never calls \<open>Dispatch\<close> in any other world.
\<close>

theorem dispatch_only_when_committed:
  assumes ok: "db_ok (w_db s)"
    and other: "reg' = reg\<lparr>rgd_Adapter := (rgd_Adapter reg)\<lparr>adp_Prepare := prepare\<rparr>\<rparr>"
    and agree: "\<And>r v. case (adp_Prepare (rgd_Adapter reg) r v, prepare r v) of
        (Inl e, Inl e') \<Rightarrow> e' = e
      | (Inr p, Inr p') \<Rightarrow> prp_RequestSummary p' = prp_RequestSummary p \<and>
          (\<forall>s1. dispatch_committed c a s1 \<longrightarrow> prp_Dispatch p' s1 = prp_Dispatch p s1)
      | _ \<Rightarrow> False"
  shows "dispatchClaimed w reg' c a s = dispatchClaimed w reg c a s"
proof -
  let ?r = "dispatch_request c a"
  have reg': "rgd_ResultSource reg' = rgd_ResultSource reg" "rgd_ProviderCode reg' = rgd_ProviderCode reg"
    "rgd_AdapterCode reg' = rgd_AdapterCode reg" "adp_Configured (rgd_Adapter reg') = adp_Configured (rgd_Adapter reg)"
    "adp_Prepare (rgd_Adapter reg') = prepare" by (simp_all add: other)
  then have persist: "persistResult reg' c a = persistResult reg c a"
    by (simp only: persistResult_def [abs_def] persist_body_def)
  show ?thesis
  proof (cases "adp_Prepare (rgd_Adapter reg) ?r s")
    case (Inl e)
    with agree [of ?r s] have "prepare ?r s = Inl e" by (auto split: sum.splits)
    with Inl show ?thesis by (simp add: dispatchClaimed_def reg')
  next
    case (Inr p)
    with agree [of ?r s] obtain p' where p': "prepare ?r s = Inr p'" "prp_RequestSummary p' = prp_RequestSummary p"
      and same: "\<And>s1. dispatch_committed c a s1 \<Longrightarrow> prp_Dispatch p' s1 = prp_Dispatch p s1" by (auto split: sum.splits)
    have call: "bnd (commitDispatch c a (rgd_ResultSource reg) lease (prp_RequestSummary p)) (\<lambda>dispatched.
           if \<not> dispatched then ret () else (\<lambda>s1. case prp_Dispatch p' s1 of (r, s2) \<Rightarrow> persistResult reg' c a r s2)) s =
         bnd (commitDispatch c a (rgd_ResultSource reg) lease (prp_RequestSummary p)) (\<lambda>dispatched.
           if \<not> dispatched then ret () else (\<lambda>s1. case prp_Dispatch p s1 of (r, s2) \<Rightarrow> persistResult reg c a r s2)) s"
      for lease
      using commitDispatch_committed [OF _ ok] same
      by (auto simp: bnd_def persist split: prod.split sum.split)
    from Inr p' call show ?thesis by (simp add: dispatchClaimed_def reg')
  qed
qed

text \<open>A provider that accepts every request, and one that answers differently before the dispatch is durable.\<close>

definition accepted_result :: DispatchResult where
  "accepted_result =
     \<lparr>drs_Outcome = AttemptOutcomeProviderAccepted, drs_ConfirmationLevel = ConfirmationProviderAccepted,
      drs_EvidenceStatus = EvidenceVerified, drs_HTTPStatus = 0, drs_RequestSummary = [], drs_ResponseSummary = [],
      drs_ReasonCode = [], drs_ErrorDetail = []\<rparr>"

definition accepting :: "DispatchRequest \<Rightarrow> world \<Rightarrow> prepare_error + PreparedDispatch" where
  "accepting r s = Inr \<lparr>prp_RequestSummary = [], prp_Dispatch = (\<lambda>s1. (accepted_result, s1))\<rparr>"

definition impatient :: "DispatchRequest \<Rightarrow> world \<Rightarrow> prepare_error + PreparedDispatch" where
  "impatient r s = Inr \<lparr>prp_RequestSummary = [], prp_Dispatch = (\<lambda>s1.
     if dispatch_committed sample_command sample_attempt s1 then (accepted_result, s1)
     else (accepted_result\<lparr>drs_Outcome := AttemptOutcomeNotDispatched\<rparr>, s1))\<rparr>"

definition sample_registration :: registered where
  "sample_registration =
     \<lparr>rgd_ProviderCode = ProviderCodeSimulator, rgd_AdapterCode = AdapterSimulator,
      rgd_Adapter = \<lparr>adp_Configured = (\<lambda>s. True), adp_Prepare = accepting\<rparr>,
      rgd_ResultSource = EventSourceSimulator, rgd_ClaimSnapshot = None\<rparr>"

definition sample_worker :: Worker where
  "sample_worker =
     \<lparr>wkr_workerID = ''w1'', wkr_leaseDuration = 15 * Second, wkr_pollInterval = 100 * Millisecond,
      wkr_adapters = [sample_registration], wkr_nextAdapter = 0\<rparr>"

theorem dispatch_only_when_committed_witness:
  "dispatchClaimed sample_worker
     (sample_registration\<lparr>rgd_Adapter := (rgd_Adapter sample_registration)\<lparr>adp_Prepare := impatient\<rparr>\<rparr>)
     sample_command sample_attempt claimed_world =
   dispatchClaimed sample_worker sample_registration sample_command sample_attempt claimed_world \<and>
   \<not> dispatch_committed sample_command sample_attempt claimed_world"
proof
  show "\<not> dispatch_committed sample_command sample_attempt claimed_world"
    by (simp add: dispatch_committed_def)
qed (rule dispatch_only_when_committed [OF claimed_world_ok refl],
    simp add: accepting_def impatient_def sample_registration_def)

subsection \<open>Progress\<close>

lemma started_eval: "w_now (started w) = w_clock (tick w)" "w_faults (started w) = tl (w_faults w)"
  by (simp_all add: started_def consume_def)

lemma can_announce_started: "can_announce p key w \<Longrightarrow> can_announce p key (started w)"
  by (subst can_announce_cong [of _ w]) (simp_all add: started_eval can_announce_def)

text \<open>
  A claimed Attempt can be dispatched: while its lease and the Command's deadline have not run out, the
  Device is reachable if the policy asks for it, and the driver and the random source do not fail,
  \<open>commitDispatch\<close> answers that the Attempt may be dispatched.
\<close>

theorem dispatch_goes_ahead:
  assumes ok: "db_ok (w_db w)" and own: "owns (w_db w) c a" and claimed: "att_Phase a = AttemptPhaseClaimed"
    and live: "w_clock (tick w) < att_LeaseExpiresAt a" "w_clock (tick w) < cmd_DispatchDeadlineAt c"
    and past: "cmd_QueuedAt c \<le> w_clock (tick w)" "att_ClaimedAt a \<le> w_clock (tick w)"
    and times: "Microsecond \<le> cmd_ResultTimeout c" "Microsecond \<le> lease"
    and ready: "device_ready (w_db w) c"
    and new: "can_announce (cmd_ProjectID c) (status_key (cmd_ID c) CommandStatusSent) w"
  shows "fst (commitDispatch c a source lease summary w) = Inr True"
proof -
  have "\<exists>w'. commit_dispatch_body c a source lease summary (started w) = (Inr True, w') \<and> w_faults w' = []"
    by (rule commit_dispatch_body_succeeds) (use assms can_announce_started in \<open>simp_all add: started_eval\<close>)
  moreover have "w_faults w = []" using new by (simp add: can_announce_def)
  ultimately have "\<exists>w'. commitDispatch c a source lease summary w = (Inr True, w')"
    by (fastforce simp: commitDispatch_def WithinTransaction_run)
  then show ?thesis by auto
qed

theorem dispatch_goes_ahead_witness:
  "fst (commitDispatch sample_command sample_attempt EventSourceSystem (15 * Second) [] claimed_world) = Inr True"
  by (rule dispatch_goes_ahead [OF claimed_world_ok])
    (simp_all add: owns_def device_ready_def can_announce_def,
     simp_all only: claimed_world_def sample_ready,
     simp_all add: claimed_world_def sample_world_def sample_random_def empty_db_def sample_command_def
       sample_attempt_def tick_def)

text \<open>
  A dispatch whose worker died is recovered: when some Attempt is still dispatching after its lease
  ran out and its Command is sent, the next recovery pass takes the one that expired first and completes
  it as indeterminate, provided the driver and the random source do not fail.
\<close>

theorem recovery_goes_ahead:
  assumes ok: "db_ok (w_db w)" and own: "owns (w_db w) c a"
    and first: "first_by (\<lambda>a. (att_LeaseExpiresAt a, att_ID a))
       (filter (expired_dispatching (w_clock (tick w)) (w_db w)) (tbl_attempts (w_db w))) = Some a"
    and past: "\<And>x. att_DispatchingAt a = Some x \<Longrightarrow> x \<le> w_clock (tick w)"
    and new: "can_announce (cmd_ProjectID c) (recovery_key (cmd_ID c) (att_ID a)) w"
  shows "\<exists>w'. worker_RecoverNext w = (Inr True, w') \<and>
    completed_as (w_clock (tick w)) AttemptOutcomeIndeterminate ConfirmationTransportSent EvidenceUnverified []
      (Some ''provider_delivery_unknown'') None a \<in> set (tbl_attempts (w_db w'))"
proof -
  let ?g = "completed_as (w_now (started w)) AttemptOutcomeIndeterminate ConfirmationTransportSent EvidenceUnverified []
      (Some ''provider_delivery_unknown'') None"
  obtain w1 where "recover_body (started w) = (Inr True, w1)" "w_faults w1 = []"
    "tbl_attempts (w_db w1) = on_attempt (att_ID a) ?g (tbl_attempts (w_db (started w)))"
    using recover_body_succeeds [of "started w" c a] assms can_announce_started by (auto simp: started_eval)
  moreover have "w_faults w = []" using new by (simp add: can_announce_def)
  moreover have "a \<in> set (tbl_attempts (w_db w))" using own by (simp add: owns_def)
  ultimately show ?thesis
    by (auto simp: worker_RecoverNext_def WithinTransaction_run started_eval on_attempt_def intro!: exI)
qed

definition dispatching_world :: world where
  "dispatching_world =
     sample_world [sent_with (4 * Second) (34 * Second) sample_command]
       [dispatching_from (4 * Second) [] (19 * Second) sample_attempt] (20 * Second)"

lemma dispatching_ready: "secret_ready (w_db dispatching_world) p"
  unfolding dispatching_world_def by simp

lemma dispatching_world_ok: "db_ok (w_db dispatching_world)"
  unfolding db_ok_eval by code_simp

theorem recovery_goes_ahead_witness:
  "\<exists>w'. worker_RecoverNext dispatching_world = (Inr True, w') \<and>
    completed_as (20 * Second) AttemptOutcomeIndeterminate ConfirmationTransportSent EvidenceUnverified []
      (Some ''provider_delivery_unknown'') None (dispatching_from (4 * Second) [] (19 * Second) sample_attempt)
    \<in> set (tbl_attempts (w_db w'))"
proof -
  let ?a = "dispatching_from (4 * Second) [] (19 * Second) sample_attempt"
  let ?c = "sent_with (4 * Second) (34 * Second) sample_command"
  have now: "w_clock (tick dispatching_world) = 20 * Second"
    by (simp add: dispatching_world_def sample_world_def tick_def)
  have tables: "tbl_commands (w_db dispatching_world) = [?c]" "tbl_attempts (w_db dispatching_world) = [?a]"
    "tbl_events (w_db dispatching_world) = []" "tbl_deliveries (w_db dispatching_world) = []"
    by (simp_all add: dispatching_world_def sample_world_def empty_db_def)
  show ?thesis
    unfolding now [symmetric]
  proof (rule recovery_goes_ahead [OF dispatching_world_ok, of ?c])
    show "first_by (\<lambda>a. (att_LeaseExpiresAt a, att_ID a)) (filter (expired_dispatching (w_clock (tick dispatching_world))
        (w_db dispatching_world)) (tbl_attempts (w_db dispatching_world))) = Some ?a"
      by (simp add: tables now expired_dispatching_def first_by_def) (simp add: life_updates sample_command_def sample_attempt_def)
    show "can_announce (cmd_ProjectID ?c) (recovery_key (cmd_ID ?c) (att_ID ?a)) dispatching_world"
      by (simp add: can_announce_def tables dispatching_ready) (simp add: dispatching_world_def sample_world_def sample_random_def)
  qed (simp_all add: owns_def tables now, simp_all add: life_updates sample_attempt_def)
qed

subsection \<open>Leases\<close>

text \<open>A queued Command nobody has claimed yet.\<close>

definition queued_world :: world where
  "queued_world = sample_world [sample_command] [] (3 * Second)"

definition sample_claim :: ClaimCommandRequest where
  "sample_claim =
     \<lparr>ccr_WorkerID = ''w2'', ccr_LeaseToken = ''l2'', ccr_LeaseDuration = 15 * Second,
      ccr_ProviderCode = ProviderCodeSimulator, ccr_Adapter = AdapterSimulator, ccr_RequestKey = ''8'',
      ccr_RequestSummary = []\<rparr>"

lemma queued_world_ok: "db_ok (w_db queued_world)"
  unfolding db_ok_eval by code_simp

text \<open>
  A worker claims the oldest Command it may claim: of its provider and adapter, queued, before its
  dispatch deadline, and without an Attempt that is being dispatched or whose lease is still running.
  The Attempt it gets bears its own token and a lease that ends in the future, at the deadline at the latest.
\<close>

theorem claim_takes_the_oldest:
  assumes "ClaimNext r w = (Inr (Some (c, a)), w')" and "db_ok (w_db w)"
  shows "c \<in> set (tbl_commands (w_db w)) \<and> claimable (ccr_ProviderCode r) (ccr_Adapter r) (w_now w) (w_db w) c \<and>
    (\<forall>x\<in>set (tbl_commands (w_db w)). claimable (ccr_ProviderCode r) (ccr_Adapter r) (w_now w) (w_db w) x \<longrightarrow>
       (cmd_QueuedAt c, cmd_ID c) \<le> (cmd_QueuedAt x, cmd_ID x)) \<and>
    owns (w_db w') c a \<and> att_Phase a = AttemptPhaseClaimed \<and> att_LeaseToken a = ccr_LeaseToken r \<and>
    w_now w < att_LeaseExpiresAt a \<and> att_LeaseExpiresAt a \<le> cmd_DispatchDeadlineAt c"
  using assms
proof (cases rule: ClaimNext_moves)
  case (some c1 a1)
  from first_by_Some [OF some(8)] some show ?thesis by auto
qed simp

theorem claim_takes_the_oldest_witness:
  "case ClaimNext sample_claim queued_world of
     (Inr (Some (c, a)), w') \<Rightarrow> claimable ProviderCodeSimulator AdapterSimulator (3 * Second) (w_db queued_world) c \<and>
       att_LeaseToken a = ''l2'' \<and> 3 * Second < att_LeaseExpiresAt a
   | _ \<Rightarrow> False"
proof -
  have "case ClaimNext sample_claim queued_world of (Inr (Some p), w') \<Rightarrow> True | _ \<Rightarrow> False" by code_simp
  then obtain c a w' where run: "ClaimNext sample_claim queued_world = (Inr (Some (c, a)), w')"
    by (auto split: prod.splits sum.splits option.splits)
  from claim_takes_the_oldest [OF run queued_world_ok] run show ?thesis
    by (auto simp: sample_claim_def queued_world_def sample_world_def)
qed

text \<open>
  A worker goes away empty-handed only when there is nothing for it: with a lease of at least a
  microsecond and a token no Attempt bears yet, \<open>ClaimNext\<close> returns no Command only if none is claimable.
\<close>

theorem claim_leaves_nothing:
  assumes run: "ClaimNext r w = (Inr None, w')" and keys: "keys_ok (w_db w)"
    and lease: "Microsecond \<le> ccr_LeaseDuration r"
    and token: "\<forall>a\<in>set (tbl_attempts (w_db w)). att_LeaseToken a \<noteq> ccr_LeaseToken r"
  shows "\<forall>c\<in>set (tbl_commands (w_db w)). \<not> claimable (ccr_ProviderCode r) (ccr_Adapter r) (w_now w) (w_db w) c"
proof -
  let ?take = "\<lambda>c existing. if att_LeaseToken existing = ccr_LeaseToken r then ret None
     else bnd (take_over (att_ID existing) (att_LeaseToken existing) (ccr_WorkerID r)
                 (ccr_LeaseToken r) (ccr_LeaseDuration r) (cmd_ID c)) (\<lambda>n.
          if \<not> exactlyOneRow n then ret None
          else bnd (getAttempt (att_ID existing)) (\<lambda>attempt. ret (Some (c, attempt))))"
  from run lease have "on_row (select_first tbl_commands (claimable (ccr_ProviderCode r) (ccr_Adapter r))
        (\<lambda>c. (cmd_QueuedAt c, cmd_ID c))) (ret None)
        (\<lambda>c. on_row (incomplete_attempt_of (cmd_ID c)) (claim_new r c) (?take c)) w = (Inr None, w')"
    by (simp add: ClaimNext_def)
  then show ?thesis
  proof (cases rule: on_first_cases)
    case (row c w1)
    from row(6) show ?thesis unfolding incomplete_attempt_of_def
    proof (cases rule: on_query_cases)
      case (no_row w2)
      then show ?thesis by (auto simp: claim_new_def bnd_run ret_run)
    next
      case (row existing w2)
      note existing = row
      have e: "existing \<in> set (tbl_attempts (w_db w2))" "att_CommandID existing = cmd_ID c"
        "att_Phase existing \<noteq> AttemptPhaseCompleted" and d: "w_db w2 = w_db w" "w_now w2 = w_now w"
        using existing \<open>w_db w1 = w_db w\<close> \<open>w_now w1 = w_now w\<close> by simp_all
      then have free: "att_Phase existing = AttemptPhaseClaimed" "att_LeaseExpiresAt existing \<le> w_now w2"
        using \<open>claimable (ccr_ProviderCode r) (ccr_Adapter r) (w_now w) (w_db w) c\<close>
        by (auto simp: claimable_def list_ex_iff attempt_blocks_def)
      have "att_LeaseToken existing \<noteq> ccr_LeaseToken r" using token e d by simp
      with existing(5) obtain n w3 where up: "take_over (att_ID existing) (att_LeaseToken existing) (ccr_WorkerID r)
            (ccr_LeaseToken r) (ccr_LeaseDuration r) (cmd_ID c) w2 = (Inr n, w3)"
        and n: "(if \<not> exactlyOneRow n then ret None
          else bnd (getAttempt (att_ID existing)) (\<lambda>attempt. ret (Some (c, attempt)))) w3 = (Inr None, w')"
        by (auto simp: bnd_run)
      have "n = 1"
        using update_attempts_one [OF up [unfolded take_over_def], of existing] e d free keys by simp
      with n show ?thesis by (auto simp: exactlyOneRow_def bnd_run ret_run)
    qed
  next
    case no_row
    then show ?thesis by (simp add: filter_empty_conv)
  qed
qed

theorem claim_leaves_nothing_witness:
  "fst (ClaimNext (sample_claim\<lparr>ccr_ProviderCode := ProviderCodeOmni\<rparr>) queued_world) = Inr None \<and>
   \<not> claimable ProviderCodeOmni AdapterSimulator (3 * Second) (w_db queued_world) sample_command"
proof -
  let ?r = "sample_claim\<lparr>ccr_ProviderCode := ProviderCodeOmni\<rparr>"
  have none: "fst (ClaimNext ?r queued_world) = Inr None" by code_simp
  then have "ClaimNext ?r queued_world = (Inr None, snd (ClaimNext ?r queued_world))" by (metis prod.collapse)
  from claim_leaves_nothing [OF this db_ok_keys [OF queued_world_ok]] none show ?thesis
    by (simp add: sample_claim_def queued_world_def sample_world_def)
qed

text \<open>The right to act on an Attempt: its token, on an unfinished Attempt whose lease is running.\<close>

definition holds_lease :: "Command \<Rightarrow> CommandAttempt \<Rightarrow> world \<Rightarrow> bool" where
  "holds_lease c a w \<longleftrightarrow>
     list_ex (\<lambda>x. att_ID x = att_ID a \<and> att_CommandID x = cmd_ID c \<and> att_LeaseToken x = att_LeaseToken a \<and>
       att_Phase x \<noteq> AttemptPhaseCompleted \<and> w_clock (tick w) < att_LeaseExpiresAt x) (tbl_attempts (w_db w))"

lemma holds_leaseI:
  "owns (w_db w) c0 a0 \<Longrightarrow> cmd_ID c0 = cmd_ID c \<Longrightarrow> att_ID a0 = att_ID a \<Longrightarrow> att_LeaseToken a0 = att_LeaseToken a \<Longrightarrow>
   att_Phase a0 \<noteq> AttemptPhaseCompleted \<Longrightarrow> w_clock (tick w) < att_LeaseExpiresAt a0 \<Longrightarrow> holds_lease c a w"
  by (auto simp: holds_lease_def owns_def list_ex_iff)

lemma complete_needs_lease:
  assumes "CompleteAttempt (cmd_ID c) (att_ID a) (att_LeaseToken a) r v = (Inr True, v')"
    and "w_db v = w_db w" and "w_now v = w_clock (tick w)" and "keys_ok (w_db w)"
  shows "holds_lease c a w"
  using assms(1) assms(4) [folded assms(2)]
  by (rule CompleteAttempt_True) (use assms(2,3) in \<open>auto intro: holds_leaseI\<close>)

lemma persist_needs_lease:
  assumes "persist_body reg c a r (started w) = (Inr u, w')" and "keys_ok (w_db w)"
  shows "holds_lease c a w"
proof -
  from assms(1) obtain q v where "CompleteAttempt (cmd_ID c) (att_ID a) (att_LeaseToken a) q (started w) = (Inr True, v)"
    by (auto simp: persist_body_def bnd_run require_run fail_run split: option.splits)
  then show ?thesis by (rule complete_needs_lease) (use assms(2) in \<open>simp_all add: started_eval\<close>)
qed

lemma fail_needs_lease:
  assumes "fail_in_transaction c a source outcome reason detail v = (Inr u, v')"
    and "w_db v = w_db w" and "w_now v = w_clock (tick w)" and "keys_ok (w_db w)"
  shows "holds_lease c a w"
proof -
  from assms(1) obtain q v1 where "CompleteAttempt (cmd_ID c) (att_ID a) (att_LeaseToken a) q v = (Inr True, v1)"
    by (auto simp: fail_in_transaction_def bnd_run require_run)
  then show ?thesis by (rule complete_needs_lease) (use assms(2-4) in simp_all)
qed

lemma commit_needs_lease:
  assumes "commit_dispatch_body c a source lease summary (started w) = (Inr b, w')" and "db_ok (w_db w)"
  shows "holds_lease c a w"
proof -
  have ok: "db_ok (w_db (started w))" using assms(2) by simp
  from assms(1) ok show ?thesis
  proof (cases rule: commit_dispatch_moves)
    case (dispatched c0 a0)
    then show ?thesis by (intro holds_leaseI [of w c0 a0]) (simp_all add: started_eval)
  next
    case (offline c0 a0)
    from assms(1) offline(1) obtain v1 u v where
      "fail_in_transaction c a source AttemptOutcomeNotDispatched ''device_not_online'' None v1 = (Inr u, v)"
      and v1: "w_db v1 = w_db (started w)" "w_now v1 = w_now (started w)"
      by (auto simp: commit_dispatch_body_def bnd_run require_run ret_run device_GetForUpdate_def query_row_run
          split: if_splits)
    from this(1) show ?thesis by (rule fail_needs_lease) (use assms(2) v1 in \<open>simp_all add: started_eval db_ok_keys\<close>)
  qed
qed

lemma transaction_refused:
  assumes "\<And>x w1. fn (started w) = (Inr x, w1) \<Longrightarrow> False"
  shows "\<exists>e w'. WithinTransaction fn w = (Inl e, w') \<and> w_db w' = w_db w"
  by (cases rule: WithinTransaction_cases [of fn w]) (use assms in blast)+

text \<open>
  C10. A worker that lost its lease can do no harm. If the Attempt is finished, or its lease has run out,
  or another worker took it over (another token), then committing a dispatch, persisting a provider's
  answer and failing the Command before dispatch all return an error and leave every table as it was.
\<close>

theorem lost_lease_is_fenced:
  assumes ok: "db_ok (w_db w)" and lost: "\<not> holds_lease c a w"
  shows "(\<exists>e w'. commitDispatch c a source lease summary w = (Inl e, w') \<and> w_db w' = w_db w) \<and>
    (\<exists>e w'. persistResult reg c a result w = (Inl e, w') \<and> w_db w' = w_db w) \<and>
    (\<exists>e w'. failBeforeDispatch c a source reason detail w = (Inl e, w') \<and> w_db w' = w_db w)"
proof (intro conjI)
  note keys = db_ok_keys [OF ok]
  show "\<exists>e w'. commitDispatch c a source lease summary w = (Inl e, w') \<and> w_db w' = w_db w"
    unfolding commitDispatch_def by (rule transaction_refused) (metis commit_needs_lease ok lost)
  show "\<exists>e w'. persistResult reg c a result w = (Inl e, w') \<and> w_db w' = w_db w"
    unfolding persistResult_def by (rule transaction_refused) (metis persist_needs_lease keys lost)
  have "fail_in_transaction c a source outcome reason d (started w) \<noteq> (Inr u, v)" for outcome d u v
    using fail_needs_lease [of c a source outcome reason d "started w" u v w] keys lost by (auto simp: started_eval)
  then have "\<exists>e w'. WithinTransaction (fail_in_transaction c a source outcome reason d) w = (Inl e, w') \<and> w_db w' = w_db w"
    for outcome d by (intro transaction_refused) blast
  then show "\<exists>e w'. failBeforeDispatch c a source reason detail w = (Inl e, w') \<and> w_db w' = w_db w"
    unfolding failBeforeDispatch_def by (cases "reason \<in> set before_dispatch_reasons") (simp_all add: fail_def)
qed

theorem lost_lease_is_fenced_witness:
  "\<exists>e w'. persistResult sample_registration sample_command (sample_attempt\<lparr>att_LeaseToken := ''l0''\<rparr>) accepted_result
     dispatching_world = (Inl e, w') \<and> w_db w' = w_db dispatching_world"
proof -
  have "\<not> holds_lease sample_command (sample_attempt\<lparr>att_LeaseToken := ''l0''\<rparr>) dispatching_world"
    by (simp add: holds_lease_def dispatching_world_def sample_world_def dispatching_from_def)
  from lost_lease_is_fenced [OF dispatching_world_ok this] show ?thesis by blast
qed

subsection \<open>Transactions\<close>

text \<open>
  Transactions are atomic under every schedule of faults: a transaction that returns a value has
  committed exactly the tables its body left; one that returns an error has left the tables as they were,
  the only exception being the commit whose reply was lost, which has committed all of the body's work.
\<close>

theorem transaction_atomic:
  "case WithinTransaction fn w of
     (Inr x, w') \<Rightarrow> (\<exists>w1. fn (started w) = (Inr x, w1) \<and> w_db w' = w_db w1)
   | (Inl e, w') \<Rightarrow> w_db w' = w_db w \<or>
       (\<exists>x w1 m. fn (started w) = (Inr x, w1) \<and> w_db w' = w_db w1 \<and>
          e = ErrWrapped ''commit repository transaction'' (ErrDriver m))"
  by (cases rule: WithinTransaction_cases [of fn w]) auto

subsection \<open>From the first Command on\<close>

text \<open>The first Command of an empty platform: the witness of the properties of every reachable state.\<close>

definition first_command_run :: "world \<Rightarrow> bool" where
  "first_command_run w \<longleftrightarrow> platform_run create_world w \<and> tbl_commands (w_db w) \<noteq> []"

lemma first_command_exists: "\<exists>w. first_command_run w"
proof -
  obtain r w' where run: "command_service_Create create_providers create_scope create_request create_metadata create_world = (Inr r, w')"
    and new: "\<not> crs_IdempotentReplay r" using create_world_run by blast
  have "platform_step create_world w'"
    using platform_step.create [of create_world create_providers create_scope create_request create_metadata] run by simp
  moreover have "tbl_commands (w_db w') \<noteq> []"
    using run new by (rule Create_created) simp
  ultimately show ?thesis by (auto simp: first_command_run_def)
qed

lemma create_world_empty: "no_commands create_world"
  by (simp add: no_commands_def)

text \<open>
  C3. In every state the platform can reach, a Command is the only one with its ID and satisfies every CHECK
  of \<open>device_commands\<close> (\<open>command_check\<close>: the identity it was created with, the request, its status, reason,
  evidence, times and deadlines); it has at most one Attempt, which satisfies every CHECK of
  \<open>device_command_attempts\<close> (\<open>attempt_check\<close>), and whose phase agrees with the Command's status: claimed
  only while queued, and no queued Command has a completed one.
\<close>

theorem one_attempt_per_command:
  assumes "no_commands w0" and "platform_run w0 w" and "c \<in> set (tbl_commands (w_db w))"
  shows "command_check c \<and> length (attempts_of (cmd_ID c) (w_db w)) \<le> 1 \<and>
    list_all attempt_check (attempts_of (cmd_ID c) (w_db w)) \<and>
    phase_status (attempts_of (cmd_ID c) (w_db w)) (cmd_Status c) \<and>
    (\<forall>c'\<in>set (tbl_commands (w_db w)). cmd_ID c' = cmd_ID c \<longrightarrow> c' = c)"
proof -
  have ok: "db_ok (w_db w)" using assms reachable_ok by blast
  then have "life_ok (c, attempts_of (cmd_ID c) (w_db w))" using assms(3) by (auto dest: db_ok_life simp: life_of_def)
  with life_ok_attempts [OF this] command_unique [OF db_ok_keys [OF ok]] assms(3) show ?thesis
    by (auto simp: life_ok_def rows_ok_def)
qed

theorem one_attempt_per_command_witness:
  "\<exists>w c. first_command_run w \<and> c \<in> set (tbl_commands (w_db w)) \<and>
     phase_status (attempts_of (cmd_ID c) (w_db w)) (cmd_Status c)"
proof -
  obtain w where w: "first_command_run w" using first_command_exists by blast
  then obtain c where c: "c \<in> set (tbl_commands (w_db w))" unfolding first_command_run_def by (metis list.set_sel(1))
  from w one_attempt_per_command [OF create_world_empty _ c] have "phase_status (attempts_of (cmd_ID c) (w_db w)) (cmd_Status c)"
    by (auto simp: first_command_run_def)
  with w c show ?thesis by blast
qed

text \<open>
  C4. The Event log is complete. Starting from no Commands, at every moment of every run and under every
  schedule of faults, for each Command in the tables there is an Event in the log that tells exactly the
  status the Command now has: the change and its announcement are committed together or not at all.
\<close>

theorem every_status_is_announced:
  assumes "no_commands w0" and "platform_run w0 w" and "c \<in> set (tbl_commands (w_db w))"
  shows "\<exists>e\<in>set (tbl_events (w_db w)). event_tells e c"
proof -
  have "db_ok (w_db w0)" using assms(1) by (simp add: db_ok_def no_commands_def keys_ok_def)
  with outbox.run_related [OF assms(2)] assms show ?thesis by (auto simp: outbox_def no_commands_def announced_def)
qed

theorem every_status_is_announced_witness:
  "\<exists>w c e. first_command_run w \<and> c \<in> set (tbl_commands (w_db w)) \<and> e \<in> set (tbl_events (w_db w)) \<and> event_tells e c"
proof -
  obtain w where w: "first_command_run w" using first_command_exists by blast
  then obtain c where c: "c \<in> set (tbl_commands (w_db w))" unfolding first_command_run_def by (metis list.set_sel(1))
  from w every_status_is_announced [OF create_world_empty _ c] have "\<exists>e\<in>set (tbl_events (w_db w)). event_tells e c"
    by (auto simp: first_command_run_def)
  with w c show ?thesis by blast
qed

end
