(* ===== verification/Command_Evidence.thy ===== *)
theory Command_Evidence
  imports Command_Safety
begin

text \<open>
  What a reported result does (\<open>commandresultservice.Record\<close> over \<open>ApplyResult\<close>): a specification of its
  effect on one Command, \<open>after_result\<close>; that \<open>Record\<close> implements it, refuses what it must, counts a report
  once however often it arrives, and succeeds when nothing stands in its way; and two consequences of the
  tables' constraints and of the worker's guards that the documentation does not mention.
\<close>

subsection \<open>The effect on one Command\<close>

definition after_result :: "CommandResult \<Rightarrow> Command \<Rightarrow> Command option" where
  "after_result r c =
     (let level = res_ConfirmationLevel r; evidence = res_EvidenceStatus r; t = result_updated r in
      if IsTerminal (cmd_Status c) then
        Some (if evidenceProgresses (cmd_ConfirmationLevel c) (cmd_EvidenceStatus c) level evidence
              then evidenced t level evidence c else c)
      else if res_Outcome r = ResultOutcomeDeviceAcked \<and> cmd_Status c = CommandStatusSent then
        Some (concluded CommandStatusAcked None level evidence None t c)
      else if cmd_Status c \<noteq> CommandStatusSent \<and> cmd_Status c \<noteq> CommandStatusAcked then None
      else if res_Outcome r = ResultOutcomeDeviceSucceeded then
        Some (concluded CommandStatusSuccess None level evidence (Some t) t c)
      else if res_Outcome r = ResultOutcomeDeviceFailed then
        Some (concluded CommandStatusFailed (Some ''device_reported_failure'') level evidence (Some t) t c)
      else None)"

lemma after_result_id: "after_result r c = Some c' \<Longrightarrow> cmd_ID c' = cmd_ID c"
  by (drule sym) (auto simp: after_result_def Let_def evidenced_def concluded_def split: if_splits)

lemma after_result_project: "after_result r c = Some c' \<Longrightarrow> cmd_ProjectID c' = cmd_ProjectID c"
  by (drule sym) (auto simp: after_result_def Let_def evidenced_def concluded_def split: if_splits)

lemma ApplyResult_effect:
  assumes run: "ApplyResult r w = (Inr agg, w')" and keys: "keys_ok (w_db w)"
  obtains c where "c \<in> set (tbl_commands (w_db w))" "cmd_ID c = res_CommandID r"
    "res_Late r = IsTerminal (cmd_Status c)" "after_result r c = Some (cra_Command agg)"
    "w_db w' = put_command (cra_Command agg) (w_db w)"
    "cra_Command agg = c \<or> command_check (cra_Command agg)"
  using run keys
proof (cases rule: ApplyResult_run)
  case (same c)
  then show thesis by (intro that [of c]) (simp_all add: after_result_def Let_def put_command_same keys)
next
  case (late c)
  then show thesis by (intro that [of c]) (auto simp: after_result_def Let_def)
next
  case (applied c status reason finished)
  then show thesis by (intro that [of c]) (auto simp: after_result_def Let_def)
qed

subsection \<open>Calls of Record\<close>

lemma Record_cases:
  obtains (invalid) e v where "result_Record q w = (Inl e, v)" "w_db v = w_db w"
  | (valid) n level i e dl v where "result_Record q w = WithinTransaction (record_body n level i e dl) v" "w_db v = w_db w"
      "result_normalize q (w_clock (tick w)) = Some (n, level)"
proof -
  have step: thesis if "\<And>i e dl v. result_Record q w = WithinTransaction (record_body n level i e dl) v \<Longrightarrow> w_db v = w_db w \<Longrightarrow> thesis"
    and some: "result_normalize q (w_clock (tick w)) = Some (n, level)" for n level
  proof -
    have eq: "result_Record q w = bnd randomUUID (\<lambda>i. bnd randomUUID (\<lambda>e. bnd randomUUID (\<lambda>dl.
        WithinTransaction (record_body n level i e dl)))) (tick w)"
      using some by (simp add: result_Record_def bnd_time)
    obtain x1 v1 where r1: "randomUUID (tick w) = (x1, v1)" by fastforce
    obtain x2 v2 where r2: "randomUUID v1 = (x2, v2)" by fastforce
    obtain x3 v3 where r3: "randomUUID v2 = (x3, v3)" by fastforce
    have "reads randomUUID" by simp
    with r1 r2 r3 have db: "w_db v1 = w_db w" "w_db v2 = w_db w" "w_db v3 = w_db w"
      unfolding reads_def by (metis snd_conv tick_simps)+
    show thesis
    proof (cases x1)
      case (Inl e)
      then show thesis by (intro invalid [of e v1]) (simp_all add: eq bnd_def r1 db)
    next
      case i: (Inr i)
      show thesis
      proof (cases x2)
        case (Inl e)
        then show thesis by (intro invalid [of e v2]) (simp_all add: eq bnd_def r1 r2 i db)
      next
        case e: (Inr e)
        show thesis
        proof (cases x3)
          case (Inl f)
          then show thesis by (intro invalid [of f v3]) (simp_all add: eq bnd_def r1 r2 r3 i e db)
        next
          case (Inr dl)
          then show thesis by (intro that(1) [of i e dl v3]) (simp_all add: eq bnd_def r1 r2 r3 i e db)
        qed
      qed
    qed
  qed
  show thesis
  proof (cases "result_normalize q (w_clock (tick w))")
    case None
    then show thesis by (intro invalid [of ErrInvalidResult "tick w"]) (simp_all add: result_Record_def bnd_time fail_def)
  next
    case (Some m)
    obtain n level where "m = (n, level)" by fastforce
    with Some step [of n level] valid show thesis by blast
  qed
qed

text \<open>What a successful transaction of \<open>Record\<close> has done.\<close>

lemma record_body_effect:
  assumes run: "record_body n level i eventID deliveryID w = (Inr rec, w')" and ok: "db_ok (w_db w)"
    and new: "\<not> rrs_IdempotentReplay rec"
  obtains c where "c \<in> set (tbl_commands (w_db w))" "cmd_ID c = rrq_CommandID n" "rrs_Result rec = new_result i n level c"
    "\<forall>x\<in>set (tbl_results (w_db w)). \<not> (res_Source x = rrq_Source n \<and> res_DeduplicationKey x = rrq_DeduplicationKey n)"
    "after_result (rrs_Result rec) c = Some (rrs_Command rec)"
    "announces (put_command (rrs_Command rec) ((w_db w)\<lparr>tbl_results := tbl_results (w_db w) @ [stored_result (rrs_Result rec)]\<rparr>))
       (w_db w') (result_event eventID (rrs_Result rec) (rrs_Command rec))
       (json_marshal (event_envelope (result_event eventID (rrs_Result rec) (rrs_Command rec))))"
    "rrs_Command rec = c \<or> command_check (rrs_Command rec)"
proof -
  from run obtain c w1 where c: "c \<in> set (tbl_commands (w_db w))" "cmd_ID c = rrq_CommandID n"
    and w1: "w_db w1 = w_db w" "w_now w1 = w_now w"
    and b: "on_row (result_GetByDeduplicationKey (rrq_Source n) (rrq_DeduplicationKey n))
       (let result = new_result i n level c in
        bnd (map_error (\<lambda>e. if errors_Is e ErrCommandResultConflict then ErrResultConflict else e)
               (result_Create result)) (\<lambda>u.
        bnd (ApplyResult result) (\<lambda>aggregation.
        bnd (createResultEvent eventID deliveryID result (cra_Command aggregation)) (\<lambda>u.
        ret \<lparr>rrs_Result = result, rrs_Command = cra_Command aggregation, rrs_IdempotentReplay = False\<rparr>))))
       (\<lambda>existing.
          if \<not> sameResult existing n level then fail ErrResultConflict
          else ret \<lparr>rrs_Result = existing, rrs_Command = c, rrs_IdempotentReplay = True\<rparr>) w1 = (Inr rec, w')"
    unfolding record_body_def command_GetForUpdate_def by (rule on_query_cases) (auto simp: fail_run)
  from b show thesis unfolding result_GetByDeduplicationKey_def
  proof (cases rule: on_query_cases)
    case (row x w2)
    then show thesis using new by (auto simp: fail_run ret_run split: if_splits)
  next
    case (no_row w2)
    let ?result = "new_result i n level c"
    from no_row(4) obtain u w3 agg w4 v where ins: "result_Create ?result w2 = (Inr u, w3)"
      and ap: "ApplyResult ?result w3 = (Inr agg, w4)"
      and ev: "createResultEvent eventID deliveryID ?result (cra_Command agg) w4 = (Inr v, w')"
      and rec: "rec = \<lparr>rrs_Result = ?result, rrs_Command = cra_Command agg, rrs_IdempotentReplay = False\<rparr>"
      by (auto simp: Let_def bnd_run map_error_run ret_run)
    from insert_result_run [of "stored_result ?result" w2 u w3] ins no_row w1
    have d3: "w_db w3 = (w_db w)\<lparr>tbl_results := tbl_results (w_db w) @ [stored_result ?result]\<rparr>"
      by (simp add: result_Create_def map_error_run)
    have "keys_ok (w_db w3)" using db_ok_keys [OF ok] by (simp add: d3 keys_ok_def)
    with ap obtain c2 where c2: "c2 \<in> set (tbl_commands (w_db w3))" "cmd_ID c2 = res_CommandID ?result"
      "after_result ?result c2 = Some (cra_Command agg)" "w_db w4 = put_command (cra_Command agg) (w_db w3)"
      "cra_Command agg = c2 \<or> command_check (cra_Command agg)" by (rule ApplyResult_effect)
    have "c2 = c" using command_unique [OF db_ok_keys [OF ok], of c2 c] c c2(1,2) d3 by (simp add: new_result_def)
    have an: "announces (w_db w4) (w_db w') (result_event eventID ?result (cra_Command agg))
         (json_marshal (event_envelope (result_event eventID ?result (cra_Command agg))))"
      using ev unfolding createResultEvent_def Let_def by (blast dest: publish_run)
    have id: "cmd_ID (cra_Command agg) = cmd_ID c"
      using after_result_id [OF c2(3)] \<open>c2 = c\<close> by simp
    show thesis
      by (rule that [OF c])
        (use no_row w1 rec c2(3,5) an \<open>c2 = c\<close> in \<open>simp_all add: c2(4) d3\<close>)
  qed
qed

subsection \<open>A report is counted once\<close>

lemma transaction_answer:
  assumes "WithinTransaction fn w = (answer, w')"
  shows "(\<exists>x w1. answer = Inr x \<and> fn (started w) = (Inr x, w1) \<and> w_db w' = w_db w1) \<or>
    (\<exists>e. answer = Inl e \<and> (w_db w' = w_db w \<or> (\<exists>x w1. fn (started w) = (Inr x, w1) \<and> w_db w' = w_db w1)))"
  using assms by (cases rule: WithinTransaction_cases [of fn w]) auto

lemma Record_leaves_result:
  assumes "result_Record q w = (Inr r, w1)" and "db_ok (w_db w)"
  obtains x where "x \<in> set (tbl_results (w_db w1))" "res_ID x = res_ID (rrs_Result r)"
    "res_Source x = rrq_Source q" "res_DeduplicationKey x = TrimSpace (rrq_DeduplicationKey q)"
proof (cases rule: Record_cases [of q w])
  case (valid n level i e dl v)
  note n = result_normalize_Some [OF valid(3)]
  have src: "rrq_Source n = rrq_Source q" by (rule result_normalize_cases [OF valid(3)]) simp
  from assms(1) valid obtain w2 where body: "record_body n level i e dl (started v) = (Inr r, w2)" and db: "w_db w1 = w_db w2"
    by (auto simp: WithinTransaction_run)
  have ok: "db_ok (w_db (started v))" using assms(2) valid(2) by simp
  from body ok n(8) show thesis
  proof (cases rule: record_moves)
    case replay
    then show thesis using that [of "rrs_Result r"] db valid(2) n src by simp
  next
    case (recorded c d1 d)
    then show thesis
      by (intro that [of "stored_result (new_result i n level c)"])
        (simp_all add: db, simp_all add: stored_result_def new_result_def n src)
  qed
qed (use assms in simp)

text \<open>
  C6. A report is counted once, however often and however much later it arrives. After a successful
  \<open>Record\<close>, a second report from the same source with the same deduplication key changes no table: it is
  answered with the result already stored, or refused.
\<close>

theorem result_counts_once:
  assumes ok: "db_ok (w_db w)" "result_keys (w_db w)" and first: "result_Record q w = (Inr r, w1)"
    and run: "platform_run w1 w2" and source: "rrq_Source q' = rrq_Source q"
    and key: "TrimSpace (rrq_DeduplicationKey q') = TrimSpace (rrq_DeduplicationKey q)"
    and again: "result_Record q' w2 = (answer, w3)"
  shows "w_db w3 = w_db w2 \<and>
    (case answer of Inl e \<Rightarrow> True
     | Inr r' \<Rightarrow> rrs_IdempotentReplay r' \<and> res_ID (rrs_Result r') = res_ID (rrs_Result r))"
proof -
  from first ok(1) obtain x where x: "x \<in> set (tbl_results (w_db w1))" "res_ID x = res_ID (rrs_Result r)"
    "res_Source x = rrq_Source q" "res_DeduplicationKey x = TrimSpace (rrq_DeduplicationKey q)" by (rule Record_leaves_result)
  have x2: "x \<in> set (tbl_results (w_db w2))" using log.run_related [OF run] x(1) by (auto simp: log_grows_def)
  have "evolves (w_db w) (w_db w1)" "keeps_result_keys (w_db w) (w_db w1)"
    using history.Record_guards [of q] results.Record_guards [of q] first unfolding guards_def by (metis snd_conv)+
  then have ok2: "db_ok (w_db w2)" "result_keys (w_db w2)"
    using ok history.run_related [OF run] results.run_related [OF run] by (auto simp: evolves_def keeps_result_keys_def)
  have unique: "y = x" if "y \<in> set (tbl_results (w_db w2))" "res_Source y = res_Source x"
    "res_DeduplicationKey y = res_DeduplicationKey x" for y
    using ok2(2) that x2 unfolding result_keys_def distinct_map by (auto dest: inj_onD)
  show ?thesis
  proof (cases rule: Record_cases [of q' w2])
    case (valid n level i e dl v)
    have n: "rrq_Source n = res_Source x" "rrq_DeduplicationKey n = res_DeduplicationKey x"
      using result_normalize_Some(2) [OF valid(3)] x source key by (simp_all, rule_tac result_normalize_cases [OF valid(3)], simp)
    have body: "rrs_IdempotentReplay r' \<and> rrs_Result r' = x \<and> w_db v' = w_db w2"
      if "record_body n level i e dl (started v) = (Inr r', v')" for r' v'
    proof -
      have "db_ok (w_db (started v))" using ok2 valid(2) by simp
      from that this result_normalize_Some(8) [OF valid(3)] show ?thesis
      proof (cases rule: record_moves)
        case replay
        then show ?thesis using unique [of "rrs_Result r'"] n valid(2) by simp
      next
        case (recorded c d1 d)
        then show ?thesis using n x2 valid(2) by auto
      qed
    qed
    from again have "WithinTransaction (record_body n level i e dl) v = (answer, w3)" using valid(1) by simp
    from transaction_answer [OF this] body valid(2) x(2) show ?thesis by auto
  qed (use again in auto)
qed

text \<open>The CommandResult that a report stands for, \<open>now\<close> being the instant \<open>Record\<close> reads.\<close>

definition reported_result :: "gostr \<Rightarrow> RecordRequest \<Rightarrow> instant \<Rightarrow> Command \<Rightarrow> CommandResult" where
  "reported_result i q now c =
     (let observed = (if rrq_ObservedAt q = zero_time then now else rrq_ObservedAt q) in
      \<lparr>res_ID = i, res_CommandID = cmd_ID c, res_AttemptID = map_option TrimSpace (rrq_AttemptID q),
       res_Source = rrq_Source q, res_Outcome = rrq_Outcome q,
       res_ConfirmationLevel =
         (if rrq_Outcome q = ResultOutcomeDeviceAcked then ConfirmationDeviceAcked else ConfirmationDeviceFinal),
       res_EvidenceStatus = EvidenceVerified, res_DeduplicationKey = TrimSpace (rrq_DeduplicationKey q),
       res_ReportedAt = rrq_ReportedAt q, res_ObservedAt = observed, res_Late = IsTerminal (cmd_Status c),
       res_Payload = request_payload q, res_CreatedAt = observed\<rparr>)"

lemma new_result_reported:
  assumes "result_normalize q now = Some (n, level)"
  shows "new_result i n level c = reported_result i q now c"
proof (rule result_normalize_cases [OF assms])
  assume "result_confirmation (rrq_Outcome q) = Some level"
  then have level: "level = (if rrq_Outcome q = ResultOutcomeDeviceAcked then ConfirmationDeviceAcked else ConfirmationDeviceFinal)"
    by (rule result_confirmation_cases)
  assume "n = q\<lparr>rrq_CommandID := TrimSpace (rrq_CommandID q), rrq_DeduplicationKey := TrimSpace (rrq_DeduplicationKey q),
       rrq_AttemptID := map_option TrimSpace (rrq_AttemptID q),
       rrq_ObservedAt := (if rrq_ObservedAt q = zero_time then now else rrq_ObservedAt q),
       rrq_Payload := Some (request_payload q)\<rparr>"
  then show ?thesis by (simp add: new_result_def reported_result_def Let_def level request_payload_def)
qed

text \<open>
  C8. What a result does to its Command. Every result that is accepted and not a repetition belongs to one
  existing Command. It is the result the request reports, with the request's outcome, the confirmation that
  goes with it, verified evidence and the time the Device was observed (\<open>reported_result\<close>). The tables then
  differ in nothing but this: that result is appended; exactly that Command becomes what \<open>after_result\<close> says
  (a report about a Command in flight moves it to acked, success or failed, with the time the Device was
  observed; a report about a finished Command can only raise its evidence); and its Event is appended,
  with one pending Delivery if the Project has a usable webhook configuration (\<open>announces\<close>).
\<close>

theorem result_effect:
  assumes "result_Record q w = (Inr r, w')" and "db_ok (w_db w)" and "\<not> rrs_IdempotentReplay r"
  shows "\<exists>c\<in>set (tbl_commands (w_db w)). \<exists>eventID. cmd_ID c = TrimSpace (rrq_CommandID q) \<and>
    rrs_Result r = reported_result (res_ID (rrs_Result r)) q (w_clock (tick w)) c \<and>
    after_result (rrs_Result r) c = Some (rrs_Command r) \<and>
    announces
      ((w_db w)\<lparr>tbl_results := tbl_results (w_db w) @ [stored_result (rrs_Result r)],
         tbl_commands := map (\<lambda>x. if cmd_ID x = cmd_ID c then rrs_Command r else x) (tbl_commands (w_db w))\<rparr>)
      (w_db w') (result_event eventID (rrs_Result r) (rrs_Command r))
      (json_marshal (event_envelope (result_event eventID (rrs_Result r) (rrs_Command r))))"
proof (cases rule: Record_cases [of q w])
  case (valid n level i e dl v)
  note n = result_normalize_Some [OF valid(3)]
  from assms(1) valid obtain w2 where body: "record_body n level i e dl (started v) = (Inr r, w2)" and db: "w_db w' = w_db w2"
    by (auto simp: WithinTransaction_run)
  have "db_ok (w_db (started v))" using assms(2) valid(2) by simp
  from body this assms(3) show ?thesis
  proof (cases rule: record_body_effect)
    case (1 c)
    have "rrs_Result r = reported_result (res_ID (rrs_Result r)) q (w_clock (tick w)) c"
      unfolding 1(3) new_result_reported [OF valid(3)] by (simp add: reported_result_def Let_def)
    then show ?thesis using 1(1,2,5,6) valid(2) n(1) after_result_id [OF 1(5)]
      by (intro bexI [of _ c] exI [of _ e]) (simp_all add: db put_command_def)
  qed
qed (use assms in simp)

subsection \<open>A report that nothing stands against is counted\<close>

lemma pg_time_mono: "t \<le> u \<Longrightarrow> pg_time t \<le> pg_time u"
  by (simp add: pg_time_def zdiv_mono1)

lemma new_result_check:
  assumes "result_normalize q now = Some (n, level)" and storable_key: "pg_text (rrq_DeduplicationKey n)"
  shows "result_check (stored_result (new_result i n level c))"
proof -
  note n = result_normalize_Some [OF assms(1)]
  have "chk_key_text 256 (rrq_DeduplicationKey n)"
    using n(2,4,5) storable_key RuneCount_pos [of "rrq_DeduplicationKey n"] RuneCount_le [of "rrq_DeduplicationKey n"]
    by (simp add: chk_key_text_def char_length_within_def)
  moreover from n(8) have "rrq_Outcome n = ResultOutcomeDeviceAcked \<and> level = ConfirmationDeviceAcked \<or>
      rrq_Outcome n \<in> {ResultOutcomeDeviceSucceeded, ResultOutcomeDeviceFailed} \<and> level = ConfirmationDeviceFinal"
    by (cases "rrq_Outcome n") (auto simp: result_confirmation_def)
  ultimately show ?thesis using n(9,10)
    by (auto simp: result_check_def stored_result_def new_result_def intro: pg_time_mono split: option.splits)
qed

lemma ApplyResult_succeeds:
  assumes calm: "w_faults w = []" and keys: "keys_ok (w_db w)"
    and c: "c \<in> set (tbl_commands (w_db w))" "res_CommandID r = cmd_ID c" "res_Late r = IsTerminal (cmd_Status c)"
    and after: "after_result r c = Some c'" and chk: "command_check c'"
  shows "\<exists>w'. ApplyResult r w = (Inr \<lparr>cra_PreviousStatus = cmd_Status c, cra_Command = c'\<rparr>, w') \<and>
    w_faults w' = [] \<and> w_random w' = w_random w \<and> w_db w' = put_command c' (w_db w)"
proof -
  have get: "command_Get (cmd_ID x) v = (Inr x, consume v)"
    if "w_faults v = []" "x \<in> set (tbl_commands (w_db v))" "keys_ok (w_db v)" for x v
    using that by (auto simp: command_Get_def query_row_run intro!: find_only dest: command_unique)
  have up: "\<exists>w'. bnd (update_commands (\<lambda>t y. cmd_ID y = cmd_ID c) f) (\<lambda>u. bnd (command_Get (cmd_ID c)) (\<lambda>current.
       ret \<lparr>cra_PreviousStatus = s, cra_Command = current\<rparr>)) (consume w)
     = (Inr \<lparr>cra_PreviousStatus = s, cra_Command = x\<rparr>, w') \<and>
       w_faults w' = [] \<and> w_random w' = w_random w \<and> w_db w' = put_command x (w_db w)"
    if f: "f (w_now w) c = x" and chk: "command_check x" and id: "cmd_ID x = cmd_ID c" for f x s
  proof -
    let ?w2 = "(consume (consume w))\<lparr>w_db := put_command x (w_db w)\<rparr>"
    have "update_commands (\<lambda>t y. cmd_ID y = cmd_ID c) f (consume w) = (Inr 1, ?w2)"
      using update_commands_succeeds [of "consume w" c "\<lambda>t y. cmd_ID y = cmd_ID c" f] calm keys c chk f id by simp
    moreover have "command_Get (cmd_ID c) ?w2 = (Inr x, consume ?w2)"
      using get [of ?w2 x] calm keys c(1) id by (simp add: keys_put) (force simp: put_command_def)
    ultimately show ?thesis using calm by (auto simp: bnd_run ret_run)
  qed
  have g: "command_GetForUpdate (cmd_ID c) w = (Inr c, consume w)"
    using get [of w c] calm keys c by (simp add: command_GetForUpdate_def command_Get_def)
  show ?thesis
  proof (cases "IsTerminal (cmd_Status c) \<and> \<not> evidenceProgresses (cmd_ConfirmationLevel c) (cmd_EvidenceStatus c)
      (res_ConfirmationLevel r) (res_EvidenceStatus r)")
    case True
    then have "c' = c" using after by (simp add: after_result_def)
    with True g get [of "consume w" c] calm keys c show ?thesis
      by (auto simp: ApplyResult_def Let_def bnd_run ret_run put_command_same)
  next
    case False
    note after' = after [symmetric, unfolded after_result_def Let_def]
    show ?thesis
    proof (cases "IsTerminal (cmd_Status c)")
      case True
      with False after' c(3) chk show ?thesis
        unfolding ApplyResult_def c(2) bnd_Inr [where m = "command_GetForUpdate (cmd_ID c)", OF g] Let_def
        by (simp add: evidenced_def result_updated_def) (rule up, simp_all)
    next
      case flying: False
      show ?thesis
        unfolding ApplyResult_def c(2) bnd_Inr [where m = "command_GetForUpdate (cmd_ID c)", OF g] Let_def
        using flying after' c(3) chk
        by (cases "res_Outcome r"; cases "cmd_Status c")
          (simp_all add: concluded_def result_updated_def, (rule up, simp_all)+)
    qed
  qed
qed

text \<open>
  Nothing stands in a result's way: the driver and the random source work, the three identities drawn and the
  deduplication key are new, the key is a text PostgreSQL takes, the Attempt the report names, if any, is one
  of the Command's, and a Project with a webhook has the secret version it names.
\<close>

definition can_record :: "Command \<Rightarrow> EventSource \<Rightarrow> gostr \<Rightarrow> gostr option \<Rightarrow> world \<Rightarrow> bool" where
  "can_record c source key attempt w \<longleftrightarrow>
     w_faults w = [] \<and> pg_text key \<and> secret_ready (w_db w) (cmd_ProjectID c) \<and> 48 \<le> length (w_random w) \<and>
     drawn_uuid 0 w \<notin> res_ID ` set (tbl_results (w_db w)) \<and>
     drawn_uuid 1 w \<notin> evt_ID ` set (tbl_events (w_db w)) \<and>
     drawn_uuid 1 w \<notin> whd_EventID ` set (tbl_deliveries (w_db w)) \<and>
     drawn_uuid 2 w \<notin> whd_ID ` set (tbl_deliveries (w_db w)) \<and>
     \<not> list_ex (\<lambda>x. res_Source x = source \<and> res_DeduplicationKey x = key) (tbl_results (w_db w)) \<and>
     \<not> list_ex (\<lambda>x. evt_DeduplicationKey x = ''command.result_recorded:'' @ cmd_ID c @ '':result:'' @ drawn_uuid 0 w)
         (tbl_events (w_db w)) \<and>
     (case attempt of None \<Rightarrow> True
      | Some a \<Rightarrow> list_ex (\<lambda>x. att_ID x = a \<and> att_CommandID x = cmd_ID c) (tbl_attempts (w_db w)))"

lemma record_body_succeeds:
  assumes calm: "w_faults w = []" and keys: "keys_ok (w_db w)" and norm: "result_normalize q now = Some (n, level)"
    and c: "c \<in> set (tbl_commands (w_db w))" "cmd_ID c = rrq_CommandID n"
    and after: "after_result (new_result i n level c) c = Some c'" and chk: "command_check c'"
    and storable_key: "pg_text (rrq_DeduplicationKey n)"
    and res: "i \<notin> res_ID ` set (tbl_results (w_db w))"
      "\<not> list_ex (\<lambda>x. res_Source x = rrq_Source n \<and> res_DeduplicationKey x = rrq_DeduplicationKey n) (tbl_results (w_db w))"
      "case rrq_AttemptID n of None \<Rightarrow> True | Some a \<Rightarrow> list_ex (\<lambda>x. att_ID x = a \<and> att_CommandID x = cmd_ID c) (tbl_attempts (w_db w))"
    and ev: "e \<notin> evt_ID ` set (tbl_events (w_db w))" "e \<notin> whd_EventID ` set (tbl_deliveries (w_db w))"
      "dl \<notin> whd_ID ` set (tbl_deliveries (w_db w))" "TrimSpace e \<noteq> []" "TrimSpace dl \<noteq> []"
      "\<not> list_ex (\<lambda>x. evt_DeduplicationKey x = ''command.result_recorded:'' @ cmd_ID c @ '':result:'' @ i) (tbl_events (w_db w))"
      "secret_ready (w_db w) (cmd_ProjectID c)"
  shows "\<exists>w'. record_body n level i e dl w =
      (Inr \<lparr>rrs_Result = new_result i n level c, rrs_Command = c', rrs_IdempotentReplay = False\<rparr>, w') \<and> w_faults w' = []"
proof -
  let ?r = "new_result i n level c" and ?w2 = "consume (consume w)"
  let ?w3 = "(consume ?w2)\<lparr>w_db := (w_db w)\<lparr>tbl_results := tbl_results (w_db w) @ [stored_result ?r]\<rparr>\<rparr>"
  have get: "command_GetForUpdate (rrq_CommandID n) w = (Inr c, consume w)"
    using calm keys c by (auto simp: command_GetForUpdate_def query_row_run intro!: find_only dest: command_unique)
  have none: "no_rows (result_GetByDeduplicationKey (rrq_Source n) (rrq_DeduplicationKey n)) (consume w) ?w2"
    using res(2) calm by (auto simp: result_GetByDeduplicationKey_def no_rows_query_row find_None_iff list_ex_iff)
  have "result_check (stored_result ?r)" by (rule new_result_check [OF norm storable_key])
  then have "insert_result (stored_result ?r) ?w2 = (Inr (), ?w3)"
    using res c calm unfolding insert_result_def
    by (auto simp: sql_def stored_result_def new_result_def list_ex_iff image_iff split: option.splits)
  then have create: "result_Create ?r ?w2 = (Inr (), ?w3)" by (simp add: result_Create_def map_error_def)
  have "keys_ok (w_db ?w3)" using keys by (simp add: keys_ok_def)
  with ApplyResult_succeeds [of ?w3 c ?r c'] calm c after chk obtain w4 where
    ap: "ApplyResult ?r ?w3 = (Inr \<lparr>cra_PreviousStatus = cmd_Status c, cra_Command = c'\<rparr>, w4)"
    and w4: "w_faults w4 = []" "w_db w4 = put_command c' (w_db ?w3)" by (auto simp: new_result_def)
  have id: "cmd_ID c' = cmd_ID c" by (rule after_result_id [OF after])
  let ?e = "result_event e ?r c'"
  have "evt_ProjectID ?e = cmd_ProjectID c" by (simp add: result_event_def after_result_project [OF after])
  then have secret: "secret_ready (w_db w4) (evt_ProjectID ?e)"
    using ev(7) by (subst secret_ready_cong [of _ "w_db w"]) (simp_all add: w4)
  have "\<exists>w'. bnd (event_Create ?e) (\<lambda>u. bnd (CreateDelivery \<lparr>cwd_ID = dl, cwd_EventID = evt_ID ?e,
      cwd_RawBody = json_marshal (event_envelope ?e)\<rparr>) (\<lambda>delivery. ret ())) w4 = (Inr (), w') \<and> w_faults w' = []"
    by (rule publish_succeeds [OF _ _ _ _ _ _ _ _ secret])
      (use ev w4 in \<open>simp_all add: json_marshal_not_Nil put_command_def\<close>,
        auto simp: result_event_def list_ex_iff new_result_def id)
  then obtain w5 where "createResultEvent e dl ?r c' w4 = (Inr (), w5)" "w_faults w5 = []"
    by (auto simp: createResultEvent_def Let_def result_event_def)
  with get none create ap show ?thesis
    unfolding record_body_def by (auto simp: on_row_run bnd_run ret_run Let_def map_error_run intro!: exI)
qed

lemma bnd_randomUUID:
  "16 \<le> length (w_random w) \<Longrightarrow>
   bnd randomUUID f w = f (uuid_text (uuid_bits (take 16 (w_random w)))) (w\<lparr>w_random := drop 16 (w_random w)\<rparr>)"
  by (rule bnd_Inr) (simp add: randomUUID_run)

lemma Record_succeeds:
  assumes ok: "db_ok (w_db w)" and norm: "result_normalize q (w_clock (tick w)) = Some (n, level)"
    and c: "c \<in> set (tbl_commands (w_db w))" "cmd_ID c = rrq_CommandID n"
    and after: "after_result (new_result (drawn_uuid 0 w) n level c) c = Some c'" and chk: "command_check c'"
    and can: "can_record c (rrq_Source n) (rrq_DeduplicationKey n) (rrq_AttemptID n) w"
  shows "\<exists>w'. result_Record q w = (Inr \<lparr>rrs_Result = new_result (drawn_uuid 0 w) n level c, rrs_Command = c',
    rrs_IdempotentReplay = False\<rparr>, w')"
proof -
  have calm: "w_faults w = []" and len: "48 \<le> length (w_random w)" using can by (simp_all add: can_record_def)
  let ?v = "(tick w)\<lparr>w_random := drop 48 (w_random w)\<rparr>"
  have "result_Record q w = WithinTransaction (record_body n level (drawn_uuid 0 w) (drawn_uuid 1 w) (drawn_uuid 2 w)) ?v"
    using norm len by (simp add: result_Record_def bnd_time bnd_randomUUID drawn_uuid_def) simp
  moreover have "\<exists>w'. record_body n level (drawn_uuid 0 w) (drawn_uuid 1 w) (drawn_uuid 2 w) (started ?v) =
      (Inr \<lparr>rrs_Result = new_result (drawn_uuid 0 w) n level c, rrs_Command = c', rrs_IdempotentReplay = False\<rparr>, w') \<and>
      w_faults w' = []"
    by (rule record_body_succeeds [OF _ _ norm _ c(2) after chk])
      (use can ok c calm in \<open>simp_all add: can_record_def db_ok_keys started_eval split: option.splits,
        simp_all add: drawn_uuid_def TrimSpace_uuid\<close>)
  ultimately show ?thesis using calm by (auto simp: WithinTransaction_run)
qed

text \<open>
  C13. A new report about an existing Command is recorded when nothing stands in its way. If the request
  passes normalisation, its effect \<open>after_result\<close> on the Command is defined and the Command it makes meets the
  CHECKs of \<open>device_commands\<close>, and if moreover (\<open>can_record\<close>) the driver reports no failure, the 48 random
  bytes are there and the three identities they give are unused, the deduplication key is unused and is
  text that PostgreSQL takes, the Attempt the report names is one of the Command's, and a Project with a
  webhook has the secret version it names, then \<open>Record\<close> succeeds with that Command as its answer. Only the
  CHECKs and triggers of the Event log, which the Event's own values meet, are not modelled.
\<close>

theorem result_goes_ahead:
  assumes ok: "db_ok (w_db w)" and norm: "result_normalize q (w_clock (tick w)) = Some (n, level)"
    and c: "c \<in> set (tbl_commands (w_db w))" "cmd_ID c = rrq_CommandID n"
    and after: "after_result (new_result (drawn_uuid 0 w) n level c) c = Some c'" and chk: "command_check c'"
    and can: "can_record c (rrq_Source n) (rrq_DeduplicationKey n) (rrq_AttemptID n) w"
  shows "\<exists>r w'. result_Record q w = (Inr r, w') \<and> \<not> rrs_IdempotentReplay r \<and> rrs_Command r = c'"
  using Record_succeeds [OF assms] by force

subsection \<open>Two consequences\<close>

lemma no_late_final_evidence:
  assumes "command_check c" and "cmd_ReasonCode c \<noteq> None" and "IsTerminal (cmd_Status c)"
    and "cmd_ConfirmationLevel c \<noteq> ConfirmationDeviceFinal"
    and "after_result r c = Some c'" and "res_ConfirmationLevel r = ConfirmationDeviceFinal" and "res_EvidenceStatus r = EvidenceVerified"
  shows "\<not> command_check c' \<and> c' \<noteq> c"
proof -
  have "known_confirmation (cmd_ConfirmationLevel c)" using assms(1) by (simp add: command_check_def)
  then have "CanAdvanceConfirmation (cmd_ConfirmationLevel c) ConfirmationDeviceFinal"
    by (cases "cmd_ConfirmationLevel c") (simp_all add: known_confirmation_def CanAdvanceConfirmation_def)
  with assms have c': "c' = evidenced (result_updated r) ConfirmationDeviceFinal EvidenceVerified c"
    by (simp add: after_result_def Let_def evidenceProgresses_def)
  obtain reason where reason: "cmd_ReasonCode c = Some reason" using assms(2) by blast
  have "\<not> chk_reason_evidence c'"
  proof
    assume "chk_reason_evidence c'"
    then have "reason = ''device_reported_failure''" by (auto simp: c' chk_reason_evidence_def evidenced_def reason before_dispatch_reasons_def)
    with assms(1,4) show False by (auto simp: command_check_def chk_reason_evidence_def reason before_dispatch_reasons_def)
  qed
  moreover have "c' \<noteq> c" using assms(4) by (auto simp: c' evidenced_def dest: arg_cong [where f = cmd_ConfirmationLevel])
  ultimately show ?thesis by (simp add: command_check_def)
qed

text \<open>
  C14. The device's final word never reaches a Command that ended for another reason. If a Command is finished
  with a reason code (it timed out, was rejected, cancelled, or failed before the device spoke), a first report
  that the Device succeeded or failed is not appended: whatever the schedule of faults, \<open>Record\<close> returns an
  error and changes nothing, because the CHECK on reason and evidence refuses the raised confirmation.
\<close>

theorem late_final_result_is_refused:
  assumes ok: "db_ok (w_db w)" and c: "c \<in> set (tbl_commands (w_db w))" "cmd_ID c = TrimSpace (rrq_CommandID q)"
    and ended: "IsTerminal (cmd_Status c)" "cmd_ReasonCode c \<noteq> None" "cmd_ConfirmationLevel c \<noteq> ConfirmationDeviceFinal"
    and final: "rrq_Outcome q = ResultOutcomeDeviceSucceeded \<or> rrq_Outcome q = ResultOutcomeDeviceFailed"
    and new: "\<forall>x\<in>set (tbl_results (w_db w)). \<not> (res_Source x = rrq_Source q \<and>
        res_DeduplicationKey x = TrimSpace (rrq_DeduplicationKey q))"
  shows "\<exists>e w'. result_Record q w = (Inl e, w') \<and> w_db w' = w_db w"
proof (cases rule: Record_cases [of q w])
  case (valid n level i e dl v)
  note n = result_normalize_Some [OF valid(3)]
  have src: "rrq_Source n = rrq_Source q" by (rule result_normalize_cases [OF valid(3)]) simp
  have level: "level = ConfirmationDeviceFinal" using final n(7,8) by (auto simp: result_confirmation_def)
  have chk: "command_check c" using db_ok_life [OF ok c(1)] by (simp add: life_of_def life_ok_def rows_ok_def)
  have ok': "db_ok (w_db (started v))" using ok valid(2) by simp
  have "record_body n level i e dl (started v) \<noteq> (Inr r, v')" for r v'
  proof
    assume run: "record_body n level i e dl (started v) = (Inr r, v')"
    show False
    proof (cases "rrs_IdempotentReplay r")
      case True
      from run ok' n(8) show False
        by (cases rule: record_moves) (use True new valid(2) n src in auto)
    next
      case False
      from run ok' False show False
      proof (cases rule: record_body_effect)
        case (1 x)
        have "x = c" using command_unique [OF db_ok_keys [OF ok], of x c] 1(1,2) c valid(2) n by simp
        with 1 no_late_final_evidence [OF chk ended(2,1,3), of "rrs_Result r" "rrs_Command r"] level show False
          by (simp add: new_result_def)
      qed
    qed
  qed
  then show ?thesis unfolding valid(1) using transaction_refused [of "record_body n level i e dl" v] valid(2) by metis
qed blast

lemma stuck_step:
  assumes "life_step t (c, [a]) (c', as)" and "att_Phase a = AttemptPhaseDispatching"
    and "cmd_Status c \<in> {CommandStatusAcked, CommandStatusSuccess, CommandStatusFailed}"
  shows "as = [a] \<and> cmd_Status c' \<in> {CommandStatusAcked, CommandStatusSuccess, CommandStatusFailed}"
  using assms(1) by (cases rule: life_stepE) (use assms(2,3) in \<open>auto simp: evidenced_def concluded_def\<close>)

lemma stuck_lifetime:
  assumes "lifetime s s'" and "snd s = [a]" and "att_Phase a = AttemptPhaseDispatching"
    and "cmd_Status (fst s) \<in> {CommandStatusAcked, CommandStatusSuccess, CommandStatusFailed}"
  shows "snd s' = [a] \<and> cmd_Status (fst s') \<in> {CommandStatusAcked, CommandStatusSuccess, CommandStatusFailed}"
  using assms(1)
proof (induction rule: rtranclp_induct)
  case (step y z)
  then show ?case using stuck_step [OF _ assms(3), of _ "fst y" "fst z" "snd z"]
    by (cases y; cases z) (auto simp: life_moves_def)
qed (use assms in simp)

text \<open>
  C36. A Device that answers before its provider does leaves the Command stuck. If a Command is acked while
  its Attempt is still dispatching, then in every run from there the Attempt stays as it is (no worker can
  complete or recover it, with or without its lease), and the Command never times out: it stays acked until
  a final report of the Device arrives.
\<close>

theorem early_ack_is_stuck:
  assumes ok: "db_ok (w_db w)" and own: "owns (w_db w) c a" and run: "platform_run w w'"
    and early: "cmd_Status c = CommandStatusAcked" "att_Phase a = AttemptPhaseDispatching"
  shows "a \<in> set (tbl_attempts (w_db w')) \<and>
    (\<exists>c'\<in>set (tbl_commands (w_db w')). cmd_ID c' = cmd_ID c \<and>
       (cmd_Status c' = CommandStatusAcked \<or> cmd_Status c' = CommandStatusSuccess \<or> cmd_Status c' = CommandStatusFailed))"
  using ok run
proof (rule run_follows)
  show "c \<in> set (tbl_commands (w_db w))" using own by (simp add: owns_def)
  fix c' assume c': "c' \<in> set (tbl_commands (w_db w'))" "cmd_ID c' = cmd_ID c"
    and l: "lifetime (life_of c (w_db w)) (life_of c' (w_db w'))"
  from stuck_lifetime [OF l _ early(2)] only_attempt [OF ok own] early(1)
  have "attempts_of (cmd_ID c') (w_db w') = [a]" and st: "cmd_Status c' \<in> {CommandStatusAcked, CommandStatusSuccess, CommandStatusFailed}"
    by (simp_all add: life_of_def)
  then have "a \<in> set (attempts_of (cmd_ID c') (w_db w'))" by simp
  with c' st show ?thesis by auto
qed

subsection \<open>Reports about a small platform\<close>

definition sample_report :: "ResultOutcome \<Rightarrow> instant \<Rightarrow> RecordRequest" where
  "sample_report outcome t =
     \<lparr>rrq_CommandID = ''c1c1c1c1-0000-4000-8000-000000000001'', rrq_AttemptID = None, rrq_Source = EventSourceSimulator, rrq_Outcome = outcome,
      rrq_DeduplicationKey = ''r1'', rrq_ReportedAt = None, rrq_ObservedAt = t, rrq_Payload = None\<rparr>"

definition acked_command :: Command where
  "acked_command = concluded CommandStatusAcked None ConfirmationDeviceAcked EvidenceVerified None (20 * Second)
     (sent_with (4 * Second) (34 * Second) sample_command)"

definition early_world :: world where
  "early_world = sample_world [acked_command] [dispatching_from (4 * Second) [] (19 * Second) sample_attempt] (100 * Second)"

definition overdue_command :: Command where
  "overdue_command = timed_out (40 * Second) (evidenced (20 * Second) ConfirmationTransportSent EvidenceUnverified
     (sent_with (4 * Second) (34 * Second) sample_command))"

definition overdue_world :: world where
  "overdue_world = sample_world [overdue_command]
     [completed_as (20 * Second) AttemptOutcomeIndeterminate ConfirmationTransportSent EvidenceUnverified []
        (Some ''provider_delivery_unknown'') None (dispatching_from (4 * Second) [] (19 * Second) sample_attempt)]
     (50 * Second)"

lemma early_world_ok: "db_ok (w_db early_world)"
  unfolding db_ok_eval by code_simp

lemma overdue_world_ok: "db_ok (w_db overdue_world)"
  unfolding db_ok_eval by code_simp

lemma sample_report_normal:
  "result_normalize (sample_report ResultOutcomeDeviceAcked (20 * Second)) (w_clock (tick dispatching_world)) =
     Some ((sample_report ResultOutcomeDeviceAcked (20 * Second))\<lparr>rrq_Payload := Some []\<rparr>, ConfirmationDeviceAcked)"
  by code_simp

lemma acked_command_check: "command_check acked_command"
  by code_simp

lemma sample_report_runs:
  fixes q :: RecordRequest
  defines "q \<equiv> (sample_report ResultOutcomeDeviceAcked (20 * Second))\<lparr>rrq_Payload := Some []\<rparr>"
    and "c \<equiv> sent_with (4 * Second) (34 * Second) sample_command"
  shows "c \<in> set (tbl_commands (w_db dispatching_world))" and "cmd_ID c = rrq_CommandID q"
    and "after_result (new_result (drawn_uuid 0 dispatching_world) q ConfirmationDeviceAcked c) c = Some acked_command"
    and "can_record c (rrq_Source q) (rrq_DeduplicationKey q) (rrq_AttemptID q) dispatching_world"
proof -
  have key: "pg_text ''r1''" by code_simp
  show "c \<in> set (tbl_commands (w_db dispatching_world))" by (simp add: c_def dispatching_world_def sample_world_def)
  show "cmd_ID c = rrq_CommandID q" by (simp add: c_def q_def sample_report_def sent_with_def)
  show "after_result (new_result (drawn_uuid 0 dispatching_world) q ConfirmationDeviceAcked c) c = Some acked_command"
    by (simp add: after_result_def new_result_def c_def q_def sample_report_def acked_command_def result_updated_def Let_def)
      (simp add: sent_with_def pg_time_def)
  show "can_record c (rrq_Source q) (rrq_DeduplicationKey q) (rrq_AttemptID q) dispatching_world"
    by (simp add: can_record_def dispatching_ready) (use key in \<open>simp add: c_def q_def sample_report_def dispatching_world_def sample_world_def empty_db_def sample_random_def\<close>)
qed

theorem result_goes_ahead_witness:
  "\<exists>r w'. result_Record (sample_report ResultOutcomeDeviceAcked (20 * Second)) dispatching_world = (Inr r, w') \<and>
     \<not> rrs_IdempotentReplay r \<and> rrs_Command r = acked_command"
  by (rule result_goes_ahead [OF dispatching_world_ok sample_report_normal sample_report_runs(1-3) acked_command_check
      sample_report_runs(4)])

lemma sample_report_recorded:
  "\<exists>r w'. result_Record (sample_report ResultOutcomeDeviceAcked (20 * Second)) dispatching_world = (Inr r, w') \<and>
     \<not> rrs_IdempotentReplay r"
  using Record_succeeds [OF dispatching_world_ok sample_report_normal sample_report_runs(1-3) acked_command_check
      sample_report_runs(4)] by force

theorem result_counts_once_witness:
  "\<exists>r w1. result_Record (sample_report ResultOutcomeDeviceAcked (20 * Second)) dispatching_world = (Inr r, w1) \<and>
     (\<forall>answer w3. result_Record (sample_report ResultOutcomeDeviceSucceeded (21 * Second)) w1 = (answer, w3) \<longrightarrow>
        w_db w3 = w_db w1)"
proof -
  obtain r w1 where run: "result_Record (sample_report ResultOutcomeDeviceAcked (20 * Second)) dispatching_world = (Inr r, w1)"
    using sample_report_recorded by blast
  have "result_keys (w_db dispatching_world)"
    by (simp add: result_keys_def dispatching_world_def sample_world_def empty_db_def)
  note once = result_counts_once [OF dispatching_world_ok this run rtranclp.rtrancl_refl,
      of "sample_report ResultOutcomeDeviceSucceeded (21 * Second)"]
  have "w_db w3 = w_db w1" if "result_Record (sample_report ResultOutcomeDeviceSucceeded (21 * Second)) w1 = (answer, w3)"
    for answer w3 using once [OF _ _ that] by (simp add: sample_report_def)
  with run show ?thesis by blast
qed

theorem result_effect_witness:
  "\<exists>r w'. result_Record (sample_report ResultOutcomeDeviceAcked (20 * Second)) dispatching_world = (Inr r, w') \<and>
     tbl_results (w_db w') = tbl_results (w_db dispatching_world) @ [stored_result (rrs_Result r)] \<and>
     res_ObservedAt (rrs_Result r) = 20 * Second \<and> res_ConfirmationLevel (rrs_Result r) = ConfirmationDeviceAcked"
proof -
  obtain r w' where run: "result_Record (sample_report ResultOutcomeDeviceAcked (20 * Second)) dispatching_world = (Inr r, w')"
    and "\<not> rrs_IdempotentReplay r" using sample_report_recorded by blast
  from result_effect [OF this(1) dispatching_world_ok this(2)] obtain c eventID where
    rep: "rrs_Result r = reported_result (res_ID (rrs_Result r)) (sample_report ResultOutcomeDeviceAcked (20 * Second))
       (w_clock (tick dispatching_world)) c"
    and an: "announces ((w_db dispatching_world)\<lparr>tbl_results := tbl_results (w_db dispatching_world) @ [stored_result (rrs_Result r)],
         tbl_commands := map (\<lambda>x. if cmd_ID x = cmd_ID c then rrs_Command r else x) (tbl_commands (w_db dispatching_world))\<rparr>)
      (w_db w') (result_event eventID (rrs_Result r) (rrs_Command r))
      (json_marshal (event_envelope (result_event eventID (rrs_Result r) (rrs_Command r))))" by blast
  have "res_ObservedAt (rrs_Result r) = 20 * Second" "res_ConfirmationLevel (rrs_Result r) = ConfirmationDeviceAcked"
    by (subst rep, simp add: reported_result_def sample_report_def Let_def zero_time_def)+
  with an have "tbl_results (w_db w') = tbl_results (w_db dispatching_world) @ [stored_result (rrs_Result r)] \<and>
      res_ObservedAt (rrs_Result r) = 20 * Second \<and> res_ConfirmationLevel (rrs_Result r) = ConfirmationDeviceAcked"
    by (simp add: announces_def same_facts_def)
  with run show ?thesis by blast
qed

theorem late_final_result_is_refused_witness:
  "\<exists>e w'. result_Record (sample_report ResultOutcomeDeviceSucceeded (45 * Second)) overdue_world = (Inl e, w') \<and>
     w_db w' = w_db overdue_world"
proof (rule late_final_result_is_refused [OF overdue_world_ok, of overdue_command])
  show "overdue_command \<in> set (tbl_commands (w_db overdue_world))" by (simp add: overdue_world_def sample_world_def)
  show "\<forall>x\<in>set (tbl_results (w_db overdue_world)). \<not> (res_Source x = rrq_Source (sample_report ResultOutcomeDeviceSucceeded (45 * Second)) \<and>
      res_DeduplicationKey x = TrimSpace (rrq_DeduplicationKey (sample_report ResultOutcomeDeviceSucceeded (45 * Second))))"
    by (simp add: overdue_world_def sample_world_def empty_db_def)
qed code_simp+

theorem early_ack_is_stuck_witness:
  "dispatching_from (4 * Second) [] (19 * Second) sample_attempt \<in> set (tbl_attempts (w_db (snd (poll_maintenance early_world))))"
proof -
  let ?a = "dispatching_from (4 * Second) [] (19 * Second) sample_attempt"
  have "owns (w_db early_world) acked_command ?a"
    by (simp add: owns_def early_world_def sample_world_def) (simp add: acked_command_def life_updates)
  moreover have "platform_run early_world (snd (poll_maintenance early_world))"
    by (rule r_into_rtranclp) (rule platform_step.maintain)
  ultimately show ?thesis
    using early_ack_is_stuck [OF early_world_ok, of acked_command ?a] by (simp add: acked_command_def life_updates)
qed

end
