(* ===== verification/Neturl.thy ===== *)
theory Neturl
  imports Netip
begin

text \<open>
  What the program uses of Go's \<open>net/url\<close>, of \<open>net\<close>'s host and port splitting, and of
  \<open>mime.ParseMediaType\<close> (the standard library of Go 1.23). A URL is parsed into the parts the program
  looks at; of a query and of the user information only the text is kept.
\<close>

subsection \<open>Percent encoding\<close>

datatype escape_mode = EncodePath | EncodeHost | EncodeZone | EncodeUserPassword | EncodeFragment

definition ascii_alnum :: "char \<Rightarrow> bool" where
  "ascii_alnum c \<longleftrightarrow> is_digit c \<or> (65 \<le> byte_of c \<and> byte_of c \<le> 90) \<or> (97 \<le> byte_of c \<and> byte_of c \<le> 122)"

definition shouldEscape :: "char \<Rightarrow> escape_mode \<Rightarrow> bool" where
  "shouldEscape c mode =
     (if ascii_alnum c then False
      else if (mode = EncodeHost \<or> mode = EncodeZone) \<and> c \<in> set (CHR 0x22 # CHR 0x27 # ''!$&()*+,;=:[]<>'') then False
      else if c \<in> set ''-_.~'' then False
      else if c \<in> set ''$&+,/:;=?@'' then
        (case mode of
           EncodePath \<Rightarrow> c = CHR ''?''
         | EncodeUserPassword \<Rightarrow> c \<in> set ''@/?:''
         | EncodeFragment \<Rightarrow> False
         | _ \<Rightarrow> True)
      else if mode = EncodeFragment \<and> c \<in> set ''!()*'' then False
      else True)"

definition hex_pair :: "char \<Rightarrow> char \<Rightarrow> nat option" where
  "hex_pair a b = (case (hex_value a, hex_value b) of (Some x, Some y) \<Rightarrow> Some (16 * x + y) | _ \<Rightarrow> None)"

fun url_unescape :: "escape_mode \<Rightarrow> gostr \<Rightarrow> gostr option" where
  "url_unescape mode [] = Some []"
| "url_unescape mode (c # s) =
     (if c = CHR ''%'' then
        (case s of
           a # b # t \<Rightarrow>
             (case hex_pair a b of
                None \<Rightarrow> None
              | Some v \<Rightarrow>
                  if mode = EncodeHost \<and> v < 128 \<and> v \<noteq> 0x25 then None
                  else if mode = EncodeZone \<and> v \<noteq> 0x25 \<and> v \<noteq> 0x20 \<and> shouldEscape (char_of v) EncodeHost then None
                  else map_option ((#) (char_of v)) (url_unescape mode t))
         | _ \<Rightarrow> None)
      else if (mode = EncodeHost \<or> mode = EncodeZone) \<and> byte_of c < 128 \<and> shouldEscape c mode then None
      else map_option ((#) c) (url_unescape mode s))"

subsection \<open>Cutting\<close>

text \<open>\<open>strings.Cut\<close>: the text before the first separator, and what follows it if there is one.\<close>

definition cut :: "char \<Rightarrow> gostr \<Rightarrow> gostr \<times> gostr option" where
  "cut c s = (let a = takeWhile (\<lambda>x. x \<noteq> c) s in (a, if c \<in> set s then Some (drop (Suc (length a)) s) else None))"

text \<open>The part before the last occurrence of a byte and the part from there on, if it occurs.\<close>

definition split_last :: "char \<Rightarrow> gostr \<Rightarrow> (gostr \<times> gostr) option" where
  "split_last c s =
     (if c \<in> set s
      then (let k = length s - Suc (length (takeWhile (\<lambda>x. x \<noteq> c) (rev s))) in Some (take k s, drop k s))
      else None)"

definition validOptionalPort :: "gostr \<Rightarrow> bool" where
  "validOptionalPort p \<longleftrightarrow> (case p of [] \<Rightarrow> True | c # ds \<Rightarrow> c = CHR '':'' \<and> list_all is_digit ds)"

subsection \<open>Parse\<close>

record url =
  url_Scheme :: gostr
  url_Opaque :: gostr
  url_User :: "gostr option"
  url_Host :: gostr
  url_Path :: gostr
  url_RawPath :: gostr
  url_ForceQuery :: bool
  url_RawQuery :: gostr
  url_Fragment :: gostr
  url_OmitHost :: bool

definition no_url :: url where
  "no_url = \<lparr>url_Scheme = [], url_Opaque = [], url_User = None, url_Host = [], url_Path = [], url_RawPath = [],
     url_ForceQuery = False, url_RawQuery = [], url_Fragment = [], url_OmitHost = False\<rparr>"

definition ascii_letter :: "char \<Rightarrow> bool" where
  "ascii_letter c \<longleftrightarrow> (65 \<le> byte_of c \<and> byte_of c \<le> 90) \<or> (97 \<le> byte_of c \<and> byte_of c \<le> 122)"

text \<open>\<open>getScheme\<close>: \<open>None\<close> is its error, an empty scheme is none.\<close>

definition getScheme :: "gostr \<Rightarrow> (gostr \<times> gostr) option" where
  "getScheme raw =
     (let s = takeWhile (\<lambda>c. ascii_alnum c \<or> c \<in> set ''+-.'') raw in
      case drop (length s) raw of
        c # rest \<Rightarrow>
          if c = CHR '':'' then
            (if s = [] then None else if \<not> ascii_letter (hd s) then Some ([], raw) else Some (s, rest))
          else Some ([], raw)
      | [] \<Rightarrow> Some ([], raw))"

definition parseHost :: "gostr \<Rightarrow> gostr option" where
  "parseHost host =
     (if has_prefix host ''['' then
        (case split_last (CHR '']'') host of
           None \<Rightarrow> None
         | Some (inside, closing) \<Rightarrow>
             if \<not> validOptionalPort (tl closing) then None
             else
               (case index_of ''%25'' inside of
                  None \<Rightarrow> url_unescape EncodeHost host
                | Some z \<Rightarrow>
                    (case (url_unescape EncodeHost (take z inside), url_unescape EncodeZone (drop z inside),
                           url_unescape EncodeHost closing) of
                       (Some a, Some b, Some c) \<Rightarrow> Some (a @ b @ c)
                     | _ \<Rightarrow> None)))
      else
        (case split_last (CHR '':'') host of
           None \<Rightarrow> url_unescape EncodeHost host
         | Some (_, port) \<Rightarrow> if \<not> validOptionalPort port then None else url_unescape EncodeHost host))"

definition validUserinfo :: "gostr \<Rightarrow> bool" where
  "validUserinfo s \<longleftrightarrow> list_all (\<lambda>c. ascii_alnum c \<or> c \<in> set (CHR 0x27 # ''-._:~!$&()*+,;=%@'')) s"

definition parseAuthority :: "gostr \<Rightarrow> (gostr option \<times> gostr) option" where
  "parseAuthority authority =
     (case split_last (CHR ''@'') authority of
        None \<Rightarrow> map_option (\<lambda>h. (None, h)) (parseHost authority)
      | Some (user, rest) \<Rightarrow>
          (case parseHost (tl rest) of
             None \<Rightarrow> None
           | Some h \<Rightarrow>
               if \<not> validUserinfo user then None
               else
                 (case cut (CHR '':'') user of
                    (a, None) \<Rightarrow> if url_unescape EncodeUserPassword a = None then None else Some (Some user, h)
                  | (a, Some b) \<Rightarrow>
                      if url_unescape EncodeUserPassword a = None \<or> url_unescape EncodeUserPassword b = None then None
                      else Some (Some user, h))))"

definition parse_hierarchy :: "url \<Rightarrow> gostr \<Rightarrow> url option" where
  "parse_hierarchy u rest =
     (if \<not> has_prefix rest ''/'' \<and> url_Scheme u \<noteq> [] then Some (u\<lparr>url_Opaque := rest\<rparr>)
      else if \<not> has_prefix rest ''/'' \<and> CHR '':'' \<in> set (fst (cut (CHR ''/'') rest)) then None
      else
        (let authority = (if (url_Scheme u \<noteq> [] \<or> \<not> has_prefix rest ''///'') \<and> has_prefix rest ''//''
                          then Some (takeWhile (\<lambda>c. c \<noteq> CHR ''/'') (drop 2 rest)) else None);
             path = (case authority of None \<Rightarrow> rest | Some a \<Rightarrow> drop (2 + length a) rest);
             parsed = (case authority of None \<Rightarrow> Some (None, []) | Some a \<Rightarrow> parseAuthority a)
         in
         case (parsed, url_unescape EncodePath path) of
           (Some (user, host), Some decoded) \<Rightarrow>
             Some (u\<lparr>url_User := user, url_Host := host, url_Path := decoded, url_RawPath := path,
               url_OmitHost := (authority = None \<and> url_Scheme u \<noteq> [] \<and> has_prefix rest ''/'')\<rparr>)
         | _ \<Rightarrow> None))"

definition url_Parse :: "gostr \<Rightarrow> url option" where
  "url_Parse raw =
     (let (text, fragment) = cut (CHR ''#'') raw;
          frag = (case fragment of None \<Rightarrow> [] | Some f \<Rightarrow> f)
      in
      if list_ex (\<lambda>c. byte_of c < 32 \<or> byte_of c = 127) text then None
      else
        (let parsed =
           (if text = ''*'' then Some (no_url\<lparr>url_Path := ''*''\<rparr>)
            else
              (case getScheme text of
                 None \<Rightarrow> None
               | Some (scheme, rest) \<Rightarrow>
                   (let u = no_url\<lparr>url_Scheme := ascii_lower scheme\<rparr> in
                    if has_suffix rest ''?'' \<and> length (filter (\<lambda>c. c = CHR ''?'') rest) = 1
                    then parse_hierarchy (u\<lparr>url_ForceQuery := True\<rparr>) (butlast rest)
                    else
                      (case cut (CHR ''?'') rest of
                         (p, query) \<Rightarrow>
                           parse_hierarchy (u\<lparr>url_RawQuery := (case query of None \<Rightarrow> [] | Some q \<Rightarrow> q)\<rparr>) p))))
         in
         case parsed of
           None \<Rightarrow> None
         | Some u \<Rightarrow>
             (case url_unescape EncodeFragment frag of
                None \<Rightarrow> None
              | Some f \<Rightarrow> Some (u\<lparr>url_Fragment := f\<rparr>))))"

definition url_Hostname :: "url \<Rightarrow> gostr" where
  "url_Hostname u =
     (let h = (case split_last (CHR '':'') (url_Host u) of
                 None \<Rightarrow> url_Host u
               | Some (a, port) \<Rightarrow> if validOptionalPort port then a else url_Host u)
      in if has_prefix h ''['' \<and> has_suffix h '']'' \<and> 2 \<le> length h then butlast (tl h) else h)"

subsection \<open>String\<close>

definition upper_hex :: "nat \<Rightarrow> char" where
  "upper_hex n = (if n < 10 then char_of (48 + n) else char_of (55 + n))"

definition url_escape :: "escape_mode \<Rightarrow> gostr \<Rightarrow> gostr" where
  "url_escape mode s =
     concat (map (\<lambda>c. if shouldEscape c mode then [CHR ''%'', upper_hex (byte_of c div 16), upper_hex (byte_of c mod 16)]
       else [c]) s)"

definition validEncoded :: "gostr \<Rightarrow> escape_mode \<Rightarrow> bool" where
  "validEncoded s mode \<longleftrightarrow>
     list_all (\<lambda>c. c \<in> set (CHR 0x27 # ''!$&()*+,;=:@[]%'') \<or> \<not> shouldEscape c mode) s"

text \<open>
  \<open>EscapedPath\<close>: the path as it was written, if that is a valid encoding of what it decodes to. (\<open>Parse\<close> forgets
  a written path that is the default encoding; the two agree then.)
\<close>

definition EscapedPath :: "url \<Rightarrow> gostr" where
  "EscapedPath u =
     (if url_RawPath u \<noteq> [] \<and> validEncoded (url_RawPath u) EncodePath \<and>
         url_unescape EncodePath (url_RawPath u) = Some (url_Path u)
      then url_RawPath u
      else if url_Path u = ''*'' then ''*''
      else url_escape EncodePath (url_Path u))"

text \<open>\<open>String\<close> of a URL with a scheme and a host, and without user information, opaque part and fragment.\<close>

definition url_String :: "url \<Rightarrow> gostr" where
  "url_String u =
     (let path = EscapedPath u in
      url_Scheme u @ ''://'' @ url_escape EncodeHost (url_Host u) @
      (if path \<noteq> [] \<and> \<not> has_prefix path ''/'' then ''/'' else []) @ path @
      (if url_ForceQuery u \<or> url_RawQuery u \<noteq> [] then ''?'' @ url_RawQuery u else []))"

subsection \<open>Hosts and ports\<close>

definition SplitHostPort :: "gostr \<Rightarrow> (gostr \<times> gostr) option" where
  "SplitHostPort hostport =
     (case split_last (CHR '':'') hostport of
        None \<Rightarrow> None
      | Some (before, port) \<Rightarrow>
          if has_prefix hostport ''['' then
            (case cut (CHR '']'') hostport of
               (_, None) \<Rightarrow> None
             | (a, Some after) \<Rightarrow>
                 if Suc (length a) \<noteq> length before then None
                 else if CHR ''['' \<in> set (tl hostport) \<or> CHR '']'' \<in> set after then None
                 else Some (tl a, tl port))
          else if CHR '':'' \<in> set before then None
          else if CHR ''['' \<in> set hostport \<or> CHR '']'' \<in> set hostport then None
          else Some (before, tl port))"

definition JoinHostPort :: "gostr \<Rightarrow> gostr \<Rightarrow> gostr" where
  "JoinHostPort host port = (if CHR '':'' \<in> set host then ''['' @ host @ '']:'' @ port else host @ '':'' @ port)"

subsection \<open>Media types\<close>

text \<open>
  \<open>strings.ToLower\<close> as far as its result can be ASCII: the letters of ASCII, and the two other capital
  letters whose lower case is one (U+0130 and U+212A).
\<close>

fun lower_text :: "gostr \<Rightarrow> gostr" where
  "lower_text [] = []"
| "lower_text (a # s) =
     (case s of
        b # t \<Rightarrow>
          if byte_of a = 0xC4 \<and> byte_of b = 0xB0 then CHR ''i'' # lower_text t
          else
            (case t of
               c # u \<Rightarrow>
                 if byte_of a = 0xE2 \<and> byte_of b = 0x84 \<and> byte_of c = 0xAA then CHR ''k'' # lower_text u
                 else ascii_lower [a] @ lower_text s
             | [] \<Rightarrow> ascii_lower [a] @ lower_text s)
      | [] \<Rightarrow> ascii_lower [a])"

definition token_char :: "char \<Rightarrow> bool" where
  "token_char c \<longleftrightarrow>
     32 < byte_of c \<and> byte_of c < 127 \<and> c \<notin> set (CHR 0x22 # CHR 0x5C # ''()<>@,;:/[]?='')"

definition special_char :: "char \<Rightarrow> bool" where
  "special_char c \<longleftrightarrow> c \<in> set (CHR 0x22 # CHR 0x5C # ''()<>@,;:/[]?='')"

definition consumeToken :: "gostr \<Rightarrow> gostr \<times> gostr" where
  "consumeToken v = (takeWhile token_char v, dropWhile token_char v)"

fun quoted_value :: "gostr \<Rightarrow> gostr \<Rightarrow> (gostr \<times> gostr) option" where
  "quoted_value acc [] = None"
| "quoted_value acc (r # s) =
     (if r = CHR 0x22 then Some (rev acc, s)
      else
        (case s of
           x # t \<Rightarrow>
             if r = CHR 0x5C \<and> special_char x then quoted_value (x # acc) t
             else if r = CHR 0x0D \<or> r = CHR 0x0A then None
             else quoted_value (r # acc) s
         | [] \<Rightarrow> None))"

definition consumeValue :: "gostr \<Rightarrow> gostr \<times> gostr" where
  "consumeValue v =
     (case v of
        [] \<Rightarrow> ([], [])
      | c # s \<Rightarrow>
          if c \<noteq> CHR 0x22 then consumeToken v
          else (case quoted_value [] s of None \<Rightarrow> ([], v) | Some r \<Rightarrow> r))"

text \<open>\<open>consumeMediaParam\<close>: the name, the value and the rest, or nothing.\<close>

definition consumeMediaParam :: "gostr \<Rightarrow> (gostr \<times> gostr \<times> gostr) option" where
  "consumeMediaParam v =
     (case trim_left v of
        [] \<Rightarrow> None
      | c # r1 \<Rightarrow>
          if c \<noteq> CHR '';'' then None
          else
            (case consumeToken (trim_left r1) of
               (param, r2) \<Rightarrow>
                 if param = [] then None
                 else
                   (case trim_left r2 of
                      [] \<Rightarrow> None
                    | d # r3 \<Rightarrow>
                        if d \<noteq> CHR ''='' then None
                        else
                          (case consumeValue (trim_left r3) of
                             (value, r4) \<Rightarrow>
                               if value = [] \<and> r4 = trim_left r3 then None
                               else Some (ascii_lower param, value, r4)))))"

text \<open>
  The loop over the parameters tells whether the media type stands: a parameter that cannot be parsed ends it
  (the media type is still returned), a repeated one with another value voids it. Each round consumes text.
\<close>

fun media_params :: "nat \<Rightarrow> (gostr \<times> gostr) list \<Rightarrow> gostr \<Rightarrow> bool" where
  "media_params 0 seen v = True"
| "media_params (Suc n) seen v =
     (if trim_left v = [] then True
      else
        (case consumeMediaParam (trim_left v) of
           None \<Rightarrow> True
         | Some (key, val, rest) \<Rightarrow>
             (case map_of seen key of
                Some val' \<Rightarrow> if val' \<noteq> val then False else media_params n seen rest
              | None \<Rightarrow> media_params n ((key, val) # seen) rest)))"

definition valid_media_type :: "gostr \<Rightarrow> bool" where
  "valid_media_type s \<longleftrightarrow>
     (case consumeToken s of
        (typ, rest) \<Rightarrow>
          typ \<noteq> [] \<and>
          (rest = [] \<or>
           hd rest = CHR ''/'' \<and> fst (consumeToken (tl rest)) \<noteq> [] \<and> snd (consumeToken (tl rest)) = []))"

definition ParseMediaType :: "gostr \<Rightarrow> gostr" where
  "ParseMediaType v =
     (let base = fst (cut (CHR '';'') v); mediatype = TrimSpace (lower_text base) in
      if \<not> valid_media_type mediatype then []
      else if media_params (Suc (length v)) [] (drop (length base) v) then mediatype
      else [])"

end
