(* ===== verification/Webhook_Egress.thy ===== *)
theory Webhook_Egress
  imports Neturl Store
begin

text \<open>
  Where a webhook may be sent (\<open>internal/webhookworker/transport.go\<close>): the checks on the target URL, and the
  egress policy that the dialer of the HTTP client applies to every address it is about to connect to. The
  resolver and the dialer below it are parameters: name service and sockets.
\<close>

definition CIDR :: "nat \<Rightarrow> nat \<Rightarrow> nat \<Rightarrow> nat \<Rightarrow> nat \<Rightarrow> addr_prefix" where
  "CIDR a b c d bits = (IPv4 (of_nat (((a * 256 + b) * 256 + c) * 256 + d)), bits)"

definition CIDR6 :: "nat \<Rightarrow> nat \<Rightarrow> nat \<Rightarrow> addr_prefix" where
  "CIDR6 high low bits = (IPv6 (of_nat (high * 2 ^ 64 + low)) [], bits)"

definition nonPublicAddressPrefixes :: "addr_prefix list" where
  "nonPublicAddressPrefixes =
     [CIDR 0 0 0 0 8, CIDR 10 0 0 0 8, CIDR 100 64 0 0 10, CIDR 127 0 0 0 8, CIDR 169 254 0 0 16, CIDR 172 16 0 0 12,
      CIDR 192 0 0 0 24, CIDR 192 0 2 0 24, CIDR 192 88 99 0 24, CIDR 192 168 0 0 16, CIDR 198 18 0 0 15,
      CIDR 198 51 100 0 24, CIDR 203 0 113 0 24, CIDR 224 0 0 0 4, CIDR 240 0 0 0 4,
      CIDR6 0 0 128, CIDR6 0 1 128, CIDR6 0x0064ff9b00000000 0 96, CIDR6 0x0064ff9b00010000 0 48,
      CIDR6 0x0100000000000000 0 64, CIDR6 0x2001000000000000 0 23, CIDR6 0x20010db800000000 0 32,
      CIDR6 0x2002000000000000 0 16, CIDR6 0xfc00000000000000 0 7, CIDR6 0xfe80000000000000 0 10,
      CIDR6 0xfec0000000000000 0 10, CIDR6 0xff00000000000000 0 8]"

subsection \<open>Addresses\<close>

text \<open>
  \<open>netip.Addr.IsLoopback\<close> and \<open>IsGlobalUnicast\<close>: not the unspecified or the broadcast address, not loopback,
  multicast or link-local. A 4-in-6 address counts as the IPv4 address it maps.
\<close>

fun IsMulticast :: "addr \<Rightarrow> bool" where
  "IsMulticast a =
     (case Unmap a of
        IPv4 x \<Rightarrow> unat x div 2 ^ 28 = 0xe
      | IPv6 x z \<Rightarrow> unat x div 2 ^ 120 = 0xff)"

fun IsLinkLocalUnicast :: "addr \<Rightarrow> bool" where
  "IsLinkLocalUnicast a =
     (case Unmap a of
        IPv4 x \<Rightarrow> unat x div 2 ^ 16 = 169 * 256 + 254
      | IPv6 x z \<Rightarrow> unat x div 2 ^ 118 = 0x3fa)"

definition IsGlobalUnicast :: "addr \<Rightarrow> bool" where
  "IsGlobalUnicast a \<longleftrightarrow>
     (case a of IPv4 x \<Rightarrow> x \<noteq> 0 \<and> x \<noteq> - 1 | IPv6 x z \<Rightarrow> True) \<and>
     a \<noteq> IPv6 0 [] \<and> \<not> IsLoopback a \<and> \<not> IsMulticast a \<and> \<not> IsLinkLocalUnicast a"

definition publicAddress :: "addr \<Rightarrow> bool" where
  "publicAddress address =
     (let a = Unmap address in
      if list_ex (\<lambda>p. prefix_Contains p a) nonPublicAddressPrefixes then False else IsGlobalUnicast a)"

definition metadata_addresses :: "addr list" where
  "metadata_addresses =
     [fst (CIDR 100 100 100 200 32), fst (CIDR 168 63 129 16 32), fst (CIDR 169 254 0 23 32), fst (CIDR 169 254 169 254 32),
      fst (CIDR 169 254 170 2 32), fst (CIDR6 0xfd000ec200000000 0x254 128)]"

definition forbiddenMetadataAddress :: "addr \<Rightarrow> bool" where
  "forbiddenMetadataAddress address \<longleftrightarrow> address \<in> set metadata_addresses"

fun Is4 :: "addr \<Rightarrow> bool" where
  "Is4 (IPv4 a) = True"
| "Is4 (IPv6 a z) = False"

definition explicitlyAllowed :: "addr_prefix list \<Rightarrow> addr \<Rightarrow> bool" where
  "explicitlyAllowed allowlist address \<longleftrightarrow>
     list_ex (\<lambda>p. prefix_Contains p (if Is4 (fst p) then Unmap address else address)) allowlist"

definition egress_allows :: "addr_prefix list \<Rightarrow> addr \<Rightarrow> bool" where
  "egress_allows allowlist address =
     (let a = Unmap address in
      \<not> forbiddenMetadataAddress a \<and> (publicAddress a \<or> explicitlyAllowed allowlist a))"

text \<open>\<open>resolve\<close>: what the resolver answers, if the policy allows every address of it.\<close>

fun allowed_all :: "addr_prefix list \<Rightarrow> addr list \<Rightarrow> addr list option" where
  "allowed_all allowlist [] = Some []"
| "allowed_all allowlist (a # as) =
     (if \<not> egress_allows allowlist (Unmap a) then None else map_option ((#) (Unmap a)) (allowed_all allowlist as))"

definition egress_resolve :: "(gostr \<Rightarrow> addr list option) \<Rightarrow> addr_prefix list \<Rightarrow> gostr \<Rightarrow> addr list option" where
  "egress_resolve resolver allowlist host =
     (case resolver host of
        None \<Rightarrow> None
      | Some addresses \<Rightarrow> if addresses = [] then None else allowed_all allowlist addresses)"

subsection \<open>Dialing\<close>

text \<open>The dialer tries one address after the other; \<open>dial\<close> tells whether it connects to a host and port.\<close>

fun dial_first :: "(gostr \<Rightarrow> 's \<Rightarrow> (goerr + 'c) \<times> 's) \<Rightarrow> gostr \<Rightarrow> addr list \<Rightarrow> goerr \<Rightarrow> 's \<Rightarrow> (goerr + 'c) \<times> 's" where
  "dial_first dial port [] lastErr s = (Inl lastErr, s)"
| "dial_first dial port (a # as) lastErr s =
     (case dial (JoinHostPort (addr_String a) port) s of
        (Inr c, s1) \<Rightarrow> (Inr c, s1)
      | (Inl e, s1) \<Rightarrow> dial_first dial port as e s1)"

definition DialContext ::
  "(gostr \<Rightarrow> addr list option) \<Rightarrow> (gostr \<Rightarrow> 's \<Rightarrow> (goerr + 'c) \<times> 's) \<Rightarrow> addr_prefix list \<Rightarrow> gostr \<Rightarrow> 's \<Rightarrow>
   (goerr + 'c) \<times> 's" where
  "DialContext resolver dial allowlist address s =
     (case SplitHostPort address of
        None \<Rightarrow> (Inl ErrTargetRejected, s)
      | Some (host, port) \<Rightarrow>
          (case egress_resolve resolver allowlist host of
             None \<Rightarrow> (Inl ErrTargetRejected, s)
           | Some addresses \<Rightarrow> dial_first dial port addresses ErrTargetRejected s))"

subsection \<open>Configuration and targets\<close>

definition Is4In6 :: "addr \<Rightarrow> bool" where
  "Is4In6 a \<longleftrightarrow> \<not> Is4 a \<and> Is4 (Unmap a)"

definition allowlist_entry :: "gostr \<Rightarrow> addr_prefix option" where
  "allowlist_entry part =
     (let text = TrimSpace part in
      case ParseAddr text of
        Some a \<Rightarrow>
          if addr_Zone a = [] then Some (Unmap a, BitLen (Unmap a))
          else None
      | None \<Rightarrow>
          (case ParsePrefix text of
             None \<Rightarrow> None
           | Some (a, bits) \<Rightarrow>
               Some (prefix_Masked (if Is4In6 a \<and> 96 \<le> bits then (Unmap a, bits - 96) else (a, bits)))))"

fun allowlist_entries :: "gostr list \<Rightarrow> addr_prefix list option" where
  "allowlist_entries [] = Some []"
| "allowlist_entries (p # ps) =
     (case allowlist_entry p of None \<Rightarrow> None | Some e \<Rightarrow> map_option ((#) e) (allowlist_entries ps))"

definition ParseEgressAllowlist :: "gostr \<Rightarrow> addr_prefix list option" where
  "ParseEgressAllowlist raw = (if TrimSpace raw = [] then Some [] else allowlist_entries (split_on (CHR '','') raw))"

text \<open>\<open>ValidateTargetURL\<close>: whether the target is accepted.\<close>

definition ValidateTargetURL :: "gostr \<Rightarrow> bool" where
  "ValidateTargetURL raw =
     (case url_Parse raw of
        None \<Rightarrow> False
      | Some u \<Rightarrow>
          if url_Host u = [] \<or> url_User u \<noteq> None \<or> url_Fragment u \<noteq> [] \<or> url_Opaque u \<noteq> [] then False
          else
            (let host = ascii_lower (url_Hostname u); scheme = ascii_lower (url_Scheme u) in
             if scheme = ''https'' then True
             else if scheme = ''http'' then
               host = ''localhost'' \<or> (case ParseAddr host of None \<Rightarrow> False | Some a \<Rightarrow> IsLoopback a)
             else False))"

end
