(* ===== verification/Webhook_Worker.thy ===== *)
theory Webhook_Worker
  imports Webhook_Egress Webhook_Repo Device_Repo Digest Json
begin

text \<open>
  The webhook worker (\<open>internal/webhookworker/worker.go\<close>): it claims a due Delivery under a lease, sends the
  stored body, signed, to the stored target, and records the outcome under the same lease; expired leases are
  recovered and spent budgets closed. The secret resolver and the HTTP client are parameters of the worker,
  as they are interfaces of the code; what an HTTP exchange answers may depend on the whole world.
  \<open>TransactWebhookAudit\<close> is \<open>WithinTransaction\<close>. The timer loop of \<open>Run\<close> is not modelled.
\<close>

definition responseCaptureLimit :: nat where "responseCaptureLimit = 4096"
definition maximumAttempts :: int where "maximumAttempts = 5"
definition defaultRetrySchedule :: "duration list" where
  "defaultRetrySchedule = [Second, 5 * Second, 30 * Second, 2 * Minute]"

record http_request =
  hrq_URL :: gostr
  hrq_Header :: "(gostr \<times> gostr) list"
  hrq_Body :: gostr

text \<open>A response: \<open>hrs_ReadError\<close> says that reading the body broke off after \<open>hrs_Body\<close>.\<close>

record http_response =
  hrs_StatusCode :: int
  hrs_ContentType :: gostr
  hrs_Body :: gostr
  hrs_ReadError :: bool

record WebhookConfig =
  whc_WorkerID :: gostr
  whc_PollInterval :: duration
  whc_LeaseDuration :: duration
  whc_MaxAttempts :: int
  whc_RetrySchedule :: "duration list option"
  whc_Secrets :: "(gostr \<Rightarrow> int \<Rightarrow> gostr tx) option"
  whc_Client :: "(http_request \<Rightarrow> http_response tx) option"

record WebhookWorker =
  whw_secrets :: "gostr \<Rightarrow> int \<Rightarrow> gostr tx"
  whw_client :: "http_request \<Rightarrow> http_response tx"
  whw_workerID :: gostr
  whw_pollInterval :: duration
  whw_leaseDuration :: duration
  whw_maxAttempts :: int
  whw_retrySchedule :: "duration list"

definition webhook_New :: "WebhookConfig \<Rightarrow> WebhookWorker option" where
  "webhook_New config =
     (case (whc_Secrets config, whc_Client config) of
        (Some secrets, Some client) \<Rightarrow>
          (let workerID = (if TrimSpace (whc_WorkerID config) = [] then ''webhook-worker'' else TrimSpace (whc_WorkerID config));
               poll = (if whc_PollInterval config \<le> 0 then 500 * Millisecond else whc_PollInterval config);
               lease = (if whc_LeaseDuration config \<le> 0 then 15 * Second else whc_LeaseDuration config);
               attempts = (if whc_MaxAttempts config = 0 then maximumAttempts else whc_MaxAttempts config);
               schedule = (case whc_RetrySchedule config of
                   Some s \<Rightarrow> s
                 | None \<Rightarrow> if 1 \<le> attempts \<and> attempts \<le> maximumAttempts
                     then take (nat (attempts - 1)) defaultRetrySchedule else [])
           in
           if attempts < 1 \<or> attempts > maximumAttempts \<or> int (length schedule) \<noteq> attempts - 1 then None
           else if list_ex (\<lambda>(delay, least). delay < least) (zip schedule defaultRetrySchedule) then None
           else Some \<lparr>whw_secrets = secrets, whw_client = client, whw_workerID = workerID, whw_pollInterval = poll,
                  whw_leaseDuration = lease, whw_maxAttempts = attempts, whw_retrySchedule = schedule\<rparr>)
      | _ \<Rightarrow> None)"

subsection \<open>The request\<close>

text \<open>What is signed, and the signature over it.\<close>

definition signed_text :: "int \<Rightarrow> int \<Rightarrow> gostr \<Rightarrow> gostr" where
  "signed_text timestamp secretVersion body =
     ''v1.'' @ show_int timestamp @ ''.'' @ show_int secretVersion @ ''.'' @ body"

definition signature :: "gostr \<Rightarrow> int \<Rightarrow> int \<Rightarrow> gostr \<Rightarrow> gostr" where
  "signature secret timestamp secretVersion body =
     ''v1='' @ hex_encode (hmac_sha256 (bytes_of secret) (bytes_of (signed_text timestamp secretVersion body)))"

text \<open>No request is built for a target that is not accepted.\<close>

definition webhookRequest :: "WebhookDelivery \<Rightarrow> WebhookDeliveryAttempt \<Rightarrow> gostr \<Rightarrow> http_request option" where
  "webhookRequest delivery attempt secret =
     (if \<not> ValidateTargetURL (whd_TargetURL delivery) then None
      else Some \<lparr>hrq_URL = whd_TargetURL delivery,
        hrq_Header =
          [(''Content-Type'', ''application/json''),
           (''X-Device-Platform-Timestamp'', show_int (wha_RequestTimestamp attempt)),
           (''X-Device-Platform-Signature'',
             signature secret (wha_RequestTimestamp attempt) (whd_WebhookSecretVersion delivery) (whd_RawBody delivery)),
           (''X-Device-Platform-Event-ID'', whd_EventID delivery),
           (''X-Device-Platform-Secret-Version'', show_int (whd_WebhookSecretVersion delivery))],
        hrq_Body = whd_RawBody delivery\<rparr>)"

definition summarizeResponse :: "http_response \<Rightarrow> gostr" where
  "summarizeResponse response =
     (let read = take (responseCaptureLimit + 1) (hrs_Body response);
          truncated = responseCaptureLimit < length read;
          body = take responseCaptureLimit read;
          mediaType = ParseMediaType (hrs_ContentType response)
      in json_marshal (JStruct (
        (if mediaType = [] then [] else [(''media_type'', JStr mediaType)]) @
        [(''captured_bytes'', JInt (int (length body))), (''truncated'', JBool truncated)] @
        (if hrs_ReadError response then [(''read_error'', JBool True)] else []) @
        [(''sha256'', JStr (hex_encode (sha256_text body)))])))"

subsection \<open>Completing an attempt\<close>

text \<open>
  The delay before the next attempt, by the number of attempts made. The number of a claimed Delivery is at
  least 1, so the index is never below the schedule.
\<close>

definition retryDelay :: "WebhookWorker \<Rightarrow> int \<Rightarrow> duration" where
  "retryDelay w attemptCount =
     (if whw_maxAttempts w \<le> attemptCount then 0 else whw_retrySchedule w ! nat (attemptCount - 1))"

definition complete_body :: "gostr \<Rightarrow> gostr \<Rightarrow> CompleteWebhookAttemptRequest \<Rightarrow> unit tx \<Rightarrow> unit tx" where
  "complete_body deliveryID leaseToken request extra =
     bnd (webhook_CompleteAttempt deliveryID leaseToken request) (\<lambda>completed.
     if \<not> completed then fail ErrLeaseLost else extra)"

definition webhook_complete :: "WebhookDelivery \<Rightarrow> gostr \<Rightarrow> CompleteWebhookAttemptRequest \<Rightarrow> unit tx \<Rightarrow> unit tx" where
  "webhook_complete delivery leaseToken request extra =
     WithinTransaction (complete_body (whd_ID delivery) leaseToken request extra)"

definition success_request :: "WebhookWorker \<Rightarrow> WebhookDeliveryAttempt \<Rightarrow> int \<Rightarrow> gostr \<Rightarrow> CompleteWebhookAttemptRequest" where
  "success_request w attempt status summary =
     \<lparr>cwa_AttemptID = wha_ID attempt, cwa_HTTPStatus = Some status, cwa_ResponseSummary = Some summary,
      cwa_ErrorCode = None, cwa_ErrorDetail = None, cwa_RetryDelay = 0, cwa_MaxAttempts = whw_maxAttempts w\<rparr>"

definition failure_request ::
  "WebhookWorker \<Rightarrow> WebhookDelivery \<Rightarrow> WebhookDeliveryAttempt \<Rightarrow> int option \<Rightarrow> gostr option \<Rightarrow> gostr \<Rightarrow> gostr \<Rightarrow>
   CompleteWebhookAttemptRequest" where
  "failure_request w delivery attempt status summary code detail =
     \<lparr>cwa_AttemptID = wha_ID attempt, cwa_HTTPStatus = status, cwa_ResponseSummary = summary,
      cwa_ErrorCode = Some code, cwa_ErrorDetail = Some detail,
      cwa_RetryDelay = retryDelay w (whd_AttemptCount delivery), cwa_MaxAttempts = whw_maxAttempts w\<rparr>"

definition completeSuccess ::
  "WebhookWorker \<Rightarrow> WebhookDelivery \<Rightarrow> WebhookDeliveryAttempt \<Rightarrow> gostr \<Rightarrow> int \<Rightarrow> gostr \<Rightarrow> unit tx" where
  "completeSuccess w delivery attempt leaseToken status summary =
     webhook_complete delivery leaseToken (success_request w attempt status summary) (ret ())"

definition completeFailure ::
  "WebhookWorker \<Rightarrow> WebhookDelivery \<Rightarrow> WebhookDeliveryAttempt \<Rightarrow> gostr \<Rightarrow> int option \<Rightarrow> gostr option \<Rightarrow> gostr \<Rightarrow> gostr \<Rightarrow>
   unit tx" where
  "completeFailure w delivery attempt leaseToken status summary code detail =
     webhook_complete delivery leaseToken
       (failure_request w delivery attempt status summary code (truncate_utf8 detail responseCaptureLimit)) (ret ())"

definition decryption_audit :: "WebhookDelivery \<Rightarrow> int \<Rightarrow> unit tx" where
  "decryption_audit delivery encryptionKeyVersion =
     bnd randomUUID (\<lambda>auditID.
     bnd time_now (\<lambda>now.
     audit_Create
       \<lparr>aud_ID = auditID, aud_ActorType = ActorTypeSystem, aud_ActorUserID = None, aud_ActorID = None,
        aud_ProjectID = Some (whd_ProjectID delivery), aud_Action = ''project.webhook_secret_decryption_failed'',
        aud_Result = AuditResultFailure, aud_ResourceType = ''project'', aud_ResourceID = Some (whd_ProjectID delivery),
        aud_IPAddress = None, aud_RequestID = None,
        aud_Metadata =
          [(''webhook_secret_version'', JInt (whd_WebhookSecretVersion delivery)),
           (''encryption_key_version'', JInt encryptionKeyVersion),
           (''error_code'', JStr ''secret_decryption_failed'')],
        aud_OccurredAt = now\<rparr>))"

definition completeSecretFailure ::
  "WebhookWorker \<Rightarrow> WebhookDelivery \<Rightarrow> WebhookDeliveryAttempt \<Rightarrow> gostr \<Rightarrow> goerr \<Rightarrow> unit tx" where
  "completeSecretFailure w delivery attempt leaseToken resolveErr =
     (let failed = failure_request w delivery attempt None None ''secret_resolution_failed''
            ''Webhook secret could not be resolved'' in
      if errors_Is resolveErr ErrWebhookSecretDecryption then
        bnd (map_error (ErrWrapped ''load failed Webhook secret metadata'')
               (project_GetWebhookSecretVersion (whd_ProjectID delivery) (whd_WebhookSecretVersion delivery))) (\<lambda>secretVersion.
        webhook_complete delivery leaseToken failed
          (decryption_audit delivery (wsv_EncryptionKeyVersion secretVersion)))
      else webhook_complete delivery leaseToken failed (ret ()))"

subsection \<open>Dispatching\<close>

text \<open>Go's \<open>v, err := f(); if err != nil { ... }\<close> where the error is dealt with, not returned.\<close>

definition on_error :: "'a tx \<Rightarrow> (goerr \<Rightarrow> 'b tx) \<Rightarrow> ('a \<Rightarrow> 'b tx) \<Rightarrow> 'b tx" where
  "on_error m failed ok s = (case m s of (Inl e, s1) \<Rightarrow> failed e s1 | (Inr x, s1) \<Rightarrow> ok x s1)"

definition handle_response ::
  "WebhookWorker \<Rightarrow> WebhookDelivery \<Rightarrow> WebhookDeliveryAttempt \<Rightarrow> gostr \<Rightarrow> http_response \<Rightarrow> unit tx" where
  "handle_response w delivery attempt leaseToken response =
     (let status = hrs_StatusCode response; summary = summarizeResponse response in
      if 200 \<le> status \<and> status \<le> 299 then completeSuccess w delivery attempt leaseToken status summary
      else completeFailure w delivery attempt leaseToken (Some status) (Some summary) ''http_error''
             (''Webhook endpoint returned HTTP '' @ show_int status))"

definition webhook_dispatchClaimed ::
  "WebhookWorker \<Rightarrow> WebhookDelivery \<Rightarrow> WebhookDeliveryAttempt \<Rightarrow> gostr \<Rightarrow> unit tx" where
  "webhook_dispatchClaimed w delivery attempt leaseToken =
     on_error (whw_secrets w (whd_ProjectID delivery) (whd_WebhookSecretVersion delivery))
       (completeSecretFailure w delivery attempt leaseToken)
       (\<lambda>secret.
          case webhookRequest delivery attempt secret of
            None \<Rightarrow> completeFailure w delivery attempt leaseToken None None ''invalid_target'' ''Webhook target URL is invalid''
          | Some request \<Rightarrow>
              on_error (whw_client w request)
                (\<lambda>e. completeFailure w delivery attempt leaseToken None None ''transport_error'' ''Webhook HTTP request failed'')
                (handle_response w delivery attempt leaseToken))"

definition claim_request :: "WebhookWorker \<Rightarrow> gostr \<Rightarrow> ClaimWebhookRequest" where
  "claim_request w leaseToken =
     \<lparr>cwq_WorkerID = whw_workerID w, cwq_LeaseToken = leaseToken, cwq_LeaseDuration = whw_leaseDuration w,
      cwq_MaxAttempts = whw_maxAttempts w\<rparr>"

definition DispatchNext :: "WebhookWorker \<Rightarrow> bool tx" where
  "DispatchNext w =
     bnd randomUUID (\<lambda>leaseToken.
     bnd (WithinTransaction (ClaimDue (claim_request w leaseToken))) (\<lambda>claimed.
     case claimed of
       None \<Rightarrow> ret False
     | Some (delivery, attempt) \<Rightarrow> bnd (webhook_dispatchClaimed w delivery attempt leaseToken) (\<lambda>u. ret True)))"

definition recover_request :: "WebhookWorker \<Rightarrow> RecoverExpiredWebhookRequest" where
  "recover_request w =
     \<lparr>rew_ErrorCode = ''worker_lease_expired'', rew_ErrorDetail = ''Webhook worker did not persist a result'',
      rew_RetrySchedule = whw_retrySchedule w, rew_MaxAttempts = whw_maxAttempts w\<rparr>"

definition webhook_RecoverNext :: "WebhookWorker \<Rightarrow> bool tx" where
  "webhook_RecoverNext w =
     WithinTransaction (bnd (RecoverNextExpiredSending (recover_request w)) (\<lambda>r. ret (r \<noteq> None)))"

definition webhook_ExhaustNext :: "WebhookWorker \<Rightarrow> bool tx" where
  "webhook_ExhaustNext w =
     WithinTransaction (bnd (ExhaustRetryBudget (whw_maxAttempts w)) (\<lambda>r. ret (r \<noteq> None)))"

definition runNext :: "WebhookWorker \<Rightarrow> bool tx" where
  "runNext w =
     bnd (webhook_RecoverNext w) (\<lambda>recovered.
     if recovered then ret True
     else
       bnd (webhook_ExhaustNext w) (\<lambda>exhausted.
       if exhausted then ret True else DispatchNext w))"

end
