(* ===== verification/Webhook_Life.thy ===== *)
theory Webhook_Life
  imports Webhook_Worker
begin

text \<open>
  The life of a Delivery. Its abstract state is the row together with its attempts in the order they were
  made; four transitions move it (a claim opens an attempt, a completion closes it, a spent budget buries it).
  Every transaction of the webhook worker moves every Delivery along these transitions and keeps the
  invariant \<open>webhook_ok\<close>, whatever the faults, leases and orders.
\<close>

subsection \<open>The abstract Delivery\<close>

type_synonym delivery_life = "WebhookDelivery \<times> WebhookDeliveryAttempt list"

definition answered_ok :: "WebhookDeliveryAttempt \<Rightarrow> bool" where
  "answered_ok a \<longleftrightarrow> (case wha_HTTPStatus a of None \<Rightarrow> False | Some s \<Rightarrow> 200 \<le> s \<and> s \<le> 299)"

definition closed :: "WebhookDeliveryAttempt \<Rightarrow> bool" where
  "closed a \<longleftrightarrow> wha_CompletedAt a \<noteq> None"

definition final_status :: "WebhookDeliveryStatus \<Rightarrow> bool" where
  "final_status s \<longleftrightarrow> s = WebhookDeliveryStatusDelivered \<or> s = WebhookDeliveryStatusDead"

definition same_message :: "WebhookDelivery \<Rightarrow> WebhookDelivery \<Rightarrow> bool" where
  "same_message w w' \<longleftrightarrow>
     whd_ID w' = whd_ID w \<and> whd_ProjectID w' = whd_ProjectID w \<and> whd_EventID w' = whd_EventID w \<and>
     whd_TargetURL w' = whd_TargetURL w \<and> whd_WebhookConfigVersion w' = whd_WebhookConfigVersion w \<and>
     whd_WebhookSecretVersion w' = whd_WebhookSecretVersion w \<and> whd_RawBody w' = whd_RawBody w \<and>
     whd_ReplayOfDeliveryID w' = whd_ReplayOfDeliveryID w \<and> whd_CreatedAt w' = whd_CreatedAt w"

text \<open>
  Attempts are numbered from 1 as they are made; only the last can be open, and it is so exactly while the
  Delivery is being sent; an attempt was answered with success only if it is the last of a delivered one.
\<close>

definition delivery_ok :: "delivery_life \<Rightarrow> bool" where
  "delivery_ok l \<longleftrightarrow>
     (case l of (w, as) \<Rightarrow>
        delivery_check w \<and> int (length as) = whd_AttemptCount w \<and>
        (\<forall>i<length as. wha_AttemptNo (as ! i) = int (Suc i)) \<and>
        (\<forall>a\<in>set (butlast as). closed a \<and> \<not> answered_ok a) \<and>
        (as \<noteq> [] \<longrightarrow> closed (last as) = (whd_Status w \<noteq> WebhookDeliveryStatusSending)) \<and>
        (as \<noteq> [] \<longrightarrow> answered_ok (last as) = (whd_Status w = WebhookDeliveryStatusDelivered)))"

lemma delivery_checkD:
  assumes "delivery_check w"
  shows "0 \<le> whd_AttemptCount w" and "whd_AttemptCount w \<le> 5"
    and "whd_Status w = WebhookDeliveryStatusPending \<Longrightarrow> whd_AttemptCount w = 0"
    and "whd_Status w \<noteq> WebhookDeliveryStatusPending \<Longrightarrow> 1 \<le> whd_AttemptCount w"
    and "whd_Status w = WebhookDeliveryStatusFailed \<Longrightarrow> whd_AttemptCount w \<le> 4"
    and "whd_Status w = WebhookDeliveryStatusSending \<longleftrightarrow> whd_LeaseToken w \<noteq> None"
  using assms by (cases "whd_Status w"; auto simp: delivery_check_def)+

inductive delivery_step :: "delivery_life \<Rightarrow> delivery_life \<Rightarrow> bool" where
  claim: "whd_Status w \<in> {WebhookDeliveryStatusPending, WebhookDeliveryStatusFailed} \<Longrightarrow>
    whd_Status w' = WebhookDeliveryStatusSending \<Longrightarrow> whd_AttemptCount w' = whd_AttemptCount w + 1 \<Longrightarrow>
    same_message w w' \<Longrightarrow> wha_AttemptNo a = whd_AttemptCount w' \<Longrightarrow> \<not> closed a \<Longrightarrow>
    delivery_step (w, as) (w', as @ [a])"
| complete: "whd_Status w = WebhookDeliveryStatusSending \<Longrightarrow>
    whd_Status w' \<in> {WebhookDeliveryStatusDelivered, WebhookDeliveryStatusFailed, WebhookDeliveryStatusDead} \<Longrightarrow>
    whd_AttemptCount w' = whd_AttemptCount w \<Longrightarrow> same_message w w' \<Longrightarrow> \<not> closed a \<Longrightarrow> closed a' \<Longrightarrow>
    wha_ID a' = wha_ID a \<Longrightarrow> wha_AttemptNo a' = wha_AttemptNo a \<Longrightarrow> wha_StartedAt a' = wha_StartedAt a \<Longrightarrow>
    delivery_step (w, as @ [a]) (w', as @ [a'])"
| exhaust: "whd_Status w = WebhookDeliveryStatusFailed \<Longrightarrow> whd_Status w' = WebhookDeliveryStatusDead \<Longrightarrow>
    whd_AttemptCount w' = whd_AttemptCount w \<Longrightarrow> same_message w w' \<Longrightarrow>
    delivery_step (w, as) (w', as)"

abbreviation delivery_run :: "delivery_life \<Rightarrow> delivery_life \<Rightarrow> bool" where
  "delivery_run \<equiv> delivery_step\<^sup>*\<^sup>*"

inductive_cases delivery_stepE: "delivery_step (w, as) l"

lemma same_message_refl [simp]: "same_message w w"
  by (simp add: same_message_def)

lemma same_message_trans: "same_message a b \<Longrightarrow> same_message b c \<Longrightarrow> same_message a c"
  by (simp add: same_message_def)

lemma delivery_run_message: "delivery_run l l' \<Longrightarrow> same_message (fst l) (fst l')"
proof (induction rule: rtranclp_induct)
  case (step l1 l2)
  then have "same_message (fst l1) (fst l2)" by (auto elim: delivery_step.cases)
  with step show ?case by (blast intro: same_message_trans)
qed simp

lemma delivery_run_final: "delivery_run l l' \<Longrightarrow> final_status (whd_Status (fst l)) \<Longrightarrow> l' = l"
proof (induction rule: rtranclp_induct)
  case (step l1 l2)
  then have "delivery_step l l2" by simp
  then show ?case using step.prems by cases (auto simp: final_status_def)
qed simp

text \<open>A closed attempt never changes, and none disappears.\<close>

lemma delivery_run_attempts:
  "delivery_run l l' \<Longrightarrow> \<exists>more. filter closed (snd l') = filter closed (snd l) @ more"
proof (induction rule: rtranclp_induct)
  case (step l1 l2)
  then obtain more where "filter closed (snd l1) = filter closed (snd l) @ more" by blast
  with step.hyps(2) show ?case by cases auto
qed simp

subsection \<open>The tables\<close>

definition attempts_for :: "gostr \<Rightarrow> db \<Rightarrow> WebhookDeliveryAttempt list" where
  "attempts_for i d = filter (\<lambda>a. wha_DeliveryID a = i) (tbl_delivery_attempts d)"

definition delivery_life_of :: "WebhookDelivery \<Rightarrow> db \<Rightarrow> delivery_life" where
  "delivery_life_of w d = (w, attempts_for (whd_ID w) d)"

definition webhook_ok :: "db \<Rightarrow> bool" where
  "webhook_ok d \<longleftrightarrow>
     distinct (map whd_ID (tbl_deliveries d)) \<and> distinct (map wha_ID (tbl_delivery_attempts d)) \<and>
     (\<forall>a\<in>set (tbl_delivery_attempts d). \<exists>w\<in>set (tbl_deliveries d). whd_ID w = wha_DeliveryID a) \<and>
     (\<forall>w\<in>set (tbl_deliveries d). delivery_ok (delivery_life_of w d))"

lemma webhook_okD:
  assumes "webhook_ok d"
  shows "distinct (map whd_ID (tbl_deliveries d))" and "distinct (map wha_ID (tbl_delivery_attempts d))"
    and "a \<in> set (tbl_delivery_attempts d) \<Longrightarrow> \<exists>w\<in>set (tbl_deliveries d). whd_ID w = wha_DeliveryID a"
    and "w \<in> set (tbl_deliveries d) \<Longrightarrow> delivery_ok (delivery_life_of w d)"
  using assms by (auto simp: webhook_ok_def)

definition follows :: "db \<Rightarrow> db \<Rightarrow> bool" where
  "follows d d' \<longleftrightarrow>
     (webhook_ok d \<longrightarrow> webhook_ok d' \<and>
       (\<forall>w\<in>set (tbl_deliveries d). \<exists>w'\<in>set (tbl_deliveries d'). whd_ID w' = whd_ID w \<and>
          delivery_run (delivery_life_of w d) (delivery_life_of w' d')))"

interpretation webhooks: db_relation follows
proof
  show "follows d d" for d by (auto simp: follows_def)
next
  fix d1 d2 d3
  assume 1: "follows d1 d2" and 2: "follows d2 d3"
  show "follows d1 d3"
    unfolding follows_def
  proof (intro impI conjI ballI)
    assume "webhook_ok d1"
    with 1 have ok2: "webhook_ok d2" by (simp add: follows_def)
    with 2 show "webhook_ok d3" by (simp add: follows_def)
    fix w assume "w \<in> set (tbl_deliveries d1)"
    with 1 \<open>webhook_ok d1\<close> obtain w' where "w' \<in> set (tbl_deliveries d2)" "whd_ID w' = whd_ID w"
      "delivery_run (delivery_life_of w d1) (delivery_life_of w' d2)" by (auto simp: follows_def)
    moreover from this(1) 2 ok2 obtain w'' where "w'' \<in> set (tbl_deliveries d3)" "whd_ID w'' = whd_ID w'"
      "delivery_run (delivery_life_of w' d2) (delivery_life_of w'' d3)" by (auto simp: follows_def)
    ultimately show "\<exists>w''\<in>set (tbl_deliveries d3). whd_ID w'' = whd_ID w \<and>
        delivery_run (delivery_life_of w d1) (delivery_life_of w'' d3)"
      by (metis rtranclp_trans)
  qed
qed

text \<open>One Delivery moved, and no other row changed.\<close>

lemma one_moved:
  assumes ok: "webhook_ok d" and w: "w \<in> set (tbl_deliveries d)" and i: "whd_ID w' = whd_ID w"
    and rows: "tbl_deliveries d' = map (\<lambda>x. if whd_ID x = whd_ID w then w' else x) (tbl_deliveries d)"
    and others: "\<And>j. j \<noteq> whd_ID w \<Longrightarrow> attempts_for j d' = attempts_for j d"
    and ids: "distinct (map wha_ID (tbl_delivery_attempts d'))"
    and move: "delivery_step (delivery_life_of w d) (delivery_life_of w' d')"
    and good: "delivery_ok (delivery_life_of w' d')"
  shows "follows d d'"
proof -
  have same: "map whd_ID (tbl_deliveries d') = map whd_ID (tbl_deliveries d)" using rows i by simp
  have unmoved: "delivery_life_of x d' = delivery_life_of x d" if "whd_ID x \<noteq> whd_ID w" for x
    using others [OF that] by (simp add: delivery_life_of_def)
  have owned: "\<exists>x\<in>set (tbl_deliveries d'). whd_ID x = wha_DeliveryID a" if a: "a \<in> set (tbl_delivery_attempts d')" for a
  proof (cases "wha_DeliveryID a = whd_ID w")
    case True
    then show ?thesis using w i rows by auto
  next
    case False
    moreover have "a \<in> set (attempts_for (wha_DeliveryID a) d')" using a by (simp add: attempts_for_def)
    ultimately have "a \<in> set (attempts_for (wha_DeliveryID a) d)" using others by simp
    then have "a \<in> set (tbl_delivery_attempts d)" by (simp add: attempts_for_def)
    then have "wha_DeliveryID a \<in> whd_ID ` set (tbl_deliveries d)" using webhook_okD(3) [OF ok] by (metis imageI)
    also have "\<dots> = whd_ID ` set (tbl_deliveries d')" using same by (metis set_map)
    finally show ?thesis by (metis imageE)
  qed
  have "webhook_ok d'"
    unfolding webhook_ok_def
  proof (intro conjI ballI)
    show "distinct (map whd_ID (tbl_deliveries d'))" using same webhook_okD(1) [OF ok] by simp
    fix x assume "x \<in> set (tbl_deliveries d')"
    then consider "x = w'" | "x \<in> set (tbl_deliveries d)" "whd_ID x \<noteq> whd_ID w" using rows by auto
    then show "delivery_ok (delivery_life_of x d')"
      by cases (auto simp: good unmoved webhook_okD(4) [OF ok])
  qed (use ids owned in auto)
  moreover have "\<exists>x'\<in>set (tbl_deliveries d'). whd_ID x' = whd_ID x \<and>
      delivery_run (delivery_life_of x d) (delivery_life_of x' d')" if x: "x \<in> set (tbl_deliveries d)" for x
  proof (cases "whd_ID x = whd_ID w")
    case True
    with x w webhook_okD(1) [OF ok] have "x = w" by (auto simp: distinct_map dest: inj_onD)
    moreover have "w' \<in> set (tbl_deliveries d')" using w rows by auto
    ultimately show ?thesis using i move by blast
  next
    case False
    with x rows have "x \<in> set (tbl_deliveries d')" by auto
    with unmoved [OF False] show ?thesis by auto
  qed
  ultimately show ?thesis by (simp add: follows_def)
qed

text \<open>New Deliveries, pending and without attempts, may be added by anyone.\<close>

definition deliveries_added :: "db \<Rightarrow> db \<Rightarrow> bool" where
  "deliveries_added d d' \<longleftrightarrow>
     tbl_delivery_attempts d' = tbl_delivery_attempts d \<and>
     (\<exists>new. tbl_deliveries d' = tbl_deliveries d @ new \<and>
        (distinct (map whd_ID (tbl_deliveries d)) \<longrightarrow> distinct (map whd_ID (tbl_deliveries d @ new))) \<and>
        (\<forall>w\<in>set new. whd_Status w = WebhookDeliveryStatusPending \<and> delivery_check w))"

lemma added_follows:
  assumes "deliveries_added d d'"
  shows "follows d d'"
  unfolding follows_def
proof (intro impI conjI)
  assume ok: "webhook_ok d"
  obtain new where new: "tbl_deliveries d' = tbl_deliveries d @ new" "distinct (map whd_ID (tbl_deliveries d @ new))"
    "\<And>w. w \<in> set new \<Longrightarrow> whd_Status w = WebhookDeliveryStatusPending \<and> delivery_check w"
    and same: "tbl_delivery_attempts d' = tbl_delivery_attempts d"
    using assms webhook_okD(1) [OF ok] by (auto simp: deliveries_added_def)
  have lives: "delivery_life_of w d' = delivery_life_of w d" for w
    by (simp add: delivery_life_of_def attempts_for_def same)
  have "delivery_ok (delivery_life_of w d)" if "w \<in> set new" for w
  proof -
    have "attempts_for (whd_ID w) d = []"
      using webhook_okD(3) [OF ok] new(2) that by (force simp: attempts_for_def filter_empty_conv)
    moreover have "whd_AttemptCount w = 0" using new(3) [OF that] delivery_checkD(3) by blast
    ultimately show ?thesis using new(3) [OF that] by (simp add: delivery_ok_def delivery_life_of_def)
  qed
  then show "webhook_ok d'"
    using ok new(1,2) by (auto simp: webhook_ok_def lives same)
  show "\<forall>w\<in>set (tbl_deliveries d). \<exists>w'\<in>set (tbl_deliveries d'). whd_ID w' = whd_ID w \<and>
      delivery_run (delivery_life_of w d) (delivery_life_of w' d')"
    using new(1) by (auto simp: lives)
qed

subsection \<open>Statements on one row\<close>

definition put_delivery :: "WebhookDelivery \<Rightarrow> db \<Rightarrow> db" where
  "put_delivery w d = d\<lparr>tbl_deliveries := map (\<lambda>x. if whd_ID x = whd_ID w then w else x) (tbl_deliveries d)\<rparr>"

definition put_delivery_attempt :: "WebhookDeliveryAttempt \<Rightarrow> db \<Rightarrow> db" where
  "put_delivery_attempt a d =
     d\<lparr>tbl_delivery_attempts := map (\<lambda>x. if wha_ID x = wha_ID a then a else x) (tbl_delivery_attempts d)\<rparr>"

lemma filter_unique:
  assumes "distinct (map k rows)" and "r \<in> set rows" and "P r" and "\<And>x. P x \<Longrightarrow> k x = k r"
  shows "filter P rows = [r]"
proof -
  have "P x \<longleftrightarrow> x = r" if "x \<in> set rows" for x
    using assms(1,2,3) that assms(4) [of x] by (auto simp: distinct_map inj_on_eq_iff)
  then have "filter P rows = filter (\<lambda>x. x = r) rows" by (intro filter_cong) simp_all
  moreover have "distinct rows" using assms(1) by (simp add: distinct_map)
  then have "filter (\<lambda>x. x = r) rows = [r]" using assms(2) by (induction rows) (auto simp: filter_empty_conv)
  ultimately show ?thesis by simp
qed

lemma update_deliveries_one:
  assumes ids: "distinct (map whd_ID (tbl_deliveries (w_db w)))" and w0: "w0 \<in> set (tbl_deliveries (w_db w))"
    and P: "P (w_now w) w0" "\<And>x. P (w_now w) x \<Longrightarrow> whd_ID x = whd_ID w0" and i: "whd_ID (f (w_now w) w0) = whd_ID w0"
  shows "update_deliveries P f w = (Inr n, w') \<longleftrightarrow>
     next_fault w = None \<and> delivery_check (f (w_now w) w0) \<and> n = 1 \<and>
     w' = (consume w)\<lparr>w_db := put_delivery (f (w_now w) w0) (w_db w)\<rparr>"
proof -
  note f1 = filter_unique [OF ids w0, of "P (w_now w)", OF P]
  note m1 = update_unique [OF ids w0, of "P (w_now w)" "f (w_now w)", OF P]
  have "list_all (\<lambda>x. P (w_now w) x \<longrightarrow> delivery_check (f (w_now w) x)) (tbl_deliveries (w_db w)) \<longleftrightarrow>
      list_all (\<lambda>x. delivery_check (f (w_now w) x)) (filter (P (w_now w)) (tbl_deliveries (w_db w)))"
    by (auto simp: list_all_iff)
  then have "list_all (\<lambda>x. P (w_now w) x \<longrightarrow> delivery_check (f (w_now w) x)) (tbl_deliveries (w_db w)) \<longleftrightarrow>
      delivery_check (f (w_now w) w0)" by (simp add: f1)
  then show ?thesis
    by (auto simp: update_deliveries_def sql_run update_where_def f1 m1 put_delivery_def i)
qed

lemma update_delivery_attempts_one:
  assumes ids: "distinct (map wha_ID (tbl_delivery_attempts (w_db w)))" and a0: "a0 \<in> set (tbl_delivery_attempts (w_db w))"
    and P: "P (w_now w) a0" "\<And>x. P (w_now w) x \<Longrightarrow> wha_ID x = wha_ID a0" and i: "wha_ID (f (w_now w) a0) = wha_ID a0"
  shows "update_delivery_attempts P f w = (Inr n, w') \<longleftrightarrow>
     next_fault w = None \<and> delivery_attempt_check (f (w_now w) a0) \<and> n = 1 \<and>
     w' = (consume w)\<lparr>w_db := put_delivery_attempt (f (w_now w) a0) (w_db w)\<rparr>"
proof -
  note f1 = filter_unique [OF ids a0, of "P (w_now w)", OF P]
  note m1 = update_unique [OF ids a0, of "P (w_now w)" "f (w_now w)", OF P]
  have "list_all (\<lambda>x. P (w_now w) x \<longrightarrow> delivery_attempt_check (f (w_now w) x)) (tbl_delivery_attempts (w_db w)) \<longleftrightarrow>
      list_all (\<lambda>x. delivery_attempt_check (f (w_now w) x)) (filter (P (w_now w)) (tbl_delivery_attempts (w_db w)))"
    by (auto simp: list_all_iff)
  then have "list_all (\<lambda>x. P (w_now w) x \<longrightarrow> delivery_attempt_check (f (w_now w) x)) (tbl_delivery_attempts (w_db w)) \<longleftrightarrow>
      delivery_attempt_check (f (w_now w) a0)" by (simp add: f1)
  then show ?thesis
    by (auto simp: update_delivery_attempts_def sql_run update_where_def f1 m1 put_delivery_attempt_def i)
qed

definition opened_attempt :: "gostr \<Rightarrow> instant \<Rightarrow> WebhookDelivery \<Rightarrow> WebhookDeliveryAttempt" where
  "opened_attempt attemptID t w = \<lparr>wha_ID = attemptID, wha_DeliveryID = whd_ID w, wha_AttemptNo = whd_AttemptCount w,
     wha_RequestTimestamp = t div Second, wha_HTTPStatus = None, wha_ResponseSummary = None,
     wha_ErrorCode = None, wha_ErrorDetail = None, wha_StartedAt = t, wha_CompletedAt = None\<rparr>"

lemma insert_delivery_attempt_one:
  assumes ids: "distinct (map whd_ID (tbl_deliveries (w_db w)))" and w0: "w0 \<in> set (tbl_deliveries (w_db w))"
  shows "insert_delivery_attempt attemptID (whd_ID w0) w = (Inr u, w') \<longleftrightarrow>
     next_fault w = None \<and> attemptID \<notin> wha_ID ` set (tbl_delivery_attempts (w_db w)) \<and>
     \<not> list_ex (\<lambda>x. wha_DeliveryID x = whd_ID w0 \<and> (wha_AttemptNo x = whd_AttemptCount w0 \<or> wha_CompletedAt x = None))
         (tbl_delivery_attempts (w_db w)) \<and>
     1 \<le> whd_AttemptCount w0 \<and> whd_AttemptCount w0 \<le> 5 \<and>
     w' = (consume w)\<lparr>w_db := (w_db w)\<lparr>tbl_delivery_attempts :=
       tbl_delivery_attempts (w_db w) @ [opened_attempt attemptID (w_now w) w0]\<rparr>\<rparr>"
proof -
  have one: "filter (\<lambda>x. whd_ID x = whd_ID w0) (tbl_deliveries (w_db w)) = [w0]"
    by (rule filter_unique [OF ids w0]) simp_all
  show ?thesis
    by (auto simp: insert_delivery_attempt_def sql_run one opened_attempt_def delivery_attempt_check_def Let_def list_ex_iff)
qed

subsection \<open>Claiming\<close>

lemma delivery_ok_claim:
  assumes "delivery_ok (w, as)" and "whd_Status w \<in> {WebhookDeliveryStatusPending, WebhookDeliveryStatusFailed}"
    and "delivery_check w'" and "whd_Status w' = WebhookDeliveryStatusSending"
    and "whd_AttemptCount w' = whd_AttemptCount w + 1" and "wha_AttemptNo a = whd_AttemptCount w'"
    and "\<not> closed a" and "wha_HTTPStatus a = None"
  shows "delivery_ok (w', as @ [a])"
proof -
  have "closed (last as) \<and> \<not> answered_ok (last as)" if "as \<noteq> []" using assms(1,2) that by (auto simp: delivery_ok_def)
  moreover have "\<forall>a\<in>set (butlast as). closed a \<and> \<not> answered_ok a" using assms(1) by (simp add: delivery_ok_def)
  ultimately have "\<forall>a\<in>set as. closed a \<and> \<not> answered_ok a"
    by (cases as rule: rev_cases) auto
  then show ?thesis using assms by (auto simp: delivery_ok_def nth_append less_Suc_eq answered_ok_def)
qed

lemma keeps_followsI:
  "(\<And>w x w'. m w = (Inr x, w') \<Longrightarrow> webhook_ok (w_db w) \<Longrightarrow> follows (w_db w) (w_db w')) \<Longrightarrow> keeps follows m"
  by (rule keepsI) (metis follows_def)

definition claimed_delivery :: "ClaimWebhookRequest \<Rightarrow> instant \<Rightarrow> WebhookDelivery \<Rightarrow> WebhookDelivery" where
  "claimed_delivery r t x =
     x\<lparr>whd_Status := WebhookDeliveryStatusSending, whd_AttemptCount := whd_AttemptCount x + 1,
       whd_NextAttemptAt := None, whd_LeaseToken := Some (cwq_LeaseToken r), whd_LeaseOwner := Some (cwq_WorkerID r),
       whd_LeaseExpiresAt := Some (t + Microseconds (cwq_LeaseDuration r) * Microsecond), whd_UpdatedAt := t\<rparr>"

definition claim_row :: "ClaimWebhookRequest \<Rightarrow> WebhookDelivery \<Rightarrow> (WebhookDelivery \<times> WebhookDeliveryAttempt) option tx" where
  "claim_row r y =
     bnd (update_deliveries (\<lambda>t x. whd_ID x = whd_ID y \<and> waiting t (cwq_MaxAttempts r) x) (claimed_delivery r)) (\<lambda>n.
     if \<not> exactlyOneRow n then ret None
     else
       bnd newUUID (\<lambda>attemptID.
       bnd (insert_delivery_attempt attemptID (whd_ID y)) (\<lambda>u.
       bnd (webhook_GetDelivery (whd_ID y)) (\<lambda>delivery.
       bnd (webhook_getAttempt attemptID) (\<lambda>attempt. ret (Some (delivery, attempt)))))))"

lemma ClaimDue_eq:
  "ClaimDue r =
     (if TrimSpace (cwq_WorkerID r) = [] \<or> TrimSpace (cwq_LeaseToken r) = [] \<or>
         cwq_LeaseDuration r < Microsecond \<or> \<not> validWebhookMaxAttempts (cwq_MaxAttempts r)
      then ret None
      else on_row (select_first tbl_deliveries (\<lambda>t d. waiting t (cwq_MaxAttempts r)) due_key) (ret None) (claim_row r))"
  unfolding ClaimDue_def claim_row_def [abs_def] claimed_delivery_def [abs_def] by (rule refl)

text \<open>What a claim does: nothing, or it takes the first waiting Delivery and opens its next attempt.\<close>

lemma ClaimDue_cases:
  assumes run: "ClaimDue r w = (Inr x, w')" and ok: "webhook_ok (w_db w)"
  obtains (nothing) "x = None" "w_db w' = w_db w"
  | (claimed) y attemptID a where
    "first_by due_key (filter (waiting (w_now w) (cwq_MaxAttempts r)) (tbl_deliveries (w_db w))) = Some y"
    "a = opened_attempt attemptID (w_now w) (claimed_delivery r (w_now w) y)"
    "attemptID \<notin> wha_ID ` set (tbl_delivery_attempts (w_db w))"
    "delivery_check (claimed_delivery r (w_now w) y)"
    "x = Some (claimed_delivery r (w_now w) y, a)"
    "w_db w' = (put_delivery (claimed_delivery r (w_now w) y) (w_db w))
       \<lparr>tbl_delivery_attempts := tbl_delivery_attempts (w_db w) @ [a]\<rparr>"
proof (cases "w_db w' = w_db w \<and> x = None")
  case True
  show thesis by (rule nothing; use True in simp)
next
  case False
  then obtain y where sel: "first_by due_key (filter (waiting (w_now w) (cwq_MaxAttempts r)) (tbl_deliveries (w_db w))) = Some y"
    and step: "claim_row r y (consume w) = (Inr x, w')"
    using run by (auto simp: ClaimDue_eq on_row_run select_first_run no_rows_select_first ret_run split: if_split_asm)
  have y: "y \<in> set (tbl_deliveries (w_db w))" "waiting (w_now w) (cwq_MaxAttempts r) y"
    using first_by_Some [OF sel] by auto
  let ?y = "claimed_delivery r (w_now w) y"
  have upd: "update_deliveries (\<lambda>t x. whd_ID x = whd_ID y \<and> waiting t (cwq_MaxAttempts r) x) (claimed_delivery r) (consume w) = (Inr n, v)
      \<longleftrightarrow> next_fault (consume w) = None \<and> delivery_check ?y \<and> n = 1 \<and>
        v = (consume (consume w))\<lparr>w_db := put_delivery ?y (w_db w)\<rparr>" for n v
    using update_deliveries_one [of "consume w" y "\<lambda>t x. whd_ID x = whd_ID y \<and> waiting t (cwq_MaxAttempts r) x" "claimed_delivery r" n v]
      webhook_okD(1) [OF ok] y by (simp add: claimed_delivery_def)
  let ?d = "put_delivery ?y (w_db w)"
  have y': "?y \<in> set (tbl_deliveries ?d)" and ids: "distinct (map whd_ID (tbl_deliveries ?d))" and i: "whd_ID ?y = whd_ID y"
    using y(1) webhook_okD(1) [OF ok]
    by (auto simp: put_delivery_def claimed_delivery_def o_def if_distrib cong: if_cong)
  from step upd obtain n v attemptID v1 where v: "delivery_check ?y" "v = (consume (consume w))\<lparr>w_db := ?d\<rparr>"
    and new: "newUUID v = (Inr attemptID, v1)"
    and ins: "bnd (insert_delivery_attempt attemptID (whd_ID y)) (\<lambda>u.
               bnd (webhook_GetDelivery (whd_ID y)) (\<lambda>delivery.
               bnd (webhook_getAttempt attemptID) (\<lambda>attempt. ret (Some (delivery, attempt))))) v1 = (Inr x, w')"
    by (auto simp: claim_row_def bnd_run [of "update_deliveries _ _"] exactlyOneRow_def bnd_run [of newUUID])
  from new have v1: "w_db v1 = ?d" "w_now v1 = w_now w"
    using v(2) by (auto simp: newUUID_def run_simps)
  let ?a = "opened_attempt attemptID (w_now w) ?y"
  have fresh: "attemptID \<notin> wha_ID ` set (tbl_delivery_attempts (w_db w))"
    and answer: "\<exists>v2. w_db v2 = ?d\<lparr>tbl_delivery_attempts := tbl_delivery_attempts (w_db w) @ [?a]\<rparr> \<and>
      bnd (webhook_GetDelivery (whd_ID y)) (\<lambda>delivery.
        bnd (webhook_getAttempt attemptID) (\<lambda>attempt. ret (Some (delivery, attempt)))) v2 = (Inr x, w')"
    using ins insert_delivery_attempt_one [of v1 ?y attemptID] ids y' i v1
    by (auto simp: bnd_run [of "insert_delivery_attempt _ _"] put_delivery_def)
  from answer obtain v2 where v2: "w_db v2 = ?d\<lparr>tbl_delivery_attempts := tbl_delivery_attempts (w_db w) @ [?a]\<rparr>"
    and get: "bnd (webhook_GetDelivery (whd_ID y)) (\<lambda>delivery.
        bnd (webhook_getAttempt attemptID) (\<lambda>attempt. ret (Some (delivery, attempt)))) v2 = (Inr x, w')" by blast
  have "find (\<lambda>z. whd_ID z = whd_ID y) (tbl_deliveries ?d) = Some ?y"
    using find_unique [OF ids y'] i by simp
  moreover have "find (\<lambda>z. wha_ID z = attemptID) (tbl_delivery_attempts (w_db w) @ [?a]) = Some ?a"
    using fresh by (subst find_append_None) (auto simp: find_None_iff opened_attempt_def)
  ultimately have "x = Some (?y, ?a)" "w_db w' = w_db v2"
    using get v2 by (auto simp: webhook_GetDelivery_def webhook_getAttempt_def run_simps)
  then show thesis using v2 by (intro claimed [OF sel refl fresh v(1)]) simp_all
qed

lemma ClaimDue_follows: "keeps follows (ClaimDue r)"
proof (rule keeps_followsI)
  fix w x w'
  assume run: "ClaimDue r w = (Inr x, w')" and ok: "webhook_ok (w_db w)"
  from run ok show "follows (w_db w) (w_db w')"
  proof (cases rule: ClaimDue_cases)
    case nothing
    then show ?thesis by (simp add: webhooks.R_refl)
  next
    case (claimed y attemptID a)
    let ?y = "claimed_delivery r (w_now w) y"
    have y: "y \<in> set (tbl_deliveries (w_db w))" "waiting (w_now w) (cwq_MaxAttempts r) y"
      using first_by_Some [OF claimed(1)] by auto
    have i: "whd_ID ?y = whd_ID y" by (simp add: claimed_delivery_def)
    have owner: "wha_DeliveryID a = whd_ID y" by (simp add: claimed(2) opened_attempt_def i)
    have mine: "attempts_for (whd_ID y) (w_db w') = attempts_for (whd_ID y) (w_db w) @ [a]"
      by (simp add: attempts_for_def claimed(6) owner)
    have st: "whd_Status y \<in> {WebhookDeliveryStatusPending, WebhookDeliveryStatusFailed}"
      using y(2) by (auto simp: waiting_def)
    have a: "\<not> closed a" "wha_HTTPStatus a = None" "wha_AttemptNo a = whd_AttemptCount ?y"
      by (simp_all add: claimed(2) opened_attempt_def closed_def)
    have move: "delivery_step (y, as) (?y, as @ [a])" for as
      using st a by (intro delivery_step.claim) (auto simp: claimed_delivery_def same_message_def)
    show ?thesis
    proof (rule one_moved [OF ok y(1) i])
      show "tbl_deliveries (w_db w') = map (\<lambda>x. if whd_ID x = whd_ID y then ?y else x) (tbl_deliveries (w_db w))"
        by (simp add: claimed(6) put_delivery_def i)
      show "attempts_for j (w_db w') = attempts_for j (w_db w)" if "j \<noteq> whd_ID y" for j
        using that owner by (simp add: attempts_for_def claimed(6))
      show "distinct (map wha_ID (tbl_delivery_attempts (w_db w')))"
        using webhook_okD(2) [OF ok] claimed(2,3) by (simp add: claimed(6) opened_attempt_def)
      show "delivery_step (delivery_life_of y (w_db w)) (delivery_life_of ?y (w_db w'))"
        using move by (simp add: delivery_life_of_def i mine)
      show "delivery_ok (delivery_life_of ?y (w_db w'))"
        using delivery_ok_claim [of y "attempts_for (whd_ID y) (w_db w)" ?y a] webhook_okD(4) [OF ok y(1)] st a claimed(4)
        by (simp add: delivery_life_of_def i mine) (simp add: claimed_delivery_def)
    qed
  qed
qed

subsection \<open>Closing an attempt\<close>

lemma open_attempt_last:
  assumes "delivery_ok (w, as)" and "a \<in> set as" and "\<not> closed a"
  obtains bs where "as = bs @ [a]" and "whd_Status w = WebhookDeliveryStatusSending"
proof -
  from assms(2) have "as = butlast as @ [last as]" by (cases as) auto
  moreover from this assms have "last as = a"
    by (metis (no_types, lifting) UnE delivery_ok_def prod.case set_ConsD set_append set_empty emptyE)
  moreover have "whd_Status w = WebhookDeliveryStatusSending"
    using assms \<open>last as = a\<close> by (cases "as = []") (auto simp: delivery_ok_def)
  ultimately show thesis using that by metis
qed

lemma delivery_ok_close:
  assumes "delivery_ok (w, bs @ [a])" and "delivery_check w'" and "whd_AttemptCount w' = whd_AttemptCount w"
    and "whd_Status w' \<noteq> WebhookDeliveryStatusSending" and "closed a'" and "wha_AttemptNo a' = wha_AttemptNo a"
    and "answered_ok a' \<longleftrightarrow> whd_Status w' = WebhookDeliveryStatusDelivered"
  shows "delivery_ok (w', bs @ [a'])"
  using assms by (auto simp: delivery_ok_def nth_append split: if_splits)

text \<open>The row and its open attempt, in the tables and afterwards.\<close>

lemma closing_follows:
  assumes ok: "webhook_ok d" and w: "w \<in> set (tbl_deliveries d)" and a: "a \<in> set (tbl_delivery_attempts d)"
    and own: "wha_DeliveryID a = whd_ID w" "\<not> closed a"
    and w': "whd_Status w' \<in> {WebhookDeliveryStatusDelivered, WebhookDeliveryStatusFailed, WebhookDeliveryStatusDead}"
      "whd_AttemptCount w' = whd_AttemptCount w" "same_message w w'" "delivery_check w'"
    and a': "wha_ID a' = wha_ID a" "wha_DeliveryID a' = wha_DeliveryID a" "wha_AttemptNo a' = wha_AttemptNo a"
      "wha_StartedAt a' = wha_StartedAt a" "closed a'"
    and answer: "answered_ok a' \<longleftrightarrow> whd_Status w' = WebhookDeliveryStatusDelivered"
  shows "follows d (put_delivery w' (put_delivery_attempt a' d))"
proof -
  let ?d = "put_delivery w' (put_delivery_attempt a' d)"
  have i: "whd_ID w' = whd_ID w" using w'(3) by (simp add: same_message_def)
  have dist: "distinct (map wha_ID (tbl_delivery_attempts d))" by (rule webhook_okD(2) [OF ok])
  have "a \<in> set (attempts_for (whd_ID w) d)" using a own(1) by (simp add: attempts_for_def)
  from open_attempt_last [OF webhook_okD(4) [OF ok w, unfolded delivery_life_of_def] this own(2)]
  obtain bs where bs: "attempts_for (whd_ID w) d = bs @ [a]" and st: "whd_Status w = WebhookDeliveryStatusSending" by blast
  have rows: "tbl_delivery_attempts ?d = map (\<lambda>x. if wha_ID x = wha_ID a then a' else x) (tbl_delivery_attempts d)"
    by (simp add: put_delivery_def put_delivery_attempt_def a')
  have only: "x = a" if "x \<in> set (tbl_delivery_attempts d)" "wha_ID x = wha_ID a" for x
    using dist that a by (auto simp: distinct_map dest: inj_onD)
  have owner: "wha_DeliveryID (if wha_ID x = wha_ID a then a' else x) = wha_DeliveryID x"
    if "x \<in> set (tbl_delivery_attempts d)" for x using only [OF that] a'(2) by auto
  have sub: "attempts_for j ?d = map (\<lambda>x. if wha_ID x = wha_ID a then a' else x) (attempts_for j d)" for j
  proof -
    have "filter (\<lambda>x. wha_DeliveryID (if wha_ID x = wha_ID a then a' else x) = j) (tbl_delivery_attempts d) =
        filter (\<lambda>x. wha_DeliveryID x = j) (tbl_delivery_attempts d)"
      using owner by (intro filter_cong) simp_all
    then show ?thesis unfolding attempts_for_def rows filter_map o_def by simp
  qed
  have same: "attempts_for j ?d = attempts_for j d" if "j \<noteq> whd_ID w" for j
    unfolding sub using only own(1) that by (intro map_idI) (auto simp: attempts_for_def)
  have "distinct (map wha_ID (bs @ [a]))"
    using dist bs unfolding attempts_for_def by (metis distinct_map_filter)
  then have "wha_ID a \<notin> wha_ID ` set bs" by simp
  then have "wha_ID x \<noteq> wha_ID a" if "x \<in> set bs" for x using that by (metis imageI)
  then have "map (\<lambda>x. if wha_ID x = wha_ID a then a' else x) bs = bs" by (intro map_idI) simp
  then have mine: "attempts_for (whd_ID w) ?d = bs @ [a']" unfolding sub bs by simp
  show ?thesis
  proof (rule one_moved [OF ok w i])
    show "tbl_deliveries ?d = map (\<lambda>x. if whd_ID x = whd_ID w then w' else x) (tbl_deliveries d)"
      by (simp add: put_delivery_def put_delivery_attempt_def i)
    have "map wha_ID (tbl_delivery_attempts ?d) = map wha_ID (tbl_delivery_attempts d)"
      unfolding rows using a'(1) by simp
    then show "distinct (map wha_ID (tbl_delivery_attempts ?d))" using dist by simp
    show "delivery_step (delivery_life_of w d) (delivery_life_of w' ?d)"
      unfolding delivery_life_of_def bs i mine by (rule delivery_step.complete) (use st w' own(2) a' in auto)
    show "delivery_ok (delivery_life_of w' ?d)"
      unfolding delivery_life_of_def i mine
      by (rule delivery_ok_close [of w bs a])
        (use webhook_okD(4) [OF ok w] bs w' a' answer in \<open>auto simp: delivery_life_of_def\<close>)
  qed (rule same)
qed

definition released :: "WebhookDeliveryStatus \<Rightarrow> gostr option \<Rightarrow> gostr option \<Rightarrow> instant \<Rightarrow> WebhookDelivery \<Rightarrow> WebhookDelivery" where
  "released status code detail t w =
     w\<lparr>whd_Status := status, whd_LastErrorCode := code, whd_LastErrorDetail := detail, whd_NextAttemptAt := None,
       whd_LeaseToken := None, whd_LeaseOwner := None, whd_LeaseExpiresAt := None, whd_UpdatedAt := t\<rparr>"

definition finished_delivery ::
  "WebhookDeliveryStatus \<Rightarrow> gostr option \<Rightarrow> gostr option \<Rightarrow> duration \<Rightarrow> instant \<Rightarrow> WebhookDelivery \<Rightarrow> WebhookDelivery" where
  "finished_delivery status code detail retry t w =
     (if status = WebhookDeliveryStatusDelivered then
        (released status code detail t w)\<lparr>whd_LastErrorCode := None, whd_LastErrorDetail := None, whd_DeliveredAt := Some t\<rparr>
      else if status = WebhookDeliveryStatusFailed then
        (released status code detail t w)\<lparr>whd_NextAttemptAt := Some (t + Microseconds retry * Microsecond)\<rparr>
      else released status code detail t w)"

lemma finished_delivery_simps [simp]:
  "whd_ID (finished_delivery status code detail retry t w) = whd_ID w"
  "whd_Status (finished_delivery status code detail retry t w) = status"
  "whd_AttemptCount (finished_delivery status code detail retry t w) = whd_AttemptCount w"
  "same_message w (finished_delivery status code detail retry t w)"
  by (simp_all add: finished_delivery_def released_def same_message_def)

lemma finishDelivery_run:
  assumes ids: "distinct (map whd_ID (tbl_deliveries (w_db w)))" and y: "y \<in> set (tbl_deliveries (w_db w))"
    and st: "whd_Status y = WebhookDeliveryStatusSending"
  shows "finishDelivery (whd_ID y) status code detail retry w = (Inr b, w') \<longleftrightarrow>
     (if status \<in> {WebhookDeliveryStatusDelivered, WebhookDeliveryStatusFailed, WebhookDeliveryStatusDead}
      then next_fault w = None \<and> delivery_check (finished_delivery status code detail retry (w_now w) y) \<and> b \<and>
        w' = (consume w)\<lparr>w_db := put_delivery (finished_delivery status code detail retry (w_now w) y) (w_db w)\<rparr>
      else \<not> b \<and> w' = w)"
proof -
  note one = update_deliveries_one [OF ids y, of "\<lambda>t x. whd_ID x = whd_ID y \<and> whd_Status x = WebhookDeliveryStatusSending"]
  show ?thesis
    by (cases status)
      (auto simp: finishDelivery_def bnd_run ret_run one st exactlyOneRow_def finished_delivery_def released_def Let_def)
qed

definition completed_attempt :: "CompleteWebhookAttemptRequest \<Rightarrow> instant \<Rightarrow> WebhookDeliveryAttempt \<Rightarrow> WebhookDeliveryAttempt" where
  "completed_attempt r t a =
     a\<lparr>wha_HTTPStatus := cwa_HTTPStatus r, wha_ResponseSummary := cwa_ResponseSummary r,
       wha_ErrorCode := cwa_ErrorCode r, wha_ErrorDetail := cwa_ErrorDetail r, wha_CompletedAt := Some t\<rparr>"

text \<open>Who may complete an attempt: the holder of the lease, while it is valid, and only the attempt under way.\<close>

definition may_complete :: "gostr \<Rightarrow> instant \<Rightarrow> WebhookDelivery \<Rightarrow> WebhookDeliveryAttempt \<Rightarrow> bool" where
  "may_complete leaseToken t y a \<longleftrightarrow>
     whd_Status y = WebhookDeliveryStatusSending \<and> reason_text (whd_LeaseToken y) = leaseToken \<and>
     (case whd_LeaseExpiresAt y of None \<Rightarrow> False | Some e \<Rightarrow> e > t) \<and> \<not> closed a \<and> wha_AttemptNo a = whd_AttemptCount y"

definition locked_pair :: "instant \<Rightarrow> WebhookDelivery \<Rightarrow> WebhookDeliveryAttempt \<Rightarrow> lockedWebhookDeliveryAttempt" where
  "locked_pair t y a = \<lparr>lwd_status = whd_Status y, lwd_attemptCount = whd_AttemptCount y,
     lwd_leaseToken = reason_text (whd_LeaseToken y),
     lwd_leaseValid = (case whd_LeaseExpiresAt y of None \<Rightarrow> False | Some e \<Rightarrow> e > t),
     lwd_attemptNo = wha_AttemptNo a, lwd_attemptCompleted = (wha_CompletedAt a \<noteq> None)\<rparr>"

lemma locked_refused:
  "(lwd_status (locked_pair t y a) \<noteq> WebhookDeliveryStatusSending \<or> lwd_leaseToken (locked_pair t y a) \<noteq> leaseToken \<or>
     \<not> lwd_leaseValid (locked_pair t y a) \<or> lwd_attemptCompleted (locked_pair t y a) \<or>
     lwd_attemptNo (locked_pair t y a) \<noteq> whd_AttemptCount y \<or> b) \<longleftrightarrow>
   \<not> may_complete leaseToken t y a \<or> b"
  "lwd_attemptCount (locked_pair t y a) = whd_AttemptCount y"
  by (auto simp: locked_pair_def may_complete_def closed_def)

lemma lockDeliveryAttempt_run:
  "lockDeliveryAttempt i attemptID w = (Inr l, v) \<longleftrightarrow>
     (\<exists>y a. find (\<lambda>x. whd_ID x = i) (tbl_deliveries (w_db w)) = Some y \<and>
        find (\<lambda>x. wha_ID x = attemptID \<and> wha_DeliveryID x = i) (tbl_delivery_attempts (w_db w)) = Some a \<and>
        l = locked_pair (w_now w) y a \<and> next_fault w = None \<and> next_fault (consume w) = None \<and> v = consume (consume w))"
  unfolding lockDeliveryAttempt_def bnd_run query_row_run select_row_run locked_pair_def by (auto cong: option.case_cong)

lemma lockDeliveryAttempt_reads: "reads (lockDeliveryAttempt i attemptID)"
  unfolding lockDeliveryAttempt_def by (intro reads_intros)

definition close_rows :: "gostr \<Rightarrow> CompleteWebhookAttemptRequest \<Rightarrow> WebhookDeliveryStatus \<Rightarrow> duration \<Rightarrow> bool tx" where
  "close_rows i r status retry =
     bnd (update_delivery_attempts
            (\<lambda>t a. wha_ID a = cwa_AttemptID r \<and> wha_DeliveryID a = i \<and> wha_CompletedAt a = None) (completed_attempt r))
       (\<lambda>u. finishDelivery i status (cwa_ErrorCode r) (cwa_ErrorDetail r) retry)"

lemma webhook_CompleteAttempt_eq:
  "webhook_CompleteAttempt i leaseToken r =
     on_row (lockDeliveryAttempt i (cwa_AttemptID r)) (ret False) (\<lambda>l.
       if lwd_status l \<noteq> WebhookDeliveryStatusSending \<or> lwd_leaseToken l \<noteq> leaseToken \<or> \<not> lwd_leaseValid l \<or>
          lwd_attemptCompleted l \<or> lwd_attemptNo l \<noteq> lwd_attemptCount l \<or>
          \<not> validWebhookMaxAttempts (cwa_MaxAttempts r)
       then ret False
       else
         (case webhookCompletion (lwd_attemptCount l) (cwa_MaxAttempts r) (cwa_HTTPStatus r)
                 (cwa_ErrorCode r) (cwa_ErrorDetail r) (cwa_RetryDelay r) of
            None \<Rightarrow> ret False
          | Some (nextStatus, retry) \<Rightarrow> close_rows i r nextStatus retry))"
  unfolding webhook_CompleteAttempt_def close_rows_def completed_attempt_def [abs_def] by (rule refl)

lemma webhook_CompleteAttempt_cases:
  assumes run: "webhook_CompleteAttempt i leaseToken r w = (Inr b, w')" and ok: "webhook_ok (w_db w)"
  obtains (refused) "\<not> b" "w_db w' = w_db w"
  | (closing) y a status retry where "b" "y \<in> set (tbl_deliveries (w_db w))" "whd_ID y = i"
    "a \<in> set (tbl_delivery_attempts (w_db w))" "wha_ID a = cwa_AttemptID r" "wha_DeliveryID a = i"
    "may_complete leaseToken (w_now w) y a" "validWebhookMaxAttempts (cwa_MaxAttempts r)"
    "webhookCompletion (whd_AttemptCount y) (cwa_MaxAttempts r) (cwa_HTTPStatus r) (cwa_ErrorCode r) (cwa_ErrorDetail r)
       (cwa_RetryDelay r) = Some (status, retry)"
    "delivery_check (finished_delivery status (cwa_ErrorCode r) (cwa_ErrorDetail r) retry (w_now w) y)"
    "w_db w' = put_delivery (finished_delivery status (cwa_ErrorCode r) (cwa_ErrorDetail r) retry (w_now w) y)
       (put_delivery_attempt (completed_attempt r (w_now w) a) (w_db w))"
proof -
  from run consider (none) v where "no_rows (lockDeliveryAttempt i (cwa_AttemptID r)) w v" "\<not> b" "w' = v"
    | (row) y a where "find (\<lambda>x. whd_ID x = i) (tbl_deliveries (w_db w)) = Some y"
      "find (\<lambda>x. wha_ID x = cwa_AttemptID r \<and> wha_DeliveryID x = i) (tbl_delivery_attempts (w_db w)) = Some a"
      "(if \<not> may_complete leaseToken (w_now w) y a \<or> \<not> validWebhookMaxAttempts (cwa_MaxAttempts r)
        then ret False
        else
         (case webhookCompletion (whd_AttemptCount y) (cwa_MaxAttempts r) (cwa_HTTPStatus r)
                 (cwa_ErrorCode r) (cwa_ErrorDetail r) (cwa_RetryDelay r) of
            None \<Rightarrow> ret False
          | Some (nextStatus, retry) \<Rightarrow> close_rows i r nextStatus retry)) (consume (consume w)) = (Inr b, w')"
    unfolding webhook_CompleteAttempt_eq on_row_run ret_run
  proof (elim disjE exE conjE)
    fix l v
    assume "lockDeliveryAttempt i (cwa_AttemptID r) w = (Inr l, v)"
      and rest: "(if lwd_status l \<noteq> WebhookDeliveryStatusSending \<or> lwd_leaseToken l \<noteq> leaseToken \<or> \<not> lwd_leaseValid l \<or>
          lwd_attemptCompleted l \<or> lwd_attemptNo l \<noteq> lwd_attemptCount l \<or>
          \<not> validWebhookMaxAttempts (cwa_MaxAttempts r)
       then ret False
       else
         (case webhookCompletion (lwd_attemptCount l) (cwa_MaxAttempts r) (cwa_HTTPStatus r)
                 (cwa_ErrorCode r) (cwa_ErrorDetail r) (cwa_RetryDelay r) of
            None \<Rightarrow> ret False
          | Some (nextStatus, retry) \<Rightarrow> close_rows i r nextStatus retry)) v = (Inr b, w')"
    then obtain y a where "find (\<lambda>x. whd_ID x = i) (tbl_deliveries (w_db w)) = Some y"
      "find (\<lambda>x. wha_ID x = cwa_AttemptID r \<and> wha_DeliveryID x = i) (tbl_delivery_attempts (w_db w)) = Some a"
      and l: "l = locked_pair (w_now w) y a" "v = consume (consume w)" unfolding lockDeliveryAttempt_run by blast
    with rest [unfolded l locked_refused] show thesis using row by blast
  next
    fix v
    assume "no_rows (lockDeliveryAttempt i (cwa_AttemptID r)) w v" "b = False" "w' = v"
    then show thesis using none by blast
  qed
  then show thesis
  proof cases
    case (none v)
    then show thesis using reads_no_rows [OF lockDeliveryAttempt_reads] by (intro refused) simp_all
  next
    case (row y a)
    show thesis
    proof (cases "may_complete leaseToken (w_now w) y a \<and> validWebhookMaxAttempts (cwa_MaxAttempts r) \<and>
        webhookCompletion (whd_AttemptCount y) (cwa_MaxAttempts r) (cwa_HTTPStatus r) (cwa_ErrorCode r) (cwa_ErrorDetail r)
          (cwa_RetryDelay r) \<noteq> None")
      case False
      with row(3) show thesis by (intro refused) (auto simp: ret_run split: if_split_asm option.split_asm)
    next
      case True
    then obtain status retry where completion: "webhookCompletion (whd_AttemptCount y) (cwa_MaxAttempts r) (cwa_HTTPStatus r)
        (cwa_ErrorCode r) (cwa_ErrorDetail r) (cwa_RetryDelay r) = Some (status, retry)" by auto
    with True row(3) have step: "close_rows i r status retry (consume (consume w)) = (Inr b, w')" by simp
    have y: "y \<in> set (tbl_deliveries (w_db w))" "whd_ID y = i" using find_SomeD [OF row(1)] by auto
    have a: "a \<in> set (tbl_delivery_attempts (w_db w))" "wha_ID a = cwa_AttemptID r" "wha_DeliveryID a = i"
      using find_SomeD [OF row(2)] by auto
    have open_a: "\<not> closed a" and st: "whd_Status y = WebhookDeliveryStatusSending"
      using True by (simp_all add: may_complete_def)
    let ?v = "consume (consume w)"
    let ?a = "completed_attempt r (w_now w) a"
    have same: "wha_ID ?a = wha_ID a" by (simp add: completed_attempt_def)
    have upd: "update_delivery_attempts
              (\<lambda>t a. wha_ID a = cwa_AttemptID r \<and> wha_DeliveryID a = i \<and> wha_CompletedAt a = None) (completed_attempt r) ?v = (Inr n, v)
        \<longleftrightarrow> next_fault ?v = None \<and> delivery_attempt_check ?a \<and> n = 1 \<and>
          v = (consume ?v)\<lparr>w_db := put_delivery_attempt ?a (w_db w)\<rparr>" for n v
      using update_delivery_attempts_one [of ?v a
          "\<lambda>t a. wha_ID a = cwa_AttemptID r \<and> wha_DeliveryID a = i \<and> wha_CompletedAt a = None" "completed_attempt r" n v]
        webhook_okD(2) [OF ok] a open_a same by (simp add: closed_def)
    let ?v1 = "(consume ?v)\<lparr>w_db := put_delivery_attempt ?a (w_db w)\<rparr>"
    from step have fin: "finishDelivery i status (cwa_ErrorCode r) (cwa_ErrorDetail r) retry ?v1 = (Inr b, w')"
      by (auto simp: close_rows_def bnd_run upd)
    have "status \<in> {WebhookDeliveryStatusDelivered, WebhookDeliveryStatusFailed, WebhookDeliveryStatusDead}"
      using completion by (auto simp: webhookCompletion_def split: if_split_asm)
    with fin finishDelivery_run [of ?v1 y status "cwa_ErrorCode r" "cwa_ErrorDetail r" retry b w'] y st webhook_okD(1) [OF ok]
    have "b" "delivery_check (finished_delivery status (cwa_ErrorCode r) (cwa_ErrorDetail r) retry (w_now w) y)"
      "w_db w' = put_delivery (finished_delivery status (cwa_ErrorCode r) (cwa_ErrorDetail r) retry (w_now w) y)
         (put_delivery_attempt ?a (w_db w))"
      by (simp_all add: put_delivery_attempt_def)
    then show thesis using y a True completion by (intro closing [of y a status retry]) simp_all
    qed
  qed
qed

lemma CompleteAttempt_follows: "keeps follows (webhook_CompleteAttempt i leaseToken r)"
proof (rule keeps_followsI)
  fix w b w'
  assume run: "webhook_CompleteAttempt i leaseToken r w = (Inr b, w')" and ok: "webhook_ok (w_db w)"
  from run ok show "follows (w_db w) (w_db w')"
  proof (cases rule: webhook_CompleteAttempt_cases)
    case refused
    then show ?thesis by (simp add: webhooks.R_refl)
  next
    case (closing y a status retry)
    have answer: "answered_ok (completed_attempt r (w_now w) a) \<longleftrightarrow> status = WebhookDeliveryStatusDelivered"
      and st: "status \<in> {WebhookDeliveryStatusDelivered, WebhookDeliveryStatusFailed, WebhookDeliveryStatusDead}"
      using closing(9) by (auto simp: webhookCompletion_def answered_ok_def completed_attempt_def split: if_split_asm option.splits)
    show ?thesis
      unfolding closing(11)
      by (rule closing_follows [OF ok closing(2,4)])
        (use closing(3,6,7,10) st answer in \<open>auto simp: may_complete_def completed_attempt_def closed_def\<close>)
  qed
qed

subsection \<open>Recovering and burying\<close>

definition abandoned_attempt :: "RecoverExpiredWebhookRequest \<Rightarrow> instant \<Rightarrow> WebhookDeliveryAttempt \<Rightarrow> WebhookDeliveryAttempt" where
  "abandoned_attempt r t a =
     a\<lparr>wha_ErrorCode := Some (rew_ErrorCode r), wha_ErrorDetail := Some (rew_ErrorDetail r), wha_CompletedAt := Some t\<rparr>"

definition recover_row :: "RecoverExpiredWebhookRequest \<Rightarrow> WebhookDelivery \<Rightarrow> gostr \<Rightarrow> WebhookDelivery option tx" where
  "recover_row r w attemptID =
     (let again = whd_AttemptCount w < rew_MaxAttempts r;
          nextStatus = (if again then WebhookDeliveryStatusFailed else WebhookDeliveryStatusDead);
          retry = (if again then rew_RetrySchedule r ! nat (whd_AttemptCount w - 1) else 0)
      in
      bnd (update_delivery_attempts
             (\<lambda>t a. wha_ID a = attemptID \<and> wha_DeliveryID a = whd_ID w \<and> wha_CompletedAt a = None) (abandoned_attempt r)) (\<lambda>u.
      bnd (finishDelivery (whd_ID w) nextStatus (Some (rew_ErrorCode r)) (Some (rew_ErrorDetail r)) retry) (\<lambda>updated.
      if \<not> updated then ret None
      else bnd (webhook_GetDelivery (whd_ID w)) (\<lambda>delivery. ret (Some delivery)))))"

lemma RecoverNextExpiredSending_eq:
  "RecoverNextExpiredSending r =
     (if TrimSpace (rew_ErrorCode r) = [] \<or> \<not> validWebhookRetrySchedule (rew_MaxAttempts r) (rew_RetrySchedule r)
      then ret None
      else
        on_row (select_first tbl_deliveries expired_sending lease_key)
          (ret None)
          (\<lambda>w. on_row (select_row tbl_delivery_attempts
                    (\<lambda>t a. wha_DeliveryID a = whd_ID w \<and> wha_AttemptNo a = whd_AttemptCount w \<and>
                       wha_CompletedAt a = None) (\<lambda>t a. wha_ID a))
             (ret None) (recover_row r w)))"
  unfolding RecoverNextExpiredSending_def recover_row_def [abs_def] abandoned_attempt_def [abs_def] by (rule refl)

lemma recover_row_follows:
  assumes ok: "webhook_ok (w_db w)" and y: "y \<in> set (tbl_deliveries (w_db w))"
    and st: "whd_Status y = WebhookDeliveryStatusSending" and a: "a \<in> set (tbl_delivery_attempts (w_db w))"
    and own: "wha_DeliveryID a = whd_ID y" "\<not> closed a"
    and run: "recover_row r y (wha_ID a) w = (Inr x, w')"
  shows "follows (w_db w) (w_db w')"
proof -
  let ?a = "abandoned_attempt r (w_now w) a"
  let ?s = "if whd_AttemptCount y < rew_MaxAttempts r then WebhookDeliveryStatusFailed else WebhookDeliveryStatusDead"
  have same: "wha_ID ?a = wha_ID a" by (simp add: abandoned_attempt_def)
  have upd: "update_delivery_attempts (\<lambda>t b. wha_ID b = wha_ID a \<and> wha_DeliveryID b = whd_ID y \<and> wha_CompletedAt b = None)
         (abandoned_attempt r) w = (Inr n, v)
      \<longleftrightarrow> next_fault w = None \<and> delivery_attempt_check ?a \<and> n = 1 \<and>
        v = (consume w)\<lparr>w_db := put_delivery_attempt ?a (w_db w)\<rparr>" for n v
    using update_delivery_attempts_one [of w a
        "\<lambda>t b. wha_ID b = wha_ID a \<and> wha_DeliveryID b = whd_ID y \<and> wha_CompletedAt b = None" "abandoned_attempt r" n v]
      webhook_okD(2) [OF ok] a own same by (simp add: closed_def)
  let ?v = "(consume w)\<lparr>w_db := put_delivery_attempt ?a (w_db w)\<rparr>"
  have y': "y \<in> set (tbl_deliveries (w_db ?v))" "distinct (map whd_ID (tbl_deliveries (w_db ?v)))"
    using y webhook_okD(1) [OF ok] by (simp_all add: put_delivery_attempt_def)
  note fin = finishDelivery_run [OF y'(2,1) st]
  from run obtain retry updated v1 where
    f: "finishDelivery (whd_ID y) ?s (Some (rew_ErrorCode r)) (Some (rew_ErrorDetail r)) retry ?v = (Inr updated, v1)"
    and rest: "(if \<not> updated then ret None
      else bnd (webhook_GetDelivery (whd_ID y)) (\<lambda>delivery. ret (Some delivery))) v1 = (Inr x, w')"
    unfolding recover_row_def Let_def by (auto simp: bnd_run [of "update_delivery_attempts _ _"] bnd_run [of "finishDelivery _ _ _ _ _"] upd)
  from f have v1: "updated" "delivery_check (finished_delivery ?s (Some (rew_ErrorCode r)) (Some (rew_ErrorDetail r)) retry (w_now w) y)"
    "w_db v1 = put_delivery (finished_delivery ?s (Some (rew_ErrorCode r)) (Some (rew_ErrorDetail r)) retry (w_now w) y)
        (put_delivery_attempt ?a (w_db w))" unfolding fin by (auto split: if_split_asm)
  from rest v1(1) have w': "w_db w' = w_db v1" by (auto simp: webhook_GetDelivery_def run_simps)
  have unanswered: "\<not> answered_ok a"
  proof -
    have "a \<in> set (attempts_for (whd_ID y) (w_db w))" using a own(1) by (simp add: attempts_for_def)
    from open_attempt_last [OF webhook_okD(4) [OF ok y, unfolded delivery_life_of_def] this own(2)]
    obtain bs where "attempts_for (whd_ID y) (w_db w) = bs @ [a]" by blast
    with webhook_okD(4) [OF ok y] st show ?thesis by (simp add: delivery_ok_def delivery_life_of_def)
  qed
  show ?thesis
    unfolding w' v1(3)
    by (rule closing_follows [OF ok y a own]; use v1(2) unanswered in \<open>simp add: abandoned_attempt_def closed_def answered_ok_def\<close>)
qed

lemma RecoverNextExpiredSending_follows: "keeps follows (RecoverNextExpiredSending r)"
proof (rule keeps_followsI)
  fix w x w'
  assume run: "RecoverNextExpiredSending r w = (Inr x, w')" and ok: "webhook_ok (w_db w)"
  show "follows (w_db w) (w_db w')"
  proof (cases "w_db w' = w_db w")
    case True
    then show ?thesis by (simp add: webhooks.R_refl)
  next
    case False
    with run obtain y a where
      sel: "first_by lease_key (filter (expired_sending (w_now w) (w_db w)) (tbl_deliveries (w_db w))) = Some y"
      and a: "find (\<lambda>a. wha_DeliveryID a = whd_ID y \<and> wha_AttemptNo a = whd_AttemptCount y \<and> wha_CompletedAt a = None)
            (tbl_delivery_attempts (w_db w)) = Some a"
      and step: "recover_row r y (wha_ID a) (consume (consume w)) = (Inr x, w')"
      by (auto simp: RecoverNextExpiredSending_eq on_row_run select_first_run no_rows_select_first no_rows_select select_row_run
          ret_run split: if_split_asm)
    have y: "y \<in> set (tbl_deliveries (w_db w))" "whd_Status y = WebhookDeliveryStatusSending"
      using first_by_Some [OF sel] by (auto simp: expired_sending_def)
    have a': "a \<in> set (tbl_delivery_attempts (w_db w))" "wha_DeliveryID a = whd_ID y" "\<not> closed a"
      using find_SomeD [OF a] by (auto simp: closed_def)
    from recover_row_follows [of "consume (consume w)" y a r x w'] ok y a' step show ?thesis by simp
  qed
qed

lemma ExhaustRetryBudget_follows: "keeps follows (ExhaustRetryBudget maxAttempts)"
proof (rule keeps_followsI)
  fix w x w'
  assume run: "ExhaustRetryBudget maxAttempts w = (Inr x, w')" and ok: "webhook_ok (w_db w)"
  let ?f = "\<lambda>t x. x\<lparr>whd_Status := WebhookDeliveryStatusDead, whd_NextAttemptAt := None, whd_UpdatedAt := t\<rparr>"
  show "follows (w_db w) (w_db w')"
  proof (cases "w_db w' = w_db w")
    case True
    then show ?thesis by (simp add: webhooks.R_refl)
  next
    case False
    with run obtain y where
      sel: "first_by (\<lambda>w. (whd_UpdatedAt w, whd_ID w)) (filter (exhausted maxAttempts) (tbl_deliveries (w_db w))) = Some y"
      and step: "bnd (update_deliveries (\<lambda>t x. whd_ID x = whd_ID y \<and> exhausted maxAttempts x) ?f) (\<lambda>n.
             if \<not> exactlyOneRow n then ret None
             else bnd (webhook_GetDelivery (whd_ID y)) (\<lambda>delivery. ret (Some delivery))) (consume w) = (Inr x, w')"
      by (auto simp: ExhaustRetryBudget_def on_row_run select_first_run no_rows_select_first ret_run split: if_split_asm)
    have y: "y \<in> set (tbl_deliveries (w_db w))" "exhausted maxAttempts y" using first_by_Some [OF sel] by auto
    let ?y = "?f (w_now w) y"
    have upd: "update_deliveries (\<lambda>t x. whd_ID x = whd_ID y \<and> exhausted maxAttempts x) ?f (consume w) = (Inr n, v)
        \<longleftrightarrow> next_fault (consume w) = None \<and> delivery_check ?y \<and> n = 1 \<and>
          v = (consume (consume w))\<lparr>w_db := put_delivery ?y (w_db w)\<rparr>" for n v
      using update_deliveries_one [of "consume w" y "\<lambda>t x. whd_ID x = whd_ID y \<and> exhausted maxAttempts x" ?f n v]
        webhook_okD(1) [OF ok] y by simp
    from step have d': "w_db w' = put_delivery ?y (w_db w)" and chk: "delivery_check ?y"
      by (auto simp: bnd_run upd exactlyOneRow_def webhook_GetDelivery_def query_row_run ret_run)
    have lives: "attempts_for j (w_db w') = attempts_for j (w_db w)" for j
      by (simp add: d' put_delivery_def attempts_for_def)
    show ?thesis
    proof (rule one_moved [OF ok y(1), of ?y])
      show "tbl_deliveries (w_db w') = map (\<lambda>x. if whd_ID x = whd_ID y then ?y else x) (tbl_deliveries (w_db w))"
        by (simp add: d' put_delivery_def)
      show "distinct (map wha_ID (tbl_delivery_attempts (w_db w')))"
        using webhook_okD(2) [OF ok] by (simp add: d' put_delivery_def)
      show "delivery_step (delivery_life_of y (w_db w)) (delivery_life_of ?y (w_db w'))"
        unfolding delivery_life_of_def lives
        by simp (rule delivery_step.exhaust; use y(2) in \<open>simp add: exhausted_def same_message_def\<close>)
      show "delivery_ok (delivery_life_of ?y (w_db w'))"
        using webhook_okD(4) [OF ok y(1)] chk y(2)
        by (simp add: delivery_ok_def delivery_life_of_def lives exhausted_def)
    qed (simp_all add: lives)
  qed
qed

subsection \<open>New Deliveries\<close>

interpretation creating: db_relation deliveries_added
proof
  show "deliveries_added d d" for d by (simp add: deliveries_added_def)
next
  fix d1 d2 d3
  assume 1: "deliveries_added d1 d2" and 2: "deliveries_added d2 d3"
  from 1 obtain a where a: "tbl_deliveries d2 = tbl_deliveries d1 @ a"
    "distinct (map whd_ID (tbl_deliveries d1)) \<longrightarrow> distinct (map whd_ID (tbl_deliveries d1 @ a))"
    "\<forall>w\<in>set a. whd_Status w = WebhookDeliveryStatusPending \<and> delivery_check w" by (auto simp: deliveries_added_def)
  from 2 obtain b where b: "tbl_deliveries d3 = tbl_deliveries d2 @ b"
    "distinct (map whd_ID (tbl_deliveries d2)) \<longrightarrow> distinct (map whd_ID (tbl_deliveries d2 @ b))"
    "\<forall>w\<in>set b. whd_Status w = WebhookDeliveryStatusPending \<and> delivery_check w" by (auto simp: deliveries_added_def)
  have "tbl_delivery_attempts d3 = tbl_delivery_attempts d1" using 1 2 by (simp add: deliveries_added_def)
  moreover have "tbl_deliveries d3 = tbl_deliveries d1 @ (a @ b)" using a(1) b(1) by simp
  moreover have "distinct (map whd_ID (tbl_deliveries d1)) \<longrightarrow> distinct (map whd_ID (tbl_deliveries d1 @ (a @ b)))"
    using a(1,2) b(2) by simp
  moreover have "\<forall>w\<in>set (a @ b). whd_Status w = WebhookDeliveryStatusPending \<and> delivery_check w" using a(3) b(3) by auto
  ultimately show "deliveries_added d1 d3" unfolding deliveries_added_def by blast
qed

lemma insertDelivery_adds:
  assumes "insertDelivery i p e body cfg origin w = (Inr u, w')" and "0 < wcf_configVersion cfg" and "body \<noteq> []" and "origin \<noteq> Some i"
  shows "deliveries_added (w_db w) (w_db w')"
  using assms
  by (auto simp: insertDelivery_def sql_run deliveries_added_def delivery_check_def list_ex_iff split: if_split_asm)

lemma usable_config_version: "usable_config p = Some cfg \<Longrightarrow> 0 < wcf_configVersion cfg"
  by (cases "prj_WebhookURL p"; cases "prj_CurrentWebhookSecretVersion p")
    (auto simp: usable_config_def split: if_split_asm)

lemma lockCurrentWebhookConfig_version:
  "lockCurrentWebhookConfig p w = (Inr (Some cfg), w') \<Longrightarrow> 0 < wcf_configVersion cfg \<and> w_db w' = w_db w"
  by (auto simp: lockCurrentWebhookConfig_def run_simps dest: usable_config_version [OF sym])

lemma lockCurrentWebhookConfig_reads: "reads (lockCurrentWebhookConfig p)"
  unfolding lockCurrentWebhookConfig_def by (intro reads_intros)

lemma CreateDelivery_adds: "keeps deliveries_added (CreateDelivery r)"
proof (rule keepsI)
  fix w x w'
  assume run: "CreateDelivery r w = (Inr x, w')"
  show "deliveries_added (w_db w) (w_db w')"
  proof (cases x)
    case None
    with run have "w_db w' = w_db w"
      using readsD [OF lockCurrentWebhookConfig_reads]
      by (auto simp: CreateDelivery_def on_row_run select_row_run no_rows_select fail_run ret_run bnd_run split: if_split_asm option.split_asm)
    then show ?thesis by (simp add: creating.R_refl)
  next
    case (Some delivery)
    with run obtain p cfg w1 w2 u where body: "cwd_RawBody r \<noteq> []"
      and lock: "lockCurrentWebhookConfig p (consume w) = (Inr (Some cfg), w1)"
      and ins: "insertDelivery (cwd_ID r) p (cwd_EventID r) (cwd_RawBody r) cfg None w1 = (Inr u, w2)"
      and get: "w' = consume w2"
      by (auto simp: CreateDelivery_def on_row_run select_row_run no_rows_select fail_run ret_run bnd_run
          webhook_GetDelivery_def query_row_run split: if_split_asm option.split_asm)
    from lockCurrentWebhookConfig_version [OF lock] insertDelivery_adds [OF ins] body get show ?thesis by simp
  qed
qed

lemma CreateReplay_follows: "keeps follows (CreateReplay r)"
proof (rule keeps_followsI)
  fix w x w'
  assume run: "CreateReplay r w = (Inr x, w')" and ok: "webhook_ok (w_db w)"
  from run obtain old cfg p w1 w2 u where
    new: "cwr_ID r \<noteq> cwr_ReplayOfDeliveryID r"
    and lock: "lockCurrentWebhookConfig p (consume w) = (Inr (Some cfg), w1)"
    and old: "old \<in> set (tbl_deliveries (w_db w1))"
    and ins: "insertDelivery (cwr_ID r) p (whd_EventID old) (whd_RawBody old) cfg (Some (cwr_ReplayOfDeliveryID r)) (consume w1) = (Inr u, w2)"
    and get: "w' = consume w2"
    by (auto simp: CreateReplay_def on_row_run select_row_run no_rows_select fail_run bnd_run webhook_GetDelivery_def
        query_row_run dest!: find_SomeD split: if_split_asm option.split_asm prod.split_asm)
  have db1: "w_db w1 = w_db w" "0 < wcf_configVersion cfg" using lockCurrentWebhookConfig_version [OF lock] by auto
  have "whd_RawBody old \<noteq> []"
    using webhook_okD(4) [OF ok] old db1 by (auto simp: delivery_ok_def delivery_life_of_def delivery_check_def)
  then have "deliveries_added (w_db (consume w1)) (w_db w2)" using insertDelivery_adds [OF ins] db1 new by simp
  then show "follows (w_db w) (w_db w')" using added_follows db1 get by simp
qed

end
