(* ===== verification/Webhook_Safety.thy ===== *)
theory Webhook_Safety
  imports Webhook_Life Sample_World
begin

text \<open>
  What holds of webhook Deliveries: their history under every schedule of workers and faults, the fencing of
  workers that lost their lease, and that a delivered answer is recorded.
\<close>

subsection \<open>The processes\<close>

definition same_webhooks :: "db \<Rightarrow> db \<Rightarrow> bool" where
  "same_webhooks d d' \<longleftrightarrow> tbl_deliveries d' = tbl_deliveries d \<and> tbl_delivery_attempts d' = tbl_delivery_attempts d"

interpretation elsewhere: db_relation same_webhooks
  by unfold_locales (auto simp: same_webhooks_def)

text \<open>
  One step of any process, with any arguments: a transaction of a worker (whichever lease it believes it
  holds), a replay, or anything else that does to these tables no more than to add pending Deliveries.
\<close>

inductive webhook_step :: "world \<Rightarrow> world \<Rightarrow> bool" where
  create: "webhook_step w (snd (WithinTransaction (CreateDelivery c) w))"
| replay: "webhook_step w (snd (WithinTransaction (CreateReplay p) w))"
| claim: "webhook_step w (snd (WithinTransaction (ClaimDue r) w))"
| complete: "keeps same_webhooks extra \<Longrightarrow> webhook_step w (snd (webhook_complete delivery leaseToken request extra w))"
| recover: "webhook_step w (snd (webhook_RecoverNext worker w))"
| exhaust: "webhook_step w (snd (webhook_ExhaustNext worker w))"
| elsewhere: "deliveries_added (w_db w) (w_db w') \<Longrightarrow> webhook_step w w'"

abbreviation webhook_run :: "world \<Rightarrow> world \<Rightarrow> bool" where
  "webhook_run \<equiv> webhook_step\<^sup>*\<^sup>*"

lemma same_webhooks_follows: "same_webhooks d d' \<Longrightarrow> follows d d'"
  by (rule added_follows) (auto simp: same_webhooks_def deliveries_added_def)

lemma complete_body_follows:
  assumes "keeps same_webhooks extra"
  shows "keeps follows (complete_body i leaseToken request extra)"
proof -
  have "keeps follows extra" using assms by (auto simp: keeps_def intro: same_webhooks_follows)
  then show ?thesis
    unfolding complete_body_def by (intro webhooks.keeps_intros CompleteAttempt_follows)
qed

lemma webhook_step_follows:
  assumes "webhook_step w w'"
  shows "follows (w_db w) (w_db w')"
  using assms
proof cases
  case (create c)
  have "keeps follows (CreateDelivery c)" using CreateDelivery_adds by (auto simp: keeps_def intro: added_follows)
  then show ?thesis unfolding create by (rule webhooks.transaction_related)
next
  case (replay p)
  show ?thesis unfolding replay by (rule webhooks.transaction_related [OF CreateReplay_follows])
next
  case (claim r)
  show ?thesis unfolding claim by (rule webhooks.transaction_related [OF ClaimDue_follows])
next
  case (complete extra delivery leaseToken request)
  show ?thesis unfolding complete(1) webhook_complete_def
    by (rule webhooks.transaction_related [OF complete_body_follows [OF complete(2)]])
next
  case (recover worker)
  show ?thesis unfolding recover webhook_RecoverNext_def
    by (intro webhooks.transaction_related webhooks.keeps_intros RecoverNextExpiredSending_follows)
next
  case (exhaust worker)
  show ?thesis unfolding exhaust webhook_ExhaustNext_def
    by (intro webhooks.transaction_related webhooks.keeps_intros ExhaustRetryBudget_follows)
next
  case elsewhere
  then show ?thesis by (rule added_follows)
qed

lemma webhook_run_follows: "webhook_run w w' \<Longrightarrow> follows (w_db w) (w_db w')"
  by (induction rule: rtranclp_induct) (auto intro: webhooks.R_refl webhooks.R_trans webhook_step_follows)

subsection \<open>The worker\<close>

text \<open>A call that moves the world along steps only, however it answers.\<close>

definition moves :: "(world \<Rightarrow> 'a \<times> world) \<Rightarrow> bool" where
  "moves m \<longleftrightarrow> (\<forall>w. webhook_run w (snd (m w)))"

lemma moves_step: "(\<And>w. webhook_step w (snd (m w))) \<Longrightarrow> moves m"
  by (auto simp: moves_def)

lemma moves_reads: "reads m \<Longrightarrow> moves m"
  by (auto simp: moves_def reads_def intro!: r_into_rtranclp webhook_step.elsewhere creating.R_refl)

lemma moves_bnd:
  assumes "moves m" and "\<And>x. moves (f x)"
  shows "moves (bnd m f)"
  unfolding moves_def
proof
  fix w
  obtain r w1 where run: "m w = (r, w1)" by fastforce
  with assms(1) have "webhook_run w w1" unfolding moves_def by (metis snd_conv)
  moreover have "webhook_run w1 (snd (f x w1))" for x using assms(2) unfolding moves_def by blast
  ultimately show "webhook_run w (snd (bnd m f w))"
    using run by (cases r) (auto simp: bnd_def intro: rtranclp_trans)
qed

lemma moves_on_error:
  assumes "moves m" and "\<And>e. moves (g e)" and "\<And>x. moves (f x)"
  shows "moves (on_error m g f)"
  unfolding moves_def
proof
  fix w
  obtain r w1 where run: "m w = (r, w1)" by fastforce
  with assms(1) have "webhook_run w w1" unfolding moves_def by (metis snd_conv)
  moreover have "webhook_run w1 (snd (f x w1))" "webhook_run w1 (snd (g e w1))" for x e
    using assms(2,3) unfolding moves_def by blast+
  ultimately show "webhook_run w (snd (on_error m g f w))"
    using run by (cases r) (auto simp: on_error_def intro: rtranclp_trans)
qed

lemma moves_if: "moves m \<Longrightarrow> moves n \<Longrightarrow> moves (if b then m else n)"
  by simp

lemma moves_option: "moves n \<Longrightarrow> (\<And>x. moves (s x)) \<Longrightarrow> moves (case v of None \<Rightarrow> n | Some x \<Rightarrow> s x)"
  by (cases v) simp_all

lemma moves_prod: "(\<And>x y. moves (s x y)) \<Longrightarrow> moves (case v of (x, y) \<Rightarrow> s x y)"
  by (cases v) simp

lemma audit_same_webhooks: "keeps same_webhooks (audit_Create a)"
  by (rule keepsI) (auto simp: audit_Create_def sql_run same_webhooks_def split: if_split_asm)

lemma decryption_audit_same: "keeps same_webhooks (decryption_audit delivery k)"
  unfolding decryption_audit_def
  by (intro elsewhere.keeps_bnd audit_same_webhooks elsewhere.keeps_reads reads_random)

lemma complete_moves: "keeps same_webhooks extra \<Longrightarrow> moves (webhook_complete delivery leaseToken request extra)"
  by (rule moves_step) (rule webhook_step.complete)

lemma completions_move:
  "moves (completeSuccess w delivery attempt leaseToken status summary)"
  "moves (completeFailure w delivery attempt leaseToken st sm code detail)"
  "moves (completeSecretFailure w delivery attempt leaseToken e)"
proof -
  show "moves (completeSuccess w delivery attempt leaseToken status summary)"
    "moves (completeFailure w delivery attempt leaseToken st sm code detail)"
    unfolding completeSuccess_def completeFailure_def by (intro complete_moves elsewhere.keeps_ret)+
  show "moves (completeSecretFailure w delivery attempt leaseToken e)"
    unfolding completeSecretFailure_def Let_def project_GetWebhookSecretVersion_def
    by (intro moves_if moves_bnd complete_moves elsewhere.keeps_ret decryption_audit_same moves_reads reads_intros)
qed

lemma dispatchClaimed_moves:
  assumes "\<And>p v. moves (whw_secrets w p v)" and "\<And>q. moves (whw_client w q)"
  shows "moves (webhook_dispatchClaimed w delivery attempt leaseToken)"
  unfolding webhook_dispatchClaimed_def handle_response_def Let_def
  by (intro moves_on_error moves_option moves_if completions_move assms)

lemma DispatchNext_moves:
  assumes "\<And>p v. moves (whw_secrets w p v)" and "\<And>q. moves (whw_client w q)"
  shows "moves (DispatchNext w)"
  unfolding DispatchNext_def
  by (intro moves_bnd moves_option moves_prod dispatchClaimed_moves assms)
    (auto intro: moves_reads moves_step webhook_step.claim)

lemma webhook_transaction_moves:
  "moves (webhook_RecoverNext w)" "moves (webhook_ExhaustNext w)"
  by (auto intro: moves_step webhook_step.recover webhook_step.exhaust)

text \<open>
  One turn of a webhook worker is a run of these steps, so that what every run keeps, every turn keeps,
  however secrets are resolved and whatever the endpoint answers.
\<close>

lemma worker_follows_the_steps:
  assumes "\<And>p v. moves (whw_secrets worker p v)" and "\<And>q. moves (whw_client worker q)"
  shows "webhook_run w (snd (runNext worker w))"
proof -
  have "moves (runNext worker)"
    unfolding runNext_def by (intro moves_bnd moves_if DispatchNext_moves webhook_transaction_moves assms moves_reads reads_ret)
  then show ?thesis by (simp add: moves_def)
qed

subsection \<open>History\<close>

lemma delivery_ok_numbers:
  assumes "delivery_ok (w, as)"
  shows "map wha_AttemptNo as = [1..whd_AttemptCount w]" and "whd_AttemptCount w \<le> 5"
    and "a \<in> set as \<Longrightarrow> \<not> closed a \<longleftrightarrow> whd_Status w = WebhookDeliveryStatusSending \<and> wha_AttemptNo a = whd_AttemptCount w"
    and "a \<in> set as \<Longrightarrow> answered_ok a \<longleftrightarrow> whd_Status w = WebhookDeliveryStatusDelivered \<and> wha_AttemptNo a = whd_AttemptCount w"
proof -
  have n: "int (length as) = whd_AttemptCount w" and nth: "\<And>i. i < length as \<Longrightarrow> wha_AttemptNo (as ! i) = int (Suc i)"
    and chk: "delivery_check w" and last: "as \<noteq> [] \<Longrightarrow> closed (last as) = (whd_Status w \<noteq> WebhookDeliveryStatusSending)"
      "as \<noteq> [] \<Longrightarrow> answered_ok (last as) = (whd_Status w = WebhookDeliveryStatusDelivered)"
    and others: "\<And>a. a \<in> set (butlast as) \<Longrightarrow> closed a \<and> \<not> answered_ok a"
    using assms by (auto simp: delivery_ok_def)
  show numbers: "map wha_AttemptNo as = [1..whd_AttemptCount w]"
    using n nth by (intro nth_equalityI) auto
  show "whd_AttemptCount w \<le> 5" by (rule delivery_checkD(2) [OF chk])
  assume a: "a \<in> set as"
  then obtain i where i: "i < length as" "as ! i = a" by (auto simp: in_set_conv_nth)
  have "(\<not> closed a \<longleftrightarrow> whd_Status w = WebhookDeliveryStatusSending \<and> wha_AttemptNo a = whd_AttemptCount w) \<and>
    (answered_ok a \<longleftrightarrow> whd_Status w = WebhookDeliveryStatusDelivered \<and> wha_AttemptNo a = whd_AttemptCount w)"
  proof (cases "Suc i = length as")
    case True
    have "as \<noteq> []" using i(1) by auto
    moreover have "length as - 1 = i" using True by simp
    ultimately have "as \<noteq> []" "a = last as" using i(2) by (simp_all add: last_conv_nth)
    moreover have "wha_AttemptNo a = whd_AttemptCount w" using nth [OF i(1)] i(2) n True by simp
    ultimately show ?thesis
      using last by auto
  next
    case False
    then have "i < length (butlast as)" using i(1) by simp
    then have "a \<in> set (butlast as)" using i(2) by (metis nth_butlast nth_mem)
    moreover have "wha_AttemptNo a \<noteq> whd_AttemptCount w" using nth [OF i(1)] i(2) n False by simp
    ultimately show ?thesis
      using others by auto
  qed
  then show "\<not> closed a \<longleftrightarrow> whd_Status w = WebhookDeliveryStatusSending \<and> wha_AttemptNo a = whd_AttemptCount w"
    "answered_ok a \<longleftrightarrow> whd_Status w = WebhookDeliveryStatusDelivered \<and> wha_AttemptNo a = whd_AttemptCount w"
    by blast+
qed

text \<open>
  C19. The books of a Delivery always balance. In every state that can be reached from one without Deliveries,
  the attempts of a Delivery are numbered from 1 to its attempt count, at most five; an attempt is open exactly
  if it is the last one of a Delivery that is being sent; and an attempt was answered with success exactly if
  it is the last one of a delivered Delivery, so that nothing is sent again after a success.
\<close>

theorem delivery_accounts:
  assumes "tbl_deliveries (w_db w0) = []" and "tbl_delivery_attempts (w_db w0) = []" and "webhook_run w0 w"
    and "y \<in> set (tbl_deliveries (w_db w))"
  shows "map wha_AttemptNo (attempts_for (whd_ID y) (w_db w)) = [1..whd_AttemptCount y] \<and> whd_AttemptCount y \<le> 5 \<and>
    (\<forall>a\<in>set (attempts_for (whd_ID y) (w_db w)).
       (\<not> closed a \<longleftrightarrow> whd_Status y = WebhookDeliveryStatusSending \<and> wha_AttemptNo a = whd_AttemptCount y) \<and>
       (answered_ok a \<longleftrightarrow> whd_Status y = WebhookDeliveryStatusDelivered \<and> wha_AttemptNo a = whd_AttemptCount y))"
proof -
  have "webhook_ok (w_db w0)" using assms(1,2) by (simp add: webhook_ok_def)
  with webhook_run_follows [OF assms(3)] have "webhook_ok (w_db w)" by (simp add: follows_def)
  from delivery_ok_numbers [OF webhook_okD(4) [OF this assms(4), unfolded delivery_life_of_def]] show ?thesis by blast
qed

text \<open>
  C20. The history of a Delivery. However the system runs on, a Delivery stays in the table with the target, the
  secret version and the very bytes it was created with, moves only along the transitions of its life, keeps
  the attempts it has finished as they are, and once delivered or dead never changes again.
\<close>

theorem delivery_history:
  assumes "webhook_ok (w_db w)" and "webhook_run w w'" and "y \<in> set (tbl_deliveries (w_db w))"
  shows "\<exists>y'\<in>set (tbl_deliveries (w_db w')). same_message y y' \<and>
    delivery_run (delivery_life_of y (w_db w)) (delivery_life_of y' (w_db w')) \<and>
    (\<exists>more. filter closed (attempts_for (whd_ID y) (w_db w')) = filter closed (attempts_for (whd_ID y) (w_db w)) @ more) \<and>
    (final_status (whd_Status y) \<longrightarrow> y' = y \<and> attempts_for (whd_ID y) (w_db w') = attempts_for (whd_ID y) (w_db w))"
proof -
  from webhook_run_follows [OF assms(2)] assms(1,3) obtain y' where y': "y' \<in> set (tbl_deliveries (w_db w'))"
    "whd_ID y' = whd_ID y" and run: "delivery_run (delivery_life_of y (w_db w)) (delivery_life_of y' (w_db w'))"
    by (auto simp: follows_def)
  from delivery_run_message [OF run] delivery_run_attempts [OF run] delivery_run_final [OF run] y' run
  show ?thesis by (intro bexI [of _ y']) (auto simp: delivery_life_of_def)
qed

subsection \<open>Leases\<close>

text \<open>
  C21. Only the holder of a Delivery's lease can complete its attempt. If the token is not the one of the lease,
  or the lease has run out, or the attempt is finished or is not the one under way, then completing it with any
  outcome returns an error and changes no table.
\<close>

theorem lost_delivery_lease_is_fenced:
  assumes ok: "webhook_ok (w_db w)"
    and lost: "\<And>y a. y \<in> set (tbl_deliveries (w_db w)) \<Longrightarrow> whd_ID y = whd_ID delivery \<Longrightarrow>
      a \<in> set (tbl_delivery_attempts (w_db w)) \<Longrightarrow> wha_ID a = cwa_AttemptID request \<Longrightarrow> wha_DeliveryID a = whd_ID delivery \<Longrightarrow>
      \<not> may_complete leaseToken (w_clock (tick w)) y a"
  shows "\<exists>e w'. webhook_complete delivery leaseToken request extra w = (Inl e, w') \<and> w_db w' = w_db w"
proof -
  have never: "complete_body (whd_ID delivery) leaseToken request extra (started w) \<noteq> (Inr x, w1)" for x w1
  proof
    assume "complete_body (whd_ID delivery) leaseToken request extra (started w) = (Inr x, w1)"
    then obtain b v where run: "webhook_CompleteAttempt (whd_ID delivery) leaseToken request (started w) = (Inr b, v)" and "b"
      by (auto simp: complete_body_def bnd_run fail_run split: if_split_asm)
    have "webhook_ok (w_db (started w))" using ok by simp
    with run have "\<not> b"
    proof (cases rule: webhook_CompleteAttempt_cases)
      case (closing y a status retry)
      then show ?thesis using lost [of y a] by (simp add: started_def)
    qed simp_all
    with \<open>b\<close> show False by simp
  qed
  show ?thesis
    unfolding webhook_complete_def
    by (cases rule: WithinTransaction_cases [of "complete_body (whd_ID delivery) leaseToken request extra" w])
      (use never in auto)
qed

lemma find_of_filter: "filter P xs = a # ys \<Longrightarrow> find P xs = Some a"
  by (induction xs) (auto split: if_splits)

lemma finished_check:
  assumes "delivery_check y" and "whd_Status y = WebhookDeliveryStatusSending"
    and "status \<in> {WebhookDeliveryStatusDelivered, WebhookDeliveryStatusFailed, WebhookDeliveryStatusDead}"
    and "status = WebhookDeliveryStatusFailed \<Longrightarrow> whd_AttemptCount y \<le> 4"
  shows "delivery_check (finished_delivery status code detail retry t y)"
  using assms delivery_checkD(1,2,4) [OF assms(1)]
  by (auto simp: delivery_check_def finished_delivery_def released_def)

text \<open>
  A result is recorded. If the holder of a valid lease completes the attempt under way with an outcome that
  \<open>webhookCompletion\<close> accepts, and the driver does not fail, the Delivery becomes what the outcome says:
  delivered for a success; otherwise failed, due again after the delay, or dead when its budget is spent.
\<close>

theorem completion_goes_ahead:
  assumes ok: "webhook_ok (w_db w)" and calm: "w_faults w = []"
    and y: "y \<in> set (tbl_deliveries (w_db w))" and a: "a \<in> set (tbl_delivery_attempts (w_db w))"
    and own: "whd_ID y = whd_ID delivery" "wha_ID a = cwa_AttemptID request" "wha_DeliveryID a = whd_ID delivery"
    and holds: "may_complete leaseToken (w_clock (tick w)) y a" and past: "wha_StartedAt a \<le> w_clock (tick w)"
    and budget: "validWebhookMaxAttempts (cwa_MaxAttempts request)"
    and outcome: "webhookCompletion (whd_AttemptCount y) (cwa_MaxAttempts request) (cwa_HTTPStatus request)
      (cwa_ErrorCode request) (cwa_ErrorDetail request) (cwa_RetryDelay request) = Some (status, retry)"
    and short: "case cwa_ResponseSummary request of None \<Rightarrow> True | Some s \<Rightarrow> length s \<le> 4096"
  shows "\<exists>w' y'. webhook_complete delivery leaseToken request (ret ()) w = (Inr (), w') \<and>
    y' \<in> set (tbl_deliveries (w_db w')) \<and> same_message y y' \<and> whd_Status y' = status \<and> whd_LeaseToken y' = None \<and>
    (status = WebhookDeliveryStatusFailed \<longrightarrow>
       whd_NextAttemptAt y' = Some (w_clock (tick w) + Microseconds (cwa_RetryDelay request) * Microsecond))"
proof -
  let ?t = "w_clock (tick w)" and ?s = "started w"
  have calm': "w_faults ?s = []" "w_now ?s = ?t" using calm by (simp_all add: started_def)
  have st: "whd_Status y = WebhookDeliveryStatusSending" and open_a: "\<not> closed a" and no: "wha_AttemptNo a = whd_AttemptCount y"
    using holds by (simp_all add: may_complete_def)
  have chk: "delivery_check y" using webhook_okD(4) [OF ok y] by (simp add: delivery_ok_def delivery_life_of_def)
  have final: "status \<in> {WebhookDeliveryStatusDelivered, WebhookDeliveryStatusFailed, WebhookDeliveryStatusDead}"
    and tries: "status = WebhookDeliveryStatusFailed \<Longrightarrow> whd_AttemptCount y \<le> 4 \<and> retry = cwa_RetryDelay request"
    and code: "case cwa_HTTPStatus request of None \<Rightarrow> True | Some s \<Rightarrow> 100 \<le> s \<and> s \<le> 599"
    using outcome budget
    by (auto simp: webhookCompletion_def validWebhookMaxAttempts_def webhookAttemptLimit_def split: if_split_asm option.splits)
  let ?y = "finished_delivery status (cwa_ErrorCode request) (cwa_ErrorDetail request) retry ?t y"
  have y_ok: "delivery_check ?y" using finished_check [OF chk st final] tries by blast
  have a_ok: "delivery_attempt_check (completed_attempt request ?t a)"
    using delivery_checkD(1,2,4) [OF chk] st no code short past by (simp add: delivery_attempt_check_def completed_attempt_def)
  have "find (\<lambda>x. whd_ID x = whd_ID delivery) (tbl_deliveries (w_db w)) = Some y"
    using find_unique [OF webhook_okD(1) [OF ok] y] own by simp
  moreover have "find (\<lambda>x. wha_ID x = cwa_AttemptID request \<and> wha_DeliveryID x = whd_ID delivery)
      (tbl_delivery_attempts (w_db w)) = Some a"
    by (rule find_of_filter [OF filter_unique [OF webhook_okD(2) [OF ok] a]]) (simp_all add: own)
  ultimately have lock: "lockDeliveryAttempt (whd_ID delivery) (cwa_AttemptID request) ?s =
      (Inr (locked_pair ?t y a), consume (consume ?s))"
    using calm' by (simp add: lockDeliveryAttempt_run)
  let ?v = "consume (consume ?s)" and ?a = "completed_attempt request ?t a"
  let ?v1 = "(consume ?v)\<lparr>w_db := put_delivery_attempt ?a (w_db w)\<rparr>"
  let ?v2 = "(consume ?v1)\<lparr>w_db := put_delivery ?y (w_db ?v1)\<rparr>"
  have calm2: "next_fault ?v = None" "next_fault ?v1 = None" "next_fault ?v2 = None" "w_now ?v = ?t" "w_now ?v1 = ?t"
    using calm' by simp_all
  have upd: "update_delivery_attempts
         (\<lambda>t b. wha_ID b = cwa_AttemptID request \<and> wha_DeliveryID b = whd_ID delivery \<and> wha_CompletedAt b = None)
         (completed_attempt request) ?v = (Inr 1, ?v1)"
    using webhook_okD(2) [OF ok] a own open_a a_ok calm2
    by (subst update_delivery_attempts_one [where ?a0.0 = a]) (auto simp: closed_def completed_attempt_def)
  have "finishDelivery (whd_ID y) status (cwa_ErrorCode request) (cwa_ErrorDetail request) retry ?v1 = (Inr True, ?v2)"
    using webhook_okD(1) [OF ok] y y_ok calm2 final st
    by (subst finishDelivery_run) (auto simp: put_delivery_attempt_def)
  with upd have "close_rows (whd_ID delivery) request status retry ?v = (Inr True, ?v2)"
    unfolding close_rows_def using own(1) by (simp add: bnd_Inr)
  with lock holds budget outcome have "webhook_CompleteAttempt (whd_ID delivery) leaseToken request ?s = (Inr True, ?v2)"
    unfolding webhook_CompleteAttempt_eq on_row_def by (simp add: locked_pair_def may_complete_def closed_def)
  then have "complete_body (whd_ID delivery) leaseToken request (ret ()) ?s = (Inr (), ?v2)"
    by (simp add: complete_body_def bnd_Inr ret_def)
  then have "webhook_complete delivery leaseToken request (ret ()) w = (Inr (), consume ?v2)"
    unfolding webhook_complete_def WithinTransaction_run using calm calm2(3) by auto
  moreover have "?y \<in> set (tbl_deliveries (w_db (consume ?v2)))"
    using y by (auto simp: put_delivery_def put_delivery_attempt_def)
  moreover have "same_message y ?y" "whd_Status ?y = status" "whd_LeaseToken ?y = None"
    by simp_all (simp add: finished_delivery_def released_def)
  moreover have "status = WebhookDeliveryStatusFailed \<longrightarrow>
      whd_NextAttemptAt ?y = Some (?t + Microseconds (cwa_RetryDelay request) * Microsecond)"
    using tries by (simp add: finished_delivery_def)
  ultimately show ?thesis by blast
qed

subsection \<open>Examples\<close>

definition pending_delivery :: WebhookDelivery where
  "pending_delivery =
     \<lparr>whd_ID = ''d1'', whd_ProjectID = ''p1'', whd_EventID = ''e1'', whd_TargetURL = ''https://example.com/hook'',
      whd_WebhookConfigVersion = 1, whd_WebhookSecretVersion = 1, whd_RawBody = ''{}'', whd_AttemptCount = 0,
      whd_Status = WebhookDeliveryStatusPending, whd_LastErrorCode = None, whd_LastErrorDetail = None,
      whd_NextAttemptAt = Some 0, whd_LeaseToken = None, whd_LeaseOwner = None, whd_LeaseExpiresAt = None,
      whd_ReplayOfDeliveryID = None, whd_DeliveredAt = None, whd_CreatedAt = 0, whd_UpdatedAt = 0\<rparr>"

definition sending_delivery :: WebhookDelivery where
  "sending_delivery = pending_delivery\<lparr>whd_Status := WebhookDeliveryStatusSending, whd_AttemptCount := 1,
     whd_NextAttemptAt := None, whd_LeaseToken := Some ''lease'', whd_LeaseOwner := Some ''worker'',
     whd_LeaseExpiresAt := Some (20 * Second)\<rparr>"

definition open_attempt :: WebhookDeliveryAttempt where
  "open_attempt = opened_attempt ''a1'' Second sending_delivery"

definition pending_world :: world where
  "pending_world = world_at (blank_db\<lparr>tbl_deliveries := [pending_delivery]\<rparr>) Second"

definition sending_world :: world where
  "sending_world = world_at (blank_db\<lparr>tbl_deliveries := [sending_delivery], tbl_delivery_attempts := [open_attempt]\<rparr>) (2 * Second)"

lemmas webhook_samples = pending_delivery_def sending_delivery_def open_attempt_def opened_attempt_def pending_world_def
  sending_world_def blank_db_def

lemma sending_world_ok: "webhook_ok (w_db sending_world)"
  by (simp add: webhook_ok_def webhook_samples delivery_life_of_def attempts_for_def delivery_ok_def delivery_check_def
      closed_def answered_ok_def)

definition sample_answer :: CompleteWebhookAttemptRequest where
  "sample_answer = \<lparr>cwa_AttemptID = ''a1'', cwa_HTTPStatus = Some 204, cwa_ResponseSummary = Some ''{}'',
     cwa_ErrorCode = None, cwa_ErrorDetail = None, cwa_RetryDelay = 0, cwa_MaxAttempts = 5\<rparr>"

text \<open>A worker whose endpoint answers 200 to everything.\<close>

definition sample_worker :: WebhookWorker where
  "sample_worker =
     \<lparr>whw_secrets = (\<lambda>p v. ret ''secret''),
      whw_client = (\<lambda>q. ret \<lparr>hrs_StatusCode = 200, hrs_ContentType = [], hrs_Body = [], hrs_ReadError = False\<rparr>),
      whw_workerID = ''worker'', whw_pollInterval = Second, whw_leaseDuration = 15 * Second, whw_maxAttempts = 5,
      whw_retrySchedule = defaultRetrySchedule\<rparr>"

definition sample_claim :: ClaimWebhookRequest where
  "sample_claim = \<lparr>cwq_WorkerID = ''worker'', cwq_LeaseToken = ''lease'', cwq_LeaseDuration = 15 * Second, cwq_MaxAttempts = 5\<rparr>"

lemma claim_reachable: "webhook_run (world_at blank_db 0) (snd (WithinTransaction (ClaimDue sample_claim) pending_world))"
proof -
  have "webhook_step (world_at blank_db 0) pending_world"
    by (rule webhook_step.elsewhere)
      (simp add: deliveries_added_def webhook_samples delivery_check_def)
  then show ?thesis by (meson r_into_rtranclp rtranclp.rtrancl_into_rtrancl webhook_step.claim)
qed

theorem delivery_accounts_witness:
  "\<exists>y\<in>set (tbl_deliveries (w_db (snd (WithinTransaction (ClaimDue sample_claim) pending_world)))).
     whd_Status y = WebhookDeliveryStatusSending \<and>
     map wha_AttemptNo (attempts_for (whd_ID y) (w_db (snd (WithinTransaction (ClaimDue sample_claim) pending_world)))) =
       [1..whd_AttemptCount y] \<and> whd_AttemptCount y = 1"
proof -
  let ?d = "w_db (snd (WithinTransaction (ClaimDue sample_claim) pending_world))"
  have "\<exists>y\<in>set (tbl_deliveries ?d). whd_Status y = WebhookDeliveryStatusSending \<and> whd_AttemptCount y = 1"
    by code_simp
  then obtain y where y: "y \<in> set (tbl_deliveries ?d)" "whd_Status y = WebhookDeliveryStatusSending" "whd_AttemptCount y = 1" by blast
  with delivery_accounts [OF _ _ claim_reachable y(1)] show ?thesis by (auto simp: blank_db_def)
qed

theorem delivery_history_witness:
  "\<exists>y'\<in>set (tbl_deliveries (w_db (snd (webhook_complete sending_delivery ''lease'' sample_answer (ret ()) sending_world)))).
     same_message sending_delivery y'"
proof -
  have "webhook_run sending_world (snd (webhook_complete sending_delivery ''lease'' sample_answer (ret ()) sending_world))"
    by (intro r_into_rtranclp webhook_step.complete elsewhere.keeps_ret)
  from delivery_history [OF sending_world_ok this, of sending_delivery] show ?thesis
    by (auto simp: sending_world_def)
qed

theorem lost_delivery_lease_is_fenced_witness:
  "\<exists>e w'. webhook_complete sending_delivery ''stolen'' sample_answer (ret ()) sending_world = (Inl e, w') \<and>
     w_db w' = w_db sending_world"
  by (rule lost_delivery_lease_is_fenced [OF sending_world_ok])
    (auto simp: webhook_samples may_complete_def reason_text_def)

theorem completion_goes_ahead_witness:
  "\<exists>w' y'. webhook_complete sending_delivery ''lease'' sample_answer (ret ()) sending_world = (Inr (), w') \<and>
    y' \<in> set (tbl_deliveries (w_db w')) \<and> whd_Status y' = WebhookDeliveryStatusDelivered"
proof -
  have holds: "may_complete ''lease'' (w_clock (tick sending_world)) sending_delivery open_attempt"
    by (simp add: webhook_samples may_complete_def reason_text_def closed_def)
  have "\<exists>w' y'. webhook_complete sending_delivery ''lease'' sample_answer (ret ()) sending_world = (Inr (), w') \<and>
    y' \<in> set (tbl_deliveries (w_db w')) \<and> same_message sending_delivery y' \<and> whd_Status y' = WebhookDeliveryStatusDelivered \<and>
    whd_LeaseToken y' = None \<and>
    (WebhookDeliveryStatusDelivered = WebhookDeliveryStatusFailed \<longrightarrow>
       whd_NextAttemptAt y' = Some (w_clock (tick sending_world) + Microseconds (cwa_RetryDelay sample_answer) * Microsecond))"
    by (rule completion_goes_ahead [OF sending_world_ok _ _ _ _ _ _ holds, where retry = 0])
      (simp_all add: sample_answer_def validWebhookMaxAttempts_def webhookAttemptLimit_def webhookCompletion_def webhook_samples)
  then show ?thesis by blast
qed

end
