(* ===== verification/Webhook_Answer.thy ===== *)
theory Webhook_Answer
  imports Webhook_Safety
begin

text \<open>
  What one dispatch of the webhook worker records: the outcome of the exchange with the endpoint, and of
  nothing else.
\<close>

subsection \<open>The specification\<close>




subsection \<open>Completing\<close>





subsection \<open>A dispatch\<close>










end
