(* ===== verification/Egress_Safety.thy ===== *)
theory Egress_Safety
  imports Webhook_Worker Sample_World
begin

text \<open>
  The egress policy: what the table of special prefixes means for IPv4, that nothing is dialed before every
  address of the answer has been accepted, and that a signature covers what it says.
\<close>

subsection \<open>The table against ranges of octets\<close>

text \<open>The IPv4 addresses that are reserved, by their octets.\<close>

definition reserved4 :: "nat \<Rightarrow> nat \<Rightarrow> nat \<Rightarrow> bool" where
  "reserved4 a b c \<longleftrightarrow>
     a = 0 \<or> a = 10 \<or> (a = 100 \<and> 64 \<le> b \<and> b < 128) \<or> a = 127 \<or> (a = 169 \<and> b = 254) \<or>
     (a = 172 \<and> 16 \<le> b \<and> b < 32) \<or> (a = 192 \<and> b = 0 \<and> c = 0) \<or> (a = 192 \<and> b = 0 \<and> c = 2) \<or>
     (a = 192 \<and> b = 88 \<and> c = 99) \<or> (a = 192 \<and> b = 168) \<or> (a = 198 \<and> (b = 18 \<or> b = 19)) \<or>
     (a = 198 \<and> b = 51 \<and> c = 100) \<or> (a = 203 \<and> b = 0 \<and> c = 113) \<or> 224 \<le> a"

definition ipv4 :: "nat \<Rightarrow> nat \<Rightarrow> nat \<Rightarrow> nat \<Rightarrow> addr" where
  "ipv4 a b c d = fst (CIDR a b c d 32)"

lemma octets:
  fixes a b c d :: nat
  assumes "b < 256" "c < 256" "d < 256"
  defines "n \<equiv> ((a * 256 + b) * 256 + c) * 256 + d"
  shows "n div 2 ^ 8 = (a * 256 + b) * 256 + c" and "n div 2 ^ 16 = a * 256 + b" and "n div 2 ^ 24 = a"
proof -
  have split: "(x * 256 + y) div 2 ^ 8 = x" if "y < 256" for x y :: nat using that by simp
  have step: "n div 2 ^ 16 = n div 2 ^ 8 div 2 ^ 8" "n div 2 ^ 24 = n div 2 ^ 16 div 2 ^ 8"
    by (simp_all add: div_mult2_eq [symmetric])
  show 8: "n div 2 ^ 8 = (a * 256 + b) * 256 + c" unfolding n_def by (rule split [OF assms(3)])
  show 16: "n div 2 ^ 16 = a * 256 + b" unfolding step 8 by (rule split [OF assms(2)])
  show "n div 2 ^ 24 = a" unfolding step 16 [unfolded step] by (rule split [OF assms(1)])
qed

lemma octet_pair: "b < 256 \<Longrightarrow> q < 256 \<Longrightarrow> a * 256 + b = p * 256 + q \<longleftrightarrow> a = p \<and> b = (q::nat)"
proof
  assume b: "b < 256" "q < 256" and eq: "a * 256 + b = p * 256 + q"
  have "(a * 256 + b) div 256 = a" "(p * 256 + q) div 256 = p" using b by simp_all
  with eq show "a = p \<and> b = q" by simp
qed simp

lemma bits4:
  assumes "a < 256" "b < 256" "c < 256" "d < 256"
  shows "addr_bits (ipv4 a b c d) = ((a * 256 + b) * 256 + c) * 256 + d"
proof -
  have fits: "unat (of_nat n :: 32 word) = n" if "n < 2 ^ 32" for n using that by (simp add: unat_of_nat)
  have "((a * 256 + b) * 256 + c) * 256 + d < 2 ^ 32" using assms by simp
  from fits [OF this] show ?thesis by (simp only: ipv4_def CIDR_def fst_conv addr_bits.simps)
qed

lemma contains_bits:
  "prefix_Contains (CIDR p q r 0 bits) (ipv4 a b c d) \<longleftrightarrow>
     addr_bits (ipv4 a b c d) div 2 ^ (32 - bits) = addr_bits (ipv4 p q r 0) div 2 ^ (32 - bits)"
  by (simp add: prefix_Contains_def CIDR_def ipv4_def)

lemma contains4:
  assumes "a < 256" "b < 256" "c < 256" "d < 256" and "p < 256" "q < 256" "r < 256"
  shows "prefix_Contains (CIDR p q r 0 8) (ipv4 a b c d) \<longleftrightarrow> a = p"
    and "prefix_Contains (CIDR p q r 0 16) (ipv4 a b c d) \<longleftrightarrow> a = p \<and> b = q"
    and "prefix_Contains (CIDR p q r 0 24) (ipv4 a b c d) \<longleftrightarrow> a = p \<and> b = q \<and> c = r"
    and "k \<le> 8 \<Longrightarrow> prefix_Contains (CIDR p q r 0 k) (ipv4 a b c d) \<longleftrightarrow> a div 2 ^ (8 - k) = p div 2 ^ (8 - k)"
    and "k \<le> 8 \<Longrightarrow> prefix_Contains (CIDR p q r 0 (8 + k)) (ipv4 a b c d) \<longleftrightarrow>
      (a * 256 + b) div 2 ^ (8 - k) = (p * 256 + q) div 2 ^ (8 - k)"
proof -
  note n = octets [OF assms(2,3,4), of a, folded bits4 [OF assms(1-4)]]
  have "addr_bits (ipv4 p q r 0) div 2 ^ 8 = (p * 256 + q) * 256 + r" "addr_bits (ipv4 p q r 0) div 2 ^ 16 = p * 256 + q"
    "addr_bits (ipv4 p q r 0) div 2 ^ 24 = p"
    using octets [OF assms(6,7), of 0 p] bits4 [OF assms(5,6,7), of 0] by simp_all
  note eqs = n this
  have diff_bits: "32 - 16 = (16::nat)" "32 - 24 = (8::nat)" by simp_all
  show "prefix_Contains (CIDR p q r 0 8) (ipv4 a b c d) \<longleftrightarrow> a = p"
    unfolding contains_bits using eqs by simp
  show "prefix_Contains (CIDR p q r 0 16) (ipv4 a b c d) \<longleftrightarrow> a = p \<and> b = q"
    unfolding contains_bits by (simp only: diff_bits eqs octet_pair [OF assms(2,6)])
  show "prefix_Contains (CIDR p q r 0 24) (ipv4 a b c d) \<longleftrightarrow> a = p \<and> b = q \<and> c = r"
    unfolding contains_bits
    by (simp only: diff_bits eqs octet_pair [OF assms(2,6)] octet_pair [OF assms(3,7)] conj_assoc)
  assume k: "k \<le> 8"
  have width: "32 - k = 24 + (8 - k)" "32 - (8 + k) = 16 + (8 - k)" using k by simp_all
  have "x div 2 ^ (32 - k) = x div 2 ^ 24 div 2 ^ (8 - k)" for x :: nat
    unfolding width(1) by (simp only: power_add div_mult2_eq)
  then show "prefix_Contains (CIDR p q r 0 k) (ipv4 a b c d) \<longleftrightarrow> a div 2 ^ (8 - k) = p div 2 ^ (8 - k)"
    unfolding contains_bits using eqs by simp
  have "x div 2 ^ (32 - (8 + k)) = x div 2 ^ 16 div 2 ^ (8 - k)" for x :: nat
    unfolding width(2) by (simp only: power_add div_mult2_eq)
  then show "prefix_Contains (CIDR p q r 0 (8 + k)) (ipv4 a b c d) \<longleftrightarrow>
      (a * 256 + b) div 2 ^ (8 - k) = (p * 256 + q) div 2 ^ (8 - k)"
    unfolding contains_bits using eqs by simp
qed

lemma contains6: "\<not> prefix_Contains (CIDR6 h l bits) (ipv4 a b c d)"
  by (simp add: prefix_Contains_def CIDR6_def ipv4_def CIDR_def)

lemma global4:
  assumes "a < 256" "b < 256" "c < 256" "d < 256" and "\<not> reserved4 a b c"
  shows "IsGlobalUnicast (ipv4 a b c d)"
proof -
  define n where "n = ((a * 256 + b) * 256 + c) * 256 + d"
  have n: "n < 2 ^ 32" using assms(1-4) by (simp add: n_def)
  then have u: "unat (of_nat n :: 32 word) = n" by (simp add: unat_of_nat)
  have addr: "ipv4 a b c d = IPv4 (of_nat n)" by (simp only: ipv4_def CIDR_def fst_conv n_def)
  note o = octets [OF assms(2,3,4), of a, folded n_def]
  have a: "a \<noteq> 0" "a \<noteq> 127" "a < 224" "\<not> (a = 169 \<and> b = 254)" using assms(5) by (auto simp: reserved4_def)
  have "(of_nat n :: 32 word) \<noteq> 0" using u o(3) a(1) by auto
  moreover have "(of_nat n :: 32 word) \<noteq> - 1"
  proof
    assume "(of_nat n :: 32 word) = - 1"
    moreover have "unat (- 1 :: 32 word) = 2 ^ 32 - 1" by (simp add: unsigned_minus_1_eq_mask mask_eq_exp_minus_1)
    ultimately have "n = 2 ^ 32 - 1" using u by metis
    with o(3) a(3) show False by simp
  qed
  moreover have "n div 2 ^ 28 = a div 16"
  proof -
    have "(2::nat) ^ 28 = 2 ^ 24 * 2 ^ 4" by simp
    then have "n div 2 ^ 28 = n div 2 ^ 24 div 2 ^ 4" by (simp only: div_mult2_eq)
    with o(3) show ?thesis by simp
  qed
  ultimately show ?thesis
    using o a octet_pair [OF assms(2), of 254 a 169] by (auto simp: IsGlobalUnicast_def addr u)
qed

lemma div_range: "0 < m \<Longrightarrow> x div m = k \<longleftrightarrow> k * m \<le> x \<and> x < k * m + (m::nat)"
  by (metis add.commute div_less_iff_less_mult less_eq_div_iff_mult_less_eq mult_Suc nle_le not_less_eq_eq verit_comp_simplify1(3))

lemma slice:
  fixes b :: nat
  assumes "b < 256" and "h \<le> 256"
  shows "p * 256 + l \<le> a * 256 + b \<and> a * 256 + b < p * 256 + h \<longleftrightarrow> a = p \<and> l \<le> b \<and> b < h"
  using assms by (cases a p rule: linorder_cases) auto

lemma list_ex_rows: "list_ex P (x # xs) \<longleftrightarrow> P x \<or> list_ex P xs" "list_ex P [] \<longleftrightarrow> False"
  by simp_all

text \<open>
  C33. For IPv4 the table of special prefixes and the tests on the address class together say exactly this: an
  address is public if and only if its octets are in none of the reserved ranges.
\<close>

theorem public_ipv4:
  assumes "a < 256" "b < 256" "c < 256" "d < 256"
  shows "publicAddress (ipv4 a b c d) \<longleftrightarrow> \<not> reserved4 a b c"
proof -
  note c4 = contains4 [OF assms]
  have unmap: "Unmap (ipv4 a b c d) = ipv4 a b c d" by (simp add: ipv4_def CIDR_def)
  have shared: "prefix_Contains (CIDR 100 64 0 0 10) (ipv4 a b c d) \<longleftrightarrow> (a * 256 + b) div 64 = 401"
    "prefix_Contains (CIDR 172 16 0 0 12) (ipv4 a b c d) \<longleftrightarrow> (a * 256 + b) div 16 = 2753"
    "prefix_Contains (CIDR 198 18 0 0 15) (ipv4 a b c d) \<longleftrightarrow> (a * 256 + b) div 2 = 25353"
    "prefix_Contains (CIDR 224 0 0 0 4) (ipv4 a b c d) \<longleftrightarrow> a div 16 = 14"
    "prefix_Contains (CIDR 240 0 0 0 4) (ipv4 a b c d) \<longleftrightarrow> a div 16 = 15"
    using c4(5) [of 100 64 0 2] c4(5) [of 172 16 0 4] c4(5) [of 198 18 0 7] c4(4) [of 224 0 0 4] c4(4) [of 240 0 0 4] by simp_all
  have r1: "(a * 256 + b) div 64 = 401 \<longleftrightarrow> a = 100 \<and> 64 \<le> b \<and> b < 128"
    using slice [OF assms(2), of 128 100 64 a] by (simp add: div_range)
  have r2: "(a * 256 + b) div 16 = 2753 \<longleftrightarrow> a = 172 \<and> 16 \<le> b \<and> b < 32"
    using slice [OF assms(2), of 32 172 16 a] by (simp add: div_range)
  have r3: "(a * 256 + b) div 2 = 25353 \<longleftrightarrow> a = 198 \<and> 18 \<le> b \<and> b < 20"
    using slice [OF assms(2), of 20 198 18 a] by (simp add: div_range)
  have r4: "18 \<le> b \<and> b < 20 \<longleftrightarrow> b = 18 \<or> b = 19" by auto
  have r5: "224 \<le> a \<longleftrightarrow> a div 16 = 14 \<or> a div 16 = 15"
    using assms(1) by (auto simp: div_range)
  have table: "list_ex (\<lambda>p. prefix_Contains p (ipv4 a b c d)) nonPublicAddressPrefixes \<longleftrightarrow> reserved4 a b c"
    unfolding nonPublicAddressPrefixes_def reserved4_def r5 list_ex_rows shared r1 r2 r3 r4
    by (simp add: contains6 c4(1-3))
  show ?thesis
    using table global4 [OF assms] by (auto simp: publicAddress_def unmap)
qed

subsection \<open>What is dialed\<close>

lemma allowed_all_Some: "allowed_all allowlist as = Some bs \<Longrightarrow> bs = map Unmap as \<and> list_all (egress_allows allowlist) as"
  by (induction as arbitrary: bs) (auto simp: egress_allows_def Unmap_idem split: if_split_asm)

lemma dial_first_calls:
  assumes "\<And>peer v. calls (snd (dial peer v)) = calls v @ [peer]"
  shows "\<exists>k. calls (snd (dial_first dial port as e s)) = calls s @ map (\<lambda>a. JoinHostPort (addr_String a) port) (take k as)"
proof (induction as arbitrary: e s)
  case (Cons a as)
  obtain r s1 where run: "dial (JoinHostPort (addr_String a) port) s = (r, s1)" by fastforce
  with assms [of "JoinHostPort (addr_String a) port" s] have s1: "calls s1 = calls s @ [JoinHostPort (addr_String a) port]" by simp
  show ?case
  proof (cases r)
    case (Inl e')
    from Cons [of e' s1] obtain k where
      "calls (snd (dial_first dial port as e' s1)) = calls s1 @ map (\<lambda>a. JoinHostPort (addr_String a) port) (take k as)" by blast
    with run Inl s1 show ?thesis by (intro exI [of _ "Suc k"]) simp
  next
    case (Inr c)
    with run s1 show ?thesis by (intro exI [of _ "Suc 0"]) simp
  qed
qed (auto intro: exI [of _ 0])

text \<open>
  C32. The egress policy cannot be evaded by a name. Whatever the resolver answers and whichever connections
  fail, the dialer connects to nothing but addresses the resolver gave for the host, in their order; and it
  connects to none at all unless every one of them is allowed: not an address of a metadata service, and
  either public or in the configured allow list.
\<close>

theorem dial_confined:
  assumes "\<And>peer v. calls (snd (dial peer v)) = calls v @ [peer]"
  shows "calls (snd (DialContext resolver dial allowlist address s)) = calls s \<or>
    (\<exists>host port as k. SplitHostPort address = Some (host, port) \<and> resolver host = Some as \<and>
       calls (snd (DialContext resolver dial allowlist address s)) =
         calls s @ map (\<lambda>a. JoinHostPort (addr_String (Unmap a)) port) (take k as) \<and>
       (\<forall>a\<in>set as. \<not> forbiddenMetadataAddress (Unmap a) \<and>
          (publicAddress (Unmap a) \<or> explicitlyAllowed allowlist (Unmap a))))"
proof (cases "SplitHostPort address")
  case (Some hp)
  obtain host port where hp: "hp = (host, port)" by fastforce
  show ?thesis
  proof (cases "egress_resolve resolver allowlist host")
    case None
    with Some hp show ?thesis by (simp add: DialContext_def)
  next
    case (Some bs)
    then obtain as where as: "resolver host = Some as" "allowed_all allowlist as = Some bs"
      by (auto simp: egress_resolve_def split: option.split_asm if_split_asm)
    note allowed = allowed_all_Some [OF as(2)]
    obtain k where "calls (snd (dial_first dial port bs ErrTargetRejected s)) =
        calls s @ map (\<lambda>a. JoinHostPort (addr_String a) port) (take k bs)"
      using dial_first_calls [of calls dial, OF assms] by blast
    with Some hp \<open>SplitHostPort address = Some hp\<close> as(1) allowed show ?thesis
      by (intro disjI2 exI [of _ host] exI [of _ port] exI [of _ as] exI [of _ k])
        (auto simp: DialContext_def take_map o_def list_all_iff egress_allows_def Let_def)
  qed
qed (simp add: DialContext_def)

subsection \<open>What is signed\<close>

lemma digits_only: "list_all is_digit (decimal_digits n)" "CHR ''.'' \<notin> set (decimal_digits n)" "CHR ''-'' \<notin> set (decimal_digits n)"
proof -
  show d: "list_all is_digit (decimal_digits n)" by (rule digits_decimal_digits)
  have "\<not> is_digit CHR ''.''" "\<not> is_digit CHR ''-''" by code_simp+
  with d show "CHR ''.'' \<notin> set (decimal_digits n)" "CHR ''-'' \<notin> set (decimal_digits n)" by (auto simp: list_all_iff)
qed

lemma show_int_no_dot: "CHR ''.'' \<notin> set (show_int i)"
  using digits_only by (simp add: show_int_def)

lemma decimal_digits_inject: "decimal_digits m = decimal_digits n \<longleftrightarrow> m = n"
  by (metis decimal_value_decimal_digits)

lemma show_int_inject: "show_int i = show_int j \<longleftrightarrow> i = j"
proof -
  have "decimal_digits m \<noteq> CHR ''-'' # t" for m t using digits_only(3) [of m] by auto
  then show ?thesis using decimal_digits_inject by (auto simp: show_int_def dest: sym)
qed

lemma separated_inject:
  "c \<notin> set x \<Longrightarrow> c \<notin> set y \<Longrightarrow> x @ c # s = y @ c # t \<longleftrightarrow> x = y \<and> s = t"
proof (induction x arbitrary: y)
  case Nil
  then show ?case by (cases y) auto
next
  case (Cons a x)
  then show ?case by (cases y) auto
qed

text \<open>
  A webhook signature covers all that it names: the text that is signed determines the time stamp, the
  version of the secret and the body, so a signature cannot be moved to another body, time or secret.
\<close>

theorem signed_text_injective:
  "signed_text timestamp version body = signed_text timestamp' version' body' \<longleftrightarrow>
     timestamp' = timestamp \<and> version' = version \<and> body' = body"
proof -
  have "signed_text t v b = ''v1.'' @ show_int t @ CHR ''.'' # show_int v @ CHR ''.'' # b" for t v b
    by (simp add: signed_text_def)
  then show ?thesis by (auto simp: separated_inject show_int_no_dot show_int_inject)
qed

subsection \<open>Examples\<close>

theorem public_ipv4_witness: "publicAddress (ipv4 8 8 8 8) \<and> \<not> publicAddress (ipv4 169 254 169 254)"
  using public_ipv4 [of 8 8 8 8] public_ipv4 [of 169 254 169 254] by (simp add: reserved4_def)

definition sample_dial :: "gostr \<Rightarrow> gostr list \<Rightarrow> (goerr + unit) \<times> gostr list" where
  "sample_dial peer log = (Inl (ErrDriver ''refused''), log @ [peer])"

text \<open>A name that resolves to a public address and to one of the metadata service: nothing is dialed.\<close>

theorem dial_confined_witness:
  "snd (DialContext (\<lambda>h. Some [ipv4 8 8 8 8, ipv4 169 254 169 254]) sample_dial [] ''example.com:443'' []) = []"
proof -
  have split: "SplitHostPort ''example.com:443'' = Some (''example.com'', ''443'')" by code_simp
  have bad: "\<not> egress_allows [] (ipv4 169 254 169 254)"
    by (simp add: egress_allows_def forbiddenMetadataAddress_def metadata_addresses_def ipv4_def CIDR_def)
  have "(\<lambda>l. l) (snd (DialContext (\<lambda>h. Some [ipv4 8 8 8 8, ipv4 169 254 169 254]) sample_dial [] ''example.com:443'' [])) = [] \<or>
    (\<exists>host port as k. SplitHostPort ''example.com:443'' = Some (host, port) \<and> Some [ipv4 8 8 8 8, ipv4 169 254 169 254] = Some as \<and>
       (\<lambda>l. l) (snd (DialContext (\<lambda>h. Some [ipv4 8 8 8 8, ipv4 169 254 169 254]) sample_dial [] ''example.com:443'' [])) =
         [] @ map (\<lambda>a. JoinHostPort (addr_String (Unmap a)) port) (take k as) \<and>
       (\<forall>a\<in>set as. \<not> forbiddenMetadataAddress (Unmap a) \<and>
          (publicAddress (Unmap a) \<or> explicitlyAllowed [] (Unmap a))))"
    by (rule dial_confined) (simp add: sample_dial_def)
  then show ?thesis using bad by (auto simp: egress_allows_def Let_def)
qed

end
