(* ===== verification/Simulator.thy ===== *)
theory Simulator
  imports Command_Service Sample_World
begin

text \<open>
  The simulator: its configuration row (the second half of \<open>postgres_webhook_simulator.go\<close>), the service
  that changes it (\<open>internal/simulator/service.go\<close>) and the adapter that plays a Provider
  (\<open>internal/simulator/adapter.go\<close>). The worker takes a snapshot of the configuration in the transaction
  that claims a Command; the adapter answers from that snapshot and never from the current row.
\<close>

subsection \<open>The configuration row\<close>

record UpdateSimulatorRequest =
  usr_Outcome :: SimulatorOutcome
  usr_Delay :: duration

definition validOutcome :: "SimulatorOutcome \<Rightarrow> bool" where
  "validOutcome outcome = (case outcome of SimulatorOutcomeOther _ \<Rightarrow> False | _ \<Rightarrow> True)"

definition validSimulatorUpdate :: "UpdateSimulatorRequest \<Rightarrow> bool" where
  "validSimulatorUpdate r \<longleftrightarrow>
     \<not> (usr_Delay r < 0 \<or> 60 * Second < usr_Delay r \<or> usr_Delay r mod Millisecond \<noteq> 0) \<and>
     validOutcome (usr_Outcome r)"

text \<open>The table has one row (its key is the constant \<open>singleton\<close>); \<open>FOR UPDATE\<close> reads the same row.\<close>

definition simulator_Get :: "SimulatorConfig tx" where
  "simulator_Get = query_row tbl_simulator (\<lambda>t c. True)"

definition simulator_GetForUpdate :: "SimulatorConfig tx" where
  "simulator_GetForUpdate = query_row tbl_simulator (\<lambda>t c. True)"

definition configured :: "UpdateSimulatorRequest \<Rightarrow> instant \<Rightarrow> SimulatorConfig \<Rightarrow> SimulatorConfig" where
  "configured r t c =
     c\<lparr>smc_Outcome := usr_Outcome r, smc_Delay := Milliseconds (usr_Delay r) * Millisecond,
       smc_Version := smc_Version c + 1, smc_UpdatedAt := t\<rparr>"

definition simulator_Update :: "int \<Rightarrow> UpdateSimulatorRequest \<Rightarrow> bool tx" where
  "simulator_Update expectedVersion r =
     (if expectedVersion \<le> 0 \<or> \<not> validSimulatorUpdate r then ret False
      else
        bnd (sql (\<lambda>t d. case update_where (\<lambda>c. smc_Version c = expectedVersion) (configured r t) (tbl_simulator d) of
               (n, rows) \<Rightarrow> Inr (n, d\<lparr>tbl_simulator := rows\<rparr>))) (\<lambda>n.
        ret (exactlyOneRow n)))"

subsection \<open>The service\<close>

record SimulatorRequest =
  smr_Outcome :: SimulatorOutcome
  smr_DelayMS :: int

record SimulatorMetadata =
  smm_ActorUserID :: gostr
  smm_IPAddress :: gostr
  smm_RequestID :: gostr

definition trimmed_option :: "gostr \<Rightarrow> gostr option" where
  "trimmed_option value = (let v = TrimSpace value in if v = [] then None else Some v)"

definition simulator_validUpdate :: "SimulatorRequest \<Rightarrow> bool" where
  "simulator_validUpdate r \<longleftrightarrow> validOutcome (smr_Outcome r) \<and> 0 \<le> smr_DelayMS r \<and> smr_DelayMS r \<le> 60000"

definition simulator_validMetadata :: "SimulatorMetadata \<Rightarrow> bool" where
  "simulator_validMetadata m \<longleftrightarrow>
     validUUID (TrimSpace (smm_ActorUserID m)) \<and> TrimSpace (smm_RequestID m) \<noteq> [] \<and>
     (TrimSpace (smm_IPAddress m) = [] \<or> ParseIP (TrimSpace (smm_IPAddress m)) \<noteq> None)"

definition simulator_audit :: "gostr \<Rightarrow> SimulatorConfig \<Rightarrow> SimulatorMetadata \<Rightarrow> AuditLog" where
  "simulator_audit auditID c m =
     \<lparr>aud_ID = auditID, aud_ActorType = ActorTypeUser, aud_ActorUserID = trimmed_option (smm_ActorUserID m),
      aud_ActorID = None, aud_ProjectID = None, aud_Action = ''simulator.updated'', aud_Result = AuditResultSuccess,
      aud_ResourceType = ''simulator'', aud_ResourceID = None, aud_IPAddress = trimmed_option (smm_IPAddress m),
      aud_RequestID = trimmed_option (smm_RequestID m),
      aud_Metadata = [(''outcome'', JStr (wire_SimulatorOutcome (smc_Outcome c))),
        (''delay_ms'', JInt (Milliseconds (smc_Delay c))), (''version'', JInt (smc_Version c))],
      aud_OccurredAt = smc_UpdatedAt c\<rparr>"

definition simulator_createAudit :: "SimulatorConfig \<Rightarrow> SimulatorMetadata \<Rightarrow> unit tx" where
  "simulator_createAudit c m =
     bnd (map_error (ErrWrapped ''generate Simulator Audit ID'') randomUUID) (\<lambda>auditID.
     audit_Create (simulator_audit auditID c m))"

definition simulator_update_body :: "SimulatorRequest \<Rightarrow> SimulatorMetadata \<Rightarrow> SimulatorConfig tx" where
  "simulator_update_body r m =
     bnd simulator_GetForUpdate (\<lambda>current.
     bnd (simulator_Update (smc_Version current)
            \<lparr>usr_Outcome = smr_Outcome r, usr_Delay = smr_DelayMS r * Millisecond\<rparr>) (\<lambda>updated.
     if \<not> updated then fail ErrVersionChanged
     else
       bnd simulator_Get (\<lambda>c.
       bnd (simulator_createAudit c m) (\<lambda>u. ret c))))"

fun simulator_attempts :: "nat \<Rightarrow> SimulatorRequest \<Rightarrow> SimulatorMetadata \<Rightarrow> SimulatorConfig tx" where
  "simulator_attempts 0 r m = fail ErrConcurrentWrite"
| "simulator_attempts (Suc n) r m =
     (\<lambda>w. case WithinTransaction (simulator_update_body r m) w of
        (Inr c, w1) \<Rightarrow> (Inr c, w1)
      | (Inl e, w1) \<Rightarrow> if errors_Is e ErrVersionChanged then simulator_attempts n r m w1 else (Inl e, w1))"

definition updateAttempts :: nat where "updateAttempts = 8"

definition simulator_service_Update :: "SimulatorRequest \<Rightarrow> SimulatorMetadata \<Rightarrow> SimulatorConfig tx" where
  "simulator_service_Update r m =
     (if \<not> simulator_validUpdate r \<or> \<not> simulator_validMetadata m then fail ErrInvalidRequest
      else simulator_attempts updateAttempts r m)"

subsection \<open>The adapter\<close>

definition simulator_identity :: "gostr option \<Rightarrow> gostr \<Rightarrow> gostr + gostr" where
  "simulator_identity requested platformDeviceID =
     (if requested \<noteq> None then Inl ''provider_device_id is forbidden for simulator''
      else if TrimSpace platformDeviceID = [] then Inl ''platform Device identity is required''
      else Inr platformDeviceID)"

definition snapshotSummary :: "SimulatorConfig \<Rightarrow> gomap" where
  "snapshotSummary c =
     [(''simulator_outcome'', JStr (wire_SimulatorOutcome (smc_Outcome c))),
      (''simulator_delay_ms'', JInt (Milliseconds (smc_Delay c))),
      (''simulator_config_version'', JInt (smc_Version c))]"

definition ClaimSnapshot :: "gomap tx" where
  "ClaimSnapshot =
     bnd (map_error (ErrWrapped ''load Simulator claim snapshot'') simulator_GetForUpdate) (\<lambda>c.
     ret (snapshotSummary c))"

text \<open>
  The stored outcome of a JSON text; \<open>strconv.ParseInt\<close> in base 10 and 64 bits. A JSON number is exact
  as a \<open>float64\<close> up to \<open>2 ^ 53\<close>, so \<open>JInt\<close> stands for its value.
\<close>

definition SimulatorOutcome_of :: "gostr \<Rightarrow> SimulatorOutcome" where
  "SimulatorOutcome_of s =
     (case find (\<lambda>x. wire_SimulatorOutcome x = s)
        [SimulatorOutcomeProviderAccepted, SimulatorOutcomeProviderRejected, SimulatorOutcomeTransportErrorBeforeSend,
         SimulatorOutcomeTransportErrorAfterSend, SimulatorOutcomeInvalidResponse] of
        None \<Rightarrow> SimulatorOutcomeOther s
      | Some x \<Rightarrow> x)"

definition int64_range :: "int \<Rightarrow> bool" where
  "int64_range i \<longleftrightarrow> - 9223372036854775808 \<le> i \<and> i \<le> 9223372036854775807"

definition ParseInt64 :: "gostr \<Rightarrow> int option" where
  "ParseInt64 s =
     (let negative = has_prefix s ''-'';
          digits = (if negative \<or> has_prefix s ''+'' then tl s else s);
          value = (if negative then - int (decimal_value digits 0) else int (decimal_value digits 0))
      in if digits \<noteq> [] \<and> list_all is_digit digits \<and> int64_range value then Some value else None)"

fun snapshot_integer :: "json \<Rightarrow> int option" where
  "snapshot_integer (JInt i) = (if int64_range i then Some i else None)"
| "snapshot_integer (JStr s) = ParseInt64 s"
| "snapshot_integer _ = None"

definition parseSnapshot :: "gomap \<Rightarrow> (SimulatorOutcome \<times> duration \<times> int) option" where
  "parseSnapshot summary =
     (case (map_of summary ''simulator_outcome'', Option.bind (map_of summary ''simulator_delay_ms'') snapshot_integer,
            Option.bind (map_of summary ''simulator_config_version'') snapshot_integer) of
        (Some (JStr text), Some delay, Some version) \<Rightarrow>
          if \<not> validOutcome (SimulatorOutcome_of text) \<or> delay < 0 \<or> 60000 < delay \<or> version < 1 then None
          else Some (SimulatorOutcome_of text, delay * Millisecond, version)
      | _ \<Rightarrow> None)"

record simulator_dispatch =
  smd_outcome :: SimulatorOutcome
  smd_delay :: duration
  smd_summary :: gomap

definition simulator_Prepare :: "DispatchRequest \<Rightarrow> prepare_error + simulator_dispatch" where
  "simulator_Prepare q =
     (if drq_ProviderProfile q \<noteq> ''simulator-v1'' \<or> TrimSpace (drq_ProviderDeviceID q) = [] \<or>
         TrimSpace (drq_ProviderRequestKey q) = [] \<or> 128 < length (drq_ProviderRequestKey q) \<or> drq_Payload q \<noteq> []
      then Inl (PrepareError PrepareRequestInvalid ''invalid Simulator dispatch request'')
      else if drq_Action q \<notin> {''unlock'', ''lock'', ''query_status''}
      then Inl (PrepareError PrepareActionUnsupported ''unsupported Simulator action'')
      else
        (case parseSnapshot (drq_AttemptRequestSummary q) of
           None \<Rightarrow> Inl (PrepareError PrepareRequestInvalid ''invalid Simulator claim snapshot'')
         | Some (outcome, delay, version) \<Rightarrow>
             Inr \<lparr>smd_outcome = outcome, smd_delay = delay,
               smd_summary = [(''action'', JStr (drq_Action q)), (''provider_device_id'', JStr (drq_ProviderDeviceID q)),
                 (''provider_request_key'', JStr (drq_ProviderRequestKey q)),
                 (''simulator_outcome'', JStr (wire_SimulatorOutcome outcome)),
                 (''simulator_delay_ms'', JInt (Milliseconds delay)), (''simulator_config_version'', JInt version)]\<rparr>))"

definition simulatorResult ::
  "AttemptOutcome \<Rightarrow> ConfirmationLevel \<Rightarrow> EvidenceStatus \<Rightarrow> SimulatorOutcome \<Rightarrow> bool \<Rightarrow> bool \<Rightarrow> gostr \<Rightarrow> DispatchResult" where
  "simulatorResult outcome confirmation evidence configuredOutcome simulatedWrite timedOut detail =
     \<lparr>drs_Outcome = outcome, drs_ConfirmationLevel = confirmation, drs_EvidenceStatus = evidence, drs_HTTPStatus = 0,
      drs_RequestSummary = [],
      drs_ResponseSummary = [(''configured_outcome'', JStr (wire_SimulatorOutcome configuredOutcome)),
        (''simulated_write'', JBool simulatedWrite), (''provider_timeout'', JBool timedOut)],
      drs_ReasonCode =
        (if outcome = AttemptOutcomeIndeterminate then
           (if \<not> timedOut \<and> configuredOutcome = SimulatorOutcomeInvalidResponse then ''provider_response_invalid''
            else ''provider_delivery_unknown'')
         else []),
      drs_ErrorDetail = detail\<rparr>"

definition simulated :: "SimulatorOutcome \<Rightarrow> DispatchResult" where
  "simulated outcome =
     (case outcome of
        SimulatorOutcomeProviderAccepted \<Rightarrow>
          simulatorResult AttemptOutcomeProviderAccepted ConfirmationProviderAccepted EvidenceVerified outcome True False []
      | SimulatorOutcomeProviderRejected \<Rightarrow>
          simulatorResult AttemptOutcomeProviderRejected ConfirmationTransportSent EvidenceVerified outcome True False
            ''Simulator configured Provider rejection''
      | SimulatorOutcomeTransportErrorBeforeSend \<Rightarrow>
          simulatorResult AttemptOutcomeTransportErrorBeforeSend ConfirmationNone EvidenceNone outcome False False
            ''Simulator configured transport error before send''
      | SimulatorOutcomeTransportErrorAfterSend \<Rightarrow>
          simulatorResult AttemptOutcomeIndeterminate ConfirmationTransportSent EvidenceVerified outcome True False
            ''Simulator configured transport error after send''
      | SimulatorOutcomeInvalidResponse \<Rightarrow>
          simulatorResult AttemptOutcomeIndeterminate ConfirmationTransportSent EvidenceVerified outcome True False
            ''Simulator configured invalid response''
      | SimulatorOutcomeOther s \<Rightarrow>
          simulatorResult AttemptOutcomeInvalidRequest ConfirmationNone EvidenceNone outcome False False
            ''Simulator snapshot outcome is invalid'')"

text \<open>
  The wait of a dispatch is a parameter: given the delay, whether the context ended before the timer, and
  the world after the wait.
\<close>

type_synonym timer = "duration \<Rightarrow> world \<Rightarrow> bool \<times> world"

definition simulator_Dispatch :: "timer \<Rightarrow> simulator_dispatch \<Rightarrow> world \<Rightarrow> DispatchResult \<times> world" where
  "simulator_Dispatch wait p w =
     (if 0 < smd_delay p then
        (case wait (smd_delay p) w of
           (True, w1) \<Rightarrow>
             (simulatorResult AttemptOutcomeIndeterminate ConfirmationTransportSent EvidenceVerified (smd_outcome p)
                True True ''Simulator Provider request timeout'', w1)
         | (False, w1) \<Rightarrow> (simulated (smd_outcome p), w1))
      else (simulated (smd_outcome p), w))"

definition simulator_provider :: "timer \<Rightarrow> ProviderAdapter" where
  "simulator_provider wait =
     \<lparr>adp_Configured = (\<lambda>w. True),
      adp_Prepare = (\<lambda>q w. case simulator_Prepare q of
         Inl e \<Rightarrow> Inl e
       | Inr p \<Rightarrow> Inr \<lparr>prp_RequestSummary = smd_summary p, prp_Dispatch = simulator_Dispatch wait p\<rparr>)\<rparr>"

subsection \<open>An update\<close>

text \<open>What one accepted update makes of the tables.\<close>

definition reconfigured :: "SimulatorRequest \<Rightarrow> SimulatorMetadata \<Rightarrow> SimulatorConfig \<Rightarrow> SimulatorConfig \<Rightarrow> db \<Rightarrow> db \<Rightarrow> bool" where
  "reconfigured r m c c' d d' \<longleftrightarrow>
     smc_Outcome c' = smr_Outcome r \<and> smc_Delay c' = smr_DelayMS r * Millisecond \<and> smc_Version c' = smc_Version c + 1 \<and>
     (\<exists>auditID. d' = d\<lparr>tbl_simulator := [c'], tbl_audits := tbl_audits d @
        [(simulator_audit auditID c' m)\<lparr>aud_OccurredAt := pg_time (smc_UpdatedAt c')\<rparr>]\<rparr>)"

lemma update_body_effect:
  assumes "simulator_update_body r m w = (Inr c', w')" and row: "tbl_simulator (w_db w) = [c]" and valid: "simulator_validUpdate r"
  shows "reconfigured r m c c' (w_db w) (w_db w')"
proof -
  have "Milliseconds (smr_DelayMS r * Millisecond) = smr_DelayMS r"
    using valid by (simp add: simulator_validUpdate_def Milliseconds_def go_quot_def)
  with assms show ?thesis
    by (auto simp: simulator_update_body_def simulator_GetForUpdate_def simulator_Get_def simulator_Update_def
        simulator_createAudit_def audit_Create_def run_simps update_where_def reconfigured_def configured_def
        simulator_audit_def split: if_splits)
qed

lemma attempts_effect:
  assumes "tbl_simulator (w_db w) = [c]" and "simulator_validUpdate r" and "simulator_attempts n r m w = (res, w')"
  shows "(\<exists>e. res = Inl e) \<and> w_db w' = w_db w \<or>
    (\<exists>c'. reconfigured r m c c' (w_db w) (w_db w') \<and>
       (res = Inr c' \<or> (\<exists>msg. res = Inl (ErrWrapped ''commit repository transaction'' (ErrDriver msg)))))"
  using assms
proof (induction n arbitrary: w)
  case 0
  then show ?case by (auto simp: fail_def)
next
  case (Suc n)
  show ?case
  proof (cases rule: WithinTransaction_cases [of "simulator_update_body r m" w])
    case (committed x w1)
    with update_body_effect [OF committed(1)] Suc.prems show ?thesis by auto
  next
    case (lost x w1 msg)
    with update_body_effect [OF lost(1)] Suc.prems show ?thesis by auto
  next
    case (unchanged e w1)
    with Suc.prems Suc.IH [of w1] show ?thesis by (auto split: if_splits)
  qed
qed

text \<open>
  C31. An update of the simulator is all or nothing. If Update answers a configuration, it is the requested one
  under the next version, it is the stored row, and exactly one Audit record of this caller tells of it; if it
  answers an error, nothing has changed, unless it is the reply to the commit that was lost. An invalid request
  or invalid metadata never changes anything.
\<close>

theorem simulator_update_is_audited:
  assumes "tbl_simulator (w_db w) = [c]" and run: "simulator_service_Update r m w = (res, w')"
  shows "(\<exists>e. res = Inl e) \<and> w_db w' = w_db w \<or>
    simulator_validUpdate r \<and> simulator_validMetadata m \<and>
    (\<exists>c'. reconfigured r m c c' (w_db w) (w_db w') \<and>
       (res = Inr c' \<or> (\<exists>msg. res = Inl (ErrWrapped ''commit repository transaction'' (ErrDriver msg)))))"
proof (cases "simulator_validUpdate r \<and> simulator_validMetadata m")
  case True
  with run attempts_effect [OF assms(1), of r updateAttempts m res w'] show ?thesis
    by (simp add: simulator_service_Update_def)
next
  case False
  with run show ?thesis by (auto simp: simulator_service_Update_def fail_def)
qed

definition first_config :: SimulatorConfig where
  "first_config =
     \<lparr>smc_Outcome = SimulatorOutcomeProviderAccepted, smc_Delay = 0, smc_Version = 1, smc_UpdatedAt = 0\<rparr>"

definition rejection :: SimulatorRequest where
  "rejection = \<lparr>smr_Outcome = SimulatorOutcomeProviderRejected, smr_DelayMS = 250\<rparr>"

definition administrator :: SimulatorMetadata where
  "administrator =
     \<lparr>smm_ActorUserID = ''00000000-0000-4000-8000-000000000001'', smm_IPAddress = ''10.0.0.1'', smm_RequestID = ''r''\<rparr>"

theorem simulator_update_is_audited_witness:
  "\<exists>c'. reconfigured rejection administrator first_config c' (blank_db\<lparr>tbl_simulator := [first_config]\<rparr>)
     (w_db (snd (simulator_service_Update rejection administrator (world_at (blank_db\<lparr>tbl_simulator := [first_config]\<rparr>) 5))))"
proof -
  let ?w = "world_at (blank_db\<lparr>tbl_simulator := [first_config]\<rparr>) 5"
  have valid: "simulator_validUpdate rejection" "simulator_validMetadata administrator" by code_simp+
  obtain c' w' where run: "simulator_service_Update rejection administrator ?w = (Inr c', w')"
  proof -
    have "\<exists>c' w'. simulator_update_body rejection administrator (started ?w) = (Inr c', w') \<and> next_fault w' = None"
      by (simp add: simulator_update_body_def simulator_GetForUpdate_def simulator_Get_def simulator_Update_def
        simulator_createAudit_def audit_Create_def run_simps update_where_def exactlyOneRow_def started_def
        validSimulatorUpdate_def validOutcome_def rejection_def first_config_def blank_db_def consume_def ex_bool_eq)
    then obtain c' w' where "WithinTransaction (simulator_update_body rejection administrator) ?w = (Inr c', w')"
      by (force simp: WithinTransaction_run)
    with valid that show thesis by (simp add: simulator_service_Update_def updateAttempts_def numeral_eq_Suc)
  qed
  from simulator_update_is_audited [OF _ run, of first_config] show ?thesis using run by auto
qed

end
