(* ===== verification/Provider_Contract.thy ===== *)
theory Provider_Contract
  imports Simulator Omni_Adapter Command_Safety
begin

text \<open>
  The contract between a Provider adapter and the worker, and the two adapters of the program that keep
  it. The worker turns a result into the completion of its Attempt with \<open>resultTransition\<close>; the
  repository lets it through when \<open>attemptCompletionAllowed\<close> holds for the Provider's code.
\<close>

definition completion_of :: "DispatchResult \<Rightarrow> gostr option \<Rightarrow> CompleteCommandAttemptRequest" where
  "completion_of r reasonCode =
     \<lparr>cca_Outcome = drs_Outcome r, cca_ConfirmationLevel = drs_ConfirmationLevel r,
      cca_EvidenceStatus = drs_EvidenceStatus r, cca_ResponseSummary = drs_ResponseSummary r,
      cca_ReasonCode = reasonCode, cca_ErrorDetail = optional (truncate_utf8 (drs_ErrorDetail r) 4096)\<rparr>"

definition well_typed :: "gostr \<Rightarrow> DispatchResult \<Rightarrow> bool" where
  "well_typed code r =
     (case resultTransition r of
        None \<Rightarrow> False
      | Some (reasonCode, target) \<Rightarrow>
          (target = CommandStatusSent \<or> CanTransitionCommand CommandStatusSent target) \<and>
          attemptCompletionAllowed code AttemptPhaseDispatching (completion_of r reasonCode))"

lemma completion_check:
  assumes "attempt_check a" and "att_Phase a = AttemptPhaseDispatching" and "\<And>x. att_DispatchingAt a = Some x \<Longrightarrow> x \<le> t"
    and "att_ClaimedAt a \<le> t" and "resultTransition r = Some (reasonCode, target)"
    and "attemptCompletionAllowed code AttemptPhaseDispatching (completion_of r reasonCode)"
  shows "attempt_check (completed_as t (drs_Outcome r) (drs_ConfirmationLevel r) (drs_EvidenceStatus r)
       (drs_ResponseSummary r) reasonCode detail a)"
  using assms
  by (auto simp: attempt_check_def completed_as_def before_dispatch_outcome_def reason_in_def known_confirmation_def
      confirmation_evidence_def resultTransition_def attemptCompletionAllowed_def completion_of_def Let_def
      split: option.splits AttemptOutcome.splits if_splits)

locale provider_contract =
  fixes code :: gostr and provider :: ProviderAdapter
  assumes result_typed: "adp_Prepare provider q w = Inr p \<Longrightarrow> prp_Dispatch p w1 = (r, w2) \<Longrightarrow> well_typed code r"
begin

text \<open>The completion of a dispatch is never refused for its content, only for a lost lease.\<close>

lemma completion_accepted:
  assumes run: "adp_Prepare provider q w0 = Inr p" "prp_Dispatch p w1 = (r, w2)"
    and calm: "w_faults w = []" and ok: "db_ok (w_db w)" and own: "owns (w_db w) c a"
    and state: "cmd_Status c = CommandStatusSent" "att_Phase a = AttemptPhaseDispatching"
    and live: "w_now w < att_LeaseExpiresAt a" "att_ProviderCode a = code"
    and past: "\<And>x. att_DispatchingAt a = Some x \<Longrightarrow> x \<le> w_now w" "att_ClaimedAt a \<le> w_now w"
  shows "\<exists>reasonCode target. resultTransition r = Some (reasonCode, target) \<and>
    fst (CompleteAttempt (cmd_ID c) (att_ID a) (att_LeaseToken a) (completion_of r reasonCode) w) = Inr True"
proof -
  obtain reasonCode target where tr: "resultTransition r = Some (reasonCode, target)"
    and allowed: "attemptCompletionAllowed code AttemptPhaseDispatching (completion_of r reasonCode)"
    using result_typed [OF run] by (auto simp: well_typed_def split: option.splits prod.splits)
  let ?g = "completed_as (w_now w) (drs_Outcome r) (drs_ConfirmationLevel r) (drs_EvidenceStatus r)
      (drs_ResponseSummary r) reasonCode (optional (truncate_utf8 (drs_ErrorDetail r) 4096))"
  note keys = db_ok_keys [OF ok]
  have mem: "a \<in> set (tbl_attempts (w_db w))" using own by (simp add: owns_def)
  have outcome: "\<not> (drs_Outcome r = AttemptOutcomeInvalidRequest \<or> drs_Outcome r = AttemptOutcomeNotDispatched)"
    using tr by (auto simp: resultTransition_def split: AttemptOutcome.splits)
  have "update_attempts (\<lambda>t x. att_ID x = att_ID a) (\<lambda>t d x. completed_as t (drs_Outcome r) (drs_ConfirmationLevel r)
      (drs_EvidenceStatus r) (drs_ResponseSummary r) reasonCode (optional (truncate_utf8 (drs_ErrorDetail r) 4096)) x)
      (consume (consume w)) =
    (Inr 1, (consume (consume (consume w)))\<lparr>w_db := edit_attempt (att_ID a) ?g (w_db w)\<rparr>)"
    using update_attempts_succeeds [of "consume (consume w)" a "\<lambda>t x. att_ID x = att_ID a"
        "\<lambda>t d. completed_as t (drs_Outcome r) (drs_ConfirmationLevel r)
      (drs_EvidenceStatus r) (drs_ResponseSummary r) reasonCode (optional (truncate_utf8 (drs_ErrorDetail r) 4096))"]
      calm keys mem completion_check [OF owned_ok(2) [OF ok own] state(2) past tr allowed] by simp
  then have "CompleteAttempt (cmd_ID c) (att_ID a) (att_LeaseToken a) (completion_of r reasonCode) w =
      (Inr True, (consume (consume (consume w)))\<lparr>w_db := edit_attempt (att_ID a) ?g (w_db w)\<rparr>)"
    using lockCommandAttempt_succeeds [OF calm keys own] state live allowed outcome
    by (simp add: CompleteAttempt_def on_row_run bnd_run ret_run locked_of_def exactlyOneRow_def completion_of_def completed_as_def Let_def)
  with tr show ?thesis by auto
qed

end

subsection \<open>The adapters of the program\<close>

lemmas typed_simps = well_typed_def resultTransition_def attemptCompletionAllowed_def completion_of_def reason_text_def
  CanTransitionCommand.simps

lemma simulated_typed: "validOutcome outcome \<Longrightarrow> well_typed ProviderCodeSimulator (simulated outcome)"
  by (cases outcome) (simp_all add: validOutcome_def simulated_def simulatorResult_def typed_simps)

lemma timeout_typed:
  "well_typed ProviderCodeSimulator (simulatorResult AttemptOutcomeIndeterminate ConfirmationTransportSent
     EvidenceVerified outcome True True detail)"
  by (simp add: simulatorResult_def typed_simps)

lemma omni_result_typed: "well_typed ProviderCodeOmni (omni_result written p)"
  by (simp add: omni_result_def typed_simps)

lemma simulator_Prepare_outcome: "simulator_Prepare q = Inr p \<Longrightarrow> validOutcome (smd_outcome p)"
  by (auto simp: simulator_Prepare_def parseSnapshot_def split: if_splits option.splits json.splits prod.splits)

interpretation simulated_provider: provider_contract ProviderCodeSimulator "simulator_provider wait" for wait
proof unfold_locales
  fix q w p w1 r w2
  assume "adp_Prepare (simulator_provider wait) q w = Inr p" and run: "prp_Dispatch p w1 = (r, w2)"
  then obtain p' where "validOutcome (smd_outcome p')" and "simulator_Dispatch wait p' w1 = (r, w2)"
    by (auto simp: simulator_provider_def dest: simulator_Prepare_outcome split: sum.splits)
  then show "well_typed ProviderCodeSimulator r"
    by (auto simp: simulator_Dispatch_def simulated_typed timeout_typed split: if_splits prod.splits bool.splits)
qed

interpretation lock_provider: provider_contract ProviderCodeOmni "omni_provider ctx a" for ctx a
  by unfold_locales
    (auto simp: omni_provider_def omni_Dispatch_def omni_result_typed split: sum.splits prod.splits)

text \<open>
  C23. The results of both adapters are accepted. Whatever a prepared dispatch of the simulator or of the Omni
  adapter reports, for any timer, context, registry and connection, the worker knows what becomes of the
  Command, and \<open>CompleteAttempt\<close> records the result, provided that in consistent tables the Command is still
  sent (not, say, already acked by its Device), its Attempt is dispatching for that Provider under a lease
  that has not run out, the database clock has not gone back behind the Attempt's own times, and the driver
  reports no failure.
\<close>

theorem provider_results_are_accepted:
  assumes provider: "code = ProviderCodeSimulator \<and> provider = simulator_provider wait \<or>
      code = ProviderCodeOmni \<and> provider = omni_provider ctx a'"
    and run: "adp_Prepare provider q w0 = Inr p" "prp_Dispatch p w1 = (r, w2)"
    and calm: "w_faults w = []" and ok: "db_ok (w_db w)" and own: "owns (w_db w) c a"
    and state: "cmd_Status c = CommandStatusSent" "att_Phase a = AttemptPhaseDispatching"
    and live: "w_now w < att_LeaseExpiresAt a" "att_ProviderCode a = code"
    and past: "\<And>x. att_DispatchingAt a = Some x \<Longrightarrow> x \<le> w_now w" "att_ClaimedAt a \<le> w_now w"
  shows "\<exists>reasonCode target. resultTransition r = Some (reasonCode, target) \<and>
    fst (CompleteAttempt (cmd_ID c) (att_ID a) (att_LeaseToken a) (completion_of r reasonCode) w) = Inr True"
proof -
  have accepted: ?thesis if "provider_contract code provider"
    by (rule provider_contract.completion_accepted [OF that run calm ok own state live past])
  show ?thesis
    using provider
  proof
    assume "code = ProviderCodeSimulator \<and> provider = simulator_provider wait"
    then show ?thesis using accepted simulated_provider.provider_contract_axioms by simp
  next
    assume "code = ProviderCodeOmni \<and> provider = omni_provider ctx a'"
    then show ?thesis using accepted lock_provider.provider_contract_axioms by simp
  qed
qed

definition sample_snapshot :: gomap where
  "sample_snapshot =
     [(''simulator_outcome'', JStr ''invalid_response''), (''simulator_delay_ms'', JInt 20),
      (''simulator_config_version'', JInt 3)]"

definition sample_dispatch :: DispatchRequest where
  "sample_dispatch =
     \<lparr>drq_ProjectID = ''p'', drq_DeviceID = ''d'', drq_ProviderDeviceID = ''d'', drq_ProviderProfile = ''simulator-v1'',
      drq_Action = ''unlock'', drq_Payload = [], drq_ProviderRequestKey = ''7'',
      drq_AttemptRequestSummary = sample_snapshot\<rparr>"

definition patient_timer :: timer where "patient_timer d w = (False, w)"

lemma sample_dispatch_prepared:
  "\<exists>p. adp_Prepare (simulator_provider patient_timer) sample_dispatch w0 = Inr p \<and>
     prp_Dispatch p w1 = (simulated SimulatorOutcomeInvalidResponse, w1)"
proof -
  have "parseSnapshot sample_snapshot = Some (SimulatorOutcomeInvalidResponse, 20 * Millisecond, 3)"
    by code_simp
  moreover have "TrimSpace ''d'' = ''d''" "TrimSpace ''7'' = ''7''" by code_simp+
  ultimately show ?thesis
    by (auto simp: simulator_provider_def simulator_Prepare_def sample_dispatch_def simulator_Dispatch_def patient_timer_def)
qed

definition running_world :: world where
  "running_world =
     sample_world [sent_with (4 * Second) (34 * Second) sample_command]
       [dispatching_from (4 * Second) [] (19 * Second) sample_attempt] (5 * Second)"

lemma running_world_ok: "db_ok (w_db running_world)"
  unfolding db_ok_eval by code_simp

theorem provider_results_are_accepted_witness:
  "\<exists>reasonCode target. resultTransition (simulated SimulatorOutcomeInvalidResponse) = Some (reasonCode, target) \<and>
    fst (CompleteAttempt (cmd_ID sample_command) (att_ID sample_attempt) (att_LeaseToken sample_attempt)
      (completion_of (simulated SimulatorOutcomeInvalidResponse) reasonCode) running_world) = Inr True"
proof -
  obtain p where p: "adp_Prepare (simulator_provider patient_timer) sample_dispatch running_world = Inr p"
    "prp_Dispatch p running_world = (simulated SimulatorOutcomeInvalidResponse, running_world)"
    using sample_dispatch_prepared by blast
  let ?c = "sent_with (4 * Second) (34 * Second) sample_command"
  let ?a = "dispatching_from (4 * Second) [] (19 * Second) sample_attempt"
  have same: "cmd_ID ?c = cmd_ID sample_command" "att_ID ?a = att_ID sample_attempt"
    "att_LeaseToken ?a = att_LeaseToken sample_attempt" by (simp_all add: life_updates)
  show ?thesis
    unfolding same [symmetric]
    by (rule provider_results_are_accepted
        [of ProviderCodeSimulator "simulator_provider patient_timer" patient_timer _ _ sample_dispatch running_world p
          running_world _ running_world, OF _ p _ running_world_ok])
      (simp_all add: owns_def, simp_all add: running_world_def sample_world_def empty_db_def life_updates
        sample_command_def sample_attempt_def)
qed

subsection \<open>The snapshot\<close>









end
