(* ===== verification/User_Service.thy ===== *)
theory User_Service
  imports Access Record_Repo Device_Repo Neturl
begin

text \<open>
  Users: the table (\<open>internal/storage/repository/postgres_user.go\<close>, with the unique indexes and the CHECKs
  of migration 010) and the service of the super administrator (\<open>internal/userservice\<close>).

  The hash of a password is \<open>golang.org/x/crypto/bcrypt\<close>'s, which draws its salt from the system: it is a
  parameter, a function from the password to a hash or an error. \<open>strings.ToLower\<close> is modelled as far as
  it yields ASCII (\<open>lower_text\<close>).
\<close>

subsection \<open>The table\<close>

definition user_Get :: "gostr \<Rightarrow> User tx" where
  "user_Get userID = query_row tbl_users (\<lambda>t u. usr_ID u = userID)"

definition user_GetByEmail :: "gostr \<Rightarrow> User tx" where
  "user_GetByEmail normalizedEmail = query_row tbl_users (\<lambda>t u. ascii_lower (usr_Email u) = normalizedEmail)"

definition user_GetForUpdate :: "gostr \<Rightarrow> User tx" where
  "user_GetForUpdate userID = query_row tbl_users (\<lambda>t u. usr_ID u = userID)"

record ListUsersRequest =
  lur_Email :: "gostr option"
  lur_Status :: "UserStatus option"
  lur_Limit :: int
  lur_Offset :: int

definition listed_user :: "ListUsersRequest \<Rightarrow> User \<Rightarrow> bool" where
  "listed_user r u \<longleftrightarrow> matches (lur_Email r) (usr_Email u) \<and> matches (lur_Status r) (usr_Status u)"

definition user_List :: "ListUsersRequest \<Rightarrow> (User list \<times> nat) tx" where
  "user_List r =
     (if lur_Limit r < 1 \<or> 100 < lur_Limit r \<or> lur_Offset r < 0 then fail ErrInvalidRepositoryRequest
      else
        bnd (query (\<lambda>t d. Inr (length (filter (listed_user r) (tbl_users d))))) (\<lambda>total.
        bnd (query (\<lambda>t d. Inr (page (\<lambda>u. (usr_CreatedAt u, usr_ID u)) (lur_Limit r) (lur_Offset r)
               (filter (listed_user r) (tbl_users d))))) (\<lambda>items.
        ret (items, total))))"

text \<open>The CHECKs: a known status, a super administrator is active, a session generation is not negative.\<close>

definition known_status :: "UserStatus \<Rightarrow> bool" where
  "known_status s \<longleftrightarrow> s = UserStatusActive \<or> s = UserStatusDisabled"

definition user_check :: "User \<Rightarrow> bool" where
  "user_check u \<longleftrightarrow>
     known_status (usr_Status u) \<and> (usr_IsSuperAdmin u \<longrightarrow> usr_Status u = UserStatusActive) \<and> 0 \<le> usr_SessionGeneration u"

definition user_Create :: "User \<Rightarrow> unit tx" where
  "user_Create u =
     sql (\<lambda>t d.
       if list_ex (\<lambda>x. usr_ID x = usr_ID u) (tbl_users d) then Inl (ErrUniqueViolation ''users_pkey'')
       else if list_ex (\<lambda>x. ascii_lower (usr_Email x) = ascii_lower (usr_Email u)) (tbl_users d)
       then Inl (ErrUniqueViolation ''uq_users_email_normalized'')
       else if usr_IsSuperAdmin u \<and> list_ex usr_IsSuperAdmin (tbl_users d)
       then Inl (ErrUniqueViolation ''uq_users_single_super_admin'')
       else if \<not> user_check u then Inl (ErrCheckViolation ''users'')
       else Inr ((), d\<lparr>tbl_users := tbl_users d @
         [u\<lparr>usr_CreatedAt := pg_time (usr_CreatedAt u), usr_UpdatedAt := pg_time (usr_UpdatedAt u)\<rparr>]\<rparr>))"

definition update_users :: "(instant \<Rightarrow> User \<Rightarrow> bool) \<Rightarrow> (instant \<Rightarrow> User \<Rightarrow> User) \<Rightarrow> nat tx" where
  "update_users p f =
     sql (\<lambda>t d. case update_where (p t) (f t) (tbl_users d) of
       (n, rows) \<Rightarrow>
         if list_all (\<lambda>u. p t u \<longrightarrow> user_check (f t u)) (tbl_users d) then Inr (n, d\<lparr>tbl_users := rows\<rparr>)
         else Inl (ErrCheckViolation ''users''))"

definition with_status :: "UserStatus \<Rightarrow> bool \<Rightarrow> instant \<Rightarrow> User \<Rightarrow> User" where
  "with_status status invalidateSessions t u =
     u\<lparr>usr_Status := status,
       usr_SessionGeneration := usr_SessionGeneration u + (if invalidateSessions then 1 else 0), usr_UpdatedAt := t\<rparr>"

definition user_SetStatus :: "gostr \<Rightarrow> UserStatus \<Rightarrow> bool \<Rightarrow> unit tx" where
  "user_SetStatus userID status invalidateSessions =
     bnd (update_users (\<lambda>t u. usr_ID u = userID) (with_status status invalidateSessions)) (\<lambda>n. ret ())"

text \<open>One statement raises the generation, if it is still the expected one, and returns it.\<close>

definition user_IncrementSessionGeneration :: "gostr \<Rightarrow> int \<Rightarrow> int option tx" where
  "user_IncrementSessionGeneration userID expected =
     bnd (update_users (\<lambda>t u. usr_ID u = userID \<and> usr_SessionGeneration u = expected)
            (\<lambda>t u. u\<lparr>usr_SessionGeneration := usr_SessionGeneration u + 1, usr_UpdatedAt := t\<rparr>)) (\<lambda>n.
     ret (if n = 0 then None else Some (expected + 1)))"

subsection \<open>Requests\<close>

record UserMetadata =
  umd_ActorUserID :: gostr
  umd_IPAddress :: gostr
  umd_RequestID :: gostr

record SafeUser =
  suv_ID :: gostr
  suv_Email :: gostr
  suv_DisplayName :: gostr
  suv_IsSuperAdmin :: bool
  suv_Status :: UserStatus
  suv_CreatedAt :: instant
  suv_UpdatedAt :: instant

record CreateUserRequest =
  cur_Email :: gostr
  cur_DisplayName :: gostr
  cur_Password :: gostr

record UserListRequest =
  ulr_Email :: "gostr option"
  ulr_Status :: "UserStatus option"
  ulr_Page :: int
  ulr_PageSize :: int

record UserListResult =
  uls_Items :: "SafeUser list"
  uls_Page :: int
  uls_PageSize :: int
  uls_Total :: nat

definition safeUser :: "User \<Rightarrow> SafeUser" where
  "safeUser u =
     \<lparr>suv_ID = usr_ID u, suv_Email = usr_Email u, suv_DisplayName = usr_DisplayName u,
      suv_IsSuperAdmin = usr_IsSuperAdmin u, suv_Status = usr_Status u, suv_CreatedAt = usr_CreatedAt u,
      suv_UpdatedAt = usr_UpdatedAt u\<rparr>"

definition requireSuperAdmin :: "Scope \<Rightarrow> unit tx" where
  "requireSuperAdmin s =
     (if \<not> scope_Validate s then fail ErrInvalidRequest else if \<not> IsSuperAdmin s then fail ErrForbidden else ret ())"

text \<open>
  \<open>mail.ParseAddress\<close> succeeds with the whole text as the address exactly for an addr-spec without white space,
  quotes or comments: every other form it accepts loses at least one byte.
\<close>

definition atext :: "char \<Rightarrow> bool" where
  "atext c \<longleftrightarrow> byte_of c \<ge> 128 \<or>
     (33 \<le> byte_of c \<and> byte_of c \<le> 126 \<and> c \<notin> set (CHR 0x22 # CHR 0x5C # ''()<>[]:;@,''))"

definition dot_atom :: "gostr \<Rightarrow> bool" where
  "dot_atom s \<longleftrightarrow> s \<noteq> [] \<and> list_all atext s \<and> ValidString s \<and>
     \<not> has_prefix s ''.'' \<and> \<not> has_suffix s ''.'' \<and> index_of ''..'' s = None"

definition domain_literal :: "gostr \<Rightarrow> bool" where
  "domain_literal s \<longleftrightarrow> has_prefix s ''['' \<and> has_suffix s '']'' \<and> 2 \<le> length s \<and>
     (case ParseAddr (butlast (tl s)) of None \<Rightarrow> False | Some a \<Rightarrow> addr_Zone a = [])"

definition plain_address :: "gostr \<Rightarrow> bool" where
  "plain_address s \<longleftrightarrow>
     (case cut (CHR ''@'') s of
        (_, None) \<Rightarrow> False
      | (localPart, Some domain) \<Rightarrow> dot_atom localPart \<and> (dot_atom domain \<or> domain_literal domain))"

definition valid_email :: "gostr \<Rightarrow> bool" where
  "valid_email s \<longleftrightarrow> plain_address s \<and> length s \<le> 254"

definition normalizeCreateUser :: "CreateUserRequest \<Rightarrow> CreateUserRequest option" where
  "normalizeCreateUser r =
     (let r = r\<lparr>cur_Email := lower_text (TrimSpace (cur_Email r)), cur_DisplayName := TrimSpace (cur_DisplayName r)\<rparr> in
      if \<not> valid_email (cur_Email r) \<or>
         \<not> ValidString (cur_DisplayName r) \<or> RuneCount (cur_DisplayName r) < 2 \<or> 80 < RuneCount (cur_DisplayName r) \<or>
         \<not> ValidString (cur_Password r) \<or> length (cur_Password r) < 8 \<or> 128 < length (cur_Password r)
      then None else Some r)"

definition max_int :: int where "max_int = 9223372036854775807"

definition normalizeUserList :: "UserListRequest \<Rightarrow> UserListRequest option" where
  "normalizeUserList r =
     (let r = r\<lparr>ulr_Page := (if ulr_Page r = 0 then 1 else ulr_Page r),
               ulr_PageSize := (if ulr_PageSize r = 0 then 20 else ulr_PageSize r)\<rparr> in
      if ulr_Page r < 1 \<or> ulr_PageSize r < 1 \<or> 100 < ulr_PageSize r \<or> max_int div ulr_PageSize r < ulr_Page r - 1 then None
      else
        (let email = (case ulr_Email r of
                        None \<Rightarrow> Some None
                      | Some e \<Rightarrow>
                          (let value = lower_text (TrimSpace e) in if valid_email value then Some (Some value) else None))
         in
         case email of
           None \<Rightarrow> None
         | Some e \<Rightarrow>
             if (case ulr_Status r of None \<Rightarrow> False | Some s \<Rightarrow> \<not> known_status s) then None
             else Some (r\<lparr>ulr_Email := e\<rparr>)))"

text \<open>Trimmed metadata with the canonical text of its address.\<close>

definition normalizeUserMetadata :: "UserMetadata \<Rightarrow> UserMetadata option" where
  "normalizeUserMetadata m =
     (let m = \<lparr>umd_ActorUserID = TrimSpace (umd_ActorUserID m), umd_IPAddress = TrimSpace (umd_IPAddress m),
               umd_RequestID = TrimSpace (umd_RequestID m)\<rparr> in
      if \<not> validUUID (umd_ActorUserID m) \<or> umd_RequestID m = [] \<or> 255 < length (umd_RequestID m) then None
      else if umd_IPAddress m = [] then Some m
      else
        (case ParseAddr (umd_IPAddress m) of
           None \<Rightarrow> None
         | Some a \<Rightarrow> if addr_Zone a \<noteq> [] then None else Some (m\<lparr>umd_IPAddress := addr_String (Unmap a)\<rparr>)))"

definition required :: "'a option \<Rightarrow> 'a tx" where
  "required v = (case v of None \<Rightarrow> fail ErrInvalidRequest | Some x \<Rightarrow> ret x)"

subsection \<open>Operations\<close>

text \<open>The hash of a password, or bcrypt's error.\<close>

type_synonym password_hash = "gostr \<Rightarrow> gostr tx"

definition user_randomUUID :: "gostr tx" where
  "user_randomUUID = map_error (\<lambda>e. ErrWrapped ''identifier'' ErrIdentifierGeneration) randomUUID"

definition user_audit :: "gostr \<Rightarrow> UserMetadata \<Rightarrow> gostr \<Rightarrow> gostr \<Rightarrow> gomap \<Rightarrow> instant \<Rightarrow> AuditLog" where
  "user_audit auditID m resourceID action details occurredAt =
     \<lparr>aud_ID = auditID, aud_ActorType = ActorTypeUser, aud_ActorUserID = Some (umd_ActorUserID m),
      aud_ActorID = None, aud_ProjectID = None, aud_Action = action, aud_Result = AuditResultSuccess,
      aud_ResourceType = ''user'', aud_ResourceID = Some resourceID, aud_IPAddress = optionalString (umd_IPAddress m),
      aud_RequestID = optionalString (umd_RequestID m), aud_Metadata = details, aud_OccurredAt = occurredAt\<rparr>"

definition user_createAudit :: "UserMetadata \<Rightarrow> gostr \<Rightarrow> gostr \<Rightarrow> gomap \<Rightarrow> instant \<Rightarrow> unit tx" where
  "user_createAudit m resourceID action details occurredAt =
     bnd user_randomUUID (\<lambda>auditID. audit_Create (user_audit auditID m resourceID action details occurredAt))"

text \<open>Any unique violation of the transaction is reported as a conflict of the email.\<close>

fun unique_violation :: "goerr \<Rightarrow> bool" where
  "unique_violation (ErrUniqueViolation c) = True"
| "unique_violation (ErrWrapped m e) = unique_violation e"
| "unique_violation e = False"

definition new_user :: "gostr \<Rightarrow> CreateUserRequest \<Rightarrow> gostr \<Rightarrow> instant \<Rightarrow> User" where
  "new_user userID r passwordHash now =
     \<lparr>usr_ID = userID, usr_Email = cur_Email r, usr_PasswordHash = passwordHash, usr_DisplayName = cur_DisplayName r,
      usr_IsSuperAdmin = False, usr_Status = UserStatusActive, usr_SessionGeneration = 0, usr_CreatedAt = now,
      usr_UpdatedAt = now\<rparr>"

definition user_create_body :: "User \<Rightarrow> UserMetadata \<Rightarrow> unit tx" where
  "user_create_body u m =
     bnd (user_Create u) (\<lambda>done.
     user_createAudit m (usr_ID u) ''user.created'' [(''status'', JStr (wire_UserStatus (usr_Status u)))] (usr_CreatedAt u))"

definition user_service_Create :: "password_hash \<Rightarrow> Scope \<Rightarrow> CreateUserRequest \<Rightarrow> UserMetadata \<Rightarrow> SafeUser tx" where
  "user_service_Create hash scope request metadata =
     bnd (requireSuperAdmin scope) (\<lambda>ok.
     bnd (required (normalizeCreateUser request)) (\<lambda>r.
     bnd (required (normalizeUserMetadata metadata)) (\<lambda>m.
     bnd user_randomUUID (\<lambda>userID.
     bnd (map_error (ErrWrapped ''hash User password'') (hash (cur_Password r))) (\<lambda>passwordHash.
     bnd time_now (\<lambda>now.
     bnd (map_error (\<lambda>e. if unique_violation e then ErrEmailConflict else e)
            (WithinTransaction (user_create_body (new_user userID r passwordHash now) m))) (\<lambda>created.
     ret (safeUser (new_user userID r passwordHash now)))))))))"

definition user_service_List :: "Scope \<Rightarrow> UserListRequest \<Rightarrow> UserListResult tx" where
  "user_service_List scope request =
     bnd (requireSuperAdmin scope) (\<lambda>ok.
     bnd (required (normalizeUserList request)) (\<lambda>r.
     bnd (user_List \<lparr>lur_Email = ulr_Email r, lur_Status = ulr_Status r, lur_Limit = ulr_PageSize r,
            lur_Offset = (ulr_Page r - 1) * ulr_PageSize r\<rparr>) (\<lambda>(items, total).
     ret \<lparr>uls_Items = map safeUser items, uls_Page = ulr_Page r, uls_PageSize = ulr_PageSize r, uls_Total = total\<rparr>)))"

definition user_service_Get :: "Scope \<Rightarrow> gostr \<Rightarrow> SafeUser tx" where
  "user_service_Get scope userID =
     bnd (requireSuperAdmin scope) (\<lambda>ok.
     if \<not> validUUID userID then fail ErrInvalidRequest
     else on_row (user_Get userID) (fail ErrUserNotFound) (\<lambda>u. ret (safeUser u)))"

definition user_status_body :: "gostr \<Rightarrow> UserStatus \<Rightarrow> UserMetadata \<Rightarrow> User tx" where
  "user_status_body userID status m =
     on_row (user_GetForUpdate userID) (fail ErrUserNotFound) (\<lambda>current.
       if usr_Status current = status then ret current
       else if usr_IsSuperAdmin current then fail ErrSuperAdminImmutable
       else
         bnd (if status = UserStatusDisabled
              then bnd (project_CountByManager (usr_ID current)) (\<lambda>managed.
                     check (managed = 0) ErrUserHasManagedProjects)
              else ret ()) (\<lambda>unmanaged.
         bnd (user_SetStatus (usr_ID current) status (status = UserStatusDisabled)) (\<lambda>set'.
         bnd (user_Get (usr_ID current)) (\<lambda>updated.
         bnd time_now (\<lambda>now.
         bnd (user_createAudit m (usr_ID current) ''user.status_changed''
                [(''from'', JStr (wire_UserStatus (usr_Status current))), (''to'', JStr (wire_UserStatus (usr_Status updated)))]
                now) (\<lambda>audited.
         ret updated))))))"

definition user_service_UpdateStatus :: "Scope \<Rightarrow> gostr \<Rightarrow> UserStatus \<Rightarrow> UserMetadata \<Rightarrow> SafeUser tx" where
  "user_service_UpdateStatus scope userID status metadata =
     bnd (requireSuperAdmin scope) (\<lambda>ok.
     if \<not> validUUID userID \<or> \<not> known_status status then fail ErrInvalidRequest
     else
       bnd (required (normalizeUserMetadata metadata)) (\<lambda>m.
       bnd (WithinTransaction (user_status_body userID status m)) (\<lambda>updated.
       ret (safeUser updated))))"

end
