(* ===== verification/Aead.thy ===== *)
theory Aead
  imports Digest
begin

text \<open>
  What the program uses of Go's \<open>crypto/aes\<close> and \<open>crypto/cipher\<close>: AES with a key of 32 bytes (FIPS 197) in
  Galois/Counter mode with a nonce of 12 bytes and a tag of 16 (NIST SP 800-38D), and of \<open>encoding/base64\<close>:
  the URL alphabet without padding. A nonce of another length makes Go panic; the stored ones have 12 bytes
  by a CHECK of the table, the drawn ones by construction.
\<close>

subsection \<open>The field\<close>

definition xtime :: "8 word \<Rightarrow> 8 word" where
  "xtime b = push_bit 1 b XOR (if bit b 7 then 0x1b else 0)"

definition gf_mul :: "8 word \<Rightarrow> 8 word \<Rightarrow> 8 word" where
  "gf_mul a b =
     snd (fold (\<lambda>i (x, acc). (xtime x, if bit b i then acc XOR x else acc)) [0..<8] (a, 0))"

text \<open>The inverse is the 254th power: \<open>x ^ (2 + 4 + 8 + 16 + 32 + 64 + 128)\<close>.\<close>

definition gf_inverse :: "8 word \<Rightarrow> 8 word" where
  "gf_inverse a = snd (fold (\<lambda>i (x, acc). let y = gf_mul x x in (y, gf_mul acc y)) [0..<7] (a, 1))"

definition sub_byte :: "8 word \<Rightarrow> 8 word" where
  "sub_byte a =
     (let b = gf_inverse a
      in b XOR word_rotl 1 b XOR word_rotl 2 b XOR word_rotl 3 b XOR word_rotl 4 b XOR 0x63)"

subsection \<open>The cipher\<close>

definition xor_bytes :: "8 word list \<Rightarrow> 8 word list \<Rightarrow> 8 word list" where
  "xor_bytes = map2 (\<lambda>x y. x XOR y)"

definition round_constant :: "nat \<Rightarrow> 8 word" where "round_constant i = (xtime ^^ (i - 1)) 1"

text \<open>The key schedule: 60 words of four bytes, the first eight being the key.\<close>

definition schedule_word :: "nat \<Rightarrow> 8 word list \<Rightarrow> 8 word list" where
  "schedule_word i t =
     (if i mod 8 = 0 then xor_bytes (map sub_byte (rotate1 t)) [round_constant (i div 8), 0, 0, 0]
      else if i mod 8 = 4 then map sub_byte t
      else t)"

definition key_schedule :: "8 word list \<Rightarrow> 8 word list list" where
  "key_schedule key =
     fold (\<lambda>i ws. ws @ [xor_bytes (ws ! (i - 8)) (schedule_word i (ws ! (i - 1)))]) [8..<60] (pieces 8 4 key)"

text \<open>The state is the block's 16 bytes, column by column.\<close>

definition add_round_key :: "8 word list \<Rightarrow> 8 word list \<Rightarrow> 8 word list" where
  "add_round_key k s = map (\<lambda>i. s ! i XOR k ! i) [0..<16]"

definition shift_rows :: "8 word list \<Rightarrow> 8 word list" where
  "shift_rows s = map (\<lambda>i. s ! (i mod 4 + 4 * ((i div 4 + i mod 4) mod 4))) [0..<16]"

definition mix_columns :: "8 word list \<Rightarrow> 8 word list" where
  "mix_columns s =
     map (\<lambda>i. let at = (\<lambda>r. s ! (4 * (i div 4) + (i + r) mod 4))
              in gf_mul (at 0) 2 XOR gf_mul (at 1) 3 XOR at 2 XOR at 3) [0..<16]"

definition aes_round :: "8 word list \<Rightarrow> 8 word list \<Rightarrow> 8 word list" where
  "aes_round k s = add_round_key k (mix_columns (shift_rows (map sub_byte s)))"

definition aes_encrypt :: "8 word list \<Rightarrow> 8 word list \<Rightarrow> 8 word list" where
  "aes_encrypt key block =
     (let ks = map concat (pieces 15 4 (key_schedule key));
          s = fold aes_round (take 13 (tl ks)) (add_round_key (hd ks) block)
      in add_round_key (last ks) (shift_rows (map sub_byte s)))"

subsection \<open>Galois/Counter mode\<close>

definition block_word :: "8 word list \<Rightarrow> 128 word" where
  "block_word b = word_rcat (take 16 (b @ replicate 16 0))"

text \<open>Multiplication of two blocks; the first bit of a block is its most significant one.\<close>

definition ghash_mul :: "128 word \<Rightarrow> 128 word \<Rightarrow> 128 word" where
  "ghash_mul x y =
     fst (fold (\<lambda>i (z, v). (if bit x (127 - i) then z XOR v else z,
            drop_bit 1 v XOR (if bit v 0 then push_bit 120 0xe1 else 0))) [0..<128] (0, y))"

definition ghash_blocks :: "8 word list \<Rightarrow> 128 word list" where
  "ghash_blocks bs = map block_word (pieces ((length bs + 15) div 16) 16 bs)"

definition ghash :: "128 word \<Rightarrow> 8 word list \<Rightarrow> 8 word list \<Rightarrow> 128 word" where
  "ghash h aad ciphertext =
     fold (\<lambda>b y. ghash_mul (y XOR b) h)
       (ghash_blocks aad @ ghash_blocks ciphertext @
        [block_word (word_bytes 8 (8 * length aad) @ word_bytes 8 (8 * length ciphertext))]) 0"

definition counter_block :: "8 word list \<Rightarrow> nat \<Rightarrow> 8 word list" where
  "counter_block nonce i = nonce @ word_bytes 4 i"

definition keystream :: "8 word list \<Rightarrow> 8 word list \<Rightarrow> nat \<Rightarrow> 8 word list" where
  "keystream key nonce n =
     concat (map (\<lambda>i. aes_encrypt key (counter_block nonce (i + 2))) [0..<(n + 15) div 16])"

definition gcm_tag :: "8 word list \<Rightarrow> 8 word list \<Rightarrow> 8 word list \<Rightarrow> 8 word list \<Rightarrow> 8 word list" where
  "gcm_tag key nonce aad ciphertext =
     xor_bytes
       (word_bytes 16 (unat (ghash (block_word (aes_encrypt key (replicate 16 0))) aad ciphertext)))
       (aes_encrypt key (counter_block nonce 1))"

definition gcm_Seal :: "8 word list \<Rightarrow> 8 word list \<Rightarrow> 8 word list \<Rightarrow> 8 word list \<Rightarrow> 8 word list" where
  "gcm_Seal key nonce plaintext aad =
     (let ciphertext = xor_bytes plaintext (keystream key nonce (length plaintext))
      in ciphertext @ gcm_tag key nonce aad ciphertext)"

definition gcm_Open :: "8 word list \<Rightarrow> 8 word list \<Rightarrow> 8 word list \<Rightarrow> 8 word list \<Rightarrow> 8 word list option" where
  "gcm_Open key nonce sealed aad =
     (if length sealed < 16 then None
      else
        (let ciphertext = take (length sealed - 16) sealed in
         if gcm_tag key nonce aad ciphertext \<noteq> drop (length sealed - 16) sealed then None
         else Some (xor_bytes ciphertext (keystream key nonce (length ciphertext)))))"

subsection \<open>Base64\<close>

definition base64_char :: "nat \<Rightarrow> char" where
  "base64_char n =
     (if n < 26 then char_of (65 + n) else if n < 52 then char_of (71 + n) else if n < 62 then char_of (n - 4)
      else if n = 62 then CHR ''-'' else CHR ''_'')"

definition base64_value :: "char \<Rightarrow> nat option" where
  "base64_value c =
     (let n = byte_of c in
      if 65 \<le> n \<and> n \<le> 90 then Some (n - 65) else if 97 \<le> n \<and> n \<le> 122 then Some (n - 71)
      else if 48 \<le> n \<and> n \<le> 57 then Some (n + 4) else if c = CHR ''-'' then Some 62
      else if c = CHR ''_'' then Some 63 else None)"

fun base64_encode :: "8 word list \<Rightarrow> gostr" where
  "base64_encode [] = []"
| "base64_encode [a] = (let n = unat a in map base64_char [n div 4, n mod 4 * 16])"
| "base64_encode [a, b] =
     (let n = unat a * 256 + unat b in map base64_char [n div 1024, n div 16 mod 64, n mod 16 * 4])"
| "base64_encode (a # b # c # bs) =
     (let n = unat a * 65536 + unat b * 256 + unat c
      in map base64_char [n div 262144, n div 4096 mod 64, n div 64 mod 64, n mod 64] @ base64_encode bs)"

text \<open>The decoder skips line breaks; the bits that the last character has too many are not looked at.\<close>

fun base64_groups :: "nat list \<Rightarrow> 8 word list option" where
  "base64_groups [] = Some []"
| "base64_groups [x] = None"
| "base64_groups [x, y] = Some [of_nat (x * 4 + y div 16)]"
| "base64_groups [x, y, z] =
     (let n = x * 4096 + y * 64 + z in Some [of_nat (n div 1024), of_nat (n div 4)])"
| "base64_groups (x # y # z # u # vs) =
     (let n = x * 262144 + y * 4096 + z * 64 + u
      in map_option (\<lambda>bs. of_nat (n div 65536) # of_nat (n div 256) # of_nat n # bs) (base64_groups vs))"

definition base64_decode :: "gostr \<Rightarrow> 8 word list option" where
  "base64_decode s =
     (let vs = map base64_value (filter (\<lambda>c. c \<noteq> CHR 0x0A \<and> c \<noteq> CHR 0x0D) s)
      in if list_ex (\<lambda>v. v = None) vs then None else base64_groups (map the vs))"

subsection \<open>Round trips\<close>

lemma length_aes_encrypt [simp]: "length (aes_encrypt key b) = 16"
  by (simp add: aes_encrypt_def add_round_key_def Let_def)

lemma length_keystream: "n \<le> length (keystream key nonce n)"
proof -
  have "length (concat (map (\<lambda>i. aes_encrypt key (counter_block nonce (i + 2))) xs)) = 16 * length xs" for xs
    by (induction xs) auto
  then show ?thesis by (simp add: keystream_def)
qed

lemma length_gcm_tag [simp]: "length (gcm_tag key nonce aad c) = 16"
  by (simp add: gcm_tag_def xor_bytes_def)

lemma xor_bytes_twice: "length xs \<le> length ks \<Longrightarrow> xor_bytes (xor_bytes xs ks) ks = xs"
  unfolding xor_bytes_def
proof (induction xs arbitrary: ks)
  case (Cons x xs)
  then show ?case by (cases ks) (simp_all add: xor.assoc)
qed simp

lemma length_xor_bytes: "length xs \<le> length ks \<Longrightarrow> length (xor_bytes xs ks) = length xs"
  by (simp add: xor_bytes_def)

lemma gcm_Open_Seal: "gcm_Open key nonce (gcm_Seal key nonce plaintext aad) aad = Some plaintext"
  using length_keystream [of "length plaintext" key nonce]
  by (simp add: gcm_Open_def gcm_Seal_def Let_def length_xor_bytes xor_bytes_twice)

lemma base64_value_char: "n < 64 \<Longrightarrow> base64_value (base64_char n) = Some n"
  by (auto simp: base64_value_def base64_char_def byte_of_def Let_def)

lemma base64_not_break: "base64_char n \<noteq> CHR 0x0A" "base64_char n \<noteq> CHR 0x0D"
  by (auto simp: base64_char_def dest!: arg_cong [of _ _ byte_of], auto simp: byte_of_def)

text \<open>What \<open>base64_encode\<close> writes, as numbers below 64.\<close>

fun base64_numbers :: "8 word list \<Rightarrow> nat list" where
  "base64_numbers [] = []"
| "base64_numbers [a] = (let n = unat a in [n div 4, n mod 4 * 16])"
| "base64_numbers [a, b] = (let n = unat a * 256 + unat b in [n div 1024, n div 16 mod 64, n mod 16 * 4])"
| "base64_numbers (a # b # c # bs) =
     (let n = unat a * 65536 + unat b * 256 + unat c
      in [n div 262144, n div 4096 mod 64, n div 64 mod 64, n mod 64] @ base64_numbers bs)"

lemma base64_encode_numbers: "base64_encode bs = map base64_char (base64_numbers bs)"
  by (induction bs rule: base64_numbers.induct) (simp_all add: Let_def)

lemma byte_bound: "unat (a :: 8 word) < 256"
  using unsigned_less [of a] by simp

lemma base64_numbers_bound: "list_all (\<lambda>n. n < 64) (base64_numbers bs)"
proof (induction bs rule: base64_numbers.induct)
  case (2 a)
  with byte_bound [of a] show ?case by (simp add: Let_def less_mult_imp_div_less)
next
  case (3 a b)
  with byte_bound [of a] byte_bound [of b] show ?case by (simp add: Let_def less_mult_imp_div_less)
next
  case (4 a b c bs)
  with byte_bound [of a] byte_bound [of b] byte_bound [of c] show ?case
    by (simp add: Let_def less_mult_imp_div_less)
qed simp

lemma sextets: "n div 262144 * 262144 + n div 4096 mod 64 * 4096 + n div 64 mod 64 * 64 + n mod 64 = (n::nat)"
proof -
  have "n div 262144 = n div 4096 div 64" "n div 4096 = n div 64 div 64" by (simp_all add: div_mult2_eq [symmetric])
  then show ?thesis
    using div_mult_mod_eq [of "n div 4096" 64] div_mult_mod_eq [of "n div 64" 64] div_mult_mod_eq [of n 64] by linarith
qed

lemma sextets3: "n div 1024 * 4096 + n div 16 mod 64 * 64 + n mod 16 * 4 = 4 * (n::nat)"
proof -
  have "n div 1024 = n div 16 div 64" by (simp add: div_mult2_eq [symmetric])
  then show ?thesis using div_mult_mod_eq [of "n div 16" 64] div_mult_mod_eq [of n 16] by linarith
qed

lemma byte_multiple [simp]: "256 * (x :: 8 word) = 0" "x * (256 :: 8 word) = 0" "65536 * (x :: 8 word) = 0"
proof -
  have "(256 :: 8 word) = 0" "(65536 :: 8 word) = 0" by (transfer, simp)+
  then show "256 * x = 0" "x * 256 = 0" "65536 * x = 0" by (metis mult_zero_left mult_zero_right)+
qed

lemma word_of_sum: "(of_nat (256 * k + unat (a :: 8 word)) :: 8 word) = a" "(of_nat (k * 256 + unat a) :: 8 word) = a"
  by simp_all

lemma base64_groups_numbers: "base64_groups (base64_numbers bs) = Some bs"
proof (induction bs rule: base64_numbers.induct)
  case (2 a)
  have "unat a div 4 * 4 + unat a mod 4 * 16 div 16 = unat a" by simp
  then show ?case by (simp add: Let_def)
next
  case (3 a b)
  let ?n = "unat a * 256 + unat b"
  have "4 * ?n div 1024 = unat a" "4 * ?n div 4 = ?n" using byte_bound [of b] by simp_all
  then show ?case using sextets3 [of ?n] by (simp add: Let_def word_of_sum)
next
  case (4 a b c bs)
  let ?n = "unat a * 65536 + unat b * 256 + unat c"
  have low: "unat b * 256 + unat c < 65536" using byte_bound [of b] byte_bound [of c] by linarith
  have "?n div 65536 = unat a" using low by simp
  moreover have "?n div 256 = unat a * 256 + unat b" using byte_bound [of c] by simp
  moreover have "?n = (unat a * 256 + unat b) * 256 + unat c" by simp
  ultimately show ?case
    using sextets [of ?n] 4 by (simp only: base64_numbers.simps Let_def append_Cons append_Nil base64_groups.simps)
      (simp add: word_of_sum)
qed simp

lemma base64_decode_encode: "base64_decode (base64_encode bs) = Some bs"
proof -
  have small: "list_all (\<lambda>n. n < 64) (base64_numbers bs)" by (rule base64_numbers_bound)
  have "filter (\<lambda>c. c \<noteq> CHR 0x0A \<and> c \<noteq> CHR 0x0D) (base64_encode bs) = base64_encode bs"
    by (simp add: base64_encode_numbers filter_id_conv base64_not_break)
  moreover have "map base64_value (base64_encode bs) = map Some (base64_numbers bs)"
    using small by (induction "base64_numbers bs" arbitrary: bs) (simp_all add: base64_encode_numbers list_all_iff base64_value_char)
  ultimately show ?thesis
    by (simp add: base64_decode_def Let_def list_ex_iff base64_groups_numbers comp_def)
qed

end
