(* ===== verification/Project_Service.thy ===== *)
theory Project_Service
  imports User_Service Aead
begin

text \<open>
  The Project service (\<open>internal/projectservice\<close>): Projects and their managers, API keys and the whitelist of
  peer addresses they work from, and webhook secrets, which are stored under authenticated encryption and
  resolved for the webhook worker. The service's clock and random source are those of the world.
\<close>

record ProjectService =
  psv_keys :: "int \<rightharpoonup> 8 word list"
  psv_activeKeyVersion :: int

definition project_service_New :: "(int \<times> 8 word list) list \<Rightarrow> int \<Rightarrow> goerr + ProjectService" where
  "project_service_New encryptionKeys active =
     (if active < 1 \<or> list_ex (\<lambda>(version, key). version < 1 \<or> length key \<noteq> 32) encryptionKeys \<or>
         map_of encryptionKeys active = None
      then Inl ErrEncryptionConfiguration
      else Inr \<lparr>psv_keys = map_of encryptionKeys, psv_activeKeyVersion = active\<rparr>)"

subsection \<open>Requests and answers\<close>

record ManagerView =
  mgv_ID :: gostr
  mgv_Email :: gostr
  mgv_DisplayName :: gostr
  mgv_Status :: UserStatus

record ProjectView =
  pjv_ID :: gostr
  pjv_Name :: gostr
  pjv_ManagerUserID :: gostr
  pjv_Manager :: ManagerView
  pjv_SensitiveConfigurationIncluded :: bool
  pjv_WebhookURL :: "gostr option"
  pjv_WebhookConfigured :: bool
  pjv_IPWhitelist :: "gostr list"
  pjv_CreatedAt :: instant
  pjv_UpdatedAt :: instant

record ProjectCreateRequest =
  pcr_Name :: gostr
  pcr_ManagerUserID :: gostr
  pcr_WebhookURL :: "gostr option"
  pcr_IPWhitelist :: "gostr list"

record ProjectUpdateRequest =
  pur_Name :: "gostr option"
  pur_WebhookURLSet :: bool
  pur_WebhookURL :: "gostr option"
  pur_IPWhitelist :: "gostr list option"

record CredentialResult =
  pcd_Project :: ProjectView
  pcd_APIKey :: gostr
  pcd_WebhookSecret :: gostr

record UpdateResult =
  pud_Project :: ProjectView
  pud_WebhookSecret :: gostr

record ProjectListRequest =
  plq_Name :: "gostr option"
  plq_ManagerUserID :: "gostr option"
  plq_Page :: int
  plq_PageSize :: int

record ProjectListResult =
  pls_Items :: "ProjectView list"
  pls_Page :: int
  pls_PageSize :: int
  pls_Total :: nat

text \<open>Every read of a Project joins the row of its manager, which the foreign key guarantees.\<close>

definition joined :: "(db \<Rightarrow> Project option) \<Rightarrow> (Project \<times> User) tx" where
  "joined pick =
     query (\<lambda>t d. case pick d of
       None \<Rightarrow> Inl ErrNoRows
     | Some p \<Rightarrow> (case find (\<lambda>u. usr_ID u = prj_ManagerUserID p) (tbl_users d) of
                    None \<Rightarrow> Inl ErrNoRows
                  | Some u \<Rightarrow> Inr (p, u)))"

definition project_with_manager :: "gostr \<Rightarrow> (Project \<times> User) tx" where
  "project_with_manager projectID = joined (\<lambda>d. find (\<lambda>p. prj_ID p = projectID) (tbl_projects d))"

definition project_by_digest :: "8 word list \<Rightarrow> (Project \<times> User) tx" where
  "project_by_digest digest = joined (\<lambda>d. find (\<lambda>p. prj_APIKeyDigest p = digest) (tbl_projects d))"

definition projects_with_managers :: "ListProjectsRequest \<Rightarrow> ((Project \<times> User) list \<times> nat) tx" where
  "projects_with_managers r =
     (if lpr_Limit r < 1 \<or> 100 < lpr_Limit r \<or> lpr_Offset r < 0 then fail ErrInvalidRepositoryRequest
      else
        bnd (query (\<lambda>t d. Inr (length (filter (listed_project r) (tbl_projects d))))) (\<lambda>total.
        bnd (query (\<lambda>t d. Inr (page (\<lambda>(p, u). (prj_CreatedAt p, prj_ID p)) (lpr_Limit r) (lpr_Offset r)
               [(p, u) \<leftarrow> List.product (tbl_projects d) (tbl_users d). listed_project r p \<and> usr_ID u = prj_ManagerUserID p]))) (\<lambda>items.
        ret (items, total))))"

definition safeProject :: "Project \<times> User \<Rightarrow> bool \<Rightarrow> ProjectView" where
  "safeProject pu includeSensitive =
     (case pu of (p, u) \<Rightarrow>
        \<lparr>pjv_ID = prj_ID p, pjv_Name = prj_Name p, pjv_ManagerUserID = prj_ManagerUserID p,
         pjv_Manager = \<lparr>mgv_ID = usr_ID u, mgv_Email = usr_Email u, mgv_DisplayName = usr_DisplayName u,
           mgv_Status = usr_Status u\<rparr>,
         pjv_SensitiveConfigurationIncluded = includeSensitive,
         pjv_WebhookURL = (if includeSensitive then prj_WebhookURL p else None),
         pjv_WebhookConfigured = (includeSensitive \<and> prj_WebhookURL p \<noteq> None),
         pjv_IPWhitelist = (if includeSensitive then prj_IPWhitelist p else []),
         pjv_CreatedAt = prj_CreatedAt p, pjv_UpdatedAt = prj_UpdatedAt p\<rparr>)"

subsection \<open>Validation\<close>

definition project_normalizeName :: "gostr \<Rightarrow> goerr + gostr" where
  "project_normalizeName value =
     (let v = TrimSpace value in
      if \<not> ValidString v \<or> RuneCount v < 1 \<or> 120 < RuneCount v
      then Inl (invalid_request ''name must contain 1..120 characters'') else Inr v)"

definition normalizeWebhookURL :: "gostr option \<Rightarrow> goerr + gostr option" where
  "normalizeWebhookURL value =
     (case value of
        None \<Rightarrow> Inr None
      | Some v \<Rightarrow>
          (let raw = TrimSpace v in
           case url_Parse raw of
             None \<Rightarrow> Inl (invalid_request ''webhook_url is invalid'')
           | Some u \<Rightarrow>
               if raw = [] \<or> url_Scheme u = [] \<or> url_Host u = [] \<or> url_Opaque u \<noteq> [] \<or> url_User u \<noteq> None \<or> url_Fragment u \<noteq> []
               then Inl (invalid_request ''webhook_url is invalid'')
               else
                 (let host = lower_text (url_Hostname u); scheme = ascii_lower (url_Scheme u) in
                  if scheme = ''https'' then Inr (Some (url_String (u\<lparr>url_Scheme := scheme\<rparr>)))
                  else if scheme = ''http'' then
                    (if host = ''localhost'' \<or> (case ParseAddr host of None \<Rightarrow> False | Some a \<Rightarrow> IsLoopback a)
                     then Inr (Some (url_String (u\<lparr>url_Scheme := scheme\<rparr>)))
                     else Inl (invalid_request ''non-local webhook_url must use HTTPS''))
                  else Inl (invalid_request ''webhook_url scheme is invalid''))))"

definition is_4in6 :: "addr \<Rightarrow> bool" where
  "is_4in6 a = (case a of IPv4 x \<Rightarrow> False | IPv6 x z \<Rightarrow> unat x div 2 ^ 32 = 65535)"

definition canonicalIPRange :: "gostr \<Rightarrow> gostr option" where
  "canonicalIPRange value =
     (let v = TrimSpace value in
      case ParseAddr v of
        Some a \<Rightarrow> if addr_Zone a \<noteq> [] then None else Some (addr_String (Unmap a))
      | None \<Rightarrow>
          (case ParsePrefix v of
             None \<Rightarrow> None
           | Some (a, bits) \<Rightarrow>
               Some (prefix_String (prefix_Masked
                 (if is_4in6 a \<and> 96 \<le> bits then (Unmap a, bits - 96) else (a, bits))))))"

fun canonical_ranges :: "gostr list \<Rightarrow> gostr list \<Rightarrow> gostr list option" where
  "canonical_ranges seen [] = Some (rev seen)"
| "canonical_ranges seen (v # vs) =
     (case canonicalIPRange v of
        None \<Rightarrow> None
      | Some c \<Rightarrow> canonical_ranges (if c \<in> set seen then seen else c # seen) vs)"

definition normalizeWhitelist :: "gostr list \<Rightarrow> goerr + gostr list" where
  "normalizeWhitelist values =
     (case canonical_ranges [] values of
        None \<Rightarrow> Inl (invalid_request ''ip_whitelist'')
      | Some r \<Rightarrow> Inr r)"

definition parsePeerAddress :: "gostr \<Rightarrow> addr option" where
  "parsePeerAddress value =
     (let v = TrimSpace value in
      case ParseAddr v of
        Some a \<Rightarrow> Some (Unmap a)
      | None \<Rightarrow>
          (case SplitHostPort v of
             None \<Rightarrow> None
           | Some (host, port) \<Rightarrow> map_option Unmap (ParseAddr host)))"

text \<open>\<open>None\<close> is the error of a stored range that does not parse.\<close>

fun ranges_allow :: "gostr list \<Rightarrow> addr \<Rightarrow> bool option" where
  "ranges_allow [] a = Some False"
| "ranges_allow (v # vs) a =
     (case ParseAddr v of
        Some allowed \<Rightarrow> if Unmap allowed = Unmap a then Some True else ranges_allow vs a
      | None \<Rightarrow>
          (case ParsePrefix v of
             None \<Rightarrow> None
           | Some (b, bits) \<Rightarrow>
               if prefix_Contains (b, bits) (if BitLen b = 32 then Unmap a else a) then Some True else ranges_allow vs a))"

definition whitelistAllows :: "gostr list \<Rightarrow> addr \<Rightarrow> bool option" where
  "whitelistAllows values a = (if values = [] then Some True else ranges_allow values a)"

definition project_validateMetadata :: "UserMetadata \<Rightarrow> goerr + UserMetadata" where
  "project_validateMetadata m =
     (let m = m\<lparr>umd_ActorUserID := TrimSpace (umd_ActorUserID m), umd_RequestID := TrimSpace (umd_RequestID m)\<rparr> in
      if \<not> validUUID (umd_ActorUserID m) \<or> umd_RequestID m = [] \<or> 255 < length (umd_RequestID m)
      then Inl (invalid_request ''request_id is required'')
      else if umd_IPAddress m = [] then Inr m
      else
        (case ParseAddr (TrimSpace (umd_IPAddress m)) of
           None \<Rightarrow> Inl (invalid_request ''ip_address is invalid'')
         | Some a \<Rightarrow>
             if addr_Zone a \<noteq> [] then Inl (invalid_request ''ip_address is invalid'')
             else Inr (m\<lparr>umd_IPAddress := addr_String (Unmap a)\<rparr>)))"

definition validateHumanScope :: "Scope \<Rightarrow> bool" where
  "validateHumanScope s \<longleftrightarrow> scope_Validate s \<and> IsHuman s \<and> (scp_UserID s = [] \<or> validUUID (scp_UserID s))"

text \<open>The metadata of an operation, if its actor is the one of the scope.\<close>

definition actor_metadata :: "Scope \<Rightarrow> UserMetadata \<Rightarrow> goerr + UserMetadata" where
  "actor_metadata s metadata =
     (case project_validateMetadata metadata of
        Inl e \<Rightarrow> Inl e
      | Inr m \<Rightarrow> if scp_UserID s \<noteq> [] \<and> scp_UserID s \<noteq> umd_ActorUserID m then Inl ErrInvalidRequest else Inr m)"

subsection \<open>Credentials\<close>

definition credential_random :: "nat \<Rightarrow> 8 word list tx" where
  "credential_random n = map_error (\<lambda>e. ErrWrapped ''random'' ErrCredentialGeneration) (read_random n)"

definition project_randomUUID :: "gostr tx" where
  "project_randomUUID = bnd (credential_random 16) (\<lambda>v. ret (uuid_text (uuid_bits v)))"

definition generateCredential :: "gostr \<Rightarrow> gostr tx" where
  "generateCredential prefix = bnd (credential_random 32) (\<lambda>v. ret (prefix @ base64_encode v))"

definition validCredential :: "gostr \<Rightarrow> gostr \<Rightarrow> bool" where
  "validCredential value prefix \<longleftrightarrow>
     has_prefix value prefix \<and>
     (case base64_decode (drop (length prefix) value) of None \<Rightarrow> False | Some v \<Rightarrow> length v = 32)"

definition apiKeyDigest :: "gostr \<Rightarrow> 8 word list" where "apiKeyDigest apiKey = sha256_text apiKey"

definition secretAAD :: "gostr \<Rightarrow> int \<Rightarrow> int \<Rightarrow> 8 word list" where
  "secretAAD projectID secretVersion keyVersion =
     bytes_of (''device-platform:webhook-secret:v1:'' @ projectID @ '':'' @ show_int secretVersion @ '':'' @
       show_int keyVersion)"

definition encryptSecret :: "8 word list \<Rightarrow> gostr \<Rightarrow> int \<Rightarrow> int \<Rightarrow> gostr \<Rightarrow> (gostr \<times> gostr) tx" where
  "encryptSecret key projectID secretVersion keyVersion plaintext =
     (if length key \<noteq> 32 then fail (ErrWrapped ''AES-256 key must contain 32 bytes'' ErrEncryptionConfiguration)
      else
        bnd (credential_random 12) (\<lambda>nonce.
        ret (text_of (gcm_Seal key nonce (bytes_of plaintext) (secretAAD projectID secretVersion keyVersion)),
             text_of nonce)))"

definition decryptSecret :: "8 word list \<Rightarrow> gostr \<Rightarrow> gostr \<Rightarrow> gostr \<Rightarrow> int \<Rightarrow> int \<Rightarrow> goerr + gostr" where
  "decryptSecret key ciphertext nonce projectID secretVersion keyVersion =
     (if length key \<noteq> 32 then Inl (ErrWrapped ''AES-256 key must contain 32 bytes'' ErrEncryptionConfiguration)
      else
        (case gcm_Open key (bytes_of nonce) (bytes_of ciphertext) (secretAAD projectID secretVersion keyVersion) of
           None \<Rightarrow> Inl ErrWebhookSecretDecryption
         | Some plaintext \<Rightarrow> Inr (text_of plaintext)))"

text \<open>A new secret under the active key: its plaintext and the row to store, but for the time.\<close>

definition active_key :: "ProjectService \<Rightarrow> 8 word list" where
  "active_key s = (case psv_keys s (psv_activeKeyVersion s) of None \<Rightarrow> [] | Some k \<Rightarrow> k)"

definition new_secret :: "ProjectService \<Rightarrow> gostr \<Rightarrow> int \<Rightarrow> (gostr \<times> (instant \<Rightarrow> WebhookSecretVersion)) tx" where
  "new_secret s projectID version =
     bnd (generateCredential ''whsec_'') (\<lambda>plaintext.
     bnd (encryptSecret (active_key s) projectID version (psv_activeKeyVersion s) plaintext) (\<lambda>(ciphertext, nonce).
     ret (plaintext, \<lambda>t. \<lparr>wsv_ProjectID = projectID, wsv_Version = version, wsv_Ciphertext = ciphertext,
       wsv_Nonce = nonce, wsv_EncryptionKeyVersion = psv_activeKeyVersion s, wsv_CreatedAt = t, wsv_RetiredAt = None\<rparr>)))"

subsection \<open>Operations\<close>

definition plain_option :: "gostr \<Rightarrow> gostr option" where
  "plain_option value = (if value = [] then None else Some value)"

definition project_audit :: "gostr \<Rightarrow> UserMetadata \<Rightarrow> gostr \<Rightarrow> gostr \<Rightarrow> gomap \<Rightarrow> instant \<Rightarrow> AuditLog" where
  "project_audit auditID m projectID action details now =
     \<lparr>aud_ID = auditID, aud_ActorType = ActorTypeUser, aud_ActorUserID = plain_option (umd_ActorUserID m),
      aud_ActorID = None, aud_ProjectID = Some projectID, aud_Action = action, aud_Result = AuditResultSuccess,
      aud_ResourceType = ''project'', aud_ResourceID = Some projectID, aud_IPAddress = plain_option (umd_IPAddress m),
      aud_RequestID = plain_option (umd_RequestID m), aud_Metadata = details, aud_OccurredAt = now\<rparr>"

definition project_createAudit :: "UserMetadata \<Rightarrow> gostr \<Rightarrow> gostr \<Rightarrow> gomap \<Rightarrow> unit tx" where
  "project_createAudit m projectID action details =
     bnd project_randomUUID (\<lambda>auditID.
     bnd time_now (\<lambda>now.
     audit_Create (project_audit auditID m projectID action details now)))"

definition new_project :: "gostr \<Rightarrow> gostr \<Rightarrow> gostr \<Rightarrow> 8 word list \<Rightarrow> gostr list \<Rightarrow> instant \<Rightarrow> Project" where
  "new_project projectID name managerUserID digest whitelist now =
     \<lparr>prj_ID = projectID, prj_Name = name, prj_ManagerUserID = managerUserID, prj_WebhookURL = None,
      prj_WebhookConfigVersion = 0, prj_CurrentWebhookSecretVersion = None, prj_APIKeyDigest = digest,
      prj_IPWhitelist = whitelist, prj_CreatedAt = now, prj_UpdatedAt = now\<rparr>"

text \<open>The transaction of \<open>Create\<close>; the webhook, if there is one, comes with the row of its first secret.\<close>

definition project_create_body ::
  "gostr \<Rightarrow> (User \<Rightarrow> Project) \<Rightarrow> (gostr \<times> WebhookSecretVersion) option \<Rightarrow> UserMetadata \<Rightarrow> (Project \<times> User) tx" where
  "project_create_body managerUserID project webhook m =
     on_row (user_GetForUpdate managerUserID) (fail ErrManagerNotFound) (\<lambda>manager.
       if usr_Status manager \<noteq> UserStatusActive then fail ErrManagerInactive
       else
         (let p = project manager; projectID = prj_ID p in
          bnd (project_Create p) (\<lambda>u.
          bnd (case webhook of
                 None \<Rightarrow> ret ()
               | Some (webhookURL, secret) \<Rightarrow>
                   bnd (project_CreateWebhookSecretVersion secret) (\<lambda>u.
                   project_SetWebhookConfiguration projectID (Some webhookURL) 1 (Some 1))) (\<lambda>u.
          bnd (project_with_manager projectID) (\<lambda>created.
          bnd (project_createAudit m projectID ''project.created''
                 [(''manager_user_id'', JStr (usr_ID manager)), (''webhook_configured'', JBool (webhook \<noteq> None)),
                  (''ip_whitelist_count'', JInt (int (length (prj_IPWhitelist p))))]) (\<lambda>u.
          ret created))))))"

definition project_service_Create ::
  "ProjectService \<Rightarrow> Scope \<Rightarrow> ProjectCreateRequest \<Rightarrow> UserMetadata \<Rightarrow> CredentialResult tx" where
  "project_service_Create s scope request metadata =
     (if \<not> validateHumanScope scope then fail ErrInvalidRequest
      else if \<not> IsSuperAdmin scope then fail ErrForbidden
      else if \<not> validUUID (pcr_ManagerUserID request) then fail ErrInvalidRequest
      else
        bnd (lift_result (project_normalizeName (pcr_Name request))) (\<lambda>name.
        bnd (lift_result (normalizeWebhookURL (pcr_WebhookURL request))) (\<lambda>webhookURL.
        bnd (lift_result (normalizeWhitelist (pcr_IPWhitelist request))) (\<lambda>whitelist.
        bnd (lift_result (actor_metadata scope metadata)) (\<lambda>m.
        bnd project_randomUUID (\<lambda>projectID.
        bnd (generateCredential ''dp_'') (\<lambda>apiKey.
        bnd (case webhookURL of
               None \<Rightarrow> ret None
             | Some address \<Rightarrow> bnd (new_secret s projectID 1) (\<lambda>(plaintext, row). ret (Some (address, plaintext, row)))) (\<lambda>webhook.
        bnd time_now (\<lambda>now.
        bnd (WithinTransaction
               (project_create_body (pcr_ManagerUserID request)
                  (\<lambda>manager. new_project projectID name (usr_ID manager) (apiKeyDigest apiKey) whitelist now)
                  (map_option (\<lambda>(address, plaintext, row). (address, row now)) webhook) m)) (\<lambda>created.
        ret \<lparr>pcd_Project = safeProject created True, pcd_APIKey = apiKey,
          pcd_WebhookSecret = (case webhook of None \<Rightarrow> [] | Some (address, plaintext, row) \<Rightarrow> plaintext)\<rparr>))))))))))"

definition project_service_List :: "Scope \<Rightarrow> ProjectListRequest \<Rightarrow> ProjectListResult tx" where
  "project_service_List scope request =
     (if \<not> validateHumanScope scope then fail ErrInvalidRequest
      else
        (let pageNo = (if plq_Page request = 0 then 1 else plq_Page request);
             pageSize = (if plq_PageSize request = 0 then 20 else plq_PageSize request)
         in
         if pageNo < 1 \<or> pageSize < 1 \<or> 100 < pageSize \<or> max_int div pageSize < pageNo - 1
         then fail (invalid_request ''pagination is invalid'')
         else if (case plq_Name request of None \<Rightarrow> False
                  | Some n \<Rightarrow> \<not> ValidString n \<or> n = [] \<or> 120 < RuneCount n)
         then fail (invalid_request ''name filter is invalid'')
         else if (case plq_ManagerUserID request of None \<Rightarrow> False | Some i \<Rightarrow> \<not> validUUID i)
         then fail (invalid_request ''manager_user_id filter is invalid'')
         else if scp_Kind scope = ScopeUser \<and>
            (case plq_ManagerUserID request of None \<Rightarrow> False | Some i \<Rightarrow> i \<noteq> scp_UserID scope)
         then fail ErrForbidden
         else
           bnd (projects_with_managers
                  \<lparr>lpr_Name = plq_Name request,
                   lpr_ManagerUserID =
                     (if scp_Kind scope = ScopeUser then Some (scp_UserID scope) else plq_ManagerUserID request),
                   lpr_Limit = pageSize, lpr_Offset = (pageNo - 1) * pageSize\<rparr>) (\<lambda>(items, total).
           ret \<lparr>pls_Items = map (\<lambda>x. safeProject x (IsSuperAdmin scope)) items, pls_Page = pageNo,
             pls_PageSize = pageSize, pls_Total = total\<rparr>)))"

definition project_service_Get :: "Scope \<Rightarrow> gostr \<Rightarrow> ProjectView tx" where
  "project_service_Get scope projectID =
     (if \<not> validateHumanScope scope \<or> \<not> validUUID projectID then fail (invalid_request ''project_id is invalid'')
      else
        on_row (project_with_manager projectID) (fail ErrProjectNotFound) (\<lambda>(p, u).
          if \<not> CanAccessProject scope p then fail ErrProjectNotFound
          else ret (safeProject (p, u) (IsSuperAdmin scope))))"

text \<open>The lock an update takes: the row, if the scope may see the Project.\<close>

definition locked_project :: "Scope \<Rightarrow> gostr \<Rightarrow> (Project \<Rightarrow> 'a tx) \<Rightarrow> 'a tx" where
  "locked_project scope projectID use =
     on_row (project_with_manager projectID) (fail ErrProjectNotFound) (\<lambda>(current, u).
       if \<not> CanAccessProject scope current then fail ErrProjectNotFound else use current)"

definition update_name :: "Project \<Rightarrow> gostr option \<Rightarrow> unit tx" where
  "update_name current name =
     (case name of None \<Rightarrow> ret () | Some n \<Rightarrow> if prj_Name current = n then ret () else project_Rename (prj_ID current) n)"

definition update_whitelist :: "Project \<Rightarrow> gostr list option \<Rightarrow> unit tx" where
  "update_whitelist current whitelist =
     (case whitelist of
        None \<Rightarrow> ret ()
      | Some l \<Rightarrow> if prj_IPWhitelist current = l then ret () else project_ReplaceIPWhitelist (prj_ID current) l)"

text \<open>The webhook's URL; the first one ever set comes with the Project's first secret, which is returned once.\<close>

definition update_webhook :: "ProjectService \<Rightarrow> Project \<Rightarrow> gostr option \<Rightarrow> gostr tx" where
  "update_webhook s current webhookURL =
     (if prj_WebhookURL current = webhookURL then ret []
      else
        bnd (if webhookURL \<noteq> None \<and> prj_CurrentWebhookSecretVersion current = None then
               bnd (new_secret s (prj_ID current) 1) (\<lambda>(plaintext, row).
               bnd time_now (\<lambda>now.
               bnd (project_CreateWebhookSecretVersion (row now)) (\<lambda>u. ret (plaintext, Some 1))))
             else ret ([], prj_CurrentWebhookSecretVersion current)) (\<lambda>(plaintext, secretVersion).
        bnd (project_SetWebhookConfiguration (prj_ID current) webhookURL (prj_WebhookConfigVersion current + 1)
               secretVersion) (\<lambda>u.
        ret plaintext)))"

definition updated_fields :: "ProjectUpdateRequest \<Rightarrow> json list" where
  "updated_fields r =
     (if pur_Name r \<noteq> None then [JStr ''name''] else []) @
     (if pur_IPWhitelist r \<noteq> None then [JStr ''ip_whitelist''] else []) @
     (if pur_WebhookURLSet r then [JStr ''webhook_url''] else [])"

definition project_update_body ::
  "ProjectService \<Rightarrow> Scope \<Rightarrow> gostr \<Rightarrow> ProjectUpdateRequest \<Rightarrow> gostr option \<Rightarrow> gostr option \<Rightarrow> gostr list option \<Rightarrow>
   UserMetadata \<Rightarrow> ((Project \<times> User) \<times> gostr) tx" where
  "project_update_body s scope projectID request name webhookURL whitelist m =
     locked_project scope projectID (\<lambda>current.
       if \<not> IsSuperAdmin scope \<and> (pur_WebhookURLSet request \<or> pur_IPWhitelist request \<noteq> None) then fail ErrForbidden
       else
         bnd (update_name current name) (\<lambda>u.
         bnd (update_whitelist current whitelist) (\<lambda>u.
         bnd (if pur_WebhookURLSet request then update_webhook s current webhookURL else ret []) (\<lambda>oneTimeSecret.
         bnd (project_with_manager projectID) (\<lambda>updated.
         bnd (project_createAudit m projectID ''project.updated'' [(''fields'', JArr (updated_fields request))]) (\<lambda>u.
         ret (updated, oneTimeSecret)))))))"

definition project_service_Update ::
  "ProjectService \<Rightarrow> Scope \<Rightarrow> gostr \<Rightarrow> ProjectUpdateRequest \<Rightarrow> UserMetadata \<Rightarrow> UpdateResult tx" where
  "project_service_Update s scope projectID request metadata =
     (if \<not> validateHumanScope scope \<or> \<not> validUUID projectID \<or>
         (pur_Name request = None \<and> \<not> pur_WebhookURLSet request \<and> pur_IPWhitelist request = None) \<or>
         (\<not> pur_WebhookURLSet request \<and> pur_WebhookURL request \<noteq> None)
      then fail ErrInvalidRequest
      else
        bnd (case pur_Name request of None \<Rightarrow> ret None
             | Some n \<Rightarrow> bnd (lift_result (project_normalizeName n)) (\<lambda>v. ret (Some v))) (\<lambda>name.
        bnd (if pur_WebhookURLSet request then lift_result (normalizeWebhookURL (pur_WebhookURL request)) else ret None)
          (\<lambda>webhookURL.
        bnd (case pur_IPWhitelist request of None \<Rightarrow> ret None
             | Some l \<Rightarrow> bnd (lift_result (normalizeWhitelist l)) (\<lambda>v. ret (Some v))) (\<lambda>whitelist.
        bnd (lift_result (actor_metadata scope metadata)) (\<lambda>m.
        bnd (WithinTransaction (project_update_body s scope projectID request name webhookURL whitelist m))
          (\<lambda>(updated, oneTimeSecret).
        ret \<lparr>pud_Project = safeProject updated (IsSuperAdmin scope), pud_WebhookSecret = oneTimeSecret\<rparr>))))))"

definition rotate_key_body :: "Scope \<Rightarrow> gostr \<Rightarrow> 8 word list \<Rightarrow> UserMetadata \<Rightarrow> (Project \<times> User) tx" where
  "rotate_key_body scope projectID digest m =
     locked_project scope projectID (\<lambda>current.
       if \<not> IsSuperAdmin scope then fail ErrForbidden
       else
         bnd (project_ReplaceAPIKeyDigest projectID digest) (\<lambda>u.
         bnd (project_with_manager projectID) (\<lambda>updated.
         bnd (project_createAudit m projectID ''project.api_key_rotated'' []) (\<lambda>u. ret updated))))"

definition project_service_RotateAPIKey :: "Scope \<Rightarrow> gostr \<Rightarrow> UserMetadata \<Rightarrow> CredentialResult tx" where
  "project_service_RotateAPIKey scope projectID metadata =
     (if \<not> validateHumanScope scope \<or> \<not> validUUID projectID then fail ErrInvalidRequest
      else
        bnd (lift_result (actor_metadata scope metadata)) (\<lambda>m.
        bnd (generateCredential ''dp_'') (\<lambda>apiKey.
        bnd (WithinTransaction (rotate_key_body scope projectID (apiKeyDigest apiKey) m)) (\<lambda>updated.
        ret \<lparr>pcd_Project = safeProject updated True, pcd_APIKey = apiKey, pcd_WebhookSecret = []\<rparr>))))"

definition rotate_secret_body ::
  "ProjectService \<Rightarrow> Scope \<Rightarrow> gostr \<Rightarrow> UserMetadata \<Rightarrow> ((Project \<times> User) \<times> gostr) tx" where
  "rotate_secret_body s scope projectID m =
     locked_project scope projectID (\<lambda>current.
       if \<not> IsSuperAdmin scope then fail ErrForbidden
       else
         (case (prj_WebhookURL current, prj_CurrentWebhookSecretVersion current) of
            (Some address, Some currentVersion) \<Rightarrow>
              bnd (new_secret s projectID (currentVersion + 1)) (\<lambda>(plaintext, row).
              bnd time_now (\<lambda>now.
              bnd (project_CreateWebhookSecretVersion (row now)) (\<lambda>u.
              bnd (project_SetWebhookConfiguration projectID (Some address) (prj_WebhookConfigVersion current + 1)
                     (Some (currentVersion + 1))) (\<lambda>u.
              bnd (project_RetireWebhookSecretVersion projectID currentVersion) (\<lambda>u.
              bnd (project_with_manager projectID) (\<lambda>updated.
              bnd (project_createAudit m projectID ''project.webhook_secret_rotated''
                     [(''webhook_secret_version'', JInt (currentVersion + 1))]) (\<lambda>u.
              ret (updated, plaintext))))))))
          | _ \<Rightarrow> fail ErrWebhookNotConfigured))"

definition project_service_RotateWebhookSecret ::
  "ProjectService \<Rightarrow> Scope \<Rightarrow> gostr \<Rightarrow> UserMetadata \<Rightarrow> CredentialResult tx" where
  "project_service_RotateWebhookSecret s scope projectID metadata =
     (if \<not> validateHumanScope scope \<or> \<not> validUUID projectID then fail ErrInvalidRequest
      else
        bnd (lift_result (actor_metadata scope metadata)) (\<lambda>m.
        bnd (WithinTransaction (rotate_secret_body s scope projectID m)) (\<lambda>(updated, plaintext).
        ret \<lparr>pcd_Project = safeProject updated True, pcd_APIKey = [], pcd_WebhookSecret = plaintext\<rparr>)))"

subsection \<open>Transfer\<close>

text \<open>
  The managers are locked in the order of their identities, so that two transfers cannot wait for each
  other; the answer is the row of the requested manager.
\<close>

fun lock_managers :: "gostr \<Rightarrow> User option \<Rightarrow> gostr list \<Rightarrow> User option tx" where
  "lock_managers requested target [] = ret target"
| "lock_managers requested target (userID # userIDs) =
     on_row (user_GetForUpdate userID)
       (fail (if userID = requested then ErrManagerNotFound else ErrNoRows))
       (\<lambda>locked. lock_managers requested (if userID = requested then Some locked else target) userIDs)"

definition transfer_body :: "gostr \<Rightarrow> gostr \<Rightarrow> gostr \<Rightarrow> UserMetadata \<Rightarrow> (Project \<times> User) tx" where
  "transfer_body projectID observedManager requested m =
     bnd (lock_managers requested None (sort (remdups [observedManager, requested]))) (\<lambda>target.
     on_row (project_with_manager projectID) (fail ErrProjectNotFound) (\<lambda>(current, manager).
       if prj_ManagerUserID current \<noteq> observedManager then fail ErrTransferRetry
       else
         (case target of
            None \<Rightarrow> fail ErrManagerInactive
          | Some new \<Rightarrow>
              if usr_Status new \<noteq> UserStatusActive then fail ErrManagerInactive
              else if prj_ManagerUserID current = usr_ID new then ret (current, manager)
              else
                bnd (project_SetManager projectID (usr_ID new)) (\<lambda>u.
                bnd (project_with_manager projectID) (\<lambda>updated.
                bnd (project_createAudit m projectID ''project.transferred''
                       [(''from_manager_user_id'', JStr (prj_ManagerUserID current)),
                        (''to_manager_user_id'', JStr (usr_ID new))]) (\<lambda>u.
                ret updated))))))"

fun transfer_attempts :: "nat \<Rightarrow> gostr \<Rightarrow> gostr \<Rightarrow> gostr \<Rightarrow> UserMetadata \<Rightarrow> (Project \<times> User) tx" where
  "transfer_attempts 0 projectID observedManager requested m = fail ErrTransferRetry"
| "transfer_attempts (Suc n) projectID observedManager requested m =
     (\<lambda>w. case WithinTransaction (transfer_body projectID observedManager requested m) w of
        (Inr updated, w1) \<Rightarrow> (Inr updated, w1)
      | (Inl e, w1) \<Rightarrow>
          if \<not> errors_Is e ErrTransferRetry then (Inl e, w1)
          else
            on_row (project_with_manager projectID) (fail ErrProjectNotFound) (\<lambda>(observed, u).
              transfer_attempts n projectID (prj_ManagerUserID observed) requested m) w1)"

definition transferAttempts :: nat where "transferAttempts = 4"

definition project_service_Transfer :: "Scope \<Rightarrow> gostr \<Rightarrow> gostr \<Rightarrow> UserMetadata \<Rightarrow> ProjectView tx" where
  "project_service_Transfer scope projectID requested metadata =
     (if \<not> validateHumanScope scope \<or> \<not> validUUID projectID \<or> \<not> validUUID requested then fail ErrInvalidRequest
      else if \<not> IsSuperAdmin scope then
        on_row (project_with_manager projectID) (fail ErrProjectNotFound) (\<lambda>(visible, u).
          if \<not> CanAccessProject scope visible then fail ErrProjectNotFound else fail ErrForbidden)
      else
        (case actor_metadata scope metadata of
           Inl e \<Rightarrow> fail ErrInvalidRequest
         | Inr m \<Rightarrow>
             on_row (project_with_manager projectID) (fail ErrProjectNotFound) (\<lambda>(observed, u).
               bnd (transfer_attempts transferAttempts projectID (prj_ManagerUserID observed) requested m) (\<lambda>updated.
               ret (safeProject updated True)))))"

subsection \<open>Authentication and secrets\<close>

text \<open>Only the direct peer address decides; forwarded headers are outside this interface.\<close>

definition project_service_AuthenticateAPIKey :: "gostr \<Rightarrow> gostr \<Rightarrow> ProjectView tx" where
  "project_service_AuthenticateAPIKey apiKey peerAddress =
     (if \<not> validCredential apiKey ''dp_'' then fail ErrAuthenticationFailed
      else
        on_row (project_by_digest (apiKeyDigest apiKey)) (fail ErrAuthenticationFailed) (\<lambda>(p, u).
          case parsePeerAddress peerAddress of
            None \<Rightarrow> fail ErrSourceIPNotAllowed
          | Some peer \<Rightarrow>
              (case whitelistAllows (prj_IPWhitelist p) peer of
                 None \<Rightarrow> fail (ErrWrapped ''stored'' ErrStoredWhitelistInvalid)
               | Some allowed \<Rightarrow>
                   if \<not> allowed then fail ErrSourceIPNotAllowed else ret (safeProject (p, u) False))))"

definition project_service_ResolveWebhookSecret :: "ProjectService \<Rightarrow> gostr \<Rightarrow> int \<Rightarrow> gostr tx" where
  "project_service_ResolveWebhookSecret s projectID version =
     (if \<not> validUUID projectID \<or> version < 1 then fail ErrInvalidRequest
      else
        on_row (project_GetWebhookSecretVersion projectID version) (fail ErrWebhookSecretNotFound) (\<lambda>secret.
          case psv_keys s (wsv_EncryptionKeyVersion secret) of
            None \<Rightarrow> fail ErrWebhookSecretDecryption
          | Some key \<Rightarrow>
              lift_result (decryptSecret key (wsv_Ciphertext secret) (wsv_Nonce secret) projectID (wsv_Version secret)
                (wsv_EncryptionKeyVersion secret))))"

end
