(* ===== verification/Tenancy.thy ===== *)
theory Tenancy
  imports Project_Service Sample_World
begin

text \<open>
  Users and Projects together: what every operation of the two services keeps of the tables, whatever it
  answers, and what the scopes, the API keys and the webhook secrets promise.
\<close>

subsection \<open>The tables\<close>

definition active_user :: "User list \<Rightarrow> gostr \<Rightarrow> bool" where
  "active_user us userID \<longleftrightarrow> (\<exists>u\<in>set us. usr_ID u = userID \<and> usr_Status u = UserStatusActive)"

definition user_tables_ok :: "db \<Rightarrow> bool" where
  "user_tables_ok d \<longleftrightarrow>
     distinct (map usr_ID (tbl_users d)) \<and> distinct (map (\<lambda>u. ascii_lower (usr_Email u)) (tbl_users d)) \<and>
     length (filter usr_IsSuperAdmin (tbl_users d)) \<le> 1 \<and> (\<forall>u\<in>set (tbl_users d). user_check u)"

definition project_tables_ok :: "db \<Rightarrow> bool" where
  "project_tables_ok d \<longleftrightarrow>
     distinct (map prj_ID (tbl_projects d)) \<and> distinct (map prj_APIKeyDigest (tbl_projects d)) \<and>
     distinct (map (\<lambda>s. (wsv_ProjectID s, wsv_Version s)) (tbl_secrets d))"

definition tenancy_ok :: "db \<Rightarrow> bool" where
  "tenancy_ok d \<longleftrightarrow>
     user_tables_ok d \<and> project_tables_ok d \<and> list_all (active_user (tbl_users d)) (map prj_ManagerUserID (tbl_projects d))"

text \<open>
  What no operation takes back: an account keeps its identity, its email, its password and its rank, and its
  session generation only grows; where the generation is the same, an active account was never disabled in
  between. A stored secret keeps its ciphertext.
\<close>

definition same_account :: "User \<Rightarrow> User \<Rightarrow> bool" where
  "same_account u u' \<longleftrightarrow>
     usr_ID u' = usr_ID u \<and> usr_Email u' = usr_Email u \<and> usr_PasswordHash u' = usr_PasswordHash u \<and>
     usr_IsSuperAdmin u' = usr_IsSuperAdmin u \<and> usr_SessionGeneration u \<le> usr_SessionGeneration u' \<and>
     (usr_SessionGeneration u' = usr_SessionGeneration u \<and> usr_Status u = UserStatusActive \<longrightarrow>
        usr_Status u' = UserStatusActive)"

definition same_secret :: "WebhookSecretVersion \<Rightarrow> WebhookSecretVersion \<Rightarrow> bool" where
  "same_secret s s' \<longleftrightarrow>
     wsv_ProjectID s' = wsv_ProjectID s \<and> wsv_Version s' = wsv_Version s \<and> wsv_Ciphertext s' = wsv_Ciphertext s \<and>
     wsv_Nonce s' = wsv_Nonce s \<and> wsv_EncryptionKeyVersion s' = wsv_EncryptionKeyVersion s"

definition stays_ok :: "db \<Rightarrow> db \<Rightarrow> bool" where
  "stays_ok d d' \<longleftrightarrow>
     (tenancy_ok d \<longrightarrow> tenancy_ok d') \<and> kept same_account (tbl_users d) (tbl_users d') \<and>
     kept same_secret (tbl_secrets d) (tbl_secrets d')"

lemma same_refl [simp]: "same_account u u" "same_secret s s"
  by (simp_all add: same_account_def same_secret_def)

lemma same_account_trans: "same_account u v \<Longrightarrow> same_account v x \<Longrightarrow> same_account u x"
  unfolding same_account_def by (elim conjE, intro conjI) auto

lemma same_secret_trans: "same_secret u v \<Longrightarrow> same_secret v x \<Longrightarrow> same_secret u x"
  by (simp add: same_secret_def)

lemmas kept_same [simp] = kept_refl [of same_account, OF same_refl(1)] kept_refl [of same_secret, OF same_refl(2)]
  kept_append [of same_account, OF same_refl(1)] kept_append [of same_secret, OF same_refl(2)]

interpretation tenancy: db_relation stays_ok
  by unfold_locales
    (simp add: stays_ok_def,
     auto simp: stays_ok_def intro: kept_trans [OF _ _ same_account_trans] kept_trans [OF _ _ same_secret_trans])

lemma stays_ok_cong:
  "tbl_users d' = tbl_users d \<Longrightarrow> tbl_projects d' = tbl_projects d \<Longrightarrow> tbl_secrets d' = tbl_secrets d \<Longrightarrow> stays_ok d d'"
  by (simp add: stays_ok_def tenancy_ok_def user_tables_ok_def project_tables_ok_def)

subsection \<open>Statements\<close>

lemma audit_Create_keeps: "keeps stays_ok (audit_Create a)"
  by (rule keepsI, rule stays_ok_cong) (auto simp: audit_Create_def sql_run split: if_splits)

lemma user_Create_keeps: "keeps stays_ok (user_Create u)"
  by (rule keepsI)
    (auto simp: user_Create_def sql_run stays_ok_def tenancy_ok_def user_tables_ok_def project_tables_ok_def
      active_user_def list_ex_iff list_all_iff user_check_def image_iff split: if_splits)

lemma stays_ok_projects:
  assumes "tbl_users d' = tbl_users d" and "tbl_secrets d' = tbl_secrets d"
    and "map prj_ID (tbl_projects d') = map prj_ID (tbl_projects d)"
    and "map prj_ManagerUserID (tbl_projects d') = map prj_ManagerUserID (tbl_projects d)"
    and "map prj_APIKeyDigest (tbl_projects d') = map prj_APIKeyDigest (tbl_projects d)"
  shows "stays_ok d d'"
  using assms by (simp add: stays_ok_def tenancy_ok_def user_tables_ok_def project_tables_ok_def del: list.pred_map)

lemma update_projects_keeps:
  assumes "\<And>t p. prj_ID (f t p) = prj_ID p \<and> prj_ManagerUserID (f t p) = prj_ManagerUserID p \<and>
    prj_APIKeyDigest (f t p) = prj_APIKeyDigest p"
  shows "keeps stays_ok (update_projects q f)"
  by (rule keepsI, rule stays_ok_projects)
    (use assms in \<open>auto simp: update_projects_def sql_run update_where_def split: if_splits\<close>)

lemma project_updates_keep:
  "keeps stays_ok (project_Rename i n)" "keeps stays_ok (project_ReplaceIPWhitelist i l)"
  "keeps stays_ok (project_SetWebhookConfiguration i u v k)"
  unfolding project_Rename_def project_ReplaceIPWhitelist_def project_SetWebhookConfiguration_def
  by (rule tenancy.keeps_bnd, rule update_projects_keeps, simp, rule tenancy.keeps_ret)+

lemma distinct_map_update:
  assumes "distinct (map k xs)" and "\<And>x. x \<in> set xs \<Longrightarrow> p x \<Longrightarrow> k (f x) = v" and "\<And>x. x \<in> set xs \<Longrightarrow> \<not> p x \<Longrightarrow> k x \<noteq> v"
    and "length (filter p xs) \<le> 1"
  shows "distinct (map k (map (\<lambda>x. if p x then f x else x) xs))"
  using assms
proof (induction xs)
  case (Cons x xs)
  have rest: "distinct (map k (map (\<lambda>x. if p x then f x else x) xs))"
    using Cons by (auto split: if_splits)
  show ?case
  proof (cases "p x")
    case True
    then have none: "\<forall>y\<in>set xs. \<not> p y" using Cons.prems(4) by (auto simp: filter_empty_conv)
    with True rest Cons.prems(2,3) show ?thesis by auto
  next
    case False
    with rest Cons.prems show ?thesis by (auto simp: image_iff)
  qed
qed simp

lemma filter_ID_le: "distinct (map prj_ID ps) \<Longrightarrow> length (filter (\<lambda>p. prj_ID p = i) ps) \<le> 1"
  by (induction ps) (auto simp: filter_empty_conv image_iff)

lemma ReplaceAPIKeyDigest_keeps: "keeps stays_ok (project_ReplaceAPIKeyDigest i digest)"
proof (rule keepsI)
  fix w x w'
  assume run: "project_ReplaceAPIKeyDigest i digest w = (Inr x, w')"
  let ?f = "\<lambda>p. p\<lparr>prj_APIKeyDigest := digest, prj_UpdatedAt := w_now w\<rparr>"
  have free: "\<not> (list_ex (\<lambda>x. prj_ID x = i) (tbl_projects (w_db w)) \<and>
      list_ex (\<lambda>x. prj_ID x \<noteq> i \<and> prj_APIKeyDigest x = digest) (tbl_projects (w_db w)))"
    and new: "w_db w' = (w_db w)\<lparr>tbl_projects := map (\<lambda>p. if prj_ID p = i then ?f p else p) (tbl_projects (w_db w))\<rparr>"
    using run by (auto simp: project_ReplaceAPIKeyDigest_def sql_run update_where_def split: if_splits)
  have "distinct (map prj_APIKeyDigest (tbl_projects (w_db w')))" if ok: "project_tables_ok (w_db w)"
  proof (cases "list_ex (\<lambda>x. prj_ID x = i) (tbl_projects (w_db w))")
    case True
    with free ok filter_ID_le [of "tbl_projects (w_db w)" i] show ?thesis
      using distinct_map_update [of prj_APIKeyDigest "tbl_projects (w_db w)" "\<lambda>p. prj_ID p = i" ?f digest]
      by (auto simp: new project_tables_ok_def list_ex_iff)
  next
    case False
    then have "map (\<lambda>p. if prj_ID p = i then ?f p else p) (tbl_projects (w_db w)) = tbl_projects (w_db w)"
      by (intro map_idI) (auto simp: list_ex_iff)
    with ok show ?thesis by (simp add: new project_tables_ok_def)
  qed
  moreover have "map prj_ID (tbl_projects (w_db w')) = map prj_ID (tbl_projects (w_db w))"
    "map prj_ManagerUserID (tbl_projects (w_db w')) = map prj_ManagerUserID (tbl_projects (w_db w))"
    by (simp_all add: new)
  ultimately show "stays_ok (w_db w) (w_db w')"
    by (simp add: stays_ok_def tenancy_ok_def user_tables_ok_def project_tables_ok_def del: list.pred_map)
      (simp add: new)
qed

lemma secret_rows_keep:
  "keeps stays_ok (project_CreateWebhookSecretVersion r)" "keeps stays_ok (project_RetireWebhookSecretVersion i v)"
proof -
  show "keeps stays_ok (project_CreateWebhookSecretVersion r)"
    by (rule keepsI) (auto simp: project_CreateWebhookSecretVersion_def sql_run stays_ok_def tenancy_ok_def
        user_tables_ok_def project_tables_ok_def list_ex_iff image_iff split: if_splits)
  have same: "map (\<lambda>s. (wsv_ProjectID s, wsv_Version s)) (map (\<lambda>s. if q s then s\<lparr>wsv_RetiredAt := f s\<rparr> else s) ss) =
      map (\<lambda>s. (wsv_ProjectID s, wsv_Version s)) ss" for q f ss by (induction ss) auto
  show "keeps stays_ok (project_RetireWebhookSecretVersion i v)"
  proof (rule keepsI)
    fix w x w'
    assume "project_RetireWebhookSecretVersion i v w = (Inr x, w')"
    then show "stays_ok (w_db w) (w_db w')"
      unfolding project_RetireWebhookSecretVersion_def sql_run stays_ok_def tenancy_ok_def user_tables_ok_def project_tables_ok_def
      by (clarsimp simp del: map_map simp: same) (rule kept_map, simp add: same_secret_def)
  qed
qed

subsection \<open>Operations\<close>

lemma user_audit_keeps: "keeps stays_ok (user_createAudit m i a l t)"
  unfolding user_createAudit_def user_randomUUID_def
  by (intro tenancy.keeps_bnd tenancy.keeps_reads reads_intros audit_Create_keeps)

lemma project_audit_keeps: "keeps stays_ok (project_createAudit m i a l)"
  unfolding project_createAudit_def project_randomUUID_def credential_random_def
  by (intro tenancy.keeps_bnd tenancy.keeps_reads reads_intros audit_Create_keeps)

lemma user_create_keeps: "keeps stays_ok (user_create_body u m)"
  unfolding user_create_body_def by (intro tenancy.keeps_bnd user_Create_keeps user_audit_keeps)

lemma SetStatus_stays:
  assumes run: "user_SetStatus i status reset w = (Inr x, w')" and invalidated: "status = UserStatusActive \<or> reset"
    and safe: "status = UserStatusActive \<or> (\<forall>p\<in>set (tbl_projects (w_db w)). prj_ManagerUserID p \<noteq> i)"
  shows "stays_ok (w_db w) (w_db w')"
proof -
  let ?f = "\<lambda>u. if usr_ID u = i then with_status status reset (w_now w) u else u"
  have new: "w_db w' = (w_db w)\<lparr>tbl_users := map ?f (tbl_users (w_db w))\<rparr>"
    and chk: "\<forall>u\<in>set (tbl_users (w_db w)). usr_ID u = i \<longrightarrow> user_check (with_status status reset (w_now w) u)"
    using run by (auto simp: user_SetStatus_def bnd_run ret_run update_users_def sql_run update_where_def list_all_iff split: if_splits)
  have maps: "map usr_ID (map ?f us) = map usr_ID us"
    "map (\<lambda>u. ascii_lower (usr_Email u)) (map ?f us) = map (\<lambda>u. ascii_lower (usr_Email u)) us"
    "length (filter usr_IsSuperAdmin (map ?f us)) = length (filter usr_IsSuperAdmin us)" for us
    by (induction us) (auto simp: with_status_def)
  have "active_user (map ?f (tbl_users (w_db w))) j"
    if act: "active_user (tbl_users (w_db w)) j" and kept: "status = UserStatusActive \<or> j \<noteq> i" for j
  proof -
    obtain u where u: "u \<in> set (tbl_users (w_db w))" "usr_ID u = j" "usr_Status u = UserStatusActive"
      using act by (auto simp: active_user_def)
    then have "?f u \<in> set (map ?f (tbl_users (w_db w)))" "usr_ID (?f u) = j" "usr_Status (?f u) = UserStatusActive"
      using kept by (auto simp: with_status_def)
    then show ?thesis unfolding active_user_def by blast
  qed
  with safe have "list_all (active_user (tbl_users (w_db w))) (map prj_ManagerUserID (tbl_projects (w_db w))) \<longrightarrow>
      list_all (active_user (map ?f (tbl_users (w_db w)))) (map prj_ManagerUserID (tbl_projects (w_db w)))"
    by (auto simp: list_all_iff)
  moreover have "\<forall>u\<in>set (map ?f (tbl_users (w_db w))). user_check u"
    if "\<forall>u\<in>set (tbl_users (w_db w)). user_check u" using that chk by auto
  moreover have "kept same_account (tbl_users (w_db w)) (map ?f (tbl_users (w_db w)))"
    by (rule kept_map) (use invalidated in \<open>auto simp: same_account_def with_status_def\<close>)
  ultimately show ?thesis
    unfolding new stays_ok_def tenancy_ok_def user_tables_ok_def project_tables_ok_def
    by (clarsimp simp del: map_map list.pred_map filter_map length_filter_map set_map simp: maps)
qed

lemma user_status_keeps:
  assumes "known_status status"
  shows "keeps stays_ok (user_status_body userID status m)"
proof (rule keepsI)
  fix w u w'
  assume run: "user_status_body userID status m w = (Inr u, w')"
  then obtain current where found: "find (\<lambda>u. usr_ID u = userID) (tbl_users (w_db w)) = Some current"
    by (auto simp: user_status_body_def user_GetForUpdate_def on_row_run no_rows_query_row query_row_run fail_run)
  show "stays_ok (w_db w) (w_db w')"
  proof (cases "usr_Status current = status \<or> usr_IsSuperAdmin current")
    case True
    with run found show ?thesis
      by (auto simp: user_status_body_def user_GetForUpdate_def on_row_run no_rows_query_row query_row_run fail_run ret_run tenancy.R_refl
          split: if_splits)
  next
    case False
    let ?tail = "bnd (user_Get (usr_ID current)) (\<lambda>updated. bnd time_now (\<lambda>now.
        bnd (user_createAudit m (usr_ID current) ''user.status_changed''
          [(''from'', JStr (wire_UserStatus (usr_Status current))), (''to'', JStr (wire_UserStatus (usr_Status updated)))] now)
          (\<lambda>audited. ret updated)))"
    from False run found obtain x w1 w2 where
      managed: "(if status = UserStatusDisabled then bnd (project_CountByManager (usr_ID current)) (\<lambda>managed.
          check (managed = 0) ErrUserHasManagedProjects) else ret ()) (consume w) = (Inr x, w1)"
      and set': "user_SetStatus (usr_ID current) status (status = UserStatusDisabled) w1 = (Inr (), w2)"
      and tail: "?tail w2 = (Inr u, w')"
      by (simp add: user_status_body_def user_GetForUpdate_def on_row_run no_rows_query_row query_row_run
        bnd_run [of "if status = UserStatusDisabled then X else Y" for X Y] bnd_run [of "user_SetStatus i st r" for i st r])
        blast
    have before: "w_db w1 = w_db w" "status = UserStatusActive \<or>
        (\<forall>p\<in>set (tbl_projects (w_db w1)). prj_ManagerUserID p \<noteq> usr_ID current)"
      using managed assms
      by (auto simp: known_status_def project_CountByManager_def bnd_run query_run check_run filter_empty_conv ret_run split: if_splits)
    have "keeps stays_ok ?tail"
      unfolding user_Get_def by (intro tenancy.keeps_bnd user_audit_keeps tenancy.keeps_reads reads_intros)
    have reset: "status = UserStatusActive \<or> status = UserStatusDisabled" using assms by (auto simp: known_status_def)
    from keepsD [OF \<open>keeps stays_ok ?tail\<close> tail] SetStatus_stays [OF set' reset before(2)] show ?thesis
      using tenancy.R_trans by (auto simp: before(1))
  qed
qed

lemmas service_keeps = tenancy.keeps_bnd tenancy.keeps_on_row tenancy.keeps_if tenancy.keeps_option tenancy.keeps_prod
  tenancy.keeps_fail tenancy.keeps_ret project_updates_keep ReplaceAPIKeyDigest_keeps secret_rows_keep project_audit_keeps

lemma joined_reads [simp, intro]: "reads (project_with_manager i)" "reads (project_by_digest k)"
  by (simp_all add: project_with_manager_def project_by_digest_def joined_def)

lemma new_secret_reads [simp, intro]: "reads (new_secret s i v)"
  unfolding new_secret_def generateCredential_def encryptSecret_def credential_random_def
  by (auto intro!: reads_intros split: prod.splits)

lemma find_user_active:
  "find (\<lambda>u. usr_ID u = i) us = Some u \<Longrightarrow> usr_Status u = UserStatusActive \<Longrightarrow> active_user us i \<and> usr_ID u = i"
  by (auto simp: active_user_def dest: find_SomeD)

lemma project_Create_stays:
  assumes "project_Create p w = (Inr x, w')" and "active_user (tbl_users (w_db w)) (prj_ManagerUserID p)"
  shows "stays_ok (w_db w) (w_db w')"
  using assms
  by (auto simp: project_Create_def sql_run stays_ok_def tenancy_ok_def user_tables_ok_def project_tables_ok_def
      list_ex_iff image_iff split: if_splits)

lemma project_create_keeps:
  assumes "\<And>u. prj_ManagerUserID (project u) = usr_ID u"
  shows "keeps stays_ok (project_create_body managerUserID project webhook m)"
proof (rule keepsI)
  fix w r w'
  assume run: "project_create_body managerUserID project webhook m w = (Inr r, w')"
  then obtain manager where found: "find (\<lambda>u. usr_ID u = managerUserID) (tbl_users (w_db w)) = Some manager"
    by (auto simp: project_create_body_def user_GetForUpdate_def on_row_run no_rows_query_row query_row_run fail_run)
  let ?p = "project manager"
  let ?tail = "bnd (case webhook of None \<Rightarrow> ret () | Some (webhookURL, secret) \<Rightarrow>
        bnd (project_CreateWebhookSecretVersion secret) (\<lambda>u. project_SetWebhookConfiguration (prj_ID ?p) (Some webhookURL) 1 (Some 1)))
      (\<lambda>u. bnd (project_with_manager (prj_ID ?p)) (\<lambda>created.
        bnd (project_createAudit m (prj_ID ?p) ''project.created''
          [(''manager_user_id'', JStr (usr_ID manager)), (''webhook_configured'', JBool (webhook \<noteq> None)),
           (''ip_whitelist_count'', JInt (int (length (prj_IPWhitelist ?p))))]) (\<lambda>u. ret created)))"
  from run found have active: "usr_Status manager = UserStatusActive"
    by (auto simp: project_create_body_def user_GetForUpdate_def on_row_run no_rows_query_row query_row_run fail_run split: if_splits)
  with run found obtain w1 where create: "project_Create ?p (consume w) = (Inr (), w1)" and tail: "?tail w1 = (Inr r, w')"
    by (simp add: project_create_body_def user_GetForUpdate_def on_row_run no_rows_query_row query_row_run Let_def
        bnd_run [of "project_Create p" for p]) blast
  have after: "keeps stays_ok ?tail"
    by (intro service_keeps joined_reads tenancy.keeps_reads)
  have "stays_ok (w_db (consume w)) (w_db w1)"
    by (rule project_Create_stays [OF create]) (use find_user_active [OF found active] assms in simp)
  with keepsD [OF after tail] show "stays_ok (w_db w) (w_db w')"
    using tenancy.R_trans by auto
qed

lemma project_update_keeps: "keeps stays_ok (project_update_body s scope i request name address whitelist m)"
  unfolding project_update_body_def locked_project_def update_name_def update_whitelist_def update_webhook_def
  by (intro service_keeps joined_reads) (auto intro!: service_keeps tenancy.keeps_reads reads_intros)

lemma rotate_key_keeps: "keeps stays_ok (rotate_key_body scope i digest m)"
  unfolding rotate_key_body_def locked_project_def
  by (intro service_keeps joined_reads tenancy.keeps_reads)

lemma rotate_secret_keeps: "keeps stays_ok (rotate_secret_body s scope i m)"
  unfolding rotate_secret_body_def locked_project_def
  by (intro service_keeps joined_reads) (auto intro!: service_keeps tenancy.keeps_reads reads_intros split: option.splits)

lemma SetManager_stays:
  assumes "project_SetManager i manager w = (Inr x, w')" and "active_user (tbl_users (w_db w)) manager"
  shows "stays_ok (w_db w) (w_db w')"
proof -
  let ?f = "\<lambda>p. if prj_ID p = i then p\<lparr>prj_ManagerUserID := manager, prj_UpdatedAt := w_now w\<rparr> else p"
  have new: "w_db w' = (w_db w)\<lparr>tbl_projects := map ?f (tbl_projects (w_db w))\<rparr>"
    using assms(1) by (auto simp: project_SetManager_def bnd_run ret_run update_projects_def sql_run update_where_def)
  have maps: "map prj_ID (map ?f ps) = map prj_ID ps" "map prj_APIKeyDigest (map ?f ps) = map prj_APIKeyDigest ps" for ps
    by (induction ps) auto
  have "list_all (active_user (tbl_users (w_db w))) (map prj_ManagerUserID (tbl_projects (w_db w))) \<longrightarrow>
      list_all (active_user (tbl_users (w_db w))) (map prj_ManagerUserID (map ?f (tbl_projects (w_db w))))"
    using assms(2) by (auto simp: list_all_iff)
  then show ?thesis
    unfolding new stays_ok_def tenancy_ok_def user_tables_ok_def project_tables_ok_def
    by (clarsimp simp del: map_map list.pred_map simp: maps)
qed

lemma lock_managers_target:
  "lock_managers requested target ids w = (Inr (Some u), w') \<Longrightarrow>
   (\<And>x. target = Some x \<Longrightarrow> x \<in> set (tbl_users (w_db w)) \<and> usr_ID x = requested) \<Longrightarrow>
   w_db w' = w_db w \<and> u \<in> set (tbl_users (w_db w)) \<and> usr_ID u = requested"
proof (induction ids arbitrary: target w)
  case Nil
  then show ?case by (auto simp: ret_run)
next
  case (Cons i ids)
  then obtain x where "find (\<lambda>u. usr_ID u = i) (tbl_users (w_db w)) = Some x"
    "lock_managers requested (if i = requested then Some x else target) ids (consume w) = (Inr (Some u), w')"
    by (auto simp: on_row_run no_rows_query_row query_row_run fail_run user_GetForUpdate_def)
  with Cons.IH [OF this(2)] Cons.prems(2) show ?case by (auto dest!: find_SomeD split: if_splits)
qed

lemma lock_managers_reads: "reads (lock_managers requested target ids)"
  by (induction ids arbitrary: target) (auto simp: user_GetForUpdate_def intro!: reads_intros)

lemma transfer_keeps: "keeps stays_ok (transfer_body i observed requested m)"
proof (rule keepsI)
  fix w r w'
  assume run: "transfer_body i observed requested m w = (Inr r, w')"
  then obtain target w1 where lock: "lock_managers requested None (sort (remdups [observed, requested])) w = (Inr target, w1)"
    and rest: "on_row (project_with_manager i) (fail ErrProjectNotFound) (\<lambda>(current, manager).
       if prj_ManagerUserID current \<noteq> observed then fail ErrTransferRetry
       else
         (case target of
            None \<Rightarrow> fail ErrManagerInactive
          | Some new \<Rightarrow>
              if usr_Status new \<noteq> UserStatusActive then fail ErrManagerInactive
              else if prj_ManagerUserID current = usr_ID new then ret (current, manager)
              else
                bnd (project_SetManager i (usr_ID new)) (\<lambda>u.
                bnd (project_with_manager i) (\<lambda>updated.
                bnd (project_createAudit m i ''project.transferred''
                       [(''from_manager_user_id'', JStr (prj_ManagerUserID current)),
                        (''to_manager_user_id'', JStr (usr_ID new))]) (\<lambda>u.
                ret updated))))) w1 = (Inr r, w')"
    unfolding transfer_body_def bnd_run [of "lock_managers a b c" for a b c] by blast
  have same: "w_db w1 = w_db w" using readsD [OF lock_managers_reads lock] .
  show "stays_ok (w_db w) (w_db w')"
  proof (cases target)
    case None
    with rest show ?thesis by (auto simp: on_row_run fail_run split: if_splits)
  next
    case (Some new)
    with lock_managers_target [of requested None _ w new w1] lock
    have new: "new \<in> set (tbl_users (w_db w))" "usr_ID new = requested" by simp_all
    let ?tail = "\<lambda>current. bnd (project_with_manager i) (\<lambda>updated.
        bnd (project_createAudit m i ''project.transferred''
          [(''from_manager_user_id'', JStr (prj_ManagerUserID current)), (''to_manager_user_id'', JStr (usr_ID new))])
          (\<lambda>u. ret updated))"
    obtain current manager w2 where get: "project_with_manager i w1 = (Inr (current, manager), w2)"
      and go: "(if prj_ManagerUserID current \<noteq> observed then fail ErrTransferRetry
         else if usr_Status new \<noteq> UserStatusActive then fail ErrManagerInactive
         else if prj_ManagerUserID current = usr_ID new then ret (current, manager)
         else bnd (project_SetManager i (usr_ID new)) (\<lambda>u. ?tail current)) w2 = (Inr r, w')"
      using rest unfolding Some option.case by (auto simp: on_row_run fail_run)
    have same2: "w_db w2 = w_db w" using readsD [OF joined_reads(1) get] same by simp
    show ?thesis
    proof (cases "usr_Status new = UserStatusActive \<and> prj_ManagerUserID current \<noteq> usr_ID new")
      case True
      with go obtain w3 where set': "project_SetManager i (usr_ID new) w2 = (Inr (), w3)" and tail: "?tail current w3 = (Inr r, w')"
        by (auto simp: bnd_run [of "project_SetManager a b" for a b] fail_run split: if_splits)
      have after: "keeps stays_ok (?tail current)" by (intro service_keeps joined_reads tenancy.keeps_reads)
      have "active_user (tbl_users (w_db w2)) (usr_ID new)" using new True same2 by (auto simp: active_user_def)
      from SetManager_stays [OF set' this] keepsD [OF after tail] show ?thesis
        using tenancy.R_trans same2 by auto
    next
      case False
      with go same2 show ?thesis by (auto simp: fail_run ret_run tenancy.R_refl split: if_splits)
    qed
  qed
qed

subsection \<open>Services\<close>

lemmas service_guards = tenancy.guards_bnd tenancy.guards_map_error tenancy.guards_on_row guards_if guards_option
  guards_sum guards_prod tenancy.guards_fail tenancy.guards_ret tenancy.guards_transaction

lemma small_reads [simp, intro]:
  "reads (requireSuperAdmin scope)" "reads (required v)" "reads user_randomUUID" "reads project_randomUUID"
  "reads (credential_random n)" "reads (generateCredential prefix)"
  by (auto simp: requireSuperAdmin_def required_def user_randomUUID_def project_randomUUID_def credential_random_def
      generateCredential_def intro!: reads_intros split: option.splits)

lemma user_Create_guards: "(\<And>p. reads (hash p)) \<Longrightarrow> guards stays_ok (user_service_Create hash scope request metadata)"
  unfolding user_service_Create_def
  by (intro service_guards user_create_keeps) (rule tenancy.guards_reads, auto)+

lemma user_UpdateStatus_guards: "guards stays_ok (user_service_UpdateStatus scope i status metadata)"
proof (cases "known_status status")
  case True
  then show ?thesis
    unfolding user_service_UpdateStatus_def
    by (intro service_guards user_status_keeps) (rule tenancy.guards_reads, auto | assumption)+
next
  case False
  then show ?thesis
    by (auto simp: user_service_UpdateStatus_def intro!: tenancy.guards_reads reads_intros)
qed

lemma project_Create_guards: "guards stays_ok (project_service_Create s scope request metadata)"
  unfolding project_service_Create_def
  by (intro service_guards project_create_keeps) ((rule tenancy.guards_reads, auto intro!: reads_intros) | simp add: new_project_def)+

lemma project_Update_guards: "guards stays_ok (project_service_Update s scope i request metadata)"
  unfolding project_service_Update_def
  by (intro service_guards project_update_keeps) (rule tenancy.guards_reads, auto intro!: reads_intros)+

lemma project_RotateAPIKey_guards: "guards stays_ok (project_service_RotateAPIKey scope i metadata)"
  unfolding project_service_RotateAPIKey_def
  by (intro service_guards rotate_key_keeps) (rule tenancy.guards_reads, auto intro!: reads_intros)+

lemma project_RotateWebhookSecret_guards: "guards stays_ok (project_service_RotateWebhookSecret s scope i metadata)"
  unfolding project_service_RotateWebhookSecret_def
  by (intro service_guards rotate_secret_keeps) (rule tenancy.guards_reads, auto intro!: reads_intros)+

lemma transfer_attempts_guards: "guards stays_ok (transfer_attempts n i observed requested m)"
proof (induction n arbitrary: observed)
  case 0
  then show ?case by (simp add: tenancy.guards_fail)
next
  case (Suc n)
  show ?case
    unfolding guards_def
  proof
    fix w
    obtain r w1 where run: "WithinTransaction (transfer_body i observed requested m) w = (r, w1)" by fastforce
    have one: "stays_ok (w_db w) (w_db w1)"
      using tenancy.transaction_related [OF transfer_keeps, of w i observed requested m] run by simp
    have again: "guards stays_ok (on_row (project_with_manager i) (fail ErrProjectNotFound)
        (\<lambda>(observed, u). transfer_attempts n i (prj_ManagerUserID observed) requested m))"
      by (intro service_guards joined_reads Suc.IH)
    show "stays_ok (w_db w) (w_db (snd (transfer_attempts (Suc n) i observed requested m w)))"
      using one again run tenancy.R_trans by (cases r) (auto simp: guards_def)
  qed
qed

lemma project_Transfer_guards: "guards stays_ok (project_service_Transfer scope i requested metadata)"
  unfolding project_service_Transfer_def
  by (intro service_guards transfer_attempts_guards joined_reads)

lemma IncrementSessionGeneration_keeps: "keeps stays_ok (user_IncrementSessionGeneration i expected)"
proof (rule keepsI)
  fix w x w'
  assume run: "user_IncrementSessionGeneration i expected w = (Inr x, w')"
  let ?f = "\<lambda>u. if usr_ID u = i \<and> usr_SessionGeneration u = expected
      then u\<lparr>usr_SessionGeneration := usr_SessionGeneration u + 1, usr_UpdatedAt := w_now w\<rparr> else u"
  have new: "w_db w' = (w_db w)\<lparr>tbl_users := map ?f (tbl_users (w_db w))\<rparr>"
    using run by (auto simp: user_IncrementSessionGeneration_def bnd_run ret_run update_users_def sql_run update_where_def split: if_splits)
  have maps: "map usr_ID (map ?f us) = map usr_ID us"
    "map (\<lambda>u. ascii_lower (usr_Email u)) (map ?f us) = map (\<lambda>u. ascii_lower (usr_Email u)) us"
    "length (filter usr_IsSuperAdmin (map ?f us)) = length (filter usr_IsSuperAdmin us)"
    "active_user (map ?f us) = active_user us" for us
    by (induction us) (auto simp: active_user_def fun_eq_iff)
  have "\<forall>u\<in>set (map ?f us). user_check u" if "\<forall>u\<in>set us. user_check u" for us
    using that by (auto simp: user_check_def)
  moreover have "kept same_account us (map ?f us)" for us
    by (rule kept_map) (auto simp: same_account_def)
  ultimately show "stays_ok (w_db w) (w_db w')"
    unfolding new stays_ok_def tenancy_ok_def user_tables_ok_def project_tables_ok_def
    by (clarsimp simp del: map_map list.pred_map filter_map length_filter_map set_map simp: maps)
qed

end
