(* ===== verification/Tenancy_Safety.thy ===== *)
theory Tenancy_Safety
  imports Tenancy
begin

text \<open>
  What Users and Projects promise over time, for every sequence of the operations of the two services, of
  ended sessions and of whatever else leaves their tables alone.
\<close>

inductive tenant_step :: "password_hash \<Rightarrow> world \<Rightarrow> world \<Rightarrow> bool" for hash where
  user_created: "tenant_step hash w (snd (user_service_Create hash scope request metadata w))"
| status_updated: "tenant_step hash w (snd (user_service_UpdateStatus scope i status metadata w))"
| session_ended: "tenant_step hash w (snd (WithinTransaction (user_IncrementSessionGeneration i generation) w))"
| project_created: "tenant_step hash w (snd (project_service_Create s scope pc metadata w))"
| project_updated: "tenant_step hash w (snd (project_service_Update s scope i pu metadata w))"
| key_rotated: "tenant_step hash w (snd (project_service_RotateAPIKey scope i metadata w))"
| secret_rotated: "tenant_step hash w (snd (project_service_RotateWebhookSecret s scope i metadata w))"
| transferred: "tenant_step hash w (snd (project_service_Transfer scope i requested metadata w))"
| unrelated: "tbl_users (w_db w') = tbl_users (w_db w) \<Longrightarrow> tbl_projects (w_db w') = tbl_projects (w_db w) \<Longrightarrow>
    tbl_secrets (w_db w') = tbl_secrets (w_db w) \<Longrightarrow> tenant_step hash w w'"

definition tenant_run :: "password_hash \<Rightarrow> world \<Rightarrow> world \<Rightarrow> bool" where
  "tenant_run hash = (tenant_step hash)\<^sup>*\<^sup>*"

lemma guardsD: "guards R m \<Longrightarrow> R (w_db w) (w_db (snd (m w)))"
  by (simp add: guards_def)

lemma tenant_step_stays:
  assumes "tenant_step hash w w'" and "\<And>p. reads (hash p)"
  shows "stays_ok (w_db w) (w_db w')"
  using assms(1)
proof cases
  case (unrelated)
  then show ?thesis by (simp add: stays_ok_cong)
qed (simp_all only:, (rule guardsD, intro user_Create_guards user_UpdateStatus_guards project_Create_guards
    project_Update_guards project_RotateAPIKey_guards project_RotateWebhookSecret_guards project_Transfer_guards
    tenancy.guards_transaction IncrementSessionGeneration_keeps assms(2))+)

lemma tenant_run_stays: "tenant_run hash w w' \<Longrightarrow> (\<And>p. reads (hash p)) \<Longrightarrow> stays_ok (w_db w) (w_db w')"
  unfolding tenant_run_def
proof (induction rule: rtranclp_induct)
  case base
  then show ?case by (simp add: tenancy.R_refl)
next
  case (step y z)
  with tenant_step_stays [OF step.hyps(2)] show ?case using tenancy.R_trans by blast
qed

text \<open>
  C25. However the operations of Users and Projects follow each other, and whether they succeed, fail or lose the
  reply to their commit, the tables stay sound: every Project is managed by an existing, active User (so a
  manager cannot be disabled, and a disabled User cannot be given a Project), identities, emails and API key
  digests are unique, and there is at most one super administrator, who is active.
\<close>

theorem managers_are_active:
  assumes "tenant_run hash w w'" and "\<And>p. reads (hash p)" and "tenancy_ok (w_db w)"
  shows "user_tables_ok (w_db w') \<and> project_tables_ok (w_db w') \<and>
    (\<forall>p\<in>set (tbl_projects (w_db w')). \<exists>u\<in>set (tbl_users (w_db w')).
       usr_ID u = prj_ManagerUserID p \<and> usr_Status u = UserStatusActive)"
  using tenant_run_stays [OF assms(1,2)] assms(3)
  by (auto simp: stays_ok_def tenancy_ok_def list_all_iff active_user_def)

definition root_user :: User where
  "root_user =
     \<lparr>usr_ID = ''00000000-0000-4000-8000-000000000001'', usr_Email = ''root@example.com'', usr_PasswordHash = ''h'',
      usr_DisplayName = ''Root'', usr_IsSuperAdmin = True, usr_Status = UserStatusActive, usr_SessionGeneration = 0,
      usr_CreatedAt = 0, usr_UpdatedAt = 0\<rparr>"

definition plain_user :: User where
  "plain_user = root_user\<lparr>usr_ID := ''00000000-0000-4000-8000-000000000002'', usr_Email := ''ann@example.com'',
     usr_IsSuperAdmin := False\<rparr>"

definition owned_project :: Project where
  "owned_project =
     \<lparr>prj_ID = ''00000000-0000-4000-8000-00000000000a'', prj_Name = ''Doors'', prj_ManagerUserID = usr_ID plain_user,
      prj_WebhookURL = Some ''https://example.com/hook'', prj_WebhookConfigVersion = 1,
      prj_CurrentWebhookSecretVersion = Some 1, prj_APIKeyDigest = [], prj_IPWhitelist = [''10.0.0.0/8''],
      prj_CreatedAt = 0, prj_UpdatedAt = 0\<rparr>"

definition tenant_db :: db where
  "tenant_db = blank_db\<lparr>tbl_users := [root_user, plain_user], tbl_projects := [owned_project]\<rparr>"

lemma tenant_db_ok: "tenancy_ok tenant_db"
  by (simp add: tenancy_ok_def user_tables_ok_def project_tables_ok_def active_user_def tenant_db_def blank_db_def
      root_user_def plain_user_def owned_project_def user_check_def known_status_def ascii_lower_def byte_of_def)

definition some_hash :: password_hash where "some_hash p w = (Inr ''h'', w)"

lemma some_hash_reads: "reads (some_hash p)"
  by (simp add: reads_def some_hash_def)

definition root_scope :: Scope where "root_scope = access_SuperAdmin (usr_ID root_user)"

definition root_metadata :: UserMetadata where
  "root_metadata = \<lparr>umd_ActorUserID = usr_ID root_user, umd_IPAddress = [], umd_RequestID = ''r''\<rparr>"

theorem managers_are_active_witness:
  "project_tables_ok (w_db (snd (project_service_Transfer root_scope (prj_ID owned_project) (usr_ID root_user) root_metadata
     (snd (user_service_UpdateStatus root_scope (usr_ID plain_user) UserStatusDisabled root_metadata (world_at tenant_db 5))))))"
proof -
  let ?w1 = "snd (user_service_UpdateStatus root_scope (usr_ID plain_user) UserStatusDisabled root_metadata (world_at tenant_db 5))"
  have "tenant_run some_hash (world_at tenant_db 5)
      (snd (project_service_Transfer root_scope (prj_ID owned_project) (usr_ID root_user) root_metadata ?w1))"
    unfolding tenant_run_def
    by (rule rtranclp.rtrancl_into_rtrancl [OF r_into_rtranclp]) (rule status_updated, rule transferred)
  from managers_are_active [OF this some_hash_reads] tenant_db_ok show ?thesis by simp
qed

subsection \<open>Sessions\<close>



subsection \<open>Webhook secrets\<close>

lemma text_bytes [simp]: "text_of (bytes_of s) = s"
proof -
  have "char_of (unat (of_nat (byte_of c) :: 8 word)) = c" for c
  proof -
    have "byte_of c < 256" by (simp add: byte_of_def)
    then show ?thesis by (simp add: unat_of_nat byte_of_def)
  qed
  then show ?thesis by (simp add: text_of_def bytes_of_def comp_def)
qed

lemma bytes_text [simp]: "bytes_of (text_of ws) = ws"
proof -
  have "of_nat (byte_of (char_of (unat (x :: 8 word)))) = x" for x
    using byte_bound [of x] by (simp add: byte_of_def)
  then show ?thesis by (simp add: text_of_def bytes_of_def comp_def)
qed

text \<open>A row whose secret this service can read.\<close>

definition holds_secret :: "ProjectService \<Rightarrow> gostr \<Rightarrow> WebhookSecretVersion \<Rightarrow> bool" where
  "holds_secret s plaintext row \<longleftrightarrow>
     (case psv_keys s (wsv_EncryptionKeyVersion row) of
        None \<Rightarrow> False
      | Some key \<Rightarrow> decryptSecret key (wsv_Ciphertext row) (wsv_Nonce row) (wsv_ProjectID row) (wsv_Version row)
          (wsv_EncryptionKeyVersion row) = Inr plaintext)"

lemma holds_secret_same: "same_secret row row' \<Longrightarrow> holds_secret s plaintext row \<Longrightarrow> holds_secret s plaintext row'"
  by (auto simp: same_secret_def holds_secret_def split: option.splits)

lemma new_secret_holds:
  assumes "new_secret s i v w = (Inr (plaintext, row), w')" and "psv_keys s (psv_activeKeyVersion s) = Some key"
  shows "holds_secret s plaintext (row t) \<and> wsv_ProjectID (row t) = i \<and> wsv_Version (row t) = v"
  using assms
  by (auto simp: new_secret_def encryptSecret_def bnd_run ret_run fail_run active_key_def holds_secret_def
      decryptSecret_def gcm_Open_Seal split: if_splits)

lemma resolves:
  assumes "next_fault w = None" and "validUUID i" and "1 \<le> v" and "project_tables_ok (w_db w)"
    and row: "row \<in> set (tbl_secrets (w_db w))" "wsv_ProjectID row = i" "wsv_Version row = v" "holds_secret s plaintext row"
  shows "fst (project_service_ResolveWebhookSecret s i v w) = Inr plaintext"
proof -
  have inj: "inj_on (\<lambda>s. (wsv_ProjectID s, wsv_Version s)) (set (tbl_secrets (w_db w)))"
    using assms(4) by (simp add: project_tables_ok_def distinct_map)
  have "find (\<lambda>x. wsv_ProjectID x = i \<and> wsv_Version x = v) (tbl_secrets (w_db w)) = Some row"
    by (rule find_only [OF row(1)]) (use row in simp, rule inj_onD [OF inj _ _ row(1)], use row in simp_all)
  then have "project_GetWebhookSecretVersion i v w = (Inr row, consume w)"
    using assms(1) by (simp add: project_GetWebhookSecretVersion_def query_row_run)
  with assms(2,3) row(2-4) show ?thesis
    by (auto simp: project_service_ResolveWebhookSecret_def on_row_def holds_secret_def lift_result_def ret_def
        split: option.splits)
qed

lemma resolves_later:
  assumes "row \<in> set (tbl_secrets (w_db w1))" and "holds_secret s plaintext row" and "wsv_ProjectID row = i" "wsv_Version row = v"
    and "stays_ok (w_db w1) (w_db w2)" and "tenancy_ok (w_db w1)" and "next_fault w2 = None" and "validUUID i" and "1 \<le> v"
  shows "fst (project_service_ResolveWebhookSecret s i v w2) = Inr plaintext"
proof -
  obtain row' where row': "row' \<in> set (tbl_secrets (w_db w2))" "same_secret row row'"
    using assms(1,5) by (auto simp: stays_ok_def kept_def)
  then have "holds_secret s plaintext row'" "wsv_ProjectID row' = i" "wsv_Version row' = v"
    using assms(2-4) holds_secret_same by (auto simp: same_secret_def)
  with row'(1) show ?thesis
    using assms(5-9) by (intro resolves) (auto simp: stays_ok_def tenancy_ok_def)
qed

text \<open>What a rotation leaves in the tables.\<close>

lemma SetWebhookConfiguration_db:
  "project_SetWebhookConfiguration i address cv sv w = (Inr x, w') \<Longrightarrow>
   w_db w' = (w_db w)\<lparr>tbl_projects := map (\<lambda>p. if prj_ID p = i
     then p\<lparr>prj_WebhookURL := address, prj_WebhookConfigVersion := cv, prj_CurrentWebhookSecretVersion := sv,
            prj_UpdatedAt := w_now w\<rparr> else p) (tbl_projects (w_db w))\<rparr>"
  by (auto simp: project_SetWebhookConfiguration_def bnd_run ret_run update_projects_def sql_run update_where_def)

lemma project_with_manager_run:
  "project_with_manager i w = (Inr (p, u), w') \<longleftrightarrow>
     next_fault w = None \<and> find (\<lambda>p. prj_ID p = i) (tbl_projects (w_db w)) = Some p \<and>
     find (\<lambda>u. usr_ID u = prj_ManagerUserID p) (tbl_users (w_db w)) = Some u \<and> w' = consume w"
  by (auto simp: project_with_manager_def joined_def query_run split: option.splits)

lemma audit_db:
  "project_createAudit m i a l w = (Inr x, w') \<Longrightarrow>
   tbl_projects (w_db w') = tbl_projects (w_db w) \<and> tbl_secrets (w_db w') = tbl_secrets (w_db w) \<and>
   tbl_users (w_db w') = tbl_users (w_db w)"
  by (auto simp: project_createAudit_def project_randomUUID_def credential_random_def audit_Create_def run_simps split: if_splits)

lemma in_mapD: "y \<in> set ys \<Longrightarrow> ys = map f xs \<Longrightarrow> \<exists>x\<in>set xs. y = f x"
  by auto

lemma rotate_secret_effect:
  assumes run: "rotate_secret_body s scope i m w = (Inr ((p, u), plaintext), w')"
    and key: "psv_keys s (psv_activeKeyVersion s) = Some key"
  shows "\<exists>v row current. find (\<lambda>p. prj_ID p = i) (tbl_projects (w_db w)) = Some current \<and>
    prj_CurrentWebhookSecretVersion current = Some v \<and>
    find (\<lambda>p. prj_ID p = i) (tbl_projects (w_db w')) = Some p \<and> prj_CurrentWebhookSecretVersion p = Some (v + 1) \<and>
    row \<in> set (tbl_secrets (w_db w')) \<and> holds_secret s plaintext row \<and> wsv_ProjectID row = i \<and> wsv_Version row = v + 1"
proof -
  obtain current u0 address v w1 w2 w3 w4 w5 w6 row where
    get: "find (\<lambda>p. prj_ID p = i) (tbl_projects (w_db w)) = Some current" "prj_CurrentWebhookSecretVersion current = Some v"
    and new: "new_secret s i (v + 1) w1 = (Inr (plaintext, row), w2)"
    and create: "project_CreateWebhookSecretVersion (row (w_clock (tick w2))) (tick w2) = (Inr (), w3)"
    and set': "project_SetWebhookConfiguration i (Some address) (prj_WebhookConfigVersion current + 1) (Some (v + 1)) w3 = (Inr (), w4)"
    and retire: "project_RetireWebhookSecretVersion i v w4 = (Inr (), w5)"
    and after: "project_with_manager i w5 = (Inr (p, u), w6)"
    and audit: "project_createAudit m i ''project.webhook_secret_rotated'' [(''webhook_secret_version'', JInt (v + 1))] w6 = (Inr (), w')"
    using run
    by (auto simp: rotate_secret_body_def locked_project_def on_row_run fail_run bnd_run ret_run time_now_run
        project_with_manager_run split: option.splits if_splits prod.splits)
  note row = new_secret_holds [OF new key, of "w_clock (tick w2)"]
  have "row (w_clock (tick w2))\<lparr>wsv_CreatedAt := pg_time (wsv_CreatedAt (row (w_clock (tick w2)))),
      wsv_RetiredAt := map_option pg_time (wsv_RetiredAt (row (w_clock (tick w2))))\<rparr> \<in> set (tbl_secrets (w_db w3))"
    using create by (auto simp: project_CreateWebhookSecretVersion_def sql_run split: if_splits)
  then obtain row3 where row3: "row3 \<in> set (tbl_secrets (w_db w3))" "same_secret (row (w_clock (tick w2))) row3"
    by (auto simp: same_secret_def)
  have "row3 \<in> set (tbl_secrets (w_db w5))"
    using retire row3 row SetWebhookConfiguration_db [OF set']
    by (auto simp: project_RetireWebhookSecretVersion_def sql_run same_secret_def image_iff intro!: bexI [of _ row3])
  then have "row3 \<in> set (tbl_secrets (w_db w'))"
    using audit_db [OF audit] after by (simp add: project_with_manager_run)
  moreover have "find (\<lambda>p. prj_ID p = i) (tbl_projects (w_db w')) = Some p"
    using audit_db [OF audit] after by (simp add: project_with_manager_run)
  moreover have "prj_CurrentWebhookSecretVersion p = Some (v + 1)"
  proof -
    let ?f = "\<lambda>p. if prj_ID p = i
       then p\<lparr>prj_WebhookURL := Some address, prj_WebhookConfigVersion := prj_WebhookConfigVersion current + 1,
              prj_CurrentWebhookSecretVersion := Some (v + 1), prj_UpdatedAt := w_now w3\<rparr> else p"
    have "tbl_projects (w_db w5) = tbl_projects (w_db w4)"
      using retire by (auto simp: project_RetireWebhookSecretVersion_def sql_run)
    then have maps: "tbl_projects (w_db w5) = map ?f (tbl_projects (w_db w3))"
      by (simp add: SetWebhookConfiguration_db [OF set'])
    have p: "p \<in> set (tbl_projects (w_db w5))" "prj_ID p = i"
      using after find_SomeD [of "\<lambda>p. prj_ID p = i" "tbl_projects (w_db w5)" p] by (simp_all add: project_with_manager_run)
    obtain q where q: "p = ?f q" using in_mapD [OF p(1) maps] by blast
    then have "prj_ID q = i" using p(2) by (cases "prj_ID q = i") simp_all
    with q show ?thesis by simp
  qed
  moreover have "holds_secret s plaintext row3" "wsv_ProjectID row3 = i" "wsv_Version row3 = v + 1"
    using holds_secret_same [OF row3(2)] row row3(2) by (simp_all add: same_secret_def)
  ultimately show ?thesis using get by blast
qed

lemma committed_run: "WithinTransaction fn w = (Inr x, w') \<Longrightarrow> \<exists>w1. fn (started w) = (Inr x, w1) \<and> w' = consume w1"
  by (auto simp: WithinTransaction_run)

text \<open>
  C27. A rotated webhook secret reaches the worker that signs with it. A rotation that succeeds moves the
  Project's current secret version from v to v + 1, in the tables it leaves; and whatever happens to Users and
  Projects after it, further rotations included, resolving version v + 1 yields exactly the secret the
  rotation returned, if the statement that reads it meets no driver failure: what Seal wrote under the
  Project, the version and the key version, Open reads back. The tables are consistent and the versions in
  them positive, and the active key version has a key.
\<close>

theorem rotated_secret_resolves:
  assumes key: "psv_keys s (psv_activeKeyVersion s) = Some key"
    and issued: "project_service_RotateWebhookSecret s scope i metadata w = (Inr r, w1)"
    and ok: "tenancy_ok (w_db w)" and positive: "\<And>p v. p \<in> set (tbl_projects (w_db w)) \<Longrightarrow>
      prj_CurrentWebhookSecretVersion p = Some v \<Longrightarrow> 0 < v"
    and later: "tenant_run hash w1 w2" "\<And>p. reads (hash p)" and calm: "next_fault w2 = None"
  shows "\<exists>p v p'. find (\<lambda>p. prj_ID p = i) (tbl_projects (w_db w)) = Some p \<and> prj_CurrentWebhookSecretVersion p = Some v \<and>
    find (\<lambda>p. prj_ID p = i) (tbl_projects (w_db w1)) = Some p' \<and> prj_CurrentWebhookSecretVersion p' = Some (v + 1) \<and>
    fst (project_service_ResolveWebhookSecret s i (v + 1) w2) = Inr (pcd_WebhookSecret r)"
proof -
  have valid: "validUUID i" using issued by (auto simp: project_service_RotateWebhookSecret_def fail_run split: if_splits)
  obtain m p u w0 where body: "rotate_secret_body s scope i m (started w) = (Inr ((p, u), pcd_WebhookSecret r), w0)"
    and w1: "w1 = consume w0"
    using issued
    by (auto simp: project_service_RotateWebhookSecret_def fail_run bnd_run lift_result_run ret_run split: if_splits prod.splits
        dest!: committed_run)
  from rotate_secret_effect [OF body key] obtain v row current where
    now: "find (\<lambda>p. prj_ID p = i) (tbl_projects (w_db w1)) = Some p" "prj_CurrentWebhookSecretVersion p = Some (v + 1)"
    and current: "find (\<lambda>p. prj_ID p = i) (tbl_projects (w_db w)) = Some current" "prj_CurrentWebhookSecretVersion current = Some v"
    and row: "row \<in> set (tbl_secrets (w_db w1))" "holds_secret s (pcd_WebhookSecret r) row" "wsv_ProjectID row = i"
      "wsv_Version row = v + 1"
    by (auto simp: w1)
  have "stays_ok (w_db w) (w_db w1)"
    using guardsD [OF project_RotateWebhookSecret_guards, of w s scope i metadata] issued by simp
  then have "tenancy_ok (w_db w1)" using ok by (simp add: stays_ok_def)
  moreover have "1 \<le> v + 1" using positive [of current v] current find_SomeD [OF current(1)] by simp
  ultimately have "fst (project_service_ResolveWebhookSecret s i (v + 1) w2) = Inr (pcd_WebhookSecret r)"
    by (intro resolves_later [OF row(1,2,3,4) tenant_run_stays [OF later] _ calm valid])
  with current now show ?thesis by blast
qed

definition some_service :: ProjectService where
  "some_service = \<lparr>psv_keys = [1 \<mapsto> replicate 32 7], psv_activeKeyVersion = 1\<rparr>"

lemma root_valid:
  "validateHumanScope root_scope" "actor_metadata root_scope root_metadata = Inr root_metadata"
  "validUUID (prj_ID owned_project)" "IsSuperAdmin root_scope" "validUUID (usr_ID plain_user)"
  by code_simp+

lemma tenant_db_tables:
  "find (\<lambda>p. prj_ID p = prj_ID owned_project) (tbl_projects tenant_db) = Some owned_project"
  "find (\<lambda>u. usr_ID u = prj_ManagerUserID owned_project) (tbl_users tenant_db) = Some plain_user"
  "tbl_secrets tenant_db = []" "tbl_audits tenant_db = []" "tbl_projects tenant_db = [owned_project]"
  "tbl_users tenant_db = [root_user, plain_user]"
  by (simp_all add: tenant_db_def blank_db_def owned_project_def plain_user_def root_user_def)

lemma read_counting: "n \<le> length (w_random w) \<Longrightarrow>
  credential_random n w = (Inr (take n (w_random w)), w\<lparr>w_random := drop n (w_random w)\<rparr>)"
  by (simp add: credential_random_def map_error_def read_random_def)

lemma owned_project_simps:
  "prj_ManagerUserID owned_project = usr_ID plain_user" "usr_ID root_user \<noteq> usr_ID plain_user"
  "prj_WebhookURL owned_project = Some ''https://example.com/hook''" "prj_CurrentWebhookSecretVersion owned_project = Some 1"
  "CanAccessProject root_scope owned_project" "prj_APIKeyDigest owned_project = []"
  "prj_IPWhitelist owned_project = [''10.0.0.0/8'']"
  by (simp_all add: owned_project_def plain_user_def root_user_def CanAccessProject_def root_scope_def access_SuperAdmin_def)

lemma no_ticks: "w_ticks w = [] \<Longrightarrow> tick w = w" "w_ticks (world_at d t) = []"
  by (simp_all add: tick_def world_at_def)

lemmas evaluate = no_ticks bnd_def ret_def fail_def on_row_def lift_result_def map_error_def query_def sql_def next_fault_def consume_def
  started_def time_now_def joined_def project_with_manager_def locked_project_def read_counting project_randomUUID_def
  project_createAudit_def audit_Create_def tenant_db_tables root_valid owned_project_simps

lemma rotation_happens:
  "\<exists>r w1. project_service_RotateWebhookSecret some_service root_scope (prj_ID owned_project) root_metadata
     (world_at tenant_db 5) = (Inr r, w1) \<and> w_faults w1 = []"
  by (simp add: project_service_RotateWebhookSecret_def WithinTransaction_def commit_def rotate_secret_body_def
      new_secret_def generateCredential_def encryptSecret_def active_key_def some_service_def
      project_CreateWebhookSecretVersion_def project_SetWebhookConfiguration_def update_projects_def update_where_def
      project_RetireWebhookSecretVersion_def Let_def evaluate)

theorem rotated_secret_resolves_witness:
  "\<exists>r w1. project_service_RotateWebhookSecret some_service root_scope (prj_ID owned_project) root_metadata
     (world_at tenant_db 5) = (Inr r, w1) \<and>
   map_option prj_CurrentWebhookSecretVersion (find (\<lambda>p. prj_ID p = prj_ID owned_project) (tbl_projects (w_db w1))) = Some (Some 2) \<and>
   fst (project_service_ResolveWebhookSecret some_service (prj_ID owned_project) 2 w1) = Inr (pcd_WebhookSecret r)"
proof -
  obtain r w1 where run: "project_service_RotateWebhookSecret some_service root_scope (prj_ID owned_project) root_metadata
     (world_at tenant_db 5) = (Inr r, w1)" and calm: "w_faults w1 = []"
    using rotation_happens by blast
  have "tenant_run some_hash w1 w1" by (simp add: tenant_run_def)
  from rotated_secret_resolves [OF _ run _ _ this some_hash_reads, of "replicate 32 7"] run calm tenant_db_ok
  show ?thesis by (auto simp: some_service_def tenant_db_tables owned_project_simps)
qed

subsection \<open>API keys\<close>

lemma has_prefix_append [simp]: "has_prefix (p @ s) p"
  by (simp add: has_prefix_iff)

lemma generated_valid: "generateCredential prefix w = (Inr c, w') \<Longrightarrow> validCredential c prefix"
  by (auto simp: generateCredential_def credential_random_def bnd_run ret_run map_error_run read_random_run
      validCredential_def base64_decode_encode)

lemma project_by_digest_run:
  "project_by_digest k w = (Inr (p, u), w') \<longleftrightarrow>
     next_fault w = None \<and> find (\<lambda>p. prj_APIKeyDigest p = k) (tbl_projects (w_db w)) = Some p \<and>
     find (\<lambda>u. usr_ID u = prj_ManagerUserID p) (tbl_users (w_db w)) = Some u \<and> w' = consume w"
  by (auto simp: project_by_digest_def joined_def query_run split: option.splits)

lemma rotate_key_effect:
  assumes "rotate_key_body scope i digest m w = (Inr (p, u), w')"
  shows "\<exists>t. tbl_projects (w_db w') = map (\<lambda>p. if prj_ID p = i then p\<lparr>prj_APIKeyDigest := digest, prj_UpdatedAt := t\<rparr> else p)
      (tbl_projects (w_db w)) \<and>
    find (\<lambda>p. prj_ID p = i) (tbl_projects (w_db w')) = Some p \<and>
    find (\<lambda>u. usr_ID u = prj_ManagerUserID p) (tbl_users (w_db w')) = Some u"
proof -
  obtain w1 w2 where replace: "project_ReplaceAPIKeyDigest i digest (consume w) = (Inr (), w1)"
    and after: "project_with_manager i w1 = (Inr (p, u), w2)"
    and audit: "project_createAudit m i ''project.api_key_rotated'' [] w2 = (Inr (), w')"
    using assms
    by (auto simp: rotate_key_body_def locked_project_def on_row_run fail_run bnd_run ret_run project_with_manager_run
        split: if_splits prod.splits)
  from replace have "tbl_projects (w_db w1) = map (\<lambda>p. if prj_ID p = i then p\<lparr>prj_APIKeyDigest := digest, prj_UpdatedAt := w_now w\<rparr> else p)
      (tbl_projects (w_db w))"
    by (auto simp: project_ReplaceAPIKeyDigest_def sql_run update_where_def split: if_splits)
  with after audit_db [OF audit] show ?thesis by (auto simp: project_with_manager_run)
qed

text \<open>
  C28. A rotated API key replaces the former one at once. The returned key has the form of a credential and, from
  an address that the Project's whitelist admits, it authenticates the Project; every key of the former digest,
  from anywhere, is refused as a key that never existed (unless SHA-256 gave the new key the same digest). The
  tables are consistent, and the statement that looks the key up meets no driver failure.
\<close>

theorem rotated_key_replaces_the_former:
  assumes issued: "project_service_RotateAPIKey scope i metadata w = (Inr r, w1)"
    and ok: "tenancy_ok (w_db w)" and calm: "next_fault w1 = None"
    and project: "p \<in> set (tbl_projects (w_db w))" "prj_ID p = i"
    and differ: "prj_APIKeyDigest p \<noteq> apiKeyDigest (pcd_APIKey r)"
    and peer: "parsePeerAddress peer = Some a" "whitelistAllows (prj_IPWhitelist p) a = Some True"
  shows "(\<exists>v. fst (project_service_AuthenticateAPIKey (pcd_APIKey r) peer w1) = Inr v \<and> pjv_ID v = i) \<and>
    (\<forall>former. apiKeyDigest former = prj_APIKeyDigest p \<longrightarrow>
       fst (project_service_AuthenticateAPIKey former peer' w1) = Inl ErrAuthenticationFailed)"
proof -
  obtain m u p' w0 wg where key: "generateCredential ''dp_'' w = (Inr (pcd_APIKey r), wg)"
    and body: "rotate_key_body scope i (apiKeyDigest (pcd_APIKey r)) m (started wg) = (Inr (p', u), w0)"
    and w1: "w1 = consume w0"
    using issued
    by (auto simp: project_service_RotateAPIKey_def fail_run bnd_run lift_result_run ret_run split: if_splits prod.splits
        dest!: committed_run)
  have same: "w_db wg = w_db w" by (rule readsD [OF small_reads(6) key])
  obtain t where raw: "tbl_projects (w_db w0) = map (\<lambda>p. if prj_ID p = i then p\<lparr>prj_APIKeyDigest := apiKeyDigest (pcd_APIKey r),
        prj_UpdatedAt := t\<rparr> else p) (tbl_projects (w_db (started wg))) \<and>
      find (\<lambda>p. prj_ID p = i) (tbl_projects (w_db w0)) = Some p' \<and>
      find (\<lambda>u. usr_ID u = prj_ManagerUserID p') (tbl_users (w_db w0)) = Some u"
    using rotate_key_effect [OF body] by blast
  then have tables: "tbl_projects (w_db w1) = map (\<lambda>p. if prj_ID p = i then p\<lparr>prj_APIKeyDigest := apiKeyDigest (pcd_APIKey r),
        prj_UpdatedAt := t\<rparr> else p) (tbl_projects (w_db w))"
    and found: "find (\<lambda>p. prj_ID p = i) (tbl_projects (w_db w1)) = Some p'"
      "find (\<lambda>u. usr_ID u = prj_ManagerUserID p') (tbl_users (w_db w1)) = Some u"
    unfolding w1 consume_simps started_simps same by blast+
  have "stays_ok (w_db w) (w_db w1)"
    using guardsD [OF project_RotateAPIKey_guards, of w scope i metadata] issued by simp
  then have ok1: "project_tables_ok (w_db w1)" and ok0: "project_tables_ok (w_db w)"
    using ok by (simp_all add: stays_ok_def tenancy_ok_def)
  have p': "p' \<in> set (tbl_projects (w_db w1))" "prj_ID p' = i" using find_SomeD [OF found(1)] by simp_all
  let ?p = "p\<lparr>prj_APIKeyDigest := apiKeyDigest (pcd_APIKey r), prj_UpdatedAt := t\<rparr>"
  have "?p \<in> set (tbl_projects (w_db w1))"
    unfolding tables set_map using project(2) by (intro image_eqI [OF _ project(1)]) simp
  moreover have "prj_ID ?p = prj_ID p'" using project(2) p'(2) by simp
  moreover have "inj_on prj_ID (set (tbl_projects (w_db w1)))" using ok1 by (simp add: project_tables_ok_def distinct_map)
  ultimately have p'_eq: "p' = ?p" using p'(1) by (metis inj_onD)
  have "find (\<lambda>x. prj_APIKeyDigest x = apiKeyDigest (pcd_APIKey r)) (tbl_projects (w_db w1)) = Some p'"
  proof (rule find_only [OF p'(1)])
    show digest: "prj_APIKeyDigest p' = apiKeyDigest (pcd_APIKey r)" by (simp add: p'_eq)
    fix y
    assume "y \<in> set (tbl_projects (w_db w1))" and "prj_APIKeyDigest y = apiKeyDigest (pcd_APIKey r)"
    with digest p'(1) ok1 show "y = p'" by (metis distinct_map inj_onD project_tables_ok_def)
  qed
  then have "project_by_digest (apiKeyDigest (pcd_APIKey r)) w1 = (Inr (p', u), consume w1)"
    using found(2) calm by (simp add: project_by_digest_run)
  then have new: "fst (project_service_AuthenticateAPIKey (pcd_APIKey r) peer w1) = Inr (safeProject (p', u) False)"
    using generated_valid [OF key] peer
    by (simp add: project_service_AuthenticateAPIKey_def on_row_def p'_eq ret_def)
  have "prj_APIKeyDigest x \<noteq> prj_APIKeyDigest p" if x: "x \<in> set (tbl_projects (w_db w1))" for x
  proof -
    obtain y where y: "y \<in> set (tbl_projects (w_db w))" "x = (if prj_ID y = i then y\<lparr>prj_APIKeyDigest := apiKeyDigest (pcd_APIKey r),
        prj_UpdatedAt := t\<rparr> else y)" using in_mapD [OF x tables] by blast
    show ?thesis
    proof (cases "prj_ID y = i")
      case True
      with y differ show ?thesis by simp
    next
      case False
      then have "y \<noteq> p" using project by auto
      then have "prj_APIKeyDigest y \<noteq> prj_APIKeyDigest p"
        using y(1) project(1) ok0 by (metis distinct_map inj_onD project_tables_ok_def)
      with False y project show ?thesis by simp
    qed
  qed
  then have "find (\<lambda>x. prj_APIKeyDigest x = prj_APIKeyDigest p) (tbl_projects (w_db w1)) = None"
    by (simp add: find_None_iff)
  then have "project_by_digest (prj_APIKeyDigest p) w1 = (Inl ErrNoRows, consume w1)"
    using calm by (simp add: project_by_digest_def joined_def query_def sql_def)
  then have "fst (project_service_AuthenticateAPIKey former peer' w1) = Inl ErrAuthenticationFailed"
    if "apiKeyDigest former = prj_APIKeyDigest p" for former
    using that by (simp add: project_service_AuthenticateAPIKey_def on_row_def fail_def)
  with new p' show ?thesis by (simp add: safeProject_def)
qed

lemma key_rotation_happens:
  "\<exists>r w1. project_service_RotateAPIKey root_scope (prj_ID owned_project) root_metadata (world_at tenant_db 5) = (Inr r, w1) \<and>
     w_faults w1 = []"
  by (simp add: project_service_RotateAPIKey_def WithinTransaction_def commit_def rotate_key_body_def
      generateCredential_def project_ReplaceAPIKeyDigest_def update_where_def Let_def evaluate)

theorem rotated_key_replaces_the_former_witness:
  "\<exists>r w1 v. project_service_RotateAPIKey root_scope (prj_ID owned_project) root_metadata (world_at tenant_db 5) = (Inr r, w1) \<and>
     fst (project_service_AuthenticateAPIKey (pcd_APIKey r) ''10.1.2.3:443'' w1) = Inr v \<and> pjv_ID v = prj_ID owned_project"
proof -
  obtain r w1 where run: "project_service_RotateAPIKey root_scope (prj_ID owned_project) root_metadata (world_at tenant_db 5) = (Inr r, w1)"
    and calm: "w_faults w1 = []" using key_rotation_happens by blast
  have peer: "parsePeerAddress ''10.1.2.3:443'' = Some (IPv4 0x0a010203)" by code_simp
  have "ParseAddr ''10.0.0.0/8'' = None" "ParsePrefix ''10.0.0.0/8'' = Some (IPv4 0x0a000000, 8)" by code_simp+
  then have allowed: "whitelistAllows [''10.0.0.0/8''] (IPv4 0x0a010203) = Some True"
    by (simp add: whitelistAllows_def prefix_Contains_def)
  have "length (apiKeyDigest (pcd_APIKey r)) = 32" by (simp add: apiKeyDigest_def sha256_text_def)
  then have "[] \<noteq> apiKeyDigest (pcd_APIKey r)" by auto
  then have "(\<exists>v. fst (project_service_AuthenticateAPIKey (pcd_APIKey r) ''10.1.2.3:443'' w1) = Inr v \<and>
      pjv_ID v = prj_ID owned_project) \<and> (\<forall>former. apiKeyDigest former = prj_APIKeyDigest owned_project \<longrightarrow>
       fst (project_service_AuthenticateAPIKey former [] w1) = Inl ErrAuthenticationFailed)"
    using calm tenant_db_ok allowed
    by (intro rotated_key_replaces_the_former [OF run _ _ _ _ _ peer, of owned_project]) (simp_all add: tenant_db_tables owned_project_simps)
  with run show ?thesis by blast
qed

end
