(* ===== verification/Device_Service.thy ===== *)
theory Device_Service
  imports Simulator Omni_Adapter
begin

text \<open>
  The Device service (\<open>internal/deviceservice\<close>): the registry of Providers, the published Device types, and
  the operations that create, read, list and update Devices. The Providers of the process
  (\<open>deviceServiceConfig\<close> of \<open>cmd/server/app.go\<close>) are at the end.

  The life cycle and connection values of a request are texts, as they arrive; those of a stored Device are
  the values the table allows.
\<close>

type_synonym identity_policy = "gostr option \<Rightarrow> gostr \<Rightarrow> goerr + gostr"

record ProviderRegistration =
  prg_Provider :: Provider
  prg_IdentityPolicy :: "identity_policy option"

record DeviceService =
  dsv_providers :: "gostr \<rightharpoonup> ProviderRegistration"
  dsv_providerOrder :: "gostr list"

record ActionView =
  acv_Identifier :: ActionIdentifier
  acv_PayloadSchema :: gomap
  acv_RiskLevel :: gostr
  acv_DeliveryPolicy :: DeliveryPolicy
  acv_DispatchDeadlineMS :: int
  acv_ProviderRequestTimeoutMS :: int
  acv_ResultObservationTimeoutMS :: int
  acv_RetryAllowed :: bool
  acv_DeliveryPolicyOverrideAllowed :: bool

record DeviceTypeView =
  dtv_Code :: gostr
  dtv_Revision :: int
  dtv_Name :: gostr
  dtv_Actions :: "ActionView list"

record DeviceStateView =
  dsw_State :: gomap
  dsw_EvidenceStatus :: EvidenceStatus
  dsw_ReportedAt :: "instant option"
  dsw_ObservedAt :: instant

record DeviceView =
  dvw_ID :: gostr
  dvw_ProjectID :: gostr
  dvw_DeviceTypeCode :: gostr
  dvw_Name :: gostr
  dvw_ProviderCode :: gostr
  dvw_ProviderProfile :: gostr
  dvw_ProviderDeviceID :: gostr
  dvw_AccessType :: AccessType
  dvw_TransportProtocol :: TransportProtocol
  dvw_Adapter :: Adapter
  dvw_ConnectionStatus :: ConnectionStatus
  dvw_LifecycleStatus :: LifecycleStatus
  dvw_CurrentState :: "DeviceStateView option"
  dvw_LastSeenAt :: "instant option"
  dvw_CreatedAt :: instant
  dvw_UpdatedAt :: instant

record DeviceCreateRequest =
  dcq_ProjectID :: gostr
  dcq_Name :: gostr
  dcq_DeviceTypeCode :: gostr
  dcq_ProviderCode :: gostr
  dcq_ProviderProfile :: gostr
  dcq_ProviderDeviceID :: "gostr option"

record DeviceUpdateRequest =
  duq_Name :: "gostr option"
  duq_LifecycleStatus :: "gostr option"

record DeviceListRequest =
  dlq_ProjectID :: "gostr option"
  dlq_DeviceTypeCode :: "gostr option"
  dlq_ProviderCode :: "gostr option"
  dlq_ConnectionStatus :: "gostr option"
  dlq_LifecycleStatus :: "gostr option"
  dlq_Page :: int
  dlq_PageSize :: int

record DeviceListResult =
  dlr_Items :: "DeviceView list"
  dlr_Page :: int
  dlr_PageSize :: int
  dlr_Total :: nat

subsection \<open>The registry\<close>

fun profile_problem :: "Provider \<Rightarrow> gostr list \<Rightarrow> gostr option" where
  "profile_problem p [] = None"
| "profile_problem p (f # fs) =
     (if TrimSpace f = [] then Some ''Provider profile is invalid''
      else if map_of (pvd_ProfileActions p) f = None then Some ''Provider profile actions are missing''
      else profile_problem p fs)"

fun register_providers :: "DeviceService \<Rightarrow> ProviderRegistration list \<Rightarrow> goerr + DeviceService" where
  "register_providers s [] =
     (if dsv_providerOrder s = [] then Inl (invalid_request ''at least one Provider registration is required'') else Inr s)"
| "register_providers s (r # rs) =
     (let p = (prg_Provider r)\<lparr>pvd_Code := TrimSpace (pvd_Code (prg_Provider r))\<rparr> in
      if pvd_Code p = [] \<or> prg_IdentityPolicy r = None \<or> pvd_Profiles p = []
      then Inl (invalid_request ''Provider registration is incomplete'')
      else if dsv_providers s (pvd_Code p) \<noteq> None then Inl (invalid_request ''Provider registration is duplicated'')
      else
        (case profile_problem p (pvd_Profiles p) of
           Some problem \<Rightarrow> Inl (invalid_request problem)
         | None \<Rightarrow>
             register_providers \<lparr>dsv_providers = (dsv_providers s)(pvd_Code p \<mapsto> r\<lparr>prg_Provider := p\<rparr>),
               dsv_providerOrder = dsv_providerOrder s @ [pvd_Code p]\<rparr> rs))"

definition device_service_New :: "ProviderRegistration list \<Rightarrow> goerr + DeviceService" where
  "device_service_New registrations =
     register_providers \<lparr>dsv_providers = Map.empty, dsv_providerOrder = []\<rparr> registrations"

definition ListProviders :: "DeviceService \<Rightarrow> Provider list" where
  "ListProviders s = List.map_filter (\<lambda>code. map_option prg_Provider (dsv_providers s code)) (dsv_providerOrder s)"

subsection \<open>Validation\<close>

definition device_normalizeName :: "gostr \<Rightarrow> goerr + gostr" where
  "device_normalizeName value =
     (let v = TrimSpace value in
      if \<not> ValidString v \<or> RuneCount v < 1 \<or> 120 < RuneCount v
      then Inl (invalid_request ''name must contain 1..120 characters'') else Inr v)"

definition device_validateMetadata :: "RequestMetadata \<Rightarrow> goerr + RequestMetadata" where
  "device_validateMetadata m =
     (if rmd_ActorType m \<noteq> ActorTypeUser \<and> rmd_ActorType m \<noteq> ActorTypeProject
      then Inl (invalid_request ''actor_type is invalid'')
      else
        (let m = m\<lparr>rmd_ActorID := TrimSpace (rmd_ActorID m), rmd_ActorUserID := TrimSpace (rmd_ActorUserID m),
                  rmd_RequestID := TrimSpace (rmd_RequestID m)\<rparr> in
         if rmd_RequestID m = [] \<or> 255 < length (rmd_RequestID m) then Inl (invalid_request ''request_id is required'')
         else if rmd_IPAddress m = [] then Inr m
         else
           (case ParseAddr (TrimSpace (rmd_IPAddress m)) of
              None \<Rightarrow> Inl (invalid_request ''ip_address is invalid'')
            | Some a \<Rightarrow>
                if addr_Zone a \<noteq> [] then Inl (invalid_request ''ip_address is invalid'')
                else Inr (m\<lparr>rmd_IPAddress := addr_String (Unmap a)\<rparr>))))"

definition validateWriteActor :: "Scope \<Rightarrow> RequestMetadata \<Rightarrow> goerr + unit" where
  "validateWriteActor s m =
     (if IsHuman s \<and>
         (rmd_ActorType m \<noteq> ActorTypeUser \<or> \<not> validUUID (rmd_ActorUserID m) \<or>
          (scp_UserID s \<noteq> [] \<and> rmd_ActorUserID m \<noteq> scp_UserID s) \<or> rmd_ActorID m \<noteq> [])
      then Inl (invalid_request ''human scope requires its authenticated User actor'')
      else if scp_Kind s = ScopeProject \<and>
         (rmd_ActorType m \<noteq> ActorTypeProject \<or> rmd_ActorID m \<noteq> scp_ProjectID s \<or> rmd_ActorUserID m \<noteq> [])
      then Inl (invalid_request ''Project scope requires its authenticated Project actor'')
      else Inr ())"

definition device_projectForCreate :: "Scope \<Rightarrow> gostr \<Rightarrow> goerr + gostr" where
  "device_projectForCreate s requested =
     (let requested = TrimSpace requested in
      if scp_Kind s = ScopeProject then
        (if requested \<noteq> [] then Inl (invalid_request ''Project-scoped create cannot override project_id'')
         else Inr (scp_ProjectID s))
      else if \<not> validUUID requested then Inl (invalid_request ''project_id is invalid'')
      else Inr requested)"

fun wire_ConnectionStatus :: "ConnectionStatus \<Rightarrow> gostr" where
  "wire_ConnectionStatus ConnectionStatusUnknown = ''unknown''"
| "wire_ConnectionStatus ConnectionStatusOnline = ''online''"
| "wire_ConnectionStatus ConnectionStatusOffline = ''offline''"

fun wire_LifecycleStatus :: "LifecycleStatus \<Rightarrow> gostr" where
  "wire_LifecycleStatus LifecycleStatusActive = ''active''"
| "wire_LifecycleStatus LifecycleStatusDisabled = ''disabled''"
| "wire_LifecycleStatus LifecycleStatusDeleted = ''deleted''"

text \<open>\<open>None\<close> is a value the switch of the source does not list.\<close>

definition validConnectionStatus :: "gostr \<Rightarrow> ConnectionStatus option" where
  "validConnectionStatus value =
     find (\<lambda>s. wire_ConnectionStatus s = value) [ConnectionStatusUnknown, ConnectionStatusOnline, ConnectionStatusOffline]"

definition validLifecycleStatus :: "gostr \<Rightarrow> LifecycleStatus option" where
  "validLifecycleStatus value =
     find (\<lambda>s. wire_LifecycleStatus s = value) [LifecycleStatusActive, LifecycleStatusDisabled, LifecycleStatusDeleted]"

definition canTransitionLifecycle :: "LifecycleStatus \<Rightarrow> LifecycleStatus \<Rightarrow> bool" where
  "canTransitionLifecycle old new \<longleftrightarrow>
     (old = LifecycleStatusActive \<and> (new = LifecycleStatusDisabled \<or> new = LifecycleStatusDeleted)) \<or>
     (old = LifecycleStatusDisabled \<and> (new = LifecycleStatusActive \<or> new = LifecycleStatusDeleted))"

definition device_validateListRequest :: "DeviceService \<Rightarrow> Scope \<Rightarrow> DeviceListRequest \<Rightarrow> goerr + DeviceListRequest" where
  "device_validateListRequest s scope r =
     (let r = r\<lparr>dlq_Page := (if dlq_Page r = 0 then 1 else dlq_Page r),
               dlq_PageSize := (if dlq_PageSize r = 0 then 20 else dlq_PageSize r)\<rparr> in
      if dlq_Page r < 1 \<or> dlq_PageSize r < 1 \<or> 100 < dlq_PageSize r \<or> MaxInt div dlq_PageSize r < dlq_Page r - 1
      then Inl (invalid_request ''pagination is invalid'')
      else if scp_Kind scope = ScopeProject \<and> dlq_ProjectID r \<noteq> None
      then Inl (invalid_request ''Project scope cannot override project_id'')
      else if scp_Kind scope \<noteq> ScopeProject \<and> (case dlq_ProjectID r of None \<Rightarrow> False | Some p \<Rightarrow> \<not> validUUID p)
      then Inl (invalid_request ''project_id filter is invalid'')
      else
        (let r = r\<lparr>dlq_ProjectID := (if scp_Kind scope = ScopeProject then Some (scp_ProjectID scope) else dlq_ProjectID r),
                  dlq_ProviderCode := map_option TrimSpace (dlq_ProviderCode r)\<rparr> in
         if (case dlq_DeviceTypeCode r of None \<Rightarrow> False | Some c \<Rightarrow> c \<noteq> ''smart-lock'')
         then Inl (invalid_request ''device_type_code filter is invalid'')
         else if (case dlq_ProviderCode r of None \<Rightarrow> False | Some c \<Rightarrow> dsv_providers s c = None)
         then Inl (invalid_request ''provider_code filter is invalid'')
         else if (case dlq_ConnectionStatus r of None \<Rightarrow> False | Some v \<Rightarrow> validConnectionStatus v = None)
         then Inl (invalid_request ''connection_status filter is invalid'')
         else if (case dlq_LifecycleStatus r of None \<Rightarrow> False | Some v \<Rightarrow> validLifecycleStatus v = None)
         then Inl (invalid_request ''lifecycle_status filter is invalid'')
         else Inr r))"

subsection \<open>Views\<close>

definition safeDevice :: "Device \<Rightarrow> DeviceState option \<Rightarrow> DeviceView" where
  "safeDevice d state =
     \<lparr>dvw_ID = dev_ID d, dvw_ProjectID = dev_ProjectID d, dvw_DeviceTypeCode = dev_DeviceTypeCode d,
      dvw_Name = dev_Name d, dvw_ProviderCode = dev_ProviderCode d, dvw_ProviderProfile = dev_ProviderProfile d,
      dvw_ProviderDeviceID = dev_ProviderDeviceID d, dvw_AccessType = dev_AccessType d,
      dvw_TransportProtocol = dev_TransportProtocol d, dvw_Adapter = dev_Adapter d,
      dvw_ConnectionStatus = dev_ConnectionStatus d, dvw_LifecycleStatus = dev_LifecycleStatus d,
      dvw_CurrentState = map_option (\<lambda>s. \<lparr>dsw_State = dst_State s, dsw_EvidenceStatus = dst_EvidenceStatus s,
        dsw_ReportedAt = dst_ReportedAt s, dsw_ObservedAt = dst_ObservedAt s\<rparr>) state,
      dvw_LastSeenAt = map_option dst_ObservedAt state,
      dvw_CreatedAt = dev_CreatedAt d, dvw_UpdatedAt = dev_UpdatedAt d\<rparr>"

definition withState :: "Device \<Rightarrow> DeviceView tx" where
  "withState d =
     on_row (device_GetCurrentState (dev_ID d)) (ret (safeDevice d None)) (\<lambda>state.
       if dst_EvidenceStatus state \<noteq> EvidenceVerified then ret (safeDevice d None) else ret (safeDevice d (Some state)))"

text \<open>A loop that maps the items of a list and stops at the first error.\<close>

fun collect :: "('a \<Rightarrow> 'b tx) \<Rightarrow> 'a list \<Rightarrow> 'b list tx" where
  "collect f [] = ret []"
| "collect f (x # xs) = bnd (f x) (\<lambda>y. bnd (collect f xs) (\<lambda>ys. ret (y # ys)))"

definition action_view :: "CapabilityAction \<Rightarrow> ActionView" where
  "action_view a =
     \<lparr>acv_Identifier = cap_Identifier a, acv_PayloadSchema = cap_PayloadSchema a, acv_RiskLevel = cap_RiskLevel a,
      acv_DeliveryPolicy = cap_DeliveryPolicy a, acv_DispatchDeadlineMS = Milliseconds (cap_DispatchDeadline a),
      acv_ProviderRequestTimeoutMS = Milliseconds (cap_ProviderRequestTimeout a),
      acv_ResultObservationTimeoutMS = Milliseconds (cap_ResultObservationTimeout a),
      acv_RetryAllowed = cap_RetryAllowed a, acv_DeliveryPolicyOverrideAllowed = cap_DeliveryPolicyOverrideAllowed a\<rparr>"

definition loadDeviceType :: "DeviceType \<Rightarrow> DeviceTypeView tx" where
  "loadDeviceType t =
     (if dty_Code t \<noteq> ''smart-lock'' \<or> dty_CurrentRevision t \<noteq> 2
      then fail (ErrWrapped ''unsupported published profile'' ErrDeviceTypeNotFound)
      else
        bnd (type_GetProfile (dty_ID t) (dty_CurrentRevision t)) (\<lambda>profile.
        ret \<lparr>dtv_Code = dty_Code t, dtv_Revision = dtp_Revision profile, dtv_Name = dty_Name t,
          dtv_Actions = map action_view (dtp_Actions profile)\<rparr>))"

definition ListDeviceTypes :: "DeviceTypeView list tx" where
  "ListDeviceTypes = bnd type_List (collect loadDeviceType)"

definition GetDeviceType :: "gostr \<Rightarrow> DeviceTypeView tx" where
  "GetDeviceType code =
     (if code \<noteq> ''smart-lock'' then fail ErrDeviceTypeNotFound
      else on_row (type_GetByCode code) (fail ErrDeviceTypeNotFound) loadDeviceType)"

subsection \<open>Events and Audit records\<close>

definition device_randomUUID :: "gostr tx" where
  "device_randomUUID = map_error (\<lambda>e. ErrWrapped ''identifier'' ErrIdentifierGeneration) randomUUID"

definition device_event :: "gostr \<Rightarrow> instant \<Rightarrow> RequestMetadata \<Rightarrow> Device \<Rightarrow> EventType \<Rightarrow> gomap \<Rightarrow> Event" where
  "device_event eventID now m d eventType payload =
     \<lparr>evt_ID = eventID, evt_SchemaVersion = EventSchemaVersion, evt_EventType = eventType,
      evt_ProjectID = dev_ProjectID d, evt_DeviceID = Some (dev_ID d), evt_CommandID = None,
      evt_Source = (if rmd_ActorType m = ActorTypeProject then EventSourceOpenAPI else EventSourceAdmin),
      evt_Payload = payload, evt_RawMessageID = None,
      evt_DeduplicationKey = wire_EventType eventType @ '':'' @ eventID, evt_OccurredAt = now, evt_CreatedAt = now\<rparr>"

definition createDeviceEvent :: "RequestMetadata \<Rightarrow> Device \<Rightarrow> EventType \<Rightarrow> gomap \<Rightarrow> unit tx" where
  "createDeviceEvent m d eventType payload =
     bnd device_randomUUID (\<lambda>eventID.
     bnd time_now (\<lambda>now.
     let e = device_event eventID now m d eventType payload in
     bnd (event_Create e) (\<lambda>u.
     bnd device_randomUUID (\<lambda>deliveryID.
     bnd (CreateDelivery \<lparr>cwd_ID = deliveryID, cwd_EventID = evt_ID e,
            cwd_RawBody = json_marshal (event_envelope e)\<rparr>) (\<lambda>delivery. ret ())))))"

definition device_audit :: "gostr \<Rightarrow> instant \<Rightarrow> RequestMetadata \<Rightarrow> Device \<Rightarrow> gostr \<Rightarrow> gomap \<Rightarrow> AuditLog" where
  "device_audit auditID now m d action details =
     \<lparr>aud_ID = auditID, aud_ActorType = rmd_ActorType m, aud_ActorUserID = optional (rmd_ActorUserID m),
      aud_ActorID = optional (rmd_ActorID m), aud_ProjectID = Some (dev_ProjectID d), aud_Action = action,
      aud_Result = AuditResultSuccess, aud_ResourceType = ''device'', aud_ResourceID = Some (dev_ID d),
      aud_IPAddress = optional (rmd_IPAddress m), aud_RequestID = optional (rmd_RequestID m),
      aud_Metadata = details, aud_OccurredAt = now\<rparr>"

definition device_createAudit :: "RequestMetadata \<Rightarrow> Device \<Rightarrow> gostr \<Rightarrow> gomap \<Rightarrow> unit tx" where
  "device_createAudit m d action details =
     bnd device_randomUUID (\<lambda>auditID.
     bnd time_now (\<lambda>now.
     audit_Create (device_audit auditID now m d action details)))"

subsection \<open>Operations\<close>

text \<open>Reading a Project for a scope; one that is missing or not visible is the error \<open>hidden\<close>.\<close>

definition visible_project :: "Scope \<Rightarrow> gostr \<Rightarrow> goerr \<Rightarrow> unit tx" where
  "visible_project scope projectID hidden =
     on_row (project_Get projectID) (fail hidden) (\<lambda>project.
       if \<not> CanAccessProject scope project then fail hidden else ret ())"

definition providerIdentityConflict :: "goerr \<Rightarrow> bool" where
  "providerIdentityConflict e \<longleftrightarrow>
     e = ErrUniqueViolation ''uq_devices_provider_identity'' \<or> e = ErrUniqueViolation ''uq_devices_active_provider_identity''"

definition new_device ::
  "gostr \<Rightarrow> gostr \<Rightarrow> gostr \<Rightarrow> Provider \<Rightarrow> gostr \<Rightarrow> gostr \<Rightarrow> instant \<Rightarrow> DeviceType \<Rightarrow> Device" where
  "new_device deviceID projectID name provider profile providerDeviceID now deviceType =
     \<lparr>dev_ID = deviceID, dev_ProjectID = projectID, dev_DeviceTypeID = dty_ID deviceType,
      dev_DeviceTypeCode = dty_Code deviceType, dev_Name = name, dev_ProviderCode = pvd_Code provider,
      dev_ProviderProfile = profile, dev_ProviderDeviceID = providerDeviceID, dev_AccessType = pvd_AccessType provider,
      dev_TransportProtocol = pvd_TransportProtocol provider, dev_Adapter = pvd_Adapter provider,
      dev_ConnectionStatus = ConnectionStatusUnknown, dev_LifecycleStatus = LifecycleStatusActive,
      dev_CreatedAt = now, dev_UpdatedAt = now\<rparr>"

definition device_create_body ::
  "Scope \<Rightarrow> gostr \<Rightarrow> gostr \<Rightarrow> (DeviceType \<Rightarrow> Device) \<Rightarrow> RequestMetadata \<Rightarrow> Device tx" where
  "device_create_body scope projectID deviceTypeCode device m =
     bnd (visible_project scope projectID ErrProjectNotFound) (\<lambda>u.
     on_row (type_GetByCode deviceTypeCode) (fail ErrDeviceTypeNotFound) (\<lambda>deviceType.
       bnd (type_GetProfile (dty_ID deviceType) (dty_CurrentRevision deviceType)) (\<lambda>profile.
       let d = device deviceType in
       bnd (map_error (\<lambda>e. if providerIdentityConflict e then ErrProviderDeviceConflict else e) (device_Create d)) (\<lambda>u.
       bnd (createDeviceEvent m d EventTypeDeviceCreated
              [(''device_type_code'', JStr (dev_DeviceTypeCode d)), (''provider_code'', JStr (dev_ProviderCode d)),
               (''provider_profile'', JStr (dev_ProviderProfile d)),
               (''lifecycle_status'', JStr (wire_LifecycleStatus (dev_LifecycleStatus d)))]) (\<lambda>u.
       bnd (device_createAudit m d ''device.created''
              [(''device_type_code'', JStr (dev_DeviceTypeCode d)), (''provider_code'', JStr (dev_ProviderCode d)),
               (''provider_profile'', JStr (dev_ProviderProfile d))]) (\<lambda>u.
       ret d))))))"

definition device_service_Create :: "DeviceService \<Rightarrow> Scope \<Rightarrow> DeviceCreateRequest \<Rightarrow> RequestMetadata \<Rightarrow> DeviceView tx" where
  "device_service_Create s scope request metadata =
     (if (case validateScope scope of Inl e \<Rightarrow> True | Inr sc \<Rightarrow> \<not> IsHuman sc) then fail ErrInvalidRequest
      else
        bnd (lift_result (device_validateMetadata metadata)) (\<lambda>m.
        bnd (lift_result (validateWriteActor scope m)) (\<lambda>u.
        bnd (lift_result (device_projectForCreate scope (dcq_ProjectID request))) (\<lambda>projectID.
        bnd (lift_result (device_normalizeName (dcq_Name request))) (\<lambda>name.
        let deviceTypeCode = TrimSpace (dcq_DeviceTypeCode request);
            providerCode = TrimSpace (dcq_ProviderCode request);
            profile = TrimSpace (dcq_ProviderProfile request)
        in
        if deviceTypeCode = [] then fail (invalid_request ''device_type_code is required'')
        else if deviceTypeCode \<noteq> ''smart-lock'' then fail ErrDeviceTypeNotFound
        else if providerCode = [] then fail (invalid_request ''provider_code is required'')
        else
          (case dsv_providers s providerCode of
             None \<Rightarrow> fail ErrProviderNotFound
           | Some registration \<Rightarrow>
               if profile = [] then fail (invalid_request ''provider_profile is required'')
               else if map_of (pvd_ProfileActions (prg_Provider registration)) profile = None
               then fail ErrProviderProfileNotFound
               else
                 bnd device_randomUUID (\<lambda>deviceID.
                 case prg_IdentityPolicy registration of
                   None \<Rightarrow> fail (ErrOther ''nil policy'')
                 | Some policy \<Rightarrow>
                     (case policy (dcq_ProviderDeviceID request) deviceID of
                        Inl e \<Rightarrow> fail (invalid_request ''provider_device_id'')
                      | Inr providerDeviceID \<Rightarrow>
                          bnd time_now (\<lambda>now.
                          bnd (WithinTransaction (device_create_body scope projectID deviceTypeCode
                                 (new_device deviceID projectID name (prg_Provider registration) profile providerDeviceID now) m))
                            (\<lambda>d. ret (safeDevice d None)))))))))))"

definition device_service_Get :: "Scope \<Rightarrow> gostr \<Rightarrow> DeviceView tx" where
  "device_service_Get scope deviceID =
     (if (case validateScope scope of Inl e \<Rightarrow> True | Inr sc \<Rightarrow> False) \<or> \<not> validUUID deviceID then fail ErrInvalidRequest
      else
        on_row (if scp_Kind scope = ScopeProject then device_GetByProject (scp_ProjectID scope) deviceID
                else device_Get deviceID) (fail ErrDeviceNotFound) (\<lambda>d.
        bnd (if scp_Kind scope = ScopeUser then visible_project scope (dev_ProjectID d) ErrDeviceNotFound else ret ()) (\<lambda>u.
        withState d)))"

definition device_service_List :: "DeviceService \<Rightarrow> Scope \<Rightarrow> DeviceListRequest \<Rightarrow> DeviceListResult tx" where
  "device_service_List s scope request =
     bnd (lift_result (validateScope scope)) (\<lambda>scope.
     bnd (lift_result (device_validateListRequest s scope request)) (\<lambda>r.
     bnd (case dlq_ProjectID r of
            None \<Rightarrow> ret ()
          | Some projectID \<Rightarrow>
              if scp_Kind scope = ScopeUser then visible_project scope projectID ErrProjectNotFound else ret ()) (\<lambda>u.
     bnd (device_List \<lparr>ldr_ProjectID = dlq_ProjectID r, ldr_ManagerUserID = scope_ManagerUserID scope,
            ldr_DeviceTypeCode = dlq_DeviceTypeCode r, ldr_ProviderCode = dlq_ProviderCode r,
            ldr_ConnectionStatus = Option.bind (dlq_ConnectionStatus r) validConnectionStatus,
            ldr_LifecycleStatus = Option.bind (dlq_LifecycleStatus r) validLifecycleStatus,
            ldr_Limit = dlq_PageSize r, ldr_Offset = (dlq_Page r - 1) * dlq_PageSize r\<rparr>) (\<lambda>(items, total).
     bnd (collect withState items) (\<lambda>views.
     ret \<lparr>dlr_Items = views, dlr_Page = dlq_Page r, dlr_PageSize = dlq_PageSize r, dlr_Total = total\<rparr>)))))"

definition change_name :: "Device \<Rightarrow> gostr option \<Rightarrow> RequestMetadata \<Rightarrow> unit tx" where
  "change_name current name m =
     (case name of
        None \<Rightarrow> ret ()
      | Some n \<Rightarrow>
          if dev_Name current = n then ret ()
          else
            bnd (device_Rename (dev_ID current) n) (\<lambda>u.
            device_createAudit m current ''device.updated'' [(''fields'', JArr [JStr ''name''])]))"

definition change_lifecycle :: "Device \<Rightarrow> LifecycleStatus option \<Rightarrow> RequestMetadata \<Rightarrow> unit tx" where
  "change_lifecycle current lifecycle m =
     (case lifecycle of
        None \<Rightarrow> ret ()
      | Some target \<Rightarrow>
          if \<not> canTransitionLifecycle (dev_LifecycleStatus current) target then fail ErrLifecycleTransition
          else
            bnd (device_SetLifecycleStatus (dev_ID current) (dev_LifecycleStatus current) target) (\<lambda>changed.
            if \<not> changed then fail ErrLifecycleTransition
            else
              bnd (createDeviceEvent m current EventTypeDeviceLifecycleChanged
                     [(''from'', JStr (wire_LifecycleStatus (dev_LifecycleStatus current))),
                      (''to'', JStr (wire_LifecycleStatus target)), (''reason_code'', JStr ''admin_requested'')]) (\<lambda>u.
              device_createAudit m current ''device.lifecycle_changed''
                [(''from'', JStr (wire_LifecycleStatus (dev_LifecycleStatus current))),
                 (''to'', JStr (wire_LifecycleStatus target))])))"

definition device_update_body ::
  "Scope \<Rightarrow> gostr \<Rightarrow> gostr option \<Rightarrow> LifecycleStatus option \<Rightarrow> RequestMetadata \<Rightarrow> Device tx" where
  "device_update_body scope deviceID name lifecycle m =
     on_row (device_GetForUpdate deviceID) (fail ErrDeviceNotFound) (\<lambda>current.
       bnd (visible_project scope (dev_ProjectID current) ErrDeviceNotFound) (\<lambda>u.
       if dev_LifecycleStatus current = LifecycleStatusDeleted then fail ErrDeviceImmutable
       else
         bnd (change_name current name m) (\<lambda>u.
         bnd (change_lifecycle current lifecycle m) (\<lambda>u.
         device_Get deviceID))))"

definition device_service_Update ::
  "Scope \<Rightarrow> gostr \<Rightarrow> DeviceUpdateRequest \<Rightarrow> RequestMetadata \<Rightarrow> DeviceView tx" where
  "device_service_Update scope deviceID request metadata =
     (if (case validateScope scope of Inl e \<Rightarrow> True | Inr sc \<Rightarrow> \<not> IsHuman sc) \<or> \<not> validUUID deviceID then fail ErrInvalidRequest
      else
        bnd (lift_result (device_validateMetadata metadata)) (\<lambda>m.
        bnd (lift_result (validateWriteActor scope m)) (\<lambda>u.
        if duq_Name request = None \<and> duq_LifecycleStatus request = None
        then fail (invalid_request ''update has no fields'')
        else
          bnd (case duq_Name request of
                 None \<Rightarrow> ret None
               | Some n \<Rightarrow> bnd (lift_result (device_normalizeName n)) (\<lambda>v. ret (Some v))) (\<lambda>name.
          let lifecycle = Option.bind (duq_LifecycleStatus request) validLifecycleStatus in
          if duq_LifecycleStatus request \<noteq> None \<and> lifecycle = None
          then fail (invalid_request ''lifecycle_status is invalid'')
          else if name \<noteq> None \<and> lifecycle = Some LifecycleStatusDeleted
          then fail (invalid_request ''name and deleted lifecycle cannot be updated together'')
          else bnd (WithinTransaction (device_update_body scope deviceID name lifecycle m)) withState))))"

subsection \<open>The Providers of the process\<close>

text \<open>The pattern is \<open>^[A-Za-z0-9._:-]{1,128}$\<close>.\<close>

definition wwtiot_identity :: identity_policy where
  "wwtiot_identity requested platformDeviceID =
     (case requested of
        None \<Rightarrow> Inl (ErrOther ''provider_device_id is required'')
      | Some text \<Rightarrow>
          (let value = TrimSpace text in
           if \<not> (1 \<le> length value \<and> length value \<le> 128 \<and> list_all is_device_id_char value)
           then Inl (ErrOther ''provider_device_id is invalid'')
           else Inr value))"

definition simulator_policy :: identity_policy where
  "simulator_policy requested platformDeviceID =
     (case simulator_identity requested platformDeviceID of Inl e \<Rightarrow> Inl (ErrOther e) | Inr value \<Rightarrow> Inr value)"

definition deviceServiceConfig :: "bool \<Rightarrow> bool \<Rightarrow> ProviderRegistration list" where
  "deviceServiceConfig wwtiotConfigured omniConfigured =
     (let allActions = [(''unlock'', ProviderActionSupported), (''lock'', ProviderActionSupported),
            (''query_status'', ProviderActionSupported)];
          status = (\<lambda>configured. if configured then ProviderIntegrationConfiguredUnverified else ProviderIntegrationUnconfigured)
      in
      [\<lparr>prg_Provider = \<lparr>pvd_Code = ProviderCodeSimulator, pvd_Name = ''Simulator'', pvd_AccessType = AccessTypeSimulator,
          pvd_TransportProtocol = TransportProtocolInternal, pvd_Adapter = AdapterSimulator,
          pvd_Profiles = [''simulator-v1''], pvd_ProfileActions = [(''simulator-v1'', allActions)],
          pvd_IntegrationStatus = ProviderIntegrationVerified\<rparr>,
        prg_IdentityPolicy = Some simulator_policy\<rparr>,
       \<lparr>prg_Provider = \<lparr>pvd_Code = ProviderCodeOmni, pvd_Name = ''Omni'', pvd_AccessType = AccessTypeDirectDevice,
          pvd_TransportProtocol = TransportProtocolTCP, pvd_Adapter = AdapterOmniDirectTCP,
          pvd_Profiles = [ProviderProfileOmniBikeV207, ProviderProfileOmniIoTV135],
          pvd_ProfileActions =
            [(ProviderProfileOmniBikeV207, [(''unlock'', ProviderActionMappingUnknown), (''lock'', ProviderActionUnsupported),
                (''query_status'', ProviderActionSupported)]),
             (ProviderProfileOmniIoTV135, [(''unlock'', ProviderActionMappingUnknown), (''lock'', ProviderActionMappingUnknown),
                (''query_status'', ProviderActionSupported)])],
          pvd_IntegrationStatus = status omniConfigured\<rparr>,
        prg_IdentityPolicy = Some NormalizeDeviceIdentity\<rparr>,
       \<lparr>prg_Provider = \<lparr>pvd_Code = ProviderCodeWWTIOT, pvd_Name = ''WWTIOT'', pvd_AccessType = AccessTypeCloudAPI,
          pvd_TransportProtocol = TransportProtocolHTTP, pvd_Adapter = AdapterWWTIOTCloudAPI,
          pvd_Profiles = [''wwtiot-cloud-api-v2''], pvd_ProfileActions = [(''wwtiot-cloud-api-v2'', allActions)],
          pvd_IntegrationStatus = status wwtiotConfigured\<rparr>,
        prg_IdentityPolicy = Some wwtiot_identity\<rparr>])"

definition process_devices :: "bool \<Rightarrow> bool \<Rightarrow> DeviceService" where
  "process_devices wwtiotConfigured omniConfigured =
     (case device_service_New (deviceServiceConfig wwtiotConfigured omniConfigured) of
        Inl e \<Rightarrow> \<lparr>dsv_providers = Map.empty, dsv_providerOrder = []\<rparr>
      | Inr s \<Rightarrow> s)"

end
