(* ===== verification/Device_Binding.thy ===== *)
theory Device_Binding
  imports Device_Service Omni_Inbound
begin

text \<open>
  What the Device service promises: how a Device may change over time, and what a caller learns of Devices that
  belong to someone else.
\<close>

subsection \<open>What no operation takes back\<close>

text \<open>
  A Device keeps its identity, its Project, its type and its Provider binding for ever, and its connection status,
  which no operation of the service writes; once deleted, its row is never touched again.
\<close>

definition same_binding :: "Device \<Rightarrow> Device \<Rightarrow> bool" where
  "same_binding x y \<longleftrightarrow>
     dev_ID y = dev_ID x \<and> dev_ProjectID y = dev_ProjectID x \<and> dev_DeviceTypeID y = dev_DeviceTypeID x \<and>
     dev_DeviceTypeCode y = dev_DeviceTypeCode x \<and> dev_ProviderCode y = dev_ProviderCode x \<and>
     dev_ProviderProfile y = dev_ProviderProfile x \<and> dev_ProviderDeviceID y = dev_ProviderDeviceID x \<and>
     dev_AccessType y = dev_AccessType x \<and> dev_TransportProtocol y = dev_TransportProtocol x \<and>
     dev_Adapter y = dev_Adapter x \<and> dev_ConnectionStatus y = dev_ConnectionStatus x \<and>
     dev_CreatedAt y = dev_CreatedAt x \<and> (dev_LifecycleStatus x = LifecycleStatusDeleted \<longrightarrow> y = x)"

definition connections_from :: "Device list \<Rightarrow> Device list \<Rightarrow> bool" where
  "connections_from xs ys \<longleftrightarrow>
     (\<forall>y\<in>set ys. dev_ConnectionStatus y = ConnectionStatusUnknown \<or>
        (\<exists>x\<in>set xs. dev_ID x = dev_ID y \<and> dev_ConnectionStatus x = dev_ConnectionStatus y))"

definition device_stays :: "db \<Rightarrow> db \<Rightarrow> bool" where
  "device_stays d d' \<longleftrightarrow>
     (devices_ok d \<longrightarrow>
        devices_ok d' \<and> kept same_binding (tbl_devices d) (tbl_devices d') \<and>
        connections_from (tbl_devices d) (tbl_devices d'))"

lemma same_binding_refl [simp]: "same_binding x x"
  by (simp add: same_binding_def)

lemma same_binding_trans: "same_binding x y \<Longrightarrow> same_binding y z \<Longrightarrow> same_binding x z"
  unfolding same_binding_def by (elim conjE, intro conjI) simp_all

lemma connections_from_refl [simp]: "connections_from xs xs"
  by (auto simp: connections_from_def)

lemma connections_from_trans: "connections_from xs ys \<Longrightarrow> connections_from ys zs \<Longrightarrow> connections_from xs zs"
  unfolding connections_from_def by metis

interpretation devices: db_relation device_stays
  by unfold_locales
    (simp add: device_stays_def kept_refl,
     auto simp: device_stays_def intro: kept_trans [OF _ _ same_binding_trans] connections_from_trans)

lemma device_stays_cong: "tbl_devices d' = tbl_devices d \<Longrightarrow> device_stays d d'"
  by (simp add: device_stays_def devices_ok_def kept_refl)

subsection \<open>Statements\<close>

lemma sql_devices: "(\<And>t d x d'. q t d = Inr (x, d') \<Longrightarrow> device_stays d d') \<Longrightarrow> keeps device_stays (sql q)"
  by (rule keepsI) (auto simp: sql_run)

lemma log_statements_keep:
  "keeps device_stays (event_Create e)" "keeps device_stays (insertDelivery i pj ev b cfg rp)" "keeps device_stays (audit_Create a)"
  unfolding event_Create_def insertDelivery_def audit_Create_def
  by (rule sql_devices, rule device_stays_cong, auto split: if_splits)+

lemma device_Create_keeps:
  assumes "dev_ConnectionStatus x = ConnectionStatusUnknown"
  shows "keeps device_stays (device_Create x)"
  unfolding device_Create_def
proof (rule sql_devices)
  fix t :: instant and u :: unit and d d' :: db
  assume "(if list_ex (\<lambda>y. dev_ID y = dev_ID x) (tbl_devices d) then Inl (ErrUniqueViolation ''devices_pkey'')
      else if list_ex (\<lambda>y. ascii_lower (dev_ProviderCode y) = ascii_lower (dev_ProviderCode x) \<and>
          dev_ProviderDeviceID y = dev_ProviderDeviceID x) (tbl_devices d)
      then Inl (ErrUniqueViolation ''uq_devices_provider_identity'')
      else if \<not> device_check x then Inl (ErrCheckViolation ''devices'')
      else Inr ((), d\<lparr>tbl_devices := tbl_devices d @
        [x\<lparr>dev_CreatedAt := pg_time (dev_CreatedAt x), dev_UpdatedAt := pg_time (dev_UpdatedAt x)\<rparr>]\<rparr>)) = Inr (u, d')"
  then have new: "tbl_devices d' = tbl_devices d @
      [x\<lparr>dev_CreatedAt := pg_time (dev_CreatedAt x), dev_UpdatedAt := pg_time (dev_UpdatedAt x)\<rparr>]"
    and free: "dev_ID x \<notin> dev_ID ` set (tbl_devices d)" "provider_identity x \<notin> provider_identity ` set (tbl_devices d)"
    by (auto simp: list_ex_iff provider_identity_def image_iff split: if_splits)
  then show "device_stays d d'"
    using assms
    by (simp add: device_stays_def devices_ok_def connections_from_def kept_append provider_identity_def) blast
qed

lemma update_devices_stays:
  assumes "\<And>t x. dev_ID (f t x) = dev_ID x \<and> dev_ConnectionStatus (f t x) = dev_ConnectionStatus x \<and>
      provider_identity (f t x) = provider_identity x"
    and "\<And>x. devices_ok (w_db w) \<Longrightarrow> x \<in> set (tbl_devices (w_db w)) \<Longrightarrow> p (w_now w) x \<Longrightarrow> same_binding x (f (w_now w) x)"
    and run: "update_devices p f w = (Inr n, w')"
  shows "device_stays (w_db w) (w_db w')"
proof -
  let ?g = "\<lambda>x. if p (w_now w) x then f (w_now w) x else x" let ?xs = "tbl_devices (w_db w)"
  have new: "tbl_devices (w_db w') = map ?g ?xs"
    using run by (auto simp: update_devices_def sql_run update_where_def)
  have "map dev_ID (map ?g xs) = map dev_ID xs" "map provider_identity (map ?g xs) = map provider_identity xs" for xs
    by (induction xs) (simp_all add: assms(1))
  then have "devices_ok (w_db w')" if "devices_ok (w_db w)"
    using that by (simp add: devices_ok_def new del: map_map)
  moreover have "kept same_binding ?xs (map ?g ?xs)" if "devices_ok (w_db w)"
    using assms(2) [OF that] by (intro kept_map) simp
  moreover have "connections_from ?xs (map ?g ?xs)"
    using assms(1) by (auto simp: connections_from_def)
  ultimately show ?thesis by (simp add: device_stays_def new)
qed

lemma SetLifecycleStatus_keeps:
  assumes "old \<noteq> LifecycleStatusDeleted"
  shows "keeps device_stays (device_SetLifecycleStatus i old new)"
proof (rule keepsI)
  fix w x w'
  assume "device_SetLifecycleStatus i old new w = (Inr x, w')"
  then obtain n where "update_devices (\<lambda>t x. dev_ID x = i \<and> dev_LifecycleStatus x = old)
      (\<lambda>t x. x\<lparr>dev_LifecycleStatus := new, dev_UpdatedAt := t\<rparr>) w = (Inr n, w')"
    by (auto simp: device_SetLifecycleStatus_def bnd_run ret_run)
  then show "device_stays (w_db w) (w_db w')"
    by (rule update_devices_stays [rotated 2]) (use assms in \<open>auto simp: provider_identity_def same_binding_def\<close>)
qed

lemma Rename_stays:
  assumes run: "device_Rename (dev_ID d) name w = (Inr u, w')" and row: "d \<in> set (tbl_devices (w_db w))"
    and live: "dev_LifecycleStatus d \<noteq> LifecycleStatusDeleted"
  shows "device_stays (w_db w) (w_db w')"
proof -
  obtain n where "update_devices (\<lambda>t x. dev_ID x = dev_ID d) (\<lambda>t x. x\<lparr>dev_Name := name, dev_UpdatedAt := t\<rparr>) w = (Inr n, w')"
    using run by (auto simp: device_Rename_def bnd_run ret_run)
  then show ?thesis
  proof (rule update_devices_stays [rotated 2])
    fix x
    assume "devices_ok (w_db w)" and "x \<in> set (tbl_devices (w_db w))" and "dev_ID x = dev_ID d"
    with row have "x = d" by (auto simp: devices_ok_def distinct_map dest: inj_onD)
    with live show "same_binding x (x\<lparr>dev_Name := name, dev_UpdatedAt := w_now w\<rparr>)" by (simp add: same_binding_def)
  qed (simp add: provider_identity_def)
qed

subsection \<open>Operations\<close>

lemma device_service_reads [simp, intro]:
  "reads device_randomUUID" "reads (visible_project s i e)" "reads (type_GetByCode c)" "reads (type_GetProfile i n)"
  "reads (device_Get i)" "reads (device_GetForUpdate i)" "reads (withState d)"
  unfolding device_randomUUID_def visible_project_def type_GetByCode_def type_GetProfile_def device_Get_def
    device_GetForUpdate_def withState_def device_GetCurrentState_def project_Get_def
  by (auto intro!: reads_intros)

lemma CreateDelivery_keeps_devices: "keeps device_stays (CreateDelivery r)"
  unfolding CreateDelivery_def lockCurrentWebhookConfig_def webhook_GetDelivery_def
  by (rule log_statements_keep devices.keeps_intros reads_intros | rule devices.keeps_reads)+

lemma device_records_keep: "keeps device_stays (createDeviceEvent m d t payload)" "keeps device_stays (device_createAudit m d a l)"
  unfolding createDeviceEvent_def device_createAudit_def Let_def
  by (rule CreateDelivery_keeps_devices log_statements_keep devices.keeps_intros device_service_reads reads_intros
      | rule devices.keeps_reads)+

lemma device_create_keeps:
  assumes "\<And>t. dev_ConnectionStatus (device t) = ConnectionStatusUnknown"
  shows "keeps device_stays (device_create_body scope i code device m)"
  unfolding device_create_body_def Let_def
  by (rule device_Create_keeps [OF assms] device_records_keep devices.keeps_intros device_service_reads reads_intros
      | rule devices.keeps_reads)+

lemma change_lifecycle_keeps: "keeps device_stays (change_lifecycle current l m)"
proof (cases "l")
  case (Some target)
  then show ?thesis
    using SetLifecycleStatus_keeps [of "dev_LifecycleStatus current" "dev_ID current" target]
    by (cases "canTransitionLifecycle (dev_LifecycleStatus current) target")
      (auto simp: change_lifecycle_def canTransitionLifecycle_def intro!: devices.keeps_intros device_records_keep)
qed (simp add: change_lifecycle_def devices.keeps_ret)

lemma change_name_stays:
  assumes run: "change_name d name m w = (Inr u, w')" and row: "d \<in> set (tbl_devices (w_db w))"
    and live: "dev_LifecycleStatus d \<noteq> LifecycleStatusDeleted"
  shows "device_stays (w_db w) (w_db w')"
proof (cases "name = None \<or> name = Some (dev_Name d)")
  case True
  with run show ?thesis by (auto simp: change_name_def ret_run devices.R_refl)
next
  case False
  then obtain n where n: "name = Some n" "dev_Name d \<noteq> n" by auto
  with run obtain v w1 where "device_Rename (dev_ID d) n w = (Inr v, w1)"
    and audit: "device_createAudit m d ''device.updated'' [(''fields'', JArr [JStr ''name''])] w1 = (Inr u, w')"
    by (auto simp: change_name_def bnd_run [of "device_Rename a b" for a b])
  from Rename_stays [OF this(1) row live] keepsD [OF device_records_keep(2) audit] show ?thesis
    using devices.R_trans by blast
qed

lemma device_update_keeps: "keeps device_stays (device_update_body scope i name lifecycle m)"
proof (rule keepsI)
  fix w x w'
  assume run: "device_update_body scope i name lifecycle m w = (Inr x, w')"
  then obtain d where found: "find (\<lambda>d. dev_ID d = i) (tbl_devices (w_db w)) = Some d"
    by (auto simp: device_update_body_def device_GetForUpdate_def on_row_run no_rows_query_row query_row_run fail_run)
  with run obtain u w1 v w2 y w3 where visible: "visible_project scope (dev_ProjectID d) ErrDeviceNotFound (consume w) = (Inr u, w1)"
    and live: "dev_LifecycleStatus d \<noteq> LifecycleStatusDeleted" and named: "change_name d name m w1 = (Inr v, w2)"
    and moved: "change_lifecycle d lifecycle m w2 = (Inr y, w3)" and got: "device_Get i w3 = (Inr x, w')"
    by (auto simp: device_update_body_def device_GetForUpdate_def on_row_run no_rows_query_row query_row_run fail_run
        bnd_run [of "visible_project a b c" for a b c] bnd_run [of "change_name a b c" for a b c]
        bnd_run [of "change_lifecycle a b c" for a b c] split: if_splits)
  have same: "w_db w1 = w_db w" using readsD [OF device_service_reads(2) visible] by simp
  then have "d \<in> set (tbl_devices (w_db w1))" using find_SomeD [OF found] by simp
  from change_name_stays [OF named this live] keepsD [OF change_lifecycle_keeps moved] readsD [OF device_service_reads(5) got]
  show "device_stays (w_db w) (w_db w')" using devices.R_trans same by auto
qed

lemmas device_guards = devices.guards_bnd devices.guards_on_row guards_if guards_option guards_sum guards_prod
  devices.guards_fail devices.guards_ret devices.guards_transaction

lemma device_service_guards: "guards device_stays (device_service_Create s scope r md)"
  "guards device_stays (device_service_Update scope i u md)"
proof -
  show "guards device_stays (device_service_Create s scope r md)"
    unfolding device_service_Create_def Let_def
    by (intro device_guards device_create_keeps) ((rule devices.guards_reads, auto intro!: reads_intros) | simp add: new_device_def)+
  show "guards device_stays (device_service_Update scope i u md)"
    unfolding device_service_Update_def Let_def
    by (intro device_guards device_update_keeps) (rule devices.guards_reads, auto intro!: reads_intros)+
qed

inductive device_step :: "DeviceService \<Rightarrow> world \<Rightarrow> world \<Rightarrow> bool" for s where
  created: "device_step s w (snd (device_service_Create s scope r md w))"
| updated: "device_step s w (snd (device_service_Update scope i u md w))"
| elsewhere: "tbl_devices (w_db w') = tbl_devices (w_db w) \<Longrightarrow> device_step s w w'"

definition device_run :: "DeviceService \<Rightarrow> world \<Rightarrow> world \<Rightarrow> bool" where
  "device_run s = (device_step s)\<^sup>*\<^sup>*"

lemma device_step_stays: "device_step s w w' \<Longrightarrow> device_stays (w_db w) (w_db w')"
  by (induction rule: device_step.induct)
    (use device_service_guards in \<open>auto simp: guards_def intro: device_stays_cong\<close>)

lemma device_run_stays: "device_run s w w' \<Longrightarrow> device_stays (w_db w) (w_db w')"
  unfolding device_run_def
  by (induction rule: rtranclp_induct) (auto simp: devices.R_refl intro: devices.R_trans device_step_stays)

text \<open>
  C29. However Devices are created and updated, and whether the operations succeed, fail or lose the reply to
  their commit: identifiers and Provider identities stay unique; a Device that exists is never taken away and
  keeps its Project, its type and its Provider binding; a deleted Device is never changed again, so its identity
  is never free for another; and no Device comes online, so that an online_only action stays locked until a
  trusted observation writes the connection status.
\<close>

theorem devices_keep_their_binding:
  assumes "device_run s w w'" and "devices_ok (w_db w)"
  shows "devices_ok (w_db w') \<and> kept same_binding (tbl_devices (w_db w)) (tbl_devices (w_db w')) \<and>
    connections_from (tbl_devices (w_db w)) (tbl_devices (w_db w'))"
  using device_run_stays [OF assms(1)] assms(2) by (simp add: device_stays_def)

definition owner_project :: Project where
  "owner_project =
     \<lparr>prj_ID = ''00000000-0000-4000-8000-00000000000a'', prj_Name = ''Doors'',
      prj_ManagerUserID = ''00000000-0000-4000-8000-000000000001'', prj_WebhookURL = None,
      prj_WebhookConfigVersion = 0, prj_CurrentWebhookSecretVersion = None, prj_APIKeyDigest = [], prj_IPWhitelist = [],
      prj_CreatedAt = 0, prj_UpdatedAt = 0\<rparr>"

definition owner_device :: Device where
  "owner_device =
     \<lparr>dev_ID = ''00000000-0000-4000-8000-00000000000b'', dev_ProjectID = ''00000000-0000-4000-8000-00000000000a'',
      dev_DeviceTypeID = ''t'', dev_DeviceTypeCode = ''smart-lock'', dev_Name = ''Front'', dev_ProviderCode = ProviderCodeOmni,
      dev_ProviderProfile = ProviderProfileOmniBikeV207, dev_ProviderDeviceID = ''123456789012345'',
      dev_AccessType = AccessTypeDirectDevice, dev_TransportProtocol = TransportProtocolTCP,
      dev_Adapter = AdapterOmniDirectTCP, dev_ConnectionStatus = ConnectionStatusUnknown,
      dev_LifecycleStatus = LifecycleStatusActive, dev_CreatedAt = 0, dev_UpdatedAt = 0\<rparr>"

definition owner_db :: db where
  "owner_db = blank_db\<lparr>tbl_projects := [owner_project], tbl_devices := [owner_device]\<rparr>"

definition owner_scope :: Scope where "owner_scope = access_User ''00000000-0000-4000-8000-000000000001''"

definition owner_metadata :: RequestMetadata where
  "owner_metadata =
     \<lparr>rmd_ActorType = ActorTypeUser, rmd_ActorUserID = ''00000000-0000-4000-8000-000000000001'', rmd_ActorID = [],
      rmd_IPAddress = [], rmd_RequestID = ''r''\<rparr>"

definition deletion :: DeviceUpdateRequest where
  "deletion = \<lparr>duq_Name = None, duq_LifecycleStatus = Some ''deleted''\<rparr>"

lemma owner_db_ok: "devices_ok owner_db"
  by (simp add: devices_ok_def owner_db_def)

theorem devices_keep_their_binding_witness:
  "kept same_binding [owner_device] (tbl_devices (w_db (snd (device_service_Update owner_scope (dev_ID owner_device) deletion
     owner_metadata (world_at owner_db 5)))))"
proof -
  let ?w' = "snd (device_service_Update owner_scope (dev_ID owner_device) deletion owner_metadata (world_at owner_db 5))"
  have "device_run (process_devices True True) (world_at owner_db 5) ?w'"
    unfolding device_run_def by (rule r_into_rtranclp) (rule updated)
  from devices_keep_their_binding [OF this] owner_db_ok show ?thesis by (simp add: owner_db_def)
qed

end
