(* ===== verification/Device_Privacy.thy ===== *)
theory Device_Privacy
  imports Device_Binding
begin

text \<open>
  What a User learns of the Devices of Projects that someone else manages: nothing. Every answer is the one the
  service would give if the Device did not exist.
\<close>

definition hidden_from :: "Scope \<Rightarrow> gostr \<Rightarrow> db \<Rightarrow> bool" where
  "hidden_from scope i d \<longleftrightarrow>
     (\<forall>x\<in>set (tbl_devices d). dev_ID x = i \<longrightarrow>
        (\<forall>p\<in>set (tbl_projects d). prj_ID p = dev_ProjectID x \<longrightarrow> prj_ManagerUserID p \<noteq> scp_UserID scope))"

definition without :: "gostr \<Rightarrow> world \<Rightarrow> world" where
  "without i w = w\<lparr>w_db := (w_db w)\<lparr>tbl_devices := filter (\<lambda>x. dev_ID x \<noteq> i) (tbl_devices (w_db w))\<rparr>\<rparr>"

lemma without_simps [simp]:
  "w_faults (without i w) = w_faults w" "tbl_projects (w_db (without i w)) = tbl_projects (w_db w)"
  "tbl_states (w_db (without i w)) = tbl_states (w_db w)" "hidden_from scope i (w_db (without i w))"
  "tbl_devices (w_db (without i w)) = filter (\<lambda>x. dev_ID x \<noteq> i) (tbl_devices (w_db w))"
  by (simp_all add: without_def hidden_from_def)

lemma consume_calm [simp]: "w_faults w = [] \<Longrightarrow> consume w = w"
  by (simp add: consume_def)

lemma query_calm: "w_faults w = [] \<Longrightarrow> query q w = (q (w_now w) (w_db w), w)"
  by (simp add: query_def sql_def split: sum.split)

lemma bnd_lift [simp]: "bnd (lift_result (Inl e)) f w = (Inl e, w)" "bnd (lift_result (Inr x)) f w = f x w"
  by (simp_all add: bnd_def lift_result_def fail_def ret_def)

lemma visible_project_hidden:
  assumes "w_faults w = []" and "scp_Kind scope = ScopeUser"
    and "\<forall>p\<in>set (tbl_projects (w_db w)). prj_ID p = projectID \<longrightarrow> prj_ManagerUserID p \<noteq> scp_UserID scope"
  shows "visible_project scope projectID hidden w = (Inl hidden, w)"
proof (cases "find (\<lambda>p. prj_ID p = projectID) (tbl_projects (w_db w))")
  case (Some p)
  with assms(3) have "prj_ManagerUserID p \<noteq> scp_UserID scope" by (auto dest: find_SomeD)
  with Some assms show ?thesis
    by (simp add: visible_project_def project_Get_def on_row_def query_row_def select_row_def query_calm CanAccessProject_def fail_def)
qed (use assms in \<open>simp add: visible_project_def project_Get_def on_row_def query_row_def select_row_def query_calm fail_def\<close>)

lemma hidden_row:
  assumes "w_faults w = []" and "scp_Kind scope = ScopeUser" and "hidden_from scope i (w_db w)"
  shows "on_row (query_row tbl_devices (\<lambda>t d. dev_ID d = i)) (fail ErrDeviceNotFound)
      (\<lambda>d. bnd (visible_project scope (dev_ProjectID d) ErrDeviceNotFound) (f d)) w = (Inl ErrDeviceNotFound, w)"
proof (cases "find (\<lambda>d. dev_ID d = i) (tbl_devices (w_db w))")
  case (Some d)
  then have "visible_project scope (dev_ProjectID d) ErrDeviceNotFound w = (Inl ErrDeviceNotFound, w)"
    using assms by (intro visible_project_hidden) (auto simp: hidden_from_def dest: find_SomeD)
  with Some assms(1) show ?thesis by (simp add: on_row_def query_row_def select_row_def query_calm bnd_def)
qed (use assms in \<open>simp add: on_row_def query_row_def select_row_def query_calm fail_def\<close>)

lemma hidden_Get:
  assumes "w_faults w = []" and "scp_Kind scope = ScopeUser" and "hidden_from scope i (w_db w)"
  shows "fst (device_service_Get scope i w) =
    (if (case validateScope scope of Inl e \<Rightarrow> True | Inr sc \<Rightarrow> False) \<or> \<not> validUUID i then Inl ErrInvalidRequest
     else Inl ErrDeviceNotFound)"
  using hidden_row [OF assms, of "\<lambda>d u. withState d"] assms(2)
  by (simp add: device_service_Get_def device_Get_def fail_def)

lemma calm_started [simp]: "w_faults (started w) = tl (w_faults w)" "w_db (started w) = w_db w"
  by (simp_all add: started_def consume_def)

lemma hidden_body:
  assumes "w_faults w = []" and "scp_Kind scope = ScopeUser" and "hidden_from scope i (w_db w)"
  shows "device_update_body scope i name lifecycle m w = (Inl ErrDeviceNotFound, w)"
  unfolding device_update_body_def device_GetForUpdate_def by (rule hidden_row [OF assms])

text \<open>The answer of Update to a hidden Device, which depends on the request alone.\<close>

definition hidden_answer :: "Scope \<Rightarrow> gostr \<Rightarrow> DeviceUpdateRequest \<Rightarrow> RequestMetadata \<Rightarrow> goerr" where
  "hidden_answer scope i request metadata =
     (if (case validateScope scope of Inl e \<Rightarrow> True | Inr sc \<Rightarrow> \<not> IsHuman sc) \<or> \<not> validUUID i then ErrInvalidRequest
      else
        (case device_validateMetadata metadata of
           Inl e \<Rightarrow> e
         | Inr m \<Rightarrow>
             (case validateWriteActor scope m of
                Inl e \<Rightarrow> e
              | Inr u \<Rightarrow>
                  if duq_Name request = None \<and> duq_LifecycleStatus request = None then invalid_request ''update has no fields''
                  else
                    (case (case duq_Name request of None \<Rightarrow> Inr None
                           | Some n \<Rightarrow> (case device_normalizeName n of Inl e \<Rightarrow> Inl e | Inr v \<Rightarrow> Inr (Some v))) of
                       Inl e \<Rightarrow> e
                     | Inr name \<Rightarrow>
                         if duq_LifecycleStatus request \<noteq> None \<and> Option.bind (duq_LifecycleStatus request) validLifecycleStatus = None
                         then invalid_request ''lifecycle_status is invalid''
                         else if name \<noteq> None \<and> Option.bind (duq_LifecycleStatus request) validLifecycleStatus = Some LifecycleStatusDeleted
                         then invalid_request ''name and deleted lifecycle cannot be updated together''
                         else ErrDeviceNotFound))))"

lemma refused_then:
  assumes "w_faults w = []" and "fn (started w) = (Inl e, started w)"
  shows "fst (bnd (WithinTransaction fn) f w) = Inl e" and "w_db (snd (bnd (WithinTransaction fn) f w)) = w_db w"
  using assms by (simp_all add: bnd_def WithinTransaction_def Let_def started_def)

lemma hidden_Update:
  assumes "w_faults w = []" and "scp_Kind scope = ScopeUser" and "hidden_from scope i (w_db w)"
  shows "fst (device_service_Update scope i request metadata w) = Inl (hidden_answer scope i request metadata) \<and>
    w_db (snd (device_service_Update scope i request metadata w)) = w_db w"
proof -
  have refused: "device_update_body scope i name lifecycle m (started w) = (Inl ErrDeviceNotFound, started w)" for name lifecycle m
    by (rule hidden_body) (use assms in simp_all)
  have answer: "fst (bnd (WithinTransaction (device_update_body scope i name lifecycle m)) withState w) = Inl ErrDeviceNotFound"
    "w_db (snd (bnd (WithinTransaction (device_update_body scope i name lifecycle m)) withState w)) = w_db w" for name lifecycle m
    by (rule refused_then, rule assms(1), rule refused)+
  show ?thesis
    unfolding device_service_Update_def hidden_answer_def
    by (cases "device_validateMetadata metadata"; cases "validateWriteActor scope (projr (device_validateMetadata metadata))";
        cases "duq_Name request"; cases "device_normalizeName (the (duq_Name request))")
      (simp_all add: fail_def ret_def bnd_def [of "bnd a b" for a b] bnd_def [of "ret a" for a] Let_def answer)
qed

subsection \<open>Lists\<close>

lemma withState_calm:
  assumes "w_faults w = []"
  shows "\<exists>v. withState x w = (Inr v, w) \<and> (\<forall>w2. w_faults w2 = [] \<longrightarrow> tbl_states (w_db w2) = tbl_states (w_db w) \<longrightarrow>
    withState x w2 = (Inr v, w2))"
  using assms
  by (simp add: withState_def device_GetCurrentState_def on_row_def query_calm ret_def split: list.split)

lemma collect_calm:
  assumes "w_faults w = []"
  shows "\<exists>vs. collect withState xs w = (Inr vs, w) \<and> (\<forall>w2. w_faults w2 = [] \<longrightarrow> tbl_states (w_db w2) = tbl_states (w_db w) \<longrightarrow>
    collect withState xs w2 = (Inr vs, w2))"
proof (induction xs)
  case (Cons x xs)
  then obtain vs where "collect withState xs w = (Inr vs, w)"
    "\<forall>w2. w_faults w2 = [] \<longrightarrow> tbl_states (w_db w2) = tbl_states (w_db w) \<longrightarrow> collect withState xs w2 = (Inr vs, w2)" by blast
  moreover obtain v where "withState x w = (Inr v, w)"
    "\<forall>w2. w_faults w2 = [] \<longrightarrow> tbl_states (w_db w2) = tbl_states (w_db w) \<longrightarrow> withState x w2 = (Inr v, w2)"
    using withState_calm [OF assms] by blast
  ultimately show ?case by (simp add: bnd_def ret_def)
qed (simp add: ret_def)

lemma visible_without:
  assumes "w_faults w = []"
  shows "\<exists>r. visible_project scope p e w = (r, w) \<and> visible_project scope p e (without i w) = (r, without i w)"
  using assms
  by (simp add: visible_project_def project_Get_def query_row_def select_row_def on_row_def query_calm ret_def fail_def split: option.split)

lemma listed_without:
  assumes "scp_Kind scope = ScopeUser" and "hidden_from scope i (w_db w)" and "ldr_ManagerUserID r = Some (scp_UserID scope)"
  shows "filter (listed_device r (w_db (without i w))) (tbl_devices (w_db (without i w))) =
    filter (listed_device r (w_db w)) (tbl_devices (w_db w))"
proof -
  have "dev_ID x \<noteq> i" if "listed_device r (w_db w) x" and "x \<in> set (tbl_devices (w_db w))" for x
    using that assms by (auto simp: listed_device_def managed_by_def hidden_from_def list_ex_iff)
  moreover have "listed_device r (w_db (without i w)) x = listed_device r (w_db w) x" for x
    by (simp add: listed_device_def managed_by_def cong: option.case_cong)
  ultimately show ?thesis by (auto simp: intro: filter_cong)
qed

lemma device_List_without:
  assumes "w_faults w = []" and "scp_Kind scope = ScopeUser" and "hidden_from scope i (w_db w)"
    and "ldr_ManagerUserID r = Some (scp_UserID scope)"
  shows "\<exists>res. device_List r w = (res, w) \<and> device_List r (without i w) = (res, without i w)"
  using assms(1) listed_without [OF assms(2-4)]
  by (simp add: device_List_def bnd_def query_calm ret_def fail_def del: without_simps(5))

lemma hidden_List:
  assumes calm: "w_faults w = []" and user: "scp_Kind scope = ScopeUser" and hidden: "hidden_from scope i (w_db w)"
  shows "fst (device_service_List s scope request (without i w)) = fst (device_service_List s scope request w)"
proof (cases "validateScope scope")
  case (Inr sc)
  then have sc: "sc = scope" by (auto simp: validateScope_def split: if_splits)
  show ?thesis
  proof (cases "device_validateListRequest s scope request")
    case valid: (Inr r)
    let ?visible = "case dlq_ProjectID r of None \<Rightarrow> ret () | Some projectID \<Rightarrow>
        if scp_Kind scope = ScopeUser then visible_project scope projectID ErrProjectNotFound else ret ()"
    obtain a where a: "?visible w = (a, w)" "?visible (without i w) = (a, without i w)"
      using visible_without [OF calm, of scope "the (dlq_ProjectID r)" ErrProjectNotFound i]
      by (cases "dlq_ProjectID r") (auto simp: ret_def user)
    let ?q = "\<lparr>ldr_ProjectID = dlq_ProjectID r, ldr_ManagerUserID = scope_ManagerUserID scope,
            ldr_DeviceTypeCode = dlq_DeviceTypeCode r, ldr_ProviderCode = dlq_ProviderCode r,
            ldr_ConnectionStatus = Option.bind (dlq_ConnectionStatus r) validConnectionStatus,
            ldr_LifecycleStatus = Option.bind (dlq_LifecycleStatus r) validLifecycleStatus,
            ldr_Limit = dlq_PageSize r, ldr_Offset = (dlq_Page r - 1) * dlq_PageSize r\<rparr>"
    have "ldr_ManagerUserID ?q = Some (scp_UserID scope)" by (simp add: scope_ManagerUserID_def user)
    from device_List_without [OF calm user hidden this]
    obtain res where res: "device_List ?q w = (res, w)" "device_List ?q (without i w) = (res, without i w)" by blast
    show ?thesis
    proof (cases a)
      case (Inl e)
      with Inr sc valid a show ?thesis by (simp add: device_service_List_def bnd_def [of ?visible])
    next
      case visible: (Inr u)
      show ?thesis
      proof (cases res)
        case (Inl e)
        with Inr sc valid a visible res show ?thesis
          by (simp add: device_service_List_def bnd_def [of ?visible] bnd_def [of "device_List ?q"])
      next
        case listed: (Inr page)
        obtain items total where page: "page = (items, total)" by (cases page)
        obtain vs where "collect withState items w = (Inr vs, w)"
          "collect withState items (without i w) = (Inr vs, without i w)"
          using collect_calm [OF calm, of items] calm by fastforce
        with Inr sc valid a visible res listed page show ?thesis
          by (simp add: device_service_List_def bnd_def [of ?visible] bnd_def [of "device_List ?q"]
              bnd_def [of "collect withState items"] ret_def)
      qed
    qed
  qed (use Inr sc in \<open>simp add: device_service_List_def\<close>)
qed (simp add: device_service_List_def)

text \<open>
  C30. A User cannot tell a Device of a Project that someone else manages from one that does not exist: as long as
  the database answers, Get, Update and List give exactly the answer they would give if the Device were not
  there, and Update changes nothing.
\<close>

theorem foreign_device_is_hidden:
  assumes "w_faults w = []" and "scp_Kind scope = ScopeUser" and "hidden_from scope i (w_db w)"
  shows "fst (device_service_Get scope i w) = fst (device_service_Get scope i (without i w)) \<and>
    fst (device_service_Update scope i request metadata w) = fst (device_service_Update scope i request metadata (without i w)) \<and>
    fst (device_service_List s scope listing w) = fst (device_service_List s scope listing (without i w)) \<and>
    w_db (snd (device_service_Update scope i request metadata w)) = w_db w"
  using hidden_Get [OF assms] hidden_Get [of "without i w", OF _ assms(2)] hidden_Update [OF assms, of request metadata]
    hidden_Update [of "without i w", OF _ assms(2), of i request metadata] hidden_List [OF assms, of s listing] assms(1)
  by simp

definition stranger_scope :: Scope where "stranger_scope = access_User ''00000000-0000-4000-8000-000000000002''"

definition stranger_metadata :: RequestMetadata where
  "stranger_metadata = owner_metadata\<lparr>rmd_ActorUserID := ''00000000-0000-4000-8000-000000000002''\<rparr>"

theorem foreign_device_is_hidden_witness:
  "w_db (snd (device_service_Update stranger_scope (dev_ID owner_device) deletion stranger_metadata (world_at owner_db 5))) = owner_db \<and>
   fst (device_service_Get stranger_scope (dev_ID owner_device) (world_at owner_db 5)) =
   fst (device_service_Get stranger_scope (dev_ID owner_device) (without (dev_ID owner_device) (world_at owner_db 5)))"
proof -
  have "scp_Kind stranger_scope = ScopeUser" by (simp add: stranger_scope_def access_User_def)
  moreover have "hidden_from stranger_scope (dev_ID owner_device) (w_db (world_at owner_db 5))"
    by code_simp
  ultimately show ?thesis
    using foreign_device_is_hidden [of "world_at owner_db 5" stranger_scope "dev_ID owner_device"] by simp
qed

end
