(* ===== verification/Spec2Isabelle.thy ===== *)
theory Spec2Isabelle
  imports Omni_Listener Command_Evidence Webhook_Answer Egress_Safety Provider_Contract Tenancy_Safety Device_Privacy
begin

text \<open>
  \<^bold>\<open>Verification of the device platform backend\<close> (Go, \<open>src/backend\<close>).

  \<^bold>\<open>The program.\<close> Users own Projects, Projects own Devices, and a Device is bound to a Provider. A
  caller (a User of the console, or a Project with its API key) creates a Command for a Device; the
  Command worker claims it, hands it to the Provider's adapter outside every transaction and records
  what is known of its fate; the Device reports results; each change of a Command is an Event in an
  append-only log, and each Event becomes a signed webhook Delivery to the Project. All state that
  must survive is in PostgreSQL, and several processes run the same code against it: what they
  promise each other rests on row locks, leases with tokens, unique indexes and transactions. One
  Provider, Omni, is a pair of TCP listeners in the process itself.

  \<^bold>\<open>How it is modelled.\<close>
  A call of the program is a function of the \<open>world\<close> (theory \<open>Store\<close>): the tables, the transaction's
  \<open>now()\<close>, the process clock and the ticks it will make, the random bytes that will be drawn, the bytes put
  on the network, and a schedule of faults, one entry for each statement, begin and commit. It returns a Go
  error or a value, and the world afterwards. A theorem about every world is thus a theorem about every
  pattern of driver failures, a lost reply to a commit included, and about every clock and random source.
  A transaction (\<open>WithinTransaction\<close>) is all or nothing; the row locks make transactions serial, so
  concurrency is the interleaving of transactions and of the calls between them, given by the inductive
  step relations \<open>platform_step\<close>, \<open>webhook_step\<close>, \<open>tenant_step\<close>, \<open>device_step\<close> and, for the TCP
  connections, \<open>host_step\<close>. The unique indexes of all tables and the CHECK constraints on Users, Commands,
  Attempts, results and Deliveries are part of the statements, as are those on a Device's binding and the
  foreign keys of Commands, Attempts and results (migrations 001 to 010); other constraints are faults of
  the schedule.

  \<^bold>\<open>Theories and sources\<close> (paths under \<open>src/backend/\<close>):

  \<^item> Foundations. \<open>Prelude\<close> (Go's strings, UTF-8, durations, random identifiers; lemmas on tables), \<open>Json\<close>
    (values and \<open>json.Marshal\<close>), \<open>Netip\<close>, \<open>Neturl\<close>, \<open>Digest\<close> (SHA-256, HMAC), \<open>Aead\<close> (AES-256-GCM,
    base64) are what the program uses of Go's library. \<open>Domain\<close> is \<open>internal/domain\<close>. \<open>Sample_World\<close>
    holds the small worlds of the witnesses.
  \<^item> Persistence, \<open>internal/storage/repository\<close>. \<open>Store\<close> is the boundary, with the locale \<open>db_relation\<close>: a
    reflexive and transitive relation on tables that statements keep is kept by what is composed of them.
    \<open>Command_Repo\<close> and \<open>Record_Repo\<close> are \<open>postgres_command_event.go\<close>, \<open>Device_Repo\<close> is
    \<open>postgres_project_device.go\<close>, \<open>Webhook_Repo\<close> and the first part of \<open>Simulator\<close> are
    \<open>postgres_webhook_simulator.go\<close>, the first part of \<open>User_Service\<close> is \<open>postgres_user.go\<close>.
  \<^item> Commands. \<open>Provider_Adapter\<close> is \<open>internal/provideradapter\<close>, \<open>Command_Worker\<close> \<open>internal/commandworker\<close>,
    \<open>Command_Result\<close> \<open>internal/commandresultservice\<close>, \<open>Access\<close> \<open>internal/access\<close>, \<open>Command_Service\<close>
    \<open>internal/commandservice\<close>. \<open>Command_Life\<close> is the abstract machine of one Command and its Attempts;
    \<open>Command_Effect\<close> and \<open>Command_Refine\<close> show that every transaction is a step of it; \<open>Command_Platform\<close>
    composes all processes (locale \<open>platform_relation\<close>) and \<open>Command_Statements\<close> lifts relations that hold
    statement by statement (locale \<open>statement_relation\<close>), with which \<open>Command_Outbox\<close> follows the Event log.
    \<open>Command_Progress\<close> and \<open>Command_Create\<close> show what succeeds when the driver answers; \<open>Command_Safety\<close> and
    \<open>Command_Evidence\<close> hold the properties.
  \<^item> Providers. \<open>Omni_Codec\<close>, \<open>Omni_Decoder\<close>, \<open>Omni_Session\<close>, \<open>Omni_Adapter\<close>, \<open>Omni_Inbound\<close> and
    \<open>Omni_Listener\<close> are the files of \<open>internal/directdevice/omni\<close>; \<open>Simulator\<close> is \<open>internal/simulator\<close>;
    \<open>Provider_Contract\<close> states what the worker needs of an adapter as a locale and interprets it for both.
  \<^item> Webhooks. \<open>Webhook_Egress\<close> and \<open>Webhook_Worker\<close> are \<open>internal/webhookworker\<close>; \<open>Webhook_Life\<close> is the
    abstract machine of one Delivery, \<open>Webhook_Safety\<close>, \<open>Webhook_Answer\<close> and \<open>Egress_Safety\<close> hold the
    properties.
  \<^item> Tenancy. \<open>User_Service\<close> is \<open>internal/userservice\<close>, \<open>Project_Service\<close> \<open>internal/projectservice\<close>;
    \<open>Tenancy\<close> says what their operations keep and \<open>Tenancy_Safety\<close> what follows over time.
  \<^item> Devices. \<open>Device_Service\<close> is \<open>internal/deviceservice\<close> with the Providers of \<open>cmd/server/app.go\<close>;
    \<open>Device_Binding\<close> says how a Device may change and \<open>Device_Privacy\<close> what a stranger learns of it.

  \<^bold>\<open>What is shown.\<close> A Command is dispatched at most once and only after its dispatch was committed, never has
  two Attempts, moves only along its life cycle, is announced by an Event in the same transaction, is created
  once per idempotency key, and a reported result is counted once; a worker that lost its lease changes
  nothing; what is due is done when the driver answers. Frames reach the Device they are for, are parsed
  exactly when well formed, in bounded memory, and are attributed only to the Device that may send them. A
  Delivery keeps its accounts and its retry budget, is recorded as what its endpoint answered to the signed
  request, and is sent only to addresses the egress policy admits. A
  manager is always an active User, a session does not outlive its account, rotated credentials work and
  replaced ones do not, a stored webhook secret decrypts to what was issued. A Device keeps its binding, and
  a Device of someone else's Project is indistinguishable from none.

  \<^bold>\<open>Bounds and fuel.\<close> The retries of the code are recursions on their counters (\<open>updateAttempts\<close> is 8,
  \<open>transferAttempts\<close> 4), so they end as the loops do. \<open>ClaimNext\<close> and the listings read one page. The loop of
  \<open>Registry.WriteUnique\<close> recurses on the bytes left to write, which every round that goes on decreases
  (\<open>write_loop_calls\<close>). The decoder and the parsers recurse on their input. Nothing else needs fuel.

  \<^bold>\<open>Parameters\<close>, for what is outside the repository: the bcrypt hash of a password, the resolver and dialer
  below the egress policy, the HTTP exchange of a webhook, the wait of a simulated dispatch, the writers of
  sockets and the state they depend on, and the adapters of a worker.

  \<^bold>\<open>Not modelled.\<close>
  \<^item> \<open>internal/httpapi\<close>, \<open>internal/httpjson\<close>, \<open>internal/api\<close>: routing, request decoding and rendering; the
    services they call are modelled with the values they pass.
  \<^item> \<open>cmd/server\<close>, \<open>cmd/migrate\<close>: wiring, configuration, setup and the login of the console
    (except \<open>deviceServiceConfig\<close>); the migrations are reflected in the constraints.
  \<^item> \<open>internal/cloudapi/wwtiot\<close> (an HTTP client of a vendor cloud; its identity rule is in \<open>Device_Service\<close>)
    and \<open>internal/gateway\<close>.
  \<^item> \<open>internal/webhookaudit\<close> (read-side views; \<open>CreateReplay\<close>, on which its one write rests, is modelled) and
    \<open>internal/devicecore\<close> (the earlier in-memory core, not used by the PostgreSQL server).
  \<^item> The timer loops (\<open>Run\<close>) and shutdown of the workers and listeners, logging, contexts beyond what is said
    above, and \<open>strings.ToLower\<close> where it maps to letters outside ASCII.
\<close>

end
